(* ===== verification/Prelude.thy ===== *)
theory Prelude
  imports Main "HOL-Library.Word"
begin

text \<open>
  Shared vocabulary of the development: the machine integer types of the translator's C++
  code, the faults that end a translation, byte-addressed little-endian memory, and the lemmas on
  words and memory that the component theories use. The collections \<open>bitfield_simps\<close> (bit fields
  of an instruction word), \<open>mem_simps\<close> (loads over stores) and \<open>gen_defs\<close> (unfolding
  of code generators) carry most component proofs.
\<close>

unbundle bit_operations_syntax

named_theorems bitfield_simps \<open>extraction of bit fields from packed words\<close>
named_theorems mem_simps \<open>loads over stores\<close>
named_theorems gen_defs \<open>definitions of the code generators\<close>

type_synonym u8 = "8 word"
type_synonym u16 = "16 word"
type_synonym u32 = "32 word"
type_synonym u64 = "64 word"

section \<open>Faults\<close>

text \<open>
  The calls of \<^verbatim>\<open>dispatcher::Dispatcher::fault_exit\<close> and the exceptions of the modelled code, one
  constructor per message.
\<close>

datatype fault =
    Virtual_segmentation_fault
  | Find_must_have_failed
  | Failed_to_decode
  | Unsupported_instruction_used
  | Invalid_addressing_size
  | Invalid_operand_size
  | Invalid_register_size
  | Unsupported_execute_operation
  | Repeat_prefix_address_size
  | Batch_overflow
  | Memory_overflow
  | Offset_unsupported
  | Jump_inside_instruction
  | Non_consecutive_instruction
  | Instruction_list_full
  | Offset_list_full
  | Unsupported_syscall u64
  | Divide_exception
  | Undefined_behaviour

text \<open>A computation that continues unless a fault has ended it.\<close>

definition and_then :: "'e + 'a \<Rightarrow> ('a \<Rightarrow> 'e + 'b) \<Rightarrow> 'e + 'b" where
  "and_then r f = (case r of Inl e \<Rightarrow> Inl e | Inr v \<Rightarrow> f v)"

lemma and_then_simps [simp]: "and_then (Inl e) f = Inl e" "and_then (Inr v) f = f v"
  by (simp_all add: and_then_def)

lemma and_then_Inr: "and_then r f = Inr w \<longleftrightarrow> (\<exists>v. r = Inr v \<and> f v = Inr w)"
  by (cases r) simp_all

section \<open>Bit fields of 32-bit words\<close>

text \<open>
  A C bit field \<^verbatim>\<open>uint32_t x : w\<close> at bit \<open>off\<close> of a 32-bit union: \<open>put_field off\<close> places a
  \<open>w\<close>-bit value there, \<open>get_field off\<close> reads it back.
\<close>

definition put_field :: "nat \<Rightarrow> 'w::len word \<Rightarrow> u32" where
  "put_field off v = push_bit off (ucast v)"

definition get_field :: "nat \<Rightarrow> u32 \<Rightarrow> 'w::len word" where
  "get_field off w = ucast (drop_bit off w)"

lemma bit_put_field [bit_simps]:
  "bit (put_field off (v :: 'w::len word)) n \<longleftrightarrow> n < 32 \<and> off \<le> n \<and> bit v (n - off)"
  by (auto simp: put_field_def bit_simps dest: bit_imp_le_length)

lemma bit_get_field [bit_simps]:
  "bit (get_field off w :: 'w::len word) n \<longleftrightarrow> n < LENGTH('w) \<and> bit w (off + n)"
  by (auto simp: get_field_def bit_simps)

lemma get_put_same [bitfield_simps]:
  "off + LENGTH('w) \<le> 32 \<Longrightarrow> get_field off (put_field off (v :: 'w::len word)) = v"
  by (rule bit_word_eqI) (auto simp: bit_simps)

lemma get_put_below [bitfield_simps]:
  "off' + LENGTH('v) \<le> off \<Longrightarrow> get_field off (put_field off' (v :: 'v::len word)) = (0 :: 'w::len word)"
  by (rule bit_word_eqI) (auto simp: bit_simps dest: bit_imp_le_length)

lemma get_put_above [bitfield_simps]:
  "off + LENGTH('w) \<le> off' \<Longrightarrow> get_field off (put_field off' (v :: 'v::len word)) = (0 :: 'w::len word)"
  by (rule bit_word_eqI) (auto simp: bit_simps)

lemma get_field_or [bitfield_simps]:
  "get_field off (v OR w) = get_field off v OR get_field off w"
  by (rule bit_word_eqI) (auto simp: bit_simps)

section \<open>Words\<close>

lemma take_bit_64 [simp]: "take_bit 64 (v :: u64) = v"
  by (simp add: take_bit_word_eq_self)

lemma take_bit_self_iff: "take_bit n w = w \<longleftrightarrow> w < 2 ^ n" if "n < LENGTH('w)" for w :: "'w::len word"
proof
  have pos: "(0 :: 'w word) < 2 ^ n"
    using that by (simp add: word_gt_0)
  show "take_bit n w = w \<Longrightarrow> w < 2 ^ n"
    using word_mod_less_divisor [OF pos, of w] by (simp add: take_bit_eq_mod)
  show "w < 2 ^ n \<Longrightarrow> take_bit n w = w"
    by (simp add: take_bit_eq_mod mod_word_less)
qed

text \<open>
  \<^verbatim>\<open>utils/types.h\<close>: rounding up to pages. The mask is the complement of a 32-bit constant, and as
  such widened with zeros.
\<close>

definition page_align :: "u64 \<Rightarrow> u64" where
  "page_align address = (address + 0xfff) AND ucast (NOT (0xfff :: u32))"

section \<open>Numbers as text\<close>

text \<open>What the standard library prints for a number, in hexadecimal and in decimal.\<close>

definition digit_char :: "nat \<Rightarrow> char" where "digit_char d = ''0123456789abcdef'' ! d"

fun print_digits :: "nat \<Rightarrow> nat \<Rightarrow> string" where
  "print_digits b n = (if b < 2 \<or> n < b then [digit_char n] else print_digits b (n div b) @ [digit_char (n mod b)])"

declare print_digits.simps [simp del]

definition decimal :: "nat \<Rightarrow> string" where "decimal = print_digits 10"
definition hexadecimal :: "nat \<Rightarrow> string" where "hexadecimal = print_digits 16"

definition decimal_int :: "int \<Rightarrow> string" where
  "decimal_int i = (if i < 0 then ''-'' @ decimal (nat (- i)) else decimal (nat i))"

section \<open>Little-endian memory\<close>

type_synonym memory = "u64 \<Rightarrow> u8"

primrec mload :: "nat \<Rightarrow> memory \<Rightarrow> u64 \<Rightarrow> u64" where
  "mload 0 m a = 0"
| "mload (Suc n) m a = ucast (m a) OR push_bit 8 (mload n m (a + 1))"

primrec mstore :: "nat \<Rightarrow> memory \<Rightarrow> u64 \<Rightarrow> u64 \<Rightarrow> memory" where
  "mstore 0 m a v = m"
| "mstore (Suc n) m a v = (mstore n m (a + 1) (drop_bit 8 v))(a := ucast v)"

lemma mstore_apply:
  "mstore n m a v x =
     (if unat (x - a) < n then ucast (drop_bit (8 * unat (x - a)) v) else m x)"
proof (induction n arbitrary: a v)
  case 0
  then show ?case by simp
next
  case (Suc n)
  show ?case
  proof (cases "x = a")
    case True
    then show ?thesis by simp
  next
    case False
    then have nz: "x - a \<noteq> 0" by simp
    have "x - (a + 1) = (x - a) - 1" by (simp only: diff_diff_eq)
    then have u: "unat (x - (a + 1)) = unat (x - a) - 1"
      using unat_minus_one [OF nz] by metis
    have pos: "0 < unat (x - a)"
      using nz by (simp add: unat_gt_0)
    have "8 * unat (x - a) = 8 * (unat (x - a) - 1) + 8"
      using pos by simp
    then have "drop_bit (8 * (unat (x - a) - 1)) (drop_bit 8 v) = drop_bit (8 * unat (x - a)) v"
      by (simp add: add.commute)
    moreover have "(unat (x - a) - 1 < n) = (unat (x - a) < Suc n)"
      using pos by arith
    ultimately show ?thesis
      using False by (simp only: mstore.simps fun_upd_apply Suc.IH u if_False)
  qed
qed

lemma bit_mload:
  "bit (mload n m a) i \<longleftrightarrow>
     i < 8 * n \<and> i < 64 \<and> bit (m (a + of_nat (i div 8))) (i mod 8)"
proof (induction n arbitrary: a i)
  case 0
  then show ?case by simp
next
  case (Suc n)
  show ?case
  proof (cases "i < 8")
    case True
    then show ?thesis by (auto simp: bit_simps)
  next
    case False
    then have d: "i div 8 = Suc ((i - 8) div 8)" and md: "(i - 8) mod 8 = i mod 8"
      by (simp_all add: div_if mod_if)
    have "bit (m a) i = False"
      using False by (auto dest: bit_imp_le_length)
    then have "bit (mload (Suc n) m a) i \<longleftrightarrow> i < 64 \<and> bit (mload n m (a + 1)) (i - 8)"
      using False by (auto simp: bit_simps)
    also have "\<dots> \<longleftrightarrow> i < 8 * Suc n \<and> i < 64 \<and> bit (m (a + of_nat (i div 8))) (i mod 8)"
      using False by (auto simp: Suc.IH d md add.assoc)
    finally show ?thesis .
  qed
qed

text \<open>
  A load sees a store at the same address: all of it when the store is at least as wide, and the
  untouched upper bytes of the old contents when it is narrower. Two ranges that do not overlap,
  judged by their distance modulo \<open>2 ^ 64\<close>, do not interfere.
\<close>

lemma unat_of_nat_less8: "i < 64 \<Longrightarrow> unat (of_nat (i div 8) :: u64) = i div 8"
  by (simp add: unat_of_nat take_bit_nat_eq_self)

lemma mload_mstore_same [mem_simps]:
  assumes "k \<le> n"
  shows "mload k (mstore n m a v) a = take_bit (8 * k) v"
proof (rule bit_word_eqI)
  fix i assume "i < LENGTH(64)"
  then have i: "i < 64" by simp
  have "i < 8 * k \<Longrightarrow> i div 8 < n"
    using assms by (simp add: less_mult_imp_div_less mult.commute order_less_le_trans)
  moreover have "8 * (i div 8) + i mod 8 = i"
    by simp
  ultimately show "bit (mload k (mstore n m a v) a) i = bit (take_bit (8 * k) v) i"
    using i by (auto simp: bit_mload mstore_apply unat_of_nat_less8 bit_simps)
qed

lemma mload_mstore_narrow [mem_simps]:
  assumes "n < k"
  shows "mload k (mstore n m a v) a = (mload k m a AND NOT (mask (8 * n))) OR take_bit (8 * n) v"
proof (rule bit_word_eqI)
  fix i assume "i < LENGTH(64)"
  then have i: "i < 64" by simp
  have "(i div 8 < n) = (i < 8 * n)"
    by (simp add: div_less_iff_less_mult mult.commute)
  moreover have "8 * (i div 8) + i mod 8 = i"
    by simp
  ultimately show "bit (mload k (mstore n m a v) a) i =
      bit ((mload k m a AND NOT (mask (8 * n))) OR take_bit (8 * n) v) i"
    using i assms by (auto simp: bit_mload mstore_apply unat_of_nat_less8 bit_simps)
qed

lemma mload_mstore_disjoint [mem_simps]:
  assumes "n \<le> unat (b - a)" "k \<le> unat (a - b)"
  shows "mload k (mstore n m a v) b = mload k m b"
proof (rule bit_word_eqI)
  fix i assume "i < LENGTH(64)"
  then have i: "i < 64" by simp
  show "bit (mload k (mstore n m a v) b) i = bit (mload k m b) i"
  proof (cases "i < 8 * k \<and> b \<noteq> a")
    case True
    let ?d = "b - a"
    have "unat (a - b) = 2 ^ 64 - unat ?d"
    proof -
      have "unat a \<noteq> unat b"
        using True by (simp add: word_unat_eq_iff)
      then show ?thesis
        using unsigned_less [of a, where 'a = nat] unsigned_less [of b, where 'a = nat]
        by (cases "unat b \<le> unat a") (simp_all add: unat_sub_if')
    qed
    moreover have "i div 8 < k"
      using True by (simp add: less_mult_imp_div_less mult.commute)
    ultimately have "unat ?d + i div 8 < 2 ^ 64"
      using assms(2) by linarith
    then have "unat (?d + of_nat (i div 8)) = unat ?d + i div 8"
      using i by (subst unat_add_lem [THEN iffD1]) (simp_all add: unat_of_nat_less8)
    moreover have "b + of_nat (i div 8) - a = ?d + of_nat (i div 8)"
      by simp
    ultimately show ?thesis
      using assms(1) by (simp only: bit_mload mstore_apply) simp
  next
    case False
    then show ?thesis
      using assms by (auto simp: bit_mload)
  qed
qed

lemma take_bit_mload [mem_simps]:
  "8 * n \<le> k \<Longrightarrow> take_bit k (mload n m a) = mload n m a"
  by (rule bit_word_eqI) (auto simp: bit_simps bit_mload)

end
