(* ===== verification/Encoding.thy ===== *)
theory Encoding
  imports Prelude
begin

text \<open>
  The RISC-V assembler of \<^verbatim>\<open>codegen/encoding/encoding.{h,cpp}\<close>: the register enumerations, the
  instruction formats (bit-field unions over a 32-bit word) and one encoder per instruction, in the
  order of the source. \<open>AND'\<close>, \<open>OR'\<close>, \<open>XOR'\<close> and \<open>NOT'\<close> are primed because the plain names are
  the word operators. A C++ enumeration value cast from an integer keeps that integer; the formats
  store five bits of it, which is all \<open>reg_of\<close> and \<open>freg_of\<close> keep.
\<close>

named_theorems encoder_defs \<open>the encoders\<close>

section \<open>Registers\<close>

datatype RiscVRegister =
    zero | ra | sp | gp | tp | t0 | t1 | t2
  | s0 | s1 | a0 | a1 | a2 | a3 | a4 | a5
  | a6 | a7 | s2 | s3 | s4 | s5 | s6 | s7
  | s8 | s9 | s10 | s11 | t3 | t4 | t5 | t6

datatype RiscVFloatingRegister =
    f0 | f1 | f2 | f3 | f4 | f5 | f6 | f7
  | f8 | f9 | f10 | f11 | f12 | f13 | f14 | f15
  | f16 | f17 | f18 | f19 | f20 | f21 | f22 | f23
  | f24 | f25 | f26 | f27 | f28 | f29 | f30 | f31
  | fcsr

primrec reg_num :: "RiscVRegister \<Rightarrow> u8" where
  "reg_num zero = 0"
| "reg_num ra = 1"
| "reg_num sp = 2"
| "reg_num gp = 3"
| "reg_num tp = 4"
| "reg_num t0 = 5"
| "reg_num t1 = 6"
| "reg_num t2 = 7"
| "reg_num s0 = 8"
| "reg_num s1 = 9"
| "reg_num a0 = 10"
| "reg_num a1 = 11"
| "reg_num a2 = 12"
| "reg_num a3 = 13"
| "reg_num a4 = 14"
| "reg_num a5 = 15"
| "reg_num a6 = 16"
| "reg_num a7 = 17"
| "reg_num s2 = 18"
| "reg_num s3 = 19"
| "reg_num s4 = 20"
| "reg_num s5 = 21"
| "reg_num s6 = 22"
| "reg_num s7 = 23"
| "reg_num s8 = 24"
| "reg_num s9 = 25"
| "reg_num s10 = 26"
| "reg_num s11 = 27"
| "reg_num t3 = 28"
| "reg_num t4 = 29"
| "reg_num t5 = 30"
| "reg_num t6 = 31"

primrec freg_num :: "RiscVFloatingRegister \<Rightarrow> u8" where
  "freg_num f0 = 0"
| "freg_num f1 = 1"
| "freg_num f2 = 2"
| "freg_num f3 = 3"
| "freg_num f4 = 4"
| "freg_num f5 = 5"
| "freg_num f6 = 6"
| "freg_num f7 = 7"
| "freg_num f8 = 8"
| "freg_num f9 = 9"
| "freg_num f10 = 10"
| "freg_num f11 = 11"
| "freg_num f12 = 12"
| "freg_num f13 = 13"
| "freg_num f14 = 14"
| "freg_num f15 = 15"
| "freg_num f16 = 16"
| "freg_num f17 = 17"
| "freg_num f18 = 18"
| "freg_num f19 = 19"
| "freg_num f20 = 20"
| "freg_num f21 = 21"
| "freg_num f22 = 22"
| "freg_num f23 = 23"
| "freg_num f24 = 24"
| "freg_num f25 = 25"
| "freg_num f26 = 26"
| "freg_num f27 = 27"
| "freg_num f28 = 28"
| "freg_num f29 = 29"
| "freg_num f30 = 30"
| "freg_num f31 = 31"
| "freg_num fcsr = 32"

definition reg_list :: "RiscVRegister list" where
  "reg_list =
    [zero, ra, sp, gp, tp, t0, t1, t2,
     s0, s1, a0, a1, a2, a3, a4, a5,
     a6, a7, s2, s3, s4, s5, s6, s7,
     s8, s9, s10, s11, t3, t4, t5, t6]"

definition freg_list :: "RiscVFloatingRegister list" where
  "freg_list =
    [f0, f1, f2, f3, f4, f5, f6, f7,
     f8, f9, f10, f11, f12, f13, f14, f15,
     f16, f17, f18, f19, f20, f21, f22, f23,
     f24, f25, f26, f27, f28, f29, f30, f31]"

definition reg_of :: "u8 \<Rightarrow> RiscVRegister" where
  "reg_of v = reg_list ! (unat v mod 32)"

definition freg_of :: "u8 \<Rightarrow> RiscVFloatingRegister" where
  "freg_of v = freg_list ! (unat v mod 32)"

lemma reg_of_reg_num [simp]: "reg_of (reg_num r) = r"
  by (cases r) (simp_all add: reg_of_def reg_list_def)

lemma reg_num_inject [simp]: "reg_num r = reg_num r' \<longleftrightarrow> r = r'"
  by (metis reg_of_reg_num)

lemma reg_of_ucast_num [simp]: "reg_of (ucast (ucast (reg_num r) :: 5 word)) = r"
  by (cases r) (simp_all add: reg_of_def reg_list_def)

lemma freg_of_ucast_num [simp]:
  "f \<noteq> fcsr \<Longrightarrow> freg_of (ucast (ucast (freg_num f) :: 5 word)) = f"
  by (cases f) (simp_all add: freg_of_def freg_list_def)

text \<open>The registers are ordered by their numbers, as the enumeration is.\<close>

instantiation RiscVRegister :: linorder
begin

definition less_eq_RiscVRegister :: "RiscVRegister \<Rightarrow> RiscVRegister \<Rightarrow> bool" where
  "less_eq_RiscVRegister r r' \<longleftrightarrow> reg_num r \<le> reg_num r'"

definition less_RiscVRegister :: "RiscVRegister \<Rightarrow> RiscVRegister \<Rightarrow> bool" where
  "less_RiscVRegister r r' \<longleftrightarrow> reg_num r < reg_num r'"

instance
  by standard (auto simp: less_eq_RiscVRegister_def less_RiscVRegister_def less_le)

end

section \<open>Instruction formats\<close>

text \<open>
  Each format is the record of its bit fields, each as wide as the field, with the word the union
  overlays on them.
\<close>

record RType =
  r_opcode :: "7 word"
  r_rd :: "5 word"
  r_funct3 :: "3 word"
  r_rs1 :: "5 word"
  r_rs2 :: "5 word"
  r_funct7 :: "7 word"

definition RType_raw :: "RType \<Rightarrow> u32" where
  "RType_raw f = put_field 0 (r_opcode f) OR
    put_field 7 (r_rd f) OR
    put_field 12 (r_funct3 f) OR
    put_field 15 (r_rs1 f) OR
    put_field 20 (r_rs2 f) OR
    put_field 25 (r_funct7 f)"

definition RType_of_raw :: "u32 \<Rightarrow> RType" where
  "RType_of_raw w = \<lparr>r_opcode = get_field 0 w,
    r_rd = get_field 7 w,
    r_funct3 = get_field 12 w,
    r_rs1 = get_field 15 w,
    r_rs2 = get_field 20 w,
    r_funct7 = get_field 25 w\<rparr>"

lemma RType_of_raw_raw [bitfield_simps]: "RType_of_raw (RType_raw f) = f"
  by (simp add: RType_of_raw_def RType_raw_def bitfield_simps)

record IType =
  i_opcode :: "7 word"
  i_rd :: "5 word"
  i_funct3 :: "3 word"
  i_rs1 :: "5 word"
  i_imm :: "12 word"

definition IType_raw :: "IType \<Rightarrow> u32" where
  "IType_raw f = put_field 0 (i_opcode f) OR
    put_field 7 (i_rd f) OR
    put_field 12 (i_funct3 f) OR
    put_field 15 (i_rs1 f) OR
    put_field 20 (i_imm f)"

definition IType_of_raw :: "u32 \<Rightarrow> IType" where
  "IType_of_raw w = \<lparr>i_opcode = get_field 0 w,
    i_rd = get_field 7 w,
    i_funct3 = get_field 12 w,
    i_rs1 = get_field 15 w,
    i_imm = get_field 20 w\<rparr>"

lemma IType_of_raw_raw [bitfield_simps]: "IType_of_raw (IType_raw f) = f"
  by (simp add: IType_of_raw_def IType_raw_def bitfield_simps)

record SType =
  s_opcode :: "7 word"
  s_immlow :: "5 word"
  s_funct3 :: "3 word"
  s_rs1 :: "5 word"
  s_rs2 :: "5 word"
  s_immhigh :: "7 word"

definition SType_raw :: "SType \<Rightarrow> u32" where
  "SType_raw f = put_field 0 (s_opcode f) OR
    put_field 7 (s_immlow f) OR
    put_field 12 (s_funct3 f) OR
    put_field 15 (s_rs1 f) OR
    put_field 20 (s_rs2 f) OR
    put_field 25 (s_immhigh f)"

definition SType_of_raw :: "u32 \<Rightarrow> SType" where
  "SType_of_raw w = \<lparr>s_opcode = get_field 0 w,
    s_immlow = get_field 7 w,
    s_funct3 = get_field 12 w,
    s_rs1 = get_field 15 w,
    s_rs2 = get_field 20 w,
    s_immhigh = get_field 25 w\<rparr>"

lemma SType_of_raw_raw [bitfield_simps]: "SType_of_raw (SType_raw f) = f"
  by (simp add: SType_of_raw_def SType_raw_def bitfield_simps)

record UType =
  u_opcode :: "7 word"
  u_rd :: "5 word"
  u_imm :: "20 word"

definition UType_raw :: "UType \<Rightarrow> u32" where
  "UType_raw f = put_field 0 (u_opcode f) OR
    put_field 7 (u_rd f) OR
    put_field 12 (u_imm f)"

definition UType_of_raw :: "u32 \<Rightarrow> UType" where
  "UType_of_raw w = \<lparr>u_opcode = get_field 0 w,
    u_rd = get_field 7 w,
    u_imm = get_field 12 w\<rparr>"

lemma UType_of_raw_raw [bitfield_simps]: "UType_of_raw (UType_raw f) = f"
  by (simp add: UType_of_raw_def UType_raw_def bitfield_simps)

record BType =
  b_opcode :: "7 word"
  b_imm_11 :: "1 word"
  b_imm_4_1 :: "4 word"
  b_funct3 :: "3 word"
  b_rs1 :: "5 word"
  b_rs2 :: "5 word"
  b_imm_10_5 :: "6 word"
  b_imm_12 :: "1 word"

definition BType_raw :: "BType \<Rightarrow> u32" where
  "BType_raw f = put_field 0 (b_opcode f) OR
    put_field 7 (b_imm_11 f) OR
    put_field 8 (b_imm_4_1 f) OR
    put_field 12 (b_funct3 f) OR
    put_field 15 (b_rs1 f) OR
    put_field 20 (b_rs2 f) OR
    put_field 25 (b_imm_10_5 f) OR
    put_field 31 (b_imm_12 f)"

definition BType_of_raw :: "u32 \<Rightarrow> BType" where
  "BType_of_raw w = \<lparr>b_opcode = get_field 0 w,
    b_imm_11 = get_field 7 w,
    b_imm_4_1 = get_field 8 w,
    b_funct3 = get_field 12 w,
    b_rs1 = get_field 15 w,
    b_rs2 = get_field 20 w,
    b_imm_10_5 = get_field 25 w,
    b_imm_12 = get_field 31 w\<rparr>"

lemma BType_of_raw_raw [bitfield_simps]: "BType_of_raw (BType_raw f) = f"
  by (simp add: BType_of_raw_def BType_raw_def bitfield_simps)

record JType =
  j_opcode :: "7 word"
  j_rd :: "5 word"
  j_imm_19_12 :: "8 word"
  j_imm_11 :: "1 word"
  j_imm_10_1 :: "10 word"
  j_imm_20 :: "1 word"

definition JType_raw :: "JType \<Rightarrow> u32" where
  "JType_raw f = put_field 0 (j_opcode f) OR
    put_field 7 (j_rd f) OR
    put_field 12 (j_imm_19_12 f) OR
    put_field 20 (j_imm_11 f) OR
    put_field 21 (j_imm_10_1 f) OR
    put_field 31 (j_imm_20 f)"

definition JType_of_raw :: "u32 \<Rightarrow> JType" where
  "JType_of_raw w = \<lparr>j_opcode = get_field 0 w,
    j_rd = get_field 7 w,
    j_imm_19_12 = get_field 12 w,
    j_imm_11 = get_field 20 w,
    j_imm_10_1 = get_field 21 w,
    j_imm_20 = get_field 31 w\<rparr>"

lemma JType_of_raw_raw [bitfield_simps]: "JType_of_raw (JType_raw f) = f"
  by (simp add: JType_of_raw_def JType_raw_def bitfield_simps)

record R4Type =
  r4_opcode :: "7 word"
  r4_rd :: "5 word"
  r4_funct3 :: "3 word"
  r4_rs1 :: "5 word"
  r4_rs2 :: "5 word"
  r4_funct2 :: "2 word"
  r4_rs3 :: "5 word"

definition R4Type_raw :: "R4Type \<Rightarrow> u32" where
  "R4Type_raw f = put_field 0 (r4_opcode f) OR
    put_field 7 (r4_rd f) OR
    put_field 12 (r4_funct3 f) OR
    put_field 15 (r4_rs1 f) OR
    put_field 20 (r4_rs2 f) OR
    put_field 25 (r4_funct2 f) OR
    put_field 27 (r4_rs3 f)"

definition R4Type_of_raw :: "u32 \<Rightarrow> R4Type" where
  "R4Type_of_raw w = \<lparr>r4_opcode = get_field 0 w,
    r4_rd = get_field 7 w,
    r4_funct3 = get_field 12 w,
    r4_rs1 = get_field 15 w,
    r4_rs2 = get_field 20 w,
    r4_funct2 = get_field 25 w,
    r4_rs3 = get_field 27 w\<rparr>"

lemma R4Type_of_raw_raw [bitfield_simps]: "R4Type_of_raw (R4Type_raw f) = f"
  by (simp add: R4Type_of_raw_def R4Type_raw_def bitfield_simps)

definition rtype ::
  "u8 \<Rightarrow> RiscVRegister \<Rightarrow> u8 \<Rightarrow> RiscVRegister \<Rightarrow> RiscVRegister \<Rightarrow> u8 \<Rightarrow> u32" where
  "rtype opcode rd funct3 rs1 rs2 funct7 = RType_raw
    \<lparr>r_opcode = ucast opcode, r_rd = ucast (reg_num rd), r_funct3 = ucast funct3,
     r_rs1 = ucast (reg_num rs1), r_rs2 = ucast (reg_num rs2), r_funct7 = ucast funct7\<rparr>"

definition itype :: "u8 \<Rightarrow> RiscVRegister \<Rightarrow> u8 \<Rightarrow> RiscVRegister \<Rightarrow> u16 \<Rightarrow> u32" where
  "itype opcode rd funct3 rs1 imm = IType_raw
    \<lparr>i_opcode = ucast opcode, i_rd = ucast (reg_num rd), i_funct3 = ucast funct3,
     i_rs1 = ucast (reg_num rs1), i_imm = ucast (ucast imm :: u32)\<rparr>"

definition stype :: "u8 \<Rightarrow> u8 \<Rightarrow> RiscVRegister \<Rightarrow> RiscVRegister \<Rightarrow> u16 \<Rightarrow> u32" where
  "stype opcode funct3 rs1 rs2 imm = SType_raw
    \<lparr>s_opcode = ucast opcode, s_immlow = ucast ((ucast imm :: u32) AND 0x1f),
     s_funct3 = ucast funct3, s_rs1 = ucast (reg_num rs1), s_rs2 = ucast (reg_num rs2),
     s_immhigh = ucast ((ucast (drop_bit 5 imm) :: u32) AND 0x7f)\<rparr>"

definition utype :: "u8 \<Rightarrow> RiscVRegister \<Rightarrow> u32 \<Rightarrow> u32" where
  "utype opcode rd imm = UType_raw
    \<lparr>u_opcode = ucast opcode, u_rd = ucast (reg_num rd), u_imm = ucast imm\<rparr>"

definition btype :: "u8 \<Rightarrow> u8 \<Rightarrow> RiscVRegister \<Rightarrow> RiscVRegister \<Rightarrow> u32 \<Rightarrow> u32" where
  "btype opcode funct3 rs1 rs2 imm = BType_raw
    \<lparr>b_opcode = ucast opcode, b_imm_11 = ucast (drop_bit 11 imm AND 1),
     b_imm_4_1 = ucast (drop_bit 1 imm AND 0xf), b_funct3 = ucast funct3,
     b_rs1 = ucast (reg_num rs1), b_rs2 = ucast (reg_num rs2),
     b_imm_10_5 = ucast (drop_bit 5 imm AND 0x3f), b_imm_12 = ucast (drop_bit 12 imm AND 1)\<rparr>"

definition jtype :: "u8 \<Rightarrow> RiscVRegister \<Rightarrow> u32 \<Rightarrow> u32" where
  "jtype opcode rd imm = JType_raw
    \<lparr>j_opcode = ucast opcode, j_rd = ucast (reg_num rd),
     j_imm_19_12 = ucast (drop_bit 12 imm AND 0xff), j_imm_11 = ucast (drop_bit 11 imm AND 1),
     j_imm_10_1 = ucast (drop_bit 1 imm AND 0x3ff), j_imm_20 = ucast (drop_bit 20 imm AND 1)\<rparr>"

definition frtype ::
  "u8 \<Rightarrow> RiscVFloatingRegister \<Rightarrow> u8 \<Rightarrow> RiscVFloatingRegister \<Rightarrow> RiscVFloatingRegister \<Rightarrow>
   u8 \<Rightarrow> u32" where
  "frtype opcode rd funct3 rs1 rs2 funct7 = RType_raw
    \<lparr>r_opcode = ucast opcode, r_rd = ucast (freg_num rd), r_funct3 = ucast funct3,
     r_rs1 = ucast (freg_num rs1), r_rs2 = ucast (freg_num rs2), r_funct7 = ucast funct7\<rparr>"

definition r4type ::
  "u8 \<Rightarrow> RiscVFloatingRegister \<Rightarrow> u8 \<Rightarrow> RiscVFloatingRegister \<Rightarrow> RiscVFloatingRegister \<Rightarrow>
   u8 \<Rightarrow> RiscVFloatingRegister \<Rightarrow> u32" where
  "r4type opcode rd funct3 rs1 rs2 funct2 rs3 = R4Type_raw
    \<lparr>r4_opcode = ucast opcode, r4_rd = ucast (freg_num rd), r4_funct3 = ucast funct3,
     r4_rs1 = ucast (freg_num rs1), r4_rs2 = ucast (freg_num rs2), r4_funct2 = ucast funct2,
     r4_rs3 = ucast (freg_num rs3)\<rparr>"

section \<open>Encoders\<close>

definition rm :: u8 where
  "rm = 7"

definition LUI :: "RiscVRegister \<Rightarrow> u32 \<Rightarrow> u32" where
  "LUI rd imm = utype 55 rd imm"

definition AUIPC :: "RiscVRegister \<Rightarrow> u32 \<Rightarrow> u32" where
  "AUIPC rd imm = utype 23 rd imm"

definition JAL :: "RiscVRegister \<Rightarrow> u32 \<Rightarrow> u32" where
  "JAL rd offset = jtype 111 rd offset"

definition JALR :: "RiscVRegister \<Rightarrow> RiscVRegister \<Rightarrow> u16 \<Rightarrow> u32" where
  "JALR rd rs1 offset = itype 103 rd 0 rs1 offset"

definition BEQ :: "RiscVRegister \<Rightarrow> RiscVRegister \<Rightarrow> u32 \<Rightarrow> u32" where
  "BEQ rs1 rs2 offset = btype 99 0 rs1 rs2 offset"

definition BNE :: "RiscVRegister \<Rightarrow> RiscVRegister \<Rightarrow> u32 \<Rightarrow> u32" where
  "BNE rs1 rs2 offset = btype 99 1 rs1 rs2 offset"

definition BLT :: "RiscVRegister \<Rightarrow> RiscVRegister \<Rightarrow> u32 \<Rightarrow> u32" where
  "BLT rs1 rs2 offset = btype 99 4 rs1 rs2 offset"

definition BGE :: "RiscVRegister \<Rightarrow> RiscVRegister \<Rightarrow> u32 \<Rightarrow> u32" where
  "BGE rs1 rs2 offset = btype 99 5 rs1 rs2 offset"

definition BLTU :: "RiscVRegister \<Rightarrow> RiscVRegister \<Rightarrow> u32 \<Rightarrow> u32" where
  "BLTU rs1 rs2 offset = btype 99 6 rs1 rs2 offset"

definition BGEU :: "RiscVRegister \<Rightarrow> RiscVRegister \<Rightarrow> u32 \<Rightarrow> u32" where
  "BGEU rs1 rs2 offset = btype 99 7 rs1 rs2 offset"

definition LB :: "RiscVRegister \<Rightarrow> RiscVRegister \<Rightarrow> u16 \<Rightarrow> u32" where
  "LB rd rs1 imm = itype 3 rd 0 rs1 imm"

definition LH :: "RiscVRegister \<Rightarrow> RiscVRegister \<Rightarrow> u16 \<Rightarrow> u32" where
  "LH rd rs1 imm = itype 3 rd 1 rs1 imm"

definition LW :: "RiscVRegister \<Rightarrow> RiscVRegister \<Rightarrow> u16 \<Rightarrow> u32" where
  "LW rd rs1 imm = itype 3 rd 2 rs1 imm"

definition LD :: "RiscVRegister \<Rightarrow> RiscVRegister \<Rightarrow> u16 \<Rightarrow> u32" where
  "LD rd rs1 imm = itype 3 rd 3 rs1 imm"

definition LBU :: "RiscVRegister \<Rightarrow> RiscVRegister \<Rightarrow> u16 \<Rightarrow> u32" where
  "LBU rd rs1 imm = itype 3 rd 4 rs1 imm"

definition LHU :: "RiscVRegister \<Rightarrow> RiscVRegister \<Rightarrow> u16 \<Rightarrow> u32" where
  "LHU rd rs1 imm = itype 3 rd 5 rs1 imm"

definition LWU :: "RiscVRegister \<Rightarrow> RiscVRegister \<Rightarrow> u16 \<Rightarrow> u32" where
  "LWU rd rs1 imm = itype 3 rd 6 rs1 imm"

definition SB :: "RiscVRegister \<Rightarrow> RiscVRegister \<Rightarrow> u32 \<Rightarrow> u32" where
  "SB rs1 rs2 imm = stype 35 0 rs1 rs2 (ucast imm)"

definition SH :: "RiscVRegister \<Rightarrow> RiscVRegister \<Rightarrow> u32 \<Rightarrow> u32" where
  "SH rs1 rs2 imm = stype 35 1 rs1 rs2 (ucast imm)"

definition SW :: "RiscVRegister \<Rightarrow> RiscVRegister \<Rightarrow> u32 \<Rightarrow> u32" where
  "SW rs1 rs2 imm = stype 35 2 rs1 rs2 (ucast imm)"

definition SD :: "RiscVRegister \<Rightarrow> RiscVRegister \<Rightarrow> u32 \<Rightarrow> u32" where
  "SD rs1 rs2 imm = stype 35 3 rs1 rs2 (ucast imm)"

definition ADDI :: "RiscVRegister \<Rightarrow> RiscVRegister \<Rightarrow> u16 \<Rightarrow> u32" where
  "ADDI rd rs1 imm = itype 19 rd 0 rs1 imm"

definition SLTI :: "RiscVRegister \<Rightarrow> RiscVRegister \<Rightarrow> u16 \<Rightarrow> u32" where
  "SLTI rd rs1 imm = itype 19 rd 2 rs1 imm"

definition SLTIU :: "RiscVRegister \<Rightarrow> RiscVRegister \<Rightarrow> u16 \<Rightarrow> u32" where
  "SLTIU rd rs1 imm = itype 19 rd 3 rs1 imm"

definition XORI :: "RiscVRegister \<Rightarrow> RiscVRegister \<Rightarrow> u16 \<Rightarrow> u32" where
  "XORI rd rs1 imm = itype 19 rd 4 rs1 imm"

definition ORI :: "RiscVRegister \<Rightarrow> RiscVRegister \<Rightarrow> u16 \<Rightarrow> u32" where
  "ORI rd rs1 imm = itype 19 rd 6 rs1 imm"

definition ANDI :: "RiscVRegister \<Rightarrow> RiscVRegister \<Rightarrow> u16 \<Rightarrow> u32" where
  "ANDI rd rs1 imm = itype 19 rd 7 rs1 imm"

definition SLLI :: "RiscVRegister \<Rightarrow> RiscVRegister \<Rightarrow> u8 \<Rightarrow> u32" where
  "SLLI rd rs1 shamt = itype 19 rd 1 rs1 (ucast shamt AND 0x3f)"

definition SRLI :: "RiscVRegister \<Rightarrow> RiscVRegister \<Rightarrow> u8 \<Rightarrow> u32" where
  "SRLI rd rs1 shamt = itype 19 rd 5 rs1 (ucast shamt AND 0x3f)"

definition SRAI :: "RiscVRegister \<Rightarrow> RiscVRegister \<Rightarrow> u8 \<Rightarrow> u32" where
  "SRAI rd rs1 shamt = itype 19 rd 5 rs1 ((ucast shamt AND 0x3f) OR 0x400)"

definition ADD :: "RiscVRegister \<Rightarrow> RiscVRegister \<Rightarrow> RiscVRegister \<Rightarrow> u32" where
  "ADD rd rs1 rs2 = rtype 51 rd 0 rs1 rs2 0"

definition SUB :: "RiscVRegister \<Rightarrow> RiscVRegister \<Rightarrow> RiscVRegister \<Rightarrow> u32" where
  "SUB rd rs1 rs2 = rtype 51 rd 0 rs1 rs2 32"

definition SLL :: "RiscVRegister \<Rightarrow> RiscVRegister \<Rightarrow> RiscVRegister \<Rightarrow> u32" where
  "SLL rd rs1 rs2 = rtype 51 rd 1 rs1 rs2 0"

definition SLT :: "RiscVRegister \<Rightarrow> RiscVRegister \<Rightarrow> RiscVRegister \<Rightarrow> u32" where
  "SLT rd rs1 rs2 = rtype 51 rd 2 rs1 rs2 0"

definition SLTU :: "RiscVRegister \<Rightarrow> RiscVRegister \<Rightarrow> RiscVRegister \<Rightarrow> u32" where
  "SLTU rd rs1 rs2 = rtype 51 rd 3 rs1 rs2 0"

definition XOR' :: "RiscVRegister \<Rightarrow> RiscVRegister \<Rightarrow> RiscVRegister \<Rightarrow> u32" where
  "XOR' rd rs1 rs2 = rtype 51 rd 4 rs1 rs2 0"

definition SRL :: "RiscVRegister \<Rightarrow> RiscVRegister \<Rightarrow> RiscVRegister \<Rightarrow> u32" where
  "SRL rd rs1 rs2 = rtype 51 rd 5 rs1 rs2 0"

definition SRA :: "RiscVRegister \<Rightarrow> RiscVRegister \<Rightarrow> RiscVRegister \<Rightarrow> u32" where
  "SRA rd rs1 rs2 = rtype 51 rd 5 rs1 rs2 32"

definition OR' :: "RiscVRegister \<Rightarrow> RiscVRegister \<Rightarrow> RiscVRegister \<Rightarrow> u32" where
  "OR' rd rs1 rs2 = rtype 51 rd 6 rs1 rs2 0"

definition AND' :: "RiscVRegister \<Rightarrow> RiscVRegister \<Rightarrow> RiscVRegister \<Rightarrow> u32" where
  "AND' rd rs1 rs2 = rtype 51 rd 7 rs1 rs2 0"

definition ECALL :: "u32" where
  "ECALL = itype 115 zero 0 zero 0"

definition ADDW :: "RiscVRegister \<Rightarrow> RiscVRegister \<Rightarrow> RiscVRegister \<Rightarrow> u32" where
  "ADDW rd rs1 rs2 = rtype 59 rd 0 rs1 rs2 0"

definition SUBW :: "RiscVRegister \<Rightarrow> RiscVRegister \<Rightarrow> RiscVRegister \<Rightarrow> u32" where
  "SUBW rd rs1 rs2 = rtype 59 rd 0 rs1 rs2 32"

definition SLLW :: "RiscVRegister \<Rightarrow> RiscVRegister \<Rightarrow> RiscVRegister \<Rightarrow> u32" where
  "SLLW rd rs1 rs2 = rtype 59 rd 1 rs1 rs2 0"

definition SRLW :: "RiscVRegister \<Rightarrow> RiscVRegister \<Rightarrow> RiscVRegister \<Rightarrow> u32" where
  "SRLW rd rs1 rs2 = rtype 59 rd 5 rs1 rs2 0"

definition SRAW :: "RiscVRegister \<Rightarrow> RiscVRegister \<Rightarrow> RiscVRegister \<Rightarrow> u32" where
  "SRAW rd rs1 rs2 = rtype 59 rd 5 rs1 rs2 32"

definition SLLIW :: "RiscVRegister \<Rightarrow> RiscVRegister \<Rightarrow> u8 \<Rightarrow> u32" where
  "SLLIW rd rs shamt = rtype 27 rd 1 rs (reg_of (shamt AND 0x1f)) 0"

definition SRLIW :: "RiscVRegister \<Rightarrow> RiscVRegister \<Rightarrow> u8 \<Rightarrow> u32" where
  "SRLIW rd rs shamt = rtype 27 rd 5 rs (reg_of (shamt AND 0x1f)) 0"

definition SRAIW :: "RiscVRegister \<Rightarrow> RiscVRegister \<Rightarrow> u8 \<Rightarrow> u32" where
  "SRAIW rd rs shamt = rtype 27 rd 5 rs (reg_of (shamt AND 0x1f)) 32"

definition MUL :: "RiscVRegister \<Rightarrow> RiscVRegister \<Rightarrow> RiscVRegister \<Rightarrow> u32" where
  "MUL rd rs1 rs2 = rtype 51 rd 0 rs1 rs2 1"

definition MULH :: "RiscVRegister \<Rightarrow> RiscVRegister \<Rightarrow> RiscVRegister \<Rightarrow> u32" where
  "MULH rd rs1 rs2 = rtype 51 rd 1 rs1 rs2 1"

definition MULHSU :: "RiscVRegister \<Rightarrow> RiscVRegister \<Rightarrow> RiscVRegister \<Rightarrow> u32" where
  "MULHSU rd rs1 rs2 = rtype 51 rd 2 rs1 rs2 1"

definition MULHU :: "RiscVRegister \<Rightarrow> RiscVRegister \<Rightarrow> RiscVRegister \<Rightarrow> u32" where
  "MULHU rd rs1 rs2 = rtype 51 rd 3 rs1 rs2 1"

definition DIV :: "RiscVRegister \<Rightarrow> RiscVRegister \<Rightarrow> RiscVRegister \<Rightarrow> u32" where
  "DIV rd rs1 rs2 = rtype 51 rd 4 rs1 rs2 1"

definition DIVU :: "RiscVRegister \<Rightarrow> RiscVRegister \<Rightarrow> RiscVRegister \<Rightarrow> u32" where
  "DIVU rd rs1 rs2 = rtype 51 rd 5 rs1 rs2 1"

definition REM :: "RiscVRegister \<Rightarrow> RiscVRegister \<Rightarrow> RiscVRegister \<Rightarrow> u32" where
  "REM rd rs1 rs2 = rtype 51 rd 6 rs1 rs2 1"

definition REMU :: "RiscVRegister \<Rightarrow> RiscVRegister \<Rightarrow> RiscVRegister \<Rightarrow> u32" where
  "REMU rd rs1 rs2 = rtype 51 rd 7 rs1 rs2 1"

definition FLW :: "RiscVFloatingRegister \<Rightarrow> RiscVRegister \<Rightarrow> u16 \<Rightarrow> u32" where
  "FLW rd rs1 imm = itype 7 (reg_of (freg_num rd)) 2 rs1 imm"

definition FSW :: "RiscVRegister \<Rightarrow> RiscVFloatingRegister \<Rightarrow> u16 \<Rightarrow> u32" where
  "FSW rs1 rs2 imm = stype 39 2 rs1 (reg_of (freg_num rs2)) imm"

definition FMADDS :: "RiscVFloatingRegister \<Rightarrow> RiscVFloatingRegister \<Rightarrow> RiscVFloatingRegister \<Rightarrow> RiscVFloatingRegister \<Rightarrow> u32" where
  "FMADDS rd rs1 rs2 rs3 = r4type 67 rd rm rs1 rs2 0 rs3"

definition FMSUBS :: "RiscVFloatingRegister \<Rightarrow> RiscVFloatingRegister \<Rightarrow> RiscVFloatingRegister \<Rightarrow> RiscVFloatingRegister \<Rightarrow> u32" where
  "FMSUBS rd rs1 rs2 rs3 = r4type 71 rd rm rs1 rs2 0 rs3"

definition FNMSUBS :: "RiscVFloatingRegister \<Rightarrow> RiscVFloatingRegister \<Rightarrow> RiscVFloatingRegister \<Rightarrow> RiscVFloatingRegister \<Rightarrow> u32" where
  "FNMSUBS rd rs1 rs2 rs3 = r4type 75 rd rm rs1 rs2 0 rs3"

definition FNMADDS :: "RiscVFloatingRegister \<Rightarrow> RiscVFloatingRegister \<Rightarrow> RiscVFloatingRegister \<Rightarrow> RiscVFloatingRegister \<Rightarrow> u32" where
  "FNMADDS rd rs1 rs2 rs3 = r4type 79 rd rm rs1 rs2 0 rs3"

definition FADDS :: "RiscVFloatingRegister \<Rightarrow> RiscVFloatingRegister \<Rightarrow> RiscVFloatingRegister \<Rightarrow> u32" where
  "FADDS rd rs1 rs2 = frtype 83 rd rm rs1 rs2 0"

definition FSUBS :: "RiscVFloatingRegister \<Rightarrow> RiscVFloatingRegister \<Rightarrow> RiscVFloatingRegister \<Rightarrow> u32" where
  "FSUBS rd rs1 rs2 = frtype 83 rd rm rs1 rs2 4"

definition FMULS :: "RiscVFloatingRegister \<Rightarrow> RiscVFloatingRegister \<Rightarrow> RiscVFloatingRegister \<Rightarrow> u32" where
  "FMULS rd rs1 rs2 = frtype 83 rd rm rs1 rs2 8"

definition FDIVS :: "RiscVFloatingRegister \<Rightarrow> RiscVFloatingRegister \<Rightarrow> RiscVFloatingRegister \<Rightarrow> u32" where
  "FDIVS rd rs1 rs2 = frtype 83 rd rm rs1 rs2 12"

definition FSQRTS :: "RiscVFloatingRegister \<Rightarrow> RiscVFloatingRegister \<Rightarrow> u32" where
  "FSQRTS rd rs1 = frtype 83 rd rm rs1 (freg_of 0) 44"

definition FSGNJS :: "RiscVFloatingRegister \<Rightarrow> RiscVFloatingRegister \<Rightarrow> RiscVFloatingRegister \<Rightarrow> u32" where
  "FSGNJS rd rs1 rs2 = frtype 83 rd 0 rs1 rs2 16"

definition FSGNJNS :: "RiscVFloatingRegister \<Rightarrow> RiscVFloatingRegister \<Rightarrow> RiscVFloatingRegister \<Rightarrow> u32" where
  "FSGNJNS rd rs1 rs2 = frtype 83 rd 1 rs1 rs2 16"

definition FSGNJXS :: "RiscVFloatingRegister \<Rightarrow> RiscVFloatingRegister \<Rightarrow> RiscVFloatingRegister \<Rightarrow> u32" where
  "FSGNJXS rd rs1 rs2 = frtype 83 rd 2 rs1 rs2 16"

definition FMINS :: "RiscVFloatingRegister \<Rightarrow> RiscVFloatingRegister \<Rightarrow> RiscVFloatingRegister \<Rightarrow> u32" where
  "FMINS rd rs1 rs2 = frtype 83 rd 0 rs1 rs2 20"

definition FMAXS :: "RiscVFloatingRegister \<Rightarrow> RiscVFloatingRegister \<Rightarrow> RiscVFloatingRegister \<Rightarrow> u32" where
  "FMAXS rd rs1 rs2 = frtype 83 rd 1 rs1 rs2 20"

definition FCVTWS :: "RiscVRegister \<Rightarrow> RiscVFloatingRegister \<Rightarrow> u32" where
  "FCVTWS rd rs1 = frtype 83 (freg_of (reg_num rd)) rm rs1 (freg_of 0) 96"

definition FCVTWUS :: "RiscVRegister \<Rightarrow> RiscVFloatingRegister \<Rightarrow> u32" where
  "FCVTWUS rd rs1 = frtype 83 (freg_of (reg_num rd)) rm rs1 (freg_of 1) 96"

definition FEQS :: "RiscVRegister \<Rightarrow> RiscVFloatingRegister \<Rightarrow> RiscVFloatingRegister \<Rightarrow> u32" where
  "FEQS rd rs1 rs2 = frtype 83 (freg_of (reg_num rd)) 2 rs1 rs2 80"

definition FLTS :: "RiscVRegister \<Rightarrow> RiscVFloatingRegister \<Rightarrow> RiscVFloatingRegister \<Rightarrow> u32" where
  "FLTS rd rs1 rs2 = frtype 83 (freg_of (reg_num rd)) 1 rs1 rs2 80"

definition FLES :: "RiscVRegister \<Rightarrow> RiscVFloatingRegister \<Rightarrow> RiscVFloatingRegister \<Rightarrow> u32" where
  "FLES rd rs1 rs2 = frtype 83 (freg_of (reg_num rd)) 0 rs1 rs2 80"

definition FCVTSW :: "RiscVFloatingRegister \<Rightarrow> RiscVRegister \<Rightarrow> u32" where
  "FCVTSW rd rs1 = frtype 83 rd rm (freg_of (reg_num rs1)) (freg_of 0) 104"

definition FCVTSWU :: "RiscVFloatingRegister \<Rightarrow> RiscVRegister \<Rightarrow> u32" where
  "FCVTSWU rd rs1 = frtype 83 rd rm (freg_of (reg_num rs1)) (freg_of 1) 104"

definition FCVTLS :: "RiscVRegister \<Rightarrow> RiscVFloatingRegister \<Rightarrow> u32" where
  "FCVTLS rd rs1 = frtype 83 (freg_of (reg_num rd)) rm rs1 (freg_of 2) 96"

definition FCVTLUS :: "RiscVRegister \<Rightarrow> RiscVFloatingRegister \<Rightarrow> u32" where
  "FCVTLUS rd rs1 = frtype 83 (freg_of (reg_num rd)) rm rs1 (freg_of 3) 96"

definition FCVTSL :: "RiscVFloatingRegister \<Rightarrow> RiscVRegister \<Rightarrow> u32" where
  "FCVTSL rd rs1 = frtype 83 rd rm (freg_of (reg_num rs1)) (freg_of 2) 104"

definition FCVTSLU :: "RiscVFloatingRegister \<Rightarrow> RiscVRegister \<Rightarrow> u32" where
  "FCVTSLU rd rs1 = frtype 83 rd rm (freg_of (reg_num rs1)) (freg_of 3) 104"

definition FLD :: "RiscVFloatingRegister \<Rightarrow> RiscVRegister \<Rightarrow> u16 \<Rightarrow> u32" where
  "FLD rd rs imm = itype 7 (reg_of (freg_num rd)) 3 rs imm"

definition FSD :: "RiscVRegister \<Rightarrow> RiscVFloatingRegister \<Rightarrow> u16 \<Rightarrow> u32" where
  "FSD rs1 rs2 imm = stype 39 3 rs1 (reg_of (freg_num rs2)) imm"

definition FMADDD :: "RiscVFloatingRegister \<Rightarrow> RiscVFloatingRegister \<Rightarrow> RiscVFloatingRegister \<Rightarrow> RiscVFloatingRegister \<Rightarrow> u32" where
  "FMADDD rd rs1 rs2 rs3 = r4type 67 rd rm rs1 rs2 1 rs3"

definition FMSUBD :: "RiscVFloatingRegister \<Rightarrow> RiscVFloatingRegister \<Rightarrow> RiscVFloatingRegister \<Rightarrow> RiscVFloatingRegister \<Rightarrow> u32" where
  "FMSUBD rd rs1 rs2 rs3 = r4type 71 rd rm rs1 rs2 1 rs3"

definition FNMSUBD :: "RiscVFloatingRegister \<Rightarrow> RiscVFloatingRegister \<Rightarrow> RiscVFloatingRegister \<Rightarrow> RiscVFloatingRegister \<Rightarrow> u32" where
  "FNMSUBD rd rs1 rs2 rs3 = r4type 75 rd rm rs1 rs2 1 rs3"

definition FNMADDD :: "RiscVFloatingRegister \<Rightarrow> RiscVFloatingRegister \<Rightarrow> RiscVFloatingRegister \<Rightarrow> RiscVFloatingRegister \<Rightarrow> u32" where
  "FNMADDD rd rs1 rs2 rs3 = r4type 79 rd rm rs1 rs2 1 rs3"

definition FADDD :: "RiscVFloatingRegister \<Rightarrow> RiscVFloatingRegister \<Rightarrow> RiscVFloatingRegister \<Rightarrow> u32" where
  "FADDD rd rs1 rs2 = frtype 83 rd rm rs1 rs2 1"

definition FSUBD :: "RiscVFloatingRegister \<Rightarrow> RiscVFloatingRegister \<Rightarrow> RiscVFloatingRegister \<Rightarrow> u32" where
  "FSUBD rd rs1 rs2 = frtype 83 rd rm rs1 rs2 5"

definition FMULD :: "RiscVFloatingRegister \<Rightarrow> RiscVFloatingRegister \<Rightarrow> RiscVFloatingRegister \<Rightarrow> u32" where
  "FMULD rd rs1 rs2 = frtype 83 rd rm rs1 rs2 9"

definition FDIVD :: "RiscVFloatingRegister \<Rightarrow> RiscVFloatingRegister \<Rightarrow> RiscVFloatingRegister \<Rightarrow> u32" where
  "FDIVD rd rs1 rs2 = frtype 83 rd rm rs1 rs2 13"

definition FSQRTD :: "RiscVFloatingRegister \<Rightarrow> RiscVFloatingRegister \<Rightarrow> u32" where
  "FSQRTD rd rs1 = frtype 83 rd rm rs1 (freg_of 0) 45"

definition FSGNJD :: "RiscVFloatingRegister \<Rightarrow> RiscVFloatingRegister \<Rightarrow> RiscVFloatingRegister \<Rightarrow> u32" where
  "FSGNJD rd rs1 rs2 = frtype 83 rd 0 rs1 rs2 17"

definition FSGNJND :: "RiscVFloatingRegister \<Rightarrow> RiscVFloatingRegister \<Rightarrow> RiscVFloatingRegister \<Rightarrow> u32" where
  "FSGNJND rd rs1 rs2 = frtype 83 rd 1 rs1 rs2 17"

definition FSGNJXD :: "RiscVFloatingRegister \<Rightarrow> RiscVFloatingRegister \<Rightarrow> RiscVFloatingRegister \<Rightarrow> u32" where
  "FSGNJXD rd rs1 rs2 = frtype 83 rd 2 rs1 rs2 17"

definition FMIND :: "RiscVFloatingRegister \<Rightarrow> RiscVFloatingRegister \<Rightarrow> RiscVFloatingRegister \<Rightarrow> u32" where
  "FMIND rd rs1 rs2 = frtype 83 rd 0 rs1 rs2 21"

definition FMAXD :: "RiscVFloatingRegister \<Rightarrow> RiscVFloatingRegister \<Rightarrow> RiscVFloatingRegister \<Rightarrow> u32" where
  "FMAXD rd rs1 rs2 = frtype 83 rd 1 rs1 rs2 21"

definition FCVTSD :: "RiscVFloatingRegister \<Rightarrow> RiscVFloatingRegister \<Rightarrow> u32" where
  "FCVTSD rd rs1 = frtype 83 rd rm rs1 (freg_of 1) 32"

definition FCVTDS :: "RiscVFloatingRegister \<Rightarrow> RiscVFloatingRegister \<Rightarrow> u32" where
  "FCVTDS rd rs1 = frtype 83 rd rm rs1 (freg_of 0) 33"

definition FEQD :: "RiscVRegister \<Rightarrow> RiscVFloatingRegister \<Rightarrow> RiscVFloatingRegister \<Rightarrow> u32" where
  "FEQD rd rs1 rs2 = frtype 83 (freg_of (reg_num rd)) 2 rs1 rs2 81"

definition FLTD :: "RiscVRegister \<Rightarrow> RiscVFloatingRegister \<Rightarrow> RiscVFloatingRegister \<Rightarrow> u32" where
  "FLTD rd rs1 rs2 = frtype 83 (freg_of (reg_num rd)) 1 rs1 rs2 81"

definition FLED :: "RiscVRegister \<Rightarrow> RiscVFloatingRegister \<Rightarrow> RiscVFloatingRegister \<Rightarrow> u32" where
  "FLED rd rs1 rs2 = frtype 83 (freg_of (reg_num rd)) 0 rs1 rs2 81"

definition FCVTWD :: "RiscVRegister \<Rightarrow> RiscVFloatingRegister \<Rightarrow> u32" where
  "FCVTWD rd rs1 = frtype 83 (freg_of (reg_num rd)) rm rs1 (freg_of 0) 97"

definition FCVTWUD :: "RiscVRegister \<Rightarrow> RiscVFloatingRegister \<Rightarrow> u32" where
  "FCVTWUD rd rs1 = frtype 83 (freg_of (reg_num rd)) rm rs1 (freg_of 1) 97"

definition FCVTDW :: "RiscVFloatingRegister \<Rightarrow> RiscVRegister \<Rightarrow> u32" where
  "FCVTDW rd rs1 = frtype 83 rd 0 (freg_of (reg_num rs1)) (freg_of 0) 105"

definition FCVTDWU :: "RiscVFloatingRegister \<Rightarrow> RiscVRegister \<Rightarrow> u32" where
  "FCVTDWU rd rs1 = frtype 83 rd 0 (freg_of (reg_num rs1)) (freg_of 1) 105"

definition FCVTLD :: "RiscVRegister \<Rightarrow> RiscVFloatingRegister \<Rightarrow> u32" where
  "FCVTLD rd rs1 = frtype 83 (freg_of (reg_num rd)) rm rs1 (freg_of 2) 97"

definition FCVTLUD :: "RiscVRegister \<Rightarrow> RiscVFloatingRegister \<Rightarrow> u32" where
  "FCVTLUD rd rs1 = frtype 83 (freg_of (reg_num rd)) rm rs1 (freg_of 3) 97"

definition FCVTDL :: "RiscVFloatingRegister \<Rightarrow> RiscVRegister \<Rightarrow> u32" where
  "FCVTDL rd rs1 = frtype 83 rd rm (freg_of (reg_num rs1)) (freg_of 2) 105"

definition FCVTDLU :: "RiscVFloatingRegister \<Rightarrow> RiscVRegister \<Rightarrow> u32" where
  "FCVTDLU rd rs1 = frtype 83 rd rm (freg_of (reg_num rs1)) (freg_of 3) 105"

definition NOP :: "u32" where
  "NOP = ADDI zero zero 0"

definition MV :: "RiscVRegister \<Rightarrow> RiscVRegister \<Rightarrow> u32" where
  "MV rd rs = ADDI rd rs 0"

definition NOT' :: "RiscVRegister \<Rightarrow> RiscVRegister \<Rightarrow> u32" where
  "NOT' rd rs = XORI rd rs (- 1)"

definition NEG :: "RiscVRegister \<Rightarrow> RiscVRegister \<Rightarrow> u32" where
  "NEG rd rs = SUB rd zero rs"

definition SEQZ :: "RiscVRegister \<Rightarrow> RiscVRegister \<Rightarrow> u32" where
  "SEQZ rd rs = SLTIU rd rs 1"

definition SNEZ :: "RiscVRegister \<Rightarrow> RiscVRegister \<Rightarrow> u32" where
  "SNEZ rd rs = SLTU rd zero rs"

definition SLTZ :: "RiscVRegister \<Rightarrow> RiscVRegister \<Rightarrow> u32" where
  "SLTZ rd rs = SLT rd rs zero"

definition SGTZ :: "RiscVRegister \<Rightarrow> RiscVRegister \<Rightarrow> u32" where
  "SGTZ rd rs = SLT rd zero rs"

definition FMVS :: "RiscVFloatingRegister \<Rightarrow> RiscVFloatingRegister \<Rightarrow> u32" where
  "FMVS rd rs = FSGNJS rd rs rs"

definition FABSS :: "RiscVFloatingRegister \<Rightarrow> RiscVFloatingRegister \<Rightarrow> u32" where
  "FABSS rd rs = FSGNJXS rd rs rs"

definition FNEGS :: "RiscVFloatingRegister \<Rightarrow> RiscVFloatingRegister \<Rightarrow> u32" where
  "FNEGS rd rs = FSGNJNS rd rs rs"

definition FMVD :: "RiscVFloatingRegister \<Rightarrow> RiscVFloatingRegister \<Rightarrow> u32" where
  "FMVD rd rs = FSGNJD rd rs rs"

definition FABSD :: "RiscVFloatingRegister \<Rightarrow> RiscVFloatingRegister \<Rightarrow> u32" where
  "FABSD rd rs = FSGNJXD rd rs rs"

definition FNEGD :: "RiscVFloatingRegister \<Rightarrow> RiscVFloatingRegister \<Rightarrow> u32" where
  "FNEGD rd rs = FSGNJND rd rs rs"

definition BEQZ :: "RiscVRegister \<Rightarrow> u32 \<Rightarrow> u32" where
  "BEQZ rs offset = BEQ rs zero offset"

definition BNQZ :: "RiscVRegister \<Rightarrow> u32 \<Rightarrow> u32" where
  "BNQZ rs offset = BNE rs zero offset"

definition BLEZ :: "RiscVRegister \<Rightarrow> u32 \<Rightarrow> u32" where
  "BLEZ rs offset = BGE zero rs offset"

definition BGEZ :: "RiscVRegister \<Rightarrow> u32 \<Rightarrow> u32" where
  "BGEZ rs offset = BGE rs zero offset"

definition BLTZ :: "RiscVRegister \<Rightarrow> u32 \<Rightarrow> u32" where
  "BLTZ rs offset = BLT rs zero offset"

definition BGTZ :: "RiscVRegister \<Rightarrow> u32 \<Rightarrow> u32" where
  "BGTZ rs offset = BEQ zero rs offset"

definition BGT :: "RiscVRegister \<Rightarrow> RiscVRegister \<Rightarrow> u32 \<Rightarrow> u32" where
  "BGT rs1 rs2 offset = BLT rs2 rs1 offset"

definition BLE :: "RiscVRegister \<Rightarrow> RiscVRegister \<Rightarrow> u32 \<Rightarrow> u32" where
  "BLE rs1 rs2 offset = BGE rs2 rs1 offset"

definition BGTU :: "RiscVRegister \<Rightarrow> RiscVRegister \<Rightarrow> u32 \<Rightarrow> u32" where
  "BGTU rs1 rs2 offset = BLTU rs2 rs1 offset"

definition BLEU :: "RiscVRegister \<Rightarrow> RiscVRegister \<Rightarrow> u32 \<Rightarrow> u32" where
  "BLEU rs1 rs2 offset = BGEU rs2 rs1 offset"

definition J :: "u32 \<Rightarrow> u32" where
  "J offset = JAL zero offset"

lemmas [encoder_defs] =
  LUI_def AUIPC_def JAL_def JALR_def BEQ_def BNE_def BLT_def BGE_def BLTU_def BGEU_def LB_def
  LH_def LW_def LD_def LBU_def LHU_def LWU_def SB_def SH_def SW_def SD_def ADDI_def SLTI_def
  SLTIU_def XORI_def ORI_def ANDI_def SLLI_def SRLI_def SRAI_def ADD_def SUB_def SLL_def SLT_def
  SLTU_def XOR'_def SRL_def SRA_def OR'_def AND'_def ECALL_def ADDW_def SUBW_def SLLW_def
  SRLW_def SRAW_def SLLIW_def SRLIW_def SRAIW_def MUL_def MULH_def MULHSU_def MULHU_def DIV_def
  DIVU_def REM_def REMU_def FLW_def FSW_def FMADDS_def FMSUBS_def FNMSUBS_def FNMADDS_def
  FADDS_def FSUBS_def FMULS_def FDIVS_def FSQRTS_def FSGNJS_def FSGNJNS_def FSGNJXS_def
  FMINS_def FMAXS_def FCVTWS_def FCVTWUS_def FEQS_def FLTS_def FLES_def FCVTSW_def FCVTSWU_def
  FCVTLS_def FCVTLUS_def FCVTSL_def FCVTSLU_def FLD_def FSD_def FMADDD_def FMSUBD_def
  FNMSUBD_def FNMADDD_def FADDD_def FSUBD_def FMULD_def FDIVD_def FSQRTD_def FSGNJD_def
  FSGNJND_def FSGNJXD_def FMIND_def FMAXD_def FCVTSD_def FCVTDS_def FEQD_def FLTD_def FLED_def
  FCVTWD_def FCVTWUD_def FCVTDW_def FCVTDWU_def FCVTLD_def FCVTLUD_def FCVTDL_def FCVTDLU_def
  NOP_def MV_def NOT'_def NEG_def SEQZ_def SNEZ_def SLTZ_def SGTZ_def FMVS_def FABSS_def
  FNEGS_def FMVD_def FABSD_def FNEGD_def BEQZ_def BNQZ_def BLEZ_def BGEZ_def BLTZ_def BGTZ_def
  BGT_def BLE_def BGTU_def BLEU_def J_def

end
