(* ===== verification/RiscV.thy ===== *)
theory RiscV
  imports Encoding "HOL-Library.Signed_Division"
begin

text \<open>
  The machine the generated code runs on: the RV64IM instructions that
  \<^verbatim>\<open>codegen/encoding/encoding.h\<close> documents, with the effect its comments give each of them on a
  64-bit system, the decoder of an instruction word, and the execution of generated code. The
  lemmas \<open>rv_decode_simps\<close> say for every integer encoder which instruction its word is; with them
  generated code runs symbolically by simplification.
\<close>

named_theorems rv_decode_simps \<open>decoding of the encoders\<close>
named_theorems rv_simps \<open>symbolic execution of generated code\<close>

section \<open>Instructions\<close>

datatype alu_op =
    aADD | aSUB | aSLL | aSLT | aSLTU | aXOR | aSRL | aSRA | aOR | aAND
  | aMUL | aMULH | aMULHSU | aMULHU | aDIV | aDIVU | aREM | aREMU

datatype rv_cond = cEQ | cNE | cLT | cGE | cLTU | cGEU

datatype rv_instr =
    Lui RiscVRegister u64
  | Auipc RiscVRegister u64
  | Jal RiscVRegister u64
  | Jalr RiscVRegister RiscVRegister u64
  | Branch rv_cond RiscVRegister RiscVRegister u64
  | Load nat bool RiscVRegister RiscVRegister u64  \<comment> \<open>bytes, sign extended?, rd, base, offset\<close>
  | Store nat RiscVRegister RiscVRegister u64  \<comment> \<open>bytes, base, source, offset\<close>
  | OpImm alu_op RiscVRegister RiscVRegister u64
  | Op alu_op RiscVRegister RiscVRegister RiscVRegister
  | OpImmW alu_op RiscVRegister RiscVRegister u64
  | OpW alu_op RiscVRegister RiscVRegister RiscVRegister
  | Ecall

text \<open>Immediates as the machine reads them: 12, 13 and 21 bits, sign extended.\<close>

definition sext12 :: "u16 \<Rightarrow> u64" where
  "sext12 imm = signed_take_bit 11 (ucast imm)"

definition sext13 :: "u32 \<Rightarrow> u64" where
  "sext13 imm = signed_take_bit 12 (ucast (imm AND NOT 1))"

definition sext21 :: "u32 \<Rightarrow> u64" where
  "sext21 imm = signed_take_bit 20 (ucast (imm AND NOT 1))"

definition sext32 :: "u64 \<Rightarrow> u64" where
  "sext32 x = signed_take_bit 31 x"

definition upper_imm :: "u32 \<Rightarrow> u64" where
  "upper_imm imm = sext32 (push_bit 12 (ucast imm))"

section \<open>Decoding\<close>

definition s_imm :: "SType \<Rightarrow> 12 word" where
  "s_imm f = ucast (s_immlow f) OR push_bit 5 (ucast (s_immhigh f))"

definition b_imm :: "BType \<Rightarrow> 13 word" where
  "b_imm f = push_bit 1 (ucast (b_imm_4_1 f)) OR push_bit 5 (ucast (b_imm_10_5 f)) OR
     push_bit 11 (ucast (b_imm_11 f)) OR push_bit 12 (ucast (b_imm_12 f))"

definition j_imm :: "JType \<Rightarrow> 21 word" where
  "j_imm f = push_bit 1 (ucast (j_imm_10_1 f)) OR push_bit 11 (ucast (j_imm_11 f)) OR
     push_bit 12 (ucast (j_imm_19_12 f)) OR push_bit 20 (ucast (j_imm_20 f))"

abbreviation reg5 :: "5 word \<Rightarrow> RiscVRegister" where
  "reg5 r \<equiv> reg_of (ucast r)"

definition rv_op :: "3 word \<Rightarrow> 7 word \<Rightarrow> alu_op option" where
  "rv_op fn3 fn7 =
     (if fn7 = 0 then Some ([aADD, aSLL, aSLT, aSLTU, aXOR, aSRL, aOR, aAND] ! unat fn3)
      else if fn7 = 1 then
        Some ([aMUL, aMULH, aMULHSU, aMULHU, aDIV, aDIVU, aREM, aREMU] ! unat fn3)
      else if fn7 = 32 \<and> fn3 = 0 then Some aSUB
      else if fn7 = 32 \<and> fn3 = 5 then Some aSRA
      else None)"

definition rv_opw :: "3 word \<Rightarrow> 7 word \<Rightarrow> alu_op option" where
  "rv_opw fn3 fn7 =
     (if fn7 = 0 \<and> fn3 = 0 then Some aADD
      else if fn7 = 0 \<and> fn3 = 1 then Some aSLL
      else if fn7 = 0 \<and> fn3 = 5 then Some aSRL
      else if fn7 = 32 \<and> fn3 = 0 then Some aSUB
      else if fn7 = 32 \<and> fn3 = 5 then Some aSRA
      else None)"

definition rv_opimm :: "IType \<Rightarrow> rv_instr option" where
  "rv_opimm i = (let op = (\<lambda>a. Some (OpImm a (reg5 (i_rd i)) (reg5 (i_rs1 i)) (scast (i_imm i))));
                     sh = (\<lambda>a. Some (OpImm a (reg5 (i_rd i)) (reg5 (i_rs1 i))
                                      (ucast (i_imm i AND 0x3f)))) in
     if i_funct3 i = 0 then op aADD
     else if i_funct3 i = 2 then op aSLT
     else if i_funct3 i = 3 then op aSLTU
     else if i_funct3 i = 4 then op aXOR
     else if i_funct3 i = 6 then op aOR
     else if i_funct3 i = 7 then op aAND
     else if i_funct3 i = 1 \<and> drop_bit 6 (i_imm i) = 0 then sh aSLL
     else if i_funct3 i = 5 \<and> drop_bit 6 (i_imm i) = 0 then sh aSRL
     else if i_funct3 i = 5 \<and> drop_bit 6 (i_imm i) = 0x10 then sh aSRA
     else None)"

definition rv_load :: "IType \<Rightarrow> rv_instr option" where
  "rv_load i = (let ld = (\<lambda>n sg. Some (Load n sg (reg5 (i_rd i)) (reg5 (i_rs1 i))
                                            (scast (i_imm i)))) in
     if i_funct3 i = 0 then ld 1 True
     else if i_funct3 i = 1 then ld 2 True
     else if i_funct3 i = 2 then ld 4 True
     else if i_funct3 i = 3 then ld 8 False
     else if i_funct3 i = 4 then ld 1 False
     else if i_funct3 i = 5 then ld 2 False
     else if i_funct3 i = 6 then ld 4 False
     else None)"

definition rv_store :: "SType \<Rightarrow> rv_instr option" where
  "rv_store f = (if s_funct3 f < 4
     then Some (Store (2 ^ unat (s_funct3 f)) (reg5 (s_rs1 f)) (reg5 (s_rs2 f)) (scast (s_imm f)))
     else None)"

definition rv_branch :: "BType \<Rightarrow> rv_instr option" where
  "rv_branch f = (let br = (\<lambda>c. Some (Branch c (reg5 (b_rs1 f)) (reg5 (b_rs2 f))
                                              (scast (b_imm f)))) in
     if b_funct3 f = 0 then br cEQ
     else if b_funct3 f = 1 then br cNE
     else if b_funct3 f = 4 then br cLT
     else if b_funct3 f = 5 then br cGE
     else if b_funct3 f = 6 then br cLTU
     else if b_funct3 f = 7 then br cGEU
     else None)"

definition rv_opimmw :: "RType \<Rightarrow> rv_instr option" where
  "rv_opimmw r = (if r_funct3 r = 0 then None
     else map_option (\<lambda>a. OpImmW a (reg5 (r_rd r)) (reg5 (r_rs1 r)) (ucast (r_rs2 r)))
       (rv_opw (r_funct3 r) (r_funct7 r)))"

definition rv_decode :: "u32 \<Rightarrow> rv_instr option" where
  "rv_decode w = (let opcode = (get_field 0 w :: 7 word); r = RType_of_raw w; i = IType_of_raw w;
       u = UType_of_raw w; j = JType_of_raw w in
     if opcode = 55 then Some (Lui (reg5 (u_rd u)) (sext32 (push_bit 12 (ucast (u_imm u)))))
     else if opcode = 23 then Some (Auipc (reg5 (u_rd u)) (sext32 (push_bit 12 (ucast (u_imm u)))))
     else if opcode = 111 then Some (Jal (reg5 (j_rd j)) (scast (j_imm j)))
     else if opcode = 103 \<and> i_funct3 i = 0
       then Some (Jalr (reg5 (i_rd i)) (reg5 (i_rs1 i)) (scast (i_imm i)))
     else if opcode = 99 then rv_branch (BType_of_raw w)
     else if opcode = 3 then rv_load i
     else if opcode = 35 then rv_store (SType_of_raw w)
     else if opcode = 19 then rv_opimm i
     else if opcode = 51 then
       map_option (\<lambda>a. Op a (reg5 (r_rd r)) (reg5 (r_rs1 r)) (reg5 (r_rs2 r)))
         (rv_op (r_funct3 r) (r_funct7 r))
     else if opcode = 27 then rv_opimmw r
     else if opcode = 59 then
       map_option (\<lambda>a. OpW a (reg5 (r_rd r)) (reg5 (r_rs1 r)) (reg5 (r_rs2 r)))
         (rv_opw (r_funct3 r) (r_funct7 r))
     else if w = 115 then Some Ecall
     else None)"

section \<open>Fields of the formats\<close>

lemma opcode_raw [bitfield_simps]:
  "get_field 0 (RType_raw f) = r_opcode f"
  "get_field 0 (IType_raw g) = i_opcode g"
  "get_field 0 (SType_raw h) = s_opcode h"
  "get_field 0 (UType_raw k) = u_opcode k"
  "get_field 0 (BType_raw l) = b_opcode l"
  "get_field 0 (JType_raw m) = j_opcode m"
  by (simp_all add: RType_raw_def IType_raw_def SType_raw_def UType_raw_def BType_raw_def
      JType_raw_def bitfield_simps)

lemma i_imm_itype [bitfield_simps]:
  "scast (ucast (ucast imm :: u32) :: 12 word) = sext12 imm"
  by (rule bit_word_eqI) (auto simp: sext12_def bit_simps)

lemma s_imm_stype [bitfield_simps]:
  "scast (s_imm \<lparr>s_opcode = p, s_immlow = ucast ((ucast imm :: u32) AND 0x1f),
     s_funct3 = q, s_rs1 = r, s_rs2 = s,
     s_immhigh = ucast ((ucast (drop_bit 5 imm) :: u32) AND 0x7f)\<rparr>) = sext12 imm"
    (is "scast (s_imm ?f) = _")
proof (rule bit_word_eqI)
  have m: "(0x1f :: u32) = mask 5" "(0x7f :: u32) = mask 7"
    by (simp_all add: mask_eq_exp_minus_1)
  show "bit (scast (s_imm ?f) :: u64) n = bit (sext12 imm) n" for n
    unfolding m by (auto simp: s_imm_def sext12_def bit_simps)
qed

lemma bit_times_two [bit_simps]:
  "bit (x * 2) n \<longleftrightarrow> 0 < n \<and> n < LENGTH('w) \<and> bit x (n - 1)" for x :: "'w::len word"
proof -
  have "x * 2 = push_bit 1 x" by simp
  then show ?thesis by (auto simp only: bit_push_bit_iff possible_bit_word One_nat_def Suc_le_eq)
qed

lemma b_imm_btype [bitfield_simps]:
  "b_imm \<lparr>b_opcode = p, b_imm_11 = ucast (drop_bit 11 imm AND (1::u32)),
     b_imm_4_1 = ucast (drop_bit (Suc 0) imm AND 0xf), b_funct3 = q, b_rs1 = r, b_rs2 = s,
     b_imm_10_5 = ucast (drop_bit 5 imm AND 0x3f), b_imm_12 = ucast (drop_bit 12 imm AND 1)\<rparr>
   = ucast (imm AND NOT 1)" (is "b_imm ?f = _")
proof (rule bit_word_eqI)
  fix n assume "n < LENGTH(13)"
  then have "n \<in> {0, 1, 2, 3, 4, 5, 6, 7, 8, 9, 10, 11, 12}"
    by simp arith
  then show "bit (b_imm ?f) n = bit (ucast (imm AND NOT 1) :: 13 word) n"
    by (elim insertE emptyE; simp add: b_imm_def bit_simps; simp add: eval_nat_numeral)
qed

lemma j_imm_jtype [bitfield_simps]:
  "j_imm \<lparr>j_opcode = p, j_rd = q,
     j_imm_19_12 = ucast (drop_bit 12 imm AND (0xff::u32)), j_imm_11 = ucast (drop_bit 11 imm AND 1),
     j_imm_10_1 = ucast (drop_bit (Suc 0) imm AND 0x3ff), j_imm_20 = ucast (drop_bit 20 imm AND 1)\<rparr>
   = ucast (imm AND NOT 1)" (is "j_imm ?f = _")
proof (rule bit_word_eqI)
  fix n assume "n < LENGTH(21)"
  then have "n \<in> {0, 1, 2, 3, 4, 5, 6, 7, 8, 9, 10, 11, 12, 13, 14, 15, 16, 17, 18, 19, 20}"
    by simp arith
  then show "bit (j_imm ?f) n = bit (ucast (imm AND NOT 1) :: 21 word) n"
    by (elim insertE emptyE; simp add: j_imm_def bit_simps; simp add: eval_nat_numeral)
qed

lemma upper_imm_utype [bitfield_simps]:
  "sext32 (push_bit 12 (ucast (ucast imm :: 20 word))) = upper_imm imm"
  by (rule bit_word_eqI) (auto simp: upper_imm_def sext32_def bit_simps)

lemma scast_branch_imm [simplified, bitfield_simps]:
  "scast (ucast (imm AND NOT 1) :: 13 word) = sext13 imm"
  "scast (ucast (imm AND NOT 1) :: 21 word) = sext21 imm"
  by (rule bit_word_eqI, auto simp: sext13_def sext21_def bit_simps)+

lemma shamt_zero [bitfield_simps]:
  "drop_bit 6 (ucast (ucast ((ucast sh :: u16) AND 0x3f) :: u32) :: 12 word) = 0"
  "ucast (ucast (ucast ((ucast sh :: u16) AND 0x3f) :: u32) AND 0x3f :: 12 word) =
    (ucast (sh AND 0x3f :: u8) :: u64)"
proof -
  have m: "(0x3f :: u16) = mask 6" "(0x3f :: 12 word) = mask 6" "(0x3f :: u8) = mask 6"
    by (simp_all add: mask_eq_exp_minus_1)
  show "drop_bit 6 (ucast (ucast ((ucast sh :: u16) AND 0x3f) :: u32) :: 12 word) = 0"
    unfolding m by (rule bit_word_eqI) (auto simp: bit_simps)
  show "ucast (ucast (ucast ((ucast sh :: u16) AND 0x3f) :: u32) AND 0x3f :: 12 word) =
      (ucast (sh AND 0x3f :: u8) :: u64)"
    unfolding m by (rule bit_word_eqI) (auto simp: bit_simps)
qed

lemma shamt_sra [bitfield_simps]:
  "drop_bit 6 (ucast (ucast (((ucast sh :: u16) AND 0x3f) OR 0x400) :: u32) :: 12 word) = 0x10"
  "ucast (ucast (ucast (((ucast sh :: u16) AND 0x3f) OR 0x400) :: u32) AND 0x3f :: 12 word) =
    (ucast (sh AND 0x3f :: u8) :: u64)"
proof -
  have e: "(ucast (ucast (((ucast sh :: u16) AND 0x3f) OR 0x400) :: u32) :: 12 word)
      = (ucast sh AND 0x3f) OR 0x400"
    by (rule bit_word_eqI) (auto simp: bit_simps)
  have c: "n < LENGTH(12) \<Longrightarrow> n \<in> {0, 1, 2, 3, 4, 5, 6, 7, 8, 9, 10, 11}" for n :: nat
    by simp arith
  show "drop_bit 6 (ucast (ucast (((ucast sh :: u16) AND 0x3f) OR 0x400) :: u32) :: 12 word) = 0x10"
    unfolding e by (rule bit_word_eqI, drule c) (elim insertE emptyE; simp add: bit_simps)
  have "((ucast sh AND 0x3f) OR 0x400 :: 12 word) AND 0x3f = ucast (sh AND 0x3f)"
    by (rule bit_word_eqI, drule c) (elim insertE emptyE; simp add: bit_simps)
  then show "ucast (ucast (ucast (((ucast sh :: u16) AND 0x3f) OR 0x400) :: u32) AND 0x3f :: 12 word) =
      (ucast (sh AND 0x3f :: u8) :: u64)"
    unfolding e by (simp only:) (rule bit_word_eqI, auto simp: bit_simps)
qed

lemma shamt_w [bitfield_simps]:
  "ucast (ucast (reg_num (reg_of (sh AND 0x1f))) :: 5 word) = (ucast (sh AND 0x1f) :: u64)"
proof -
  have "sh AND 0x1f \<in> set (map of_nat [0..<32])"
  proof -
    have "unat (sh AND 0x1f) < 32"
      using word_and_le1 [of sh "0x1f"] by (simp add: word_le_nat_alt)
    then show ?thesis
      by (force simp: image_iff intro: bexI [of _ "unat (sh AND 0x1f)"])
  qed
  then show ?thesis
    by (simp add: upt_rec reg_of_def reg_list_def) (elim disjE; simp)
qed

lemmas rv_format_defs = rtype_def itype_def stype_def utype_def btype_def jtype_def
  rv_decode_def rv_opimm_def rv_load_def rv_store_def rv_branch_def rv_op_def rv_opw_def
  rv_opimmw_def Let_def

section \<open>The encoders decode to their instructions\<close>

lemma rv_decode_jumps [rv_decode_simps]:
  "rv_decode (LUI rd off) = Some (Lui rd (upper_imm off))"
  "rv_decode (AUIPC rd off) = Some (Auipc rd (upper_imm off))"
  "rv_decode (JAL rd off) = Some (Jal rd (sext21 off))"
  "rv_decode (JALR rd rs1 imm) = Some (Jalr rd rs1 (sext12 imm))"
  by (simp_all add: encoder_defs rv_format_defs bitfield_simps)

lemma rv_decode_branches [rv_decode_simps]:
  "rv_decode (BEQ rs1 rs2 off) = Some (Branch cEQ rs1 rs2 (sext13 off))"
  "rv_decode (BNE rs1 rs2 off) = Some (Branch cNE rs1 rs2 (sext13 off))"
  "rv_decode (BLT rs1 rs2 off) = Some (Branch cLT rs1 rs2 (sext13 off))"
  "rv_decode (BGE rs1 rs2 off) = Some (Branch cGE rs1 rs2 (sext13 off))"
  "rv_decode (BLTU rs1 rs2 off) = Some (Branch cLTU rs1 rs2 (sext13 off))"
  "rv_decode (BGEU rs1 rs2 off) = Some (Branch cGEU rs1 rs2 (sext13 off))"
  by (simp_all add: encoder_defs rv_format_defs bitfield_simps)

lemma rv_decode_loads [rv_decode_simps]:
  "rv_decode (LB rd rs1 imm) = Some (Load 1 True rd rs1 (sext12 imm))"
  "rv_decode (LH rd rs1 imm) = Some (Load 2 True rd rs1 (sext12 imm))"
  "rv_decode (LW rd rs1 imm) = Some (Load 4 True rd rs1 (sext12 imm))"
  "rv_decode (LD rd rs1 imm) = Some (Load 8 False rd rs1 (sext12 imm))"
  "rv_decode (LBU rd rs1 imm) = Some (Load 1 False rd rs1 (sext12 imm))"
  "rv_decode (LHU rd rs1 imm) = Some (Load 2 False rd rs1 (sext12 imm))"
  "rv_decode (LWU rd rs1 imm) = Some (Load 4 False rd rs1 (sext12 imm))"
  by (simp_all add: encoder_defs rv_format_defs bitfield_simps)

lemma rv_decode_stores [rv_decode_simps]:
  "rv_decode (SB rs1 rs2 off) = Some (Store 1 rs1 rs2 (sext12 (ucast off)))"
  "rv_decode (SH rs1 rs2 off) = Some (Store 2 rs1 rs2 (sext12 (ucast off)))"
  "rv_decode (SW rs1 rs2 off) = Some (Store 4 rs1 rs2 (sext12 (ucast off)))"
  "rv_decode (SD rs1 rs2 off) = Some (Store 8 rs1 rs2 (sext12 (ucast off)))"
  by (simp_all add: encoder_defs rv_format_defs bitfield_simps)

lemma rv_decode_immediate [rv_decode_simps]:
  "rv_decode (ADDI rd rs1 imm) = Some (OpImm aADD rd rs1 (sext12 imm))"
  "rv_decode (SLTI rd rs1 imm) = Some (OpImm aSLT rd rs1 (sext12 imm))"
  "rv_decode (SLTIU rd rs1 imm) = Some (OpImm aSLTU rd rs1 (sext12 imm))"
  "rv_decode (XORI rd rs1 imm) = Some (OpImm aXOR rd rs1 (sext12 imm))"
  "rv_decode (ORI rd rs1 imm) = Some (OpImm aOR rd rs1 (sext12 imm))"
  "rv_decode (ANDI rd rs1 imm) = Some (OpImm aAND rd rs1 (sext12 imm))"
  "rv_decode (SLLI rd rs1 sh) = Some (OpImm aSLL rd rs1 (ucast (sh AND 0x3f)))"
  "rv_decode (SRLI rd rs1 sh) = Some (OpImm aSRL rd rs1 (ucast (sh AND 0x3f)))"
  "rv_decode (SRAI rd rs1 sh) = Some (OpImm aSRA rd rs1 (ucast (sh AND 0x3f)))"
  by (simp_all add: encoder_defs rv_format_defs bitfield_simps)

lemma rv_decode_register [rv_decode_simps]:
  "rv_decode (ADD rd rs1 rs2) = Some (Op aADD rd rs1 rs2)"
  "rv_decode (SUB rd rs1 rs2) = Some (Op aSUB rd rs1 rs2)"
  "rv_decode (SLL rd rs1 rs2) = Some (Op aSLL rd rs1 rs2)"
  "rv_decode (SLT rd rs1 rs2) = Some (Op aSLT rd rs1 rs2)"
  "rv_decode (SLTU rd rs1 rs2) = Some (Op aSLTU rd rs1 rs2)"
  "rv_decode (XOR' rd rs1 rs2) = Some (Op aXOR rd rs1 rs2)"
  "rv_decode (SRL rd rs1 rs2) = Some (Op aSRL rd rs1 rs2)"
  "rv_decode (SRA rd rs1 rs2) = Some (Op aSRA rd rs1 rs2)"
  "rv_decode (OR' rd rs1 rs2) = Some (Op aOR rd rs1 rs2)"
  "rv_decode (AND' rd rs1 rs2) = Some (Op aAND rd rs1 rs2)"
  "rv_decode (MUL rd rs1 rs2) = Some (Op aMUL rd rs1 rs2)"
  "rv_decode (MULH rd rs1 rs2) = Some (Op aMULH rd rs1 rs2)"
  "rv_decode (MULHSU rd rs1 rs2) = Some (Op aMULHSU rd rs1 rs2)"
  "rv_decode (MULHU rd rs1 rs2) = Some (Op aMULHU rd rs1 rs2)"
  "rv_decode (DIV rd rs1 rs2) = Some (Op aDIV rd rs1 rs2)"
  "rv_decode (DIVU rd rs1 rs2) = Some (Op aDIVU rd rs1 rs2)"
  "rv_decode (REM rd rs1 rs2) = Some (Op aREM rd rs1 rs2)"
  "rv_decode (REMU rd rs1 rs2) = Some (Op aREMU rd rs1 rs2)"
  by (simp_all add: encoder_defs rv_format_defs bitfield_simps)

lemma rv_decode_word [rv_decode_simps]:
  "rv_decode (ADDW rd rs1 rs2) = Some (OpW aADD rd rs1 rs2)"
  "rv_decode (SUBW rd rs1 rs2) = Some (OpW aSUB rd rs1 rs2)"
  "rv_decode (SLLW rd rs1 rs2) = Some (OpW aSLL rd rs1 rs2)"
  "rv_decode (SRLW rd rs1 rs2) = Some (OpW aSRL rd rs1 rs2)"
  "rv_decode (SRAW rd rs1 rs2) = Some (OpW aSRA rd rs1 rs2)"
  "rv_decode (SLLIW rd rs1 sh) = Some (OpImmW aSLL rd rs1 (ucast (sh AND 0x1f)))"
  "rv_decode (SRLIW rd rs1 sh) = Some (OpImmW aSRL rd rs1 (ucast (sh AND 0x1f)))"
  "rv_decode (SRAIW rd rs1 sh) = Some (OpImmW aSRA rd rs1 (ucast (sh AND 0x1f)))"
  by (simp_all add: encoder_defs rv_format_defs bitfield_simps)

lemma rv_decode_ecall [rv_decode_simps]: "rv_decode ECALL = Some Ecall"
  by (simp add: encoder_defs itype_def IType_raw_def put_field_def rv_decode_def get_field_def Let_def)

lemma sext12_simps [simp]:
  "sext12 0 = 0" "sext12 1 = 1" "sext12 (- 1) = - 1"
proof -
  show "sext12 (- 1) = - 1"
    by (rule bit_word_eqI) (simp_all add: sext12_def bit_simps min_def)
qed (simp_all add: sext12_def)

text \<open>
  The pseudo instructions are defined by others in the source, so their decoding follows from the
  lemmas above; \<open>BGTZ\<close> decodes to a comparison for equality with zero.
\<close>

lemma rv_decode_pseudo [rv_decode_simps]:
  "rv_decode NOP = Some (OpImm aADD zero zero 0)"
  "rv_decode (MV rd rs) = Some (OpImm aADD rd rs 0)"
  "rv_decode (NOT' rd rs) = Some (OpImm aXOR rd rs (- 1))"
  "rv_decode (NEG rd rs) = Some (Op aSUB rd zero rs)"
  "rv_decode (SEQZ rd rs) = Some (OpImm aSLTU rd rs 1)"
  "rv_decode (SNEZ rd rs) = Some (Op aSLTU rd zero rs)"
  "rv_decode (SLTZ rd rs) = Some (Op aSLT rd rs zero)"
  "rv_decode (SGTZ rd rs) = Some (Op aSLT rd zero rs)"
  "rv_decode (BEQZ rs off) = Some (Branch cEQ rs zero (sext13 off))"
  "rv_decode (BNQZ rs off) = Some (Branch cNE rs zero (sext13 off))"
  "rv_decode (BLEZ rs off) = Some (Branch cGE zero rs (sext13 off))"
  "rv_decode (BGEZ rs off) = Some (Branch cGE rs zero (sext13 off))"
  "rv_decode (BLTZ rs off) = Some (Branch cLT rs zero (sext13 off))"
  "rv_decode (BGTZ rs off) = Some (Branch cEQ zero rs (sext13 off))"
  "rv_decode (BGT rs1 rs2 off) = Some (Branch cLT rs2 rs1 (sext13 off))"
  "rv_decode (BLE rs1 rs2 off) = Some (Branch cGE rs2 rs1 (sext13 off))"
  "rv_decode (BGTU rs1 rs2 off) = Some (Branch cLTU rs2 rs1 (sext13 off))"
  "rv_decode (BLEU rs1 rs2 off) = Some (Branch cGEU rs2 rs1 (sext13 off))"
  "rv_decode (J off) = Some (Jal zero (sext21 off))"
  by (simp_all add: rv_decode_simps NOP_def MV_def NOT'_def NEG_def SEQZ_def SNEZ_def SLTZ_def SGTZ_def
      BEQZ_def BNQZ_def BLEZ_def BGEZ_def BLTZ_def BGTZ_def BGT_def BLE_def BGTU_def BLEU_def J_def)

end
