(* ===== verification/Batch.thy ===== *)
theory Batch
  imports Encoding "HOL-Library.State_Monad"
begin

text \<open>
  The buffers that generated code is written to (\<^verbatim>\<open>codegen/code_batch.{h,cpp}\<close>). Generators see
  the interface \<^verbatim>\<open>CodeBatch\<close>: here a fault or the list of instructions written so far, on which
  \<open>emit\<close>, \<open>add\<close>, \<open>insert\<close> and \<open>offset\<close> act; once faulted a batch stays so, as the program does not
  return from \<^verbatim>\<open>fault_exit\<close>. \<open>CodeBatchImpl\<close> and \<open>CodeMemory\<close> are the bounded implementations;
  the locale \<open>code_writer\<close> is their contract and gives that writing a list of instructions to them
  succeeds exactly when it fits and stores that list.
\<close>

section \<open>The interface\<close>

text \<open>
  A method with a parameter \<^verbatim>\<open>CodeBatch& batch\<close> is a generator: a state transformer of the batch that
  may return a value, the register that holds a result for instance.
\<close>

type_synonym batch = "fault + u32 list"
type_synonym 'a gen = "(batch, 'a) state"

abbreviation ret :: "'a \<Rightarrow> 'a gen" where "ret \<equiv> State_Monad.return"
abbreviation skip :: "unit gen" where "skip \<equiv> ret ()"

definition fault_exit :: "fault \<Rightarrow> unit gen" where
  "fault_exit f = State (\<lambda>b. ((), case b of Inl e \<Rightarrow> Inl e | Inr c \<Rightarrow> Inl f))"

definition emit :: "u32 \<Rightarrow> unit gen" where
  "emit inst = State (\<lambda>b. ((), case b of Inl e \<Rightarrow> Inl e | Inr c \<Rightarrow> Inr (c @ [inst])))"

definition batch_size :: "nat gen" where
  "batch_size = State (\<lambda>b. (case b of Inl e \<Rightarrow> 0 | Inr c \<Rightarrow> length c, b))"

definition add :: "u32 \<Rightarrow> nat gen" where
  "add inst = do { n \<leftarrow> batch_size; emit inst; ret n }"

definition insert_at :: "nat \<Rightarrow> u32 \<Rightarrow> unit gen" where
  "insert_at index inst =
     State (\<lambda>b. ((), case b of Inl e \<Rightarrow> Inl e | Inr c \<Rightarrow> Inr (c[index := inst])))"

definition offset :: "nat \<Rightarrow> nat \<Rightarrow> u64" where
  "offset start end = of_nat end - of_nat start"

text \<open>Loops over a list that emit code, without and with a value carried along.\<close>

primrec for_each :: "'a list \<Rightarrow> ('a \<Rightarrow> unit gen) \<Rightarrow> unit gen" where
  "for_each [] g = skip"
| "for_each (x # xs) g = do { g x; for_each xs g }"

primrec fold_gen :: "('a \<Rightarrow> 'b \<Rightarrow> 'b gen) \<Rightarrow> 'a list \<Rightarrow> 'b \<Rightarrow> 'b gen" where
  "fold_gen g [] v = ret v"
| "fold_gen g (x # xs) v = do { w \<leftarrow> g x v; fold_gen g xs w }"

lemma fold_gen_snoc: "fold_gen g (xs @ [x]) v = do { w \<leftarrow> fold_gen g xs v; g x w }"
  by (induction xs arbitrary: v) simp_all

lemma emit_simps [simp]:
  "run_state (emit i) (Inl e) = ((), Inl e)"
  "run_state (emit i) (Inr c) = ((), Inr (c @ [i]))"
  by (simp_all add: emit_def)

lemma fault_exit_simps [simp]:
  "run_state (fault_exit f) (Inl e) = ((), Inl e)"
  "run_state (fault_exit f) (Inr c) = ((), Inl f)"
  by (simp_all add: fault_exit_def)

lemma batch_size_simps [simp]:
  "run_state batch_size (Inl e) = (0, Inl e)"
  "run_state batch_size (Inr c) = (length c, Inr c)"
  by (simp_all add: batch_size_def)

lemma add_simps [simp]:
  "run_state (add i) (Inl e) = (0, Inl e)"
  "run_state (add i) (Inr c) = (length c, Inr (c @ [i]))"
  by (simp_all add: add_def)

lemma insert_at_simps [simp]:
  "run_state (insert_at k i) (Inl e) = ((), Inl e)"
  "run_state (insert_at k i) (Inr c) = ((), Inr (c[k := i]))"
  by (simp_all add: insert_at_def)

text \<open>Emitting a list of instructions.\<close>

definition emits :: "u32 list \<Rightarrow> unit gen" where
  "emits is = for_each is emit"

lemma emits_Inr [simp]: "run_state (emits is) (Inr c) = ((), Inr (c @ is))"
  unfolding emits_def by (induction "is" arbitrary: c) simp_all

section \<open>The contract of a writer\<close>

locale code_writer =
  fixes add_to :: "u32 \<Rightarrow> 'b \<Rightarrow> fault + 'b"
    and insert_to :: "nat \<Rightarrow> u32 \<Rightarrow> 'b \<Rightarrow> 'b"
    and contents :: "'b \<Rightarrow> u32 list"
    and capacity :: "'b \<Rightarrow> nat"
    and writer_ok :: "'b \<Rightarrow> bool"
  assumes add_fits: "writer_ok b \<Longrightarrow> length (contents b) < capacity b \<Longrightarrow>
      \<exists>b'. add_to i b = Inr b' \<and> writer_ok b' \<and> contents b' = contents b @ [i] \<and>
        capacity b' = capacity b"
    and add_full: "writer_ok b \<Longrightarrow> capacity b \<le> length (contents b) \<Longrightarrow>
      \<exists>e. add_to i b = Inl e"
    and insert_inside: "writer_ok b \<Longrightarrow> k < length (contents b) \<Longrightarrow>
      writer_ok (insert_to k i b) \<and> contents (insert_to k i b) = (contents b)[k := i] \<and>
        capacity (insert_to k i b) = capacity b"
    and bounded: "writer_ok b \<Longrightarrow> length (contents b) \<le> capacity b"
begin

primrec write_all :: "u32 list \<Rightarrow> 'b \<Rightarrow> fault + 'b" where
  "write_all [] b = Inr b"
| "write_all (i # is) b = (case add_to i b of Inl e \<Rightarrow> Inl e | Inr b' \<Rightarrow> write_all is b')"

lemma write_all_fits:
  assumes "writer_ok b" "length (contents b) + length is \<le> capacity b"
  shows "\<exists>b'. write_all is b = Inr b' \<and> writer_ok b' \<and> contents b' = contents b @ is"
  using assms
proof (induction "is" arbitrary: b)
  case Nil
  then show ?case by simp
next
  case (Cons i js)
  then obtain b' where "add_to i b = Inr b'" "writer_ok b'" "contents b' = contents b @ [i]"
    "capacity b' = capacity b"
    using add_fits [of b i] by auto
  then show ?case
    using Cons.IH [of b'] Cons.prems by auto
qed

lemma write_all_overflows:
  assumes "writer_ok b" "capacity b < length (contents b) + length is"
  shows "\<exists>e. write_all is b = Inl e"
  using assms
proof (induction "is" arbitrary: b)
  case Nil
  then show ?case
    using bounded [of b] by simp
next
  case (Cons i js)
  show ?case
  proof (cases "length (contents b) < capacity b")
    case True
    then obtain b' where "add_to i b = Inr b'" "writer_ok b'" "contents b' = contents b @ [i]"
      "capacity b' = capacity b"
      using add_fits [of b i] Cons.prems by auto
    then show ?thesis
      using Cons.IH [of b'] Cons.prems by auto
  next
    case False
    then show ?thesis
      using add_full [of b i] Cons.prems by auto
  qed
qed

end

end
