(* ===== verification/Machine.thy ===== *)
theory Machine
  imports RiscV Batch
begin

text \<open>
  Execution of RV64IM code. \<open>rv_seq\<close> is the effect of an instruction that only changes registers and
  memory, \<open>rv_straight\<close> runs straight-line code, and \<open>rv_run\<close> runs a block with branches and with
  calls into the jump table, whose routines are an environment \<open>env\<close> of the run. Fuel counts
  instructions; \<open>rv_run_mono\<close> says that more fuel never changes a result.
\<close>

section \<open>Arithmetic\<close>

definition alu :: "alu_op \<Rightarrow> u64 \<Rightarrow> u64 \<Rightarrow> u64" where
  "alu op x y = (case op of
     aADD \<Rightarrow> x + y
   | aSUB \<Rightarrow> x - y
   | aSLL \<Rightarrow> push_bit (unat (y AND 0x3f)) x
   | aSLT \<Rightarrow> of_bool (sint x < sint y)
   | aSLTU \<Rightarrow> of_bool (x < y)
   | aXOR \<Rightarrow> x XOR y
   | aSRL \<Rightarrow> drop_bit (unat (y AND 0x3f)) x
   | aSRA \<Rightarrow> signed_drop_bit (unat (y AND 0x3f)) x
   | aOR \<Rightarrow> x OR y
   | aAND \<Rightarrow> x AND y
   | aMUL \<Rightarrow> x * y
   | aMULH \<Rightarrow> word_of_int ((sint x * sint y) div 2 ^ 64)
   | aMULHSU \<Rightarrow> word_of_int ((sint x * uint y) div 2 ^ 64)
   | aMULHU \<Rightarrow> word_of_int ((uint x * uint y) div 2 ^ 64)
   | aDIV \<Rightarrow> if y = 0 then - 1 else word_of_int (sint x sdiv sint y)
   | aDIVU \<Rightarrow> if y = 0 then - 1 else x div y
   | aREM \<Rightarrow> if y = 0 then x else word_of_int (sint x smod sint y)
   | aREMU \<Rightarrow> if y = 0 then x else x mod y)"

definition aluw :: "alu_op \<Rightarrow> u64 \<Rightarrow> u64 \<Rightarrow> u64" where
  "aluw op x y = (case op of
     aSUB \<Rightarrow> sext32 (x - y)
   | aSLL \<Rightarrow> sext32 (push_bit (unat (y AND 0x1f)) x)
   | aSRL \<Rightarrow> sext32 (drop_bit (unat (y AND 0x1f)) (take_bit 32 x))
   | aSRA \<Rightarrow> signed_drop_bit (unat (y AND 0x1f)) (sext32 x)
   | _ \<Rightarrow> sext32 (x + y))"

lemma alu_simps [rv_simps]:
  "alu aADD x y = x + y"
  "alu aSUB x y = x - y"
  "alu aSLL x y = push_bit (unat (y AND 0x3f)) x"
  "alu aSLT x y = of_bool (sint x < sint y)"
  "alu aSLTU x y = of_bool (x < y)"
  "alu aXOR x y = x XOR y"
  "alu aSRL x y = drop_bit (unat (y AND 0x3f)) x"
  "alu aSRA x y = signed_drop_bit (unat (y AND 0x3f)) x"
  "alu aOR x y = x OR y"
  "alu aAND x y = x AND y"
  "alu aMUL x y = x * y"
  "aluw aADD x y = sext32 (x + y)"
  "aluw aSUB x y = sext32 (x - y)"
  by (simp_all add: alu_def aluw_def)

section \<open>State\<close>

record rv_state =
  rv_regs :: "RiscVRegister \<Rightarrow> u64"
  rv_mem :: memory

definition rget :: "RiscVRegister \<Rightarrow> rv_state \<Rightarrow> u64" where
  "rget r s = (if r = zero then 0 else rv_regs s r)"

definition rset :: "RiscVRegister \<Rightarrow> u64 \<Rightarrow> rv_state \<Rightarrow> rv_state" where
  "rset r v s = (if r = zero then s else s\<lparr>rv_regs := (rv_regs s)(r := v)\<rparr>)"

definition load :: "nat \<Rightarrow> u64 \<Rightarrow> rv_state \<Rightarrow> u64" where
  "load n a s = mload n (rv_mem s) a"

definition store :: "nat \<Rightarrow> u64 \<Rightarrow> u64 \<Rightarrow> rv_state \<Rightarrow> rv_state" where
  "store n a v s = s\<lparr>rv_mem := mstore n (rv_mem s) a v\<rparr>"

lemma rget_zero [rv_simps]: "rget zero s = 0"
  by (simp add: rget_def)

lemma rget_rset [rv_simps]: "rget r (rset r' v s) = (if r = r' \<and> r \<noteq> zero then v else rget r s)"
  by (simp add: rget_def rset_def)

lemma rget_store [rv_simps]: "rget r (store n a v s) = rget r s"
  by (simp add: rget_def store_def)

lemma load_rset [rv_simps]: "load n a (rset r v s) = load n a s"
  by (simp add: load_def rset_def)

lemma store_rset: "store n a v (rset r w s) = rset r w (store n a v s)"
  by (simp add: store_def rset_def)

lemma rset_zero [rv_simps]: "rset zero v s = s"
  by (simp add: rset_def)

lemma rset_rset [rv_simps]: "rset r v (rset r w s) = rset r v s"
  by (simp add: rset_def)

lemma rset_rget [rv_simps]: "rset r (rget r s) s = s"
  by (simp add: rset_def rget_def)

lemma rset_commute: "r \<noteq> r' \<Longrightarrow> rset r v (rset r' w s) = rset r' w (rset r v s)"
  by (simp add: rset_def fun_upd_twist)

lemma rv_mem_rset [rv_simps]: "rv_mem (rset r v s) = rv_mem s"
  by (simp add: rset_def)

lemma rv_mem_store [rv_simps]: "rv_mem (store n a v s) = mstore n (rv_mem s) a v"
  by (simp add: store_def)

lemma load_store_same: "k \<le> n \<Longrightarrow> load k a (store n a v s) = take_bit (8 * k) v"
  by (simp add: load_def store_def mem_simps)

lemma load_store_disjoint:
  "n \<le> unat (b - a) \<Longrightarrow> k \<le> unat (a - b) \<Longrightarrow> load k b (store n a v s) = load k b s"
  by (simp add: load_def store_def mem_simps)

lemma rv_state_eqI:
  assumes "\<And>r. r \<noteq> zero \<Longrightarrow> rget r s = rget r t" "rv_regs s zero = rv_regs t zero"
    "rv_mem s = rv_mem t"
  shows "s = t"
proof -
  have "rv_regs s = rv_regs t"
    using assms(1,2) by (intro ext) (metis rget_def)
  then show ?thesis
    using assms(3) by (simp add: rv_state.equality)
qed

text \<open>Immediates that occur as literals.\<close>

lemma sext12_numeral [rv_simps]:
  "sext12 (numeral n) = signed_take_bit 11 (ucast (numeral n :: u16))"
  "sext12 (- numeral n) = signed_take_bit 11 (ucast (- numeral n :: u16))"
  by (simp_all add: sext12_def)

section \<open>Straight-line code\<close>

definition load_extend :: "bool \<Rightarrow> nat \<Rightarrow> u64 \<Rightarrow> u64" where
  "load_extend sg n v = (if sg \<and> n < 8 then signed_take_bit (8 * n - 1) v else v)"

lemma load_extend_simps [rv_simps]:
  "load_extend False n v = v"
  "load_extend True 8 v = v"
  "load_extend True (Suc 0) v = signed_take_bit 7 v"
  "load_extend True 2 v = signed_take_bit 15 v"
  "load_extend True 4 v = signed_take_bit 31 v"
  by (simp_all add: load_extend_def)

fun rv_seq :: "rv_instr \<Rightarrow> rv_state \<Rightarrow> rv_state option" where
  "rv_seq (Lui rd imm) s = Some (rset rd imm s)"
| "rv_seq (Load n sg rd rs imm) s = Some (rset rd (load_extend sg n (load n (rget rs s + imm) s)) s)"
| "rv_seq (Store n rs1 rs2 imm) s = Some (store n (rget rs1 s + imm) (rget rs2 s) s)"
| "rv_seq (OpImm op rd rs imm) s = Some (rset rd (alu op (rget rs s) imm) s)"
| "rv_seq (Op op rd rs1 rs2) s = Some (rset rd (alu op (rget rs1 s) (rget rs2 s)) s)"
| "rv_seq (OpImmW op rd rs imm) s = Some (rset rd (aluw op (rget rs s) imm) s)"
| "rv_seq (OpW op rd rs1 rs2) s = Some (rset rd (aluw op (rget rs1 s) (rget rs2 s)) s)"
| "rv_seq _ s = None"

definition rv_step :: "u32 \<Rightarrow> rv_state \<Rightarrow> rv_state option" where
  "rv_step w s = Option.bind (rv_decode w) (\<lambda>i. rv_seq i s)"

primrec rv_straight :: "u32 list \<Rightarrow> rv_state \<Rightarrow> rv_state option" where
  "rv_straight [] s = Some s"
| "rv_straight (w # ws) s = Option.bind (rv_step w s) (rv_straight ws)"

primrec rv_seqs :: "rv_instr list \<Rightarrow> rv_state \<Rightarrow> rv_state option" where
  "rv_seqs [] s = Some s"
| "rv_seqs (i # is) s = Option.bind (rv_seq i s) (rv_seqs is)"

lemma rv_straight_append [rv_simps]:
  "rv_straight (xs @ ys) s = Option.bind (rv_straight xs s) (rv_straight ys)"
  by (induction xs arbitrary: s) (simp_all split: Option.bind_split)

text \<open>
  \<open>runs g s t\<close>: the generator \<open>g\<close> only appends to the batch, and the code it appends takes \<open>s\<close> to
  \<open>t\<close>; \<open>runs_val g s r t\<close> is the same for a generator that also returns a value \<open>r\<close>. Both compose
  as the generators do, so a proof about a generator goes through its parts in order.
\<close>

definition runs_val :: "'a gen \<Rightarrow> rv_state \<Rightarrow> 'a \<Rightarrow> rv_state \<Rightarrow> bool" where
  "runs_val g s r t \<longleftrightarrow>
     (\<exists>code. (\<forall>c. run_state g (Inr c) = (r, Inr (c @ code))) \<and> rv_straight code s = Some t)"

definition runs :: "unit gen \<Rightarrow> rv_state \<Rightarrow> rv_state \<Rightarrow> bool" where
  "runs g s t \<longleftrightarrow> runs_val g s () t"

lemma runs_iff:
  "runs g s t \<longleftrightarrow>
     (\<exists>code. (\<forall>c. run_state g (Inr c) = ((), Inr (c @ code))) \<and> rv_straight code s = Some t)"
  by (simp add: runs_def runs_val_def)

lemma runs_emit: "rv_step w s = Some t \<Longrightarrow> runs (emit w) s t"
  unfolding runs_iff by (rule exI [of _ "[w]"]) simp

lemma runs_val_ret: "runs_val (ret r) s r s"
  unfolding runs_val_def by (rule exI [of _ "[]"]) simp

lemma runs_skip: "runs skip s s"
  unfolding runs_def by (rule runs_val_ret)

lemma runs_val_bind:
  assumes "runs_val g s r t" "runs_val (f r) t r' u"
  shows "runs_val (g \<bind> f) s r' u"
proof -
  obtain c1 c2 where "\<forall>c. run_state g (Inr c) = (r, Inr (c @ c1))" "rv_straight c1 s = Some t"
    "\<forall>c. run_state (f r) (Inr c) = (r', Inr (c @ c2))" "rv_straight c2 t = Some u"
    using assms by (auto simp: runs_val_def)
  then show ?thesis
    unfolding runs_val_def by (intro exI [of _ "c1 @ c2"]) (simp add: rv_straight_append)
qed

lemma runs_bind: "runs_val g s r t \<Longrightarrow> runs (f r) t u \<Longrightarrow> runs (g \<bind> f) s u"
  unfolding runs_def by (rule runs_val_bind)

lemma runs_comp: "runs g s t \<Longrightarrow> runs h t u \<Longrightarrow> runs (g \<then> h) s u"
  unfolding runs_def by (rule runs_val_bind)

lemma runs_val_pre: "runs g s t \<Longrightarrow> runs_val h t r u \<Longrightarrow> runs_val (g \<then> h) s r u"
  unfolding runs_def by (rule runs_val_bind)

lemma runs_val_returning: "runs g s t \<Longrightarrow> runs_val (g \<then> ret r) s r t"
  by (rule runs_val_pre [OF _ runs_val_ret])

lemma runs_emit_comp:
  "rv_step w s = Some t \<Longrightarrow> runs h t u \<Longrightarrow> runs (emit w \<then> h) s u"
  by (rule runs_comp) (auto intro: runs_emit)

lemma runs_val_emit_comp:
  "rv_step w s = Some t \<Longrightarrow> runs_val h t r u \<Longrightarrow> runs_val (emit w \<then> h) s r u"
  by (rule runs_val_pre) (auto intro: runs_emit)

lemmas runs_intros = runs_emit_comp runs_val_emit_comp runs_emit runs_skip runs_val_ret

lemma runs_val_deterministic:
  assumes "runs_val g s r t" "runs_val g s r' u"
  shows "r = r'" "t = u"
proof -
  obtain c1 c2 where c: "\<forall>c. run_state g (Inr c) = (r, Inr (c @ c1))" "rv_straight c1 s = Some t"
    "\<forall>c. run_state g (Inr c) = (r', Inr (c @ c2))" "rv_straight c2 s = Some u"
    using assms by (auto simp: runs_val_def)
  then have "(r, Inr c1) = (r', Inr c2 :: batch)"
    by (metis append_Nil)
  then show "r = r'" "t = u"
    using c by simp_all
qed

lemma runs_deterministic: "runs g s t \<Longrightarrow> runs g s u \<Longrightarrow> t = u"
  unfolding runs_def by (rule runs_val_deterministic)

text \<open>Registers outside \<open>R\<close> and memory are as before.\<close>

definition keeps :: "RiscVRegister set \<Rightarrow> rv_state \<Rightarrow> rv_state \<Rightarrow> bool" where
  "keeps R s t \<longleftrightarrow> rv_mem t = rv_mem s \<and> (\<forall>r. r \<notin> R \<longrightarrow> rget r t = rget r s)"

lemma keeps_refl [simp]: "keeps R s s"
  by (simp add: keeps_def)

lemma keeps_trans: "keeps R s t \<Longrightarrow> keeps R' t u \<Longrightarrow> keeps (R \<union> R') s u"
  by (simp add: keeps_def)

lemma keeps_mono: "keeps R s t \<Longrightarrow> R \<subseteq> R' \<Longrightarrow> keeps R' s t"
  by (auto simp: keeps_def)

lemma keeps_rset [rv_simps]: "r \<in> R \<Longrightarrow> keeps R s (rset r v t) \<longleftrightarrow> keeps R s t"
  by (auto simp: keeps_def rget_rset rv_mem_rset)

lemma keeps_rget: "keeps R s t \<Longrightarrow> r \<notin> R \<Longrightarrow> rget r t = rget r s"
  by (simp add: keeps_def)

lemma keeps_load: "keeps R s t \<Longrightarrow> load n a t = load n a s"
  by (simp add: keeps_def load_def)

lemmas [rv_simps] = rv_step_def rv_decode_simps

section \<open>Blocks with branches and calls\<close>

definition rv_cond :: "rv_cond \<Rightarrow> u64 \<Rightarrow> u64 \<Rightarrow> bool" where
  "rv_cond c x y = (case c of
     cEQ \<Rightarrow> x = y
   | cNE \<Rightarrow> x \<noteq> y
   | cLT \<Rightarrow> sint x < sint y
   | cGE \<Rightarrow> sint y \<le> sint x
   | cLTU \<Rightarrow> x < y
   | cGEU \<Rightarrow> y \<le> x)"

lemma rv_cond_simps [rv_simps]:
  "rv_cond cEQ x y \<longleftrightarrow> x = y"
  "rv_cond cNE x y \<longleftrightarrow> x \<noteq> y"
  "rv_cond cLT x y \<longleftrightarrow> sint x < sint y"
  "rv_cond cGE x y \<longleftrightarrow> sint y \<le> sint x"
  "rv_cond cLTU x y \<longleftrightarrow> x < y"
  "rv_cond cGEU x y \<longleftrightarrow> y \<le> x"
  by (simp_all add: rv_cond_def)

text \<open>
  A branch at index \<open>i\<close> of a block moves by \<open>off div 4\<close> instructions. A call \<open>JALR ra\<close> either is a
  routine of the environment, which returns to the next instruction, or leaves the block for good;
  every other \<open>JALR\<close> leaves the block.
\<close>

definition branch_index :: "nat \<Rightarrow> u64 \<Rightarrow> nat" where
  "branch_index i off = nat (int i + sint off div 4)"

datatype rv_exit = Fallthrough | Jumped u64

type_synonym rv_env = "u64 \<Rightarrow> rv_state \<Rightarrow> rv_state option"

datatype rv_outcome = Continue nat rv_state | Leave rv_exit rv_state | Stuck

definition rv_control :: "rv_env \<Rightarrow> u64 \<Rightarrow> nat \<Rightarrow> rv_instr \<Rightarrow> rv_state \<Rightarrow> rv_outcome" where
  "rv_control env base i ins s = (let link = base + 4 * of_nat (Suc i) in
     case ins of
       Branch c r1 r2 off \<Rightarrow>
         Continue (if rv_cond c (rget r1 s) (rget r2 s) then branch_index i off else Suc i) s
     | Jal rd off \<Rightarrow> Continue (branch_index i off) (rset rd link s)
     | Auipc rd off \<Rightarrow> Continue (Suc i) (rset rd (base + 4 * of_nat i + off) s)
     | Jalr rd r off \<Rightarrow>
         (let target = (rget r s + off) AND NOT 1; s' = rset rd link s in
          case (if rd = zero then None else env target s') of
            Some t \<Rightarrow> Continue (Suc i) t
          | None \<Rightarrow> Leave (Jumped target) s')
     | _ \<Rightarrow> (case rv_seq ins s of Some t \<Rightarrow> Continue (Suc i) t | None \<Rightarrow> Stuck))"

definition rv_block_step :: "rv_env \<Rightarrow> u64 \<Rightarrow> u32 list \<Rightarrow> nat \<Rightarrow> rv_state \<Rightarrow> rv_outcome" where
  "rv_block_step env base code i s =
     (if i = length code then Leave Fallthrough s
      else if length code < i then Stuck
      else case rv_decode (code ! i) of
        Some ins \<Rightarrow> rv_control env base i ins s
      | None \<Rightarrow> Stuck)"

primrec rv_run :: "rv_env \<Rightarrow> u64 \<Rightarrow> u32 list \<Rightarrow> nat \<Rightarrow> nat \<Rightarrow> rv_state \<Rightarrow> (rv_exit \<times> rv_state) option" where
  "rv_run env base code 0 i s = None"
| "rv_run env base code (Suc fuel) i s = (case rv_block_step env base code i s of
       Continue j t \<Rightarrow> rv_run env base code fuel j t
     | Leave e t \<Rightarrow> Some (e, t)
     | Stuck \<Rightarrow> None)"

lemma rv_run_mono:
  "rv_run env base code fuel i s = Some res \<Longrightarrow> fuel \<le> fuel' \<Longrightarrow>
   rv_run env base code fuel' i s = Some res"
proof (induction fuel arbitrary: fuel' i s)
  case 0
  then show ?case by simp
next
  case (Suc fuel)
  then obtain k where k: "fuel' = Suc k" "fuel \<le> k"
    by (cases fuel') auto
  then show ?case
    using Suc by (auto split: rv_outcome.splits)
qed

lemma rv_control_simps [rv_simps]:
  "rv_control env base i (Branch c r1 r2 off) s =
     Continue (if rv_cond c (rget r1 s) (rget r2 s) then branch_index i off else Suc i) s"
  "rv_control env base i (Jal rd off) s =
     Continue (branch_index i off) (rset rd (base + 4 * of_nat (Suc i)) s)"
  "rv_control env base i (Auipc rd off) s = Continue (Suc i) (rset rd (base + 4 * of_nat i + off) s)"
  "rv_control env base i (Jalr zero r off) s = Leave (Jumped ((rget r s + off) AND NOT 1)) s"
  by (simp_all add: rv_control_def Let_def rset_zero)

lemma rv_control_call [rv_simps]:
  "rd \<noteq> zero \<Longrightarrow>
   env ((rget r s + off) AND NOT 1) (rset rd (base + 4 * of_nat (Suc i)) s) = Some t \<Longrightarrow>
   rv_control env base i (Jalr rd r off) s = Continue (Suc i) t"
  by (simp add: rv_control_def Let_def)

text \<open>Straight-line code at an index of a block runs as \<open>rv_straight\<close> does.\<close>

lemma rv_control_seq [rv_simps]:
  "rv_seq ins s = Some t \<Longrightarrow> rv_control env base i ins s = Continue (Suc i) t"
  by (cases ins) (simp_all add: rv_control_def Let_def)

lemma rv_run_step:
  assumes "i < length code" "rv_step (code ! i) s = Some t"
  shows "rv_run env base code (Suc fuel) i s = rv_run env base code fuel (Suc i) t"
  using assms by (auto simp: rv_step_def rv_block_step_def bind_eq_Some_conv rv_control_seq)

lemma rv_run_straight:
  assumes "rv_straight xs s = Some t"
  shows "rv_run env base (pre @ xs @ post) (length xs + fuel) (length pre) s =
         rv_run env base (pre @ xs @ post) fuel (length pre + length xs) t"
  using assms
proof (induction xs arbitrary: pre s)
  case Nil
  then show ?case by simp
next
  case (Cons w ws)
  then obtain u where u: "rv_step w s = Some u" "rv_straight ws u = Some t"
    by (auto simp: bind_eq_Some_conv)
  have "rv_run env base (pre @ (w # ws) @ post) (Suc (length ws + fuel)) (length pre) s =
        rv_run env base (pre @ (w # ws) @ post) (length ws + fuel) (Suc (length pre)) u"
    by (rule rv_run_step) (simp_all add: u)
  also have "\<dots> = rv_run env base ((pre @ [w]) @ ws @ post) (length ws + fuel) (length (pre @ [w])) u"
    by simp
  also have "\<dots> = rv_run env base (pre @ (w # ws) @ post) fuel (length pre + length (w # ws)) t"
    using Cons.IH [OF u(2), of "pre @ [w]"] by simp
  finally show ?case by simp
qed

end
