(* ===== verification/Flags.thy ===== *)
theory Flags
  imports Prelude
begin

text \<open>
  The status flags (\<^verbatim>\<open>codegen/flags.h\<close>): the bits of a flag set, and where the execution context
  keeps what the lazily evaluated flags are computed from (offsets from the context address in
  \<open>s11\<close>). Flag sets are \<^verbatim>\<open>uint8_t\<close> masks.
\<close>

definition flags_none :: u8 where "flags_none = 0x00"
definition flags_carry :: u8 where "flags_carry = 0x01"
definition flags_zero :: u8 where "flags_zero = 0x02"
definition flags_sign :: u8 where "flags_sign = 0x04"
definition flags_overflow :: u8 where "flags_overflow = 0x08"
definition flags_parity :: u8 where "flags_parity = 0x10"

definition flags_all :: u8 where
  "flags_all = flags_carry OR flags_zero OR flags_sign OR flags_overflow OR flags_parity"

lemmas flags_defs = flags_none_def flags_carry_def flags_zero_def flags_sign_def flags_overflow_def
  flags_parity_def flags_all_def

lemma flags_all_value: "flags_all = 0x1f"
  by (simp add: flags_defs)

definition flag_info_offset :: nat where "flag_info_offset = 0x200"
definition zero_value_offset :: nat where "zero_value_offset = flag_info_offset + 8 * 0"
definition sign_value_offset :: nat where "sign_value_offset = flag_info_offset + 8 * 1"
definition overflow_values_offset :: nat where "overflow_values_offset = flag_info_offset + 8 * 2"
definition carry_values_offset :: nat where "carry_values_offset = flag_info_offset + 8 * 4"
definition overflow_ptr_offset :: nat where "overflow_ptr_offset = flag_info_offset + 8 * 6"
definition carry_ptr_offset :: nat where "carry_ptr_offset = flag_info_offset + 8 * 7"
definition overflow_operation_offset :: nat where
  "overflow_operation_offset = flag_info_offset + 8 * 8"
definition carry_operation_offset :: nat where
  "carry_operation_offset = flag_info_offset + 8 * 8 + 2"
definition sign_size_offset :: nat where
  "sign_size_offset = flag_info_offset + 8 * 8 + 2 * 2"
definition parity_value_offset :: nat where
  "parity_value_offset = flag_info_offset + 8 * 8 + 2 * 2 + 1"

lemmas flag_offsets = zero_value_offset_def sign_value_offset_def overflow_values_offset_def
  carry_values_offset_def overflow_ptr_offset_def carry_ptr_offset_def
  overflow_operation_offset_def carry_operation_offset_def sign_size_offset_def
  parity_value_offset_def flag_info_offset_def

text \<open>Segment bases in the execution context (\<^verbatim>\<open>dispatcher/execution_context.h\<close>).\<close>

definition fs_offset :: u16 where "fs_offset = 0x248"
definition gs_offset :: u16 where "gs_offset = 0x250"

end
