(* ===== verification/JumpTable.thy ===== *)
theory JumpTable
  imports Machine Flags
begin

text \<open>
  The jump table (\<^verbatim>\<open>codegen/jump-table/jump_table.{h,cpp,s}\<close>) and the generators of jumps into it.
  An entry is its number; the table holds one 4-byte jump per entry, so entry \<open>e\<close> is entered at
  \<open>4 * e\<close> bytes past the address in \<open>s10\<close>. The evaluation routines that the table's carry and
  overflow entries lead to (\<^verbatim>\<open>flags_carry.inc.s\<close>, \<^verbatim>\<open>flags_overflow.inc.s\<close>) are instruction lists of
  the machine, up to their final return; \<open>jt_env\<close> is the table as an environment of \<open>rv_run\<close>.
\<close>

section \<open>Entries\<close>

type_synonym Entry = u16

definition Entry_virtual_syscall :: Entry where "Entry_virtual_syscall = 0"
definition Entry_reroute_static :: Entry where "Entry_reroute_static = 1"
definition Entry_reroute_dynamic :: Entry where "Entry_reroute_dynamic = 2"
definition Entry_reroute_return :: Entry where "Entry_reroute_return = 3"
definition Entry_debug_callback :: Entry where "Entry_debug_callback = 4"
definition Entry_debug_callback_riscv :: Entry where "Entry_debug_callback_riscv = 5"
definition Entry_c_wrapper :: Entry where "Entry_c_wrapper = 6"
definition Entry_unsupported_instruction :: Entry where "Entry_unsupported_instruction = 7"
definition Entry_unsupported_carry :: Entry where "Entry_unsupported_carry = 8"
definition Entry_unsupported_overflow :: Entry where "Entry_unsupported_overflow = 9"
definition Entry_high_level_carry :: Entry where "Entry_high_level_carry = 10"
definition Entry_high_level_overflow :: Entry where "Entry_high_level_overflow = 11"
definition Entry_carry_clear :: Entry where "Entry_carry_clear = 12"
definition Entry_carry_set :: Entry where "Entry_carry_set = 13"
definition Entry_overflow_clear :: Entry where "Entry_overflow_clear = 14"
definition Entry_overflow_set :: Entry where "Entry_overflow_set = 15"
definition Entry_carry_add :: Entry where "Entry_carry_add = 16"
definition Entry_carry_add_8 :: Entry where "Entry_carry_add_8 = 16"
definition Entry_carry_add_16 :: Entry where "Entry_carry_add_16 = 17"
definition Entry_carry_add_32 :: Entry where "Entry_carry_add_32 = 18"
definition Entry_carry_add_64 :: Entry where "Entry_carry_add_64 = 19"
definition Entry_carry_adc :: Entry where "Entry_carry_adc = 20"
definition Entry_carry_adc_8 :: Entry where "Entry_carry_adc_8 = 20"
definition Entry_carry_adc_16 :: Entry where "Entry_carry_adc_16 = 21"
definition Entry_carry_adc_32 :: Entry where "Entry_carry_adc_32 = 22"
definition Entry_carry_adc_64 :: Entry where "Entry_carry_adc_64 = 23"
definition Entry_carry_neg :: Entry where "Entry_carry_neg = 24"
definition Entry_carry_neg_8 :: Entry where "Entry_carry_neg_8 = 24"
definition Entry_carry_neg_16 :: Entry where "Entry_carry_neg_16 = 25"
definition Entry_carry_neg_32 :: Entry where "Entry_carry_neg_32 = 26"
definition Entry_carry_neg_64 :: Entry where "Entry_carry_neg_64 = 27"
definition Entry_overflow_add :: Entry where "Entry_overflow_add = 28"
definition Entry_overflow_add_8 :: Entry where "Entry_overflow_add_8 = 28"
definition Entry_overflow_add_16 :: Entry where "Entry_overflow_add_16 = 29"
definition Entry_overflow_add_32 :: Entry where "Entry_overflow_add_32 = 30"
definition Entry_overflow_add_64 :: Entry where "Entry_overflow_add_64 = 31"
definition Entry_overflow_adc :: Entry where "Entry_overflow_adc = 32"
definition Entry_overflow_adc_8 :: Entry where "Entry_overflow_adc_8 = 32"
definition Entry_overflow_adc_16 :: Entry where "Entry_overflow_adc_16 = 33"
definition Entry_overflow_adc_32 :: Entry where "Entry_overflow_adc_32 = 34"
definition Entry_overflow_adc_64 :: Entry where "Entry_overflow_adc_64 = 35"
definition Entry_overflow_add_pos :: Entry where "Entry_overflow_add_pos = 36"
definition Entry_overflow_add_pos_8 :: Entry where "Entry_overflow_add_pos_8 = 36"
definition Entry_overflow_add_pos_16 :: Entry where "Entry_overflow_add_pos_16 = 37"
definition Entry_overflow_add_pos_32 :: Entry where "Entry_overflow_add_pos_32 = 38"
definition Entry_overflow_add_pos_64 :: Entry where "Entry_overflow_add_pos_64 = 39"
definition Entry_overflow_add_neg :: Entry where "Entry_overflow_add_neg = 40"
definition Entry_overflow_add_neg_8 :: Entry where "Entry_overflow_add_neg_8 = 40"
definition Entry_overflow_add_neg_16 :: Entry where "Entry_overflow_add_neg_16 = 41"
definition Entry_overflow_add_neg_32 :: Entry where "Entry_overflow_add_neg_32 = 42"
definition Entry_overflow_add_neg_64 :: Entry where "Entry_overflow_add_neg_64 = 43"
definition Entry_overflow_sub :: Entry where "Entry_overflow_sub = 44"
definition Entry_overflow_sub_8 :: Entry where "Entry_overflow_sub_8 = 44"
definition Entry_overflow_sub_16 :: Entry where "Entry_overflow_sub_16 = 45"
definition Entry_overflow_sub_32 :: Entry where "Entry_overflow_sub_32 = 46"
definition Entry_overflow_sub_64 :: Entry where "Entry_overflow_sub_64 = 47"
definition Entry_overflow_inc :: Entry where "Entry_overflow_inc = 48"
definition Entry_overflow_inc_8 :: Entry where "Entry_overflow_inc_8 = 48"
definition Entry_overflow_inc_16 :: Entry where "Entry_overflow_inc_16 = 49"
definition Entry_overflow_inc_32 :: Entry where "Entry_overflow_inc_32 = 50"
definition Entry_overflow_inc_64 :: Entry where "Entry_overflow_inc_64 = 51"
definition Entry_overflow_dec :: Entry where "Entry_overflow_dec = 52"
definition Entry_overflow_neg :: Entry where "Entry_overflow_neg = 52"
definition Entry_overflow_dec_neg_8 :: Entry where "Entry_overflow_dec_neg_8 = 52"
definition Entry_overflow_dec_neg_16 :: Entry where "Entry_overflow_dec_neg_16 = 53"
definition Entry_overflow_dec_neg_32 :: Entry where "Entry_overflow_dec_neg_32 = 54"
definition Entry_overflow_dec_neg_64 :: Entry where "Entry_overflow_dec_neg_64 = 55"

lemmas Entry_defs =
  Entry_virtual_syscall_def Entry_reroute_static_def Entry_reroute_dynamic_def
  Entry_reroute_return_def Entry_debug_callback_def Entry_debug_callback_riscv_def
  Entry_c_wrapper_def Entry_unsupported_instruction_def Entry_unsupported_carry_def
  Entry_unsupported_overflow_def Entry_high_level_carry_def Entry_high_level_overflow_def
  Entry_carry_clear_def Entry_carry_set_def Entry_overflow_clear_def Entry_overflow_set_def
  Entry_carry_add_def Entry_carry_add_8_def Entry_carry_add_16_def Entry_carry_add_32_def
  Entry_carry_add_64_def Entry_carry_adc_def Entry_carry_adc_8_def Entry_carry_adc_16_def
  Entry_carry_adc_32_def Entry_carry_adc_64_def Entry_carry_neg_def Entry_carry_neg_8_def
  Entry_carry_neg_16_def Entry_carry_neg_32_def Entry_carry_neg_64_def Entry_overflow_add_def
  Entry_overflow_add_8_def Entry_overflow_add_16_def Entry_overflow_add_32_def
  Entry_overflow_add_64_def Entry_overflow_adc_def Entry_overflow_adc_8_def
  Entry_overflow_adc_16_def Entry_overflow_adc_32_def Entry_overflow_adc_64_def
  Entry_overflow_add_pos_def Entry_overflow_add_pos_8_def Entry_overflow_add_pos_16_def
  Entry_overflow_add_pos_32_def Entry_overflow_add_pos_64_def Entry_overflow_add_neg_def
  Entry_overflow_add_neg_8_def Entry_overflow_add_neg_16_def Entry_overflow_add_neg_32_def
  Entry_overflow_add_neg_64_def Entry_overflow_sub_def Entry_overflow_sub_8_def
  Entry_overflow_sub_16_def Entry_overflow_sub_32_def Entry_overflow_sub_64_def
  Entry_overflow_inc_def Entry_overflow_inc_8_def Entry_overflow_inc_16_def
  Entry_overflow_inc_32_def Entry_overflow_inc_64_def Entry_overflow_dec_def
  Entry_overflow_neg_def Entry_overflow_dec_neg_8_def Entry_overflow_dec_neg_16_def
  Entry_overflow_dec_neg_32_def Entry_overflow_dec_neg_64_def

section \<open>Evaluation routines\<close>

definition carry_clear :: "rv_instr list" where
  "carry_clear =
    [OpImm aADD t4 zero 0]"

definition carry_set :: "rv_instr list" where
  "carry_set =
    [OpImm aADD t4 zero 1]"

definition carry_add_8 :: "rv_instr list" where
  "carry_add_8 =
    [Load 1 False t4 s11 0x220,
     Load 1 False t5 s11 0x228,
     Op aSLTU t4 t5 t4]"

definition carry_add_16 :: "rv_instr list" where
  "carry_add_16 =
    [Load 2 False t4 s11 0x220,
     Load 2 False t5 s11 0x228,
     Op aSLTU t4 t5 t4]"

definition carry_add_32 :: "rv_instr list" where
  "carry_add_32 =
    [Load 4 False t4 s11 0x220,
     Load 4 False t5 s11 0x228,
     Op aSLTU t4 t5 t4]"

definition carry_add_64 :: "rv_instr list" where
  "carry_add_64 =
    [Load 8 False t4 s11 0x220,
     Load 8 False t5 s11 0x228,
     Op aSLTU t4 t5 t4]"

definition carry_adc_8 :: "rv_instr list" where
  "carry_adc_8 =
    [Load 1 False t4 s11 0x220,
     Load 1 False t5 s11 0x228,
     Op aSLTU t4 t4 t5,
     OpImm aXOR t4 t4 1]"

definition carry_adc_16 :: "rv_instr list" where
  "carry_adc_16 =
    [Load 2 False t4 s11 0x220,
     Load 2 False t5 s11 0x228,
     Op aSLTU t4 t4 t5,
     OpImm aXOR t4 t4 1]"

definition carry_adc_32 :: "rv_instr list" where
  "carry_adc_32 =
    [Load 4 False t4 s11 0x220,
     Load 4 False t5 s11 0x228,
     Op aSLTU t4 t4 t5,
     OpImm aXOR t4 t4 1]"

definition carry_adc_64 :: "rv_instr list" where
  "carry_adc_64 =
    [Load 8 False t4 s11 0x220,
     Load 8 False t5 s11 0x228,
     Op aSLTU t4 t4 t5,
     OpImm aXOR t4 t4 1]"

definition carry_neg_8 :: "rv_instr list" where
  "carry_neg_8 =
    [Load 1 False t4 s11 0x220,
     Op aSLTU t4 zero t4]"

definition carry_neg_16 :: "rv_instr list" where
  "carry_neg_16 =
    [Load 2 False t4 s11 0x220,
     Op aSLTU t4 zero t4]"

definition carry_neg_32 :: "rv_instr list" where
  "carry_neg_32 =
    [Load 4 False t4 s11 0x220,
     Op aSLTU t4 zero t4]"

definition carry_neg_64 :: "rv_instr list" where
  "carry_neg_64 =
    [Load 8 False t4 s11 0x220,
     Op aSLTU t4 zero t4]"

definition overflow_clear :: "rv_instr list" where
  "overflow_clear =
    [OpImm aADD t4 zero 0]"

definition overflow_set :: "rv_instr list" where
  "overflow_set =
    [OpImm aADD t4 zero 1]"

definition overflow_add_8 :: "rv_instr list" where
  "overflow_add_8 =
    [Load 1 True t4 s11 0x210,
     Load 1 True t5 s11 0x218,
     OpImm aSLL t4 t4 24,
     OpImm aSLL t5 t5 24,
     OpW aADD t6 t4 t5,
     Op aADD t5 t4 t5,
     Op aSUB t5 t5 t6,
     Op aSLTU t4 zero t5]"

definition overflow_add_16 :: "rv_instr list" where
  "overflow_add_16 =
    [Load 2 True t4 s11 0x210,
     Load 2 True t5 s11 0x218,
     OpImm aSLL t4 t4 16,
     OpImm aSLL t5 t5 16,
     OpW aADD t6 t4 t5,
     Op aADD t5 t4 t5,
     Op aSUB t5 t5 t6,
     Op aSLTU t4 zero t5]"

definition overflow_add_32 :: "rv_instr list" where
  "overflow_add_32 =
    [Load 4 True t4 s11 0x210,
     Load 4 True t5 s11 0x218,
     OpW aADD t6 t4 t5,
     Op aADD t5 t4 t5,
     Op aSUB t5 t5 t6,
     Op aSLTU t4 zero t5]"

definition overflow_add_64 :: "rv_instr list" where
  "overflow_add_64 =
    [Load 8 False t4 s11 0x210,
     Load 8 False t5 s11 0x218,
     Op aADD t6 t5 t4,
     OpImm aSLT t4 t4 0,
     Op aSLT t5 t6 t5,
     Op aSUB t4 t4 t5,
     Op aSLTU t4 zero t4]"

definition overflow_add_pos_8 :: "rv_instr list" where
  "overflow_add_pos_8 =
    [Load 1 True t4 s11 0x210,
     Load 1 True t5 s11 0x218,
     Op aSLT t4 t5 t4]"

definition overflow_add_pos_16 :: "rv_instr list" where
  "overflow_add_pos_16 =
    [Load 2 True t4 s11 0x210,
     Load 2 True t5 s11 0x218,
     Op aSLT t4 t5 t4]"

definition overflow_add_pos_32 :: "rv_instr list" where
  "overflow_add_pos_32 =
    [Load 4 True t4 s11 0x210,
     Load 4 True t5 s11 0x218,
     Op aSLT t4 t5 t4]"

definition overflow_add_pos_64 :: "rv_instr list" where
  "overflow_add_pos_64 =
    [Load 8 False t4 s11 0x210,
     Load 8 False t5 s11 0x218,
     Op aSLT t4 t5 t4]"

definition overflow_add_neg_8 :: "rv_instr list" where
  "overflow_add_neg_8 =
    [Load 1 True t4 s11 0x210,
     Load 1 True t5 s11 0x218,
     Op aSLT t4 t4 t5]"

definition overflow_add_neg_16 :: "rv_instr list" where
  "overflow_add_neg_16 =
    [Load 2 True t4 s11 0x210,
     Load 2 True t5 s11 0x218,
     Op aSLT t4 t4 t5]"

definition overflow_add_neg_32 :: "rv_instr list" where
  "overflow_add_neg_32 =
    [Load 4 True t4 s11 0x210,
     Load 4 True t5 s11 0x218,
     Op aSLT t4 t4 t5]"

definition overflow_add_neg_64 :: "rv_instr list" where
  "overflow_add_neg_64 =
    [Load 8 False t4 s11 0x210,
     Load 8 False t5 s11 0x218,
     Op aSLT t4 t4 t5]"

definition overflow_adc_8 :: "rv_instr list" where
  "overflow_adc_8 =
    [Load 1 True t4 s11 0x210,
     Load 1 True t5 s11 0x218,
     OpImm aADD t5 t5 1,
     OpImm aSLL t4 t4 24,
     OpImm aSLL t5 t5 24,
     OpW aADD t6 t4 t5,
     Op aADD t5 t4 t5,
     Op aSUB t5 t5 t6,
     Op aSLTU t4 zero t5]"

definition overflow_adc_16 :: "rv_instr list" where
  "overflow_adc_16 =
    [Load 2 True t4 s11 0x210,
     Load 2 True t5 s11 0x218,
     OpImm aADD t5 t5 1,
     OpImm aSLL t4 t4 16,
     OpImm aSLL t5 t5 16,
     OpW aADD t6 t4 t5,
     Op aADD t5 t4 t5,
     Op aSUB t5 t5 t6,
     Op aSLTU t4 zero t5]"

definition overflow_adc_32 :: "rv_instr list" where
  "overflow_adc_32 =
    [Load 4 True t4 s11 0x210,
     Load 4 True t5 s11 0x218,
     OpImm aADD t5 t5 1,
     OpW aADD t6 t4 t5,
     Op aADD t5 t4 t5,
     Op aSUB t5 t5 t6,
     Op aSLTU t4 zero t5]"

definition overflow_adc_64 :: "rv_state \<Rightarrow> rv_state option" where
  "overflow_adc_64 s = Option.bind
    (rv_seqs [Load 8 False t4 s11 0x210,
      Load 8 False t5 s11 0x218,
      Op aADD t6 t5 t4,
      OpImm aADD t6 t6 1,
      OpImm aSRL t4 t4 63,
      OpImm aSRL t5 t5 63,
      OpImm aSRL t6 t6 63] s)
    (\<lambda>s. if rget t4 s \<noteq> rget t5 s then rv_seqs overflow_clear s
      else rv_seqs [Op aXOR t4 t6 t4] s)"

definition overflow_sub_8 :: "rv_instr list" where
  "overflow_sub_8 =
    [Load 1 True t4 s11 0x210,
     Load 1 True t5 s11 0x218,
     OpImm aSLL t4 t4 24,
     OpImm aSLL t5 t5 24,
     OpW aSUB t6 t5 t4,
     Op aSUB t5 t5 t4,
     Op aSUB t5 t5 t6,
     Op aSLTU t4 zero t5]"

definition overflow_sub_16 :: "rv_instr list" where
  "overflow_sub_16 =
    [Load 2 True t4 s11 0x210,
     Load 2 True t5 s11 0x218,
     OpImm aSLL t4 t4 16,
     OpImm aSLL t5 t5 16,
     OpW aSUB t6 t5 t4,
     Op aSUB t5 t5 t4,
     Op aSUB t5 t5 t6,
     Op aSLTU t4 zero t5]"

definition overflow_sub_32 :: "rv_instr list" where
  "overflow_sub_32 =
    [Load 4 True t4 s11 0x210,
     Load 4 True t5 s11 0x218,
     OpW aSUB t6 t5 t4,
     Op aSUB t5 t5 t4,
     Op aSUB t5 t5 t6,
     Op aSLTU t4 zero t5]"

definition overflow_sub_64 :: "rv_instr list" where
  "overflow_sub_64 =
    [Load 8 False t4 s11 0x210,
     Load 8 False t5 s11 0x218,
     Op aSUB t6 t5 t4,
     OpImm aSLT t4 t4 0,
     Op aSLT t5 t5 t6,
     Op aSUB t4 t4 t5,
     Op aSLTU t4 zero t4]"

definition overflow_inc_8 :: "rv_instr list" where
  "overflow_inc_8 =
    [Load 1 False t4 s11 0x210,
     OpImm aADD t4 t4 1,
     OpImm aSLL t4 t4 56,
     OpImm aADD t5 t4 (- 1),
     Op aSLT t4 t4 t5]"

definition overflow_inc_16 :: "rv_instr list" where
  "overflow_inc_16 =
    [Load 2 False t4 s11 0x210,
     OpImm aADD t4 t4 1,
     OpImm aSLL t4 t4 48,
     OpImm aADD t5 t4 (- 1),
     Op aSLT t4 t4 t5]"

definition overflow_inc_32 :: "rv_instr list" where
  "overflow_inc_32 =
    [Load 4 False t4 s11 0x210,
     OpImm aADD t4 t4 1,
     OpImm aSLL t4 t4 32,
     OpImm aADD t5 t4 (- 1),
     Op aSLT t4 t4 t5]"

definition overflow_inc_64 :: "rv_instr list" where
  "overflow_inc_64 =
    [Load 8 False t4 s11 0x210,
     OpImm aADD t5 t4 1,
     Op aSLT t4 t5 t4]"

definition overflow_dec_neg_8 :: "rv_instr list" where
  "overflow_dec_neg_8 =
    [Load 1 False t4 s11 0x210,
     OpImm aSLL t4 t4 56,
     OpImm aADD t5 t4 (- 1),
     Op aSLT t4 t4 t5]"

definition overflow_dec_neg_16 :: "rv_instr list" where
  "overflow_dec_neg_16 =
    [Load 2 False t4 s11 0x210,
     OpImm aSLL t4 t4 48,
     OpImm aADD t5 t4 (- 1),
     Op aSLT t4 t4 t5]"

definition overflow_dec_neg_32 :: "rv_instr list" where
  "overflow_dec_neg_32 =
    [Load 4 False t4 s11 0x210,
     OpImm aSLL t4 t4 32,
     OpImm aADD t5 t4 (- 1),
     Op aSLT t4 t4 t5]"

definition overflow_dec_neg_64 :: "rv_instr list" where
  "overflow_dec_neg_64 =
    [Load 8 False t4 s11 0x210,
     OpImm aADD t5 t4 (- 1),
     Op aSLT t4 t4 t5]"

definition routine :: "Entry \<Rightarrow> rv_state \<Rightarrow> rv_state option" where
  "routine e s =
    (if e = Entry_carry_clear then rv_seqs carry_clear s
     else if e = Entry_carry_set then rv_seqs carry_set s
     else if e = Entry_carry_add_8 then rv_seqs carry_add_8 s
     else if e = Entry_carry_add_16 then rv_seqs carry_add_16 s
     else if e = Entry_carry_add_32 then rv_seqs carry_add_32 s
     else if e = Entry_carry_add_64 then rv_seqs carry_add_64 s
     else if e = Entry_carry_adc_8 then rv_seqs carry_adc_8 s
     else if e = Entry_carry_adc_16 then rv_seqs carry_adc_16 s
     else if e = Entry_carry_adc_32 then rv_seqs carry_adc_32 s
     else if e = Entry_carry_adc_64 then rv_seqs carry_adc_64 s
     else if e = Entry_carry_neg_8 then rv_seqs carry_neg_8 s
     else if e = Entry_carry_neg_16 then rv_seqs carry_neg_16 s
     else if e = Entry_carry_neg_32 then rv_seqs carry_neg_32 s
     else if e = Entry_carry_neg_64 then rv_seqs carry_neg_64 s
     else if e = Entry_overflow_clear then rv_seqs overflow_clear s
     else if e = Entry_overflow_set then rv_seqs overflow_set s
     else if e = Entry_overflow_add_8 then rv_seqs overflow_add_8 s
     else if e = Entry_overflow_add_16 then rv_seqs overflow_add_16 s
     else if e = Entry_overflow_add_32 then rv_seqs overflow_add_32 s
     else if e = Entry_overflow_add_64 then rv_seqs overflow_add_64 s
     else if e = Entry_overflow_add_pos_8 then rv_seqs overflow_add_pos_8 s
     else if e = Entry_overflow_add_pos_16 then rv_seqs overflow_add_pos_16 s
     else if e = Entry_overflow_add_pos_32 then rv_seqs overflow_add_pos_32 s
     else if e = Entry_overflow_add_pos_64 then rv_seqs overflow_add_pos_64 s
     else if e = Entry_overflow_add_neg_8 then rv_seqs overflow_add_neg_8 s
     else if e = Entry_overflow_add_neg_16 then rv_seqs overflow_add_neg_16 s
     else if e = Entry_overflow_add_neg_32 then rv_seqs overflow_add_neg_32 s
     else if e = Entry_overflow_add_neg_64 then rv_seqs overflow_add_neg_64 s
     else if e = Entry_overflow_adc_8 then rv_seqs overflow_adc_8 s
     else if e = Entry_overflow_adc_16 then rv_seqs overflow_adc_16 s
     else if e = Entry_overflow_adc_32 then rv_seqs overflow_adc_32 s
     else if e = Entry_overflow_adc_64 then overflow_adc_64 s
     else if e = Entry_overflow_sub_8 then rv_seqs overflow_sub_8 s
     else if e = Entry_overflow_sub_16 then rv_seqs overflow_sub_16 s
     else if e = Entry_overflow_sub_32 then rv_seqs overflow_sub_32 s
     else if e = Entry_overflow_sub_64 then rv_seqs overflow_sub_64 s
     else if e = Entry_overflow_inc_8 then rv_seqs overflow_inc_8 s
     else if e = Entry_overflow_inc_16 then rv_seqs overflow_inc_16 s
     else if e = Entry_overflow_inc_32 then rv_seqs overflow_inc_32 s
     else if e = Entry_overflow_inc_64 then rv_seqs overflow_inc_64 s
     else if e = Entry_overflow_dec_neg_8 then rv_seqs overflow_dec_neg_8 s
     else if e = Entry_overflow_dec_neg_16 then rv_seqs overflow_dec_neg_16 s
     else if e = Entry_overflow_dec_neg_32 then rv_seqs overflow_dec_neg_32 s
     else if e = Entry_overflow_dec_neg_64 then rv_seqs overflow_dec_neg_64 s
     else None)"

lemmas routine_defs =
  carry_clear_def carry_set_def carry_add_8_def carry_add_16_def carry_add_32_def
  carry_add_64_def carry_adc_8_def carry_adc_16_def carry_adc_32_def carry_adc_64_def
  carry_neg_8_def carry_neg_16_def carry_neg_32_def carry_neg_64_def overflow_clear_def
  overflow_set_def overflow_add_8_def overflow_add_16_def overflow_add_32_def
  overflow_add_64_def overflow_add_pos_8_def overflow_add_pos_16_def overflow_add_pos_32_def
  overflow_add_pos_64_def overflow_add_neg_8_def overflow_add_neg_16_def
  overflow_add_neg_32_def overflow_add_neg_64_def overflow_adc_8_def overflow_adc_16_def
  overflow_adc_32_def overflow_adc_64_def overflow_sub_8_def overflow_sub_16_def
  overflow_sub_32_def overflow_sub_64_def overflow_inc_8_def overflow_inc_16_def
  overflow_inc_32_def overflow_inc_64_def overflow_dec_neg_8_def overflow_dec_neg_16_def
  overflow_dec_neg_32_def overflow_dec_neg_64_def

text \<open>
  The table as an environment: a call to \<open>4 * e\<close> past its address runs routine \<open>e\<close>; every other
  target leaves the block.
\<close>

definition jt_env :: "u64 \<Rightarrow> rv_env" where
  "jt_env table target s = (let d = target - table in
     if d AND 3 = 0 \<and> d < 0x1000 then routine (ucast (drop_bit 2 d)) s else None)"

section \<open>Generators\<close>

definition address_destination :: RiscVRegister where "address_destination = t3"
definition return_stack :: RiscVRegister where "return_stack = s1"
definition call_table_address :: RiscVRegister where "call_table_address = s8"
definition jump_table_address :: RiscVRegister where "jump_table_address = s10"
definition context_address :: RiscVRegister where "context_address = s11"

lemmas reserved_regs = address_destination_def return_stack_def call_table_address_def
  jump_table_address_def context_address_def

definition jump_table_offset :: "RiscVRegister \<Rightarrow> unit gen" where
  "jump_table_offset off =
     emit (ADD off jump_table_address off) \<then>
     emit (JALR ra off 0)"

definition jump_table_entry :: "Entry \<Rightarrow> unit gen" where
  "jump_table_entry entry = emit (JALR ra jump_table_address (entry * 4))"

definition jump_syscall_handler :: "unit gen" where
  "jump_syscall_handler = jump_table_entry Entry_virtual_syscall"

definition jump_reroute_static :: "unit gen" where
  "jump_reroute_static = jump_table_entry Entry_reroute_static"

definition jump_reroute_dynamic :: "unit gen" where
  "jump_reroute_dynamic = jump_table_entry Entry_reroute_dynamic"

definition jump_reroute_return :: "unit gen" where
  "jump_reroute_return = jump_table_entry Entry_reroute_return"

definition jump_debugger :: "unit gen" where
  "jump_debugger = jump_table_entry Entry_debug_callback"

definition jump_debugger_riscv :: "unit gen" where
  "jump_debugger_riscv = jump_table_entry Entry_debug_callback_riscv"

definition jump_unsupported_instruction :: "unit gen" where
  "jump_unsupported_instruction = jump_table_entry Entry_unsupported_instruction"

lemmas [gen_defs] = jump_table_offset_def jump_table_entry_def jump_syscall_handler_def
  jump_reroute_static_def jump_reroute_dynamic_def jump_reroute_return_def jump_debugger_def
  jump_debugger_riscv_def jump_unsupported_instruction_def

end
