(* ===== verification/Fadec.thy ===== *)
theory Fadec
  imports Prelude
begin

text \<open>
  What the translator sees of the x86 decoder (\<^verbatim>\<open>libs/fadec/include/fadec.h\<close>): the decoded
  instruction with its operands. The decoder itself is vendored code and a parameter wherever it is
  called. Mnemonics come from a generated table whose numbers the translator never uses, so
  \<open>InstructionType\<close> is the enumerator's name. Sizes are the
  \<^verbatim>\<open>uint8_t\<close> byte counts of the source, as naturals; addresses, displacements and immediates are
  64-bit words.
\<close>

section \<open>Enumerations\<close>

text \<open>Registers are numbers in the source's enumeration too, in which several names share one.\<close>

type_synonym Register = u8

definition reg_rax :: Register where "reg_rax = 0"
definition reg_rcx :: Register where "reg_rcx = 1"
definition reg_cl :: Register where "reg_cl = 1"
definition reg_rdx :: Register where "reg_rdx = 2"
definition reg_rbx :: Register where "reg_rbx = 3"
definition reg_rsp :: Register where "reg_rsp = 4"
definition reg_rbp :: Register where "reg_rbp = 5"
definition reg_rsi :: Register where "reg_rsi = 6"
definition reg_rdi :: Register where "reg_rdi = 7"
definition reg_fs :: Register where "reg_fs = 4"
definition reg_gs :: Register where "reg_gs = 5"
definition reg_none :: Register where "reg_none = 0x3f"

lemmas reg_defs = reg_rax_def reg_rcx_def reg_cl_def reg_rdx_def reg_rbx_def reg_rsp_def
  reg_rbp_def reg_rsi_def reg_rdi_def reg_fs_def reg_gs_def reg_none_def


type_synonym InstructionType = string

datatype OperandType = op_none | op_reg | op_imm | op_mem

datatype RegisterType =
    rt_implicit | rt_gpl | rt_gph | rt_seg | rt_fpu | rt_mmx | rt_vec | rt_mask | rt_bnd | rt_cr | rt_dr

section \<open>Decoded instructions\<close>

record Operand =
  op_type :: OperandType
  op_size :: nat
  op_register :: Register
  op_register_type :: RegisterType

record fadec_Instruction =
  inst_type :: InstructionType
  inst_flags :: u8
  inst_segment :: Register
  inst_addrsz :: nat
  inst_operandsz :: nat
  inst_operands :: "Operand list"
  inst_idx_reg :: Register
  inst_idx_scale :: u8
  inst_size :: nat
  inst_disp :: u64
  inst_imm :: u64
  inst_address :: u64

definition get_operand :: "nat \<Rightarrow> 'a fadec_Instruction_scheme \<Rightarrow> Operand" where
  "get_operand idx inst = inst_operands inst ! idx"

definition has_rep :: "'a fadec_Instruction_scheme \<Rightarrow> bool" where
  "has_rep inst = bit (inst_flags inst) 1"

definition has_repnz :: "'a fadec_Instruction_scheme \<Rightarrow> bool" where
  "has_repnz inst = bit (inst_flags inst) 2"

end
