(* ===== verification/Helper.thy ===== *)
theory Helper
  imports JumpTable Fadec
begin

text \<open>
  The code generation helpers of \<^verbatim>\<open>codegen/helper.{h,cpp}\<close> (except \<^verbatim>\<open>load_immediate\<close>, which has a
  theory of its own): the register mapping, access to x86 sub-registers, loading of addresses,
  block ends and sign extension. \<open>x86_read\<close> and \<open>x86_write\<close> are the x86 meaning of a sub-register
  access that the generated code is proved to implement; an access is its size in bytes, and 0 for
  the high byte, as in the source.
\<close>

section \<open>Register mapping\<close>

definition register_mapping :: "RiscVRegister list" where
  "register_mapping = [a7, a6, a2, s2, sp, s0, a1, a0, a4, a5, a3, s3, s4, s5, s6, s7]"

definition map_reg :: "Register \<Rightarrow> RiscVRegister" where
  "map_reg reg = register_mapping ! unat reg"

definition map_reg_high :: "Register \<Rightarrow> RiscVRegister" where
  "map_reg_high reg = map_reg (reg - 4)"

definition map_reg_typed :: "Register \<Rightarrow> RegisterType \<Rightarrow> RiscVRegister" where
  "map_reg_typed reg type = (if type = rt_gph then map_reg_high reg else map_reg reg)"

section \<open>Sub-register access\<close>

text \<open>Accesses: QWORD = 8, DWORD = 4, WORD = 2, LBYTE = 1, HBYTE = 0.\<close>

definition move_to_register ::
  "RiscVRegister \<Rightarrow> RiscVRegister \<Rightarrow> nat \<Rightarrow> RiscVRegister \<Rightarrow> bool \<Rightarrow> unit gen" where
  "move_to_register dest src access temp cleared =
    (if access = 8 then
       (if src \<noteq> dest then emit (MV dest src) else skip)
     else if access = 4 then
       emit (SLLI dest src 32) \<then>
       emit (SRLI dest dest 32)
     else if access = 2 then
       (if cleared then
          emit (SRLI dest dest 16) \<then>
          emit (SLLI dest dest 16) \<then>
          emit (OR' dest dest src)
        else
          emit (XOR' temp src dest) \<then>
          emit (SLLI temp temp 48) \<then>
          emit (SRLI temp temp 48) \<then>
          emit (XOR' dest temp dest))
     else if access = 1 then
       emit (ANDI dest dest (- 0x100)) \<then>
       (if \<not> cleared then emit (ANDI temp src 0xff) else skip) \<then>
       emit (OR' dest dest (if cleared then src else temp))
     else
       emit (SRLI temp dest 8) \<then>
       emit (XOR' temp temp src) \<then>
       emit (SLLI temp temp 56) \<then>
       emit (SRLI temp temp 48) \<then>
       emit (XOR' dest temp dest))"

definition load_from_register ::
  "RiscVRegister \<Rightarrow> nat \<Rightarrow> RiscVRegister \<Rightarrow> bool \<Rightarrow> bool \<Rightarrow> bool \<Rightarrow> RiscVRegister gen" where
  "load_from_register src access temp modifiable full_load sign_extend =
    (if full_load then
       (if access < 8 then
          (emit (SLLI temp src (of_nat (if access = 0 then 48 else 64 - access * 8))) \<then>
            emit ((if sign_extend then SRAI else SRLI) temp temp
              (of_nat (64 - (if access = 0 then 1 else access) * 8))) \<then> ret temp)
        else if modifiable then (emit (MV temp src) \<then> ret temp)
        else ret src)
     else if modifiable \<or> access = 0 then
       (if access = 0 then (emit (SRLI temp src 8) \<then> ret temp)
        else (emit (MV temp src) \<then> ret temp))
     else ret src)"

section \<open>Addresses and block ends\<close>

definition address_packages :: "u64 \<Rightarrow> u32 list" where
  "address_packages ptr =
    [ucast (ptr AND 0x00000000000000ff),
     ucast (drop_bit 8 (ptr AND 0x00000000000fff00)),
     ucast (drop_bit 20 (ptr AND 0x00000000fff00000)),
     ucast (drop_bit 32 (ptr AND 0x00000fff00000000)),
     ucast (drop_bit 44 (ptr AND 0xfffff00000000000))]"

definition high_bit :: "u32 list" where
  "high_bit = [0x00000000, 0x00000800, 0x00000800, 0x00000800, 0x00080000]"

definition address_carries :: "u32 list \<Rightarrow> u32 list" where
  "address_carries packages = fold (\<lambda>i packages.
     if packages ! i \<ge> high_bit ! i then packages[i + 1 := packages ! (i + 1) + 1] else packages)
     [1, 2, 3] packages"

definition load_address :: "u64 \<Rightarrow> RiscVRegister \<Rightarrow> unit gen" where
  "load_address ptr dest = (let packages = address_carries (address_packages ptr) in
     emit (LUI dest (packages ! 4)) \<then>
     for_each [4, 3, 2, 1] (\<lambda>i.
       emit (ADDI dest dest (ucast (packages ! (i - 1)))) \<then>
       (if i > 1 then emit (SLLI dest dest (if i = 2 then 8 else 12)) else skip)))"

definition append_eob_static :: "u64 \<Rightarrow> unit gen" where
  "append_eob_static ptr = load_address ptr address_destination \<then> jump_reroute_static"

definition append_eob_dynamic :: "RiscVRegister \<Rightarrow> unit gen" where
  "append_eob_dynamic reg =
    (if reg \<noteq> address_destination then emit (MV address_destination reg) else skip) \<then>
    jump_reroute_dynamic"

definition sign_extend_register :: "RiscVRegister \<Rightarrow> RiscVRegister \<Rightarrow> nat \<Rightarrow> unit gen" where
  "sign_extend_register dest src byte =
    (if byte = 4 then emit (ADDW dest src zero)
     else let shamt = (8 - byte) * 8 in
       if shamt > 0 then
         emit (SLLI dest src (of_nat shamt)) \<then>
         emit (SRAI dest dest (of_nat shamt))
       else skip)"

text \<open>The entries for an operand size; an invalid size is a fault.\<close>

definition calculate_entries :: "Entry \<Rightarrow> Entry \<Rightarrow> nat \<Rightarrow> (Entry \<times> Entry) gen" where
  "calculate_entries carry overflow sz =
    (if sz = 8 then ret (carry + 3, overflow + 3)
     else if sz = 4 then ret (carry + 2, overflow + 2)
     else if sz = 2 then ret (carry + 1, overflow + 1)
     else if sz = 1 then ret (carry, overflow)
     else do { fault_exit Invalid_operand_size; ret (0, 0) })"

lemmas [gen_defs] = move_to_register_def load_from_register_def append_eob_static_def
  append_eob_dynamic_def sign_extend_register_def

section \<open>Correctness\<close>

text \<open>The x86 meaning of reading and writing a sub-register.\<close>

definition x86_read :: "nat \<Rightarrow> u64 \<Rightarrow> u64" where
  "x86_read access v = (if access = 0 then take_bit 8 (drop_bit 8 v) else take_bit (8 * access) v)"

definition x86_sread :: "nat \<Rightarrow> u64 \<Rightarrow> u64" where
  "x86_sread access v =
    (if access = 0 then signed_take_bit 7 (drop_bit 8 v) else signed_take_bit (8 * access - 1) v)"

definition x86_write :: "nat \<Rightarrow> u64 \<Rightarrow> u64 \<Rightarrow> u64" where
  "x86_write access d v =
    (if access = 8 then v
     else if access = 4 then take_bit 32 v
     else if access = 2 then push_bit 16 (drop_bit 16 d) OR take_bit 16 v
     else if access = 1 then push_bit 8 (drop_bit 8 d) OR take_bit 8 v
     else push_bit 16 (drop_bit 16 d) OR push_bit 8 (take_bit 8 v) OR take_bit 8 d)"

definition valid_access :: "nat \<Rightarrow> bool" where
  "valid_access access \<longleftrightarrow> access \<in> {0, 1, 2, 4, 8}"

lemma valid_access_cases:
  assumes "valid_access access"
  obtains "access = 0" | "access = 1" | "access = 2" | "access = 4" | "access = 8"
  using assms by (auto simp: valid_access_def)

lemma and_constants [rv_simps]:
  "x AND 0xff = take_bit 8 (x :: u64)"
  "x AND (- 0x100) = push_bit 8 (drop_bit 8 (x :: u64))"
proof -
  show "x AND 0xff = take_bit 8 x"
    by (simp add: take_bit_eq_mask mask_eq_exp_minus_1)
  have "(- 0x100 :: u64) = push_bit 8 (- 1)"
    by (simp add: mask_eq_exp_minus_1)
  then show "x AND (- 0x100) = push_bit 8 (drop_bit 8 x)"
    by (simp only:) (rule bit_word_eqI, auto simp only: bit_and_iff bit_push_bit_iff
        bit_minus_1_iff bit_drop_bit_eq comp_def le_add_diff_inverse possible_bit_word)
qed

lemma move_to_register_8:
  assumes "dest \<noteq> zero"
  shows "\<exists>t. runs (move_to_register dest src 8 temp cleared) s t \<and>
    rget dest t = rget src s \<and> keeps {dest} s t"
proof (cases "src = dest")
  case True
  then show ?thesis
    by (intro exI [of _ s]) (simp add: move_to_register_def runs_skip)
next
  case False
  then show ?thesis
    using assms
    by - (rule exI, rule conjI, simp add: move_to_register_def, rule runs_emit,
        simp add: rv_simps, simp add: rv_simps)
qed

lemma move_to_register_4:
  assumes "dest \<noteq> zero"
  shows "\<exists>t. runs (move_to_register dest src 4 temp cleared) s t \<and>
    rget dest t = take_bit 32 (rget src s) \<and> keeps {dest} s t"
  using assms
  apply -
  apply (rule exI, rule conjI, simp add: move_to_register_def)
   apply (rule runs_intros, simp add: rv_simps)+
  apply (simp add: rv_simps)
  apply (rule bit_word_eqI, auto simp: bit_simps)
  done

lemma move_to_register_2:
  assumes "dest \<noteq> zero" "temp \<noteq> zero" "temp \<noteq> dest" "temp \<noteq> src" "src \<noteq> dest"
    and "cleared \<Longrightarrow> take_bit 16 (rget src s) = rget src s"
  shows "\<exists>t. runs (move_to_register dest src 2 temp cleared) s t \<and>
    rget dest t = x86_write 2 (rget dest s) (rget src s) \<and> keeps {dest, temp} s t"
proof (cases cleared)
  case True
  then have e: "rget src s = take_bit 16 (rget src s)"
    using assms(6) by simp
  show ?thesis
    using assms(1-5) True
    apply -
    apply (rule exI, rule conjI, simp add: move_to_register_def)
     apply (rule runs_intros, simp add: rv_simps)+
    apply (simp add: rv_simps x86_write_def)
    apply (subst e, rule bit_word_eqI, auto simp: bit_simps)
    done
next
  case False
  then show ?thesis
    using assms(1-5)
    apply -
    apply (rule exI, rule conjI, simp add: move_to_register_def)
     apply (rule runs_intros, simp add: rv_simps)+
    apply (simp add: rv_simps x86_write_def)
    apply (rule bit_word_eqI, auto simp: bit_simps)
    done
qed

lemma move_to_register_1:
  assumes "dest \<noteq> zero" "temp \<noteq> zero" "temp \<noteq> dest" "temp \<noteq> src" "src \<noteq> dest"
    and "cleared \<Longrightarrow> take_bit 8 (rget src s) = rget src s"
  shows "\<exists>t. runs (move_to_register dest src 1 temp cleared) s t \<and>
    rget dest t = x86_write 1 (rget dest s) (rget src s) \<and> keeps {dest, temp} s t"
proof (cases cleared)
  case True
  then have e: "rget src s = take_bit 8 (rget src s)"
    using assms(6) by simp
  show ?thesis
    using assms(1-5) True
    apply -
    apply (rule exI, rule conjI, simp add: move_to_register_def)
     apply (rule runs_intros, simp add: rv_simps)+
    apply (simp add: rv_simps x86_write_def)
    apply (subst e, rule bit_word_eqI, auto simp: bit_simps)
    done
next
  case False
  then show ?thesis
    using assms(1-5)
    apply -
    apply (rule exI, rule conjI, simp add: move_to_register_def)
     apply (rule runs_intros, simp add: rv_simps)+
    apply (simp add: rv_simps x86_write_def)
    done
qed

lemma move_to_register_0:
  assumes "dest \<noteq> zero" "temp \<noteq> zero" "temp \<noteq> dest" "temp \<noteq> src" "src \<noteq> dest"
  shows "\<exists>t. runs (move_to_register dest src 0 temp cleared) s t \<and>
    rget dest t = x86_write 0 (rget dest s) (rget src s) \<and> keeps {dest, temp} s t"
  using assms
  apply -
  apply (rule exI, rule conjI, simp add: move_to_register_def)
   apply (rule runs_intros, simp add: rv_simps)+
  apply (simp add: rv_simps x86_write_def)
  apply (rule bit_word_eqI, auto simp: bit_simps, rule ccontr, simp)
  done

lemma move_to_register_runs:
  assumes "dest \<noteq> zero" "temp \<noteq> zero" "temp \<noteq> dest" "temp \<noteq> src"
    and "src \<noteq> dest \<or> access \<in> {4, 8}"
    and "cleared \<Longrightarrow> access \<in> {1, 2} \<Longrightarrow> take_bit (8 * access) (rget src s) = rget src s"
    and "valid_access access"
  shows "\<exists>t. runs (move_to_register dest src access temp cleared) s t \<and>
    rget dest t = x86_write access (rget dest s) (rget src s) \<and> keeps {dest, temp} s t"
  using assms(7)
proof (cases rule: valid_access_cases)
  case 1
  then show ?thesis using assms move_to_register_0 [of dest temp src cleared s] by simp
next
  case 2
  then show ?thesis using assms move_to_register_1 [of dest temp src cleared s] by simp
next
  case 3
  then show ?thesis using assms move_to_register_2 [of dest temp src cleared s] by simp
next
  case 4
  then show ?thesis
    using assms move_to_register_4 [of dest src temp cleared s]
    by (auto simp: x86_write_def intro: keeps_mono)
next
  case 5
  then show ?thesis
    using assms move_to_register_8 [of dest src temp cleared s]
    by (auto simp: x86_write_def intro: keeps_mono)
qed

lemma load_full_runs:
  assumes "temp \<noteq> zero" "access \<in> {0, 1, 2, 4}"
  shows "\<exists>t. runs_val (load_from_register src access temp modifiable True sign_ext) s temp t \<and>
    rget temp t = (if sign_ext then x86_sread access (rget src s) else x86_read access (rget src s)) \<and>
    keeps {temp} s t"
proof -
  have "access = 0 \<or> access = 1 \<or> access = 2 \<or> access = 4"
    using assms(2) by simp
  then show ?thesis
    using assms(1)
    apply (elim disjE; cases sign_ext; simp add: load_from_register_def)
           apply (rule exI, rule conjI, (rule runs_intros, simp add: rv_simps)+,
           simp add: rv_simps x86_read_def x86_sread_def, rule bit_word_eqI, force simp: bit_simps)+
    done
qed

lemma load_from_register_runs:
  assumes "temp \<noteq> zero" "valid_access access"
  shows "\<exists>r t. runs_val (load_from_register src access temp modifiable full_load sign_ext) s r t \<and>
    r \<in> {src, temp} \<and> (modifiable \<longrightarrow> r = temp) \<and> keeps {temp} s t \<and>
    take_bit (8 * max 1 access) (rget r t) = x86_read access (rget src s) \<and>
    (full_load \<longrightarrow>
      rget r t = (if sign_ext then x86_sread access (rget src s) else x86_read access (rget src s)))"
proof -
  have low: "take_bit (8 * max 1 access) (x86_sread access v) = x86_read access v"
    "take_bit (8 * max 1 access) (x86_read access v) = x86_read access v" for v
    by (rule valid_access_cases [OF assms(2)];
        simp add: x86_sread_def x86_read_def; rule bit_word_eqI; force simp: bit_simps)+
  consider (part) "full_load" "access \<in> {0, 1, 2, 4}" | (all) "full_load" "access = 8"
    | (none) "\<not> full_load"
    using assms(2) by (auto simp: valid_access_def)
  then show ?thesis
  proof cases
    case part
    then show ?thesis
      using load_full_runs [of temp access src modifiable sign_ext s] assms(1)
      by (metis (full_types) low insertCI)
  next
    case all
    have whole: "x86_read 8 v = v" "x86_sread 8 v = v" for v
      unfolding x86_read_def x86_sread_def
      by (rule bit_word_eqI, auto simp: bit_simps min_def dest: le_antisym)+
    show ?thesis
    proof (cases modifiable)
      case True
      show ?thesis
        using all True assms(1) whole
        apply (intro exI [of _ temp])
        apply (rule exI, rule conjI, simp add: load_from_register_def)
         apply (rule runs_intros, simp add: rv_simps)+
        done
    next
      case False
      then show ?thesis
        using all whole
        by (intro exI [of _ src] exI [of _ s])
          (simp add: load_from_register_def runs_val_ret)
    qed
  next
    case none
    have sub: "take_bit (8 * access) (take_bit (8 * access) v) = take_bit (8 * access) v" for v :: u64
      by simp
    show ?thesis
    proof (cases "access = 0")
      case True
      show ?thesis
        using none True assms(1)
        apply (intro exI [of _ temp])
        apply (rule exI, rule conjI, simp add: load_from_register_def)
         apply (rule runs_intros, simp add: rv_simps x86_read_def)+
        done
    next
      case False
      then have m: "max 1 access = access" by simp
      show ?thesis
      proof (cases modifiable)
        case True
        show ?thesis
          using none True False assms(1) m
          apply (intro exI [of _ temp])
          apply (rule exI, rule conjI, simp add: load_from_register_def)
           apply (rule runs_intros, simp add: rv_simps x86_read_def)+
          done
      next
        case unmod: False
        then show ?thesis
          using none False m
          by (intro exI [of _ src] exI [of _ s])
            (simp add: load_from_register_def runs_val_ret x86_read_def)
      qed
    qed
  qed
qed

lemma sign_extend_register_runs:
  assumes "dest \<noteq> zero" "byte \<in> {1, 2, 4}"
  shows "\<exists>t. runs (sign_extend_register dest src byte) s t \<and>
    rget dest t = x86_sread byte (rget src s) \<and> keeps {dest} s t"
proof -
  have "byte = 1 \<or> byte = 2 \<or> byte = 4"
    using assms(2) by simp
  then show ?thesis
    using assms(1)
    apply (elim disjE; simp add: sign_extend_register_def Let_def)
      apply (rule exI, rule conjI, (rule runs_intros, simp add: rv_simps)+,
      simp add: rv_simps x86_sread_def, rule bit_word_eqI, force simp: bit_simps)
     apply (rule exI, rule conjI, (rule runs_intros, simp add: rv_simps)+,
      simp add: rv_simps x86_sread_def, rule bit_word_eqI, force simp: bit_simps)
    apply (rule exI, rule conjI, (rule runs_intros, simp add: rv_simps)+,
      simp add: rv_simps x86_sread_def sext32_def)
    done
qed

section \<open>Loading an address\<close>

text \<open>
  The five packages of an address are its bit fields; a package whose top bit is set loads as a
  negative number, which the carry into the next package makes up for.
\<close>

lemma sext12_positive: "p < 0x800 \<Longrightarrow> sext12 (ucast (p :: u32)) = ucast p"
proof -
  assume "p < 0x800"
  then have "take_bit 11 p = p"
    by (simp add: take_bit_self_iff)
  then have "p = take_bit 11 p" ..
  then have "\<not> bit p n" if "11 \<le> n" for n
    using that by (metis bit_take_bit_iff not_le)
  then show ?thesis
    by - (rule bit_word_eqI, auto simp: sext12_def bit_simps min_def)
qed

lemma sext12_negative:
  "0x800 \<le> p \<Longrightarrow> p \<le> 0x1000 \<Longrightarrow> sext12 (ucast (p :: u32)) = ucast p - 0x1000"
proof (cases "p = 0x1000")
  case True
  then show ?thesis by (simp add: sext12_def)
next
  case False
  assume l: "0x800 \<le> p" and "p \<le> 0x1000"
  with False have "p < 0x1000" by simp
  then have t: "take_bit 12 p = p"
    by (simp add: take_bit_self_iff)
  then have hi: "\<not> bit p n" if "12 \<le> n" for n
    using that by (metis bit_take_bit_iff not_le)
  have b11: "bit p 11"
  proof (rule ccontr)
    assume n11: "\<not> bit p 11"
    have "take_bit 11 p = take_bit 12 p"
    proof (rule bit_word_eqI)
      fix n :: nat
      consider "n < 11" | "n = 11" | "11 < n" by linarith
      then show "bit (take_bit 11 p) n = bit (take_bit 12 p) n"
        by cases (auto simp: bit_take_bit_iff n11)
    qed
    then have "take_bit 11 p = p" using t by simp
    then have "p < 0x800"
      by (simp add: take_bit_self_iff)
    with l show False by simp
  qed
  have "(ucast p :: u64) - 0x1000 = ucast p + NOT (mask 12)"
    by (simp add: mask_eq_exp_minus_1)
  also have "\<dots> = ucast p OR NOT (mask 12)"
    by (rule disjunctive_add) (use hi in \<open>auto simp: bit_simps, metis not_le\<close>)
  also have "\<dots> = sext12 (ucast p)"
  proof (rule bit_word_eqI)
    fix n assume "n < LENGTH(64)"
    then show "bit (ucast p OR NOT (mask 12) :: u64) n = bit (sext12 (ucast p)) n"
      using hi [of n] b11 by (cases "n \<le> 11") (auto simp: sext12_def bit_simps min_def not_le)
  qed
  finally show ?thesis ..
qed

lemma push_upper_imm: "push_bit 32 (upper_imm p) = push_bit 44 (ucast p)"
proof (rule bit_word_eqI)
  fix n assume "n < LENGTH(64)"
  then consider "n = 63" | "n - 32 < 31" by fastforce
  then show "bit (push_bit 32 (upper_imm p)) n = bit (push_bit 44 (ucast p) :: u64) n"
    by cases (auto simp: upper_imm_def sext32_def bit_simps min_def)
qed

lemma packages_fields:
  "address_packages ptr =
    [ucast (take_bit 8 ptr), ucast (take_bit 12 (drop_bit 8 ptr)),
     ucast (take_bit 12 (drop_bit 20 ptr)), ucast (take_bit 12 (drop_bit 32 ptr)),
     ucast (take_bit 20 (drop_bit 44 ptr))]"
  by (simp add: address_packages_def drop_bit_and take_bit_eq_mask mask_eq_exp_minus_1)

lemma packages_sum:
  fixes ptr :: u64
  shows "ptr = take_bit 8 ptr + push_bit 8 (take_bit 12 (drop_bit 8 ptr)) +
    push_bit 20 (take_bit 12 (drop_bit 20 ptr)) + push_bit 32 (take_bit 12 (drop_bit 32 ptr)) +
    push_bit 44 (take_bit 20 (drop_bit 44 ptr))"
proof -
  have split: "take_bit (m + k) ptr = take_bit m ptr + push_bit m (take_bit k (drop_bit m ptr))" for m k
  proof -
    have "take_bit (m + k) ptr = take_bit m ptr OR push_bit m (take_bit k (drop_bit m ptr))"
      by (rule bit_word_eqI) (auto simp: bit_simps)
    also have "\<dots> = take_bit m ptr + push_bit m (take_bit k (drop_bit m ptr))"
      by (rule disjunctive_add [symmetric]) (auto simp: bit_simps)
    finally show ?thesis .
  qed
  have "ptr = take_bit (44 + 20) ptr" by (simp add: take_bit_word_eq_self)
  then show ?thesis
    using split [of 44 20] split [of 32 12] split [of 20 12] split [of 8 12] by simp
qed

lemma address_carries_5:
  "address_carries [p0, b1, b2, b3, b4] =
    (let p2 = b2 + of_bool (0x800 \<le> b1); p3 = b3 + of_bool (0x800 \<le> p2);
         p4 = b4 + of_bool (0x800 \<le> p3)
     in [p0, b1, p2, p3, p4])"
  by (simp add: address_carries_def high_bit_def Let_def)

lemma sext12_package:
  "p \<le> 0x1000 \<Longrightarrow> sext12 (ucast (p :: u32)) = ucast p - 0x1000 * of_bool (0x800 \<le> p)"
  using sext12_positive [of p] sext12_negative [of p] by (cases "0x800 \<le> p") auto

lemma package_bound:
  "(ucast (take_bit 12 (v :: u64)) :: u32) \<le> 0xfff"
  "(ucast (take_bit 20 (v :: u64)) :: u32) \<le> 0xfffff"
proof -
  have "(ucast (take_bit 12 v) :: u32) = take_bit 12 (ucast v)"
    "(ucast (take_bit 20 v) :: u32) = take_bit 20 (ucast v)"
    by (rule bit_word_eqI, auto simp: bit_simps)+
  then have "(ucast (take_bit 12 v) :: u32) = ucast v AND 0xfff"
    "(ucast (take_bit 20 v) :: u32) = ucast v AND 0xfffff"
    by (simp_all add: take_bit_eq_mask mask_eq_exp_minus_1)
  then show "(ucast (take_bit 12 v) :: u32) \<le> 0xfff" "(ucast (take_bit 20 v) :: u32) \<le> 0xfffff"
    by (simp_all add: word_and_le1)
qed

lemma package_carry:
  assumes "(p :: u32) \<le> 0xfffff"
  shows "unat (p + of_bool c) = unat p + of_bool c"
    "(ucast (p + of_bool c) :: u64) = ucast p + of_bool c"
proof -
  have b: "unat p \<le> 0xfffff"
    using assms by (simp add: word_le_nat_alt)
  show u: "unat (p + of_bool c) = unat p + of_bool c"
    using b by (cases c) (simp_all add: unat_word_ariths)
  have up: "unat (ucast x :: u64) = unat x" for x :: u32
    using unsigned_less [of x, where 'a = nat]
    by (simp add: unsigned_ucast_eq take_bit_nat_eq_self)
  have "unat (ucast (p + of_bool c) :: u64) = unat ((ucast p :: u64) + of_bool c)"
    using b u up [of p] by (cases c) (simp_all add: unat_word_ariths up)
  then show "(ucast (p + of_bool c) :: u64) = ucast p + of_bool c"
    by (simp add: word_unat_eq_iff)
qed

lemma sext12_carry:
  assumes "(p :: u32) \<le> 0xfff"
  shows "sext12 (ucast (p + of_bool c)) =
    ucast p + of_bool c - 0x1000 * of_bool (0x800 \<le> p + of_bool c)"
proof -
  have p: "p \<le> 0xfffff"
    using assms by (auto intro: order_trans)
  have "p + of_bool c \<le> 0x1000"
    using assms package_carry(1) [OF p, of c] by (cases c) (simp_all add: word_le_nat_alt)
  then show ?thesis
    using sext12_package package_carry(2) [OF p, of c] by simp
qed

lemma load_address_runs:
  assumes "dest \<noteq> zero"
  shows "\<exists>t. runs (load_address ptr dest) s t \<and> rget dest t = ptr \<and> keeps {dest} s t"
proof -
  define a1 a2 a3 a4 :: u32 where "a1 = ucast (take_bit 12 (drop_bit 8 ptr))"
    and "a2 = ucast (take_bit 12 (drop_bit 20 ptr))" and "a3 = ucast (take_bit 12 (drop_bit 32 ptr))"
    and "a4 = ucast (take_bit 20 (drop_bit 44 ptr))"
  define q2 where "q2 = a2 + of_bool (0x800 \<le> a1)"
  define q3 where "q3 = a3 + of_bool (0x800 \<le> q2)"
  define q4 where "q4 = a4 + of_bool (0x800 \<le> q3)"
  have packs: "address_carries (address_packages ptr) = [ucast (take_bit 8 ptr), a1, q2, q3, q4]"
    by (simp add: packages_fields address_carries_5 Let_def q2_def q3_def q4_def a1_def a2_def a3_def a4_def)
  have low: "sext12 (ucast (ucast (take_bit 8 ptr) :: u32)) = take_bit 8 ptr"
    by (rule bit_word_eqI) (auto simp: sext12_def bit_simps min_def)
  have val: "take_bit 8 ptr + push_bit 8 (sext12 (ucast a1)) + push_bit 20 (sext12 (ucast q2)) + push_bit 32 (sext12 (ucast q3)) + push_bit 44 (ucast q4) = ptr"
  proof -
    have b: "a1 \<le> 0xfff" "a2 \<le> 0xfff" "a3 \<le> 0xfff" "a4 \<le> 0xfffff"
      by (simp_all add: a1_def a2_def a3_def a4_def package_bound)
    have q4: "(ucast q4 :: u64) = ucast a4 + of_bool (0x800 \<le> q3)"
      unfolding q4_def by (rule package_carry(2)) (rule b)
    have s: "sext12 (ucast a1) = ucast a1 - 0x1000 * of_bool (0x800 \<le> a1)"
      "sext12 (ucast q2) = ucast a2 + of_bool (0x800 \<le> a1) - 0x1000 * of_bool (0x800 \<le> q2)"
      "sext12 (ucast q3) = ucast a3 + of_bool (0x800 \<le> q2) - 0x1000 * of_bool (0x800 \<le> q3)"
      using sext12_carry [OF b(1), of False] sext12_carry [OF b(2), of "0x800 \<le> a1"]
        sext12_carry [OF b(3), of "0x800 \<le> q2"]
      by (simp_all add: q2_def q3_def)
    have u: "take_bit 12 (drop_bit 8 ptr) = ucast a1" "take_bit 12 (drop_bit 20 ptr) = ucast a2"
      "take_bit 12 (drop_bit 32 ptr) = ucast a3" "take_bit 20 (drop_bit 44 ptr) = ucast a4"
      unfolding a1_def a2_def a3_def a4_def by (rule bit_word_eqI, auto simp: bit_simps)+
    show ?thesis
      using packages_sum [of ptr] unfolding u s q4
      by (simp add: push_bit_eq_mult algebra_simps)
  qed
  show ?thesis
    using assms
    apply -
    apply (rule exI, rule conjI, simp add: load_address_def Let_def packs)
     apply (rule runs_intros, simp add: rv_simps)+
    apply (simp add: rv_simps low push_bit_add push_upper_imm)
    using val
    apply (simp add: algebra_simps)
    done
qed

end
