(* ===== verification/LoadImmediate.thy ===== *)
theory LoadImmediate
  imports Helper
begin

text \<open>
  \<^verbatim>\<open>codegen::helper::load_immediate\<close> of \<^verbatim>\<open>codegen/helper.cpp\<close>: the loop that cuts a 64-bit immediate
  into packages for LUI and XORI and the shifts between them, and the emission of the instructions.
  The main result is that for every immediate the emitted code loads exactly it. The loop ends
  because every round consumes at least one bit; it fills at most five packages, the size of the
  arrays of the source.
\<close>

section \<open>The encoding loop\<close>

record li_state =
  li_packages :: "u32 list"
  li_shifts :: "u8 list"
  li_index :: nat
  li_current :: int
  li_lui :: bool

text \<open>
  Count the equal bits below the current one: \<open>k\<close> bits remain below, \<open>equal\<close> were found so far. The
  result is their number and the number of bits left, which is \<open>current_bit + 1\<close>.
\<close>

fun li_count :: "u64 \<Rightarrow> bool \<Rightarrow> nat \<Rightarrow> nat \<Rightarrow> nat \<times> nat" where
  "li_count imm upper 0 equal = (equal, 0)"
| "li_count imm upper (Suc k) equal =
    (if bit imm k \<noteq> upper then (equal, Suc k) else li_count imm upper k (equal + 1))"

text \<open>The digits of the next package, the equal digits above it and the bit to go on with.\<close>

definition li_digits :: "nat \<Rightarrow> nat \<Rightarrow> nat \<Rightarrow> int \<Rightarrow> nat \<times> nat \<times> int" where
  "li_digits index digits equal current =
    (if digits < 12 then
       (let digits = digits + equal in
        if digits > 12 then (12, digits - 12, - 1) else (digits, 0, - 1))
     else if digits > 12 then
       (if digits \<ge> 32 \<and> index = 0 then (20, equal, int digits - 21)
        else if digits + equal \<ge> 32 \<and> index = 0 then
          (let digits = digits + equal in
           if digits > 32 then (32 - 12, digits - 32, 11) else (digits - 12, 0, 11))
        else (12, equal, int digits - 13))
     else (digits, equal, current - (int digits - 1)))"

definition li_step :: "u64 \<Rightarrow> li_state \<Rightarrow> li_state" where
  "li_step imm st = (let
     index = li_index st;
     upper = bit imm (nat (li_current st));
     (equal, left) = li_count imm upper (nat (li_current st)) 1;
     current = int left - 1;
     (current, equal) =
       (if index = 1 \<and> li_lui st \<and> equal \<le> 12 then (current + (int equal - 1), 1)
        else (current, equal));
     digits = nat (current + 2);
     equal = equal - 1;
     (digits, equal, current) = li_digits index digits equal current;
     packages = (li_packages st)
       [index := ucast (drop_bit (nat (current + 1)) imm AND drop_bit (64 - digits) (- 1))];
     lui = (li_lui st \<or> index = 0 \<and> digits = 20);
     packages =
       (if upper \<and> digits = 12 \<and> index > 0
        then packages[index - 1 := NOT (packages ! (index - 1))] else packages);
     index = index + 1;
     shifts =
       (if index > 1 then
          (li_shifts st)[index - 2 :=
             of_nat (if lui \<and> index = 2 then digits + equal - 12 else digits + equal)]
        else li_shifts st)
     in \<lparr>li_packages = packages, li_shifts = shifts, li_index = index, li_current = current,
         li_lui = lui\<rparr>)"

lemma li_count_spec:
  assumes "li_count imm upper k e = (e', m)"
  shows "m \<le> k" "e' = e + (k - m)" "\<And>j. m \<le> j \<Longrightarrow> j < k \<Longrightarrow> bit imm j = upper"
proof -
  have "m \<le> k \<and> e' = e + (k - m) \<and> (\<forall>j. m \<le> j \<and> j < k \<longrightarrow> bit imm j = upper)"
    using assms
  proof (induction k arbitrary: e)
    case 0
    then show ?case by simp
  next
    case (Suc k)
    then show ?case
    proof (cases "bit imm k = upper")
      case True
      with Suc.prems Suc.IH [of "e + 1"]
      have IH: "m \<le> k" "e' = (e + 1) + (k - m)" "\<forall>j. m \<le> j \<and> j < k \<longrightarrow> bit imm j = upper"
        by simp_all
      then have "e' = e + (Suc k - m)" by simp
      with True IH(1,3) show ?thesis
        by (auto simp: less_Suc_eq)
    next
      case False
      with Suc.prems show ?thesis by auto
    qed
  qed
  then show "m \<le> k" "e' = e + (k - m)" "\<And>j. m \<le> j \<Longrightarrow> j < k \<Longrightarrow> bit imm j = upper"
    by auto
qed

lemma li_step_current:
  "li_current (li_step imm st) =
    (let c = li_current st; (equal, left) = li_count imm (bit imm (nat c)) (nat c) 1;
         (current, equal) =
           (if li_index st = 1 \<and> li_lui st \<and> equal \<le> 12 then (int left - 1 + (int equal - 1), 1)
            else (int left - 1, equal))
     in snd (snd (li_digits (li_index st) (nat (current + 2)) (equal - 1) current)))"
  by (simp add: li_step_def Let_def split: prod.split)

lemma li_digits_current:
  assumes "li_digits index (nat (current + 2)) equal current = (d, e, c)" "0 \<le> c" "- 1 \<le> current"
  shows "c \<le> current"
  using assms by (simp add: li_digits_def Let_def split: if_splits)

lemma li_step_decreases:
  assumes "0 \<le> li_current (li_step imm st)"
  shows "li_current (li_step imm st) < li_current st"
proof -
  obtain e m where em: "li_count imm (bit imm (nat (li_current st))) (nat (li_current st)) 1 = (e, m)"
    by force
  note spec = li_count_spec(1,2) [OF em]
  define cur where "cur = (if li_index st = 1 \<and> li_lui st \<and> e \<le> 12 then int m - 1 + (int e - 1)
    else int m - 1)"
  define eq where "eq = (if li_index st = 1 \<and> li_lui st \<and> e \<le> 12 then 1 else e)"
  obtain d e' c where c: "li_digits (li_index st) (nat (cur + 2)) (eq - 1) cur = (d, e', c)"
    by (metis prod_cases3)
  have step: "li_current (li_step imm st) = c"
    using c em by (auto simp: li_step_current Let_def cur_def eq_def)
  have "- 1 \<le> cur" "cur < max 0 (li_current st)"
    using spec by (auto simp: cur_def)
  then have "c \<le> cur"
    using li_digits_current [OF c] assms step by simp
  then show ?thesis
    using step assms \<open>cur < max 0 (li_current st)\<close> by linarith
qed

function li_loop :: "u64 \<Rightarrow> li_state \<Rightarrow> li_state" where
  "li_loop imm st = (let st' = li_step imm st in if li_current st' < 0 then st' else li_loop imm st')"
  by auto
termination
proof (relation "measure (\<lambda>(imm, st). nat (li_current st + 1))", simp)
  fix imm :: u64 and st st'
  assume "st' = li_step imm st" "\<not> li_current st' < 0"
  then show "((imm, st'), imm, st) \<in> measure (\<lambda>(imm, st). nat (li_current st + 1))"
    using li_step_decreases [of imm st] by simp
qed

declare li_loop.simps [simp del]

definition li_init :: li_state where
  "li_init = \<lparr>li_packages = [0, 0, 0, 0, 0], li_shifts = [0, 0, 0, 0], li_index = 0,
     li_current = 63, li_lui = False\<rparr>"

section \<open>Emission\<close>

definition li_emit :: "RiscVRegister \<Rightarrow> li_state \<Rightarrow> nat \<Rightarrow> RiscVRegister \<Rightarrow> RiscVRegister gen" where
  "li_emit dest st i reg = do {
     let package = li_packages st ! i;
     reg \<leftarrow>
       (if i = 0 \<and> li_lui st then do { emit (LUI dest package); ret dest }
        else if package > 0 \<or> i = 0 then do { emit (XORI dest reg (ucast package)); ret dest }
        else ret reg);
     if i + 1 < li_index st \<and> li_shifts st ! i > 0
       then do { emit (SLLI dest reg (li_shifts st ! i)); ret dest }
       else ret reg
   }"

definition load_immediate :: "u64 \<Rightarrow> RiscVRegister \<Rightarrow> unit gen" where
  "load_immediate imm dest = do {
     let st = li_loop imm li_init;
     reg \<leftarrow> fold_gen (li_emit dest st) [0..<li_index st] zero;
     skip
   }"

section \<open>The emitted code computes the packages\<close>

primrec li_value :: "li_state \<Rightarrow> nat \<Rightarrow> u64" where
  "li_value st 0 = (if li_lui st then upper_imm (li_packages st ! 0)
     else sext12 (ucast (li_packages st ! 0)))"
| "li_value st (Suc i) = push_bit (unat (li_shifts st ! i)) (li_value st i) XOR
     sext12 (ucast (li_packages st ! Suc i))"

definition li_shifted :: "li_state \<Rightarrow> nat \<Rightarrow> u64" where
  "li_shifted st i = (if i + 1 < li_index st
     then push_bit (unat (li_shifts st ! i)) (li_value st i) else li_value st i)"

definition li_shift :: "RiscVRegister \<Rightarrow> li_state \<Rightarrow> nat \<Rightarrow> unit gen" where
  "li_shift dest st i = (if i + 1 < li_index st \<and> li_shifts st ! i > 0
     then emit (SLLI dest dest (li_shifts st ! i)) else skip)"

lemma li_emit_first:
  "li_emit dest st 0 zero =
    (emit (if li_lui st then LUI dest (li_packages st ! 0)
       else XORI dest zero (ucast (li_packages st ! 0))) \<then> (li_shift dest st 0 \<then> ret dest))"
  by (simp add: li_emit_def Let_def li_shift_def)

lemma li_emit_next:
  "0 < i \<Longrightarrow> li_emit dest st i dest =
    ((if li_packages st ! i > 0 then emit (XORI dest dest (ucast (li_packages st ! i))) else skip)
      \<then> (li_shift dest st i \<then> ret dest))"
  by (simp add: li_emit_def Let_def li_shift_def)

lemma shamt_unat:
  "unat sh < 64 \<Longrightarrow> unat ((ucast (sh AND 0x3f) :: u64) AND 0x3f) = unat (sh :: u8)"
proof -
  have mask6: "(0x3f :: u64) = mask 6" by (simp add: mask_eq_exp_minus_1)
  assume "unat sh < 64"
  then have "take_bit 6 sh = sh"
    by (simp add: take_bit_self_iff word_less_nat_alt)
  moreover have "sh AND 0x3f = take_bit 6 sh"
    by (simp add: take_bit_eq_mask mask_eq_exp_minus_1)
  moreover have "(ucast (take_bit 6 sh) :: u64) AND 0x3f = ucast (take_bit 6 sh)"
    by (rule bit_word_eqI) (auto simp: bit_simps mask6)
  ultimately have "unat ((ucast (sh AND 0x3f) :: u64) AND 0x3f) = unat (ucast sh :: u64)"
    by simp
  then show ?thesis
    using unsigned_less [of sh, where 'a = nat]
    by (simp add: unsigned_ucast_eq take_bit_nat_eq_self)
qed

lemma li_shift_runs:
  assumes "dest \<noteq> zero" "i + 1 < li_index st \<Longrightarrow> unat (li_shifts st ! i) < 64"
    and "rget dest s = li_value st i"
  shows "\<exists>t. runs (li_shift dest st i) s t \<and> rget dest t = li_shifted st i \<and> keeps {dest} s t"
proof (cases "i + 1 < li_index st \<and> li_shifts st ! i > 0")
  case True
  with assms show ?thesis
    apply -
    apply (rule exI, rule conjI, simp add: li_shift_def)
     apply (rule runs_intros, simp add: rv_simps)+
    apply (simp add: rv_simps li_shifted_def shamt_unat)
    done
next
  case False
  then have "li_shifted st i = li_value st i"
    by (auto simp: li_shifted_def word_gt_0)
  with False assms(3) show ?thesis
    by (intro exI [of _ s]) (auto simp: li_shift_def runs_skip)
qed

lemma li_fold_runs:
  assumes "dest \<noteq> zero" "\<And>i. i + 1 < li_index st \<Longrightarrow> unat (li_shifts st ! i) < 64"
  shows "n < li_index st \<Longrightarrow> \<exists>t. runs_val (fold_gen (li_emit dest st) [0..<Suc n] zero) s dest t \<and>
    rget dest t = li_shifted st n \<and> keeps {dest} s t"
proof (induction n)
  case 0
  let ?w = "if li_lui st then LUI dest (li_packages st ! 0)
       else XORI dest zero (ucast (li_packages st ! 0))"
  obtain t where t: "rv_step ?w s = Some t" "rget dest t = li_value st 0" "keeps {dest} s t"
    using assms(1) by (cases "li_lui st") (auto simp: rv_simps)
  obtain u where u: "runs (li_shift dest st 0) t u" "rget dest u = li_shifted st 0" "keeps {dest} t u"
    using li_shift_runs [OF assms(1) assms(2) t(2)] 0 by auto
  have "runs_val (fold_gen (li_emit dest st) [0..<Suc 0] zero) s dest u"
    using runs_val_emit_comp [OF t(1) runs_val_returning [OF u(1)]]
    by (simp add: li_emit_first split del: if_split)
  moreover have "keeps {dest} s u"
    using keeps_trans [OF t(3) u(3)] by simp
  ultimately show ?case
    using u(2) by (intro exI conjI)
next
  case (Suc n)
  then obtain t where g: "runs_val (fold_gen (li_emit dest st) [0..<Suc n] zero) s dest t"
    "rget dest t = li_shifted st n" "keeps {dest} s t"
    by auto
  let ?h = "if li_packages st ! Suc n > 0 then emit (XORI dest dest (ucast (li_packages st ! Suc n))) else skip"
  have "\<exists>u. runs ?h t u \<and> rget dest u = li_value st (Suc n) \<and> keeps {dest} t u"
  proof (cases "li_packages st ! Suc n > 0")
    case True
    with assms(1) g(2) Suc.prems show ?thesis
      apply -
      apply (rule exI, rule conjI, simp)
       apply (rule runs_emit, simp add: rv_simps)
      apply (simp add: rv_simps li_shifted_def)
      done
  next
    case False
    with g(2) Suc.prems show ?thesis
      by (intro exI [of _ t]) (auto simp: runs_skip li_shifted_def word_gt_0)
  qed
  then obtain u where u: "runs ?h t u" "rget dest u = li_value st (Suc n)" "keeps {dest} t u"
    by blast
  obtain v where v: "runs (li_shift dest st (Suc n)) u v" "rget dest v = li_shifted st (Suc n)"
    "keeps {dest} u v"
    using li_shift_runs [OF assms(1) assms(2) u(2)] by auto
  have "runs_val (li_emit dest st (Suc n) dest) t dest v"
    unfolding li_emit_next [OF zero_less_Suc]
    by (rule runs_val_pre [OF u(1)], rule runs_val_returning, rule v(1))
  then have "runs_val (fold_gen (li_emit dest st) [0..<Suc (Suc n)] zero) s dest v"
    unfolding upt_Suc_append [OF le0, of "Suc n"] fold_gen_snoc by (rule runs_val_bind [OF g(1)])
  moreover have "keeps {dest} s v"
    using keeps_trans [OF keeps_trans [OF g(3) u(3)] v(3)] by simp
  ultimately show ?case
    using v(2) by (intro exI conjI)
qed

section \<open>The packages make up the immediate\<close>

lemma bit_sext12 [bit_simps]: "bit (sext12 p) n \<longleftrightarrow> n < 64 \<and> bit p (min n 11)"
  by (auto simp: sext12_def bit_simps min_def)

lemma sext12_not: "sext12 (ucast (NOT p :: u32)) = NOT (sext12 (ucast p))"
  by (rule bit_word_eqI) (auto simp: bit_simps min_def)

lemma upper_imm_not: "upper_imm p = push_bit 12 v \<Longrightarrow> upper_imm (NOT p) = push_bit 12 (NOT v)"
proof -
  assume u: "upper_imm p = push_bit 12 v"
  have p: "bit (upper_imm p) n = (n < 64 \<and> 12 \<le> n \<and> bit p (min n 31 - 12))" for n
    by (auto simp: upper_imm_def sext32_def bit_simps min_def)
  have np: "bit (upper_imm (NOT p)) n = (n < 64 \<and> 12 \<le> n \<and> \<not> bit p (min n 31 - 12))" for n
    by (auto simp: upper_imm_def sext32_def bit_simps min_def)
  show ?thesis
  proof (rule bit_word_eqI)
    fix n assume n: "n < LENGTH(64)"
    have "bit (upper_imm p) n = bit (push_bit 12 v) n"
      using u by simp
    then show "bit (upper_imm (NOT p)) n = bit (push_bit 12 (NOT v)) n"
      using n unfolding p np by (auto simp: bit_simps)
  qed
qed

definition package :: "u64 \<Rightarrow> nat \<Rightarrow> nat \<Rightarrow> u32" where
  "package imm m d = ucast (drop_bit m imm AND drop_bit (64 - d) (- 1))"

lemma bit_package [bit_simps]:
  "d \<le> 32 \<Longrightarrow> bit (package imm m d) n \<longleftrightarrow> n < d \<and> bit imm (m + n)"
  by (auto simp: package_def bit_simps)

text \<open>How a package and the skipped digits above it extend the value loaded so far.\<close>

lemma value_step_inverted:
  assumes "d = 12" "m + d + e \<le> 63" "bit imm (m + 11)"
    and "\<And>j. m + d \<le> j \<Longrightarrow> j < m + d + e \<Longrightarrow> bit imm j"
  shows "push_bit (d + e) (NOT (signed_drop_bit (m + d + e) imm)) XOR sext12 (ucast (package imm m d)) =
    signed_drop_bit m imm"
proof (rule bit_word_eqI)
  fix n assume "n < LENGTH(64)"
  then show "bit (push_bit (d + e) (NOT (signed_drop_bit (m + d + e) imm)) XOR
      sext12 (ucast (package imm m d))) n = bit (signed_drop_bit m imm) n"
    using assms by (cases "n < 12"; cases "n < 12 + e") (auto simp: bit_simps min_def not_less)
qed

lemma value_step_plain:
  assumes "d \<le> 12" "m + d + e \<le> 63" "d = 12 \<Longrightarrow> \<not> bit imm (m + 11)"
    and "d < 12 \<Longrightarrow> e = 0"
    and "\<And>j. m + d \<le> j \<Longrightarrow> j < m + d + e \<Longrightarrow> \<not> bit imm j"
  shows "push_bit (d + e) (signed_drop_bit (m + d + e) imm) XOR sext12 (ucast (package imm m d)) =
    signed_drop_bit m imm"
proof (rule bit_word_eqI)
  fix n assume "n < LENGTH(64)"
  then show "bit (push_bit (d + e) (signed_drop_bit (m + d + e) imm) XOR
      sext12 (ucast (package imm m d))) n = bit (signed_drop_bit m imm) n"
    using assms by (cases "n < d"; cases "n < d + e") (auto simp: bit_simps min_def not_less)
qed

lemma li_digits_next:
  assumes "li_digits n dd eq cur = (d, e, c)" "0 < n" "1 \<le> dd" "dd = 12 \<Longrightarrow> cur = 10"
  shows "int d + int e + c + 1 = int dd + int eq" "- 1 \<le> c" "d \<le> 12" "1 \<le> d" "e \<le> eq"
    "d = 12 \<or> (e = 0 \<and> c = - 1)" "e = eq \<or> c = - 1"
  using assms by (auto simp: li_digits_def Let_def split: if_splits)

lemma li_step_next:
  assumes n: "0 < li_index st" and cur: "0 \<le> li_current st"
  obtains d e c where
    "li_step imm st = (let n = li_index st; upper = bit imm (nat (li_current st));
       packages = (li_packages st)[n := package imm (nat (c + 1)) d] in
       \<lparr>li_packages = (if upper \<and> d = 12 then packages[n - 1 := NOT (packages ! (n - 1))] else packages),
        li_shifts = (li_shifts st)[n - 1 := of_nat (if li_lui st \<and> n = 1 then d + e - 12 else d + e)],
        li_index = n + 1, li_current = c, li_lui = li_lui st\<rparr>)"
    "int d + int e + c = li_current st" "- 1 \<le> c" "d \<le> 12" "1 \<le> d" "d = 12 \<or> (e = 0 \<and> c = - 1)"
    "\<And>j. nat (c + 1) + d \<le> j \<Longrightarrow> j \<le> nat (li_current st) \<Longrightarrow> bit imm j = bit imm (nat (li_current st))"
    "d = 12 \<Longrightarrow> bit imm (nat (c + 1) + 11) = bit imm (nat (li_current st))"
    "li_index st = 1 \<Longrightarrow> li_lui st \<Longrightarrow> e = 0 \<or> c = - 1 \<or> 12 \<le> e"
proof -
  let ?c0 = "li_current st"
  obtain eq m where em: "li_count imm (bit imm (nat ?c0)) (nat ?c0) 1 = (eq, m)"
    by force
  note spec = li_count_spec [OF em]
  define cur where "cur = (if li_index st = 1 \<and> li_lui st \<and> eq \<le> 12 then int m - 1 + (int eq - 1)
    else int m - 1)"
  define eq' where "eq' = (if li_index st = 1 \<and> li_lui st \<and> eq \<le> 12 then 1 else eq)"
  obtain d e c where dig: "li_digits (li_index st) (nat (cur + 2)) (eq' - 1) cur = (d, e, c)"
    by (metis prod_cases3)
  have pos: "1 \<le> nat (cur + 2)" "nat (cur + 2) = 12 \<Longrightarrow> cur = 10"
    using spec(1,2) by (auto simp: cur_def)
  note D = li_digits_next [OF dig n pos]
  have sum: "int d + int e + c = ?c0"
    using D(1) spec(1,2) cur by (auto simp: cur_def eq'_def split: if_splits)
  have low: "int m \<le> ?c0 - int e"
    using D(5) spec(1,2) cur by (auto simp: eq'_def split: if_splits)
  have bits: "bit imm j = bit imm (nat ?c0)" if "m \<le> j" "j \<le> nat ?c0" for j
    using spec(3) [of j] that by (cases "j = nat ?c0") auto
  show ?thesis
  proof (rule that [where d = d and e = e and c = c])
    show "int d + int e + c = ?c0" "- 1 \<le> c" "d \<le> 12" "1 \<le> d" "d = 12 \<or> (e = 0 \<and> c = - 1)"
      using sum D by simp_all
    show "bit imm j = bit imm (nat ?c0)" if "nat (c + 1) + d \<le> j" "j \<le> nat ?c0" for j
      using that low sum D by (intro bits) linarith+
    show "bit imm (nat (c + 1) + 11) = bit imm (nat ?c0)" if "d = 12"
      using that low sum D by (intro bits) linarith+
    show "e = 0 \<or> c = - 1 \<or> 12 \<le> e" if "li_index st = 1" "li_lui st"
      using D(5,7) that by (auto simp: eq'_def split: if_splits)
    show "li_step imm st = (let n = li_index st; upper = bit imm (nat ?c0);
       packages = (li_packages st)[n := package imm (nat (c + 1)) d] in
       \<lparr>li_packages = (if upper \<and> d = 12 then packages[n - 1 := NOT (packages ! (n - 1))] else packages),
        li_shifts = (li_shifts st)[n - 1 := of_nat (if li_lui st \<and> n = 1 then d + e - 12 else d + e)],
        li_index = n + 1, li_current = c, li_lui = li_lui st\<rparr>)"
      using n dig em unfolding li_step_def Let_def package_def
      by (auto simp: cur_def eq'_def split: if_splits)
  qed
qed

lemma li_value_cong:
  assumes "li_lui st' = li_lui st" "\<And>j. j \<le> i \<Longrightarrow> li_packages st' ! j = li_packages st ! j"
    "\<And>j. j < i \<Longrightarrow> li_shifts st' ! j = li_shifts st ! j"
  shows "li_value st' i = li_value st i"
  using assms by (induction i) simp_all

lemma li_value_inverted:
  assumes "li_lui st' = li_lui st" "\<And>j. j < i \<Longrightarrow> li_packages st' ! j = li_packages st ! j"
    "li_packages st' ! i = NOT (li_packages st ! i)"
    "\<And>j. j < i \<Longrightarrow> li_shifts st' ! j = li_shifts st ! j"
    and "li_value st i = (if li_lui st \<and> i = 0 then push_bit 12 v else v)"
  shows "li_value st' i = (if li_lui st \<and> i = 0 then push_bit 12 (NOT v) else NOT v)"
proof (cases i)
  case 0
  with assms show ?thesis by (auto simp: sext12_not upper_imm_not)
next
  case (Suc k)
  have "li_value st' k = li_value st k"
    by (rule li_value_cong) (use assms Suc in auto)
  moreover have "x XOR NOT y = NOT (x XOR y)" for x y :: u64
    by (rule bit_word_eqI) (auto simp: bit_simps)
  ultimately show ?thesis
    using assms Suc by (auto simp: sext12_not)
qed

definition li_inv :: "u64 \<Rightarrow> li_state \<Rightarrow> bool" where
  "li_inv imm st \<longleftrightarrow>
     1 \<le> li_index st \<and> li_index st \<le> 5 \<and> - 1 \<le> li_current st \<and>
     length (li_packages st) = 5 \<and> length (li_shifts st) = 4 \<and>
     (\<forall>i. i + 1 < li_index st \<longrightarrow> unat (li_shifts st ! i) < 64) \<and>
     (0 \<le> li_current st \<longrightarrow> li_current st + 1 + 12 * (int (li_index st) - 1) \<le> 44 \<and>
        (li_index st = 1 \<longrightarrow> 11 \<le> li_current st)) \<and>
     (li_lui st \<and> li_index st = 1 \<longrightarrow> 0 \<le> li_current st) \<and>
     li_value st (li_index st - 1) =
       (if li_lui st \<and> li_index st - 1 = 0
        then push_bit 12 (signed_drop_bit (nat (li_current st + 1)) imm)
        else signed_drop_bit (nat (li_current st + 1)) imm)"

lemma unat_of_nat_u8: "k < 256 \<Longrightarrow> unat (of_nat k :: u8) = k"
  by (simp add: unat_of_nat take_bit_nat_eq_self)

lemma li_inv_step:
  assumes inv: "li_inv imm st" and cur: "0 \<le> li_current st"
  shows "li_inv imm (li_step imm st)"
proof -
  define n where "n = li_index st"
  define st' where "st' = li_step imm st"
  have n: "1 \<le> n" "n \<le> 5" "length (li_packages st) = 5" "length (li_shifts st) = 4"
    "\<And>i. i + 1 < n \<Longrightarrow> unat (li_shifts st ! i) < 64"
    "li_current st + 1 + 12 * (int n - 1) \<le> 44" "n = 1 \<Longrightarrow> 11 \<le> li_current st"
    using inv cur by (auto simp: li_inv_def n_def)
  define v where "v = signed_drop_bit (nat (li_current st + 1)) imm"
  have val: "li_value st (n - 1) = (if li_lui st \<and> n - 1 = 0 then push_bit 12 v else v)"
    using inv by (simp add: li_inv_def n_def v_def)
  have "int n < 5" using n(6) cur by (simp add: algebra_simps)
  then have "n < 5" by simp
  have pos: "0 < li_index st" using n(1) by (simp add: n_def)
  obtain d e c where st0: "li_step imm st = (let n = li_index st; upper = bit imm (nat (li_current st));
       packages = (li_packages st)[n := package imm (nat (c + 1)) d] in
       \<lparr>li_packages = (if upper \<and> d = 12 then packages[n - 1 := NOT (packages ! (n - 1))] else packages),
        li_shifts = (li_shifts st)[n - 1 := of_nat (if li_lui st \<and> n = 1 then d + e - 12 else d + e)],
        li_index = n + 1, li_current = c, li_lui = li_lui st\<rparr>)"
    and sum: "int d + int e + c = li_current st" and c: "- 1 \<le> c"
    and d: "d \<le> 12" "1 \<le> d" "d = 12 \<or> (e = 0 \<and> c = - 1)"
    and skip: "\<And>j. nat (c + 1) + d \<le> j \<Longrightarrow> j \<le> nat (li_current st) \<Longrightarrow>
        bit imm j = bit imm (nat (li_current st))"
    and top: "d = 12 \<Longrightarrow> bit imm (nat (c + 1) + 11) = bit imm (nat (li_current st))"
    and "li_index st = 1 \<Longrightarrow> li_lui st \<Longrightarrow> e = 0 \<or> c = - 1 \<or> 12 \<le> e"
    by (rule li_step_next [OF pos cur, of imm]) (rule that)
  note st' = st0 [folded st'_def]
  define m where "m = nat (c + 1)"
  have m: "nat (li_current st + 1) = m + d + e" "nat (c + 1) = m" "m + d + e \<le> 44"
    using sum c n(1,6) cur by (simp_all add: m_def)
  let ?u = "bit imm (nat (li_current st))"
  have fields: "li_index st' = n + 1" "li_current st' = c" "li_lui st' = li_lui st"
    "li_packages st' ! n = package imm m d"
    "\<And>j. j < n - 1 \<Longrightarrow> li_packages st' ! j = li_packages st ! j"
    "li_packages st' ! (n - 1) = (if ?u \<and> d = 12 then NOT (li_packages st ! (n - 1)) else li_packages st ! (n - 1))"
    "li_shifts st' ! (n - 1) = of_nat (if li_lui st \<and> n = 1 then d + e - 12 else d + e)"
    "\<And>j. j < n - 1 \<Longrightarrow> li_shifts st' ! j = li_shifts st ! j"
    "length (li_packages st') = 5" "length (li_shifts st') = 4"
    using n(1,3,4) \<open>n < 5\<close> unfolding st' Let_def n_def m_def by auto
  have k12: "12 \<le> d + e" if "n = 1"
    using that n(7) sum d by auto
  define w where "w = (if ?u \<and> d = 12 then NOT v else v)"
  have prev: "li_value st' (n - 1) = (if li_lui st \<and> n - 1 = 0 then push_bit 12 w else w)"
  proof (cases "?u \<and> d = 12")
    case True
    then show ?thesis
      using li_value_inverted [OF fields(3,5) _ fields(8) val] fields(6) by (simp add: w_def)
  next
    case False
    have "li_value st' (n - 1) = li_value st (n - 1)"
      by (rule li_value_cong) (use fields False in \<open>auto simp: le_less\<close>)
    moreover have "w = v" using False by (auto simp: w_def)
    ultimately show ?thesis using val by simp
  qed
  have amount: "unat (li_shifts st' ! (n - 1)) =
      (if li_lui st \<and> n = 1 then d + e - 12 else d + e)"
    unfolding fields(7) by (rule unat_of_nat_u8) (use m(3) in auto)
  have value_n: "li_value st' n = push_bit (d + e) w XOR sext12 (ucast (package imm m d))"
  proof -
    have new: "li_value st' (Suc (n - 1)) =
        push_bit (unat (li_shifts st' ! (n - 1))) (li_value st' (n - 1)) XOR
        sext12 (ucast (li_packages st' ! Suc (n - 1)))"
      by (rule li_value.simps(2))
    have "push_bit (unat (li_shifts st' ! (n - 1))) (li_value st' (n - 1)) = push_bit (d + e) w"
      using prev k12 n(1) amount by (auto simp: push_bit_push_bit)
    then show ?thesis
      using new n(1) fields(4) by simp
  qed
  have skipped: "bit imm j = ?u" if "m + d \<le> j" "j < m + d + e" for j
    by (rule skip) (use that m cur in linarith)+
  have step: "push_bit (d + e) w XOR sext12 (ucast (package imm m d)) = signed_drop_bit m imm"
  proof (cases "?u \<and> d = 12")
    case True
    then have "push_bit (d + e) (NOT v) XOR sext12 (ucast (package imm m d)) = signed_drop_bit m imm"
      unfolding v_def m(1)
      using True m(2,3) top skipped by (intro value_step_inverted) simp_all
    with True show ?thesis by (simp add: w_def)
  next
    case False
    then have "push_bit (d + e) v XOR sext12 (ucast (package imm m d)) = signed_drop_bit m imm"
      unfolding v_def m(1)
      using False m(2,3) top skipped d by (intro value_step_plain) auto
    with False show ?thesis by (auto simp: w_def)
  qed
  note newest = value_n [unfolded step]
  have shifts: "unat (li_shifts st' ! i) < 64" if "i + 1 < n + 1" for i
  proof (cases "i = n - 1")
    case True
    then show ?thesis using amount m(3) by auto
  next
    case False
    with that show ?thesis using fields(8) [of i] n(5) [of i] by auto
  qed
  have "c + 1 + 12 * int n \<le> 44" if "0 \<le> c"
    using that d sum n(6) by auto
  then show ?thesis
    unfolding st'_def [symmetric] li_inv_def
    using fields(1-3,9,10) n(1) \<open>n < 5\<close> c shifts newest m(2) by auto
qed
lemma first_value_short:
  assumes "\<And>j. 11 \<le> j \<Longrightarrow> j \<le> 63 \<Longrightarrow> bit imm j = u"
  shows "sext12 (ucast (package imm 0 12)) = imm"
proof (rule bit_word_eqI)
  fix n assume "n < LENGTH(64)"
  then show "bit (sext12 (ucast (package imm 0 12))) n = bit imm n"
    using assms [of n] assms [of 11] by (cases "n \<le> 11") (auto simp: bit_simps min_def)
qed

lemma first_value_lui:
  assumes "\<And>j. m + 19 \<le> j \<Longrightarrow> j \<le> 63 \<Longrightarrow> bit imm j = u" "m + 20 \<le> 64"
  shows "upper_imm (package imm m 20) = push_bit 12 (signed_drop_bit m imm)"
proof (rule bit_word_eqI)
  fix n assume "n < LENGTH(64)"
  then have n: "n \<le> 63" by simp
  show "bit (upper_imm (package imm m 20)) n = bit (push_bit 12 (signed_drop_bit m imm)) n"
  proof (cases "n < 31")
    case True
    then show ?thesis using assms(2) by (auto simp: upper_imm_def sext32_def bit_simps min_def)
  next
    case False
    have "bit imm (if 64 - m \<le> n - 12 then 63 else m + (n - 12)) = u"
      by (rule assms(1)) (use False n assms(2) in auto)
    moreover have "bit imm (m + 19) = u" by (rule assms(1)) (use assms(2) in auto)
    ultimately show ?thesis
      using False n by (auto simp: upper_imm_def sext32_def bit_simps min_def split: if_splits)
  qed
qed

lemma li_inv_init: "li_inv imm (li_step imm li_init)"
proof -
  obtain eq m where em: "li_count imm (bit imm 63) 63 1 = (eq, m)"
    by force
  note spec = li_count_spec [OF em]
  have bits: "bit imm j = bit imm 63" if "m \<le> j" "j \<le> 63" for j
    using spec(3) [of j] that by (cases "j = 63") auto
  have step: "li_step imm li_init = (let (d, e, c) = li_digits 0 (m + 1) (63 - m) (int m - 1) in
      \<lparr>li_packages = [package imm (nat (c + 1)) d, 0, 0, 0, 0], li_shifts = [0, 0, 0, 0],
       li_index = 1, li_current = c, li_lui = (d = 20)\<rparr>)"
    using em spec(1,2) by (simp add: li_step_def li_init_def Let_def package_def nat_add_distrib split: prod.split)
  consider (short) "m < 12" | (mid) "12 \<le> m" "m < 31" | (long) "31 \<le> m"
    by linarith
  then show ?thesis
  proof cases
    case short
    have "sext12 (ucast (package imm 0 12)) = imm"
      by (rule first_value_short [of _ "bit imm 63"]) (rule bits; use short in linarith)
    moreover have "li_digits 0 (m + 1) (63 - m) (int m - 1) = (12, 52, - 1)"
      using short by (auto simp: li_digits_def Let_def)
    ultimately show ?thesis
      by (simp add: step li_inv_def)
  next
    case mid
    have "upper_imm (package imm 12 20) = push_bit 12 (signed_drop_bit 12 imm)"
      by (rule first_value_lui [of _ _ "bit imm 63"]) ((rule bits, use mid in simp_all)[1], simp)
    moreover have "li_digits 0 (m + 1) (63 - m) (int m - 1) = (20, 32, 11)"
      using mid by (auto simp: li_digits_def Let_def)
    ultimately show ?thesis
      by (simp add: step li_inv_def)
  next
    case long
    have "upper_imm (package imm (m - 19) 20) = push_bit 12 (signed_drop_bit (m - 19) imm)"
      by (rule first_value_lui [of _ _ "bit imm 63"]) ((rule bits, use long in simp_all)[1], use long spec(1) in simp)
    moreover have "li_digits 0 (m + 1) (63 - m) (int m - 1) = (20, 63 - m, int m - 20)"
      using long by (auto simp: li_digits_def Let_def)
    moreover have "nat (int m - 20 + 1) = m - 19"
      using long by simp
    ultimately show ?thesis
      using long spec(1) by (simp add: step li_inv_def)
  qed
qed

lemma li_loop_inv:
  assumes "li_inv imm (li_step imm st)"
  shows "li_inv imm (li_loop imm st) \<and> li_current (li_loop imm st) < 0"
  using assms
proof (induction imm st rule: li_loop.induct)
  case (1 imm st)
  show ?case
  proof (cases "li_current (li_step imm st) < 0")
    case True
    with 1(2) show ?thesis by (subst (1 2) li_loop.simps) (simp add: Let_def)
  next
    case False
    with 1 li_inv_step [of imm "li_step imm st"] have
      "li_inv imm (li_loop imm (li_step imm st)) \<and> li_current (li_loop imm (li_step imm st)) < 0"
      by simp
    with False show ?thesis by (subst (1 2) li_loop.simps) (simp add: Let_def)
  qed
qed

lemma load_immediate_runs:
  assumes "dest \<noteq> zero"
  shows "\<exists>t. runs (load_immediate imm dest) s t \<and> rget dest t = imm \<and> keeps {dest} s t"
proof -
  let ?st = "li_loop imm li_init"
  have inv: "li_inv imm ?st" "li_current ?st < 0"
    using li_loop_inv [OF li_inv_init] by blast+
  then have idx: "1 \<le> li_index ?st" "li_current ?st = - 1"
    "\<And>i. i + 1 < li_index ?st \<Longrightarrow> unat (li_shifts ?st ! i) < 64"
    by (auto simp: li_inv_def)
  have val: "li_shifted ?st (li_index ?st - 1) = imm"
  proof -
    have "\<not> (li_lui ?st \<and> li_index ?st = 1)"
      using inv by (auto simp: li_inv_def)
    with inv(1) idx(1,2) show ?thesis by (auto simp: li_inv_def li_shifted_def)
  qed
  obtain n where n: "li_index ?st = Suc n"
    using idx(1) by (cases "li_index ?st") auto
  obtain t where t: "runs_val (fold_gen (li_emit dest ?st) [0..<Suc n] zero) s dest t"
    "rget dest t = li_shifted ?st n" "keeps {dest} s t"
    using li_fold_runs [OF assms idx(3), of n s] n by auto
  have "runs (load_immediate imm dest) s t"
    unfolding load_immediate_def Let_def n by (rule runs_bind [OF t(1) runs_skip])
  then show ?thesis
    using t(2,3) val n by auto
qed

section \<open>The length of the emitted code\<close>

text \<open>
  Five packages need all but the first shift: the first is the upper immediate, and skipping digits
  for a second shift leaves too few for five.
\<close>

definition li_short :: "li_state \<Rightarrow> bool" where
  "li_short st \<longleftrightarrow>
     (0 \<le> li_current st \<longrightarrow> li_lui st) \<and>
     (2 \<le> li_index st \<longrightarrow> li_shifts st ! 0 = 0 \<or> li_index st \<le> 4 \<and>
       (0 \<le> li_current st \<longrightarrow> li_current st + 1 + 12 * (int (li_index st) - 1) \<le> 32))"

lemma li_short_step:
  assumes inv: "li_inv imm st" and short: "li_short st" and cur: "0 \<le> li_current st"
  shows "li_short (li_step imm st)"
proof -
  define n where "n = li_index st"
  have n: "1 \<le> n" "length (li_shifts st) = 4" "li_current st + 1 + 12 * (int n - 1) \<le> 44"
    using inv cur by (auto simp: li_inv_def n_def)
  have "int n < 5" using n(3) cur by (simp add: algebra_simps)
  have lui: "li_lui st"
    using short cur by (simp add: li_short_def)
  have pos: "0 < li_index st" using n(1) by (simp add: n_def)
  obtain d e c where st': "li_step imm st = (let n = li_index st; upper = bit imm (nat (li_current st));
       packages = (li_packages st)[n := package imm (nat (c + 1)) d] in
       \<lparr>li_packages = (if upper \<and> d = 12 then packages[n - 1 := NOT (packages ! (n - 1))] else packages),
        li_shifts = (li_shifts st)[n - 1 := of_nat (if li_lui st \<and> n = 1 then d + e - 12 else d + e)],
        li_index = n + 1, li_current = c, li_lui = li_lui st\<rparr>)"
    and sum: "int d + int e + c = li_current st" and c: "- 1 \<le> c"
    and d: "d \<le> 12" "1 \<le> d" "d = 12 \<or> (e = 0 \<and> c = - 1)"
    and "\<And>j. nat (c + 1) + d \<le> j \<Longrightarrow> j \<le> nat (li_current st) \<Longrightarrow>
        bit imm j = bit imm (nat (li_current st))"
    and "d = 12 \<Longrightarrow> bit imm (nat (c + 1) + 11) = bit imm (nat (li_current st))"
    and first: "li_index st = 1 \<Longrightarrow> li_lui st \<Longrightarrow> e = 0 \<or> c = - 1 \<or> 12 \<le> e"
    by (rule li_step_next [OF pos cur, of imm]) (rule that)
  have f: "li_index (li_step imm st) = n + 1" "li_current (li_step imm st) = c" "li_lui (li_step imm st)"
    "li_shifts (li_step imm st) ! 0 = (if n = 1 then of_nat (d + e - 12) else li_shifts st ! 0)"
    using n(1,2) lui unfolding st' Let_def n_def by auto
  show ?thesis
  proof (cases "n = 1")
    case True
    have "(of_nat (d + e - 12) :: u8) = 0 \<or> c + 1 + 12 * int n \<le> 32 \<or> c < 0"
      using first lui True sum d n(3) by (auto simp: n_def)
    then show ?thesis
      using f True by (auto simp: li_short_def)
  next
    case False
    then have "li_shifts st ! 0 = 0 \<or> n \<le> 4 \<and> li_current st + 1 + 12 * (int n - 1) \<le> 32"
      using short cur n(1) by (auto simp: li_short_def n_def)
    then show ?thesis
    proof
      assume "n \<le> 4 \<and> li_current st + 1 + 12 * (int n - 1) \<le> 32"
      then have "n + 1 \<le> 4" "0 \<le> c \<longrightarrow> c + 1 + 12 * int n \<le> 32"
        using cur sum d by auto
      then show ?thesis
        using f by (simp add: li_short_def)
    qed (use f False in \<open>simp add: li_short_def\<close>)
  qed
qed

lemma li_short_init: "li_short (li_step imm li_init)"
proof -
  obtain eq m where em: "li_count imm (bit imm 63) 63 1 = (eq, m)"
    by force
  note spec = li_count_spec [OF em]
  have step: "li_step imm li_init = (let (d, e, c) = li_digits 0 (m + 1) (63 - m) (int m - 1) in
      \<lparr>li_packages = [package imm (nat (c + 1)) d, 0, 0, 0, 0], li_shifts = [0, 0, 0, 0],
       li_index = 1, li_current = c, li_lui = (d = 20)\<rparr>)"
    using em spec(1,2) by (simp add: li_step_def li_init_def Let_def package_def nat_add_distrib split: prod.split)
  show ?thesis
    unfolding step using spec(1) by (auto simp: li_short_def li_digits_def Let_def)
qed

lemma li_loop_short:
  assumes "li_inv imm (li_step imm st)" "li_short (li_step imm st)"
  shows "li_short (li_loop imm st)"
  using assms
proof (induction imm st rule: li_loop.induct)
  case (1 imm st)
  show ?case
  proof (cases "li_current (li_step imm st) < 0")
    case True
    with 1(3) show ?thesis by (subst li_loop.simps) (simp add: Let_def)
  next
    case False
    with 1 li_inv_step [of imm "li_step imm st"] li_short_step [of imm "li_step imm st"] have
      "li_short (li_loop imm (li_step imm st))"
      by simp
    with False show ?thesis by (subst li_loop.simps) (simp add: Let_def)
  qed
qed

text \<open>The number of instructions for a package and for the first packages.\<close>

definition li_cost :: "li_state \<Rightarrow> nat \<Rightarrow> nat" where
  "li_cost st i = (if i + 1 < li_index st \<and> li_shifts st ! i > 0 then 2 else 1)"

lemma li_emit_cost:
  "\<exists>r code. (\<forall>c. run_state (li_emit dest st i reg) (Inr c) = (r, Inr (c @ code))) \<and>
     length code \<le> li_cost st i"
proof -
  define head where "head = (if i = 0 \<and> li_lui st then [LUI dest (li_packages st ! i)]
    else if li_packages st ! i > 0 \<or> i = 0 then [XORI dest reg (ucast (li_packages st ! i))] else [])"
  define r where "r = (if head = [] then reg else dest)"
  define tail where "tail = (if i + 1 < li_index st \<and> li_shifts st ! i > 0
    then [SLLI dest r (li_shifts st ! i)] else [])"
  have "run_state (li_emit dest st i reg) (Inr c) = (if tail = [] then r else dest, Inr (c @ head @ tail))" for c
    by (simp add: li_emit_def Let_def head_def tail_def r_def)
  moreover have "length (head @ tail) \<le> li_cost st i"
    by (simp add: head_def tail_def li_cost_def)
  ultimately show ?thesis
    by blast
qed

lemma li_fold_cost:
  "\<exists>r code. (\<forall>c. run_state (fold_gen (li_emit dest st) [0..<n] reg) (Inr c) = (r, Inr (c @ code))) \<and>
     length code \<le> (\<Sum>i<n. li_cost st i)"
proof (induction n)
  case 0
  then show ?case
    by (intro exI [of _ reg] exI [of _ "[]"]) simp
next
  case (Suc n)
  then obtain r code where g: "\<forall>c. run_state (fold_gen (li_emit dest st) [0..<n] reg) (Inr c) = (r, Inr (c @ code))"
    "length code \<le> (\<Sum>i<n. li_cost st i)"
    by blast
  obtain r' code' where h: "\<forall>c. run_state (li_emit dest st n r) (Inr c) = (r', Inr (c @ code'))"
    "length code' \<le> li_cost st n"
    using li_emit_cost by blast
  show ?case
    using g h unfolding upt_Suc_append [OF le0] fold_gen_snoc
    by (intro exI [of _ r'] exI [of _ "code @ code'"]) simp
qed

lemma load_immediate_length:
  "\<exists>code. (\<forall>c. run_state (load_immediate imm dest) (Inr c) = ((), Inr (c @ code))) \<and> length code \<le> 8"
proof -
  let ?st = "li_loop imm li_init"
  have inv: "1 \<le> li_index ?st" "li_index ?st \<le> 5"
    using li_loop_inv [OF li_inv_init] by (auto simp: li_inv_def)
  have short: "2 \<le> li_index ?st \<longrightarrow> li_shifts ?st ! 0 = 0 \<or> li_index ?st \<le> 4"
    using li_loop_short [OF li_inv_init li_short_init] by (auto simp: li_short_def)
  obtain r code where code: "\<forall>c. run_state (fold_gen (li_emit dest ?st) [0..<li_index ?st] zero) (Inr c) =
      (r, Inr (c @ code))" "length code \<le> (\<Sum>i<li_index ?st. li_cost ?st i)"
    using li_fold_cost by blast
  have "li_index ?st \<in> {1, 2, 3, 4, 5}"
    using inv by auto
  then have "(\<Sum>i<li_index ?st. li_cost ?st i) \<le> 8"
    using short by (auto simp: li_cost_def lessThan_nat_numeral lessThan_Suc)
  then show ?thesis
    using code by (intro exI [of _ code]) (simp add: load_immediate_def Let_def)
qed

end
