(* ===== verification/InstructionBase.thy ===== *)
theory InstructionBase
  imports LoadImmediate
begin

text \<open>
  The base class of all translated instructions (\<^verbatim>\<open>codegen/instruction.{h,cpp}\<close>): a decoded
  instruction with the flags it updates and requires, translation of its operands, memory accesses
  and segment overrides, and the generators that record and evaluate the status flags lazily. Each
  method is a generator taking the instruction; where the C++ code addresses a string or a callback
  of the translator itself, the record \<open>host\<close> gives that address.
\<close>

section \<open>Instructions\<close>

record Instruction = fadec_Instruction +
  update_flags :: u8
  require_flags :: u8
  end_of_block :: bool

record host =
  host_literal :: "string \<Rightarrow> u64"
  host_callback :: "string \<Rightarrow> u64"
  host_call_table :: u64

definition make_Instruction :: "fadec_Instruction \<Rightarrow> u8 \<Rightarrow> u8 \<Rightarrow> bool \<Rightarrow> Instruction" where
  "make_Instruction inst update require eob =
     fadec_Instruction.extend inst
       \<lparr>update_flags = update, require_flags = require, end_of_block = eob\<rparr>"

definition get_require :: "Instruction \<Rightarrow> u8" where
  "get_require inst = require_flags inst"

definition get_update :: "Instruction \<Rightarrow> u8" where
  "get_update inst = update_flags inst"

definition get_eob :: "Instruction \<Rightarrow> bool" where
  "get_eob inst = end_of_block inst"

definition set_update :: "u8 \<Rightarrow> Instruction \<Rightarrow> Instruction" where
  "set_update flags inst = inst\<lparr>update_flags := flags\<rparr>"

section \<open>Memory operands\<close>

text \<open>Displacements and immediates are signed; the small ones fit the 12-bit immediate of an instruction.\<close>

definition fits_imm12 :: "u64 \<Rightarrow> bool" where
  "fits_imm12 d \<longleftrightarrow> - 0x800 \<le> sint d \<and> sint d < 0x800"

definition disp_mask :: "Instruction \<Rightarrow> u64" where
  "disp_mask inst = (if inst_addrsz inst = 8 then 0xffffffffffffffff else 0x00000000ffffffff)"

definition handle_segment_override ::
  "Instruction \<Rightarrow> RiscVRegister \<Rightarrow> RiscVRegister \<Rightarrow> RiscVRegister gen" where
  "handle_segment_override inst base temp =
    (let off = (if inst_segment inst = reg_fs then fs_offset
                else if inst_segment inst = reg_gs then gs_offset else 0) in
     if off \<noteq> 0 then do {
       emit (LD temp context_address off);
       (if base \<noteq> zero then emit (ADD temp base temp) else skip);
       ret temp
     }
     else ret base)"

definition translate_memory ::
  "Instruction \<Rightarrow> Operand \<Rightarrow> RiscVRegister \<Rightarrow> RiscVRegister \<Rightarrow> bool \<Rightarrow> RiscVRegister gen" where
  "translate_memory inst op dst temp force_dst = do {
     (if inst_addrsz inst < 4 then fault_exit Invalid_addressing_size else skip);
     let has_index = (inst_idx_reg inst \<noteq> reg_none);
     let has_base = (op_register op \<noteq> reg_none);
     let displacement = inst_disp inst;
     temp_result \<leftarrow>
       (if has_index then
          (let index_reg = map_reg (inst_idx_reg inst) in
           if inst_idx_scale inst = 0 then ret index_reg
           else do {
             let scaled = (if has_base then temp else dst);
             emit (SLLI scaled index_reg (inst_idx_scale inst));
             ret scaled
           })
        else ret zero);
     temp_result \<leftarrow>
       (if has_base then
          (let base_reg = map_reg (op_register op) in
           if temp_result \<noteq> zero then do {
             emit (ADD dst temp_result base_reg);
             ret dst
           }
           else ret base_reg)
        else ret temp_result);
     temp_result \<leftarrow>
       (if displacement \<noteq> 0 then do {
          (if fits_imm12 displacement then emit (ADDI dst temp_result (ucast displacement))
           else if temp_result = zero then load_immediate displacement dst
           else do {
             load_immediate displacement temp;
             emit (ADD dst temp_result temp)
           });
          ret dst
        }
        else ret temp_result);
     if inst_addrsz inst = 4 then do {
       emit (SLLI dst temp_result 32);
       emit (SRLI dst dst 32);
       ret dst
     }
     else if force_dst \<and> temp_result \<noteq> dst then do {
       emit (MV dst temp_result);
       ret dst
     }
     else ret temp_result
   }"

text \<open>
  The address of a memory access: for a small displacement only base and index are added up, and
  the displacement goes into the instruction; otherwise \<open>translate_memory\<close> adds everything.
\<close>

definition read_address ::
  "Instruction \<Rightarrow> Operand \<Rightarrow> RiscVRegister \<Rightarrow> RiscVRegister \<Rightarrow> RiscVRegister gen" where
  "read_address inst op dest temp =
    (if fits_imm12 (inst_disp inst) then
       (let base = (if op_register op \<noteq> reg_none then map_reg (op_register op) else zero);
            index = map_reg (inst_idx_reg inst) in
        if inst_idx_reg inst \<noteq> reg_none then
          (if base \<noteq> zero then do {
             (if inst_idx_scale inst = 0 then emit (ADD temp base index)
              else do {
                emit (SLLI temp index (inst_idx_scale inst));
                emit (ADD temp temp base)
              });
             ret temp
           }
           else if inst_idx_scale inst = 0 then ret index
           else do {
             emit (SLLI temp index (inst_idx_scale inst));
             ret temp
           })
        else ret base)
     else translate_memory inst op temp dest False)"

definition load_instruction :: "nat \<Rightarrow> bool \<Rightarrow> RiscVRegister \<Rightarrow> RiscVRegister \<Rightarrow> u16 \<Rightarrow> u32" where
  "load_instruction sz sign_extended dest base disp =
    (if sz = 8 then LD dest base disp
     else if sz = 4 then (if sign_extended then LW else LWU) dest base disp
     else if sz = 2 then (if sign_extended then LH else LHU) dest base disp
     else (if sign_extended then LB else LBU) dest base disp)"

text \<open>The displacement left for the instruction itself: none when the address has it already.\<close>

definition operation_displacement :: "Instruction \<Rightarrow> u64" where
  "operation_displacement inst =
    (if fits_imm12 (inst_disp inst) then inst_disp inst AND disp_mask inst else 0)"

definition read_from_memory ::
  "Instruction \<Rightarrow> Operand \<Rightarrow> RiscVRegister \<Rightarrow> RiscVRegister \<Rightarrow> bool \<Rightarrow> RiscVRegister gen" where
  "read_from_memory inst op dest temp sign_extended = do {
     (if inst_addrsz inst < 4 then fault_exit Invalid_addressing_size else skip);
     base \<leftarrow> read_address inst op dest temp;
     base \<leftarrow> handle_segment_override inst base (if base = temp then dest else temp);
     emit (load_instruction (op_size op) sign_extended dest base
       (ucast (operation_displacement inst)));
     ret base
   }"

definition write_address ::
  "Instruction \<Rightarrow> Operand \<Rightarrow> RiscVRegister \<Rightarrow> RiscVRegister \<Rightarrow> RiscVRegister \<Rightarrow> RiscVRegister gen" where
  "write_address inst op temp_a temp_b address =
    (if address = zero then
       (if fits_imm12 (inst_disp inst) then
          (let base = (if op_register op \<noteq> reg_none then map_reg (op_register op) else address);
               index = map_reg (inst_idx_reg inst) in
           if inst_idx_reg inst \<noteq> reg_none then
             (if base \<noteq> zero then do {
                (if inst_idx_scale inst = 0 then emit (ADD temp_a base index)
                 else do {
                   emit (SLLI temp_b index (inst_idx_scale inst));
                   emit (ADD temp_a temp_b base)
                 });
                ret temp_a
              }
              else if inst_idx_scale inst = 0 then ret index
              else do {
                emit (SLLI temp_a index (inst_idx_scale inst));
                ret temp_a
              })
           else ret base)
        else translate_memory inst op temp_a temp_b False)
     else ret address)"

definition store_instruction :: "nat \<Rightarrow> RiscVRegister \<Rightarrow> RiscVRegister \<Rightarrow> u32 \<Rightarrow> u32" where
  "store_instruction sz address src disp =
    (if sz = 8 then SD address src disp
     else if sz = 4 then SW address src disp
     else if sz = 2 then SH address src disp
     else SB address src disp)"

definition write_to_memory ::
  "Instruction \<Rightarrow> Operand \<Rightarrow> RiscVRegister \<Rightarrow> RiscVRegister \<Rightarrow> RiscVRegister \<Rightarrow> RiscVRegister \<Rightarrow>
   unit gen" where
  "write_to_memory inst op src temp_a temp_b address = do {
     (if inst_addrsz inst < 4 then fault_exit Invalid_addressing_size else skip);
     address \<leftarrow> write_address inst op temp_a temp_b address;
     address \<leftarrow>
       handle_segment_override inst address (if address = temp_a then temp_b else temp_a);
     emit (store_instruction (op_size op) address src (ucast (operation_displacement inst)))
   }"

section \<open>Operands\<close>

text \<open>
  The source returns the address register through a pointer; here the pair has the value's register
  first and the address register second.
\<close>

definition translate_operand ::
  "Instruction \<Rightarrow> Operand \<Rightarrow> RiscVRegister \<Rightarrow> RiscVRegister \<Rightarrow> bool \<Rightarrow> bool \<Rightarrow> bool \<Rightarrow> bool \<Rightarrow>
   (RiscVRegister \<times> RiscVRegister) gen" where
  "translate_operand inst op temp_a temp_b modifiable full_load sign_extend destination =
    (if op_type op = op_mem then do {
       address \<leftarrow> read_from_memory inst op temp_a temp_b sign_extend;
       ret (temp_a, address)
     }
     else if op_type op = op_reg then
       (let high_reg = (op_register_type op = rt_gph);
            mapped_reg = map_reg_typed (op_register op) (op_register_type op) in
        if destination \<and> op_size op \<ge> 4 \<and> (\<not> full_load \<or> op_size op = 8)
        then ret (mapped_reg, zero)
        else do {
          reg \<leftarrow> load_from_register mapped_reg (if high_reg then 0 else op_size op) temp_a
            modifiable full_load sign_extend;
          ret (reg, zero)
        })
     else if op_type op = op_imm then do {
       let imm = (if op_size op < 8 \<and> \<not> sign_extend \<and> \<not> full_load
                  then inst_imm inst AND drop_bit (64 - op_size op * 8) 0xffffffffffffffff
                  else inst_imm inst);
       load_immediate imm temp_a;
       ret (temp_a, zero)
     }
     else ret (zero, zero))"

definition translate_destination ::
  "Instruction \<Rightarrow> RiscVRegister \<Rightarrow> RiscVRegister \<Rightarrow> RiscVRegister \<Rightarrow> RiscVRegister \<Rightarrow> unit gen"
  where
  "translate_destination inst reg address temp_a temp_b =
    (let operand = get_operand 0 inst in
     if op_type operand = op_reg then
       (let high_reg = (op_register_type operand = rt_gph);
            mapped_reg = map_reg_typed (op_register operand) (op_register_type operand) in
        if op_size operand \<noteq> 8 \<or> mapped_reg \<noteq> reg then
          move_to_register mapped_reg reg (if high_reg then 0 else op_size operand) temp_a False
        else skip)
     else if op_type operand \<noteq> op_mem then skip
     else write_to_memory inst operand reg temp_a temp_b address)"

end
