(* ===== verification/FlagCode.thy ===== *)
theory FlagCode
  imports InstructionBase
begin

text \<open>
  Recording and evaluating the status flags (the \<open>update_\<close> and \<open>evaluate_\<close> methods of
  \<^verbatim>\<open>codegen/instruction.cpp\<close>). An update stores what the flag depends on into the execution
  context; an evaluation computes the flag from there, zero, sign and parity inline, carry and
  overflow by a call to the routine whose table offset was recorded.
\<close>

section \<open>Evaluation\<close>

definition evaluate_zero :: "RiscVRegister \<Rightarrow> unit gen" where
  "evaluate_zero dest =
     emit (LD dest context_address (of_nat zero_value_offset)) \<then>
     emit (SEQZ dest dest)"

definition evaluate_sign :: "RiscVRegister \<Rightarrow> RiscVRegister \<Rightarrow> unit gen" where
  "evaluate_sign dest temp =
     emit (LBU temp context_address (of_nat sign_size_offset)) \<then>
     emit (LD dest context_address (of_nat sign_value_offset)) \<then>
     emit (SRL dest dest temp) \<then>
     emit (ANDI dest dest 1)"

definition evaluate_parity :: "RiscVRegister \<Rightarrow> RiscVRegister \<Rightarrow> unit gen" where
  "evaluate_parity dest temp =
     emit (LBU dest context_address (of_nat parity_value_offset)) \<then>
     emit (SRLI temp dest 4) \<then>
     emit (XOR' dest dest temp) \<then>
     emit (SRLI temp dest 2) \<then>
     emit (XOR' dest dest temp) \<then>
     emit (SRLI temp dest 1) \<then>
     emit (XOR' dest dest temp) \<then>
     emit (ANDI dest dest 1) \<then>
     emit (SEQZ dest dest)"

definition evaluate_overflow :: "unit gen" where
  "evaluate_overflow =
     emit (LHU t4 context_address (of_nat overflow_operation_offset)) \<then>
     jump_table_offset t4"

definition evaluate_carry :: "unit gen" where
  "evaluate_carry =
     emit (LHU t4 context_address (of_nat carry_operation_offset)) \<then>
     jump_table_offset t4"

section \<open>Updates\<close>

definition updates :: "u8 \<Rightarrow> Instruction \<Rightarrow> bool" where
  "updates flag inst \<longleftrightarrow> update_flags inst AND flag \<noteq> 0"

text \<open>Setting zero, sign or parity to a known value.\<close>

definition update_zero_to :: "Instruction \<Rightarrow> bool \<Rightarrow> RiscVRegister \<Rightarrow> unit gen" where
  "update_zero_to inst on temp =
    (if \<not> updates flags_zero inst then skip
     else if on then emit (SD context_address zero (of_nat zero_value_offset))
     else emit (ADDI temp zero 1) \<then>
       emit (SD context_address temp (of_nat zero_value_offset)))"

definition update_zero :: "Instruction \<Rightarrow> RiscVRegister \<Rightarrow> nat \<Rightarrow> unit gen" where
  "update_zero inst va sz =
    (if \<not> updates flags_zero inst then skip
     else if sz = 8 then emit (SD context_address va (of_nat zero_value_offset))
     else
       emit (SD context_address zero (of_nat zero_value_offset)) \<then>
       (if sz = 1 then emit (SB context_address va (of_nat zero_value_offset))
        else if sz = 2 then emit (SH context_address va (of_nat zero_value_offset))
        else if sz = 4 then emit (SW context_address va (of_nat zero_value_offset))
        else fault_exit Invalid_register_size))"

definition update_sign_to :: "Instruction \<Rightarrow> bool \<Rightarrow> RiscVRegister \<Rightarrow> unit gen" where
  "update_sign_to inst on temp =
    (if \<not> updates flags_sign inst then skip
     else if on then
       emit (ADDI temp zero (- 1)) \<then>
       emit (SD context_address temp (of_nat sign_value_offset))
     else emit (SD context_address zero (of_nat sign_value_offset)))"

definition update_sign :: "Instruction \<Rightarrow> RiscVRegister \<Rightarrow> nat \<Rightarrow> RiscVRegister \<Rightarrow> unit gen" where
  "update_sign inst va sz temp =
    (if \<not> updates flags_sign inst then skip
     else
       emit (SD context_address va (of_nat sign_value_offset)) \<then>
       emit (ADDI temp zero (of_nat (sz * 8 - 1))) \<then>
       emit (SB context_address temp (of_nat sign_size_offset)))"

definition update_parity_to :: "Instruction \<Rightarrow> bool \<Rightarrow> RiscVRegister \<Rightarrow> unit gen" where
  "update_parity_to inst on temp =
    (if \<not> updates flags_parity inst then skip
     else if on then emit (SB context_address zero (of_nat parity_value_offset))
     else emit (ADDI temp zero 1) \<then>
       emit (SB context_address temp (of_nat parity_value_offset)))"

definition update_parity :: "Instruction \<Rightarrow> RiscVRegister \<Rightarrow> unit gen" where
  "update_parity inst va =
    (if \<not> updates flags_parity inst then skip
     else emit (SB context_address va (of_nat parity_value_offset)))"

text \<open>
  Recording for carry and overflow: the table offset of the routine and up to two values. A null
  pointer of the source is \<open>None\<close>.
\<close>

definition store_entry :: "Entry option \<Rightarrow> RiscVRegister \<Rightarrow> nat \<Rightarrow> unit gen" where
  "store_entry entry temp off = (case entry of
     Some e \<Rightarrow> emit (ADDI temp zero (e * 4)) \<then> emit (SH context_address temp (of_nat off))
   | None \<Rightarrow> skip)"

definition store_value :: "RiscVRegister option \<Rightarrow> nat \<Rightarrow> unit gen" where
  "store_value v off = (case v of Some r \<Rightarrow> emit (SD context_address r (of_nat off)) | None \<Rightarrow> skip)"

definition update_overflow ::
  "Instruction \<Rightarrow> Entry option \<Rightarrow> RiscVRegister option \<Rightarrow> RiscVRegister option \<Rightarrow> RiscVRegister \<Rightarrow>
   unit gen" where
  "update_overflow inst entry va vb temp =
    (if \<not> updates flags_overflow inst then skip
     else
       store_entry entry temp overflow_operation_offset \<then>
       store_value va overflow_values_offset \<then>
       store_value vb (overflow_values_offset + 8))"

definition update_overflow_to :: "Instruction \<Rightarrow> bool \<Rightarrow> RiscVRegister \<Rightarrow> unit gen" where
  "update_overflow_to inst on temp =
    (if \<not> updates flags_overflow inst then skip
     else
       emit (ADDI temp zero ((if on then Entry_overflow_set else Entry_overflow_clear) * 4)) \<then>
       emit (SH context_address temp (of_nat overflow_operation_offset)))"

definition update_overflow_reg ::
  "RiscVRegister \<Rightarrow> RiscVRegister \<Rightarrow> RiscVRegister \<Rightarrow> unit gen" where
  "update_overflow_reg entry va vb =
     emit (SD context_address va (of_nat overflow_values_offset)) \<then>
     emit (SD context_address vb (of_nat (overflow_values_offset + 8))) \<then>
     emit (SH context_address entry (of_nat overflow_operation_offset))"

definition update_carry ::
  "Instruction \<Rightarrow> Entry option \<Rightarrow> RiscVRegister option \<Rightarrow> RiscVRegister option \<Rightarrow> RiscVRegister \<Rightarrow>
   unit gen" where
  "update_carry inst entry va vb temp =
    (if \<not> updates flags_carry inst then skip
     else
       store_entry entry temp carry_operation_offset \<then>
       store_value va carry_values_offset \<then>
       store_value vb (carry_values_offset + 8))"

definition update_carry_to :: "Instruction \<Rightarrow> bool \<Rightarrow> RiscVRegister \<Rightarrow> unit gen" where
  "update_carry_to inst on temp =
    (if \<not> updates flags_carry inst then skip
     else
       emit (ADDI temp zero ((if on then Entry_carry_set else Entry_carry_clear) * 4)) \<then>
       emit (SH context_address temp (of_nat carry_operation_offset)))"

definition update_carry_entry :: "RiscVRegister \<Rightarrow> unit gen" where
  "update_carry_entry entry =
     emit (SH context_address entry (of_nat carry_operation_offset))"

definition update_carry_reg ::
  "RiscVRegister \<Rightarrow> RiscVRegister \<Rightarrow> RiscVRegister \<Rightarrow> unit gen" where
  "update_carry_reg entry va vb =
     emit (SD context_address va (of_nat carry_values_offset)) \<then>
     emit (SD context_address vb (of_nat (carry_values_offset + 8))) \<then>
     emit (SH context_address entry (of_nat carry_operation_offset))"

text \<open>Flags that are evaluated by a callback, or not supported (the pointer is to a message).\<close>

definition update_carry_unsupported ::
  "host \<Rightarrow> Instruction \<Rightarrow> string \<Rightarrow> RiscVRegister \<Rightarrow> unit gen" where
  "update_carry_unsupported h inst name temp =
    (if \<not> updates flags_carry inst then skip
     else
       emit (ADDI temp zero (Entry_unsupported_carry * 4)) \<then>
       emit (SH context_address temp (of_nat carry_operation_offset)) \<then>
       load_immediate (host_literal h name) temp \<then>
       emit (SD context_address temp (of_nat carry_ptr_offset)))"

definition update_carry_high_level ::
  "host \<Rightarrow> Instruction \<Rightarrow> string \<Rightarrow> RiscVRegister \<Rightarrow> unit gen" where
  "update_carry_high_level h inst callback temp =
    (if \<not> updates flags_carry inst then skip
     else
       emit (ADDI temp zero (Entry_high_level_carry * 4)) \<then>
       emit (SH context_address temp (of_nat carry_operation_offset)) \<then>
       load_immediate (host_callback h callback) temp \<then>
       emit (SD context_address temp (of_nat carry_ptr_offset)))"

definition update_overflow_unsupported ::
  "host \<Rightarrow> Instruction \<Rightarrow> string \<Rightarrow> RiscVRegister \<Rightarrow> unit gen" where
  "update_overflow_unsupported h inst name temp =
    (if \<not> updates flags_overflow inst then skip
     else
       emit (ADDI temp zero (Entry_unsupported_overflow * 4)) \<then>
       emit (SH context_address temp (of_nat overflow_operation_offset)) \<then>
       load_immediate (host_literal h name) temp \<then>
       emit (SD context_address temp (of_nat overflow_ptr_offset)))"

definition update_overflow_high_level ::
  "host \<Rightarrow> Instruction \<Rightarrow> string \<Rightarrow> RiscVRegister \<Rightarrow> unit gen" where
  "update_overflow_high_level h inst callback temp =
    (if \<not> updates flags_overflow inst then skip
     else
       emit (ADDI temp zero (Entry_high_level_overflow * 4)) \<then>
       emit (SH context_address temp (of_nat overflow_operation_offset)) \<then>
       load_immediate (host_callback h callback) temp \<then>
       emit (SD context_address temp (of_nat overflow_ptr_offset)))"

definition call_high_level :: "host \<Rightarrow> string \<Rightarrow> unit gen" where
  "call_high_level h callback =
     load_immediate (host_callback h callback) t4 \<then>
     jump_table_entry Entry_c_wrapper"

end
