(* ===== verification/Operations.thy ===== *)
theory Operations
  imports FlagCode
begin

text \<open>
  The objects that \<^verbatim>\<open>transform_instruction\<close> creates, and the three base classes that most of them
  share: \<^verbatim>\<open>BinaryOperation\<close>, \<^verbatim>\<open>UnaryOperation\<close> (\<^verbatim>\<open>codegen/instructions\<close>) and \<^verbatim>\<open>Comparable\<close>
  (\<^verbatim>\<open>codegen/instructions/comparable\<close>). A class is its table of virtual methods; the base classes
  take the abstract methods they call as arguments.
\<close>

section \<open>Objects\<close>

record CallEntry =
  ce_x86_address :: u64
  ce_riscv_address :: u64

text \<open>
  \<^verbatim>\<open>generate\<close> may also extend the call table of the code generator, which only \<^verbatim>\<open>Call\<close> does.
\<close>

record object =
  obj_inst :: Instruction
  obj_generate :: "Instruction \<Rightarrow> CallEntry list \<Rightarrow> CallEntry list gen"
  obj_branch_address :: "Instruction \<Rightarrow> u64"
  obj_control_flow_dimension :: "Instruction \<Rightarrow> nat"

definition generate :: "object \<Rightarrow> CallEntry list \<Rightarrow> CallEntry list gen" where
  "generate ob = obj_generate ob (obj_inst ob)"

definition branch_address :: "object \<Rightarrow> u64" where
  "branch_address ob = obj_branch_address ob (obj_inst ob)"

definition control_flow_dimension :: "object \<Rightarrow> nat" where
  "control_flow_dimension ob = obj_control_flow_dimension ob (obj_inst ob)"

definition Instruction_branch_address :: "Instruction \<Rightarrow> u64" where
  "Instruction_branch_address inst = 0"

definition Instruction_control_flow_dimension :: "Instruction \<Rightarrow> nat" where
  "Instruction_control_flow_dimension inst = 0"

text \<open>An object of a class that overrides only \<^verbatim>\<open>generate\<close>, and not the call table.\<close>

definition plain_object :: "Instruction \<Rightarrow> (Instruction \<Rightarrow> unit gen) \<Rightarrow> object" where
  "plain_object inst g =
     \<lparr>obj_inst = inst, obj_generate = (\<lambda>inst call_table. do { g inst; ret call_table }),
      obj_branch_address = Instruction_branch_address,
      obj_control_flow_dimension = Instruction_control_flow_dimension\<rparr>"

lemma plain_object_simps [simp]:
  "obj_inst (plain_object inst g) = inst"
  "generate (plain_object inst g) ct = do { g inst; ret ct }"
  "branch_address (plain_object inst g) = 0"
  "control_flow_dimension (plain_object inst g) = 0"
  by (simp_all add: plain_object_def generate_def branch_address_def control_flow_dimension_def
      Instruction_branch_address_def Instruction_control_flow_dimension_def)

section \<open>Binary operations\<close>

type_synonym execute_reg = "Instruction \<Rightarrow> RiscVRegister \<Rightarrow> RiscVRegister \<Rightarrow> unit gen"
type_synonym execute_imm = "Instruction \<Rightarrow> RiscVRegister \<Rightarrow> u64 \<Rightarrow> unit gen"

definition BinaryOperation_execute_operation :: execute_imm where
  "BinaryOperation_execute_operation inst dst imm = fault_exit Unsupported_execute_operation"

definition BinaryOperation_generate ::
  "bool \<Rightarrow> execute_reg \<Rightarrow> execute_imm \<Rightarrow> Instruction \<Rightarrow> unit gen" where
  "BinaryOperation_generate dest_value execute_reg execute_imm inst = do {
     let dest = get_operand 0 inst;
     let src = get_operand 1 inst;
     source_register \<leftarrow>
       (if op_type src \<noteq> op_imm \<or> \<not> fits_imm12 (inst_imm inst) then do {
          (reg, address) \<leftarrow> translate_operand inst src t2 t3 False False False False;
          ret reg
        }
        else ret zero);
     (dest_register, address) \<leftarrow>
       (if dest_value then translate_operand inst dest t0 t1 True False False True
        else if op_type dest = op_reg \<and> op_size dest \<ge> 4 then ret (map_reg (op_register dest), zero)
        else ret (t0, zero));
     (if source_register \<noteq> zero then execute_reg inst dest_register source_register
      else execute_imm inst dest_register (inst_imm inst));
     update_zero inst dest_register (op_size dest);
     update_sign inst dest_register (op_size dest) t3;
     update_parity inst dest_register;
     if dest_value \<or> dest_register = t0 then
       translate_destination inst dest_register address t2 t3
     else if op_size dest < 8 then do {
       emit (SLLI dest_register dest_register 32);
       emit (SRLI dest_register dest_register 32)
     }
     else skip
   }"

definition BinaryOperation ::
  "fadec_Instruction \<Rightarrow> u8 \<Rightarrow> u8 \<Rightarrow> bool \<Rightarrow> execute_reg \<Rightarrow> execute_imm \<Rightarrow> object" where
  "BinaryOperation inst update require use_dest execute_reg execute_imm =
     plain_object (make_Instruction inst update require False)
       (BinaryOperation_generate use_dest execute_reg execute_imm)"

section \<open>Unary operations\<close>

type_synonym execute_unary = "Instruction \<Rightarrow> RiscVRegister \<Rightarrow> unit gen"

definition UnaryOperation_generate :: "execute_unary \<Rightarrow> Instruction \<Rightarrow> unit gen" where
  "UnaryOperation_generate execute_operation inst = do {
     let dest = get_operand 0 inst;
     (dest_register, address) \<leftarrow> translate_operand inst dest t0 t1 True False False True;
     execute_operation inst dest_register;
     update_zero inst dest_register (op_size dest);
     update_sign inst dest_register (op_size dest) t2;
     update_parity inst dest_register;
     translate_destination inst dest_register address t2 t3
   }"

definition UnaryOperation :: "fadec_Instruction \<Rightarrow> u8 \<Rightarrow> u8 \<Rightarrow> bool \<Rightarrow> execute_unary \<Rightarrow> object" where
  "UnaryOperation inst update require eob execute_operation =
     plain_object (make_Instruction inst update require eob)
       (UnaryOperation_generate execute_operation)"

section \<open>Comparisons\<close>

type_synonym compare_reg = "Instruction \<Rightarrow> RiscVRegister \<Rightarrow> RiscVRegister \<Rightarrow> RiscVRegister gen"
type_synonym compare_imm = "Instruction \<Rightarrow> RiscVRegister \<Rightarrow> u64 \<Rightarrow> RiscVRegister gen"

definition Comparable_generate :: "compare_reg \<Rightarrow> compare_imm \<Rightarrow> Instruction \<Rightarrow> unit gen" where
  "Comparable_generate compare_reg compare_imm inst = do {
     let dest = get_operand 0 inst;
     let src = get_operand 1 inst;
     source_register \<leftarrow>
       (if op_type src \<noteq> op_imm \<or> \<not> fits_imm12 (inst_imm inst) then do {
          (reg, address) \<leftarrow> translate_operand inst src t2 t3 False False False False;
          ret reg
        }
        else ret zero);
     (dest_register, address) \<leftarrow> translate_operand inst dest t0 t1 True False False True;
     result \<leftarrow>
       (if source_register \<noteq> zero then compare_reg inst dest_register source_register
        else compare_imm inst dest_register (inst_imm inst));
     update_zero inst result (op_size dest);
     update_sign inst result (op_size dest) t3;
     update_parity inst result
   }"

definition Comparable :: "fadec_Instruction \<Rightarrow> compare_reg \<Rightarrow> compare_imm \<Rightarrow> object" where
  "Comparable inst compare_reg compare_imm =
     plain_object (make_Instruction inst flags_all flags_none False)
       (Comparable_generate compare_reg compare_imm)"

lemmas [gen_defs] = BinaryOperation_generate_def UnaryOperation_generate_def Comparable_generate_def

end
