(* ===== verification/Arithmetic.thy ===== *)
theory Arithmetic
  imports Operations
begin

text \<open>
  The arithmetic instructions and comparisons (\<^verbatim>\<open>codegen/instructions/arithmetic\<close> and
  \<^verbatim>\<open>comparable\<close>). Null pointers passed to \<^verbatim>\<open>update_carry\<close> and \<^verbatim>\<open>update_overflow\<close> are \<open>None\<close>, and
  the temporary they then do not use is the default \<open>zero\<close>.
\<close>

section \<open>Addition and subtraction\<close>

text \<open>The entries of an addition of a constant, with the overflow routine by the constant's sign.\<close>

definition add_entries :: "u64 \<Rightarrow> nat \<Rightarrow> (Entry \<times> Entry) gen" where
  "add_entries imm sz =
    (if 0 \<le> sint imm then calculate_entries Entry_carry_add Entry_overflow_add_pos sz
     else calculate_entries Entry_carry_add Entry_overflow_add_neg sz)"

definition sub_entries :: "u64 \<Rightarrow> nat \<Rightarrow> (Entry \<times> Entry) gen" where
  "sub_entries imm sz =
    (if 0 \<le> sint imm then calculate_entries Entry_carry_add Entry_overflow_add_neg sz
     else calculate_entries Entry_carry_add Entry_overflow_add_pos sz)"

definition Add_execute_reg :: execute_reg where
  "Add_execute_reg inst dst src = do {
     (carry, overflow) \<leftarrow>
       calculate_entries Entry_carry_add Entry_overflow_add (op_size (get_operand 0 inst));
     update_overflow inst (Some overflow) (Some src) (Some dst) t4;
     emit (ADD dst src dst);
     update_carry inst (Some carry) (Some src) (Some dst) t4
   }"

definition Add_execute_imm :: execute_imm where
  "Add_execute_imm inst dst imm = do {
     (carry, overflow) \<leftarrow> add_entries imm (op_size (get_operand 0 inst));
     update_carry inst (Some carry) (Some dst) None t4;
     update_overflow inst (Some overflow) (Some dst) None t4;
     emit (ADDI dst dst (ucast imm));
     update_carry inst None None (Some dst) zero;
     update_overflow inst None None (Some dst) zero
   }"

definition Add :: "fadec_Instruction \<Rightarrow> object" where
  "Add inst = BinaryOperation inst flags_all flags_none True Add_execute_reg Add_execute_imm"

definition Adc_execute_reg :: execute_reg where
  "Adc_execute_reg inst dst src = do {
     evaluate_carry;
     if get_update inst AND (flags_carry OR flags_overflow) \<noteq> 0 then do {
       (carry, overflow) \<leftarrow>
         calculate_entries Entry_carry_add Entry_overflow_add (op_size (get_operand 0 inst));
       emit (SLLI t5 t4 4);
       (if get_update inst AND flags_overflow \<noteq> 0 then do {
          emit (ADDI t6 t5 (overflow * 4));
          update_overflow_reg t6 src dst
        }
        else skip);
       emit (ADD dst src dst);
       emit (ADD dst t4 dst);
       if get_update inst AND flags_carry \<noteq> 0 then do {
         emit (ADDI t4 t5 (carry * 4));
         update_carry_reg t4 src dst
       }
       else skip
     }
     else do {
       emit (ADD dst src dst);
       emit (ADD dst t4 dst)
     }
   }"

definition Adc_execute_imm :: execute_imm where
  "Adc_execute_imm inst dst imm = do {
     emit (ADDI t3 zero (ucast imm));
     Adc_execute_reg inst dst t3
   }"

definition Adc :: "fadec_Instruction \<Rightarrow> object" where
  "Adc inst = BinaryOperation inst flags_all flags_carry True Adc_execute_reg Adc_execute_imm"

definition Sub_execute_reg :: execute_reg where
  "Sub_execute_reg inst dst src = do {
     (carry, overflow) \<leftarrow>
       calculate_entries Entry_carry_add Entry_overflow_sub (op_size (get_operand 0 inst));
     update_carry inst (Some carry) None (Some dst) t4;
     update_overflow inst (Some overflow) (Some src) (Some dst) t4;
     emit (SUB dst dst src);
     update_carry inst None (Some dst) None zero
   }"

definition Sub_execute_imm :: execute_imm where
  "Sub_execute_imm inst dst imm = do {
     (carry, overflow) \<leftarrow> sub_entries imm (op_size (get_operand 0 inst));
     update_carry inst (Some carry) None (Some dst) t4;
     update_overflow inst (Some overflow) (Some dst) None t4;
     (if imm = - 0x800 then do {
        emit (ADDI dst dst 1);
        emit (ADDI dst dst (ucast (- imm - 1)))
      }
      else emit (ADDI dst dst (ucast (- imm))));
     update_carry inst None (Some dst) None zero;
     update_overflow inst None None (Some dst) zero
   }"

definition Sub :: "fadec_Instruction \<Rightarrow> object" where
  "Sub inst = BinaryOperation inst flags_all flags_none True Sub_execute_reg Sub_execute_imm"

section \<open>Increment, decrement, negation\<close>

definition Inc_execute_operation :: execute_unary where
  "Inc_execute_operation inst dst = do {
     (carry, overflow) \<leftarrow>
       calculate_entries Entry_carry_clear Entry_overflow_inc (op_size (get_operand 0 inst));
     update_overflow inst (Some overflow) (Some dst) None t4;
     emit (ADDI dst dst 1)
   }"

definition Inc :: "fadec_Instruction \<Rightarrow> object" where
  "Inc inst =
     UnaryOperation inst (flags_all XOR flags_carry) flags_none False Inc_execute_operation"

definition Dec_execute_operation :: execute_unary where
  "Dec_execute_operation inst dst = do {
     (carry, overflow) \<leftarrow>
       calculate_entries Entry_carry_clear Entry_overflow_dec (op_size (get_operand 0 inst));
     update_overflow inst (Some overflow) (Some dst) None t4;
     emit (ADDI dst dst (- 1))
   }"

definition Dec :: "fadec_Instruction \<Rightarrow> object" where
  "Dec inst =
     UnaryOperation inst (flags_all XOR flags_carry) flags_none False Dec_execute_operation"

definition Neg_execute_operation :: execute_unary where
  "Neg_execute_operation inst dst = do {
     (carry, overflow) \<leftarrow>
       calculate_entries Entry_carry_neg Entry_overflow_neg (op_size (get_operand 0 inst));
     update_carry inst (Some carry) (Some dst) None t4;
     update_overflow inst (Some overflow) (Some dst) None t4;
     emit (NEG dst dst)
   }"

definition Neg :: "fadec_Instruction \<Rightarrow> object" where
  "Neg inst = UnaryOperation inst flags_all flags_none False Neg_execute_operation"

section \<open>Comparison and test\<close>

definition Cmp_execute_reg :: compare_reg where
  "Cmp_execute_reg inst dst src = do {
     (carry, overflow) \<leftarrow>
       calculate_entries Entry_carry_add Entry_overflow_sub (op_size (get_operand 0 inst));
     update_carry inst (Some carry) None (Some dst) t4;
     update_overflow inst (Some overflow) (Some src) (Some dst) t4;
     let diff = t5;
     emit (SUB diff dst src);
     update_carry inst None (Some diff) None zero;
     ret t5
   }"

definition Cmp_execute_imm :: compare_imm where
  "Cmp_execute_imm inst dst imm = do {
     (carry, overflow) \<leftarrow> sub_entries imm (op_size (get_operand 0 inst));
     update_carry inst (Some carry) None (Some dst) t4;
     update_overflow inst (Some overflow) (Some dst) None t4;
     result \<leftarrow>
       (if imm = 0 then ret dst
        else if imm = - 0x800 then do {
          emit (ADDI t5 dst 1);
          emit (ADDI t5 dst (ucast (- imm)));
          ret t5
        }
        else do {
          emit (ADDI t5 dst (ucast (- imm)));
          ret t5
        });
     update_carry inst None (Some result) None zero;
     update_overflow inst None None (Some result) zero;
     ret result
   }"

definition Cmp :: "fadec_Instruction \<Rightarrow> object" where
  "Cmp inst = Comparable inst Cmp_execute_reg Cmp_execute_imm"

definition Test_execute_reg :: compare_reg where
  "Test_execute_reg inst dst src = do {
     emit (AND' t5 dst src);
     update_carry_to inst False t4;
     update_overflow_to inst False t4;
     ret t5
   }"

definition Test_execute_imm :: compare_imm where
  "Test_execute_imm inst dst imm = do {
     emit (ANDI t5 dst (ucast imm));
     update_carry_to inst False t4;
     update_overflow_to inst False t4;
     ret t5
   }"

definition Test :: "fadec_Instruction \<Rightarrow> object" where
  "Test inst = Comparable inst Test_execute_reg Test_execute_imm"

section \<open>Multiplication\<close>

text \<open>
  \<open>Mul_sources\<close> loads the two factors and also gives the register of the lower half: \<^verbatim>\<open>rax\<close> for the
  one-operand forms, the first operand for the others.
\<close>

definition Mul_sources :: "Instruction \<Rightarrow> (RiscVRegister \<times> RiscVRegister \<times> RiscVRegister) gen" where
  "Mul_sources inst = (let is_signed = (inst_type inst \<noteq> ''MUL'') in
     if inst_type inst = ''IMUL2'' then do {
       (src1, _) \<leftarrow> translate_operand inst (get_operand 0 inst) t1 t4 False True True False;
       (src2, _) \<leftarrow> translate_operand inst (get_operand 1 inst) t2 t4 False True True False;
       ret (src1, src2, map_reg (op_register (get_operand 0 inst)))
     }
     else if inst_type inst = ''IMUL3'' then do {
       (src1, _) \<leftarrow> translate_operand inst (get_operand 1 inst) t1 t4 False True True False;
       (src2, _) \<leftarrow> translate_operand inst (get_operand 2 inst) t2 t4 False True True False;
       ret (src1, src2, map_reg (op_register (get_operand 0 inst)))
     }
     else do {
       src1 \<leftarrow> load_from_register (map_reg reg_rax) (op_size (get_operand 0 inst)) t4 False True
         is_signed;
       (src2, _) \<leftarrow> translate_operand inst (get_operand 0 inst) t2 t4 False True is_signed False;
       ret (src1, src2, map_reg reg_rax)
     })"

definition Mul_generate :: "host \<Rightarrow> Instruction \<Rightarrow> unit gen" where
  "Mul_generate h inst = do {
     let operand_size = op_size (get_operand 0 inst);
     let is_signed = (inst_type inst \<noteq> ''MUL'');
     let has_upper_destination = (inst_type inst = ''MUL'' \<or> inst_type inst = ''IMUL'');
     let upper_destination = map_reg reg_rdx;
     (src1, src2, lower_destination) \<leftarrow> Mul_sources inst;
     (if operand_size = 8 then do {
        let upper_result =
          (if upper_destination = src1 \<or> upper_destination = src2 then t4 else upper_destination);
        (if has_upper_destination
         then emit ((if is_signed then MULH else MULHU) upper_result src1 src2) else skip);
        emit (MUL lower_destination src1 src2);
        if has_upper_destination \<and> upper_result \<noteq> upper_destination
        then emit (MV upper_destination upper_result) else skip
      }
      else do {
        let mul_result = t0;
        emit (MUL mul_result src1 src2);
        if operand_size = 1 then move_to_register lower_destination mul_result 2 t4 False
        else do {
          move_to_register lower_destination mul_result operand_size t4 False;
          if has_upper_destination then
            (if operand_size = 4 then emit (SRLI upper_destination mul_result 32)
             else do {
               emit (SRLI mul_result mul_result (of_nat (operand_size * 8)));
               move_to_register upper_destination mul_result operand_size t4 False
             })
          else skip
        }
      });
     update_overflow_unsupported h inst ''MUL'' t4;
     update_carry_unsupported h inst ''MUL'' t4
   }"

definition Mul :: "host \<Rightarrow> fadec_Instruction \<Rightarrow> object" where
  "Mul h inst = plain_object (make_Instruction inst flags_all flags_none False) (Mul_generate h)"

section \<open>Division\<close>

definition Idiv_dividend :: "Instruction \<Rightarrow> unit gen" where
  "Idiv_dividend inst = (let
     idiv = (inst_type inst = ''IDIV'');
     operand_size = op_size (get_operand 0 inst);
     rax = map_reg reg_rax; rdx = map_reg reg_rdx; tmp = t4; dividend = t1 in
     if operand_size = 1 then do {
       load_from_register rax 2 dividend True True idiv;
       skip
     }
     else if operand_size = 2 \<or> operand_size = 4 then do {
       let reg_access = (if operand_size < 3 then 2 else 4);
       let shamt = (if operand_size < 3 then 16 else 32);
       load_from_register rdx reg_access dividend True True idiv;
       emit (SLLI dividend dividend shamt);
       load_from_register rax reg_access tmp True False False;
       emit (ADD dividend dividend tmp)
     }
     else emit (MV dividend rax))"

definition Idiv_overflow_check :: "host \<Rightarrow> Instruction \<Rightarrow> unit gen" where
  "Idiv_overflow_check h inst = do {
     let operand_size = op_size (get_operand 0 inst);
     let tmp = t4; let dividend = t1; let divisor = t0;
     load_immediate (- 1) tmp;
     branch_a \<leftarrow> add NOP;
     (if operand_size = 1 then load_immediate (- 32768) tmp
      else if operand_size = 2 then load_immediate (- 2147483648) tmp
      else load_immediate 0x8000000000000000 tmp);
     branch_b \<leftarrow> add NOP;
     call_high_level h ''Idiv::division_exception'';
     n \<leftarrow> batch_size;
     insert_at branch_a (BNE tmp divisor (ucast (offset branch_a n * 4)));
     insert_at branch_b (BNE tmp dividend (ucast (offset branch_b n * 4)))
   }"

definition Idiv_generate :: "host \<Rightarrow> Instruction \<Rightarrow> unit gen" where
  "Idiv_generate h inst = do {
     let idiv = (inst_type inst = ''IDIV'');
     let operand_size = op_size (get_operand 0 inst);
     let rax = map_reg reg_rax; let rdx = map_reg reg_rdx; let tmp = t4;
     let quotient = t3; let remainder = t2; let dividend = t1; let divisor = t0;
     translate_operand inst (get_operand 0 inst) divisor tmp True True idiv False;
     branch \<leftarrow> add NOP;
     call_high_level h ''Idiv::division_exception'';
     n \<leftarrow> batch_size;
     insert_at branch (BNQZ divisor (ucast (offset branch n * 4)));
     Idiv_dividend inst;
     (if idiv then Idiv_overflow_check h inst else skip);
     (if idiv then do {
        emit (DIV quotient dividend divisor);
        emit (REM remainder dividend divisor)
      }
      else do {
        emit (DIVU quotient dividend divisor);
        emit (REMU remainder dividend divisor)
      });
     if operand_size = 1 then do {
       move_to_register rax quotient 1 tmp False;
       move_to_register rax remainder 0 tmp False
     }
     else if operand_size = 2 \<or> operand_size = 4 then do {
       let reg_access = (if operand_size < 3 then 2 else 4);
       move_to_register rax quotient reg_access tmp False;
       move_to_register rdx remainder reg_access tmp False
     }
     else do {
       emit (MV rax quotient);
       emit (MV rdx remainder)
     }
   }"

definition Idiv :: "host \<Rightarrow> fadec_Instruction \<Rightarrow> object" where
  "Idiv h inst = plain_object (make_Instruction inst flags_all flags_none False) (Idiv_generate h)"

end
