(* ===== verification/Logic.thy ===== *)
theory Logic
  imports Operations
begin

text \<open>
  Logical operations, rotations, shifts and bit tests (\<^verbatim>\<open>codegen/instructions/logic\<close>), and the
  carry instructions of \<^verbatim>\<open>codegen/instructions/flags\<close>.
\<close>

section \<open>And, or, xor, not, nop\<close>

definition And_execute_reg :: execute_reg where
  "And_execute_reg inst dst src = do {
     emit (AND' dst dst src);
     update_carry_to inst False t4;
     update_overflow_to inst False t4
   }"

definition And_execute_imm :: execute_imm where
  "And_execute_imm inst dst imm = do {
     emit (ANDI dst dst (ucast imm));
     update_carry_to inst False t4;
     update_overflow_to inst False t4
   }"

definition And :: "fadec_Instruction \<Rightarrow> object" where
  "And inst = BinaryOperation inst flags_all flags_none True And_execute_reg And_execute_imm"

definition Nop_generate :: "Instruction \<Rightarrow> unit gen" where
  "Nop_generate inst = skip"

definition Nop :: "fadec_Instruction \<Rightarrow> object" where
  "Nop inst = plain_object (make_Instruction inst flags_none flags_none False) Nop_generate"

definition Not_execute_operation :: execute_unary where
  "Not_execute_operation inst dst = emit (NOT' dst dst)"

definition Not' :: "fadec_Instruction \<Rightarrow> object" where
  "Not' inst = UnaryOperation inst flags_none flags_none False Not_execute_operation"

definition Or_execute_reg :: execute_reg where
  "Or_execute_reg inst dst src = do {
     emit (OR' dst dst src);
     update_carry_to inst False t4;
     update_overflow_to inst False t4
   }"

definition Or_execute_imm :: execute_imm where
  "Or_execute_imm inst dst imm = do {
     emit (ORI dst dst (ucast imm));
     update_carry_to inst False t4;
     update_overflow_to inst False t4
   }"

definition Or :: "fadec_Instruction \<Rightarrow> object" where
  "Or inst = BinaryOperation inst flags_all flags_none True Or_execute_reg Or_execute_imm"

definition Xor_execute_reg :: execute_reg where
  "Xor_execute_reg inst dst src = do {
     emit (XOR' dst dst src);
     update_carry_to inst False t4;
     update_overflow_to inst False t4
   }"

definition Xor_execute_imm :: execute_imm where
  "Xor_execute_imm inst dst imm = do {
     emit (XORI dst dst (ucast imm));
     update_carry_to inst False t4;
     update_overflow_to inst False t4
   }"

definition Xor :: "fadec_Instruction \<Rightarrow> object" where
  "Xor inst = BinaryOperation inst flags_all flags_none True Xor_execute_reg Xor_execute_imm"

section \<open>Rotations\<close>

type_synonym rotation = "Instruction \<Rightarrow> RiscVRegister \<Rightarrow> RiscVRegister gen"

definition Rotation_generate :: "host \<Rightarrow> rotation \<Rightarrow> Instruction \<Rightarrow> unit gen" where
  "Rotation_generate h rotate_reg inst = do {
     let dst = get_operand 0 inst;
     (if op_type dst = op_mem then do {
        address \<leftarrow> read_from_memory inst dst t0 t6 False;
        result \<leftarrow> rotate_reg inst t0;
        write_to_memory inst dst result t5 t6 address
      }
      else if op_register_type dst = rt_gph then do {
        let dst_reg = map_reg_high (op_register dst);
        emit (SRLI t0 dst_reg 8);
        result \<leftarrow> rotate_reg inst t0;
        move_to_register dst_reg result 0 t6 False
      }
      else do {
        let dst_reg = map_reg (op_register dst);
        result \<leftarrow> rotate_reg inst dst_reg;
        move_to_register dst_reg result (op_size dst) t6 (dst_reg = result)
      });
     update_carry_unsupported h inst ''Rotation'' t0;
     update_overflow_unsupported h inst ''Rotation'' t0
   }"

definition Rotation :: "host \<Rightarrow> fadec_Instruction \<Rightarrow> rotation \<Rightarrow> object" where
  "Rotation h inst rotate_reg =
     plain_object (make_Instruction inst (flags_carry OR flags_overflow) flags_none False)
       (Rotation_generate h rotate_reg)"

text \<open>\<^verbatim>\<open>get_immediate() % size\<close> on 64-bit values; the size is a multiple of eight.\<close>

definition rot_amount :: "Instruction \<Rightarrow> nat \<Rightarrow> nat" where
  "rot_amount inst sz = unat (inst_imm inst) mod sz"

definition RolImm_rotate :: rotation where
  "RolImm_rotate inst reg = do {
     let sz = op_size (get_operand 0 inst) * 8;
     let amount = rot_amount inst sz;
     (if sz = 32 then emit (SRLIW t1 reg (of_nat (sz - amount)))
      else do {
        emit (SRLI t1 reg (of_nat (sz - amount)));
        if sz < 32 then do {
          emit (SLLI t1 t1 (of_nat (64 - amount)));
          emit (SRLI t1 t1 (of_nat (64 - amount)))
        }
        else skip
      });
     emit (SLLI t2 reg (of_nat amount));
     if sz \<ge> 32 then do {
       emit (OR' reg t1 t2);
       ret reg
     }
     else do {
       emit (OR' t1 t1 t2);
       ret t1
     }
   }"

definition RolCl_rotate :: rotation where
  "RolCl_rotate inst reg = do {
     let sz = op_size (get_operand 0 inst) * 8;
     let cl = map_reg reg_cl;
     if sz \<ge> 32 then do {
       emit (ADDI t4 zero (of_nat sz));
       emit (SUB t4 t4 cl);
       (if sz = 64 then do {
          emit (SRL t2 reg t4);
          emit (SLL t1 reg cl)
        }
        else do {
          emit (SRLW t2 reg t4);
          emit (SLLW t1 reg cl)
        });
       emit (OR' reg t1 t2);
       ret reg
     }
     else do {
       emit (SLLI t1 reg (of_nat (64 - sz)));
       emit (SRLI t1 t1 (of_nat (64 - sz)));
       emit (ANDI t3 cl (of_nat (sz - 1)));
       emit (SLL t1 t1 t3);
       emit (SRLI t2 t1 (of_nat sz));
       emit (OR' t1 t1 t2);
       ret t1
     }
   }"

definition RorImm_rotate :: rotation where
  "RorImm_rotate inst reg = do {
     let sz = op_size (get_operand 0 inst) * 8;
     let amount = rot_amount inst sz;
     (if sz = 32 then do {
        emit (SLLIW t1 reg (of_nat (sz - amount)));
        emit (SRLIW t2 reg (of_nat amount))
      }
      else do {
        emit (SLLI t1 reg (of_nat (sz - amount)));
        if sz \<noteq> 64 then do {
          emit (SLLI t2 reg (of_nat (64 - sz)));
          emit (SRLI t2 t2 (of_nat (64 - sz + amount)))
        }
        else emit (SRLI t2 reg (of_nat amount))
      });
     if sz \<ge> 32 then do {
       emit (OR' reg t1 t2);
       ret reg
     }
     else do {
       emit (OR' t1 t1 t2);
       ret t1
     }
   }"

definition RorCl_rotate :: rotation where
  "RorCl_rotate inst reg = do {
     let sz = op_size (get_operand 0 inst) * 8;
     let cl = map_reg reg_cl;
     emit (ADDI t4 zero (of_nat sz));
     emit (SUB t4 t4 cl);
     if sz = 32 then do {
       emit (SLLW t2 reg t4);
       emit (SRLW t1 reg cl);
       emit (OR' reg t1 t2);
       ret reg
     }
     else if sz = 64 then do {
       emit (SLL t2 reg t4);
       emit (SRL t1 reg cl);
       emit (OR' reg t1 t2);
       ret reg
     }
     else do {
       emit (SLLI t1 reg (of_nat (64 - sz)));
       emit (SRLI t1 t1 (of_nat (64 - sz)));
       emit (SLL t2 t1 t4);
       emit (SRL t1 reg cl);
       emit (OR' t1 t1 t2);
       ret t1
     }
   }"

definition RolImm :: "host \<Rightarrow> fadec_Instruction \<Rightarrow> object" where
  "RolImm h inst = Rotation h inst RolImm_rotate"

definition RolCl :: "host \<Rightarrow> fadec_Instruction \<Rightarrow> object" where
  "RolCl h inst = Rotation h inst RolCl_rotate"

definition RorImm :: "host \<Rightarrow> fadec_Instruction \<Rightarrow> object" where
  "RorImm h inst = Rotation h inst RorImm_rotate"

definition RorCl :: "host \<Rightarrow> fadec_Instruction \<Rightarrow> object" where
  "RorCl h inst = Rotation h inst RorCl_rotate"

section \<open>Shifts\<close>

text \<open>Operation, then both flags marked as unsupported.\<close>

definition shift_flags :: "host \<Rightarrow> Instruction \<Rightarrow> string \<Rightarrow> unit gen" where
  "shift_flags h inst name = do {
     update_overflow_unsupported h inst name t4;
     update_carry_unsupported h inst name t4
   }"

definition ShiftCl_generate :: "execute_reg \<Rightarrow> Instruction \<Rightarrow> unit gen" where
  "ShiftCl_generate execute_operation inst = do {
     let dst = get_operand 0 inst;
     let operand_size = op_size dst;
     if op_type dst = op_reg then do {
       let dst_reg = map_reg_typed (op_register dst) (op_register_type dst);
       if operand_size = 8 then execute_operation inst dst_reg dst_reg
       else if operand_size = 4 then do {
         execute_operation inst dst_reg dst_reg;
         emit (SLLI dst_reg dst_reg 32);
         emit (SRLI dst_reg dst_reg 32)
       }
       else if op_register_type dst = rt_gph then do {
         emit (SRLI t0 dst_reg 8);
         execute_operation inst t0 t0;
         move_to_register dst_reg t0 0 t1 False
       }
       else do {
         execute_operation inst t0 dst_reg;
         move_to_register dst_reg t0 operand_size t1 False
       }
     }
     else do {
       address \<leftarrow> read_from_memory inst dst t0 t1 False;
       execute_operation inst t0 t0;
       write_to_memory inst dst t0 t1 t2 address
     }
   }"

definition ShiftCl :: "fadec_Instruction \<Rightarrow> execute_reg \<Rightarrow> object" where
  "ShiftCl inst execute_operation =
     plain_object (make_Instruction inst flags_all flags_none False)
       (ShiftCl_generate execute_operation)"

definition Sar_execute_reg :: "host \<Rightarrow> execute_reg" where
  "Sar_execute_reg h inst dst src = do {
     emit (SRA dst dst src);
     shift_flags h inst ''SAR''
   }"

definition Sar_execute_imm :: "host \<Rightarrow> execute_imm" where
  "Sar_execute_imm h inst dst imm = do {
     emit (SRAI dst dst (ucast imm));
     shift_flags h inst ''SAR - Imm''
   }"

definition Sar :: "host \<Rightarrow> fadec_Instruction \<Rightarrow> object" where
  "Sar h inst =
     BinaryOperation inst flags_all flags_none True (Sar_execute_reg h) (Sar_execute_imm h)"

definition SarCl_execute_operation :: "host \<Rightarrow> execute_reg" where
  "SarCl_execute_operation h inst dst src = do {
     (if op_size (get_operand 0 inst) = 8 then emit (SRA dst src (map_reg reg_cl))
      else emit (SRAW dst src (map_reg reg_cl)));
     shift_flags h inst ''SAR - Cl''
   }"

definition SarCl :: "host \<Rightarrow> fadec_Instruction \<Rightarrow> object" where
  "SarCl h inst = ShiftCl inst (SarCl_execute_operation h)"

definition Shl_execute_reg :: "host \<Rightarrow> execute_reg" where
  "Shl_execute_reg h inst dst src = do {
     emit (SLL dst dst src);
     shift_flags h inst ''SHL''
   }"

definition Shl_execute_imm :: "host \<Rightarrow> execute_imm" where
  "Shl_execute_imm h inst dst imm = do {
     emit (SLLI dst dst (ucast imm));
     shift_flags h inst ''SHL - Imm''
   }"

definition Shl :: "host \<Rightarrow> fadec_Instruction \<Rightarrow> object" where
  "Shl h inst =
     BinaryOperation inst flags_all flags_none True (Shl_execute_reg h) (Shl_execute_imm h)"

definition ShlCl_execute_operation :: "host \<Rightarrow> execute_reg" where
  "ShlCl_execute_operation h inst dst src = do {
     (if op_size (get_operand 0 inst) = 8 then emit (SLL dst src (map_reg reg_cl))
      else emit (SLLW dst src (map_reg reg_cl)));
     shift_flags h inst ''SHL - Cl''
   }"

definition ShlCl :: "host \<Rightarrow> fadec_Instruction \<Rightarrow> object" where
  "ShlCl h inst = ShiftCl inst (ShlCl_execute_operation h)"

definition Shr_execute_reg :: "host \<Rightarrow> execute_reg" where
  "Shr_execute_reg h inst dst src = do {
     emit (SRL dst dst src);
     shift_flags h inst ''SHR''
   }"

definition Shr_execute_imm :: "host \<Rightarrow> execute_imm" where
  "Shr_execute_imm h inst dst imm = do {
     emit (SRLI dst dst (ucast imm));
     shift_flags h inst ''SHR - Imm''
   }"

definition Shr :: "host \<Rightarrow> fadec_Instruction \<Rightarrow> object" where
  "Shr h inst =
     BinaryOperation inst flags_all flags_none True (Shr_execute_reg h) (Shr_execute_imm h)"

definition ShrCl_execute_operation :: "host \<Rightarrow> execute_reg" where
  "ShrCl_execute_operation h inst dst src = do {
     (if op_size (get_operand 0 inst) = 8 then emit (SRL dst src (map_reg reg_cl))
      else emit (SRLW dst src (map_reg reg_cl)));
     shift_flags h inst ''SHR - Cl''
   }"

definition ShrCl :: "host \<Rightarrow> fadec_Instruction \<Rightarrow> object" where
  "ShrCl h inst = ShiftCl inst (ShrCl_execute_operation h)"

section \<open>Bit tests\<close>

text \<open>
  With the bit offset in a register the source builds the shift instructions but does not append
  them to the batch; the model emits what the source emits.
\<close>

definition bit_value_reg :: RiscVRegister where "bit_value_reg = t1"
definition mask_reg :: RiscVRegister where "mask_reg = t2"

text \<open>The recorded routine is \<^verbatim>\<open>carry_clear\<close> or, one entry further, \<^verbatim>\<open>carry_set\<close>.\<close>

definition record_bit :: "Instruction \<Rightarrow> unit gen" where
  "record_bit inst = do {
     emit (SLLI bit_value_reg bit_value_reg 2);
     emit (ADDI bit_value_reg bit_value_reg (Entry_carry_clear * 4));
     update_carry_entry bit_value_reg
   }"

definition BitTest_mask :: "Instruction \<Rightarrow> nat \<Rightarrow> unit gen" where
  "BitTest_mask inst operand_size = (let shift_amount = rot_amount inst (operand_size * 8) in
     if shift_amount < 11 then emit (ADDI mask_reg zero (push_bit shift_amount 1))
     else if shift_amount > 11 \<and> shift_amount < 31 then
       emit (LUI mask_reg (push_bit (shift_amount - 12) 1))
     else do {
       emit (ADDI mask_reg zero 1);
       emit (SLLI mask_reg mask_reg (of_nat shift_amount))
     })"

definition BitTest_generate ::
  "(Instruction \<Rightarrow> RiscVRegister \<Rightarrow> unit gen) \<Rightarrow> Instruction \<Rightarrow> unit gen" where
  "BitTest_generate manipulate_bit inst = do {
     let bit_base = get_operand 0 inst;
     let bit_off = get_operand 1 inst;
     let operand_size = op_size bit_base;
     (bit_base_reg, address) \<leftarrow>
       (if op_type bit_base = op_reg then ret (map_reg (op_register bit_base), zero)
        else do {
          address \<leftarrow> read_from_memory inst bit_base t0 t3 False;
          ret (t0, address)
        });
     (if op_type bit_off = op_imm then BitTest_mask inst operand_size
      else emit (ADDI mask_reg zero 1));
     emit (AND' bit_value_reg bit_base_reg mask_reg);
     emit (SNEZ bit_value_reg bit_value_reg);
     record_bit inst;
     manipulate_bit inst bit_base_reg;
     if op_type bit_base = op_mem then write_to_memory inst bit_base bit_base_reg t1 t2 address
     else skip
   }"

definition BitTest ::
  "fadec_Instruction \<Rightarrow> (Instruction \<Rightarrow> RiscVRegister \<Rightarrow> unit gen) \<Rightarrow> object" where
  "BitTest inst manipulate_bit =
     plain_object (make_Instruction inst flags_carry flags_none False)
       (BitTest_generate manipulate_bit)"

definition Btc_manipulate_bit :: "Instruction \<Rightarrow> RiscVRegister \<Rightarrow> unit gen" where
  "Btc_manipulate_bit inst bit_base = emit (XOR' bit_base bit_base mask_reg)"

definition Btr_manipulate_bit :: "Instruction \<Rightarrow> RiscVRegister \<Rightarrow> unit gen" where
  "Btr_manipulate_bit inst bit_base = do {
     emit (NOT' mask_reg mask_reg);
     emit (AND' bit_base bit_base mask_reg)
   }"

definition Bts_manipulate_bit :: "Instruction \<Rightarrow> RiscVRegister \<Rightarrow> unit gen" where
  "Bts_manipulate_bit inst bit_base = emit (OR' bit_base bit_base mask_reg)"

definition Btc :: "fadec_Instruction \<Rightarrow> object" where "Btc inst = BitTest inst Btc_manipulate_bit"
definition Btr :: "fadec_Instruction \<Rightarrow> object" where "Btr inst = BitTest inst Btr_manipulate_bit"
definition Bts :: "fadec_Instruction \<Rightarrow> object" where "Bts inst = BitTest inst Bts_manipulate_bit"

definition Bt_generate :: "Instruction \<Rightarrow> unit gen" where
  "Bt_generate inst = do {
     let bit_base = get_operand 0 inst;
     let bit_off = get_operand 1 inst;
     let operand_size = op_size bit_base;
     bit_base_reg \<leftarrow>
       (if op_type bit_base = op_reg then ret (map_reg (op_register bit_base))
        else do {
          read_from_memory inst bit_base t0 t1 False;
          ret t0
        });
     (if op_type bit_off = op_imm then
        emit (SRLI bit_value_reg bit_base_reg (of_nat (rot_amount inst (operand_size * 8))))
      else skip);
     emit (ANDI bit_value_reg bit_value_reg 1);
     record_bit inst
   }"

definition Bt :: "fadec_Instruction \<Rightarrow> object" where
  "Bt inst = plain_object (make_Instruction inst flags_carry flags_none False) Bt_generate"

section \<open>Carry\<close>

definition Clc_generate :: "Instruction \<Rightarrow> unit gen" where
  "Clc_generate inst = update_carry_to inst False t4"

definition Clc :: "fadec_Instruction \<Rightarrow> object" where
  "Clc inst = plain_object (make_Instruction inst flags_carry flags_none False) Clc_generate"

definition Stc_generate :: "Instruction \<Rightarrow> unit gen" where
  "Stc_generate inst = update_carry_to inst True t4"

definition Stc :: "fadec_Instruction \<Rightarrow> object" where
  "Stc inst = plain_object (make_Instruction inst flags_carry flags_none False) Stc_generate"

end
