(* ===== verification/DataMovement.thy ===== *)
theory DataMovement
  imports Operations
begin

text \<open>
  Moves, extensions, stack operations and address computation (\<^verbatim>\<open>codegen/instructions/memory\<close>);
  the conditional moves are in \<open>Conditions\<close>.
\<close>

definition Mov_generate :: "Instruction \<Rightarrow> unit gen" where
  "Mov_generate inst = (let dst = get_operand 0 inst; src = get_operand 1 inst in
     if op_type dst = op_reg \<and> op_size dst \<ge> 4 then do {
       let dst_register = map_reg (op_register dst);
       translate_operand inst src dst_register t1 True False False False;
       if op_size dst = 4 \<and> op_type src \<noteq> op_imm then do {
         emit (SLLI dst_register dst_register 32);
         emit (SRLI dst_register dst_register 32)
       }
       else skip
     }
     else do {
       (source_operand, address) \<leftarrow> translate_operand inst src t0 t2 False False False False;
       translate_destination inst source_operand zero t1 t2
     })"

definition Mov :: "fadec_Instruction \<Rightarrow> object" where
  "Mov inst = plain_object (make_Instruction inst flags_none flags_none False) Mov_generate"

definition Movsx_generate :: "Instruction \<Rightarrow> unit gen" where
  "Movsx_generate inst = (let
     dst = get_operand 0 inst; src = get_operand 1 inst;
     dst_reg = map_reg (op_register dst) in
     if op_type src = op_reg then
       (let src_reg = map_reg_typed (op_register src) (op_register_type src) in
        if op_register_type src = rt_gph then do {
          emit (SLLI dst_reg src_reg 48);
          emit (SRAI dst_reg dst_reg 56)
        }
        else sign_extend_register dst_reg src_reg (op_size src))
     else do {
       read_from_memory inst src dst_reg t0 True;
       skip
     })"

definition Movsx :: "fadec_Instruction \<Rightarrow> object" where
  "Movsx inst = plain_object (make_Instruction inst flags_none flags_none False) Movsx_generate"

definition Movzx_generate :: "Instruction \<Rightarrow> unit gen" where
  "Movzx_generate inst = (let
     dst = get_operand 0 inst; src = get_operand 1 inst;
     dst_reg = map_reg (op_register dst) in
     if op_type src = op_reg then do {
       let src_reg = map_reg_typed (op_register src) (op_register_type src);
       (if op_register_type src = rt_gph then emit (SLLI dst_reg src_reg 48)
        else emit (SLLI dst_reg src_reg (of_nat (64 - op_size src * 8))));
       emit (SRLI dst_reg dst_reg (of_nat (64 - op_size src * 8)))
     }
     else do {
       read_from_memory inst src dst_reg t0 False;
       skip
     })"

definition Movzx :: "fadec_Instruction \<Rightarrow> object" where
  "Movzx inst = plain_object (make_Instruction inst flags_none flags_none False) Movzx_generate"

definition Lea_generate :: "Instruction \<Rightarrow> unit gen" where
  "Lea_generate inst = (let
     dest = map_reg (op_register (get_operand 0 inst));
     sz = op_size (get_operand 0 inst) in
     if sz = 8 then do {
       translate_memory inst (get_operand 1 inst) dest t1 True;
       skip
     }
     else if sz = 4 then do {
       translate_memory inst (get_operand 1 inst) dest t1 True;
       if inst_addrsz inst \<noteq> 4 then do {
         emit (SLLI dest dest 32);
         emit (SRLI dest dest 32)
       }
       else skip
     }
     else do {
       lea \<leftarrow> translate_memory inst (get_operand 1 inst) t0 t1 False;
       move_to_register dest lea sz t2 False
     })"

definition Lea :: "fadec_Instruction \<Rightarrow> object" where
  "Lea inst = plain_object (make_Instruction inst flags_none flags_none False) Lea_generate"

definition Leave_generate :: "Instruction \<Rightarrow> unit gen" where
  "Leave_generate inst = do {
     emit (ADDI (map_reg reg_rsp) (map_reg reg_rbp) 0);
     emit (LD (map_reg reg_rbp) (map_reg reg_rsp) 0);
     emit (ADDI (map_reg reg_rsp) (map_reg reg_rsp) 8)
   }"

definition Leave :: "fadec_Instruction \<Rightarrow> object" where
  "Leave inst = plain_object (make_Instruction inst flags_none flags_none False) Leave_generate"

definition Pop_generate :: "Instruction \<Rightarrow> unit gen" where
  "Pop_generate inst = do {
     let rsp_reg = map_reg reg_rsp;
     let dst = get_operand 0 inst;
     let operand_size = op_size dst;
     (if op_type dst = op_reg then
        (let dest_reg = map_reg (op_register dst) in
         if operand_size = 8 then emit (LD dest_reg rsp_reg 0)
         else if operand_size = 4 then do {
           emit (LWU t0 rsp_reg 0);
           move_to_register dest_reg t0 4 t1 True
         }
         else if operand_size = 2 then do {
           emit (LHU t0 rsp_reg 0);
           move_to_register dest_reg t0 2 t1 True
         }
         else skip)
      else if op_type dst = op_mem then do {
        reg \<leftarrow> translate_memory inst dst t0 t1 False;
        if operand_size = 8 then do {
          emit (LD t1 rsp_reg 0);
          emit (SD reg t1 0)
        }
        else if operand_size = 4 then do {
          emit (LW t1 rsp_reg 0);
          emit (SW reg t1 0)
        }
        else if operand_size = 2 then do {
          emit (LH t1 rsp_reg 0);
          emit (SH reg t1 0)
        }
        else skip
      }
      else skip);
     emit (ADDI rsp_reg rsp_reg (of_nat operand_size))
   }"

definition Pop :: "fadec_Instruction \<Rightarrow> object" where
  "Pop inst = plain_object (make_Instruction inst flags_none flags_none False) Pop_generate"

definition Push_generate :: "Instruction \<Rightarrow> unit gen" where
  "Push_generate inst = do {
     let operand = get_operand 0 inst;
     let rsp_reg = map_reg reg_rsp;
     emit (ADDI rsp_reg rsp_reg (- of_nat (op_size operand)));
     (value_register, address) \<leftarrow> translate_operand inst operand t0 t1 False False False False;
     if op_size operand = 8 then emit (SD rsp_reg value_register 0)
     else if op_size operand = 4 then emit (SW rsp_reg value_register 0)
     else if op_size operand = 2 then emit (SH rsp_reg value_register 0)
     else skip
   }"

definition Push :: "fadec_Instruction \<Rightarrow> object" where
  "Push inst = plain_object (make_Instruction inst flags_none flags_none False) Push_generate"

text \<open>CBW, CWDE, CDQE; and CWD, CDQ, CQO.\<close>

definition Cex_generate :: "Instruction \<Rightarrow> unit gen" where
  "Cex_generate inst =
    (if inst_operandsz inst = 8 then sign_extend_register (map_reg reg_rax) (map_reg reg_rax) 4
     else do {
       sign_extend_register t0 (map_reg reg_rax) (inst_operandsz inst div 2);
       move_to_register (map_reg reg_rax) t0 (inst_operandsz inst) t1 False
     })"

definition Cex :: "fadec_Instruction \<Rightarrow> object" where
  "Cex inst = plain_object (make_Instruction inst flags_none flags_none False) Cex_generate"

definition CSep_generate :: "Instruction \<Rightarrow> unit gen" where
  "CSep_generate inst =
    (if inst_operandsz inst = 8 then emit (SRAI (map_reg reg_rdx) (map_reg reg_rax) 63)
     else do {
       emit (SLLI t0 (map_reg reg_rax) (of_nat (64 - inst_operandsz inst * 8)));
       emit (SRAI t0 t0 63);
       move_to_register (map_reg reg_rdx) t0 (inst_operandsz inst) t1 False
     })"

definition CSep :: "fadec_Instruction \<Rightarrow> object" where
  "CSep inst = plain_object (make_Instruction inst flags_none flags_none False) CSep_generate"

end
