(* ===== verification/StringOps.thy ===== *)
theory StringOps
  imports Operations
begin

text \<open>
  String instructions with their repeat prefixes (\<^verbatim>\<open>codegen/instructions/string\<close>). Loops are
  emitted with a placeholder that is replaced once the length of the code is known.
\<close>

section \<open>Repetition\<close>

definition check_address_size :: "Instruction \<Rightarrow> unit gen" where
  "check_address_size inst =
     (if inst_addrsz inst \<noteq> 8 then fault_exit Repeat_prefix_address_size else skip)"

definition Repeatable_generate :: "(Instruction \<Rightarrow> unit gen) \<Rightarrow> Instruction \<Rightarrow> unit gen" where
  "Repeatable_generate execute_operation inst = do {
     check_address_size inst;
     if has_rep inst then do {
       let rcx = map_reg reg_rcx;
       zero_test \<leftarrow> add NOP;
       loop_begin \<leftarrow> add (ADDI rcx rcx (- 1));
       execute_operation inst;
       n \<leftarrow> batch_size;
       emit (BNQZ rcx (ucast (offset n loop_begin * 4)));
       n \<leftarrow> batch_size;
       insert_at zero_test (BEQZ rcx (ucast (offset zero_test n * 4)))
     }
     else execute_operation inst
   }"

definition Repeatable :: "fadec_Instruction \<Rightarrow> (Instruction \<Rightarrow> unit gen) \<Rightarrow> object" where
  "Repeatable inst execute_operation =
     plain_object (make_Instruction inst flags_none flags_none False)
       (Repeatable_generate execute_operation)"

definition diff_reg :: RiscVRegister where "diff_reg = t0"
definition src_reg :: RiscVRegister where "src_reg = t1"
definition dst_reg :: RiscVRegister where "dst_reg = t2"

lemmas string_regs = diff_reg_def src_reg_def dst_reg_def

definition RepeatableFlag_update_flags :: "Instruction \<Rightarrow> unit gen" where
  "RepeatableFlag_update_flags inst = do {
     update_zero inst diff_reg (inst_operandsz inst);
     update_sign inst diff_reg (inst_operandsz inst) t3;
     update_parity inst diff_reg;
     (carry, overflow) \<leftarrow>
       calculate_entries Entry_carry_add Entry_overflow_sub (inst_operandsz inst);
     update_carry inst (Some carry) (Some diff_reg) (Some dst_reg) t3;
     update_overflow inst (Some overflow) (Some dst_reg) (Some src_reg) t3
   }"

definition RepeatableFlag_generate_loop ::
  "(Instruction \<Rightarrow> unit gen) \<Rightarrow> Instruction \<Rightarrow> bool \<Rightarrow> unit gen" where
  "RepeatableFlag_generate_loop execute_operation inst z = do {
     let rcx = map_reg reg_rcx;
     zero_test \<leftarrow> add NOP;
     loop_begin \<leftarrow> add (ADDI rcx rcx (- 1));
     execute_operation inst;
     diff_test \<leftarrow> add NOP;
     n \<leftarrow> batch_size;
     emit (BNQZ rcx (ucast ((of_nat loop_begin - of_nat n :: u64) * 4)));
     n \<leftarrow> batch_size;
     insert_at diff_test ((if z then BNQZ else BEQZ) diff_reg (ucast (offset diff_test n * 4)));
     RepeatableFlag_update_flags inst;
     n \<leftarrow> batch_size;
     insert_at zero_test (BEQZ rcx (ucast (offset zero_test n * 4)))
   }"

definition RepeatableFlag_generate :: "(Instruction \<Rightarrow> unit gen) \<Rightarrow> Instruction \<Rightarrow> unit gen" where
  "RepeatableFlag_generate execute_operation inst = do {
     check_address_size inst;
     if has_rep inst then RepeatableFlag_generate_loop execute_operation inst True
     else if has_repnz inst then RepeatableFlag_generate_loop execute_operation inst False
     else do {
       execute_operation inst;
       RepeatableFlag_update_flags inst
     }
   }"

definition RepeatableFlag ::
  "fadec_Instruction \<Rightarrow> (Instruction \<Rightarrow> unit gen) \<Rightarrow> object" where
  "RepeatableFlag inst execute_operation =
     plain_object (make_Instruction inst flags_all flags_none False)
       (RepeatableFlag_generate execute_operation)"

section \<open>The instructions\<close>

definition Cmps_execute_operation :: "Instruction \<Rightarrow> unit gen" where
  "Cmps_execute_operation inst = do {
     let rsi = map_reg reg_rsi;
     let rdi = map_reg reg_rdi;
     (if inst_operandsz inst = 8 then do {
        emit (LD dst_reg rsi 0);
        emit (LD src_reg rdi 0)
      }
      else if inst_operandsz inst = 4 then do {
        emit (LWU dst_reg rsi 0);
        emit (LWU src_reg rdi 0)
      }
      else if inst_operandsz inst = 2 then do {
        emit (LHU dst_reg rsi 0);
        emit (LHU src_reg rdi 0)
      }
      else if inst_operandsz inst = 1 then do {
        emit (LBU dst_reg rsi 0);
        emit (LBU src_reg rdi 0)
      }
      else skip);
     emit (SUB diff_reg dst_reg src_reg);
     emit (ADDI rsi rsi (of_nat (inst_operandsz inst)));
     emit (ADDI rdi rdi (of_nat (inst_operandsz inst)))
   }"

definition Cmps :: "fadec_Instruction \<Rightarrow> object" where
  "Cmps inst = RepeatableFlag inst Cmps_execute_operation"

definition Lods_execute_operation :: "Instruction \<Rightarrow> unit gen" where
  "Lods_execute_operation inst = (let rax = map_reg reg_rax; rsi = map_reg reg_rsi in
     if inst_operandsz inst = 8 then do {
       emit (LD rax rsi 0);
       emit (ADDI rsi rsi 8)
     }
     else do {
       (if inst_operandsz inst = 4 then emit (LWU t4 rsi 0)
        else if inst_operandsz inst = 2 then emit (LHU t4 rsi 0)
        else if inst_operandsz inst = 1 then emit (LBU t4 rsi 0)
        else skip);
       move_to_register rax t4 (inst_operandsz inst) t5 True;
       emit (ADDI rsi rsi (of_nat (inst_operandsz inst)))
     })"

definition Lods :: "fadec_Instruction \<Rightarrow> object" where
  "Lods inst = Repeatable inst Lods_execute_operation"

definition Movs_execute_operation :: "Instruction \<Rightarrow> unit gen" where
  "Movs_execute_operation inst = do {
     let rsi = map_reg reg_rsi;
     let rdi = map_reg reg_rdi;
     (if inst_operandsz inst = 8 then do {
        emit (LD t4 rsi 0);
        emit (SD rdi t4 0)
      }
      else if inst_operandsz inst = 4 then do {
        emit (LWU t4 rsi 0);
        emit (SW rdi t4 0)
      }
      else if inst_operandsz inst = 2 then do {
        emit (LHU t4 rsi 0);
        emit (SH rdi t4 0)
      }
      else if inst_operandsz inst = 1 then do {
        emit (LBU t4 rsi 0);
        emit (SB rdi t4 0)
      }
      else skip);
     emit (ADDI rsi rsi (of_nat (inst_operandsz inst)));
     emit (ADDI rdi rdi (of_nat (inst_operandsz inst)))
   }"

definition Movs :: "fadec_Instruction \<Rightarrow> object" where
  "Movs inst = Repeatable inst Movs_execute_operation"

definition Scas_execute_operation :: "Instruction \<Rightarrow> unit gen" where
  "Scas_execute_operation inst = do {
     let rdi = map_reg reg_rdi;
     (if inst_operandsz inst = 8 then emit (LD src_reg rdi 0)
      else if inst_operandsz inst = 4 then emit (LWU src_reg rdi 0)
      else if inst_operandsz inst = 2 then emit (LHU src_reg rdi 0)
      else if inst_operandsz inst = 1 then emit (LBU src_reg rdi 0)
      else skip);
     emit (SUB diff_reg dst_reg src_reg);
     emit (ADDI rdi rdi (of_nat (inst_operandsz inst)))
   }"

definition Scas_generate :: "Instruction \<Rightarrow> unit gen" where
  "Scas_generate inst = do {
     let rax = map_reg reg_rax;
     load_from_register rax (inst_operandsz inst) dst_reg False True False;
     RepeatableFlag_generate Scas_execute_operation inst
   }"

definition Scas :: "fadec_Instruction \<Rightarrow> object" where
  "Scas inst = plain_object (make_Instruction inst flags_all flags_none False) Scas_generate"

definition Stos_execute_operation :: "Instruction \<Rightarrow> unit gen" where
  "Stos_execute_operation inst = do {
     let rax = map_reg reg_rax;
     let rdi = map_reg reg_rdi;
     (if inst_operandsz inst = 8 then emit (SD rdi rax 0)
      else if inst_operandsz inst = 4 then emit (SW rdi rax 0)
      else if inst_operandsz inst = 2 then emit (SH rdi rax 0)
      else if inst_operandsz inst = 1 then emit (SB rdi rax 0)
      else skip);
     emit (ADDI rdi rdi (of_nat (inst_operandsz inst)))
   }"

definition Stos :: "fadec_Instruction \<Rightarrow> object" where
  "Stos inst = Repeatable inst Stos_execute_operation"

end
