(* ===== verification/Conditions.thy ===== *)
theory Conditions
  imports Operations
begin

text \<open>
  Instructions that depend on the status flags: \<^verbatim>\<open>setcc\<close> (\<^verbatim>\<open>codegen/instructions/logic/setcc\<close>),
  \<^verbatim>\<open>cmovcc\<close> (\<^verbatim>\<open>memory/cmov\<close>) and \<^verbatim>\<open>jcc\<close> (\<^verbatim>\<open>control-flow/conditional-jumps\<close>), sixteen conditions each,
  and the jump on a zero counter. A condition is evaluated to a register, and branches over the code
  it guards are inserted where a placeholder was added before.
\<close>

section \<open>Branches over code\<close>

text \<open>
  \<open>branch_from i b\<close> replaces the placeholder at \<open>i\<close> by the branch \<open>b\<close> to the current end of the
  batch.
\<close>

definition branch_from :: "nat \<Rightarrow> (u32 \<Rightarrow> u32) \<Rightarrow> unit gen" where
  "branch_from i b = do {
     n \<leftarrow> batch_size;
     insert_at i (b (ucast (offset i n * 4)))
   }"

section \<open>Setting a byte\<close>

definition Setcc_set_value :: "Instruction \<Rightarrow> RiscVRegister \<Rightarrow> unit gen" where
  "Setcc_set_value inst reg = (let dst = get_operand 0 inst in
     if op_type dst = op_reg then
       move_to_register (map_reg_typed (op_register dst) (op_register_type dst)) reg
         (if op_register_type dst = rt_gph then 0 else 1) t0 True
     else write_to_memory inst dst reg t0 t1 zero)"

definition Setcc :: "fadec_Instruction \<Rightarrow> u8 \<Rightarrow> (Instruction \<Rightarrow> unit gen) \<Rightarrow> object" where
  "Setcc inst require g = plain_object (make_Instruction inst flags_none require False) g"

definition Seta_generate :: "Instruction \<Rightarrow> unit gen" where
  "Seta_generate inst = do {
     evaluate_zero t0;
     evaluate_carry;
     emit (OR' t0 t0 t4);
     emit (SEQZ t0 t0);
     Setcc_set_value inst t0
   }"

definition Seta :: "fadec_Instruction \<Rightarrow> object" where
  "Seta inst = Setcc inst (flags_carry OR flags_zero) Seta_generate"

definition Setbe_generate :: "Instruction \<Rightarrow> unit gen" where
  "Setbe_generate inst = do {
     evaluate_zero t0;
     evaluate_carry;
     emit (OR' t0 t0 t4);
     Setcc_set_value inst t0
   }"

definition Setbe :: "fadec_Instruction \<Rightarrow> object" where
  "Setbe inst = Setcc inst (flags_carry OR flags_zero) Setbe_generate"

definition Setc_generate :: "Instruction \<Rightarrow> unit gen" where
  "Setc_generate inst = do {
     evaluate_carry;
     Setcc_set_value inst t4
   }"

definition Setc :: "fadec_Instruction \<Rightarrow> object" where
  "Setc inst = Setcc inst flags_carry Setc_generate"

definition Setg_generate :: "Instruction \<Rightarrow> unit gen" where
  "Setg_generate inst = do {
     evaluate_sign t0 t5;
     evaluate_overflow;
     emit (XOR' t0 t0 t4);
     evaluate_zero t4;
     emit (OR' t0 t0 t4);
     emit (SEQZ t0 t0);
     Setcc_set_value inst t0
   }"

definition Setg :: "fadec_Instruction \<Rightarrow> object" where
  "Setg inst = Setcc inst (flags_zero OR flags_sign OR flags_overflow) Setg_generate"

definition Setge_generate :: "Instruction \<Rightarrow> unit gen" where
  "Setge_generate inst = do {
     evaluate_sign t0 t5;
     evaluate_overflow;
     emit (XOR' t0 t0 t4);
     emit (SEQZ t0 t0);
     Setcc_set_value inst t0
   }"

definition Setge :: "fadec_Instruction \<Rightarrow> object" where
  "Setge inst = Setcc inst (flags_sign OR flags_overflow) Setge_generate"

definition Setl_generate :: "Instruction \<Rightarrow> unit gen" where
  "Setl_generate inst = do {
     evaluate_sign t0 t5;
     evaluate_overflow;
     emit (XOR' t0 t0 t4);
     Setcc_set_value inst t0
   }"

definition Setl :: "fadec_Instruction \<Rightarrow> object" where
  "Setl inst = Setcc inst (flags_sign OR flags_overflow) Setl_generate"

definition Setle_generate :: "Instruction \<Rightarrow> unit gen" where
  "Setle_generate inst = do {
     evaluate_sign t0 t5;
     evaluate_overflow;
     emit (XOR' t0 t0 t4);
     evaluate_zero t4;
     emit (OR' t0 t0 t4);
     Setcc_set_value inst t0
   }"

definition Setle :: "fadec_Instruction \<Rightarrow> object" where
  "Setle inst = Setcc inst (flags_zero OR flags_sign OR flags_overflow) Setle_generate"

definition Setnc_generate :: "Instruction \<Rightarrow> unit gen" where
  "Setnc_generate inst = do {
     evaluate_carry;
     emit (SEQZ t0 t4);
     Setcc_set_value inst t0
   }"

definition Setnc :: "fadec_Instruction \<Rightarrow> object" where
  "Setnc inst = Setcc inst flags_carry Setnc_generate"

definition Setno_generate :: "Instruction \<Rightarrow> unit gen" where
  "Setno_generate inst = do {
     evaluate_overflow;
     emit (SEQZ t0 t4);
     Setcc_set_value inst t0
   }"

definition Setno :: "fadec_Instruction \<Rightarrow> object" where
  "Setno inst = Setcc inst flags_overflow Setno_generate"

definition Setnp_generate :: "Instruction \<Rightarrow> unit gen" where
  "Setnp_generate inst = do {
     evaluate_parity t4 t5;
     emit (SEQZ t0 t4);
     Setcc_set_value inst t0
   }"

definition Setnp :: "fadec_Instruction \<Rightarrow> object" where
  "Setnp inst = Setcc inst flags_parity Setnp_generate"

definition Setns_generate :: "Instruction \<Rightarrow> unit gen" where
  "Setns_generate inst = do {
     evaluate_sign t4 t0;
     emit (SEQZ t0 t4);
     Setcc_set_value inst t0
   }"

definition Setns :: "fadec_Instruction \<Rightarrow> object" where
  "Setns inst = Setcc inst flags_sign Setns_generate"

definition Setnz_generate :: "Instruction \<Rightarrow> unit gen" where
  "Setnz_generate inst = do {
     evaluate_zero t4;
     emit (SEQZ t0 t4);
     Setcc_set_value inst t0
   }"

definition Setnz :: "fadec_Instruction \<Rightarrow> object" where
  "Setnz inst = Setcc inst flags_zero Setnz_generate"

definition Seto_generate :: "Instruction \<Rightarrow> unit gen" where
  "Seto_generate inst = do {
     evaluate_overflow;
     Setcc_set_value inst t4
   }"

definition Seto :: "fadec_Instruction \<Rightarrow> object" where
  "Seto inst = Setcc inst flags_overflow Seto_generate"

definition Setp_generate :: "Instruction \<Rightarrow> unit gen" where
  "Setp_generate inst = do {
     evaluate_parity t4 t5;
     Setcc_set_value inst t4
   }"

definition Setp :: "fadec_Instruction \<Rightarrow> object" where
  "Setp inst = Setcc inst flags_parity Setp_generate"

definition Sets_generate :: "Instruction \<Rightarrow> unit gen" where
  "Sets_generate inst = do {
     evaluate_sign t4 t0;
     Setcc_set_value inst t4
   }"

definition Sets :: "fadec_Instruction \<Rightarrow> object" where
  "Sets inst = Setcc inst flags_sign Sets_generate"

definition Setz_generate :: "Instruction \<Rightarrow> unit gen" where
  "Setz_generate inst = do {
     evaluate_zero t4;
     Setcc_set_value inst t4
   }"

definition Setz :: "fadec_Instruction \<Rightarrow> object" where
  "Setz inst = Setcc inst flags_zero Setz_generate"

section \<open>Conditional moves\<close>

definition Cmov_generate_move :: "Instruction \<Rightarrow> unit gen" where
  "Cmov_generate_move inst = (let
     dst = get_operand 0 inst; src = get_operand 1 inst;
     dst_reg = map_reg (op_register dst) in
     if op_type src = op_mem then
       (if op_size dst = 2 then do {
          read_from_memory inst src t0 t1 False;
          move_to_register dst_reg t0 2 t1 False
        }
        else do {
          read_from_memory inst src dst_reg t0 False;
          skip
        })
     else move_to_register dst_reg (map_reg (op_register src)) (op_size dst) t0 False)"

definition Cmov_generate :: "(Instruction \<Rightarrow> unit gen) \<Rightarrow> Instruction \<Rightarrow> unit gen" where
  "Cmov_generate execute_operation inst = do {
     (if op_size (get_operand 0 inst) = 4 then do {
        let dst_reg = map_reg (op_register (get_operand 0 inst));
        emit (SLLI dst_reg dst_reg 32);
        emit (SRLI dst_reg dst_reg 32)
      }
      else skip);
     execute_operation inst
   }"

definition Cmov :: "fadec_Instruction \<Rightarrow> u8 \<Rightarrow> (Instruction \<Rightarrow> unit gen) \<Rightarrow> object" where
  "Cmov inst require execute_operation =
     plain_object (make_Instruction inst flags_none require False) (Cmov_generate execute_operation)"

definition Cmova_execute_operation :: "Instruction \<Rightarrow> unit gen" where
  "Cmova_execute_operation inst = do {
     evaluate_zero t4;
     zero_test \<leftarrow> add NOP;
     evaluate_carry;
     carry \<leftarrow> add NOP;
     Cmov_generate_move inst;
     branch_from zero_test (BNQZ t4);
     branch_from carry (BNQZ t4)
   }"

definition Cmova :: "fadec_Instruction \<Rightarrow> object" where
  "Cmova inst = Cmov inst (flags_zero OR flags_carry) Cmova_execute_operation"

definition Cmovbe_execute_operation :: "Instruction \<Rightarrow> unit gen" where
  "Cmovbe_execute_operation inst = do {
     evaluate_zero t4;
     zero_test \<leftarrow> add NOP;
     evaluate_carry;
     carry \<leftarrow> add NOP;
     branch_from zero_test (BNQZ t4);
     Cmov_generate_move inst;
     branch_from carry (BEQZ t4)
   }"

definition Cmovbe :: "fadec_Instruction \<Rightarrow> object" where
  "Cmovbe inst = Cmov inst (flags_zero OR flags_carry) Cmovbe_execute_operation"

definition Cmovc_execute_operation :: "Instruction \<Rightarrow> unit gen" where
  "Cmovc_execute_operation inst = do {
     evaluate_carry;
     carry \<leftarrow> add NOP;
     Cmov_generate_move inst;
     branch_from carry (BEQZ t4)
   }"

definition Cmovc :: "fadec_Instruction \<Rightarrow> object" where
  "Cmovc inst = Cmov inst flags_carry Cmovc_execute_operation"

definition Cmovg_execute_operation :: "Instruction \<Rightarrow> unit gen" where
  "Cmovg_execute_operation inst = do {
     evaluate_zero t4;
     zero_test \<leftarrow> add NOP;
     evaluate_sign t0 t5;
     evaluate_overflow;
     equal \<leftarrow> add NOP;
     Cmov_generate_move inst;
     branch_from zero_test (BNQZ t4);
     branch_from equal (BNE t0 t4)
   }"

definition Cmovg :: "fadec_Instruction \<Rightarrow> object" where
  "Cmovg inst = Cmov inst (flags_zero OR flags_sign OR flags_overflow) Cmovg_execute_operation"

definition Cmovge_execute_operation :: "Instruction \<Rightarrow> unit gen" where
  "Cmovge_execute_operation inst = do {
     evaluate_sign t0 t5;
     evaluate_overflow;
     equal \<leftarrow> add NOP;
     Cmov_generate_move inst;
     branch_from equal (BNE t0 t4)
   }"

definition Cmovge :: "fadec_Instruction \<Rightarrow> object" where
  "Cmovge inst = Cmov inst (flags_sign OR flags_overflow) Cmovge_execute_operation"

definition Cmovl_execute_operation :: "Instruction \<Rightarrow> unit gen" where
  "Cmovl_execute_operation inst = do {
     evaluate_sign t0 t5;
     evaluate_overflow;
     equal \<leftarrow> add NOP;
     Cmov_generate_move inst;
     branch_from equal (BEQ t0 t4)
   }"

definition Cmovl :: "fadec_Instruction \<Rightarrow> object" where
  "Cmovl inst = Cmov inst (flags_sign OR flags_overflow) Cmovl_execute_operation"

definition Cmovle_execute_operation :: "Instruction \<Rightarrow> unit gen" where
  "Cmovle_execute_operation inst = do {
     evaluate_zero t4;
     zero_test \<leftarrow> add NOP;
     evaluate_sign t0 t5;
     evaluate_overflow;
     equal \<leftarrow> add NOP;
     branch_from zero_test (BNQZ t4);
     Cmov_generate_move inst;
     branch_from equal (BEQ t0 t4)
   }"

definition Cmovle :: "fadec_Instruction \<Rightarrow> object" where
  "Cmovle inst = Cmov inst (flags_zero OR flags_sign OR flags_overflow) Cmovle_execute_operation"

definition Cmovnc_execute_operation :: "Instruction \<Rightarrow> unit gen" where
  "Cmovnc_execute_operation inst = do {
     evaluate_carry;
     carry \<leftarrow> add NOP;
     Cmov_generate_move inst;
     branch_from carry (BNQZ t4)
   }"

definition Cmovnc :: "fadec_Instruction \<Rightarrow> object" where
  "Cmovnc inst = Cmov inst flags_carry Cmovnc_execute_operation"

definition Cmovno_execute_operation :: "Instruction \<Rightarrow> unit gen" where
  "Cmovno_execute_operation inst = do {
     evaluate_overflow;
     overflow \<leftarrow> add NOP;
     Cmov_generate_move inst;
     branch_from overflow (BNQZ t4)
   }"

definition Cmovno :: "fadec_Instruction \<Rightarrow> object" where
  "Cmovno inst = Cmov inst flags_overflow Cmovno_execute_operation"

definition Cmovnp_execute_operation :: "Instruction \<Rightarrow> unit gen" where
  "Cmovnp_execute_operation inst = do {
     evaluate_parity t4 t5;
     parity \<leftarrow> add NOP;
     Cmov_generate_move inst;
     branch_from parity (BNQZ t4)
   }"

definition Cmovnp :: "fadec_Instruction \<Rightarrow> object" where
  "Cmovnp inst = Cmov inst flags_parity Cmovnp_execute_operation"

definition Cmovns_execute_operation :: "Instruction \<Rightarrow> unit gen" where
  "Cmovns_execute_operation inst = do {
     evaluate_sign t4 t0;
     sign \<leftarrow> add NOP;
     Cmov_generate_move inst;
     branch_from sign (BNQZ t4)
   }"

definition Cmovns :: "fadec_Instruction \<Rightarrow> object" where
  "Cmovns inst = Cmov inst flags_sign Cmovns_execute_operation"

definition Cmovnz_execute_operation :: "Instruction \<Rightarrow> unit gen" where
  "Cmovnz_execute_operation inst = do {
     evaluate_zero t4;
     zero_test \<leftarrow> add NOP;
     Cmov_generate_move inst;
     branch_from zero_test (BNQZ t4)
   }"

definition Cmovnz :: "fadec_Instruction \<Rightarrow> object" where
  "Cmovnz inst = Cmov inst flags_zero Cmovnz_execute_operation"

definition Cmovo_execute_operation :: "Instruction \<Rightarrow> unit gen" where
  "Cmovo_execute_operation inst = do {
     evaluate_overflow;
     overflow \<leftarrow> add NOP;
     Cmov_generate_move inst;
     branch_from overflow (BEQZ t4)
   }"

definition Cmovo :: "fadec_Instruction \<Rightarrow> object" where
  "Cmovo inst = Cmov inst flags_overflow Cmovo_execute_operation"

definition Cmovp_execute_operation :: "Instruction \<Rightarrow> unit gen" where
  "Cmovp_execute_operation inst = do {
     evaluate_parity t4 t5;
     parity \<leftarrow> add NOP;
     Cmov_generate_move inst;
     branch_from parity (BEQZ t4)
   }"

definition Cmovp :: "fadec_Instruction \<Rightarrow> object" where
  "Cmovp inst = Cmov inst flags_parity Cmovp_execute_operation"

definition Cmovs_execute_operation :: "Instruction \<Rightarrow> unit gen" where
  "Cmovs_execute_operation inst = do {
     evaluate_sign t4 t0;
     sign \<leftarrow> add NOP;
     Cmov_generate_move inst;
     branch_from sign (BEQZ t4)
   }"

definition Cmovs :: "fadec_Instruction \<Rightarrow> object" where
  "Cmovs inst = Cmov inst flags_sign Cmovs_execute_operation"

definition Cmovz_execute_operation :: "Instruction \<Rightarrow> unit gen" where
  "Cmovz_execute_operation inst = do {
     evaluate_zero t4;
     zero_test \<leftarrow> add NOP;
     Cmov_generate_move inst;
     branch_from zero_test (BEQZ t4)
   }"

definition Cmovz :: "fadec_Instruction \<Rightarrow> object" where
  "Cmovz inst = Cmov inst flags_zero Cmovz_execute_operation"

section \<open>Conditional jumps\<close>

definition Jcc_generate_jump :: "Instruction \<Rightarrow> unit gen" where
  "Jcc_generate_jump inst =
    (if op_type (get_operand 0 inst) = op_imm then append_eob_static (inst_imm inst)
     else do {
       translate_operand inst (get_operand 0 inst) address_destination t0 True False False False;
       append_eob_dynamic address_destination
     })"

definition Jcc_branch_address :: "Instruction \<Rightarrow> u64" where
  "Jcc_branch_address inst =
    (if op_type (get_operand 0 inst) = op_imm then inst_imm inst else 0)"

definition Jcc_control_flow_dimension :: "Instruction \<Rightarrow> nat" where
  "Jcc_control_flow_dimension inst = 2"

definition Jcc :: "fadec_Instruction \<Rightarrow> u8 \<Rightarrow> (Instruction \<Rightarrow> unit gen) \<Rightarrow> object" where
  "Jcc inst required g =
     \<lparr>obj_inst = make_Instruction inst flags_none required False,
      obj_generate = (\<lambda>inst call_table. do { g inst; ret call_table }),
      obj_branch_address = Jcc_branch_address,
      obj_control_flow_dimension = Jcc_control_flow_dimension\<rparr>"

lemma Jcc_simps [simp]:
  "obj_inst (Jcc inst r g) = make_Instruction inst flags_none r False"
  "generate (Jcc inst r g) ct = do { g (make_Instruction inst flags_none r False); ret ct }"
  "control_flow_dimension (Jcc inst r g) = 2"
  by (simp_all add: Jcc_def generate_def control_flow_dimension_def Jcc_control_flow_dimension_def)

definition Ja_generate :: "Instruction \<Rightarrow> unit gen" where
  "Ja_generate inst = do {
     evaluate_zero t4;
     dummy0 \<leftarrow> add NOP;
     evaluate_carry;
     dummy1 \<leftarrow> add NOP;
     Jcc_generate_jump inst;
     branch_from dummy0 (BNQZ t4);
     branch_from dummy1 (BNQZ t4)
   }"

definition Ja :: "fadec_Instruction \<Rightarrow> object" where
  "Ja inst = Jcc inst (flags_carry OR flags_zero) Ja_generate"

definition Jbe_generate :: "Instruction \<Rightarrow> unit gen" where
  "Jbe_generate inst = do {
     evaluate_zero t4;
     index \<leftarrow> add NOP;
     finish \<leftarrow> batch_size;
     Jcc_generate_jump inst;
     branch_from index (BEQZ t4);
     evaluate_carry;
     n \<leftarrow> batch_size;
     add (BNQZ t4 (ucast (offset n finish * 4)));
     skip
   }"

definition Jbe :: "fadec_Instruction \<Rightarrow> object" where
  "Jbe inst = Jcc inst (flags_carry OR flags_zero) Jbe_generate"

definition Jc_generate :: "Instruction \<Rightarrow> unit gen" where
  "Jc_generate inst = do {
     evaluate_carry;
     index \<leftarrow> add NOP;
     Jcc_generate_jump inst;
     branch_from index (BEQZ t4)
   }"

definition Jc :: "fadec_Instruction \<Rightarrow> object" where
  "Jc inst = Jcc inst flags_carry Jc_generate"

definition Jcxz_generate :: "Instruction \<Rightarrow> unit gen" where
  "Jcxz_generate inst = do {
     (if inst_addrsz inst \<noteq> 8 then do {
        emit (SLLI t0 (map_reg reg_rcx) 32);
        emit (SRLI t0 t0 32)
      }
      else skip);
     index \<leftarrow> add NOP;
     Jcc_generate_jump inst;
     branch_from index (BNQZ t4)
   }"

definition Jcxz :: "fadec_Instruction \<Rightarrow> object" where
  "Jcxz inst = Jcc inst flags_none Jcxz_generate"

definition Jg_generate :: "Instruction \<Rightarrow> unit gen" where
  "Jg_generate inst = do {
     evaluate_zero t4;
     index \<leftarrow> add NOP;
     evaluate_sign t0 t5;
     evaluate_overflow;
     leave \<leftarrow> add NOP;
     Jcc_generate_jump inst;
     branch_from leave (BNE t4 t0);
     branch_from index (BNQZ t4)
   }"

definition Jg :: "fadec_Instruction \<Rightarrow> object" where
  "Jg inst = Jcc inst (flags_zero OR flags_sign OR flags_overflow) Jg_generate"

definition Jge_generate :: "Instruction \<Rightarrow> unit gen" where
  "Jge_generate inst = do {
     evaluate_sign t0 t5;
     evaluate_overflow;
     index \<leftarrow> add NOP;
     Jcc_generate_jump inst;
     branch_from index (BNE t4 t0)
   }"

definition Jge :: "fadec_Instruction \<Rightarrow> object" where
  "Jge inst = Jcc inst (flags_sign OR flags_overflow) Jge_generate"

definition Jl_generate :: "Instruction \<Rightarrow> unit gen" where
  "Jl_generate inst = do {
     evaluate_sign t0 t5;
     evaluate_overflow;
     index \<leftarrow> add NOP;
     Jcc_generate_jump inst;
     branch_from index (BEQ t4 t0)
   }"

definition Jl :: "fadec_Instruction \<Rightarrow> object" where
  "Jl inst = Jcc inst (flags_sign OR flags_overflow) Jl_generate"

definition Jle_generate :: "Instruction \<Rightarrow> unit gen" where
  "Jle_generate inst = do {
     evaluate_zero t4;
     index \<leftarrow> add NOP;
     finish \<leftarrow> batch_size;
     Jcc_generate_jump inst;
     branch_from index (BEQZ t4);
     evaluate_sign t0 t5;
     evaluate_overflow;
     n \<leftarrow> batch_size;
     add (BNE t4 t0 (ucast (offset n finish * 4)));
     skip
   }"

definition Jle :: "fadec_Instruction \<Rightarrow> object" where
  "Jle inst = Jcc inst (flags_zero OR flags_sign OR flags_overflow) Jle_generate"

definition Jnc_generate :: "Instruction \<Rightarrow> unit gen" where
  "Jnc_generate inst = do {
     evaluate_carry;
     index \<leftarrow> add NOP;
     Jcc_generate_jump inst;
     branch_from index (BNQZ t4)
   }"

definition Jnc :: "fadec_Instruction \<Rightarrow> object" where
  "Jnc inst = Jcc inst flags_carry Jnc_generate"

definition Jno_generate :: "Instruction \<Rightarrow> unit gen" where
  "Jno_generate inst = do {
     evaluate_overflow;
     index \<leftarrow> add NOP;
     Jcc_generate_jump inst;
     branch_from index (BNQZ t4)
   }"

definition Jno :: "fadec_Instruction \<Rightarrow> object" where
  "Jno inst = Jcc inst flags_overflow Jno_generate"

definition Jnp_generate :: "Instruction \<Rightarrow> unit gen" where
  "Jnp_generate inst = do {
     evaluate_parity t4 t5;
     index \<leftarrow> add NOP;
     Jcc_generate_jump inst;
     branch_from index (BNQZ t4)
   }"

definition Jnp :: "fadec_Instruction \<Rightarrow> object" where
  "Jnp inst = Jcc inst flags_parity Jnp_generate"

definition Jns_generate :: "Instruction \<Rightarrow> unit gen" where
  "Jns_generate inst = do {
     evaluate_sign t4 t0;
     index \<leftarrow> add NOP;
     Jcc_generate_jump inst;
     branch_from index (BNQZ t4)
   }"

definition Jns :: "fadec_Instruction \<Rightarrow> object" where
  "Jns inst = Jcc inst flags_sign Jns_generate"

definition Jnz_generate :: "Instruction \<Rightarrow> unit gen" where
  "Jnz_generate inst = do {
     evaluate_zero t4;
     index \<leftarrow> add NOP;
     Jcc_generate_jump inst;
     branch_from index (BNQZ t4)
   }"

definition Jnz :: "fadec_Instruction \<Rightarrow> object" where
  "Jnz inst = Jcc inst flags_zero Jnz_generate"

definition Jo_generate :: "Instruction \<Rightarrow> unit gen" where
  "Jo_generate inst = do {
     evaluate_overflow;
     index \<leftarrow> add NOP;
     Jcc_generate_jump inst;
     branch_from index (BEQZ t4)
   }"

definition Jo :: "fadec_Instruction \<Rightarrow> object" where
  "Jo inst = Jcc inst flags_overflow Jo_generate"

definition Jp_generate :: "Instruction \<Rightarrow> unit gen" where
  "Jp_generate inst = do {
     evaluate_parity t4 t5;
     index \<leftarrow> add NOP;
     Jcc_generate_jump inst;
     branch_from index (BEQZ t4)
   }"

definition Jp :: "fadec_Instruction \<Rightarrow> object" where
  "Jp inst = Jcc inst flags_parity Jp_generate"

definition Js_generate :: "Instruction \<Rightarrow> unit gen" where
  "Js_generate inst = do {
     evaluate_sign t4 t0;
     index \<leftarrow> add NOP;
     Jcc_generate_jump inst;
     branch_from index (BEQZ t4)
   }"

definition Js :: "fadec_Instruction \<Rightarrow> object" where
  "Js inst = Jcc inst flags_sign Js_generate"

definition Jz_generate :: "Instruction \<Rightarrow> unit gen" where
  "Jz_generate inst = do {
     evaluate_zero t4;
     index \<leftarrow> add NOP;
     Jcc_generate_jump inst;
     branch_from index (BEQZ t4)
   }"

definition Jz :: "fadec_Instruction \<Rightarrow> object" where
  "Jz inst = Jcc inst flags_zero Jz_generate"

end
