(* ===== verification/ControlFlow.thy ===== *)
theory ControlFlow
  imports Operations
begin

text \<open>
  Unconditional control flow (\<^verbatim>\<open>codegen/instructions/control-flow\<close>) and unsupported instructions.
  A call appends an entry to the call table and pushes the entry's offset onto the return stack; a
  return compares the address it pops with the entry on top of the return stack and, when they
  agree, jumps to the translated code recorded there.
\<close>

section \<open>Jumps\<close>

definition Jmp_generate :: "Instruction \<Rightarrow> unit gen" where
  "Jmp_generate inst =
    (if op_type (get_operand 0 inst) = op_imm then append_eob_static (inst_imm inst)
     else do {
       translate_operand inst (get_operand 0 inst) address_destination t0 True False False False;
       append_eob_dynamic address_destination
     })"

definition Jmp_branch_address :: "Instruction \<Rightarrow> u64" where
  "Jmp_branch_address inst =
    (if op_type (get_operand 0 inst) = op_imm then inst_imm inst else 0)"

definition Jmp_control_flow_dimension :: "Instruction \<Rightarrow> nat" where
  "Jmp_control_flow_dimension inst = 1"

definition Jmp :: "fadec_Instruction \<Rightarrow> object" where
  "Jmp inst =
     \<lparr>obj_inst = make_Instruction inst flags_none flags_none True,
      obj_generate = (\<lambda>inst call_table. do { Jmp_generate inst; ret call_table }),
      obj_branch_address = Jmp_branch_address,
      obj_control_flow_dimension = Jmp_control_flow_dimension\<rparr>"

section \<open>Calls and returns\<close>

text \<open>The size of a table entry in bytes: two 64-bit addresses.\<close>

definition sizeof_CallEntry :: nat where "sizeof_CallEntry = 16"

definition Call_generate :: "Instruction \<Rightarrow> CallEntry list \<Rightarrow> CallEntry list gen" where
  "Call_generate inst call_table = do {
     let return_address = inst_address inst + of_nat (inst_size inst);
     let table_offset = (of_nat (length call_table * sizeof_CallEntry) :: u64);
     let call_table =
       call_table @ [\<lparr>ce_x86_address = return_address, ce_riscv_address = 0\<rparr>];
     load_immediate table_offset t0;
     emit (SW return_stack t0 0);
     emit (ADDI return_stack return_stack 4);
     emit (ANDI return_stack return_stack 0xbff);
     (if table_offset < 0x800 then emit (LD t1 call_table_address (ucast table_offset))
      else do {
        emit (ADD t1 call_table_address t0);
        emit (LD t1 t1 0)
      });
     emit (ADDI (map_reg reg_rsp) (map_reg reg_rsp) (- 8));
     emit (SD (map_reg reg_rsp) t1 0);
     Jmp_generate inst;
     ret call_table
   }"

definition Call :: "fadec_Instruction \<Rightarrow> object" where
  "Call inst =
     \<lparr>obj_inst = make_Instruction inst flags_none flags_none True,
      obj_generate = Call_generate,
      obj_branch_address = Jmp_branch_address,
      obj_control_flow_dimension = Jmp_control_flow_dimension\<rparr>"

definition Ret_generate :: "Instruction \<Rightarrow> unit gen" where
  "Ret_generate inst = do {
     let rsp_reg = map_reg reg_rsp;
     emit (LD address_destination rsp_reg 0);
     (if inst_imm inst + 8 < 0x800 then emit (ADDI rsp_reg rsp_reg (ucast (inst_imm inst + 8)))
      else do {
        load_immediate (inst_imm inst + 8) t0;
        emit (ADD rsp_reg rsp_reg t0)
      });
     emit (ADDI return_stack return_stack 0x3fc);
     emit (ANDI return_stack return_stack 0xbff);
     emit (LWU t0 return_stack 0);
     emit (ADD t1 call_table_address t0);
     emit (LD t2 t1 0);
     modify \<leftarrow> add NOP;
     append_eob_dynamic address_destination;
     n \<leftarrow> batch_size;
     insert_at modify (BEQ address_destination t2 (ucast (offset modify n * 4)));
     emit (LD t3 t1 8);
     translate \<leftarrow> add NOP;
     emit (JALR zero t3 0);
     n \<leftarrow> batch_size;
     insert_at translate (BEQZ t3 (ucast (offset translate n * 4)));
     jump_reroute_return
   }"

definition Ret :: "fadec_Instruction \<Rightarrow> object" where
  "Ret inst = plain_object (make_Instruction inst flags_none flags_none True) Ret_generate"

section \<open>System calls and unsupported instructions\<close>

definition Syscall_generate :: "Instruction \<Rightarrow> unit gen" where
  "Syscall_generate inst = do {
     jump_syscall_handler;
     append_eob_static (inst_address inst + of_nat (inst_size inst))
   }"

definition Syscall :: "fadec_Instruction \<Rightarrow> object" where
  "Syscall inst = plain_object (make_Instruction inst flags_all flags_none True) Syscall_generate"

definition UnsupportedInstruction_generate :: "Instruction \<Rightarrow> unit gen" where
  "UnsupportedInstruction_generate inst = do {
     load_immediate (inst_address inst) a0;
     jump_unsupported_instruction
   }"

definition UnsupportedInstruction :: "fadec_Instruction \<Rightarrow> object" where
  "UnsupportedInstruction inst =
     plain_object (make_Instruction inst flags_all flags_none True) UnsupportedInstruction_generate"

end
