(* ===== verification/Transform.thy ===== *)
theory Transform
  imports Arithmetic Logic DataMovement StringOps Conditions ControlFlow
begin

text \<open>
  The dispatch from decoded instructions to the objects that translate them, from
  \<^verbatim>\<open>codegen/transform_instruction.cpp\<close>. The cases of the switch are the rows of a
  table, in the order of the source; the default is \<^verbatim>\<open>UnsupportedInstruction\<close>.
\<close>

text \<open>The rows by groups: addition and jumps, conditional moves, conditions, arithmetic, moves and logic, others.\<close>

definition jump_cases :: "(InstructionType list \<times> (fadec_Instruction \<Rightarrow> object)) list" where
  "jump_cases = [
      ([''ADD'', ''ADD_IMM''], Add),
      ([''JZ''], Jz),
      ([''JO''], Jo),
      ([''JC''], Jc),
      ([''JS''], Js),
      ([''JP''], Jp),
      ([''JNZ''], Jnz),
      ([''JNO''], Jno),
      ([''JNC''], Jnc),
      ([''JNS''], Jns),
      ([''JNP''], Jnp),
      ([''JA''], Ja),
      ([''JBE''], Jbe),
      ([''JG''], Jg),
      ([''JGE''], Jge),
      ([''JL''], Jl),
      ([''JLE''], Jle),
      ([''JCXZ''], Jcxz)]"

definition cmov_cases :: "(InstructionType list \<times> (fadec_Instruction \<Rightarrow> object)) list" where
  "cmov_cases = [
      ([''CMOVA''], Cmova),
      ([''CMOVBE''], Cmovbe),
      ([''CMOVC''], Cmovc),
      ([''CMOVG''], Cmovg),
      ([''CMOVGE''], Cmovge),
      ([''CMOVL''], Cmovl),
      ([''CMOVLE''], Cmovle),
      ([''CMOVNC''], Cmovnc),
      ([''CMOVNO''], Cmovno),
      ([''CMOVNP''], Cmovnp),
      ([''CMOVNS''], Cmovns),
      ([''CMOVNZ''], Cmovnz),
      ([''CMOVO''], Cmovo),
      ([''CMOVP''], Cmovp),
      ([''CMOVS''], Cmovs),
      ([''CMOVZ''], Cmovz)]"

definition set_cases :: "(InstructionType list \<times> (fadec_Instruction \<Rightarrow> object)) list" where
  "set_cases = [
      ([''SETA''], Seta),
      ([''SETBE''], Setbe),
      ([''SETC''], Setc),
      ([''SETG''], Setg),
      ([''SETGE''], Setge),
      ([''SETL''], Setl),
      ([''SETLE''], Setle),
      ([''SETNC''], Setnc),
      ([''SETNO''], Setno),
      ([''SETNP''], Setnp),
      ([''SETNS''], Setns),
      ([''SETNZ''], Setnz),
      ([''SETO''], Seto),
      ([''SETP''], Setp),
      ([''SETS''], Sets),
      ([''SETZ''], Setz)]"

definition arithmetic_cases :: "host \<Rightarrow> (InstructionType list \<times> (fadec_Instruction \<Rightarrow> object)) list" where
  "arithmetic_cases h = [
      ([''CMP'', ''CMP_IMM''], Cmp),
      ([''TEST'', ''TEST_IMM''], Test),
      ([''CLC''], Clc),
      ([''STC''], Stc),
      ([''ADC'', ''ADC_IMM''], Adc),
      ([''SUB'', ''SUB_IMM''], Sub),
      ([''DEC''], Dec),
      ([''INC''], Inc),
      ([''NEG''], Neg),
      ([''MUL'', ''IMUL'', ''IMUL2'', ''IMUL3''], Mul h),
      ([''DIV'', ''IDIV''], Idiv h)]"

definition logic_cases :: "host \<Rightarrow> (InstructionType list \<times> (fadec_Instruction \<Rightarrow> object)) list" where
  "logic_cases h = [
      ([''MOV_IMM'', ''MOVABS_IMM'', ''MOV''], Mov),
      ([''AND'', ''AND_IMM''], And),
      ([''OR'', ''OR_IMM''], Or),
      ([''NOT''], Not'),
      ([''XOR'', ''XOR_IMM''], Xor),
      ([''SHL_CL''], ShlCl h),
      ([''SHL_IMM''], Shl h),
      ([''SHR_CL''], ShrCl h),
      ([''SHR_IMM''], Shr h),
      ([''SAR_CL''], SarCl h),
      ([''SAR_IMM''], Sar h),
      ([''ROL_IMM''], RolImm h),
      ([''ROL_CL''], RolCl h),
      ([''ROR_IMM''], RorImm h),
      ([''ROR_CL''], RorCl h),
      ([''BT'', ''BT_IMM''], Bt),
      ([''BTC'', ''BTC_IMM''], Btc),
      ([''BTR'', ''BTR_IMM''], Btr),
      ([''BTS'', ''BTS_IMM''], Bts)]"

definition other_cases :: "(InstructionType list \<times> (fadec_Instruction \<Rightarrow> object)) list" where
  "other_cases = [
      ([''SYSCALL''], Syscall),
      ([''JMP'', ''JMP_IND''], Jmp),
      ([''CALL'', ''CALL_IND''], Call),
      ([''RET'', ''RET_IMM''], Ret),
      ([''LEAVE''], Leave),
      ([''PUSH''], Push),
      ([''POP''], Pop),
      ([''MOVSX''], Movsx),
      ([''MOVZX''], Movzx),
      ([''NOP'', ''FNOP''], Nop),
      ([''C_EX''], Cex),
      ([''C_SEP''], CSep),
      ([''LEA''], Lea),
      ([''CMPS''], Cmps),
      ([''LODS''], Lods),
      ([''MOVS''], Movs),
      ([''SCAS''], Scas),
      ([''STOS''], Stos)]"

definition transform_cases :: "host \<Rightarrow> (InstructionType list \<times> (fadec_Instruction \<Rightarrow> object)) list" where
  "transform_cases h = jump_cases @ cmov_cases @ set_cases @ arithmetic_cases h @ logic_cases h @ other_cases"

lemmas transform_cases_defs = transform_cases_def jump_cases_def cmov_cases_def set_cases_def arithmetic_cases_def logic_cases_def other_cases_def

definition transform_instruction :: "host \<Rightarrow> fadec_Instruction \<Rightarrow> object" where
  "transform_instruction h inst =
     (case find (\<lambda>(names, create). inst_type inst \<in> set names) (transform_cases h) of
        Some (names, create) \<Rightarrow> create inst
      | None \<Rightarrow> UnsupportedInstruction inst)"

text \<open>A row is found by going through the groups.\<close>

lemma find_append:
  "find P (xs @ ys) = (case find P xs of None \<Rightarrow> find P ys | Some x \<Rightarrow> Some x)"
  by (induction xs) simp_all

lemmas transform_simps = transform_instruction_def transform_cases_defs find_append

section \<open>What every object has in common\<close>

text \<open>The classes with their base classes.\<close>

lemmas class_defs = Add_def Jz_def Jo_def Jc_def Js_def Jp_def Jnz_def Jno_def Jnc_def Jns_def
  Jnp_def Ja_def Jbe_def Jg_def Jge_def Jl_def Jle_def Jcxz_def Cmova_def Cmovbe_def Cmovc_def
  Cmovg_def Cmovge_def Cmovl_def Cmovle_def Cmovnc_def Cmovno_def Cmovnp_def Cmovns_def Cmovnz_def
  Cmovo_def Cmovp_def Cmovs_def Cmovz_def Seta_def Setbe_def Setc_def Setg_def Setge_def Setl_def
  Setle_def Setnc_def Setno_def Setnp_def Setns_def Setnz_def Seto_def Setp_def Sets_def Setz_def
  Cmp_def Test_def Clc_def Stc_def Adc_def Sub_def Dec_def Inc_def Neg_def Mul_def Idiv_def
  Mov_def And_def Or_def Not'_def Xor_def ShlCl_def Shl_def ShrCl_def Shr_def SarCl_def Sar_def
  RolImm_def RolCl_def RorImm_def RorCl_def Bt_def Btc_def Btr_def Bts_def Syscall_def Jmp_def
  Call_def Ret_def Leave_def Push_def Pop_def Movsx_def Movzx_def Nop_def Cex_def CSep_def Lea_def
  Cmps_def Lods_def Movs_def Scas_def Stos_def UnsupportedInstruction_def BinaryOperation_def
  UnaryOperation_def Comparable_def Rotation_def ShiftCl_def BitTest_def Setcc_def Cmov_def
  Jcc_def Repeatable_def RepeatableFlag_def

text \<open>Every constructor stores the decoded instruction, adding its flags and whether it ends a block.\<close>

definition wraps :: "fadec_Instruction \<Rightarrow> object \<Rightarrow> bool" where
  "wraps inst ob \<longleftrightarrow> (\<exists>u r e. obj_inst ob = make_Instruction inst u r e)"

lemma wraps_object [simp]:
  "wraps inst (plain_object (make_Instruction inst u r e) g)"
  "wraps inst \<lparr>obj_inst = make_Instruction inst u r e, obj_generate = g', obj_branch_address = b,
     obj_control_flow_dimension = d\<rparr>"
  by (auto simp: wraps_def)

lemma wraps_size:
  "wraps inst ob \<Longrightarrow> inst_size (obj_inst ob) = inst_size inst"
  "wraps inst ob \<Longrightarrow> inst_address (obj_inst ob) = inst_address inst"
  by (auto simp: wraps_def make_Instruction_def fadec_Instruction.defs)

lemma transform_cases_wraps:
  "list_all (\<lambda>(names, create). \<forall>inst. wraps inst (create inst)) (transform_cases h)"
  by (simp add: transform_cases_defs class_defs)

lemma transform_instruction_wraps: "wraps inst (transform_instruction h inst)"
proof (cases "find (\<lambda>(names, create). inst_type inst \<in> set names) (transform_cases h)")
  case None
  then show ?thesis
    by (simp add: transform_instruction_def UnsupportedInstruction_def)
next
  case (Some c)
  then have "c \<in> set (transform_cases h)"
    by (metis find_Some_iff nth_mem)
  then have "wraps inst (snd c inst)"
    using transform_cases_wraps [of h] by (auto simp: list_all_iff)
  then show ?thesis
    using Some by (simp add: transform_instruction_def split_beta)
qed

end
