(* ===== verification/Elf.thy ===== *)
theory Elf
  imports Prelude
begin

text \<open>
  The loader of x86-64 executables (\<^verbatim>\<open>elf/elf.{h,cpp}\<close>): validation of the file header, computation
  of the image, the page flags and the copies into the image, and the two queries the translator
  makes, \<open>get_page_flags\<close> and \<open>get_size\<close>. The file is read from memory at an address, as in the
  source, where it is in the buffer of \<^verbatim>\<open>_page_flags\<close>; the structures of the system's \<^verbatim>\<open>elf.h\<close>
  are read at their offsets. \<^verbatim>\<open>mmap\<close> is a parameter, calls of \<^verbatim>\<open>mprotect\<close> are
  recorded.
\<close>

section \<open>Page flags and errors\<close>

definition PAGE_EXECUTE :: u8 where "PAGE_EXECUTE = 0x01"
definition PAGE_READ :: u8 where "PAGE_READ = 0x02"
definition PAGE_WRITE :: u8 where "PAGE_WRITE = 0x04"
definition PAGE_MAPPED :: u8 where "PAGE_MAPPED = 0x08"

lemmas page_flag_defs = PAGE_EXECUTE_def PAGE_READ_def PAGE_WRITE_def PAGE_MAPPED_def

datatype ElfError =
    undefined_error | file_failed | not_elf_file | format_issue | unsupported_binary
  | unsupported_type | not_static | base_address_taken

definition error_string :: "ElfError \<Rightarrow> string" where
  "error_string e = (case e of
     file_failed \<Rightarrow> ''[file_failed] failed to open or read the file''
   | not_elf_file \<Rightarrow> ''[not_elf_file] the file is not an elf-file''
   | unsupported_binary \<Rightarrow>
       ''[unsupported_binary] the file does not conform to the binary-standards of this program''
   | unsupported_type \<Rightarrow> ''[unsupported_type] the file does not seem to be an executable''
   | not_static \<Rightarrow> ''[not_static] the file has not been linked statically''
   | format_issue \<Rightarrow> ''[format_issue] this program can not handle this elf-format''
   | base_address_taken \<Rightarrow>
       ''[base_address_taken] the requested static address of the elf-file could not be allocated''
   | undefined_error \<Rightarrow> ''[undefined] undefined'')"

record ElfException =
  ex_err :: ElfError
  ex_info :: string

definition ElfException_new :: ElfException where
  "ElfException_new = \<lparr>ex_err = undefined_error, ex_info = error_string undefined_error\<rparr>"

definition ElfException_error :: "ElfError \<Rightarrow> ElfException" where
  "ElfException_error e = \<lparr>ex_err = e, ex_info = error_string e\<rparr>"

definition ElfException_info :: "ElfError \<Rightarrow> string \<Rightarrow> ElfException" where
  "ElfException_info e info =
     \<lparr>ex_err = e, ex_info = error_string e @ '' (desc: '' @ info @ '')''\<rparr>"

definition what :: "ElfException \<Rightarrow> string" where
  "what e = ex_info e"

section \<open>Structures of the file\<close>

definition read8 :: "memory \<Rightarrow> u64 \<Rightarrow> u8" where "read8 m a = m a"
definition read16 :: "memory \<Rightarrow> u64 \<Rightarrow> u16" where "read16 m a = ucast (mload 2 m a)"
definition read32 :: "memory \<Rightarrow> u64 \<Rightarrow> u32" where "read32 m a = ucast (mload 4 m a)"
definition read64 :: "memory \<Rightarrow> u64 \<Rightarrow> u64" where "read64 m a = mload 8 m a"

record Elf64_Ehdr =
  e_ident :: "u8 list"
  e_type :: u16
  e_machine :: u16
  e_version :: u32
  e_entry :: u64
  e_phoff :: u64
  e_shoff :: u64
  e_ehsize :: u16
  e_phentsize :: u16
  e_phnum :: u16
  e_shnum :: u16
  e_shstrndx :: u16

definition sizeof_Ehdr :: nat where "sizeof_Ehdr = 64"

definition ehdr_at :: "memory \<Rightarrow> u64 \<Rightarrow> Elf64_Ehdr" where
  "ehdr_at m a =
     \<lparr>e_ident = map (\<lambda>i. m (a + of_nat i)) [0..<16], e_type = read16 m (a + 16),
      e_machine = read16 m (a + 18), e_version = read32 m (a + 20), e_entry = read64 m (a + 24),
      e_phoff = read64 m (a + 32), e_shoff = read64 m (a + 40), e_ehsize = read16 m (a + 52),
      e_phentsize = read16 m (a + 54), e_phnum = read16 m (a + 56), e_shnum = read16 m (a + 60),
      e_shstrndx = read16 m (a + 62)\<rparr>"

record Elf64_Phdr =
  p_type :: u32
  p_flags :: u32
  p_offset :: u64
  p_vaddr :: u64
  p_filesz :: u64
  p_memsz :: u64

definition sizeof_Phdr :: nat where "sizeof_Phdr = 56"

definition phdr_at :: "memory \<Rightarrow> u64 \<Rightarrow> Elf64_Phdr" where
  "phdr_at m a =
     \<lparr>p_type = read32 m a, p_flags = read32 m (a + 4), p_offset = read64 m (a + 8),
      p_vaddr = read64 m (a + 16), p_filesz = read64 m (a + 32), p_memsz = read64 m (a + 40)\<rparr>"

record Elf64_Shdr =
  sh_name :: u32
  sh_addr :: u64
  sh_offset :: u64
  sh_size :: u64
  sh_link :: u32
  sh_info :: u32

definition sizeof_Shdr :: nat where "sizeof_Shdr = 64"

definition shdr_at :: "memory \<Rightarrow> u64 \<Rightarrow> Elf64_Shdr" where
  "shdr_at m a =
     \<lparr>sh_name = read32 m a, sh_addr = read64 m (a + 16), sh_offset = read64 m (a + 24),
      sh_size = read64 m (a + 32), sh_link = read32 m (a + 40), sh_info = read32 m (a + 44)\<rparr>"

definition PT_LOAD :: u32 where "PT_LOAD = 1"
definition PT_INTERP :: u32 where "PT_INTERP = 3"
definition PF_X :: nat where "PF_X = 0"
definition PF_W :: nat where "PF_W = 1"
definition PF_R :: nat where "PF_R = 2"

text \<open>The address of an offset of the file, and the entries of its two tables.\<close>

definition resolve_offset :: "u64 \<Rightarrow> u64 \<Rightarrow> u64" where
  "resolve_offset buf off = buf + off"

definition phdr_table :: "memory \<Rightarrow> u64 \<Rightarrow> u64 \<Rightarrow> nat \<Rightarrow> Elf64_Phdr" where
  "phdr_table m buf phoff i = phdr_at m (resolve_offset buf phoff + of_nat (i * sizeof_Phdr))"

definition shdr_table :: "memory \<Rightarrow> u64 \<Rightarrow> u64 \<Rightarrow> nat \<Rightarrow> Elf64_Shdr" where
  "shdr_table m buf shoff i = shdr_at m (resolve_offset buf shoff + of_nat (i * sizeof_Shdr))"

section \<open>Validation\<close>

definition validate_elf :: "memory \<Rightarrow> u64 \<Rightarrow> ElfException option" where
  "validate_elf m buf = (let ehdr = ehdr_at m (resolve_offset buf 0); ident = e_ident ehdr in
     if take 4 ident \<noteq> [0x7f, 0x45, 0x4c, 0x46] then
       Some (ElfException_info not_elf_file ''invalid signature'')
     else if ident ! 4 \<noteq> 2 then Some (ElfException_info unsupported_binary ''not 64-bit'')
     else if ident ! 5 \<noteq> 1 then Some (ElfException_info unsupported_binary ''not little endian'')
     else if ident ! 6 \<noteq> 1 then Some (ElfException_info format_issue ''invalid version'')
     else if ident ! 7 \<noteq> 3 \<and> ident ! 7 \<noteq> 0 then
       Some (ElfException_info format_issue ''invalid os-abi'')
     else if ident ! 8 \<noteq> 0 then Some (ElfException_info format_issue ''invalid abi-version'')
     else if e_type ehdr \<noteq> 2 then
       Some (ElfException_info unsupported_type ''not static executable'')
     else if e_machine ehdr \<noteq> 62 then
       Some (ElfException_info unsupported_binary ''invalid machine'')
     else if e_version ehdr \<noteq> 1 then Some (ElfException_info format_issue ''invalid version'')
     else if e_entry ehdr = 0 then Some (ElfException_info unsupported_binary ''no entry-point'')
     else if e_phoff ehdr = 0 \<or> e_phnum ehdr = 0 \<or> e_phentsize ehdr \<noteq> of_nat sizeof_Phdr then
       Some (ElfException_info format_issue ''program-header issue'')
     else if e_ehsize ehdr \<noteq> of_nat sizeof_Ehdr then
       Some (ElfException_info format_issue ''exe-header unusable size'')
     else None)"

section \<open>Unpacking\<close>

text \<open>
  Numbers of program and section headers and the index of the string table; values that do not fit
  the header are in the first section header.
\<close>

definition header_counts :: "memory \<Rightarrow> u64 \<Rightarrow> Elf64_Ehdr \<Rightarrow> nat \<times> nat \<times> nat" where
  "header_counts m buf ehdr =
    (let shdr = shdr_at m (resolve_offset buf (e_shoff ehdr)) in
     (if e_phnum ehdr = 0xffff then unat (sh_info shdr) else unat (e_phnum ehdr),
      if e_shnum ehdr = 0 then unat (sh_size shdr) else unat (e_shnum ehdr),
      if e_shstrndx ehdr = 0xffff then unat (sh_link shdr) else unat (e_shstrndx ehdr)))"

definition bss_name :: "u8 list" where "bss_name = [0x2e, 0x62, 0x73, 0x73, 0]"

text \<open>The sum with the name's length is taken at 32 bits before it is compared.\<close>

definition is_bss :: "memory \<Rightarrow> u64 \<Rightarrow> Elf64_Shdr \<Rightarrow> Elf64_Shdr \<Rightarrow> bool" where
  "is_bss m buf strings sh \<longleftrightarrow>
     \<not> ucast (sh_name sh + 5) > sh_size strings \<and>
     map (\<lambda>i. m (resolve_offset buf (sh_offset strings) + ucast (sh_name sh) + of_nat i)) [0..<5]
       = bss_name"

definition find_bss :: "memory \<Rightarrow> u64 \<Rightarrow> u64 \<Rightarrow> nat \<Rightarrow> nat \<Rightarrow> Elf64_Shdr option" where
  "find_bss m buf shoff s_c s_i =
     map_option (shdr_table m buf shoff)
       (find (\<lambda>i. is_bss m buf (shdr_table m buf shoff s_i) (shdr_table m buf shoff i)) [0..<s_c])"

text \<open>The lowest address and the end of a list of ranges.\<close>

definition extend_range :: "u64 \<times> u64 \<Rightarrow> u64 \<times> u64 \<Rightarrow> u64 \<times> u64" where
  "extend_range = (\<lambda>(addr, sz) (base, end).
     (if addr < base then addr else base, if addr + sz > end then addr + sz else end))"

definition image_range :: "Elf64_Phdr list \<Rightarrow> Elf64_Shdr option \<Rightarrow> u64 \<times> u64" where
  "image_range phdrs bss =
    (let ranges = map (\<lambda>p. (p_vaddr p, p_memsz p)) (filter (\<lambda>p. p_type p = PT_LOAD) phdrs) @
         (case bss of None \<Rightarrow> [] | Some sh \<Rightarrow> [(sh_addr sh, sh_size sh)]);
       (base, end) = fold extend_range ranges (ucast (NOT (0 :: u32)), 0);
       base = base XOR (base AND 0xfff)
     in (base, page_align end - base))"

text \<open>The pages a range touches, relative to the base, and their flags.\<close>

definition page_first :: "u64 \<Rightarrow> u64 \<Rightarrow> nat" where
  "page_first base addr = unat (drop_bit 12 (addr - base))"

definition page_last :: "u64 \<Rightarrow> u64 \<Rightarrow> u64 \<Rightarrow> nat" where
  "page_last base addr sz = (let e = addr + sz - base in
     unat (drop_bit 12 e + (if e AND 0xfff > 0 then 1 else 0)))"

definition set_pages :: "nat \<Rightarrow> nat \<Rightarrow> u8 \<Rightarrow> u8 list \<Rightarrow> u8 list" where
  "set_pages first past flags table = fold (\<lambda>p t. t[p := flags]) [first..<past] table"

definition segment_flags :: "u32 \<Rightarrow> u8" where
  "segment_flags pf = PAGE_MAPPED OR (if bit pf PF_X then PAGE_EXECUTE else 0) OR
     (if bit pf PF_W then PAGE_WRITE else 0) OR (if bit pf PF_R then PAGE_READ else 0)"

definition PROT_READ :: nat where "PROT_READ = 1"
definition PROT_WRITE :: nat where "PROT_WRITE = 2"
definition PROT_EXEC :: nat where "PROT_EXEC = 4"

definition protection :: "u8 \<Rightarrow> nat" where
  "protection flags =
     (if flags AND PAGE_EXECUTE \<noteq> 0 then PROT_EXEC else 0) +
     (if flags AND PAGE_READ \<noteq> 0 then PROT_READ else 0) +
     (if flags AND PAGE_WRITE \<noteq> 0 then PROT_WRITE else 0)"

section \<open>Copying the segments\<close>

record loader =
  ld_mem :: memory
  ld_mprotect :: "(u64 \<times> u64 \<times> nat) list"
  ld_flags :: "u8 list"

definition mprotect :: "u64 \<Rightarrow> u64 \<Rightarrow> nat \<Rightarrow> loader \<Rightarrow> loader" where
  "mprotect addr len prot l = l\<lparr>ld_mprotect := ld_mprotect l @ [(addr, len, prot)]\<rparr>"

definition memcpy :: "u64 \<Rightarrow> u64 \<Rightarrow> u64 \<Rightarrow> memory \<Rightarrow> memory" where
  "memcpy dest src n m = (\<lambda>a. if a - dest < n then m (src + (a - dest)) else m a)"

definition memset :: "u64 \<Rightarrow> u8 \<Rightarrow> u64 \<Rightarrow> memory \<Rightarrow> memory" where
  "memset dest v n m = (\<lambda>a. if a - dest < n then v else m a)"

text \<open>Source, destination and size of the copy of a segment, aligned to pages.\<close>

definition copy_range :: "u64 \<Rightarrow> nat \<Rightarrow> Elf64_Phdr \<Rightarrow> u64 \<times> u64 \<times> u64" where
  "copy_range buf file_size p =
    (let off = p_vaddr p AND 0xfff;
       src = resolve_offset buf (p_offset p) - off;
       dest = p_vaddr p - off;
       sz = p_filesz p + off;
       sz = (if sz AND 0xfff \<noteq> 0 then sz + 0x1000 else sz);
       sz = sz XOR (sz AND 0xfff);
       sz = (if src + sz > buf + of_nat file_size then buf + of_nat file_size - src else sz)
     in (src, dest, sz))"

definition load_segment :: "u64 \<Rightarrow> nat \<Rightarrow> u64 \<Rightarrow> Elf64_Phdr \<Rightarrow> loader \<Rightarrow> loader" where
  "load_segment buf file_size base p l =
    (if p_type p \<noteq> PT_LOAD then l
     else
       let flags = segment_flags (p_flags p);
         l = l\<lparr>ld_flags := set_pages (page_first base (p_vaddr p))
               (page_last base (p_vaddr p) (p_memsz p)) flags (ld_flags l)\<rparr>;
         (src, dest, sz) = copy_range buf file_size p;
         l = mprotect dest src (PROT_WRITE + PROT_READ) l;
         l = l\<lparr>ld_mem := memcpy dest src sz (ld_mem l)\<rparr>
       in mprotect (p_vaddr p XOR (p_vaddr p AND 0xfff)) (p_memsz p) (protection flags) l)"

definition load_bss :: "u64 \<Rightarrow> Elf64_Shdr option \<Rightarrow> loader \<Rightarrow> loader" where
  "load_bss base bss l = (case bss of
     None \<Rightarrow> l
   | Some sh \<Rightarrow>
      (let l = l\<lparr>ld_mem := memset (sh_addr sh) 0 (sh_size sh) (ld_mem l)\<rparr>;
         flags = PAGE_MAPPED OR PAGE_READ OR PAGE_WRITE;
         l = l\<lparr>ld_flags := set_pages (page_first base (sh_addr sh))
               (page_last base (sh_addr sh) (sh_size sh)) flags (ld_flags l)\<rparr>
       in mprotect (sh_addr sh XOR (sh_addr sh AND 0xfff)) (sh_size sh) (protection flags) l))"

section \<open>The loaded image\<close>

record Elf =
  elf_base :: u64
  elf_size :: u64
  page_flags :: "u8 list"
  elf_entry_point :: u64

text \<open>
  \<open>map_image\<close> is the constructor of \<^verbatim>\<open>ElfImage\<close>; \<open>mmap\<close> gives the address that the system maps for
  a requested address and size.
\<close>

definition map_image ::
  "(u64 \<Rightarrow> u64 \<Rightarrow> u64) \<Rightarrow> u64 \<Rightarrow> u64 \<Rightarrow> memory \<Rightarrow> ElfException + memory" where
  "map_image mmap base sz m =
    (if mmap base sz \<noteq> base then Inl (ElfException_error base_address_taken)
     else Inr (memset base 0 sz m))"

definition unpack_file ::
  "(u64 \<Rightarrow> u64 \<Rightarrow> u64) \<Rightarrow> memory \<Rightarrow> u64 \<Rightarrow> nat \<Rightarrow> ElfException + (Elf \<times> loader)" where
  "unpack_file mmap m buf file_size =
    (let ehdr = ehdr_at m (resolve_offset buf 0);
       (p_c, s_c, s_i) = header_counts m buf ehdr;
       phdrs = map (phdr_table m buf (e_phoff ehdr)) [0..<p_c];
       bss = (if s_c > 0 then find_bss m buf (e_shoff ehdr) s_c s_i else None)
     in
     if \<exists>p\<in>set phdrs. p_type p = PT_INTERP then
       Inl (ElfException_info not_static ''contains interpreter'')
     else
       let (base, sz) = image_range phdrs bss in
       case map_image mmap base sz m of
         Inl e \<Rightarrow> Inl e
       | Inr m \<Rightarrow>
          let pages = unat (drop_bit 12 sz);
            l = \<lparr>ld_mem = m, ld_mprotect = [], ld_flags = replicate pages 0\<rparr>;
            l = fold (load_segment buf file_size base) phdrs l;
            l = load_bss base bss l
          in Inr (\<lparr>elf_base = base, elf_size = sz, page_flags = ld_flags l,
                   elf_entry_point = e_entry ehdr\<rparr>, l))"

text \<open>
  The constructors: from a file, given as its bytes or \<open>None\<close> when it cannot be opened, which are
  read into memory at \<open>buf\<close>; and from a stream of bytes.
\<close>

definition read_file :: "u8 list option \<Rightarrow> u64 \<Rightarrow> memory \<Rightarrow> ElfException + (nat \<times> memory)" where
  "read_file file buf m = (case file of
     None \<Rightarrow> Inl (ElfException_info file_failed ''open the file'')
   | Some bytes \<Rightarrow>
      (if length bytes < sizeof_Ehdr then Inl (ElfException_info file_failed ''file too small'')
       else Inr (length bytes, fold (\<lambda>i m. m(buf + of_nat i := bytes ! i)) [0..<length bytes] m)))"

definition Elf_open ::
  "(u64 \<Rightarrow> u64 \<Rightarrow> u64) \<Rightarrow> u8 list option \<Rightarrow> u64 \<Rightarrow> memory \<Rightarrow> ElfException + (Elf \<times> loader)" where
  "Elf_open mmap file buf m = (case read_file file buf m of
     Inl e \<Rightarrow> Inl e
   | Inr (file_size, m) \<Rightarrow>
      (case validate_elf m buf of
         Some e \<Rightarrow> Inl e
       | None \<Rightarrow> unpack_file mmap m buf file_size))"

definition Elf_from_bytes ::
  "(u64 \<Rightarrow> u64 \<Rightarrow> u64) \<Rightarrow> memory \<Rightarrow> u64 \<Rightarrow> u64 \<Rightarrow> u64 \<Rightarrow> nat \<Rightarrow> ElfException + (Elf \<times> loader)" where
  "Elf_from_bytes mmap m ptr sz base_address exec_pages =
    (let base = base_address XOR (base_address AND 0xfff);
       sz = (if sz AND 0xfff > 0 then sz + 0x1000 else sz);
       sz = sz XOR (sz AND 0xfff);
       exec_size = push_bit 12 (of_nat exec_pages)
     in
     case map_image mmap base sz m of
       Inl e \<Rightarrow> Inl e
     | Inr m \<Rightarrow>
        let l = \<lparr>ld_mem = memcpy base ptr sz m, ld_mprotect = [],
              ld_flags = map (\<lambda>i. (if i < exec_pages then PAGE_EXECUTE else PAGE_WRITE)
                  OR PAGE_MAPPED OR PAGE_READ) [0..<unat (drop_bit 12 sz)]\<rparr>;
          l = mprotect base exec_size (PROT_EXEC + PROT_READ + PROT_WRITE) l;
          l = mprotect (base + exec_size) (sz - exec_size) (PROT_READ + PROT_WRITE) l
        in Inr (\<lparr>elf_base = base, elf_size = sz, page_flags = ld_flags l,
                 elf_entry_point = base_address\<rparr>, l))"

section \<open>Queries\<close>

definition get_page_flags :: "Elf \<Rightarrow> u64 \<Rightarrow> u8" where
  "get_page_flags elf vaddr = (let off = vaddr - elf_base elf in
     if off \<ge> elf_size elf then 0 else page_flags elf ! unat (drop_bit 12 off))"

text \<open>The loop over the following pages, from \<open>i\<close> to \<open>past\<close>.\<close>

function sum_pages :: "u8 list \<Rightarrow> u8 \<Rightarrow> nat \<Rightarrow> nat \<Rightarrow> u64 \<Rightarrow> u64" where
  "sum_pages table flags i past sz =
    (if i < past then
       if flags \<noteq> table ! i then sz
       else sum_pages table flags (i + 1) past (sz + 0x1000)
     else sz)"
  by auto
termination by (relation "measure (\<lambda>(table, flags, i, past, sz). past - i)") auto

declare sum_pages.simps [simp del]

definition get_size :: "Elf \<Rightarrow> u64 \<Rightarrow> u64 \<Rightarrow> u64" where
  "get_size elf vaddr max_page = (let off = vaddr - elf_base elf in
     if off \<ge> elf_size elf then 0
     else
       let flags = page_flags elf ! unat (drop_bit 12 off);
         sz = 0x1000 - (off AND 0xfff);
         next = drop_bit 12 off + 1;
         past = max_page + next;
         past = (if past > drop_bit 12 (elf_size elf) then drop_bit 12 (elf_size elf) else past)
       in sum_pages (page_flags elf) flags (unat next) (unat past) sz)"

section \<open>Correctness of the queries\<close>

definition Elf_ok :: "Elf \<Rightarrow> bool" where
  "Elf_ok elf \<longleftrightarrow> unat (elf_base elf) + unat (elf_size elf) < 2 ^ 64 \<and>
     4096 dvd unat (elf_base elf) \<and> 4096 dvd unat (elf_size elf) \<and>
     length (page_flags elf) = unat (elf_size elf) div 4096"

text \<open>Offsets into the image, as numbers.\<close>

definition image_offset :: "Elf \<Rightarrow> u64 \<Rightarrow> nat" where
  "image_offset elf vaddr = unat (vaddr - elf_base elf)"

definition in_image :: "Elf \<Rightarrow> u64 \<Rightarrow> bool" where
  "in_image elf vaddr \<longleftrightarrow> image_offset elf vaddr < unat (elf_size elf)"

lemma unat_drop_12: "unat (drop_bit 12 (w :: u64)) = unat w div 4096"
  by (simp add: drop_bit_eq_div unat_div)

lemma unat_and_fff: "unat ((w :: u64) AND 0xfff) = unat w mod 4096"
proof -
  have "w AND 0xfff = take_bit 12 w"
    by (simp add: take_bit_eq_mask mask_eq_exp_minus_1)
  then show ?thesis
    by (simp add: take_bit_eq_mod unat_mod)
qed

lemma get_page_flags_nth:
  "get_page_flags elf vaddr =
     (if in_image elf vaddr then page_flags elf ! (image_offset elf vaddr div 4096) else 0)"
  by (simp add: get_page_flags_def in_image_def image_offset_def Let_def unat_drop_12
      word_le_nat_alt)

lemma sum_pages_count:
  assumes "i \<le> past"
  shows "\<exists>k \<le> past - i. sum_pages t fl i past sz = sz + of_nat k * 0x1000 \<and> (\<forall>j<k. t ! (i + j) = fl)"
  using assms
proof (induction t fl i past sz rule: sum_pages.induct)
  case (1 t fl i past sz)
  show ?case
  proof (cases "i < past \<and> fl = t ! i")
    case True
    then obtain k where k: "k \<le> past - Suc i"
      "sum_pages t fl (Suc i) past (sz + 0x1000) = sz + 0x1000 + of_nat k * 0x1000"
      "\<forall>j<k. t ! (Suc i + j) = fl"
      using 1 by auto
    have "t ! (i + j) = fl" if "j < Suc k" for j
      using k(3) True that by (cases j) auto
    moreover have "sum_pages t fl i past sz = sz + of_nat (Suc k) * 0x1000"
      using True k(2) sum_pages.simps [of t fl i past sz] by (simp add: algebra_simps)
    ultimately show ?thesis
      using True k(1) by (intro exI [of _ "Suc k"]) auto
  next
    case False
    then show ?thesis
      using 1(2) by (intro exI [of _ 0]) (auto simp: sum_pages.simps [of t fl i])
  qed
qed

text \<open>
  What \<open>get_size\<close> reports: at least the rest of the page, at most the rest of the image, and the flags
  are the same all through.
\<close>

lemma page_arith:
  fixes p q m k a :: nat
  assumes "p = q * 4096 + m" "m < 4096" "a < 4096 - m + k * 4096"
  shows "p + a < (q + 1 + k) * 4096"
  using assms by (simp add: distrib_right)

lemma page_arith_eq:
  fixes p q m k :: nat
  assumes "p = q * 4096 + m" "m < 4096"
  shows "p + (4096 - m + k * 4096) = (q + 1 + k) * 4096"
  using assms by (simp add: distrib_right)

lemma get_size_count:
  assumes "Elf_ok elf" "in_image elf vaddr"
    and "unat max_page + image_offset elf vaddr div 4096 + 1 < 2 ^ 64"
  defines "p \<equiv> image_offset elf vaddr"
  shows "\<exists>k. unat (get_size elf vaddr max_page) = 4096 - p mod 4096 + k * 4096 \<and>
    k \<le> unat max_page \<and> (p div 4096 + 1 + k) * 4096 \<le> unat (elf_size elf) \<and>
    (\<forall>j\<le>k. page_flags elf ! (p div 4096 + j) = page_flags elf ! (p div 4096))"
proof -
  let ?w = "vaddr - elf_base elf" and ?S = "unat (elf_size elf)"
  let ?i = "p div 4096 + 1"
  let ?past = "min (unat max_page + ?i) (?S div 4096)"
  let ?fl = "page_flags elf ! (p div 4096)" and ?sz = "0x1000 - (?w AND 0xfff)"
  have p: "unat ?w = p" "p < ?S"
    using assms(2) by (simp_all add: p_def image_offset_def in_image_def)
  have S: "?S < 2 ^ 64" "4096 dvd ?S"
    using assms(1) by (auto simp: Elf_ok_def)
  have "p div 4096 < ?S div 4096"
    using p(2) S(2) by (auto elim!: dvdE simp: less_mult_imp_div_less mult.commute)
  then have i: "?i * 4096 \<le> ?S" "?i \<le> ?past"
    using S(2) by auto
  have nxt: "unat (drop_bit 12 ?w + 1) = ?i"
    using p S by (subst unat_add_lem [THEN iffD1]) (auto simp: unat_drop_12)
  have sum: "unat (max_page + (drop_bit 12 ?w + 1)) = unat max_page + ?i"
    using assms(3) by (subst unat_add_lem [THEN iffD1]) (simp_all add: nxt p_def)
  have size: "get_size elf vaddr max_page = sum_pages (page_flags elf) ?fl ?i ?past ?sz"
    using p nxt sum S
    by (auto simp: get_size_def Let_def word_le_nat_alt word_less_nat_alt unat_drop_12 min_def)
  obtain k where k: "k \<le> ?past - ?i" "get_size elf vaddr max_page = ?sz + of_nat k * 0x1000"
    "\<forall>j<k. page_flags elf ! (?i + j) = ?fl"
    using sum_pages_count [OF i(2), of "page_flags elf" ?fl ?sz] unfolding size by blast
  have bound: "(?i + k) * 4096 \<le> ?S"
  proof -
    have "?i + k \<le> ?past"
      using k(1) i(2) by linarith
    also have "?past \<le> ?S div 4096"
      by simp
    finally show ?thesis
      using S(2) by (simp add: less_eq_div_iff_mult_less_eq)
  qed
  have "unat ?sz = 4096 - p mod 4096"
    by (subst unat_sub) (simp_all add: word_le_nat_alt unat_and_fff p)
  moreover have "unat (of_nat k * 0x1000 :: u64) = k * 4096"
  proof -
    have "unat (of_nat (k * 4096) :: u64) = k * 4096"
      unfolding unat_of_nat using bound S(1) by (intro mod_less) (simp add: distrib_right)
    then show ?thesis
      by simp
  qed
  ultimately have "unat (get_size elf vaddr max_page) = 4096 - p mod 4096 + k * 4096"
    using bound S(1) unfolding k(2) by (subst unat_add_lem [THEN iffD1]) simp_all
  moreover have "page_flags elf ! (p div 4096 + j) = ?fl" if "j \<le> k" for j
    using k(3) that by (cases j) auto
  ultimately show ?thesis
    using k(1) bound by (intro exI [of _ k]) auto
qed


lemma get_size_outside: "\<not> in_image elf vaddr \<Longrightarrow> get_size elf vaddr max_page = 0"
  by (simp add: get_size_def in_image_def image_offset_def word_le_nat_alt not_less)

lemma get_size_in_image:
  assumes "Elf_ok elf" "in_image elf vaddr" "unat max_page < 2 ^ 32"
  shows "0 < unat (get_size elf vaddr max_page)"
    "image_offset elf vaddr + unat (get_size elf vaddr max_page) \<le> unat (elf_size elf)"
proof -
  have "unat max_page + image_offset elf vaddr div 4096 + 1 < 2 ^ 64"
  proof -
    have "image_offset elf vaddr < 2 ^ 64"
      using unsigned_less [of "vaddr - elf_base elf", where 'a = nat] by (simp add: image_offset_def)
    then have "image_offset elf vaddr div 4096 < 2 ^ 52"
      by (intro less_mult_imp_div_less) simp
    then show ?thesis
      using assms(3) by simp
  qed
  from get_size_count [OF assms(1,2) this]
  obtain k where k: "unat (get_size elf vaddr max_page) =
      4096 - image_offset elf vaddr mod 4096 + k * 4096"
    "(image_offset elf vaddr div 4096 + 1 + k) * 4096 \<le> unat (elf_size elf)"
    by blast
  moreover have "image_offset elf vaddr =
      image_offset elf vaddr div 4096 * 4096 + image_offset elf vaddr mod 4096"
    "image_offset elf vaddr mod 4096 < 4096"
    by simp_all
  note page_arith_eq [OF this, of k]
  ultimately show "0 < unat (get_size elf vaddr max_page)"
    "image_offset elf vaddr + unat (get_size elf vaddr max_page) \<le> unat (elf_size elf)"
    by simp_all
qed

text \<open>Every byte that \<open>get_size\<close> counts has the flags of the first one.\<close>

lemma get_size_same_flags:
  assumes "Elf_ok elf" "in_image elf vaddr"
    and "unat max_page + image_offset elf vaddr div 4096 + 1 < 2 ^ 64"
    and "a < get_size elf vaddr max_page"
  shows "in_image elf (vaddr + a) \<and> get_page_flags elf (vaddr + a) = get_page_flags elf vaddr"
proof -
  let ?p = "image_offset elf vaddr"
  from get_size_count [OF assms(1-3)]
  obtain k where k: "unat (get_size elf vaddr max_page) = 4096 - ?p mod 4096 + k * 4096"
    "(?p div 4096 + 1 + k) * 4096 \<le> unat (elf_size elf)"
    "\<forall>j\<le>k. page_flags elf ! (?p div 4096 + j) = page_flags elf ! (?p div 4096)"
    by blast
  have a: "unat a < 4096 - ?p mod 4096 + k * 4096"
    using assms(4) k(1) by (simp add: word_less_nat_alt)
  have p: "?p = ?p div 4096 * 4096 + ?p mod 4096" "?p mod 4096 < 4096"
    by simp_all
  have lt: "?p + unat a < (?p div 4096 + 1 + k) * 4096"
    by (rule page_arith [OF p a])
  moreover have "unat (elf_size elf) < 2 ^ 64"
    using assms(1) by (auto simp: Elf_ok_def)
  ultimately have "?p + unat a < 2 ^ LENGTH(64)"
    using k(2) by simp
  then have "unat ((vaddr - elf_base elf) + a) = ?p + unat a"
    unfolding image_offset_def by (rule unat_add_lem [THEN iffD1])
  then have "image_offset elf (vaddr + a) = ?p + unat a"
    by (simp add: image_offset_def algebra_simps)
  moreover have "(?p + unat a) div 4096 \<le> ?p div 4096 + k"
    using lt less_mult_imp_div_less [of "?p + unat a" "?p div 4096 + 1 + k" 4096] by linarith
  moreover have "?p div 4096 \<le> (?p + unat a) div 4096"
    by (rule div_le_mono) simp
  ultimately show ?thesis
    using k(2,3) lt assms(2)
    by (auto simp: get_page_flags_nth in_image_def dest!: spec [of _ "(?p + unat a) div 4096 - ?p div 4096"])
qed

section \<open>Correctness of the loader\<close>

lemma length_set_pages [simp]: "length (set_pages i j fl t) = length t"
proof -
  have "length (fold (\<lambda>p t. t[p := fl]) ps t) = length t" for ps
    by (induction ps arbitrary: t) simp_all
  then show ?thesis
    by (simp add: set_pages_def)
qed

lemma nth_set_pages:
  assumes "p < length t"
  shows "set_pages i j fl t ! p = (if i \<le> p \<and> p < j then fl else t ! p)"
proof -
  have "p < length t \<Longrightarrow> fold (\<lambda>p t. t[p := fl]) ps t ! p = (if p \<in> set ps then fl else t ! p)" for ps
    by (induction ps arbitrary: t) auto
  then show ?thesis
    using assms by (simp add: set_pages_def)
qed

text \<open>
  The flags that a page should have: those of the last header that touches it, or of the bss
  section.
\<close>

definition segment_touches :: "u64 \<Rightarrow> nat \<Rightarrow> Elf64_Phdr \<Rightarrow> bool" where
  "segment_touches base page p \<longleftrightarrow> p_type p = PT_LOAD \<and>
     page_first base (p_vaddr p) \<le> page \<and> page < page_last base (p_vaddr p) (p_memsz p)"

definition bss_touches :: "u64 \<Rightarrow> nat \<Rightarrow> Elf64_Shdr option \<Rightarrow> bool" where
  "bss_touches base page bss = (case bss of None \<Rightarrow> False | Some sh \<Rightarrow>
     page_first base (sh_addr sh) \<le> page \<and> page < page_last base (sh_addr sh) (sh_size sh))"

definition expected_flags :: "u64 \<Rightarrow> Elf64_Phdr list \<Rightarrow> Elf64_Shdr option \<Rightarrow> nat \<Rightarrow> u8" where
  "expected_flags base phdrs bss page =
    (if bss_touches base page bss then PAGE_MAPPED OR PAGE_READ OR PAGE_WRITE
     else case find (segment_touches base page) (rev phdrs) of
       None \<Rightarrow> 0
     | Some p \<Rightarrow> segment_flags (p_flags p))"

lemma length_load_segment [simp]:
  "length (ld_flags (load_segment buf n base p l)) = length (ld_flags l)"
  by (simp add: load_segment_def mprotect_def Let_def split: prod.splits)

lemma load_segment_flags:
  "page < length (ld_flags l) \<Longrightarrow> ld_flags (load_segment buf n base p l) ! page =
     (if segment_touches base page p then segment_flags (p_flags p) else ld_flags l ! page)"
  by (simp add: load_segment_def mprotect_def Let_def segment_touches_def nth_set_pages
      split: prod.splits)

lemma load_segments_flags:
  assumes "page < length (ld_flags l)"
  shows "length (ld_flags (fold (load_segment buf n base) ps l)) = length (ld_flags l) \<and>
    ld_flags (fold (load_segment buf n base) ps l) ! page =
      (case find (segment_touches base page) (rev ps) of
         None \<Rightarrow> ld_flags l ! page
       | Some p \<Rightarrow> segment_flags (p_flags p))"
  using assms by (induction ps rule: rev_induct) (simp_all add: load_segment_flags)

lemma load_bss_flags:
  "page < length (ld_flags l) \<Longrightarrow> ld_flags (load_bss base bss l) ! page =
     (if bss_touches base page bss then PAGE_MAPPED OR PAGE_READ OR PAGE_WRITE
      else ld_flags l ! page)"
  "length (ld_flags (load_bss base bss l)) = length (ld_flags l)"
  by (simp_all add: load_bss_def mprotect_def Let_def bss_touches_def nth_set_pages
      split: option.splits)

text \<open>The headers and the bss section of a file, and what a successful unpacking returns.\<close>

definition file_phdrs :: "memory \<Rightarrow> u64 \<Rightarrow> Elf64_Phdr list" where
  "file_phdrs m buf = (let ehdr = ehdr_at m (resolve_offset buf 0) in
     map (phdr_table m buf (e_phoff ehdr)) [0..<fst (header_counts m buf ehdr)])"

definition file_bss :: "memory \<Rightarrow> u64 \<Rightarrow> Elf64_Shdr option" where
  "file_bss m buf = (let ehdr = ehdr_at m (resolve_offset buf 0);
       (p_c, s_c, s_i) = header_counts m buf ehdr
     in if s_c > 0 then find_bss m buf (e_shoff ehdr) s_c s_i else None)"

lemma unpack_file_result:
  assumes "unpack_file mmap m buf n = Inr (elf, l)"
  shows "(elf_base elf, elf_size elf) = image_range (file_phdrs m buf) (file_bss m buf)"
    "mmap (elf_base elf) (elf_size elf) = elf_base elf"
    "\<forall>p\<in>set (file_phdrs m buf). p_type p \<noteq> PT_INTERP"
    "page < length (page_flags elf) \<Longrightarrow> page_flags elf ! page =
       expected_flags (elf_base elf) (file_phdrs m buf) (file_bss m buf) page"
    "length (page_flags elf) = unat (drop_bit 12 (elf_size elf))"
proof -
  have flags: "length (ld_flags (load_bss b s (fold (load_segment buf n b) ps
      \<lparr>ld_mem = m', ld_mprotect = [], ld_flags = replicate k 0\<rparr>))) = k \<and>
    (page < k \<longrightarrow> ld_flags (load_bss b s (fold (load_segment buf n b) ps
      \<lparr>ld_mem = m', ld_mprotect = [], ld_flags = replicate k 0\<rparr>)) ! page =
      expected_flags b ps s page)" for b s ps m' k
  proof -
    have len: "length (ld_flags (fold (load_segment buf n b) ps
        \<lparr>ld_mem = m', ld_mprotect = [], ld_flags = replicate k 0\<rparr>)) = k"
      by (induction ps rule: rev_induct) simp_all
    then show ?thesis
      using load_segments_flags [of page "\<lparr>ld_mem = m', ld_mprotect = [], ld_flags = replicate k 0\<rparr>"
          buf n b ps]
      by (auto simp: load_bss_flags expected_flags_def split: option.splits)
  qed
  show "(elf_base elf, elf_size elf) = image_range (file_phdrs m buf) (file_bss m buf)"
    "mmap (elf_base elf) (elf_size elf) = elf_base elf"
    "\<forall>p\<in>set (file_phdrs m buf). p_type p \<noteq> PT_INTERP"
    "page < length (page_flags elf) \<Longrightarrow> page_flags elf ! page =
       expected_flags (elf_base elf) (file_phdrs m buf) (file_bss m buf) page"
    "length (page_flags elf) = unat (drop_bit 12 (elf_size elf))"
    using assms flags
    by (auto simp: unpack_file_def file_phdrs_def file_bss_def map_image_def Let_def
        split: prod.splits if_splits)
qed

lemma dvd_page_iff: "4096 dvd unat (w :: u64) \<longleftrightarrow> take_bit 12 w = 0"
proof -
  have "take_bit 12 w = 0 \<longleftrightarrow> unat (take_bit 12 w) = 0"
    by (simp add: unat_eq_zero)
  then show ?thesis
    by (simp add: take_bit_eq_mod unat_mod dvd_eq_mod_eq_0)
qed

lemma fff_mask: "(0xfff :: u64) = mask 12"
  by (simp add: mask_eq_exp_minus_1)

lemma page_align_eq: "page_align a = take_bit 32 (a + 0xfff) AND NOT (mask 12)"
proof -
  have "(ucast (NOT (0xfff :: u32)) :: u64) = mask 32 AND NOT (mask 12)"
    by (simp add: mask_eq_exp_minus_1)
  then show ?thesis
    by (simp add: page_align_def take_bit_eq_mask and.assoc)
qed

lemma page_align_aligned: "take_bit 12 (page_align a) = 0"
  unfolding page_align_eq by (rule bit_word_eqI) (simp add: bit_simps)

lemma page_align_less: "unat (page_align a) < 2 ^ 32"
proof -
  have "page_align a = take_bit 32 (page_align a)"
    unfolding page_align_eq by (rule bit_word_eqI) (auto simp: bit_simps)
  then show ?thesis
    using take_bit_self_iff [of 32 "page_align a"] by (simp add: word_less_nat_alt)
qed

text \<open>Addresses in the first 4 GB are rounded up to the next page.\<close>

lemma page_align_rounds:
  assumes "unat a + 0xfff < 2 ^ 32"
  shows "unat (page_align a) = (unat a + 0xfff) div 4096 * 4096"
proof -
  have sum: "unat (a + 0xfff) = unat a + 0xfff"
    using assms by (subst unat_add_lem [THEN iffD1]) simp_all
  have "take_bit 32 (a + 0xfff) = a + 0xfff"
    using take_bit_self_iff [of 32 "a + 0xfff"] assms sum by (simp add: word_less_nat_alt)
  moreover have "w AND NOT (mask 12) = push_bit 12 (drop_bit 12 w)" for w :: u64
    by (rule bit_word_eqI) (auto simp: bit_simps)
  ultimately have "page_align a = push_bit 12 (drop_bit 12 (a + 0xfff))"
    by (simp only: page_align_eq)
  also have "\<dots> = (a + 0xfff) - take_bit 12 (a + 0xfff)"
    by (metis add_diff_cancel_right' bits_ident)
  also have "unat \<dots> = unat (a + 0xfff) - unat (a + 0xfff) mod 4096"
    by (subst unat_sub) (simp_all add: word_le_nat_alt take_bit_eq_mod unat_mod)
  finally show ?thesis
    by (simp only: sum minus_mod_eq_div_mult)
qed

lemma image_range_aligned:
  assumes "image_range phdrs bss = (base, sz)"
  shows "4096 dvd unat base" "4096 dvd unat sz"
proof -
  obtain b e where base: "base = b XOR (b AND 0xfff)" and sz: "sz = page_align e - base"
    using assms by (auto simp: image_range_def Let_def split: prod.splits)
  have b: "take_bit 12 base = 0"
    unfolding base fff_mask by (rule bit_word_eqI) (auto simp: bit_simps)
  then show base': "4096 dvd unat base"
    by (simp add: dvd_page_iff)
  have "4096 dvd unat (page_align e)"
    by (simp add: dvd_page_iff page_align_aligned)
  then show "4096 dvd unat sz"
    using base' unfolding sz unat_sub_if' by (simp add: dvd_diff_nat)
qed

lemma unpack_file_ok:
  assumes "unpack_file mmap m buf n = Inr (elf, l)"
    and "elf_base elf \<le> elf_base elf + elf_size elf"
  shows "Elf_ok elf"
  using image_range_aligned [OF unpack_file_result(1) [OF assms(1), symmetric]]
    unpack_file_result(5) [OF assms(1)] assms(2)
  by (simp add: Elf_ok_def no_olen_add_nat unat_drop_12)

end
