(* ===== verification/FlagPrediction.thy ===== *)
theory FlagPrediction
  imports Transform Elf
begin

text \<open>
  The prediction of the flags that must be up to date at an address
  (\<^verbatim>\<open>CodeGenerator::recursive_flag_requirements\<close> in \<^verbatim>\<open>codegen/codegen.cpp\<close>): instructions are decoded
  from the address on, and branches followed to a given depth, until it is known for every flag
  whether it is read before it is written. The decoder is a parameter: the instruction at an address
  of which so many bytes are available. The result is proved to contain every flag that some
  execution from the address may read (\<open>may_need\<close>), and the prediction to return.
\<close>

type_synonym decoder = "u64 \<Rightarrow> u64 \<Rightarrow> fadec_Instruction option"

section \<open>The prediction\<close>

definition decode_object :: "decoder \<Rightarrow> host \<Rightarrow> Elf \<Rightarrow> u64 \<Rightarrow> object option" where
  "decode_object decode h elf addr =
     map_option (transform_instruction h) (decode addr (get_size elf addr 1))"

definition object_size :: "object \<Rightarrow> u64" where
  "object_size ob = of_nat (inst_size (obj_inst ob))"

definition object_update :: "object \<Rightarrow> u8" where "object_update ob = get_update (obj_inst ob)"
definition object_require :: "object \<Rightarrow> u8" where "object_require ob = get_require (obj_inst ob)"

text \<open>
  The loop, with the flags found to be required so far in \<open>must\<close>. A recursive call at depth 0
  returns at once, any other one starts the loop.
\<close>

partial_function (option) flag_loop ::
  "decoder \<Rightarrow> host \<Rightarrow> Elf \<Rightarrow> nat \<Rightarrow> u8 \<Rightarrow> u8 \<Rightarrow> u64 \<Rightarrow> u8 option" where
  "flag_loop decode h elf depth must unclear addr =
    (case decode_object decode h elf addr of
       None \<Rightarrow> Some (unclear OR must)
     | Some ob \<Rightarrow>
        (let addr = addr + object_size ob;
           must = must OR object_require ob;
           branch = branch_address ob;
           unclear_branch = unclear AND NOT (object_update ob)
         in
         if control_flow_dimension ob = 1 then
           if branch \<noteq> 0 then
             if depth - 1 = 0 then Some (must OR unclear_branch)
             else Option.bind (flag_loop decode h elf (depth - 1) 0 unclear_branch branch)
               (\<lambda>r. Some (must OR r))
           else Some (must OR unclear)
         else if control_flow_dimension ob = 2 then
           if branch \<noteq> 0 then
             if depth - 1 = 0 then Some (must OR unclear_branch OR unclear_branch)
             else Option.bind (flag_loop decode h elf (depth - 1) 0 unclear_branch branch)
               (\<lambda>r. Option.bind (flag_loop decode h elf (depth - 1) 0 unclear_branch addr)
                 (\<lambda>r'. Some (must OR r OR r')))
           else Some (must OR unclear)
         else
           let unclear = unclear AND NOT (object_update ob OR must) in
           if unclear = 0 then Some must
           else if get_eob (obj_inst ob) then Some (unclear OR must)
           else flag_loop decode h elf depth must unclear addr))"

definition recursive_flag_requirements ::
  "decoder \<Rightarrow> host \<Rightarrow> Elf \<Rightarrow> u8 \<Rightarrow> u64 \<Rightarrow> nat \<Rightarrow> u8 option" where
  "recursive_flag_requirements decode h elf unclear addr depth =
    (if depth = 0 then Some unclear else flag_loop decode h elf depth 0 unclear addr)"

section \<open>Flags that may be read\<close>

text \<open>
  \<open>may_need f addr\<close>: flag \<open>f\<close>, a bit of the flag sets, may be read by an instruction executed from
  \<open>addr\<close> on before one writes it. Where it is not known what is executed next, after an indirect
  branch, at the end of a block or where nothing can be decoded, every flag may be read.
\<close>

definition successors :: "object \<Rightarrow> u64 \<Rightarrow> u64 set option" where
  "successors ob addr =
    (if control_flow_dimension ob = 1 then
       if branch_address ob \<noteq> 0 then Some {branch_address ob} else None
     else if control_flow_dimension ob = 2 then
       if branch_address ob \<noteq> 0 then Some {branch_address ob, addr + object_size ob} else None
     else if get_eob (obj_inst ob) then None
     else Some {addr + object_size ob})"

inductive may_need :: "decoder \<Rightarrow> host \<Rightarrow> Elf \<Rightarrow> nat \<Rightarrow> u64 \<Rightarrow> bool"
  for decode :: decoder and h :: host and elf :: Elf and f :: nat where
  Undecoded: "decode_object decode h elf addr = None \<Longrightarrow> may_need decode h elf f addr"
| Required: "decode_object decode h elf addr = Some ob \<Longrightarrow> bit (object_require ob) f \<Longrightarrow>
    may_need decode h elf f addr"
| Unknown: "decode_object decode h elf addr = Some ob \<Longrightarrow> \<not> bit (object_update ob) f \<Longrightarrow>
    successors ob addr = None \<Longrightarrow> may_need decode h elf f addr"
| Follow: "decode_object decode h elf addr = Some ob \<Longrightarrow> \<not> bit (object_update ob) f \<Longrightarrow>
    successors ob addr = Some next \<Longrightarrow> addr' \<in> next \<Longrightarrow> may_need decode h elf f addr' \<Longrightarrow>
    may_need decode h elf f addr"

inductive_cases may_needE: "may_need decode h elf f addr"

text \<open>What is required so far stays in the result.\<close>

lemma bit_u8_less: "bit (w :: u8) f \<Longrightarrow> f < 8"
  by (auto dest: bit_imp_le_length)

lemma may_need_decoded:
  assumes "may_need decode h elf f addr" "decode_object decode h elf addr = Some ob"
  shows "bit (object_require ob) f \<or> \<not> bit (object_update ob) f \<and>
    (successors ob addr = None \<or>
     (\<exists>next addr'. successors ob addr = Some next \<and> addr' \<in> next \<and> may_need decode h elf f addr'))"
  using assms by (auto elim: may_needE)

lemma flag_loop_sound:
  "flag_loop decode h elf depth must unclear addr = Some r \<Longrightarrow>
   (bit must f \<longrightarrow> bit r f) \<and>
   (bit unclear f \<longrightarrow> may_need decode h elf f addr \<longrightarrow> bit r f)"
proof (induction rule: flag_loop.raw_induct [rotated, consumes 1, case_names step])
  case (step loop decode h elf depth must unclear addr r)
  note IH = step(1) and 1 = step
  show ?case
  proof (cases "decode_object decode h elf addr")
    case None
    then show ?thesis
      using 1(2) by (auto simp: bit_simps)
  next
    case (Some ob)
    let ?must = "must OR object_require ob" and ?u = "unclear AND NOT (object_update ob)"
    let ?next = "addr + object_size ob" and ?branch = "branch_address ob"
    let ?need = "may_need decode h elf f"
    note need = may_need_decoded [OF _ Some, of f]
    have rec: "bit q f" if "loop decode h elf d 0 u a = Some q" "bit u f" "?need a" for d u a q
      using IH [OF that(1)] that by simp
    have u: "bit unclear f \<Longrightarrow> \<not> bit (object_update ob) f \<Longrightarrow> bit ?u f"
      by (auto simp: bit_simps dest: bit_u8_less)
    consider (unknown) "control_flow_dimension ob \<in> {1, 2}" "?branch = 0"
      | (direct) "control_flow_dimension ob = 1" "?branch \<noteq> 0"
      | (both) "control_flow_dimension ob = 2" "?branch \<noteq> 0"
      | (straight) "control_flow_dimension ob \<notin> {1, 2}"
      by blast
    then show ?thesis
    proof cases
      case unknown
      then have "r = ?must OR unclear"
        using 1(2) Some by (auto simp: Let_def)
      then show ?thesis
        by (auto simp: bit_simps)
    next
      case direct
      then obtain q where q: "r = ?must OR q" "bit ?u f \<Longrightarrow> ?need ?branch \<Longrightarrow> bit q f"
        using 1(2) Some rec by (auto simp: Let_def bind_eq_Some_conv split: if_splits)
      then show ?thesis
        using need u direct by (auto simp: bit_or_iff successors_def)
    next
      case both
      then obtain q q' where q: "r = ?must OR q OR q'" "bit ?u f \<Longrightarrow> ?need ?branch \<Longrightarrow> bit q f"
          "bit ?u f \<Longrightarrow> ?need ?next \<Longrightarrow> bit q' f"
        using 1(2) Some rec that [of ?u ?u]
        by (auto simp: Let_def bind_eq_Some_conv or.assoc split: if_splits)
      then show ?thesis
        using need u both by (auto simp: bit_or_iff successors_def)
    next
      case straight
      let ?v = "unclear AND NOT (object_update ob OR ?must)"
      have v: "bit unclear f \<Longrightarrow> \<not> bit (object_update ob) f \<Longrightarrow> bit ?must f \<or> bit ?v f"
        by (auto simp: bit_simps dest: bit_u8_less)
      have r: "if ?v = 0 then r = ?must
          else if get_eob (obj_inst ob) then r = ?v OR ?must
          else loop decode h elf depth ?must ?v ?next = Some r"
        using 1(2) Some straight by (auto simp: Let_def split: if_splits)
      show ?thesis
      proof (cases "?v = 0 \<or> get_eob (obj_inst ob)")
        case True
        then show ?thesis
          using r need v by (auto simp: bit_or_iff split: if_splits)
      next
        case False
        then have l: "loop decode h elf depth ?must ?v ?next = Some r"
          using r by simp
        show ?thesis
          using IH [OF l] need v straight False by (auto simp: bit_or_iff successors_def)
      qed
    qed
  qed
qed

section \<open>Termination\<close>

text \<open>
  What the translator relies on: a decoded instruction is not empty and lies in the bytes that are
  available.
\<close>

definition decoder_ok :: "decoder \<Rightarrow> bool" where
  "decoder_ok decode \<longleftrightarrow> (\<forall>addr n inst. decode addr n = Some inst \<longrightarrow>
     0 < inst_size inst \<and> inst_size inst \<le> unat n)"

text \<open>The bytes of the image from an address on, one more than none.\<close>

definition bytes_left :: "Elf \<Rightarrow> u64 \<Rightarrow> nat" where
  "bytes_left elf addr =
     (if in_image elf addr then Suc (unat (elf_size elf) - image_offset elf addr) else 0)"

lemma decode_object_advances:
  assumes "decoder_ok decode" "Elf_ok elf" "decode_object decode h elf addr = Some ob"
  shows "bytes_left elf (addr + object_size ob) < bytes_left elf addr"
proof -
  obtain inst where inst: "decode addr (get_size elf addr 1) = Some inst"
    "ob = transform_instruction h inst"
    using assms(3) by (auto simp: decode_object_def)
  have sz: "0 < inst_size inst" "inst_size inst \<le> unat (get_size elf addr 1)"
    using assms(1) inst(1) by (auto simp: decoder_ok_def)
  then have "in_image elf addr"
    using get_size_outside by fastforce
  then have fit: "image_offset elf addr + inst_size inst \<le> unat (elf_size elf)"
    using get_size_in_image(2) [OF assms(2), of addr 1] sz(2) by simp
  have osz: "unat (object_size ob) = inst_size inst"
    using fit unsigned_less [of "elf_size elf", where 'a = nat]
    by (simp add: object_size_def inst(2) wraps_size(1) [OF transform_instruction_wraps]
        unat_of_nat take_bit_nat_eq_self)
  have "unat ((addr - elf_base elf) + object_size ob) = image_offset elf addr + inst_size inst"
    using fit osz unsigned_less [of "elf_size elf", where 'a = nat]
    by (subst unat_add_lem [THEN iffD1]) (simp_all add: image_offset_def)
  then have "image_offset elf (addr + object_size ob) = image_offset elf addr + inst_size inst"
    by (simp add: image_offset_def algebra_simps)
  then show ?thesis
    using sz(1) \<open>in_image elf addr\<close> by (auto simp: bytes_left_def in_image_def)
qed

lemma flag_loop_returns:
  assumes "decoder_ok decode" "Elf_ok elf"
  shows "\<exists>r. flag_loop decode h elf depth must unclear addr = Some r"
proof (induction depth arbitrary: must unclear addr rule: less_induct)
  case (less depth)
  note outer = less
  show ?case
  proof (induction "bytes_left elf addr" arbitrary: must unclear addr rule: less_induct)
    case less
    show ?case
    proof (cases "decode_object decode h elf addr")
      case None
      then show ?thesis
        by (simp add: flag_loop.simps)
    next
      case (Some ob)
      have deep: "\<exists>r. flag_loop decode h elf (depth - 1) 0 u a = Some r" if "depth - 1 \<noteq> 0" for u a
        using outer that by simp
      have rest: "\<exists>r. flag_loop decode h elf depth m u (addr + object_size ob) = Some r" for m u
        using less decode_object_advances [OF assms Some] by simp
      show ?thesis
        using Some deep rest
        by (subst flag_loop.simps) (auto simp: Let_def bind_eq_Some_conv; blast)
    qed
  qed
qed

lemma recursive_flag_requirements_returns:
  assumes "decoder_ok decode" "Elf_ok elf"
  shows "\<exists>r. recursive_flag_requirements decode h elf unclear addr depth = Some r"
  using flag_loop_returns [OF assms] by (simp add: recursive_flag_requirements_def)

lemma recursive_flag_requirements_sound:
  assumes "recursive_flag_requirements decode h elf unclear addr depth = Some r"
    and "bit unclear f" "may_need decode h elf f addr"
  shows "bit r f"
  using assms flag_loop_sound by (fastforce simp: recursive_flag_requirements_def split: if_splits)

end
