(* ===== verification/StaticList.thy ===== *)
theory StaticList
  imports Prelude
begin

text \<open>
  The append-only buffers of the code store (\<^verbatim>\<open>utils/static_list.h\<close>, \<^verbatim>\<open>utils/fixed_array.h\<close>). A list
  allocates buffers of a fixed number of elements and never frees them; \<open>add\<close> keeps the elements
  of one section together, moving the section to a fresh buffer when the current one is full. A
  pointer is a buffer's number with an index into it, the null pointer is \<open>None\<close>. Allocation is a
  parameter: the elements of the \<open>k\<close>-th buffer, or \<open>None\<close> when it fails.
\<close>

section \<open>The list\<close>

type_synonym pointer = "nat \<times> nat"
type_synonym 'a allocator = "nat \<Rightarrow> nat \<Rightarrow> 'a list option"

record 'a StaticList =
  sl_chunks :: "'a list list"
  sl_buffer :: "pointer option"
  sl_size_left :: nat
  sl_max_elements :: nat

definition StaticList_new :: "nat \<Rightarrow> 'a StaticList" where
  "StaticList_new num_elements =
     \<lparr>sl_chunks = [], sl_buffer = None, sl_size_left = 0, sl_max_elements = num_elements\<rparr>"

definition get_size_left :: "'a StaticList \<Rightarrow> nat" where "get_size_left s = sl_size_left s"
definition get_max_elements :: "'a StaticList \<Rightarrow> nat" where "get_max_elements s = sl_max_elements s"

definition allocate :: "'a allocator \<Rightarrow> 'a StaticList \<Rightarrow> pointer option \<times> 'a StaticList" where
  "allocate al s = (case al (length (sl_chunks s)) (sl_max_elements s) of
     None \<Rightarrow> (None, s)
   | Some c \<Rightarrow> (Some (length (sl_chunks s), 0), s\<lparr>sl_chunks := sl_chunks s @ [c]\<rparr>))"

text \<open>
  The executable list maps memory, and sets every element of it; \<open>mapped k\<close> says whether the system
  maps the \<open>k\<close>-th buffer.
\<close>

definition ExecutableList_allocate :: "(nat \<Rightarrow> bool) \<Rightarrow> u32 allocator" where
  "ExecutableList_allocate mapped k n = (if mapped k then Some (replicate n 0) else None)"

text \<open>\<^verbatim>\<open>std::copy\<close> to an index of a buffer, and the elements at a pointer.\<close>

primrec copy_into :: "'a list \<Rightarrow> nat \<Rightarrow> 'a list \<Rightarrow> 'a list" where
  "copy_into [] i buf = buf"
| "copy_into (x # xs) i buf = copy_into xs (Suc i) (buf[i := x])"

definition section_at :: "'a StaticList \<Rightarrow> pointer \<Rightarrow> nat \<Rightarrow> 'a list" where
  "section_at s p n = take n (drop (snd p) (sl_chunks s ! fst p))"

definition reallocate ::
  "'a allocator \<Rightarrow> pointer option \<Rightarrow> nat \<Rightarrow> 'a StaticList \<Rightarrow> pointer option \<times> 'a StaticList" where
  "reallocate al start elements s = (case (allocate al s, start) of
     ((Some (c, i), s'), Some p) \<Rightarrow>
       (Some (c, i), s'\<lparr>sl_chunks :=
          (sl_chunks s')[c := copy_into (section_at s p elements) 0 (sl_chunks s' ! c)]\<rparr>)
   | ((new_buffer, s'), _) \<Rightarrow> (new_buffer, s'))"

text \<open>
  The elements from \<open>start\<close> to the end of what is stored; the difference of pointers into
  different buffers is undefined.
\<close>

definition store_count :: "'a StaticList \<Rightarrow> pointer option \<Rightarrow> nat option" where
  "store_count s start = (case (start, sl_buffer s) of
     (None, _) \<Rightarrow> Some 0
   | (Some (c, i), Some (c', i')) \<Rightarrow> (if c = c' \<and> i \<le> i' then Some (i' - i) else None)
   | (Some p, None) \<Rightarrow> None)"

text \<open>The copy that ends \<open>add\<close>.\<close>

definition append_at_buffer :: "'a list \<Rightarrow> 'a StaticList \<Rightarrow> 'a StaticList" where
  "append_at_buffer elements s = (case sl_buffer s of
     None \<Rightarrow> s
   | Some (c, i) \<Rightarrow>
      s\<lparr>sl_chunks := (sl_chunks s)[c := copy_into elements i (sl_chunks s ! c)],
        sl_buffer := Some (c, i + length elements),
        sl_size_left := sl_size_left s - length elements\<rparr>)"

definition StaticList_add ::
  "'a allocator \<Rightarrow> pointer option \<Rightarrow> 'a list \<Rightarrow> 'a StaticList \<Rightarrow>
   fault + (pointer option \<times> 'a StaticList)" where
  "StaticList_add al start elements s = (case store_count s start of
     None \<Rightarrow> Inl Undefined_behaviour
   | Some n \<Rightarrow>
      (if length elements + n > sl_max_elements s then Inr (None, s)
       else
         let actual_start = (if n > 0 then start else sl_buffer s) in
         if sl_size_left s < length elements then
           case reallocate al start n s of
             (None, s') \<Rightarrow> Inr (None, s')
           | (Some (c, i), s') \<Rightarrow>
              Inr (Some (c, i), append_at_buffer elements
                (s'\<lparr>sl_buffer := Some (c, i + n), sl_size_left := sl_max_elements s - n\<rparr>))
         else Inr (actual_start, append_at_buffer elements s)))"

text \<open>A failed allocation leaves the null pointer, through which the entry is then accessed.\<close>

definition allocate_entry ::
  "'a allocator \<Rightarrow> 'a StaticList \<Rightarrow> fault + (pointer \<times> 'a StaticList)" where
  "allocate_entry al s =
    (let s = (if sl_size_left s \<le> 0 then
                (case allocate al s of (p, s') \<Rightarrow>
                   s'\<lparr>sl_buffer := p, sl_size_left := sl_max_elements s\<rparr>)
              else s)
     in case sl_buffer s of
       None \<Rightarrow> Inl Undefined_behaviour
     | Some (c, i) \<Rightarrow>
        Inr ((c, i), s\<lparr>sl_size_left := sl_size_left s - 1, sl_buffer := Some (c, i + 1)\<rparr>))"

text \<open>Access to the element at a pointer.\<close>

definition element_at :: "'a StaticList \<Rightarrow> pointer \<Rightarrow> 'a" where
  "element_at s p = sl_chunks s ! fst p ! snd p"

definition update_element :: "pointer \<Rightarrow> 'a \<Rightarrow> 'a StaticList \<Rightarrow> 'a StaticList" where
  "update_element p x s =
     s\<lparr>sl_chunks := (sl_chunks s)[fst p := (sl_chunks s ! fst p)[snd p := x]]\<rparr>"

section \<open>Invariant\<close>

text \<open>
  Every buffer has its full size, and \<^verbatim>\<open>_size_left\<close> is what is left of the current one, so no copy
  leaves it.
\<close>

definition StaticList_ok :: "'a StaticList \<Rightarrow> bool" where
  "StaticList_ok s \<longleftrightarrow>
     (\<forall>c < length (sl_chunks s). length (sl_chunks s ! c) = sl_max_elements s) \<and>
     (case sl_buffer s of
        None \<Rightarrow> sl_size_left s = 0
      | Some (c, i) \<Rightarrow> c < length (sl_chunks s) \<and> i + sl_size_left s = sl_max_elements s)"

definition allocator_ok :: "'a allocator \<Rightarrow> bool" where
  "allocator_ok al \<longleftrightarrow> (\<forall>k n c. al k n = Some c \<longrightarrow> length c = n)"

text \<open>Positions that hold stored elements, and lists that agree on those of another.\<close>

definition stored :: "'a StaticList \<Rightarrow> pointer \<Rightarrow> bool" where
  "stored s p \<longleftrightarrow> fst p < length (sl_chunks s) \<and> snd p < sl_max_elements s \<and>
     (case sl_buffer s of None \<Rightarrow> True | Some (c, i) \<Rightarrow> fst p \<noteq> c \<or> snd p < i)"

definition extends :: "'a StaticList \<Rightarrow> 'a StaticList \<Rightarrow> bool" where
  "extends s s' \<longleftrightarrow> (\<forall>p. stored s p \<longrightarrow> stored s' p \<and> element_at s' p = element_at s p)"

text \<open>A section is at the end of what is stored, as that of the block under construction is.\<close>

definition current_section :: "'a StaticList \<Rightarrow> pointer option \<Rightarrow> 'a list \<Rightarrow> bool" where
  "current_section s start xs \<longleftrightarrow> store_count s start = Some (length xs) \<and>
     (case start of None \<Rightarrow> xs = [] | Some p \<Rightarrow> section_at s p (length xs) = xs)"

lemma StaticList_new_ok: "StaticList_ok (StaticList_new n)"
  by (simp add: StaticList_ok_def StaticList_new_def)

lemma ExecutableList_allocate_ok: "allocator_ok (ExecutableList_allocate mapped)"
  by (auto simp: allocator_ok_def ExecutableList_allocate_def split: if_splits)

lemma length_copy_into [simp]: "length (copy_into xs i buf) = length buf"
  by (induction xs arbitrary: i buf) simp_all

lemma nth_copy_into:
  "j < length buf \<Longrightarrow>
   copy_into xs i buf ! j = (if i \<le> j \<and> j < i + length xs then xs ! (j - i) else buf ! j)"
proof (induction xs arbitrary: i buf)
  case (Cons x xs)
  then show ?case
    by (auto simp: nth_list_update nth_Cons' Suc_diff_le less_Suc_eq_le dest: le_antisym)
qed auto

lemma take_drop_copy_into:
  assumes "i + length xs \<le> length buf"
  shows "take (length xs) (drop i (copy_into xs i buf)) = xs"
  using assms by (auto intro!: nth_equalityI simp: nth_copy_into)

lemma take_drop_copy_into_append:
  assumes "take (length xs) (drop i buf) = xs" "i + length xs + length ys \<le> length buf"
  shows "take (length (xs @ ys)) (drop i (copy_into ys (i + length xs) buf)) = xs @ ys"
proof (rule nth_equalityI)
  fix j assume "j < length (take (length (xs @ ys)) (drop i (copy_into ys (i + length xs) buf)))"
  then have j: "j < length xs + length ys"
    by simp
  have "j < length xs \<Longrightarrow> buf ! (i + j) = xs ! j"
    using assms by (metis add_leD1 nth_drop nth_take)
  then show "take (length (xs @ ys)) (drop i (copy_into ys (i + length xs) buf)) ! j = (xs @ ys) ! j"
    using j assms(2) by (auto simp: nth_copy_into nth_append)
qed (use assms in simp)

lemma extends_refl [simp]: "extends s s"
  by (simp add: extends_def)

lemma extends_trans: "extends r s \<Longrightarrow> extends s t \<Longrightarrow> extends r t"
  by (simp add: extends_def)

section \<open>Appending\<close>

text \<open>The state after a reallocation, when the section has been moved to the start of a fresh buffer.\<close>

definition moved :: "'a list \<Rightarrow> 'a list \<Rightarrow> 'a StaticList \<Rightarrow> 'a StaticList" where
  "moved fresh xs s = s\<lparr>sl_chunks := sl_chunks s @ [copy_into xs 0 fresh],
     sl_buffer := Some (length (sl_chunks s), length xs),
     sl_size_left := sl_max_elements s - length xs\<rparr>"

lemma append_at_buffer_ok:
  assumes "StaticList_ok s" "length ys \<le> sl_size_left s"
  shows "StaticList_ok (append_at_buffer ys s)"
  using assms
  by (auto simp: StaticList_ok_def append_at_buffer_def nth_list_update split: option.splits)

lemma append_at_buffer_extends:
  assumes "StaticList_ok s" "length ys \<le> sl_size_left s"
  shows "extends s (append_at_buffer ys s)"
  using assms
  by (auto simp: StaticList_ok_def append_at_buffer_def extends_def stored_def element_at_def
      nth_list_update nth_copy_into split: option.splits)

lemma append_at_buffer_section:
  assumes "StaticList_ok s" "length ys \<le> sl_size_left s" "sl_buffer s = Some (c, i + length xs)"
    and "section_at s (c, i) (length xs) = xs"
  shows "current_section (append_at_buffer ys s) (Some (c, i)) (xs @ ys)"
proof -
  have len: "length (sl_chunks s ! c) = sl_max_elements s" and c: "c < length (sl_chunks s)"
    and sz: "i + length xs + sl_size_left s = sl_max_elements s"
    using assms(1,3) by (auto simp: StaticList_ok_def)
  show ?thesis
    using assms(2-4) c sz len take_drop_copy_into_append [of xs i "sl_chunks s ! c" ys]
    by (simp add: current_section_def store_count_def append_at_buffer_def section_at_def)
qed

lemma moved_ok:
  assumes "StaticList_ok s" "length fresh = sl_max_elements s" "length xs \<le> sl_max_elements s"
  shows "StaticList_ok (moved fresh xs s)" "extends s (moved fresh xs s)"
    "section_at (moved fresh xs s) (length (sl_chunks s), 0) (length xs) = xs"
  using assms take_drop_copy_into [of 0 xs fresh]
  by (auto simp: StaticList_ok_def moved_def nth_append less_Suc_eq extends_def stored_def
      element_at_def section_at_def split: option.splits)

lemma reallocate_moved:
  assumes "current_section s start xs" "reallocate al start (length xs) s = (Some (c, i), s')"
    "allocator_ok al"
  shows "\<exists>fresh. length fresh = sl_max_elements s \<and> c = length (sl_chunks s) \<and> i = 0 \<and>
    s'\<lparr>sl_buffer := Some (c, i + length xs), sl_size_left := sl_max_elements s - length xs\<rparr>
      = moved fresh xs s"
  using assms
  by (auto simp: reallocate_def allocate_def moved_def allocator_ok_def current_section_def
      section_at_def list_update_append split: option.splits prod.splits)

lemma StaticList_add_correct:
  assumes "StaticList_ok s" "allocator_ok al" "current_section s start xs"
    and "StaticList_add al start ys s = Inr (Some p, s')"
  shows "StaticList_ok s'" "extends s s'" "current_section s' (Some p) (xs @ ys)"
proof -
  have n: "store_count s start = Some (length xs)"
    using assms(3) by (simp add: current_section_def)
  have fits: "length ys + length xs \<le> sl_max_elements s"
    using assms(4) n by (auto simp: StaticList_add_def split: if_splits)
  have "StaticList_ok s' \<and> extends s s' \<and> current_section s' (Some p) (xs @ ys)"
  proof (cases "sl_size_left s < length ys")
    case True
    then obtain c i t where r: "reallocate al start (length xs) s = (Some (c, i), t)"
      and p: "p = (c, i)" and s': "s' = append_at_buffer ys
        (t\<lparr>sl_buffer := Some (c, i + length xs), sl_size_left := sl_max_elements s - length xs\<rparr>)"
      using assms(4) n fits
      by (auto simp: StaticList_add_def split: if_splits prod.splits option.splits)
    obtain fresh where fresh: "length fresh = sl_max_elements s" "c = length (sl_chunks s)" "i = 0"
      "s' = append_at_buffer ys (moved fresh xs s)"
      using reallocate_moved [OF assms(3) r assms(2)] s' by auto
    have fits': "length ys \<le> sl_size_left (moved fresh xs s)"
      "sl_buffer (moved fresh xs s) = Some (c, 0 + length xs)"
      using fits fresh by (auto simp: moved_def)
    have m: "StaticList_ok (moved fresh xs s)" "extends s (moved fresh xs s)"
      "section_at (moved fresh xs s) (c, 0) (length xs) = xs"
      using moved_ok [OF assms(1) fresh(1), of xs] fits fresh(2) by simp_all
    show ?thesis
      using append_at_buffer_ok [OF m(1) fits'(1)] append_at_buffer_section [OF m(1) fits' m(3)]
        extends_trans [OF m(2) append_at_buffer_extends [OF m(1) fits'(1)]] p fresh
      by simp
  next
    case False
    then have s': "s' = append_at_buffer ys s"
      and p: "Some p = (if xs \<noteq> [] then start else sl_buffer s)"
      using assms(4) n fits by (auto simp: StaticList_add_def split: if_splits)
    obtain c i where ci: "p = (c, i)" by (cases p)
    have "sl_buffer s = Some (c, i + length xs) \<and> section_at s (c, i) (length xs) = xs"
      using p ci assms(3) by (cases "xs = []")
        (auto simp: current_section_def store_count_def section_at_def split: option.splits if_splits)
    then show ?thesis
      using append_at_buffer_ok [OF assms(1)] append_at_buffer_extends [OF assms(1)]
        append_at_buffer_section [OF assms(1)] False s' ci
      by simp
  qed
  then show "StaticList_ok s'" "extends s s'" "current_section s' (Some p) (xs @ ys)"
    by simp_all
qed

text \<open>
  A list that has room, or can allocate it, takes the elements: unless nothing is to be added to a
  list that has no buffer yet, when the null pointer is returned as if memory had run out.
\<close>

lemma StaticList_add_succeeds:
  assumes "StaticList_ok s" "current_section s start xs" "\<And>k n. al k n \<noteq> None"
    and "length xs + length ys \<le> sl_max_elements s" "ys \<noteq> [] \<or> sl_buffer s \<noteq> None"
  shows "\<exists>p s'. StaticList_add al start ys s = Inr (Some p, s')"
proof -
  have n: "store_count s start = Some (length xs)"
    using assms(2) by (simp add: current_section_def)
  obtain fresh where fresh: "al (length (sl_chunks s)) (sl_max_elements s) = Some fresh"
    using assms(3) by blast
  have "\<not> sl_size_left s < length ys \<Longrightarrow> sl_buffer s \<noteq> None"
    using assms(1,5) by (auto simp: StaticList_ok_def split: option.splits)
  moreover have "xs \<noteq> [] \<Longrightarrow> start \<noteq> None"
    using assms(2) by (cases start) (simp_all add: current_section_def)
  ultimately show ?thesis
    using n assms(4) fresh
    by (auto simp: StaticList_add_def reallocate_def allocate_def split: option.splits prod.splits)
qed

lemma StaticList_add_empty_null:
  assumes "sl_buffer s = None"
  shows "StaticList_add al None [] s = Inr (None, s)"
  using assms by (simp add: StaticList_add_def store_count_def append_at_buffer_def)

section \<open>Entries\<close>

lemma allocate_entry_correct:
  assumes "StaticList_ok s" "allocator_ok al" "0 < sl_max_elements s"
    and "allocate_entry al s = Inr (p, s')"
  shows "StaticList_ok s'" "extends s s'" "\<not> stored s p" "stored s' p"
  using assms
  by (auto simp: allocate_entry_def allocate_def StaticList_ok_def extends_def stored_def
      element_at_def allocator_ok_def nth_append less_Suc_eq split: option.splits if_splits)

lemma element_update:
  assumes "StaticList_ok s" "stored s p" "stored s q"
  shows "element_at (update_element p x s) q = (if q = p then x else element_at s q)"
  using assms
  by (auto simp: element_at_def update_element_def StaticList_ok_def stored_def nth_list_update
      prod_eq_iff)

lemma update_element_ok:
  "StaticList_ok s \<Longrightarrow> StaticList_ok (update_element p x s)"
  "stored (update_element p x s) q = stored s q"
proof -
  have "length ((cs[i := (cs ! i)[j := x]]) ! c) = length (cs ! c)" if "c < length cs" for cs i j c
    using that by (cases "i = c") simp_all
  then show "StaticList_ok s \<Longrightarrow> StaticList_ok (update_element p x s)"
    by (auto simp: StaticList_ok_def update_element_def split: option.splits)
qed (simp add: update_element_def stored_def)

end
