(* ===== verification/Arguments.thy ===== *)
theory Arguments
  imports Prelude
begin

text \<open>
  The command line (\<^verbatim>\<open>arguments/arguments.{h,cpp}\<close>): the options with their defaults, the parsing
  of numbers with their bounds, the splitting of the guest's arguments at spaces outside quotes, and
  the callback that the system's \<^verbatim>\<open>argp\<close> calls for each option. \<^verbatim>\<open>strtol\<close> is a parameter: it
  gives the number it read and the rest of the string.
\<close>

section \<open>Stored arguments\<close>

record StoredArguments =
  guest_path :: "string option"
  guest_arguments :: "string list"
  log_level :: u8
  debugging :: u8
  flag_prediction_depth :: u8
  stack_size :: u64
  instruction_list_size :: u64
  offset_list_size :: u64
  entry_list_size :: u64

definition Arguments_default :: StoredArguments where
  "Arguments_default =
     \<lparr>guest_path = None, guest_arguments = [], log_level = 0, debugging = 0,
      flag_prediction_depth = 4, stack_size = 0x200000, instruction_list_size = 0x1000,
      offset_list_size = 0x200, entry_list_size = 0x40\<rparr>"

section \<open>Numbers\<close>

text \<open>A failure is the message that \<^verbatim>\<open>argp_failure\<close> prints before it ends the program.\<close>

definition parse_string :: "(string \<Rightarrow> int \<times> string) \<Rightarrow> string \<Rightarrow> string \<Rightarrow> string + int" where
  "parse_string strtol str failure =
    (let (parsed_value, end_parse) = strtol str in
     if end_parse \<noteq> [] then Inl (failure @ '': '' @ str) else Inr parsed_value)"

definition parse_string_min ::
  "(string \<Rightarrow> int \<times> string) \<Rightarrow> string \<Rightarrow> int \<Rightarrow> string \<Rightarrow> string + int" where
  "parse_string_min strtol str min_value failure =
    (case parse_string strtol str failure of
       Inl e \<Rightarrow> Inl e
     | Inr v \<Rightarrow>
        (if v < min_value then
           Inl (failure @ '': '' @ str @ ''. Please specify a value larger than '' @ decimal_int min_value)
         else Inr v))"

definition parse_string_range ::
  "(string \<Rightarrow> int \<times> string) \<Rightarrow> string \<Rightarrow> int \<Rightarrow> int \<Rightarrow> string \<Rightarrow> string + int" where
  "parse_string_range strtol str min_value max_value failure =
    (case parse_string_min strtol str min_value failure of
       Inl e \<Rightarrow> Inl e
     | Inr v \<Rightarrow>
        (if v > max_value then
           Inl (failure @ '': '' @ str @ ''. Please specify a value between '' @
             decimal_int min_value @ ''-'' @ decimal_int max_value)
         else Inr v))"

section \<open>Splitting\<close>

text \<open>
  Positions in a string are of type \<^verbatim>\<open>size_t\<close>; \<open>npos\<close>, the largest, is returned when nothing is
  found.
\<close>

definition npos :: u64 where "npos = - 1"

definition find_first_of :: "char \<Rightarrow> string \<Rightarrow> u64" where
  "find_first_of c s =
    (if c \<in> set s then of_nat (length (takeWhile (\<lambda>x. x \<noteq> c) s)) else npos)"

definition find_last_of :: "char \<Rightarrow> string \<Rightarrow> u64" where
  "find_last_of c s =
    (if c \<in> set s then of_nat (length s - 1 - length (takeWhile (\<lambda>x. x \<noteq> c) (rev s))) else npos)"

definition string_length :: "string \<Rightarrow> u64" where
  "string_length s = of_nat (length s)"

text \<open>A token is still open when it starts with a quote and does not end with one that counts.\<close>

definition open_quote :: "string \<Rightarrow> bool" where
  "open_quote t \<longleftrightarrow> find_first_of (CHR 0x22) t = 0 \<and>
     (find_last_of (CHR 0x22) t \<noteq> string_length t - 1 \<or>
      find_last_of (CHR 0x5C) t = string_length t - 2)"

definition add_token :: "char \<Rightarrow> string list \<Rightarrow> string \<Rightarrow> string list" where
  "add_token delimiter tokens token =
    (if tokens \<noteq> [] \<and> open_quote (List.last tokens) then
       butlast tokens @ [List.last tokens @ delimiter # token]
     else if length token > 0 then tokens @ [token]
     else tokens)"

text \<open>The loop over the delimiters; \<open>rest\<close> is the string from \<^verbatim>\<open>previous\<close> on.\<close>

function split_from :: "char \<Rightarrow> string \<Rightarrow> string list \<Rightarrow> string list" where
  "split_from delimiter rest tokens =
    (let token = takeWhile (\<lambda>c. c \<noteq> delimiter) rest;
       tokens = add_token delimiter tokens token
     in if delimiter \<in> set rest then
          split_from delimiter (drop (length token + 1) rest) tokens
        else tokens)"
  by auto
termination by (relation "measure (\<lambda>(d, rest, tokens). length rest)") (auto dest: length_pos_if_in_set intro!: diff_less)

declare split_from.simps [simp del]

definition string_split :: "string \<Rightarrow> char \<Rightarrow> string list" where
  "string_split str delimiter = split_from delimiter str []"

section \<open>Options\<close>

datatype parse_result =
    Parsed StoredArguments
  | Unknown
  | Failure string
  | Usage

datatype option_key =
    Key char
  | Dbk_key
  | Key_no_args
  | Key_arg
  | Key_other

definition bad_size :: string where "bad_size = ''Illegal size, must be a positive integer''"

text \<open>The result of a number, stored by \<open>f\<close>.\<close>

definition with_number :: "string + int \<Rightarrow> (int \<Rightarrow> StoredArguments) \<Rightarrow> parse_result" where
  "with_number r f = (case r of Inl e \<Rightarrow> Failure e | Inr v \<Rightarrow> Parsed (f v))"

definition parse_opt ::
  "(string \<Rightarrow> int \<times> string) \<Rightarrow> option_key \<Rightarrow> string \<Rightarrow> StoredArguments \<Rightarrow> parse_result" where
  "parse_opt strtol key arg args = (case key of
     Key c \<Rightarrow>
      (if c = CHR ''a'' then Parsed (args\<lparr>guest_arguments := string_split arg (CHR '' '')\<rparr>)
       else if c = CHR ''l'' then
         with_number
           (parse_string strtol arg ''Illegal log level, must be an integer (decimal, or hex)'')
           (\<lambda>v. args\<lparr>log_level := log_level args OR word_of_int v\<rparr>)
       else if c = CHR ''d'' then
         with_number (parse_string_range strtol arg 0 255 ''Illegal flag prediction depth'')
           (\<lambda>v. args\<lparr>flag_prediction_depth := word_of_int v\<rparr>)
       else if c = CHR ''s'' then
         with_number (parse_string_min strtol arg 1 bad_size) (\<lambda>v. args\<lparr>stack_size := word_of_int v\<rparr>)
       else if c = CHR ''i'' then
         with_number (parse_string_min strtol arg 1 bad_size)
           (\<lambda>v. args\<lparr>instruction_list_size := word_of_int v\<rparr>)
       else if c = CHR ''o'' then
         with_number (parse_string_min strtol arg 1 bad_size)
           (\<lambda>v. args\<lparr>offset_list_size := word_of_int v\<rparr>)
       else if c = CHR ''e'' then
         with_number (parse_string_min strtol arg 1 bad_size)
           (\<lambda>v. args\<lparr>entry_list_size := word_of_int v\<rparr>)
       else Unknown)
   | Dbk_key \<Rightarrow>
       with_number (parse_string_range strtol arg 0 2 ''Illegal debugging-mode'')
         (\<lambda>v. args\<lparr>debugging := word_of_int v\<rparr>)
   | Key_no_args \<Rightarrow> Usage
   | Key_arg \<Rightarrow>
      (if guest_path args \<noteq> None then Unknown else Parsed (args\<lparr>guest_path := Some arg\<rparr>))
   | Key_other \<Rightarrow> Unknown)"

text \<open>
  \<^verbatim>\<open>argp_parse\<close> calls the callback for each option in turn and stops at the first that is not
  accepted.
\<close>

primrec parse_arguments ::
  "(string \<Rightarrow> int \<times> string) \<Rightarrow> (option_key \<times> string) list \<Rightarrow> StoredArguments \<Rightarrow> parse_result" where
  "parse_arguments strtol [] args = Parsed args"
| "parse_arguments strtol (opt # opts) args =
    (case parse_opt strtol (fst opt) (snd opt) args of
       Parsed args \<Rightarrow> parse_arguments strtol opts args
     | Unknown \<Rightarrow> Unknown
     | Failure e \<Rightarrow> Failure e
     | Usage \<Rightarrow> Usage)"

end
