(* ===== verification/CodeStore.thy ===== *)
theory CodeStore
  imports StaticList Elf Arguments
begin

text \<open>
  The store of translated blocks (\<^verbatim>\<open>codegen/codestore/codestore.{h,cpp}\<close>): the entries of the blocks
  with the code and the instruction sizes they point to, and, per page of the guest's image, the
  blocks that touch it, in ascending order. \<open>find\<close> is a binary search; it is proved to agree with a
  linear scan on ordered pages.
\<close>

section \<open>Entries\<close>

record InstructionOffset =
  io_x86 :: "6 word"
  io_riscv :: "10 word"

record BlockEntry =
  x86_start :: u64
  x86_end :: u64
  riscv_start :: "pointer option"
  instruction_count :: nat
  offsets :: "pointer option"

definition BlockEntry_default :: BlockEntry where
  "BlockEntry_default =
     \<lparr>x86_start = 0, x86_end = 0, riscv_start = None, instruction_count = 0, offsets = None\<rparr>"

text \<open>
  The allocator of the process: which code buffers can be mapped and at which addresses, which
  buffers of entries can be allocated, and what fresh offset buffers hold.
\<close>

record allocators =
  al_mapped :: "nat \<Rightarrow> bool"
  al_code_base :: "nat \<Rightarrow> u64"
  al_entries :: "nat \<Rightarrow> bool"
  al_offsets :: "InstructionOffset allocator"

definition new_entries :: "(nat \<Rightarrow> bool) \<Rightarrow> BlockEntry allocator" where
  "new_entries available k n = (if available k then Some (replicate n BlockEntry_default) else None)"

record CodeStore =
  cs_elf :: Elf
  cs_pages :: "pointer list list"
  cs_code :: "u32 StaticList"
  cs_entries :: "BlockEntry StaticList"
  cs_offsets :: "InstructionOffset StaticList"

definition CodeStore_new :: "StoredArguments \<Rightarrow> Elf \<Rightarrow> CodeStore" where
  "CodeStore_new args elf =
     \<lparr>cs_elf = elf, cs_pages = replicate (unat (drop_bit 12 (elf_size elf))) [],
      cs_code = StaticList_new (unat (instruction_list_size args)),
      cs_entries = StaticList_new (unat (entry_list_size args)),
      cs_offsets = StaticList_new (unat (offset_list_size args))\<rparr>"

section \<open>Access\<close>

definition block :: "CodeStore \<Rightarrow> pointer \<Rightarrow> BlockEntry" where
  "block st p = element_at (cs_entries st) p"

definition set_block :: "pointer \<Rightarrow> BlockEntry \<Rightarrow> CodeStore \<Rightarrow> CodeStore" where
  "set_block p b st = st\<lparr>cs_entries := update_element p b (cs_entries st)\<rparr>"

text \<open>The address that the host executes code of the store at.\<close>

definition host_address :: "allocators \<Rightarrow> pointer option \<Rightarrow> u64" where
  "host_address al p = (case p of None \<Rightarrow> 0 | Some (c, i) \<Rightarrow> al_code_base al c + of_nat (4 * i))"

definition get_page_index :: "CodeStore \<Rightarrow> u64 \<Rightarrow> nat" where
  "get_page_index st x86_address = unat (drop_bit 12 (x86_address - elf_base (cs_elf st)))"

text \<open>Pages are accessed without a check; outside of the array that is undefined.\<close>

definition page_array :: "CodeStore \<Rightarrow> nat \<Rightarrow> fault + pointer list" where
  "page_array st i =
    (if i < length (cs_pages st) then Inr (cs_pages st ! i) else Inl Undefined_behaviour)"

definition set_page :: "nat \<Rightarrow> pointer list \<Rightarrow> CodeStore \<Rightarrow> CodeStore" where
  "set_page i page st = st\<lparr>cs_pages := (cs_pages st)[i := page]\<rparr>"

definition block_offsets :: "CodeStore \<Rightarrow> BlockEntry \<Rightarrow> InstructionOffset list" where
  "block_offsets st b = (case offsets b of
     None \<Rightarrow> []
   | Some p \<Rightarrow> section_at (cs_offsets st) p (instruction_count b))"

section \<open>Search\<close>

text \<open>The instructions of a block up to the one at \<open>x86_code\<close>.\<close>

primrec find_instruction :: "InstructionOffset list \<Rightarrow> u64 \<Rightarrow> u64 \<Rightarrow> u64 \<Rightarrow> u64 option" where
  "find_instruction [] x86_code guest host = None"
| "find_instruction (entry # entries) x86_code guest host =
    (if guest = x86_code then Some host
     else find_instruction entries x86_code
       (guest + ucast (io_x86 entry)) (host + ucast (io_riscv entry)))"

definition find_in_block :: "allocators \<Rightarrow> CodeStore \<Rightarrow> BlockEntry \<Rightarrow> u64 \<Rightarrow> fault + u64" where
  "find_in_block al st entry x86_code =
    (case find_instruction (block_offsets st entry) x86_code (x86_start entry)
            (host_address al (riscv_start entry)) of
       Some address \<Rightarrow> Inr address
     | None \<Rightarrow> Inl Jump_inside_instruction)"

text \<open>The search ends when the bounds meet; they never cross.\<close>

function find_between ::
  "allocators \<Rightarrow> CodeStore \<Rightarrow> pointer list \<Rightarrow> u64 \<Rightarrow> nat \<Rightarrow> nat \<Rightarrow> fault + u64" where
  "find_between al st entries x86_code l r =
    (if r \<le> l then Inr 0
     else
       let index = (l + r) div 2; entry = block st (entries ! index) in
       if x86_code < x86_start entry then find_between al st entries x86_code l index
       else if x86_code \<ge> x86_end entry then find_between al st entries x86_code (index + 1) r
       else find_in_block al st entry x86_code)"
  by auto
termination by (relation "measure (\<lambda>(al, st, entries, x, l, r). r - l)") auto

declare find_between.simps [simp del]

definition CodeStore_find :: "allocators \<Rightarrow> CodeStore \<Rightarrow> u64 \<Rightarrow> fault + u64" where
  "CodeStore_find al st x86_code =
     and_then (page_array st (get_page_index st x86_code))
       (\<lambda>entries. find_between al st entries x86_code 0 (length entries))"

definition get_next_block :: "CodeStore \<Rightarrow> u64 \<Rightarrow> pointer option" where
  "get_next_block st x86_code =
     find (\<lambda>p. x86_start (block st p) \<ge> x86_code)
       (concat (drop (get_page_index st x86_code) (cs_pages st)))"

section \<open>Insertion\<close>

definition create_block :: "allocators \<Rightarrow> CodeStore \<Rightarrow> fault + (pointer \<times> CodeStore)" where
  "create_block al st =
     and_then (allocate_entry (new_entries (al_entries al)) (cs_entries st))
       (\<lambda>(p, entries). Inr (p, st\<lparr>cs_entries := entries\<rparr>))"

text \<open>The place of a block in a page: before the first one that starts at a higher address.\<close>

definition insert_sorted :: "CodeStore \<Rightarrow> pointer \<Rightarrow> u64 \<Rightarrow> pointer list \<Rightarrow> pointer list" where
  "insert_sorted st p x86_address page =
    (let lower = takeWhile (\<lambda>q. \<not> x86_start (block st q) > x86_address) page in
     lower @ p # drop (length lower) page)"

definition insert_block :: "pointer \<Rightarrow> u64 \<Rightarrow> CodeStore \<Rightarrow> fault + CodeStore" where
  "insert_block p x86_address st =
    (if instruction_count (block st p) = 0 then
       let st = set_block p ((block st p)\<lparr>x86_start := x86_address\<rparr>) st;
         i = get_page_index st x86_address
       in and_then (page_array st i)
            (\<lambda>page. Inr (set_page i (insert_sorted st p x86_address page) st))
     else if x86_end (block st p) \<noteq> x86_address then Inl Non_consecutive_instruction
     else Inr st)"

text \<open>A block that reaches into a page becomes the first one of the page.\<close>

definition overlap_page :: "pointer \<Rightarrow> CodeStore \<Rightarrow> fault + CodeStore" where
  "overlap_page p st =
    (let i = get_page_index st (x86_end (block st p)) in
     and_then (page_array st i)
       (\<lambda>page. Inr (if page = [] then set_page i [p] st
          else if hd page \<noteq> p then set_page i (p # page) st
          else st)))"

definition add_instruction ::
  "allocators \<Rightarrow> pointer \<Rightarrow> u64 \<Rightarrow> u8 \<Rightarrow> u32 list \<Rightarrow> CodeStore \<Rightarrow> fault + CodeStore" where
  "add_instruction al p address sz riscv_instructions st =
     and_then (insert_block p address st) (\<lambda>st.
     and_then (StaticList_add (ExecutableList_allocate (al_mapped al)) (riscv_start (block st p))
         riscv_instructions (cs_code st)) (\<lambda>(start, code).
       let st = set_block p ((block st p)\<lparr>riscv_start := start\<rparr>) (st\<lparr>cs_code := code\<rparr>);
         entry = \<lparr>io_x86 = ucast sz, io_riscv = of_nat (length riscv_instructions * 4)\<rparr>
       in if start = None then Inl Instruction_list_full
       else and_then (StaticList_add (al_offsets al) (offsets (block st p)) [entry] (cs_offsets st))
         (\<lambda>(offs, list).
         let b = (block st p)\<lparr>offsets := offs\<rparr>; st = set_block p b (st\<lparr>cs_offsets := list\<rparr>) in
         if offs = None then Inl Offset_list_full
         else
           let b = b\<lparr>instruction_count := instruction_count b + 1, x86_end := address + ucast sz\<rparr>;
             st = set_block p b st
           in if drop_bit 12 (x86_start b) < drop_bit 12 (x86_end b) then overlap_page p st
              else Inr st)))"

section \<open>The search agrees with a scan\<close>

text \<open>Blocks of a page in order: none empty, and each ends before the next one starts.\<close>

definition covers :: "BlockEntry \<Rightarrow> u64 \<Rightarrow> bool" where
  "covers b x \<longleftrightarrow> x86_start b \<le> x \<and> x < x86_end b"

definition page_sorted :: "CodeStore \<Rightarrow> pointer list \<Rightarrow> bool" where
  "page_sorted st page \<longleftrightarrow>
     (\<forall>p\<in>set page. x86_start (block st p) < x86_end (block st p)) \<and>
     sorted_wrt (\<lambda>p q. x86_end (block st p) \<le> x86_start (block st q)) page"

definition find_scan :: "allocators \<Rightarrow> CodeStore \<Rightarrow> pointer list \<Rightarrow> u64 \<Rightarrow> fault + u64" where
  "find_scan al st page x = (case find (\<lambda>p. covers (block st p) x) page of
     None \<Rightarrow> Inr 0
   | Some p \<Rightarrow> find_in_block al st (block st p) x)"

lemma page_sorted_nth:
  assumes "page_sorted st page" "i < j" "j < length page"
  shows "x86_end (block st (page ! i)) \<le> x86_start (block st (page ! j))"
  using assms by (auto simp: page_sorted_def sorted_wrt_iff_nth_less)

lemma page_sorted_nonempty:
  "page_sorted st page \<Longrightarrow> i < length page \<Longrightarrow>
   x86_start (block st (page ! i)) < x86_end (block st (page ! i))"
  by (simp add: page_sorted_def)

lemma covers_unique:
  assumes "page_sorted st page" "i < length page" "j < length page"
    and "covers (block st (page ! i)) x" "covers (block st (page ! j)) x"
  shows "i = j"
proof (rule ccontr)
  have no: False if "a < b" "b < length page" "covers (block st (page ! a)) x"
    "covers (block st (page ! b)) x" for a b
    using page_sorted_nth [OF assms(1) that(1,2)] that(3,4) by (auto simp: covers_def)
  assume "i \<noteq> j"
  then show False
    using no [of i j] no [of j i] assms(2-5) by (auto simp: neq_iff)
qed

lemma find_scan_nth:
  assumes "page_sorted st page" "i < length page" "covers (block st (page ! i)) x"
  shows "find_scan al st page x = find_in_block al st (block st (page ! i)) x"
proof -
  have "\<not> covers (block st (page ! j)) x" if "j < i" for j
    using covers_unique [OF assms(1) assms(2) _ assms(3), of j] that assms(2) by auto
  then have "find (\<lambda>p. covers (block st p) x) page = Some (page ! i)"
    unfolding find_Some_iff using assms(2,3) by blast
  then show ?thesis
    by (simp add: find_scan_def)
qed

lemma find_between_scan:
  assumes "page_sorted st page" "r \<le> length page"
    and "\<And>i. i < length page \<Longrightarrow> covers (block st (page ! i)) x \<Longrightarrow> l \<le> i \<and> i < r"
  shows "find_between al st page x l r = find_scan al st page x"
  using assms
proof (induction al st page x l r rule: find_between.induct)
  case (1 al st page x l r)
  let ?index = "(l + r) div 2"
  show ?case
  proof (cases "r \<le> l")
    case True
    then have "\<not> covers (block st p) x" if "p \<in> set page" for p
      using that 1(5) by (fastforce simp: in_set_conv_nth)
    then have "find (\<lambda>p. covers (block st p) x) page = None"
      by (simp add: find_None_iff)
    then show ?thesis
      using True by (simp add: find_between.simps find_scan_def)
  next
    case False
    then have idx: "l \<le> ?index" "?index < r" "?index < length page"
      using "1.prems"(2) by auto
    note sorted = page_sorted_nth [OF "1.prems"(1)] page_sorted_nonempty [OF "1.prems"(1)]
    consider (below) "x < x86_start (block st (page ! ?index))"
      | (above) "x86_end (block st (page ! ?index)) \<le> x"
      | (inside) "covers (block st (page ! ?index)) x"
      unfolding covers_def by (meson not_le)
    then show ?thesis
    proof cases
      case below
      have "i < ?index" if "i < length page" "covers (block st (page ! i)) x" for i
      proof (rule ccontr)
        assume "\<not> i < ?index"
        then have "?index = i \<or> x86_start (block st (page ! ?index)) \<le> x86_start (block st (page ! i))"
          using sorted(1) [of ?index i] sorted(2) [of ?index] idx that(1) by (force simp: not_less)
        then show False
          using below that(2) by (auto simp: covers_def)
      qed
      then show ?thesis
        using "1.IH"(1) [OF False refl refl below "1.prems"(1)] "1.prems"(3) idx below False
        by (simp add: find_between.simps [of al st page x l r] Let_def)
    next
      case above
      have "?index < i" if "i < length page" "covers (block st (page ! i)) x" for i
      proof (rule ccontr)
        assume "\<not> ?index < i"
        then have "?index = i \<or> x86_end (block st (page ! i)) \<le> x86_end (block st (page ! ?index))"
          using sorted(1) [of i ?index] sorted(2) [of ?index] idx that(1) by (force simp: not_less)
        then show False
          using above that(2) by (auto simp: covers_def)
      qed
      moreover have "\<not> x < x86_start (block st (page ! ?index))"
        using above sorted(2) [OF idx(3)] by auto
      ultimately show ?thesis
        using "1.IH"(2) [OF False refl refl _ above "1.prems"(1)] "1.prems"(2,3) idx above False
        by (simp add: find_between.simps [of al st page x l r] Let_def Suc_le_eq)
    next
      case inside
      then have "\<not> x < x86_start (block st (page ! ?index))"
        "\<not> x86_end (block st (page ! ?index)) \<le> x"
        by (simp_all add: covers_def not_less not_le)
      then show ?thesis
        using find_scan_nth [OF "1.prems"(1) idx(3) inside] False
        by (simp add: find_between.simps [of al st page x l r] Let_def)
    qed
  qed
qed

lemma find_between_correct:
  "page_sorted st page \<Longrightarrow> find_between al st page x 0 (length page) = find_scan al st page x"
  by (rule find_between_scan) simp_all

end
