(* ===== verification/CodeBatch.thy ===== *)
theory CodeBatch
  imports JumpTable
begin

text \<open>
  The two implementations of the interface \<^verbatim>\<open>CodeBatch\<close> (\<^verbatim>\<open>codegen/code_batch.{h,cpp}\<close>): the batch
  with its own bounded buffer, and the writer into the code store, which in stepping mode follows
  every instruction by a call of the debugger. Both fulfil the contract \<open>code_writer\<close>.
\<close>

section \<open>CodeBatchImpl\<close>

definition max_riscv_instructions :: nat where "max_riscv_instructions = 0xff"

record CodeBatchImpl =
  impl_riscv :: "u32 list"
  impl_count :: nat

definition CodeBatchImpl_ok :: "CodeBatchImpl \<Rightarrow> bool" where
  "CodeBatchImpl_ok b \<longleftrightarrow>
     length (impl_riscv b) = max_riscv_instructions \<and> impl_count b \<le> max_riscv_instructions"

definition CodeBatchImpl_contents :: "CodeBatchImpl \<Rightarrow> u32 list" where
  "CodeBatchImpl_contents b = take (impl_count b) (impl_riscv b)"

definition CodeBatchImpl_add :: "u32 \<Rightarrow> CodeBatchImpl \<Rightarrow> fault + (nat \<times> CodeBatchImpl)" where
  "CodeBatchImpl_add inst b =
    (if impl_count b \<ge> max_riscv_instructions then Inl Batch_overflow
     else Inr (impl_count b,
       b\<lparr>impl_riscv := (impl_riscv b)[impl_count b := inst], impl_count := impl_count b + 1\<rparr>))"

definition CodeBatchImpl_offset :: "nat \<Rightarrow> nat \<Rightarrow> u64" where
  "CodeBatchImpl_offset start end = of_nat end - of_nat start"

definition CodeBatchImpl_insert :: "nat \<Rightarrow> u32 \<Rightarrow> CodeBatchImpl \<Rightarrow> CodeBatchImpl" where
  "CodeBatchImpl_insert index inst b = b\<lparr>impl_riscv := (impl_riscv b)[index := inst]\<rparr>"

definition CodeBatchImpl_reset :: "CodeBatchImpl \<Rightarrow> CodeBatchImpl" where
  "CodeBatchImpl_reset b = b\<lparr>impl_count := 0\<rparr>"

text \<open>Appending without the index: the operator \<^verbatim>\<open>+=\<close> of the interface.\<close>

definition CodeBatchImpl_append :: "u32 \<Rightarrow> CodeBatchImpl \<Rightarrow> fault + CodeBatchImpl" where
  "CodeBatchImpl_append inst b = map_sum id snd (CodeBatchImpl_add inst b)"

lemma take_Suc_update: "k < length xs \<Longrightarrow> (take (Suc k) xs)[k := x] = take k xs @ [x]"
  by (simp add: take_Suc_conv_app_nth list_update_append)

interpretation batch_impl: code_writer CodeBatchImpl_append CodeBatchImpl_insert
  CodeBatchImpl_contents "\<lambda>b. max_riscv_instructions" CodeBatchImpl_ok
  by unfold_locales
    (auto simp: CodeBatchImpl_append_def CodeBatchImpl_add_def CodeBatchImpl_insert_def
      CodeBatchImpl_contents_def CodeBatchImpl_ok_def take_Suc_update take_update_swap)

text \<open>The abstract batch of the generators is refined by the bounded one.\<close>

definition CodeBatchImpl_abs :: "fault + CodeBatchImpl \<Rightarrow> batch" where
  "CodeBatchImpl_abs = map_sum id CodeBatchImpl_contents"

lemma CodeBatchImpl_add_refines:
  assumes "CodeBatchImpl_ok b" "impl_count b < max_riscv_instructions"
  shows "map_sum id (\<lambda>(i, b). (i, CodeBatchImpl_contents b)) (CodeBatchImpl_add inst b) =
      (case run_state (add inst) (Inr (CodeBatchImpl_contents b)) of (n, c) \<Rightarrow> map_sum id (Pair n) c)"
  using assms
  by (simp add: CodeBatchImpl_add_def CodeBatchImpl_contents_def CodeBatchImpl_ok_def
      take_Suc_update take_update_swap)

lemma CodeBatchImpl_reset_contents:
  "CodeBatchImpl_ok b \<Longrightarrow>
   CodeBatchImpl_ok (CodeBatchImpl_reset b) \<and> CodeBatchImpl_contents (CodeBatchImpl_reset b) = []"
  by (simp add: CodeBatchImpl_reset_def CodeBatchImpl_contents_def CodeBatchImpl_ok_def)

section \<open>CodeMemory\<close>

text \<open>
  \<open>cmem_code\<close> is the memory behind \<^verbatim>\<open>address\<close>. \<open>step\<close> is \<^verbatim>\<open>Debugger::step_riscv()\<close>; the call that
  \<^verbatim>\<open>jump_debugger_riscv\<close> adds in stepping mode is one instruction, written by the recursive \<^verbatim>\<open>add\<close>
  with \<^verbatim>\<open>_adding_jump\<close> set.
\<close>

record CodeMemory =
  cmem_code :: "u32 list"
  cmem_max_size :: nat
  cmem_count :: nat

definition CodeMemory_new :: "u32 list \<Rightarrow> nat \<Rightarrow> CodeMemory" where
  "CodeMemory_new code buffer_size =
     \<lparr>cmem_code = code, cmem_max_size = buffer_size, cmem_count = 0\<rparr>"

definition CodeMemory_put :: "u32 \<Rightarrow> CodeMemory \<Rightarrow> fault + CodeMemory" where
  "CodeMemory_put inst b =
    (if cmem_count b \<ge> cmem_max_size b then Inl Memory_overflow
     else Inr (b\<lparr>cmem_code := (cmem_code b)[cmem_count b := inst],
       cmem_count := cmem_count b + 1\<rparr>))"

definition CodeMemory_add :: "bool \<Rightarrow> u32 \<Rightarrow> CodeMemory \<Rightarrow> fault + (nat \<times> CodeMemory)" where
  "CodeMemory_add step inst b = (case CodeMemory_put inst b of
     Inl e \<Rightarrow> Inl e
   | Inr b \<Rightarrow>
      (if step then
         (case CodeMemory_put
            (JALR ra jump_table_address (Entry_debug_callback_riscv * 4)) b of
            Inl e \<Rightarrow> Inl e
          | Inr b \<Rightarrow> Inr (0, b))
       else Inr (0, b)))"

definition CodeMemory_offset :: "nat \<Rightarrow> nat \<Rightarrow> fault + u64" where
  "CodeMemory_offset start end = Inl Offset_unsupported"

definition CodeMemory_insert :: "nat \<Rightarrow> u32 \<Rightarrow> CodeMemory \<Rightarrow> CodeMemory" where
  "CodeMemory_insert index inst b = b\<lparr>cmem_code := (cmem_code b)[index := inst]\<rparr>"

definition CodeMemory_ok :: "CodeMemory \<Rightarrow> bool" where
  "CodeMemory_ok b \<longleftrightarrow>
     cmem_count b \<le> cmem_max_size b \<and> cmem_max_size b \<le> length (cmem_code b)"

definition CodeMemory_contents :: "CodeMemory \<Rightarrow> u32 list" where
  "CodeMemory_contents b = take (cmem_count b) (cmem_code b)"

definition CodeMemory_append :: "bool \<Rightarrow> u32 \<Rightarrow> CodeMemory \<Rightarrow> fault + CodeMemory" where
  "CodeMemory_append step inst b = map_sum id snd (CodeMemory_add step inst b)"

interpretation code_memory: code_writer "CodeMemory_append False"
  CodeMemory_insert CodeMemory_contents cmem_max_size CodeMemory_ok
  by unfold_locales
    (auto simp: CodeMemory_append_def CodeMemory_add_def CodeMemory_put_def CodeMemory_insert_def
      CodeMemory_contents_def CodeMemory_ok_def take_Suc_update take_update_swap)

text \<open>Every generator that only emits writes what the bounded batch holds afterwards.\<close>

lemma batch_impl_stores:
  assumes "CodeBatchImpl_ok b" "impl_count b + length is \<le> max_riscv_instructions"
  shows "\<exists>b'. batch_impl.write_all is b = Inr b' \<and> CodeBatchImpl_ok b' \<and>
    run_state (emits is) (Inr (CodeBatchImpl_contents b)) = ((), Inr (CodeBatchImpl_contents b'))"
  using batch_impl.write_all_fits [of b "is"] assms
  by (auto simp: CodeBatchImpl_contents_def CodeBatchImpl_ok_def)

end
