(* ===== verification/Codegen.thy ===== *)
theory Codegen
  imports FlagPrediction CodeStore CodeBatch
begin

text \<open>
  The code generator (\<^verbatim>\<open>codegen/codegen.{h,cpp}\<close>): translation of the basic block at an address,
  that is decoding up to the end of the block or the start of the next translated one, determining
  the flags that each instruction has to record, and generating and storing the code; and the
  patching of the jump at the end of a block once its target has been translated. The loops over
  instructions run as long as there is something to decode, so they are partial functions that are
  proved to return.
\<close>

section \<open>State\<close>

record CodeGenerator =
  cg_elf :: Elf
  cg_store :: CodeStore
  cg_call_table :: "CallEntry list"
  cg_depth :: nat

definition CodeGenerator_new :: "StoredArguments \<Rightarrow> Elf \<Rightarrow> CodeGenerator" where
  "CodeGenerator_new args elf =
     \<lparr>cg_elf = elf, cg_store = CodeStore_new args elf,
      cg_call_table = [\<lparr>ce_x86_address = 0, ce_riscv_address = 0\<rparr>],
      cg_depth = unat (flag_prediction_depth args)\<rparr>"

definition get_call_table :: "CodeGenerator \<Rightarrow> CallEntry list" where
  "get_call_table cg = cg_call_table cg"

text \<open>What the generator is given: the decoder, addresses of its own, and the allocators.\<close>

record environment =
  env_decode :: decoder
  env_host :: host
  env_al :: allocators

section \<open>Decoding a block\<close>

definition decode_instruction :: "environment \<Rightarrow> Elf \<Rightarrow> u64 \<Rightarrow> fault + (object \<times> u64)" where
  "decode_instruction env elf addr =
    (case decode_object (env_decode env) (env_host env) elf addr of
       None \<Rightarrow> Inl Failed_to_decode
     | Some ob \<Rightarrow> Inr (ob, addr + object_size ob))"

text \<open>
  The loop of \<^verbatim>\<open>translate\<close>: \<open>next_start\<close> is the start of the next translated block, if there is
  one. The result tells whether the decoding stopped there.
\<close>

partial_function (option) decode_block ::
  "environment \<Rightarrow> Elf \<Rightarrow> u64 option \<Rightarrow> object list \<Rightarrow> u64 \<Rightarrow> (fault + (object list \<times> u64 \<times> bool)) option"
where
  "decode_block env elf next_start insts addr =
    (if next_start = Some addr then
       Some (if insts = [] then Inl Find_must_have_failed else Inr (insts, addr, True))
     else case decode_instruction env elf addr of
       Inl e \<Rightarrow> Some (Inl e)
     | Inr (ob, addr) \<Rightarrow>
        (if get_eob (obj_inst ob) then Some (Inr (insts @ [ob], addr, False))
         else decode_block env elf next_start (insts @ [ob]) addr))"

section \<open>The flags of a block\<close>

definition set_object_update :: "u8 \<Rightarrow> object \<Rightarrow> object" where
  "set_object_update flags ob = ob\<lparr>obj_inst := set_update flags (obj_inst ob)\<rparr>"

definition requirements :: "environment \<Rightarrow> CodeGenerator \<Rightarrow> u8 \<Rightarrow> u64 \<Rightarrow> u8 option" where
  "requirements env cg unclear addr =
     recursive_flag_requirements (env_decode env) (env_host env) (cg_elf cg) unclear addr (cg_depth cg)"

text \<open>The last instruction of a block: the flags required before it, and the ones it updates.\<close>

definition last_requirements ::
  "environment \<Rightarrow> CodeGenerator \<Rightarrow> object \<Rightarrow> u64 \<Rightarrow> bool \<Rightarrow> (u8 \<times> object) option" where
  "last_requirements env cg ob addr next_block =
    (let branch = branch_address ob; unclear = flags_all AND NOT (object_update ob) in
     if branch \<noteq> 0 then
       if control_flow_dimension ob = 1 then
         Option.bind (requirements env cg unclear branch) (\<lambda>r.
           let required = r OR object_require ob in Some (required, set_object_update required ob))
       else if control_flow_dimension ob = 2 then
         Option.bind (requirements env cg unclear addr) (\<lambda>r.
         Option.bind (requirements env cg unclear branch) (\<lambda>r'.
           let required = (r OR r') OR object_require ob in
           Some (required, set_object_update required ob)))
       else Some (flags_all, set_object_update flags_all ob)
     else if next_block then
       Option.bind (requirements env cg flags_all addr) (\<lambda>r. Some (r, set_object_update r ob))
     else Some (flags_all, ob))"

definition flag_step ::
  "environment \<Rightarrow> CodeGenerator \<Rightarrow> u8 \<Rightarrow> object \<Rightarrow> (u8 \<times> object) option" where
  "flag_step env cg required ob =
    (let need_update = object_update ob AND required;
       required = (required XOR need_update) OR object_require ob;
       ob' = set_object_update need_update ob
     in
     if control_flow_dimension ob \<noteq> 0 then
       if branch_address ob \<noteq> 0 then
         Option.bind
           (requirements env cg (flags_all AND NOT (object_update ob AND required)) (branch_address ob))
           (\<lambda>r. Some (required OR r, ob'))
       else Some (flags_all, ob')
     else Some (required, ob'))"

text \<open>The pass over the other instructions, from the last one to the first one.\<close>

primrec flag_pass ::
  "environment \<Rightarrow> CodeGenerator \<Rightarrow> u8 \<Rightarrow> object list \<Rightarrow> (u8 \<times> object list) option" where
  "flag_pass env cg required [] = Some (required, [])"
| "flag_pass env cg required (ob # obs) =
    Option.bind (flag_step env cg required ob) (\<lambda>(required, ob').
    Option.bind (flag_pass env cg required obs) (\<lambda>(required, obs').
      Some (required, ob' # obs')))"

definition predict_flags ::
  "environment \<Rightarrow> CodeGenerator \<Rightarrow> object list \<Rightarrow> u64 \<Rightarrow> bool \<Rightarrow> object list option" where
  "predict_flags env cg insts addr next_block =
    Option.bind (last_requirements env cg (List.last insts) addr next_block) (\<lambda>(required, ob).
    Option.bind (flag_pass env cg required (rev (butlast insts))) (\<lambda>(required, obs).
      Some (rev obs @ [ob])))"

section \<open>Generating the code of a block\<close>

text \<open>
  The code of an instruction in a fresh batch, with the jump to the next block appended when \<open>link\<close>
  gives that block's address.
\<close>

definition instruction_code :: "object \<Rightarrow> u64 option \<Rightarrow> CallEntry list \<Rightarrow> CallEntry list gen" where
  "instruction_code ob link call_table = do {
     call_table \<leftarrow> generate ob call_table;
     (case link of
        None \<Rightarrow> skip
      | Some riscv \<Rightarrow> do {
          load_immediate riscv address_destination;
          emit (JALR zero address_destination 0)
        });
     ret call_table
   }"

text \<open>The batch that it is written to holds a bounded number of instructions.\<close>

definition run_batch :: "'a gen \<Rightarrow> fault + ('a \<times> u32 list)" where
  "run_batch g = (case run_state g (Inr []) of
     (v, Inl e) \<Rightarrow> Inl e
   | (v, Inr code) \<Rightarrow>
      (if length code > max_riscv_instructions then Inl Batch_overflow else Inr (v, code)))"

definition generate_instruction ::
  "environment \<Rightarrow> pointer \<Rightarrow> pointer option \<Rightarrow> object \<Rightarrow> CodeGenerator \<Rightarrow> fault + CodeGenerator" where
  "generate_instruction env p next_block ob cg =
    (let link = map_option (\<lambda>q. host_address (env_al env) (riscv_start (block (cg_store cg) q)))
           next_block in
     and_then (run_batch (instruction_code ob link (cg_call_table cg))) (\<lambda>(call_table, code).
     and_then (add_instruction (env_al env) p (inst_address (obj_inst ob))
         (of_nat (inst_size (obj_inst ob))) code (cg_store cg)) (\<lambda>st.
       Inr (cg\<lparr>cg_store := st, cg_call_table := call_table\<rparr>))))"

text \<open>Only the last instruction is linked.\<close>

primrec generate_block ::
  "environment \<Rightarrow> pointer \<Rightarrow> pointer option \<Rightarrow> object list \<Rightarrow> CodeGenerator \<Rightarrow> fault + CodeGenerator"
where
  "generate_block env p next_block [] cg = Inr cg"
| "generate_block env p next_block (ob # obs) cg =
     and_then (generate_instruction env p (if obs = [] then next_block else None) ob cg)
       (generate_block env p next_block obs)"

section \<open>Translation\<close>

definition executable_page :: "Elf \<Rightarrow> u64 \<Rightarrow> bool" where
  "executable_page elf addr \<longleftrightarrow>
     get_page_flags elf addr AND (PAGE_EXECUTE OR PAGE_READ) = PAGE_EXECUTE OR PAGE_READ"

text \<open>
  The result is the address of the code for a guest address; \<open>None\<close> would be a translation that
  does not return.
\<close>

definition store_block ::
  "environment \<Rightarrow> pointer option \<Rightarrow> object list \<Rightarrow> CodeGenerator \<Rightarrow> fault + (u64 \<times> CodeGenerator)" where
  "store_block env next_block insts cg =
     and_then (create_block (env_al env) (cg_store cg)) (\<lambda>(p, st).
     and_then (generate_block env p next_block insts (cg\<lparr>cg_store := st\<rparr>)) (\<lambda>cg.
       Inr (host_address (env_al env) (riscv_start (block (cg_store cg) p)), cg)))"

definition translate_new ::
  "environment \<Rightarrow> u64 \<Rightarrow> CodeGenerator \<Rightarrow> (fault + (u64 \<times> CodeGenerator)) option" where
  "translate_new env addr cg =
    (let next_block = get_next_block (cg_store cg) addr;
       next_start = map_option (\<lambda>q. x86_start (block (cg_store cg) q)) next_block
     in Option.bind (decode_block env (cg_elf cg) next_start [] addr) (\<lambda>r.
        case r of
          Inl e \<Rightarrow> Some (Inl e)
        | Inr (insts, addr, at_next) \<Rightarrow>
           Option.bind (predict_flags env cg insts addr at_next) (\<lambda>insts.
             Some (store_block env (if at_next then next_block else None) insts cg))))"

definition translate ::
  "environment \<Rightarrow> u64 \<Rightarrow> CodeGenerator \<Rightarrow> (fault + (u64 \<times> CodeGenerator)) option" where
  "translate env addr cg =
    (if \<not> executable_page (cg_elf cg) addr then Some (Inl Virtual_segmentation_fault)
     else case CodeStore_find (env_al env) (cg_store cg) addr of
       Inl e \<Rightarrow> Some (Inl e)
     | Inr riscv_code \<Rightarrow>
        (if riscv_code \<noteq> 0 then Some (Inr (riscv_code, cg)) else translate_new env addr cg))"

section \<open>Patching a block\<close>

text \<open>
  The jump that replaces the end of a block, which is the code of the longest \<^verbatim>\<open>load_immediate\<close> and a
  \<^verbatim>\<open>JALR\<close>, twice as long when the debugger steps through the code.
\<close>

definition patch_size :: "bool \<Rightarrow> nat" where
  "patch_size step = (if step then 17 else 9)"

definition patch_code :: "u64 \<Rightarrow> u64 \<Rightarrow> unit gen" where
  "patch_code start absolute_address =
    (let diff = absolute_address - start in
     if \<bar>sint diff\<bar> \<le> 0x7fffffff then
       let lo = diff AND 0xfff; hi = drop_bit 12 diff; hi = (if bit lo 11 then hi + 1 else hi) in do {
         emit (AUIPC address_destination (ucast hi));
         emit (JALR zero address_destination (ucast lo))
       }
     else do {
       load_immediate absolute_address address_destination;
       emit (JALR zero address_destination 0)
     })"

text \<open>\<open>code\<close> is the memory at the start of the patch.\<close>

primrec write_memory :: "bool \<Rightarrow> u32 list \<Rightarrow> CodeMemory \<Rightarrow> fault + CodeMemory" where
  "write_memory step [] b = Inr b"
| "write_memory step (i # is) b =
     and_then (CodeMemory_add step i b) (\<lambda>(n, b). write_memory step is b)"

definition patch_start :: "bool \<Rightarrow> u64 \<Rightarrow> u64" where
  "patch_start step addr = addr - of_nat (patch_size step * 4)"

definition update_basic_block :: "bool \<Rightarrow> u64 \<Rightarrow> u64 \<Rightarrow> u32 list \<Rightarrow> fault + CodeMemory" where
  "update_basic_block step addr absolute_address code =
    (case run_state (patch_code (patch_start step addr) absolute_address) (Inr []) of
       (_, Inl e) \<Rightarrow> Inl e
     | (_, Inr is) \<Rightarrow> write_memory step is (CodeMemory_new code (patch_size step)))"

section \<open>Translation returns\<close>

lemma decode_block_returns:
  assumes "decoder_ok (env_decode env)" "Elf_ok elf"
  shows "\<exists>r. decode_block env elf next_start insts addr = Some r"
proof (induction "bytes_left elf addr" arbitrary: insts addr rule: less_induct)
  case less
  show ?case
  proof (cases "decode_object (env_decode env) (env_host env) elf addr")
    case None
    then show ?thesis
      by (subst decode_block.simps) (simp add: decode_instruction_def)
  next
    case (Some ob)
    then show ?thesis
      using less [OF decode_object_advances [OF assms Some]]
      by (subst decode_block.simps) (simp add: decode_instruction_def)
  qed
qed

lemma requirements_returns:
  assumes "decoder_ok (env_decode env)" "Elf_ok (cg_elf cg)"
  shows "\<exists>r. requirements env cg unclear addr = Some r"
  using recursive_flag_requirements_returns [OF assms] by (simp add: requirements_def)

lemma flag_step_returns:
  assumes "decoder_ok (env_decode env)" "Elf_ok (cg_elf cg)"
  shows "\<exists>q ob'. flag_step env cg required ob = Some (q, ob')"
  using requirements_returns [OF assms]
  by (auto simp: flag_step_def Let_def bind_eq_Some_conv; metis)

lemma flag_pass_returns:
  assumes "decoder_ok (env_decode env)" "Elf_ok (cg_elf cg)"
  shows "\<exists>q obs'. flag_pass env cg required obs = Some (q, obs')"
proof (induction obs arbitrary: required)
  case (Cons ob obs)
  obtain q ob' where step: "flag_step env cg required ob = Some (q, ob')"
    using flag_step_returns [OF assms] by blast
  obtain q' obs' where "flag_pass env cg q obs = Some (q', obs')"
    using Cons by blast
  then show ?case
    using step by simp
qed simp

lemma last_requirements_returns:
  assumes "decoder_ok (env_decode env)" "Elf_ok (cg_elf cg)"
  shows "\<exists>q ob'. last_requirements env cg ob addr at_next = Some (q, ob')"
  using requirements_returns [OF assms]
  by (auto simp: last_requirements_def Let_def bind_eq_Some_conv; metis)

lemma predict_flags_returns:
  assumes "decoder_ok (env_decode env)" "Elf_ok (cg_elf cg)"
  shows "\<exists>obs. predict_flags env cg insts addr at_next = Some obs"
proof -
  obtain q ob' where l: "last_requirements env cg (List.last insts) addr at_next = Some (q, ob')"
    using last_requirements_returns [OF assms] by blast
  obtain q' obs' where "flag_pass env cg q (rev (butlast insts)) = Some (q', obs')"
    using flag_pass_returns [OF assms] by blast
  then show ?thesis
    using l by (simp add: predict_flags_def)
qed

lemma translate_returns:
  assumes "decoder_ok (env_decode env)" "Elf_ok (cg_elf cg)"
  shows "\<exists>r. translate env addr cg = Some r"
proof -
  have "\<exists>r. translate_new env addr cg = Some r"
  proof -
    let ?next = "map_option (\<lambda>q. x86_start (block (cg_store cg) q)) (get_next_block (cg_store cg) addr)"
    obtain d where d: "decode_block env (cg_elf cg) ?next [] addr = Some d"
      using decode_block_returns [OF assms] by blast
    show ?thesis
    proof (cases d)
      case (Inl e)
      then show ?thesis
        using d by (simp add: translate_new_def)
    next
      case (Inr b)
      obtain insts addr' at_next where b: "b = (insts, addr', at_next)"
        by (cases b)
      obtain obs where "predict_flags env cg insts addr' at_next = Some obs"
        using predict_flags_returns [OF assms] by blast
      then show ?thesis
        using d Inr b by (simp add: translate_new_def)
    qed
  qed
  then show ?thesis
    by (auto simp: translate_def split: sum.splits)
qed

end
