(* ===== verification/FlagEval.thy ===== *)
theory FlagEval
  imports FlagCode
begin

text \<open>
  What the recorded flags mean. \<open>zero_flag\<close>, \<open>sign_flag\<close>, \<open>parity_flag\<close>, \<open>carry_flag\<close> and
  \<open>overflow_flag\<close> read the status flags of the x86 machine off the execution context: the abstract
  state the lazy representation stands for. The lemmas on routines say what each entry of the jump
  table computes from the recorded values; those on updates, which abstract flags an update leaves;
  those on evaluations, that the generated code yields the abstract flag.
\<close>

section \<open>Sizes and signed values\<close>

definition size_index :: "nat \<Rightarrow> u16" where
  "size_index sz = (if sz = 8 then 3 else if sz = 4 then 2 else if sz = 2 then 1 else 0)"

definition valid_size :: "nat \<Rightarrow> bool" where
  "valid_size sz \<longleftrightarrow> sz \<in> {1, 2, 4, 8}"

lemma valid_size_cases:
  assumes "valid_size sz"
  obtains "sz = 1" | "sz = 2" | "sz = 4" | "sz = 8"
  using assms by (auto simp: valid_size_def)

definition uval :: "nat \<Rightarrow> u64 \<Rightarrow> int" where
  "uval sz v = take_bit (8 * sz) (uint v)"

definition sval :: "nat \<Rightarrow> u64 \<Rightarrow> int" where
  "sval sz v = sint (signed_take_bit (8 * sz - 1) v)"

definition sfits :: "nat \<Rightarrow> int \<Rightarrow> bool" where
  "sfits sz k \<longleftrightarrow> - (2 ^ (8 * sz - 1)) \<le> k \<and> k < 2 ^ (8 * sz - 1)"

definition carry_value :: "nat \<Rightarrow> nat \<Rightarrow> rv_state \<Rightarrow> u64" where
  "carry_value sz k s = load sz (rget s11 s + of_nat (carry_values_offset + 8 * k)) s"

definition overflow_value :: "nat \<Rightarrow> nat \<Rightarrow> rv_state \<Rightarrow> u64" where
  "overflow_value sz k s = load sz (rget s11 s + of_nat (overflow_values_offset + 8 * k)) s"

lemmas routine_simps = routine_def Entry_defs size_index_def routine_defs rv_simps
  carry_value_def overflow_value_def flag_offsets

lemma carry_add_routine:
  assumes "valid_size sz"
  shows "\<exists>t. routine (Entry_carry_add + size_index sz) s = Some t \<and>
    rget t4 t = of_bool (carry_value sz 1 s < carry_value sz 0 s) \<and> keeps {t4, t5, t6} s t"
  by (rule valid_size_cases [OF assms]; simp add: routine_simps word_gt_0 not_less)

lemma signed_take_bit_63 [simp]: "signed_take_bit 63 (v :: u64) = v"
proof (rule bit_word_eqI)
  fix n assume "n < LENGTH(64)"
  then show "bit (signed_take_bit 63 v) n = bit v n"
    by (cases "n = 63") (auto simp: bit_simps min_def)
qed

lemma sint_word_of_int64:
  "- (2 ^ 63) \<le> k \<Longrightarrow> k < 2 ^ 63 \<Longrightarrow> sint (word_of_int k :: u64) = k"
  by (simp add: sint_sbintrunc' signed_take_bit_int_eq_self)

lemma sint_range64: "- (2 ^ 63) \<le> sint (x :: u64)" "sint (x :: u64) < 2 ^ 63"
  using sint_ge [of x] sint_lt [of x] by simp_all

lemma sint_signed_take:
  assumes "n < 63"
  shows "- (2 ^ n) \<le> sint (signed_take_bit n (v :: u64))" "sint (signed_take_bit n (v :: u64)) < 2 ^ n"
    "sint (signed_take_bit n (v :: u64)) = signed_take_bit n (sint v)"
proof -
  show eq: "sint (signed_take_bit n v) = signed_take_bit n (sint v)"
    by (rule bit_eqI) (use assms in \<open>auto simp: bit_simps min_def bit_sint_iff\<close>)
  show "- (2 ^ n) \<le> sint (signed_take_bit n (v :: u64))" "sint (signed_take_bit n (v :: u64)) < 2 ^ n"
    unfolding eq using signed_take_bit_int_greater_eq_minus_exp signed_take_bit_int_less_exp
    by blast+
qed

lemma sext32_word_of_int:
  "sext32 (word_of_int k) = word_of_int (signed_take_bit 31 k)"
  by (rule bit_word_eqI) (auto simp: sext32_def bit_simps min_def)

lemma narrow_core:
  assumes "- (2 ^ 62) \<le> k" "k < 2 ^ 62"
  shows "0 < word_of_int k - sext32 (word_of_int k) \<longleftrightarrow> \<not> (- (2 ^ 31) \<le> k \<and> k < 2 ^ 31)"
proof -
  have b: "- (2 ^ 31) \<le> signed_take_bit 31 k" "signed_take_bit 31 k < 2 ^ 31"
    using signed_take_bit_int_greater_eq_minus_exp [of 31 k] signed_take_bit_int_less_exp [of 31 k]
    by simp_all
  have "0 < word_of_int k - sext32 (word_of_int k) \<longleftrightarrow>
      (word_of_int k :: u64) \<noteq> word_of_int (signed_take_bit 31 k)"
    by (simp add: word_gt_0 sext32_word_of_int)
  also have "\<dots> \<longleftrightarrow> k \<noteq> signed_take_bit 31 k"
  proof -
    have "sint (word_of_int k :: u64) = k" "sint (word_of_int (signed_take_bit 31 k) :: u64) = signed_take_bit 31 k"
      using assms b by (simp_all add: sint_word_of_int64)
    then show ?thesis by metis
  qed
  also have "\<dots> \<longleftrightarrow> \<not> (- (2 ^ 31) \<le> k \<and> k < 2 ^ 31)"
    using b by (metis signed_take_bit_int_eq_self)
  finally show ?thesis .
qed

lemma sint_add_cases:
  "sint (x + y :: u64) = sint x + sint y \<or>
   (2 ^ 63 \<le> sint x + sint y \<and> sint (x + y) = sint x + sint y - 2 ^ 64) \<or>
   (sint x + sint y < - (2 ^ 63) \<and> sint (x + y) = sint x + sint y + 2 ^ 64)"
proof -
  note r = sint_range64 [of x] sint_range64 [of y] sint_range64 [of "x + y"]
  have "word_of_int (sint x + sint y) = x + y" by simp
  then have *: "sint (x + y) = k" if "- (2 ^ 63) \<le> k" "k < 2 ^ 63" "word_of_int k = x + y" for k
    using that sint_word_of_int64 [of k] by simp
  consider "- (2 ^ 63) \<le> sint x + sint y" "sint x + sint y < 2 ^ 63"
    | "2 ^ 63 \<le> sint x + sint y" | "sint x + sint y < - (2 ^ 63)"
    by linarith
  then show ?thesis
  proof cases
    case 1
    then show ?thesis using * [of "sint x + sint y"] by simp
  next
    case 2
    then show ?thesis using r * [of "sint x + sint y - 2 ^ 64"] by simp
  next
    case 3
    then show ?thesis using r * [of "sint x + sint y + 2 ^ 64"] by simp
  qed
qed

lemma carry_adc_routine:
  assumes "valid_size sz"
  shows "\<exists>t. routine (Entry_carry_adc + size_index sz) s = Some t \<and>
    rget t4 t = of_bool (carry_value sz 1 s \<le> carry_value sz 0 s) \<and> keeps {t4, t5, t6} s t"
  by (rule valid_size_cases [OF assms]; simp add: routine_simps linorder_not_less [symmetric])
lemma carry_neg_routine:
  assumes "valid_size sz"
  shows "\<exists>t. routine (Entry_carry_neg + size_index sz) s = Some t \<and>
    rget t4 t = of_bool (carry_value sz 0 s \<noteq> 0) \<and> keeps {t4, t5, t6} s t"
  by (rule valid_size_cases [OF assms]; simp add: routine_simps word_gt_0 not_less)

lemma narrow_scaled:
  assumes "k \<le> 31" "- (2 ^ (32 - k)) - 2 \<le> S" "S \<le> 2 ^ (32 - k) + 2" "w = word_of_int (S * 2 ^ k)"
  shows "0 < w - sext32 w \<longleftrightarrow> \<not> (- (2 ^ (31 - k)) \<le> S \<and> S < 2 ^ (31 - k))"
proof -
  have two: "(2 :: int) ^ (31 - k) * 2 ^ k = 2 ^ 31" "(2 :: int) ^ (32 - k) * 2 ^ k = 2 ^ 32"
    using assms(1) by (simp_all add: power_add [symmetric])
  have le: "(2 :: int) ^ k \<le> 2 ^ 31"
    using assms(1) by (intro power_increasing) auto
  have "(- (2 ^ (32 - k)) - 2) * 2 ^ k \<le> S * 2 ^ k" "S * 2 ^ k \<le> (2 ^ (32 - k) + 2) * 2 ^ k"
    using assms(2,3) by (intro mult_right_mono; simp)+
  then have "- (2 ^ 62) \<le> S * 2 ^ k" "S * 2 ^ k < 2 ^ 62"
    using le by (simp_all add: distrib_right left_diff_distrib two)
  then have "0 < w - sext32 w \<longleftrightarrow> \<not> (- (2 ^ 31) \<le> S * 2 ^ k \<and> S * 2 ^ k < 2 ^ 31)"
    unfolding assms(4) by (rule narrow_core)
  also have "- (2 ^ 31) \<le> S * 2 ^ k \<longleftrightarrow> - (2 ^ (31 - k)) \<le> S"
    unfolding two(1) [symmetric] minus_mult_left by (rule mult_le_cancel_right_pos) simp
  also have "S * 2 ^ k < 2 ^ 31 \<longleftrightarrow> S < 2 ^ (31 - k)"
    unfolding two(1) [symmetric] by (rule mult_less_cancel_right_pos) simp
  finally show ?thesis .
qed

text \<open>The routines for at most 32 bits do the operation on the values shifted to the top of a word.\<close>

lemma narrow_add:
  assumes "k \<le> 31" "- (2 ^ (31 - k)) \<le> sint x" "sint x < 2 ^ (31 - k)"
    "- (2 ^ (31 - k)) \<le> sint y" "sint y < 2 ^ (31 - k)"
  shows "0 < push_bit k x + push_bit k y - sext32 (push_bit k x + push_bit k y) \<longleftrightarrow>
      \<not> (- (2 ^ (31 - k)) \<le> sint x + sint y \<and> sint x + sint y < 2 ^ (31 - k))"
    and "0 < push_bit k x + push_bit k (y + 1) - sext32 (push_bit k x + push_bit k (y + 1)) \<longleftrightarrow>
      \<not> (- (2 ^ (31 - k)) \<le> sint x + sint y + 1 \<and> sint x + sint y + 1 < 2 ^ (31 - k))"
    and "0 < push_bit k y - push_bit k x - sext32 (push_bit k y - push_bit k x) \<longleftrightarrow>
      \<not> (- (2 ^ (31 - k)) \<le> sint y - sint x \<and> sint y - sint x < 2 ^ (31 - k))"
proof -
  have d: "(2 :: int) ^ (32 - k) = 2 * 2 ^ (31 - k)"
    using assms(1) by (simp add: Suc_diff_le numeral_eq_Suc)
  show "0 < push_bit k x + push_bit k y - sext32 (push_bit k x + push_bit k y) \<longleftrightarrow>
      \<not> (- (2 ^ (31 - k)) \<le> sint x + sint y \<and> sint x + sint y < 2 ^ (31 - k))"
    by (rule narrow_scaled [OF assms(1)]) (use assms d in \<open>simp_all add: push_bit_eq_mult distrib_right\<close>)
  show "0 < push_bit k x + push_bit k (y + 1) - sext32 (push_bit k x + push_bit k (y + 1)) \<longleftrightarrow>
      \<not> (- (2 ^ (31 - k)) \<le> sint x + sint y + 1 \<and> sint x + sint y + 1 < 2 ^ (31 - k))"
    by (rule narrow_scaled [OF assms(1)]) (use assms d in \<open>simp_all add: push_bit_eq_mult algebra_simps\<close>)
  show "0 < push_bit k y - push_bit k x - sext32 (push_bit k y - push_bit k x) \<longleftrightarrow>
      \<not> (- (2 ^ (31 - k)) \<le> sint y - sint x \<and> sint y - sint x < 2 ^ (31 - k))"
    by (rule narrow_scaled [OF assms(1)]) (use assms d in \<open>simp_all add: push_bit_eq_mult left_diff_distrib\<close>)
qed

lemmas narrow_8 = narrow_add [where k = 24, simplified]
lemmas narrow_16 = narrow_add [where k = 16, simplified]
lemmas narrow_32 = narrow_add [where k = 0, simplified]

lemma wide_add:
  "(0 < of_bool (sint x < 0) - (of_bool (sint (y + x) < sint y) :: u64)) \<longleftrightarrow>
    \<not> (- (2 ^ 63) \<le> sint (x :: u64) + sint y \<and> sint x + sint y < 2 ^ 63)"
  using sint_add_cases [of y x] sint_range64 [of x] sint_range64 [of y] sint_range64 [of "y + x"]
  by (cases "sint x < 0"; cases "sint (y + x) < sint y") (auto simp: word_gt_0)

lemma wide_sub:
  "(0 < of_bool (sint x < 0) - (of_bool (sint y < sint (y - x)) :: u64)) \<longleftrightarrow>
    \<not> (- (2 ^ 63) \<le> sint y - sint (x :: u64) \<and> sint y - sint x < 2 ^ 63)"
  using sint_add_cases [of "y - x" x] sint_range64 [of x] sint_range64 [of y]
    sint_range64 [of "y - x"]
  by (cases "sint x < 0"; cases "sint y < sint (y - x)") (auto simp: word_gt_0)

lemma drop_bit_63: "drop_bit 63 (x :: u64) = of_bool (sint x < 0)"
proof -
  have "bit x 63 \<longleftrightarrow> sint x < 0"
    using bit_last_iff [of x] by simp
  moreover have "drop_bit 63 x = of_bool (bit x 63)"
  proof (rule bit_word_eqI)
    fix n assume "n < LENGTH(64)"
    show "bit (drop_bit 63 x) n = bit (of_bool (bit x 63) :: u64) n"
      by (cases "n = 0") (auto simp: bit_simps dest: bit_imp_le_length)
  qed
  ultimately show ?thesis by simp
qed

lemma wide_adc:
  "of_bool (sint (y + x + 1) < 0) XOR of_bool (sint (x :: u64) < 0) =
     (of_bool (\<not> (- (2 ^ 63) \<le> sint x + sint y + 1 \<and> sint x + sint y + 1 < 2 ^ 63)) :: u64)"
  if "(sint x < 0) = (sint (y :: u64) < 0)"
proof -
  have "sint (1 :: u64) = 1" by simp
  then have "sint (y + x + 1) = sint y + sint x + 1 \<or>
      (2 ^ 63 \<le> sint x + sint y + 1 \<and> sint (y + x + 1) = sint x + sint y + 1 - 2 ^ 64) \<or>
      (sint x + sint y + 1 < - (2 ^ 63) \<and> sint (y + x + 1) = sint x + sint y + 1 + 2 ^ 64)"
    using sint_add_cases [of y x] sint_add_cases [of "y + x" 1] sint_range64 [of x]
      sint_range64 [of y] sint_range64 [of "y + x + 1"] by (elim disjE) simp_all
  then show ?thesis
    using that sint_range64 [of x] sint_range64 [of y] sint_range64 [of "y + x + 1"]
    by (cases "sint x < 0"; cases "sint (y + x + 1) < 0") auto
qed

lemma sint_minus_one_wraps: "sint w < sint (w - 1) \<longleftrightarrow> sint (w :: u64) = - (2 ^ 63)"
  using sint_add_cases [of w "- 1"] sint_range64 [of w] sint_range64 [of "w - 1"] by auto

lemma sint_plus_one_wraps: "sint (w + 1) < sint w \<longleftrightarrow> sint (w :: u64) = 2 ^ 63 - 1"
  using sint_add_cases [of w 1] sint_range64 [of w] sint_range64 [of "w + 1"] by auto

lemma sint_push_bit:
  assumes "k \<le> 62"
  shows "sint (push_bit k (v :: u64)) = sint (signed_take_bit (63 - k) v) * 2 ^ k"
proof (rule bit_eqI)
  fix i
  show "bit (sint (push_bit k v)) i = bit (sint (signed_take_bit (63 - k) v) * 2 ^ k) i"
    using assms
    by (auto simp: push_bit_eq_mult [symmetric] bit_simps bit_sint_iff min_def not_le)
qed

lemma signed_take_bit_plus_one:
  "signed_take_bit m (k + 1) = - (2 ^ m) \<longleftrightarrow> signed_take_bit m k = (2 :: int) ^ m - 1"
proof -
  let ?a = "signed_take_bit m k"
  have r: "- (2 ^ m) \<le> ?a" "?a < 2 ^ m"
    by (simp_all add: signed_take_bit_int_greater_eq_minus_exp signed_take_bit_int_less_exp)
  have "signed_take_bit m (k + 1) = signed_take_bit m (?a + 1)"
    by (metis signed_take_bit_add signed_take_bit_signed_take_bit min.idem)
  moreover have "signed_take_bit m (?a + 1) = ?a + 1" if "?a + 1 < 2 ^ m"
    using that r by (intro signed_take_bit_int_eq_self) linarith+
  moreover have "signed_take_bit m (2 ^ m :: int) = - (2 ^ m)"
    by (simp add: signed_take_bit_def take_bit_eq_mod bit_exp_iff mask_eq_exp_minus_1 not_int_def)
  ultimately show ?thesis
  proof (cases "?a + 1 < 2 ^ m")
    case True
    then show ?thesis
      using \<open>signed_take_bit m (k + 1) = signed_take_bit m (?a + 1)\<close>
        \<open>?a + 1 < 2 ^ m \<Longrightarrow> signed_take_bit m (?a + 1) = ?a + 1\<close> r by linarith
  next
    case False
    then have "?a + 1 = 2 ^ m"
      using r by linarith
    then show ?thesis
      using \<open>signed_take_bit m (k + 1) = signed_take_bit m (?a + 1)\<close>
        \<open>signed_take_bit m (2 ^ m :: int) = - (2 ^ m)\<close> by simp
  qed
qed

lemma narrow_dec:
  fixes v :: u64
  assumes "k \<le> 62" "k > 0" "m = 63 - k"
  shows "sint (push_bit k v) = - (2 ^ 63) \<longleftrightarrow>
      \<not> (- (2 ^ m) \<le> sint (signed_take_bit m v) - 1 \<and> sint (signed_take_bit m v) - 1 < 2 ^ m)"
    and "sint (push_bit k (v + 1)) = - (2 ^ 63) \<longleftrightarrow>
      \<not> (- (2 ^ m) \<le> sint (signed_take_bit m v) + 1 \<and> sint (signed_take_bit m v) + 1 < 2 ^ m)"
proof -
  have m: "m < 63" "(2 :: int) ^ 63 = 2 ^ m * 2 ^ k" "2 ^ m \<noteq> (0 :: int)"
    using assms by (simp_all add: power_add [symmetric])
  note r = sint_signed_take [OF m(1), of v]
  have eq: "sint (push_bit k w) = - (2 ^ 63) \<longleftrightarrow> sint (signed_take_bit m w) = - (2 ^ m)" for w :: u64
    unfolding sint_push_bit [OF assms(1)] m(2) assms(3) [symmetric] minus_mult_left
    by (rule mult_cancel_right [THEN trans]) simp
  have "sint (signed_take_bit m (v + 1)) = signed_take_bit m (sint v + 1)"
    using m(1) by (simp add: sint_signed_take(3) signed_take_bit_eq_iff_take_bit_eq sint_word_add
        take_bit_signed_take_bit)
  then have plus: "sint (signed_take_bit m (v + 1)) = - (2 ^ m) \<longleftrightarrow> sint (signed_take_bit m v) = 2 ^ m - 1"
    using signed_take_bit_plus_one [of m "sint v"] r(3) by simp
  show "sint (push_bit k v) = - (2 ^ 63) \<longleftrightarrow>
      \<not> (- (2 ^ m) \<le> sint (signed_take_bit m v) - 1 \<and> sint (signed_take_bit m v) - 1 < 2 ^ m)"
    unfolding eq using r(1,2) by linarith
  show "sint (push_bit k (v + 1)) = - (2 ^ 63) \<longleftrightarrow>
      \<not> (- (2 ^ m) \<le> sint (signed_take_bit m v) + 1 \<and> sint (signed_take_bit m v) + 1 < 2 ^ m)"
    unfolding eq plus using r(1,2) by linarith
qed

lemma wide_inc:
  "sint (x :: u64) = 2 ^ 63 - 1 \<longleftrightarrow> \<not> (- (2 ^ 63) \<le> sint x + 1 \<and> sint x + 1 < 2 ^ 63)"
  "sint (x :: u64) = - (2 ^ 63) \<longleftrightarrow> \<not> (- (2 ^ 63) \<le> sint x - 1 \<and> sint x - 1 < 2 ^ 63)"
  using sint_range64 [of x] by linarith+

lemmas narrow_decs =
  narrow_dec(1) [where k = 56 and m = 7, simplified]
  narrow_dec(1) [where k = 48 and m = 15, simplified]
  narrow_dec(1) [where k = 32 and m = 31, simplified]

lemmas narrow_incs =
  narrow_dec(2) [where k = 56 and m = 7, simplified]
  narrow_dec(2) [where k = 48 and m = 15, simplified]
  narrow_dec(2) [where k = 32 and m = 31, simplified]

lemmas sint_signed_take_8 = sint_signed_take(1,2) [of 7, simplified]
lemmas sint_signed_take_16 = sint_signed_take(1,2) [of 15, simplified]
lemmas sint_signed_take_32 = sint_signed_take(1,2) [of 31, simplified]

lemmas overflow_simps = routine_simps sval_def sfits_def sint_signed_take_8 sint_signed_take_16
  sint_signed_take_32 narrow_8 narrow_16 narrow_32
  wide_add wide_sub sint_minus_one_wraps sint_plus_one_wraps

lemma overflow_add_routine:
  assumes "valid_size sz"
  shows "\<exists>t. routine (Entry_overflow_add + size_index sz) s = Some t \<and>
    rget t4 t = of_bool (\<not> sfits sz (sval sz (overflow_value sz 0 s) + sval sz (overflow_value sz 1 s))) \<and>
    keeps {t4, t5, t6} s t"
  by (rule valid_size_cases [OF assms]; simp add: overflow_simps split del: split_of_bool)

lemma overflow_adc_routine:
  assumes "valid_size sz"
  shows "\<exists>t. routine (Entry_overflow_adc + size_index sz) s = Some t \<and>
    rget t4 t = of_bool (\<not> sfits sz (sval sz (overflow_value sz 0 s) + sval sz (overflow_value sz 1 s) + 1)) \<and>
    keeps {t4, t5, t6} s t"
proof (rule valid_size_cases [OF assms])
  assume sz: "sz = 8"
  let ?x = "sint (overflow_value 8 0 s)" and ?y = "sint (overflow_value 8 1 s)"
  show ?thesis
  proof (cases "(?x < 0) = (?y < 0)")
    case True
    then show ?thesis
      using wide_adc [OF True]
      by (simp add: sz overflow_simps drop_bit_63 split del: split_of_bool)
  next
    case False
    then show ?thesis
      using sint_range64 [of "overflow_value 8 0 s"] sint_range64 [of "overflow_value 8 1 s"]
      by (auto simp: sz overflow_simps drop_bit_63 split del: split_of_bool)
  qed
qed (simp_all add: overflow_simps split del: split_of_bool)

lemma overflow_sub_routine:
  assumes "valid_size sz"
  shows "\<exists>t. routine (Entry_overflow_sub + size_index sz) s = Some t \<and>
    rget t4 t = of_bool (\<not> sfits sz (sval sz (overflow_value sz 1 s) - sval sz (overflow_value sz 0 s))) \<and>
    keeps {t4, t5, t6} s t"
  by (rule valid_size_cases [OF assms]; simp add: overflow_simps split del: split_of_bool)

lemma overflow_add_pos_routine:
  assumes "valid_size sz"
  shows "\<exists>t. routine (Entry_overflow_add_pos + size_index sz) s = Some t \<and>
    rget t4 t = of_bool (sval sz (overflow_value sz 1 s) < sval sz (overflow_value sz 0 s)) \<and>
    keeps {t4, t5, t6} s t"
  by (rule valid_size_cases [OF assms]; simp add: overflow_simps split del: split_of_bool)

lemma overflow_add_neg_routine:
  assumes "valid_size sz"
  shows "\<exists>t. routine (Entry_overflow_add_neg + size_index sz) s = Some t \<and>
    rget t4 t = of_bool (sval sz (overflow_value sz 0 s) < sval sz (overflow_value sz 1 s)) \<and>
    keeps {t4, t5, t6} s t"
  by (rule valid_size_cases [OF assms]; simp add: overflow_simps split del: split_of_bool)

lemma overflow_inc_routine:
  assumes "valid_size sz"
  shows "\<exists>t. routine (Entry_overflow_inc + size_index sz) s = Some t \<and>
    rget t4 t = of_bool (\<not> sfits sz (sval sz (overflow_value sz 0 s) + 1)) \<and>
    keeps {t4, t5, t6} s t"
  by (rule valid_size_cases [OF assms];
    simp add: overflow_simps narrow_incs wide_inc(1) [where x = "load 8 (rget s11 s + 528) s", simplified]
    split del: split_of_bool)

lemma overflow_dec_routine:
  assumes "valid_size sz"
  shows "\<exists>t. routine (Entry_overflow_dec + size_index sz) s = Some t \<and>
    rget t4 t = of_bool (\<not> sfits sz (sval sz (overflow_value sz 0 s) - 1)) \<and>
    keeps {t4, t5, t6} s t"
  by (rule valid_size_cases [OF assms];
    simp add: overflow_simps narrow_decs wide_inc(2) [where x = "load 8 (rget s11 s + 528) s", simplified]
    split del: split_of_bool)

section \<open>Code that calls the routines\<close>

text \<open>
  \<open>achieves env g P s\<close>: the generator \<open>g\<close> appends code that, wherever it stands in a block, runs from
  \<open>s\<close> to its end in a state satisfying \<open>P\<close>, calls included. The link register depends on the address
  of the block, hence a predicate rather than a state.
\<close>

definition passes :: "rv_env \<Rightarrow> u32 list \<Rightarrow> (rv_state \<Rightarrow> bool) \<Rightarrow> rv_state \<Rightarrow> bool" where
  "passes env code P s \<longleftrightarrow> (\<forall>base pre post. \<exists>n t. P t \<and> (\<forall>fuel.
     rv_run env base (pre @ code @ post) (n + fuel) (length pre) s =
     rv_run env base (pre @ code @ post) fuel (length pre + length code) t))"

definition achieves :: "rv_env \<Rightarrow> (unit gen) \<Rightarrow> (rv_state \<Rightarrow> bool) \<Rightarrow> rv_state \<Rightarrow> bool" where
  "achieves env g P s \<longleftrightarrow>
     (\<exists>code. (\<forall>c. run_state g (Inr c) = ((), Inr (c @ code))) \<and> passes env code P s)"

lemma passes_append:
  assumes "passes env c1 (passes env c2 P) s"
  shows "passes env (c1 @ c2) P s"
  unfolding passes_def
proof (intro allI)
  fix base pre post
  obtain n t where t: "passes env c2 P t" "\<forall>fuel.
      rv_run env base (pre @ c1 @ c2 @ post) (n + fuel) (length pre) s =
      rv_run env base (pre @ c1 @ c2 @ post) fuel (length pre + length c1) t"
    using assms unfolding passes_def [of env c1] by metis
  obtain m u where u: "P u" "\<forall>fuel.
      rv_run env base ((pre @ c1) @ c2 @ post) (m + fuel) (length (pre @ c1)) t =
      rv_run env base ((pre @ c1) @ c2 @ post) fuel (length (pre @ c1) + length c2) u"
    using t(1) unfolding passes_def by metis
  show "\<exists>n t. P t \<and> (\<forall>fuel. rv_run env base (pre @ (c1 @ c2) @ post) (n + fuel) (length pre) s =
      rv_run env base (pre @ (c1 @ c2) @ post) fuel (length pre + length (c1 @ c2)) t)"
    by (rule exI [of _ "n + m"], rule exI [of _ u]) (use t u in \<open>simp add: add.assoc\<close>)
qed

lemma passes_mono: "passes env code P s \<Longrightarrow> (\<And>t. P t \<Longrightarrow> Q t) \<Longrightarrow> passes env code Q s"
  unfolding passes_def by meson

lemma achieves_mono: "achieves env g P s \<Longrightarrow> (\<And>t. P t \<Longrightarrow> Q t) \<Longrightarrow> achieves env g Q s"
  unfolding achieves_def using passes_mono by metis

lemma achieves_runs:
  assumes "runs g s t" "P t"
  shows "achieves env g P s"
proof -
  obtain code where code: "\<forall>c. run_state g (Inr c) = ((), Inr (c @ code))" "rv_straight code s = Some t"
    using assms(1) by (auto simp: runs_iff)
  have "passes env code P s"
    unfolding passes_def using rv_run_straight [OF code(2)] assms(2) by blast
  then show ?thesis
    unfolding achieves_def using code(1) by blast
qed

lemma achieves_comp:
  assumes "achieves env g Q s" "\<And>t. Q t \<Longrightarrow> achieves env h P t"
    "\<exists>code. \<forall>c. run_state h (Inr c) = ((), Inr (c @ code))"
  shows "achieves env (g \<then> h) P s"
proof -
  obtain c1 where c1: "\<forall>c. run_state g (Inr c) = ((), Inr (c @ c1))" "passes env c1 Q s"
    using assms(1) by (auto simp: achieves_def)
  obtain c2 where c2: "\<forall>c. run_state h (Inr c) = ((), Inr (c @ c2))"
    using assms(3) by auto
  have "passes env c2 P t" if Q: "Q t" for t
  proof -
    obtain c3 where "\<forall>c. run_state h (Inr c) = ((), Inr (c @ c3))" "passes env c3 P t"
      using assms(2) [OF Q] unfolding achieves_def by blast
    moreover from this have "c3 = c2"
      using c2 by simp
    ultimately show ?thesis by simp
  qed
  then have "passes env (c1 @ c2) P s"
    by (rule passes_append [OF passes_mono [OF c1(2)]])
  then show ?thesis
    unfolding achieves_def using c1(1) c2 by (intro exI [of _ "c1 @ c2"]) simp
qed

lemma achieves_runs_comp:
  assumes "runs g s t" "achieves env h P t"
  shows "achieves env (g \<then> h) P s"
  by (rule achieves_comp [where Q = "(=) t"])
    (use assms in \<open>auto simp: achieves_def [of env h] intro: achieves_runs\<close>)

lemma achieves_comp_runs:
  assumes "achieves env g Q s" "\<And>t. Q t \<Longrightarrow> \<exists>u. runs h t u \<and> P u"
    "\<exists>code. \<forall>c. run_state h (Inr c) = ((), Inr (c @ code))"
  shows "achieves env (g \<then> h) P s"
  by (rule achieves_comp [OF assms(1) _ assms(3)]) (use assms(2) achieves_runs in blast)

text \<open>A call returns to the next instruction with whatever the environment did.\<close>

lemma achieves_call:
  assumes "\<And>link. \<exists>t. env ((rget r s + sext12 imm) AND NOT 1) (rset ra link s) = Some t \<and> P t"
  shows "achieves env (emit (JALR ra r imm)) P s"
proof -
  have "passes env [JALR ra r imm] P s"
    unfolding passes_def
  proof (intro allI)
    fix base :: u64 and pre post :: "u32 list"
    let ?link = "base + 4 * of_nat (Suc (length pre)) :: u64"
    obtain t where t: "env ((rget r s + sext12 imm) AND NOT 1) (rset ra ?link s) = Some t" "P t"
      using assms by blast
    have "rv_block_step env base (pre @ [JALR ra r imm] @ post) (length pre) s =
        Continue (Suc (length pre)) t"
      using t(1) by (simp add: rv_block_step_def rv_simps nth_append)
    then have "rv_run env base (pre @ [JALR ra r imm] @ post) (Suc fuel) (length pre) s =
        rv_run env base (pre @ [JALR ra r imm] @ post) fuel (Suc (length pre)) t" for fuel
      by simp
    then show "\<exists>n t. P t \<and> (\<forall>fuel.
        rv_run env base (pre @ [JALR ra r imm] @ post) (n + fuel) (length pre) s =
        rv_run env base (pre @ [JALR ra r imm] @ post) fuel (length pre + length [JALR ra r imm]) t)"
      using t(2) by (intro exI [of _ 1] exI [of _ t]) simp
  qed
  then show ?thesis
    unfolding achieves_def by (intro exI [of _ "[JALR ra r imm]"]) simp
qed

section \<open>The flags the context stands for\<close>

definition flag_word :: "nat \<Rightarrow> nat \<Rightarrow> rv_state \<Rightarrow> u64" where
  "flag_word n off s = load n (rget s11 s + of_nat off) s"

definition zero_flag :: "rv_state \<Rightarrow> bool" where
  "zero_flag s \<longleftrightarrow> flag_word 8 zero_value_offset s = 0"

definition sign_flag :: "rv_state \<Rightarrow> bool" where
  "sign_flag s \<longleftrightarrow>
     bit (flag_word 8 sign_value_offset s) (unat (take_bit 6 (flag_word 1 sign_size_offset s)))"

definition parity_flag :: "rv_state \<Rightarrow> bool" where
  "parity_flag s \<longleftrightarrow>
     even (\<Sum>i<8. of_bool (bit (flag_word 1 parity_value_offset s) i) :: nat)"

text \<open>
  Carry and overflow are what the recorded routine returns in \<open>t4\<close>; a flag is defined when the
  recorded table offset is one of an evaluation routine.
\<close>

definition routine_flag :: "nat \<Rightarrow> rv_state \<Rightarrow> bool option" where
  "routine_flag off s = map_option (\<lambda>t. rget t4 t \<noteq> 0)
     (routine (ucast (drop_bit 2 (flag_word 2 off s))) s)"

definition carry_flag :: "rv_state \<Rightarrow> bool option" where
  "carry_flag s = routine_flag carry_operation_offset s"

definition overflow_flag :: "rv_state \<Rightarrow> bool option" where
  "overflow_flag s = routine_flag overflow_operation_offset s"

lemma evaluate_zero_runs:
  assumes "dest \<noteq> zero"
  shows "\<exists>t. runs (evaluate_zero dest) s t \<and> rget dest t = of_bool (zero_flag s) \<and>
    keeps {dest} s t"
  using assms
  by (simp add: runs_iff evaluate_zero_def rv_simps zero_flag_def flag_word_def reserved_regs
      flag_offsets)

lemma drop_bit_and_1: "drop_bit n v AND 1 = of_bool (bit (v :: u64) n)"
proof (rule bit_word_eqI)
  fix i assume "i < LENGTH(64)"
  show "bit (drop_bit n v AND 1) i = bit (of_bool (bit v n) :: u64) i"
    by (cases "i = 0") (auto simp: bit_simps)
qed

lemma evaluate_sign_runs:
  assumes "dest \<noteq> zero" "temp \<noteq> zero" "dest \<noteq> temp" "dest \<noteq> s11" "temp \<noteq> s11"
  shows "\<exists>t. runs (evaluate_sign dest temp) s t \<and> rget dest t = of_bool (sign_flag s) \<and>
    keeps {dest, temp} s t"
  using assms
  by (simp add: runs_iff evaluate_sign_def rv_simps sign_flag_def flag_word_def reserved_regs
      flag_offsets drop_bit_and_1 take_bit_eq_mask mask_eq_exp_minus_1 split del: split_of_bool)

lemma even_bits8:
  "even (\<Sum>i<8. of_bool (bit w i) :: nat) \<longleftrightarrow>
     (bit w 0 = (bit w 1 = (bit w 2 = (bit w 3 = (bit w 4 = (bit w 5 = (bit w 6 = bit w 7)))))))"
proof -
  have "{..<8 :: nat} = {0, 1, 2, 3, 4, 5, 6, 7}"
    by auto
  moreover have "even (of_bool b :: nat) \<longleftrightarrow> \<not> b" for b
    by simp
  ultimately show ?thesis
    by (simp del: sum_of_bool_eq split del: split_of_bool) argo
qed

lemma and_1_eq_0_iff: "v AND 1 = 0 \<longleftrightarrow> \<not> bit (v :: u64) 0"
  using drop_bit_and_1 [of 0 v] by simp

lemma evaluate_parity_runs:
  assumes "dest \<noteq> zero" "temp \<noteq> zero" "dest \<noteq> temp" "dest \<noteq> s11" "temp \<noteq> s11"
  shows "\<exists>t. runs (evaluate_parity dest temp) s t \<and> rget dest t = of_bool (parity_flag s) \<and>
    keeps {dest, temp} s t"
  using assms
  by (simp add: runs_iff evaluate_parity_def rv_simps parity_flag_def even_bits8 flag_word_def reserved_regs
      flag_offsets and_1_eq_0_iff bit_simps
      numeral_3_eq_3 [symmetric] del: sum_of_bool_eq) argo

text \<open>
  A routine depends on nothing but memory and the context address, returns 0 or 1 in \<open>t4\<close>, and
  changes only \<open>t4\<close>, \<open>t5\<close> and \<open>t6\<close>.
\<close>

definition tidy :: "(rv_state \<Rightarrow> rv_state option) \<Rightarrow> bool" where
  "tidy f \<longleftrightarrow> (\<forall>s s'. rv_mem s = rv_mem s' \<longrightarrow> rget s11 s = rget s11 s' \<longrightarrow>
     (\<exists>t t'. f s = Some t \<and> f s' = Some t' \<and> rget t4 t = rget t4 t' \<and> rget t4 t \<in> {0, 1} \<and>
        keeps {t4, t5, t6} s t))"

lemma tidy_routines_1:
  "tidy (rv_seqs carry_clear)"
  "tidy (rv_seqs carry_set)"
  "tidy (rv_seqs carry_add_8)"
  "tidy (rv_seqs carry_add_16)"
  "tidy (rv_seqs carry_add_32)"
  "tidy (rv_seqs carry_add_64)"
  "tidy (rv_seqs carry_adc_8)"
  "tidy (rv_seqs carry_adc_16)"
  "tidy (rv_seqs carry_adc_32)"
  "tidy (rv_seqs carry_adc_64)"
  "tidy (rv_seqs carry_neg_8)"
  unfolding tidy_def by (simp_all add: routine_defs rv_simps load_def)

lemma tidy_routines_2:
  "tidy (rv_seqs carry_neg_16)"
  "tidy (rv_seqs carry_neg_32)"
  "tidy (rv_seqs carry_neg_64)"
  "tidy (rv_seqs overflow_clear)"
  "tidy (rv_seqs overflow_set)"
  "tidy (rv_seqs overflow_add_8)"
  "tidy (rv_seqs overflow_add_16)"
  "tidy (rv_seqs overflow_add_32)"
  "tidy (rv_seqs overflow_add_64)"
  "tidy (rv_seqs overflow_add_pos_8)"
  "tidy (rv_seqs overflow_add_pos_16)"
  unfolding tidy_def by (simp_all add: routine_defs rv_simps load_def)

lemma tidy_routines_3:
  "tidy (rv_seqs overflow_add_pos_32)"
  "tidy (rv_seqs overflow_add_pos_64)"
  "tidy (rv_seqs overflow_add_neg_8)"
  "tidy (rv_seqs overflow_add_neg_16)"
  "tidy (rv_seqs overflow_add_neg_32)"
  "tidy (rv_seqs overflow_add_neg_64)"
  "tidy (rv_seqs overflow_adc_8)"
  "tidy (rv_seqs overflow_adc_16)"
  "tidy (rv_seqs overflow_adc_32)"
  "tidy (rv_seqs overflow_sub_8)"
  "tidy (rv_seqs overflow_sub_16)"
  unfolding tidy_def by (simp_all add: routine_defs rv_simps load_def)

lemma tidy_routines_4:
  "tidy (rv_seqs overflow_sub_32)"
  "tidy (rv_seqs overflow_sub_64)"
  "tidy (rv_seqs overflow_inc_8)"
  "tidy (rv_seqs overflow_inc_16)"
  "tidy (rv_seqs overflow_inc_32)"
  "tidy (rv_seqs overflow_inc_64)"
  "tidy (rv_seqs overflow_dec_neg_8)"
  "tidy (rv_seqs overflow_dec_neg_16)"
  "tidy (rv_seqs overflow_dec_neg_32)"
  "tidy (rv_seqs overflow_dec_neg_64)"
  unfolding tidy_def by (simp_all add: routine_defs rv_simps load_def)

lemma tidy_adc_64: "tidy overflow_adc_64"
  unfolding tidy_def by (simp add: routine_defs rv_simps load_def drop_bit_63)

lemmas tidy_routines = tidy_routines_1 tidy_routines_2 tidy_routines_3 tidy_routines_4 tidy_adc_64

lemma routine_tidy:
  assumes "routine e s = Some t"
  shows "tidy (routine e)"
proof -
  have "\<exists>f. tidy f \<and> routine e = f"
    using assms tidy_routines unfolding routine_def by (auto split: if_splits)
  then show ?thesis by auto
qed

section \<open>Evaluating carry and overflow\<close>

lemma even_and_not_1: "even (a :: u64) \<Longrightarrow> a AND NOT 1 = a"
  by (rule bit_word_eqI) (auto simp: bit_simps bit_0)

lemma and_3_even: "w AND 3 = 0 \<Longrightarrow> even (w :: u64)"
proof -
  assume "w AND 3 = 0"
  then have "\<not> bit (w AND 3) 0" by simp
  then show ?thesis by (simp add: bit_0 even_and_iff)
qed

lemma tidy_cong:
  assumes "tidy f" "f s = Some t" "rv_mem s' = rv_mem s" "rget s11 s' = rget s11 s"
  obtains t' where "f s' = Some t'" "rget t4 t' = of_bool (rget t4 t \<noteq> 0)" "keeps {t4, t5, t6} s' t'"
proof -
  obtain u u' where "f s' = Some u" "f s = Some u'" "rget t4 u = rget t4 u'" "rget t4 u \<in> {0, 1}"
    "keeps {t4, t5, t6} s' u"
    using assms(1,3,4) unfolding tidy_def by metis
  then show thesis
    using assms(2) that [of u] by auto
qed

text \<open>A context is recorded properly when its table offset is a multiple of four inside the table.\<close>

definition offset_ok :: "nat \<Rightarrow> rv_state \<Rightarrow> bool" where
  "offset_ok off s \<longleftrightarrow> flag_word 2 off s AND 3 = 0 \<and> flag_word 2 off s < 0x1000"

lemma evaluate_routine_achieves:
  assumes "rget s10 s = table" "even table" "offset_ok off s" "routine_flag off s = Some b"
    "off \<in> {carry_operation_offset, overflow_operation_offset}"
  shows "achieves (jt_env table) (emit (LHU t4 context_address (of_nat off)) \<then> jump_table_offset t4)
    (\<lambda>t. rget t4 t = of_bool b \<and> keeps {ra, t4, t5, t6} s t) s"
proof -
  let ?w = "flag_word 2 off s"
  let ?s1 = "rset t4 (table + ?w) s"
  obtain u where u: "routine (ucast (drop_bit 2 ?w)) s = Some u" "b = (rget t4 u \<noteq> 0)"
    using assms(4) by (auto simp: routine_flag_def)
  have imm: "sext12 (of_nat off) = of_nat off"
    using assms(5) by (auto simp: flag_offsets sext12_numeral)
  have "runs (emit (LHU t4 context_address (of_nat off)) \<then> emit (ADD t4 s10 t4)) s ?s1"
    using assms(1) by (simp add: runs_iff rv_simps reserved_regs flag_word_def imm)
  moreover have "achieves (jt_env table) (emit (JALR ra t4 0))
      (\<lambda>t. rget t4 t = of_bool b \<and> keeps {ra, t4, t5, t6} s t) ?s1"
  proof (rule achieves_call)
    fix link
    have "even (table + ?w)"
      using assms(2,3) by (simp add: and_3_even offset_ok_def)
    then have target: "(rget t4 ?s1 + sext12 0) AND NOT 1 = table + ?w"
      using even_and_not_1 by (simp add: rv_simps sext12_def)
    obtain t where "routine (ucast (drop_bit 2 ?w)) (rset ra link ?s1) = Some t"
      "rget t4 t = of_bool (rget t4 u \<noteq> 0)" "keeps {t4, t5, t6} (rset ra link ?s1) t"
      by (rule tidy_cong [OF routine_tidy [OF u(1)] u(1), of "rset ra link ?s1"]) (simp_all add: rv_simps)
    then show "\<exists>t. jt_env table ((rget t4 ?s1 + sext12 0) AND NOT 1) (rset ra link ?s1) = Some t \<and>
        rget t4 t = of_bool b \<and> keeps {ra, t4, t5, t6} s t"
      using assms(3) u(2) unfolding target
      by (auto simp: jt_env_def offset_ok_def keeps_def rv_simps)
  qed
  ultimately show ?thesis
    unfolding jump_table_offset_def jump_table_address_def State_Monad.bind_assoc [symmetric]
    by (rule achieves_runs_comp)
qed

end
