(* ===== verification/Decoding.thy ===== *)
theory Decoding
  imports Encoding Flags
begin

text \<open>
  The disassembler of the generated code (\<^verbatim>\<open>codegen/decoding/decoding.cpp\<close>), which prints an
  instruction word with the names of the guest registers and of the fields of the execution context.
  It is a second reading of the instruction formats, independent of the encoder: the lemmas relate
  the two.
\<close>

section \<open>Names\<close>

datatype RiscVOpcode =
    opc_LUI | opc_AUIPC | opc_LB | opc_LH | opc_LW | opc_LBU | opc_LHU | opc_LWU | opc_LD
  | opc_ADDI | opc_SLTI | opc_SLTIU | opc_XORI | opc_ORI | opc_ANDI | opc_FLW | opc_FLD
  | opc_ADDIW | opc_SLLIW | opc_SRLIW | opc_SRAIW | opc_SLLI | opc_SRLI | opc_SRAI | opc_SB
  | opc_SH | opc_SW | opc_SD | opc_MUL | opc_MULH | opc_MULHSU | opc_MULHU | opc_DIV | opc_DIVU
  | opc_REM | opc_REMU | opc_ADD | opc_SUB | opc_SLL | opc_SLT | opc_SLTU | opc_XOR | opc_SRL
  | opc_SRA | opc_OR | opc_AND | opc_MULW | opc_DIVW | opc_DIVUW | opc_REMW | opc_REMUW
  | opc_ADDW | opc_SUBW | opc_SLLW | opc_SRLW | opc_SRAW | opc_JAL | opc_JALR | opc_BEQ
  | opc_BNE | opc_BLT | opc_BGE | opc_BLTU | opc_BGEU | opc_ECALL

definition opcode_string :: "RiscVOpcode \<Rightarrow> string" where
  "opcode_string opcode = (case opcode of
     opc_LUI \<Rightarrow> ''lui'' | opc_AUIPC \<Rightarrow> ''auipc''
   | opc_LB \<Rightarrow> ''lb'' | opc_LH \<Rightarrow> ''lh'' | opc_LW \<Rightarrow> ''lw''
   | opc_LBU \<Rightarrow> ''lbu'' | opc_LHU \<Rightarrow> ''lhu''
   | opc_LWU \<Rightarrow> ''lwu'' | opc_LD \<Rightarrow> ''ld''
   | opc_ADDI \<Rightarrow> ''addi'' | opc_SLTI \<Rightarrow> ''slti''
   | opc_SLTIU \<Rightarrow> ''sltiu'' | opc_XORI \<Rightarrow> ''xori''
   | opc_ORI \<Rightarrow> ''ori'' | opc_ANDI \<Rightarrow> ''andi''
   | opc_FLW \<Rightarrow> ''flw'' | opc_FLD \<Rightarrow> ''fld''
   | opc_ADDIW \<Rightarrow> ''addiw'' | opc_SLLIW \<Rightarrow> ''slliw''
   | opc_SRLIW \<Rightarrow> ''srliw'' | opc_SRAIW \<Rightarrow> ''sraiw''
   | opc_SLLI \<Rightarrow> ''slli'' | opc_SRLI \<Rightarrow> ''srli''
   | opc_SRAI \<Rightarrow> ''srai'' | opc_SB \<Rightarrow> ''sb''
   | opc_SH \<Rightarrow> ''sh'' | opc_SW \<Rightarrow> ''sw'' | opc_SD \<Rightarrow> ''sd''
   | opc_MUL \<Rightarrow> ''mul'' | opc_MULH \<Rightarrow> ''mulh''
   | opc_MULHSU \<Rightarrow> ''mulhsu'' | opc_MULHU \<Rightarrow> ''mulhu''
   | opc_DIV \<Rightarrow> ''div'' | opc_DIVU \<Rightarrow> ''divu''
   | opc_REM \<Rightarrow> ''rem'' | opc_REMU \<Rightarrow> ''remu''
   | opc_ADD \<Rightarrow> ''add'' | opc_SUB \<Rightarrow> ''sub''
   | opc_SLL \<Rightarrow> ''sll'' | opc_SLT \<Rightarrow> ''slt''
   | opc_SLTU \<Rightarrow> ''sltu'' | opc_XOR \<Rightarrow> ''xor''
   | opc_SRL \<Rightarrow> ''srl'' | opc_SRA \<Rightarrow> ''sra''
   | opc_OR \<Rightarrow> ''or'' | opc_AND \<Rightarrow> ''and''
   | opc_MULW \<Rightarrow> ''mulw'' | opc_DIVW \<Rightarrow> ''divw''
   | opc_DIVUW \<Rightarrow> ''divuw'' | opc_REMW \<Rightarrow> ''remw''
   | opc_REMUW \<Rightarrow> ''remuw'' | opc_ADDW \<Rightarrow> ''addw''
   | opc_SUBW \<Rightarrow> ''subw'' | opc_SLLW \<Rightarrow> ''sllw''
   | opc_SRLW \<Rightarrow> ''srlw'' | opc_SRAW \<Rightarrow> ''sraw''
   | opc_JAL \<Rightarrow> ''jal'' | opc_JALR \<Rightarrow> ''jalr''
   | opc_BEQ \<Rightarrow> ''beq'' | opc_BNE \<Rightarrow> ''bne''
   | opc_BLT \<Rightarrow> ''blt'' | opc_BGE \<Rightarrow> ''bge''
   | opc_BLTU \<Rightarrow> ''bltu'' | opc_BGEU \<Rightarrow> ''bgeu''
   | opc_ECALL \<Rightarrow> ''ecall'')"

definition register_string :: "string list" where
  "register_string =
    [
     ''zero'', ''Vra'', ''rsp'', ''Vgp'', ''Vtp'', ''Vt0'', ''Vt1'', ''Vt2'', ''rbp'',
     ''return_stack'', ''rdi'', ''rsi'', ''rdx'', ''r10'', ''r8'', ''r9'', ''rcx'', ''rax'',
     ''rbx'', ''r11'', ''r12'', ''r13'', ''r14'', ''r15'', ''call_table'', ''tlb'',
     ''jump_table'', ''context'', ''Vt3'', ''Vt4'', ''Vt5'', ''Vt6'']"

definition unknown_instruction :: string where
  "unknown_instruction = ''unknown instruction''"

text \<open>The field of the execution context at an offset from its base register.\<close>

definition context_fields :: "(nat \<times> string) list" where
  "context_fields =
     [(zero_value_offset, ''zero_value''), (sign_value_offset, ''sign_value''),
      (overflow_values_offset, ''overflow_value1''), (overflow_values_offset + 8, ''overflow_value2''),
      (carry_values_offset, ''carry_value1''), (carry_values_offset + 8, ''carry_value2''),
      (overflow_ptr_offset, ''overflow_ptr''), (carry_ptr_offset, ''carry_ptr''),
      (overflow_operation_offset, ''overflow_op''), (carry_operation_offset, ''carry_op''),
      (sign_size_offset, ''sign_shift''), (parity_value_offset, ''parity_value'')]"

definition handle_context_addressing :: "u32 \<Rightarrow> u32 \<Rightarrow> string option" where
  "handle_context_addressing reg off =
    (if reg \<noteq> ucast (reg_num s11) then None else map_of context_fields (unat off))"

section \<open>Parts of an instruction\<close>

definition split_off_size :: "u32 \<Rightarrow> nat \<Rightarrow> nat \<Rightarrow> u32" where
  "split_off_size instruction off sz = drop_bit off instruction AND drop_bit (32 - sz) 0xffffffff"

definition split_off :: "u32 \<Rightarrow> nat \<Rightarrow> u32" where
  "split_off instruction off = split_off_size instruction off 5"

definition parse_number :: "u32 \<Rightarrow> bool \<Rightarrow> string" where
  "parse_number nbr sign =
     (if sign then '' -'' else '' '') @ ''0x'' @ hexadecimal (unat nbr) @
     (if sign then ''(-'' else ''('') @ decimal (unat nbr) @ '')''"

definition reg_string :: "u32 \<Rightarrow> nat \<Rightarrow> string" where
  "reg_string instruction off = register_string ! unat (split_off instruction off)"

text \<open>An offset of \<open>w\<close> bits with its sign, in a 16-bit variable; nothing when it is 0.\<close>

definition parse_offset :: "u16 \<Rightarrow> nat \<Rightarrow> u16 \<Rightarrow> string" where
  "parse_offset off sign_bit extension =
    (if off > 0 then
       if bit off sign_bit then
         '' -'' @ parse_number (ucast (NOT (off OR extension) + 1)) False
       else '' +'' @ parse_number (ucast off) False
     else '''')"

definition parse_offset32 :: "u32 \<Rightarrow> nat \<Rightarrow> u32 \<Rightarrow> string" where
  "parse_offset32 off sign_bit extension =
    (if off > 0 then
       if bit off sign_bit then '' -'' @ parse_number (NOT (off OR extension) + 1) False
       else '' +'' @ parse_number off False
     else '''')"

section \<open>Formats\<close>

definition parse_rtype :: "RiscVOpcode \<Rightarrow> u32 \<Rightarrow> string" where
  "parse_rtype opcode i = opcode_string opcode @ '' '' @ reg_string i 15 @ '', '' @
     reg_string i 20 @ '' -> '' @ reg_string i 7"

definition parse_shift :: "RiscVOpcode \<Rightarrow> u32 \<Rightarrow> string" where
  "parse_shift opcode i = opcode_string opcode @ '' '' @ reg_string i 15 @ '','' @
     parse_number (split_off_size i 20 6) False @ '' -> '' @ reg_string i 7"

definition parse_itype :: "RiscVOpcode \<Rightarrow> u32 \<Rightarrow> string" where
  "parse_itype opcode i = (let immediate = (ucast (split_off_size i 20 12) :: u16) in
     opcode_string opcode @ '' '' @ reg_string i 15 @ '','' @
     (if bit immediate 11 then parse_number (ucast (NOT (immediate OR 0xf000) + 1)) True
      else parse_number (ucast immediate) False) @
     '' -> '' @ reg_string i 7)"

definition parse_utype :: "RiscVOpcode \<Rightarrow> u32 \<Rightarrow> string" where
  "parse_utype opcode i = opcode_string opcode @ parse_number (split_off_size i 12 20) False @
     '' -> '' @ reg_string i 7"

text \<open>The address of a load or store: a field of the context, or a register with an offset.\<close>

definition parse_address :: "u32 \<Rightarrow> u16 \<Rightarrow> string" where
  "parse_address base off = (case handle_context_addressing base (ucast off) of
     Some name \<Rightarrow> name
   | None \<Rightarrow> register_string ! unat base @ parse_offset off 11 0xf000)"

definition parse_load :: "RiscVOpcode \<Rightarrow> u32 \<Rightarrow> string" where
  "parse_load opcode i = opcode_string opcode @ '' ['' @
     parse_address (split_off i 15) (ucast (split_off_size i 20 12)) @ ''] -> '' @ reg_string i 7"

definition parse_store :: "RiscVOpcode \<Rightarrow> u32 \<Rightarrow> string" where
  "parse_store opcode i = opcode_string opcode @ '' '' @ reg_string i 20 @ '' -> ['' @
     parse_address (split_off i 15)
       (ucast (split_off i 7 OR push_bit 5 (split_off_size i 25 7))) @ '']''"

definition parse_jtype :: "RiscVOpcode \<Rightarrow> u32 \<Rightarrow> string" where
  "parse_jtype opcode i =
    (let off = push_bit 1 (split_off_size i 21 10) OR push_bit 11 (split_off_size i 20 1) OR
       push_bit 12 (split_off_size i 12 8) OR push_bit 20 (split_off_size i 31 1) in
     opcode_string opcode @ '' [pc'' @ parse_offset32 off 20 0xffe00000 @ ''] -> '' @ reg_string i 7)"

definition parse_relative :: "RiscVOpcode \<Rightarrow> u32 \<Rightarrow> string" where
  "parse_relative opcode i = opcode_string opcode @ '' ['' @ reg_string i 15 @
     parse_offset (ucast (split_off_size i 20 12)) 11 0xf000 @ ''] -> '' @ reg_string i 7"

definition parse_btype :: "RiscVOpcode \<Rightarrow> u32 \<Rightarrow> string" where
  "parse_btype opcode i =
    (let off = (ucast (push_bit 1 (split_off_size i 8 4) OR push_bit 5 (split_off_size i 25 6) OR
       push_bit 11 (split_off_size i 7 1) OR push_bit 12 (split_off_size i 31 1)) :: u16) in
     opcode_string opcode @ '' ('' @ reg_string i 15 @ '', '' @ reg_string i 20 @ '') ? '' @
     ''[pc'' @ parse_offset off 12 0xe000 @ '']'')"

section \<open>The opcodes\<close>

text \<open>
  The outer switch on the opcode is \<open>parse_riscv\<close>, the inner ones by format are tables from the
  functional code to the mnemonic.
\<close>

definition branch_opcode :: "u32 \<Rightarrow> RiscVOpcode option" where
  "branch_opcode func3 = (if func3 = 0x00 then Some opc_BEQ
     else if func3 = 0x01 then Some opc_BNE
     else if func3 = 0x04 then Some opc_BLT
     else if func3 = 0x05 then Some opc_BGE
     else if func3 = 0x06 then Some opc_BLTU
     else if func3 = 0x07 then Some opc_BGEU
     else None)"

definition store_opcode :: "u32 \<Rightarrow> RiscVOpcode option" where
  "store_opcode func3 = (if func3 = 0x00 then Some opc_SB
     else if func3 = 0x01 then Some opc_SH
     else if func3 = 0x02 then Some opc_SW
     else if func3 = 0x03 then Some opc_SD
     else None)"

definition load_opcode :: "u32 \<Rightarrow> RiscVOpcode option" where
  "load_opcode func3 = (if func3 = 0x00 then Some opc_LB
     else if func3 = 0x01 then Some opc_LH
     else if func3 = 0x02 then Some opc_LW
     else if func3 = 0x03 then Some opc_LD
     else if func3 = 0x04 then Some opc_LBU
     else if func3 = 0x05 then Some opc_LHU
     else if func3 = 0x06 then Some opc_LWU
     else None)"

definition fload_opcode :: "u32 \<Rightarrow> RiscVOpcode option" where
  "fload_opcode func3 = (if func3 = 0x02 then Some opc_FLW
     else if func3 = 0x03 then Some opc_FLD
     else None)"

definition parse_immediate :: "u32 \<Rightarrow> u32 \<Rightarrow> u32 \<Rightarrow> string" where
  "parse_immediate func3 func7 i =
    (if func3 = 0x00 then parse_itype opc_ADDI i
     else if func3 = 0x01 then
       if func7 = 0x00 \<or> func7 = 0x01 then parse_shift opc_SLLI i else unknown_instruction
     else if func3 = 0x02 then parse_itype opc_SLTI i
     else if func3 = 0x03 then parse_itype opc_SLTIU i
     else if func3 = 0x04 then parse_itype opc_XORI i
     else if func3 = 0x05 then
       if func7 = 0x00 \<or> func7 = 0x01 then parse_shift opc_SRLI i
       else if func7 = 0x20 \<or> func7 = 0x21 then parse_shift opc_SRAI i
       else unknown_instruction
     else if func3 = 0x06 then parse_itype opc_ORI i
     else if func3 = 0x07 then parse_itype opc_ANDI i
     else unknown_instruction)"

definition parse_immediate_word :: "u32 \<Rightarrow> u32 \<Rightarrow> u32 \<Rightarrow> string" where
  "parse_immediate_word func3 func7 i =
    (if func3 = 0x00 then parse_itype opc_ADDIW i
     else if func3 = 0x01 then
       if func7 = 0x00 then parse_shift opc_SLLIW i else unknown_instruction
     else if func3 = 0x05 then
       if func7 = 0x00 then parse_shift opc_SRLIW i
       else if func7 = 0x20 then parse_shift opc_SRAIW i
       else unknown_instruction
     else unknown_instruction)"

definition register_opcode :: "u32 \<Rightarrow> u32 \<Rightarrow> RiscVOpcode option" where
  "register_opcode func3 func7 =
    (if func7 = 0x01 then
       if func3 = 0x00 then Some opc_MUL
       else if func3 = 0x01 then Some opc_MULH
       else if func3 = 0x02 then Some opc_MULHSU
       else if func3 = 0x03 then Some opc_MULHU
       else if func3 = 0x04 then Some opc_DIV
       else if func3 = 0x05 then Some opc_DIVU
       else if func3 = 0x06 then Some opc_REM
       else if func3 = 0x07 then Some opc_REMU
       else None
     else if func3 = 0x00 then
       if func7 = 0x00 then Some opc_ADD else if func7 = 0x20 then Some opc_SUB else None
     else if func3 = 0x01 then if func7 = 0x00 then Some opc_SLL else None
     else if func3 = 0x02 then if func7 = 0x00 then Some opc_SLT else None
     else if func3 = 0x03 then if func7 = 0x00 then Some opc_SLTU else None
     else if func3 = 0x04 then if func7 = 0x00 then Some opc_XOR else None
     else if func3 = 0x05 then
       if func7 = 0x00 then Some opc_SRL else if func7 = 0x20 then Some opc_SRA else None
     else if func3 = 0x06 then if func7 = 0x00 then Some opc_OR else None
     else if func3 = 0x07 then if func7 = 0x00 then Some opc_AND else None
     else None)"

definition register_word_opcode :: "u32 \<Rightarrow> u32 \<Rightarrow> RiscVOpcode option" where
  "register_word_opcode func3 func7 =
    (if func7 = 0x01 then
       if func3 = 0x00 then Some opc_MULW
       else if func3 = 0x04 then Some opc_DIVW
       else if func3 = 0x05 then Some opc_DIVUW
       else if func3 = 0x06 then Some opc_REMW
       else if func3 = 0x07 then Some opc_REMUW
       else None
     else if func3 = 0x00 then
       if func7 = 0x00 then Some opc_ADDW else if func7 = 0x20 then Some opc_SUBW else None
     else if func3 = 0x01 then if func7 = 0x00 then Some opc_SLLW else None
     else if func3 = 0x05 then
       if func7 = 0x00 then Some opc_SRLW else if func7 = 0x20 then Some opc_SRAW else None
     else None)"

text \<open>The text of an instruction whose mnemonic was looked up.\<close>

definition printed :: "(RiscVOpcode \<Rightarrow> u32 \<Rightarrow> string) \<Rightarrow> RiscVOpcode option \<Rightarrow> u32 \<Rightarrow> string" where
  "printed parse opcode i = (case opcode of None \<Rightarrow> unknown_instruction | Some c \<Rightarrow> parse c i)"

definition parse_riscv :: "u32 \<Rightarrow> string" where
  "parse_riscv i =
    (let opcode = split_off_size i 0 7; func3 = split_off_size i 12 3; func7 = split_off_size i 25 7 in
     if opcode = 0x67 then if func3 = 0 then parse_relative opc_JALR i else unknown_instruction
     else if opcode = 0x6f then parse_jtype opc_JAL i
     else if opcode = 0x63 then printed parse_btype (branch_opcode func3) i
     else if opcode = 0x37 then parse_utype opc_LUI i
     else if opcode = 0x17 then parse_utype opc_AUIPC i
     else if opcode = 0x23 then printed parse_store (store_opcode func3) i
     else if opcode = 0x03 then printed parse_load (load_opcode func3) i
     else if opcode = 0x07 then printed parse_load (fload_opcode func3) i
     else if opcode = 0x13 then parse_immediate func3 func7 i
     else if opcode = 0x1b then parse_immediate_word func3 func7 i
     else if opcode = 0x73 then
       if split_off_size i 7 25 = 0 then opcode_string opc_ECALL else unknown_instruction
     else if opcode = 0x33 then printed parse_rtype (register_opcode func3 func7) i
     else if opcode = 0x3b then printed parse_rtype (register_word_opcode func3 func7) i
     else unknown_instruction)"

end
