(* ===== verification/Syscalls.thy ===== *)
theory Syscalls
  imports Helper
begin

text \<open>
  System calls of the guest (\<^verbatim>\<open>dispatcher/syscalls.{h,cpp}\<close>, \<^verbatim>\<open>Dispatcher::emulate_syscall\<close>): the
  table that maps x86-64 numbers to RISC-V numbers or to functions that emulate the call on the
  guest's execution context. The kernel is a parameter: the record \<open>kernel\<close> holds the results of the
  calls the emulation makes, and \<open>SYS\<close> the RISC-V numbers of the system headers.
\<close>

section \<open>The execution context\<close>

text \<open>
  \<^verbatim>\<open>dispatcher/execution_context.h\<close>: the guest's registers by the RISC-V register that holds them, the
  segment bases and the state of the program break. \<open>ctx_mem\<close> is the memory that guest and host
  share, \<open>ctx_munmap\<close> the ranges unmapped so far.
\<close>

record ExecutionContext =
  ctx_guest :: "RiscVRegister \<Rightarrow> u64"
  fs_base :: u64
  gs_base :: u64
  initial_break :: u64
  last_break_page :: u64
  program_break :: u64
  ctx_mem :: memory
  ctx_munmap :: "(u64 \<times> u64) list"

text \<open>The members of \<^verbatim>\<open>Context::map\<close> that the emulation uses, by their place in the union.\<close>

definition guest_rdi :: RiscVRegister where "guest_rdi = a0"
definition guest_rsi :: RiscVRegister where "guest_rsi = a1"
definition guest_rdx :: RiscVRegister where "guest_rdx = a2"
definition guest_rax :: RiscVRegister where "guest_rax = a7"

lemma guest_registers:
  "guest_rdi = map_reg reg_rdi" "guest_rsi = map_reg reg_rsi" "guest_rdx = map_reg reg_rdx"
  "guest_rax = map_reg reg_rax"
  by (simp_all add: guest_rdi_def guest_rsi_def guest_rdx_def guest_rax_def map_reg_def
      register_mapping_def reg_defs)

definition get_guest :: "RiscVRegister \<Rightarrow> ExecutionContext \<Rightarrow> u64" where
  "get_guest r ctx = ctx_guest ctx r"

definition set_guest :: "RiscVRegister \<Rightarrow> u64 \<Rightarrow> ExecutionContext \<Rightarrow> ExecutionContext" where
  "set_guest r v ctx = ctx\<lparr>ctx_guest := (ctx_guest ctx)(r := v)\<rparr>"

definition write_context :: "nat \<Rightarrow> u64 \<Rightarrow> u64 \<Rightarrow> ExecutionContext \<Rightarrow> ExecutionContext" where
  "write_context n a v ctx = ctx\<lparr>ctx_mem := mstore n (ctx_mem ctx) a v\<rparr>"

definition munmap :: "u64 \<Rightarrow> u64 \<Rightarrow> ExecutionContext \<Rightarrow> ExecutionContext" where
  "munmap addr sz ctx = ctx\<lparr>ctx_munmap := ctx_munmap ctx @ [(addr, sz)]\<rparr>"

section \<open>The kernel\<close>

record host_stat =
  st_dev :: u64
  st_ino :: u64
  st_nlink :: u64
  st_mode :: u32
  st_uid :: u32
  st_gid :: u32
  st_rdev :: u64
  st_size :: u64
  st_atime :: "u64 \<times> u64"
  st_mtime :: "u64 \<times> u64"
  st_ctime :: "u64 \<times> u64"
  st_blksize :: u64
  st_blocks :: u64

text \<open>
  \<open>kernel_mmap\<close> gives the address that an anonymous mapping of a size is made at when one is
  requested at an address, or \<open>None\<close> for \<^verbatim>\<open>MAP_FAILED\<close>.
\<close>

record kernel =
  kernel_openat :: "u64 \<Rightarrow> u32 \<Rightarrow> u32 \<Rightarrow> u32"
  kernel_fstat :: "u32 \<Rightarrow> u32 \<times> host_stat"
  kernel_mmap :: "u64 \<Rightarrow> u64 \<Rightarrow> u64 option"

text \<open>How an emulated call ends: it returns to the guest, or the guest's program ends.\<close>

datatype outcome =
    Returns ExecutionContext
  | Exits u64
  | Faults fault

section \<open>Emulated calls\<close>

definition Syscall_open :: "kernel \<Rightarrow> ExecutionContext \<Rightarrow> outcome" where
  "Syscall_open k ctx =
    (let file = get_guest guest_rdi ctx;
       flag = ucast (get_guest guest_rsi ctx);
       mode = ucast (get_guest guest_rdx ctx);
       fd = kernel_openat k file flag mode
     in Returns (set_guest guest_rax (scast fd) ctx))"

text \<open>Offset, width and value of the fields of the guest's structure.\<close>

definition guest_stat :: "host_stat \<Rightarrow> (nat \<times> nat \<times> u64) list" where
  "guest_stat s =
     [(0, 8, st_dev s), (8, 8, st_ino s), (16, 8, st_nlink s), (24, 4, ucast (st_mode s)),
      (28, 4, ucast (st_uid s)), (32, 4, ucast (st_gid s)), (36, 4, 0), (40, 8, st_rdev s),
      (48, 8, st_size s), (56, 8, fst (st_atime s)), (64, 8, snd (st_atime s)),
      (72, 8, fst (st_mtime s)), (80, 8, snd (st_mtime s)), (88, 8, fst (st_ctime s)),
      (96, 8, snd (st_ctime s)), (104, 8, st_blksize s), (112, 8, st_blocks s), (120, 8, 0),
      (128, 8, 0), (136, 8, 0)]"

definition Syscall_fstat :: "kernel \<Rightarrow> ExecutionContext \<Rightarrow> outcome" where
  "Syscall_fstat k ctx =
    (let (result, s) = kernel_fstat k (ucast (get_guest guest_rdi ctx));
       ctx = set_guest guest_rax (scast result) ctx;
       target = get_guest guest_rsi ctx
     in Returns (fold (\<lambda>(off, n, v). write_context n (target + of_nat off) v) (guest_stat s) ctx))"

definition Syscall_exit :: "kernel \<Rightarrow> ExecutionContext \<Rightarrow> outcome" where
  "Syscall_exit k ctx = Exits (get_guest guest_rdi ctx)"

definition return_break :: "ExecutionContext \<Rightarrow> ExecutionContext" where
  "return_break ctx = set_guest guest_rax (program_break ctx) ctx"

definition Syscall_brk :: "kernel \<Rightarrow> ExecutionContext \<Rightarrow> outcome" where
  "Syscall_brk k ctx =
    (let address = get_guest guest_rdi ctx in
     if address < initial_break ctx then Returns (return_break ctx)
     else if address \<le> program_break ctx then
       let addr_page = page_align address;
         ctx = (if addr_page < last_break_page ctx then
              (munmap addr_page (last_break_page ctx - addr_page) ctx)\<lparr>last_break_page := addr_page\<rparr>
            else ctx)
       in Returns (return_break (ctx\<lparr>program_break := address\<rparr>))
     else
       let alloc_size = page_align (address - last_break_page ctx) in
       case kernel_mmap k (last_break_page ctx) alloc_size of
         None \<Rightarrow> Returns (return_break ctx)
       | Some mem \<Rightarrow>
          (if mem \<noteq> last_break_page ctx then Returns (return_break (munmap mem alloc_size ctx))
           else Returns (return_break (ctx\<lparr>last_break_page := last_break_page ctx + alloc_size,
                  program_break := address\<rparr>))))"

definition arch_set_gs :: u64 where "arch_set_gs = 0x1001"
definition arch_set_fs :: u64 where "arch_set_fs = 0x1002"
definition arch_get_fs :: u64 where "arch_get_fs = 0x1003"
definition arch_get_gs :: u64 where "arch_get_gs = 0x1004"

definition Syscall_arch_prctl :: "kernel \<Rightarrow> ExecutionContext \<Rightarrow> outcome" where
  "Syscall_arch_prctl k ctx =
    (let code = get_guest guest_rdi ctx; address = get_guest guest_rsi ctx in
     if code = arch_set_gs then
       Returns (set_guest guest_rax 0 (write_context 8 address address (ctx\<lparr>gs_base := address\<rparr>)))
     else if code = arch_set_fs then
       Returns (set_guest guest_rax 0 (write_context 8 address address (ctx\<lparr>fs_base := address\<rparr>)))
     else if code = arch_get_fs then
       Returns (set_guest guest_rax 0 (write_context 8 address (fs_base ctx) ctx))
     else if code = arch_get_gs then
       Returns (set_guest guest_rax 0 (write_context 8 address (gs_base ctx) ctx))
     else Returns (set_guest guest_rax (- 1) ctx))"

definition Syscall_ignored :: "kernel \<Rightarrow> ExecutionContext \<Rightarrow> outcome" where
  "Syscall_ignored k ctx = Returns (set_guest guest_rax 0 ctx)"

definition Syscall_sigaction :: "kernel \<Rightarrow> ExecutionContext \<Rightarrow> outcome" where
  "Syscall_sigaction = Syscall_ignored"

definition Syscall_sigprocmask :: "kernel \<Rightarrow> ExecutionContext \<Rightarrow> outcome" where
  "Syscall_sigprocmask = Syscall_ignored"

definition Syscall_ioctl :: "kernel \<Rightarrow> ExecutionContext \<Rightarrow> outcome" where
  "Syscall_ioctl = Syscall_ignored"

section \<open>The table\<close>

datatype EmulationFn =
    Emulate_open | Emulate_fstat | Emulate_exit | Emulate_brk | Emulate_sigaction
  | Emulate_sigprocmask | Emulate_ioctl | Emulate_arch_prctl

definition emulation_fn :: "EmulationFn \<Rightarrow> kernel \<Rightarrow> ExecutionContext \<Rightarrow> outcome" where
  "emulation_fn f = (case f of
     Emulate_open \<Rightarrow> Syscall_open
   | Emulate_fstat \<Rightarrow> Syscall_fstat
   | Emulate_exit \<Rightarrow> Syscall_exit
   | Emulate_brk \<Rightarrow> Syscall_brk
   | Emulate_sigaction \<Rightarrow> Syscall_sigaction
   | Emulate_sigprocmask \<Rightarrow> Syscall_sigprocmask
   | Emulate_ioctl \<Rightarrow> Syscall_ioctl
   | Emulate_arch_prctl \<Rightarrow> Syscall_arch_prctl)"

text \<open>
  An entry is a number or the address of a function, told apart by its value; \<open>fn\<close> gives the
  addresses of the functions.
\<close>

datatype syscall_entry = Index int | Emulation EmulationFn

definition riscv_index :: "(EmulationFn \<Rightarrow> u64) \<Rightarrow> syscall_entry \<Rightarrow> u64" where
  "riscv_index fn e = (case e of Index i \<Rightarrow> word_of_int i | Emulation f \<Rightarrow> fn f)"

definition is_valid :: "(EmulationFn \<Rightarrow> u64) \<Rightarrow> syscall_entry \<Rightarrow> bool" where
  "is_valid fn e \<longleftrightarrow> riscv_index fn e \<noteq> - 1"

definition is_emulated :: "(EmulationFn \<Rightarrow> u64) \<Rightarrow> syscall_entry \<Rightarrow> bool" where
  "is_emulated fn e \<longleftrightarrow> riscv_index fn e \<ge> 0x1000"

definition is_forwarded :: "(EmulationFn \<Rightarrow> u64) \<Rightarrow> syscall_entry \<Rightarrow> bool" where
  "is_forwarded fn e \<longleftrightarrow> riscv_index fn e < 0x1000"

definition syscall_map :: "(string \<Rightarrow> int) \<Rightarrow> syscall_entry list" where
  "syscall_map SYS = [
      Index (SYS ''read''), Index (SYS ''write''), Emulation Emulate_open, Index (SYS ''close''),
      Index (- 1), Emulation Emulate_fstat, Index (- 1), Index (- 1), Index (SYS ''lseek''),
      Index (SYS ''mmap''), Index (SYS ''mprotect''), Index (SYS ''munmap''), Emulation Emulate_brk,
      Emulation Emulate_sigaction, Emulation Emulate_sigprocmask, Index (- 1),
      Emulation Emulate_ioctl, Index (SYS ''pread64''), Index (SYS ''pwrite64''),
      Index (SYS ''readv''), Index (SYS ''writev''), Index (- 1), Index (- 1), Index (- 1),
      Index (SYS ''sched_yield''), Index (SYS ''mremap''), Index (SYS ''msync''),
      Index (SYS ''mincore''), Index (SYS ''madvise''), Index (SYS ''shmget''),
      Index (SYS ''shmat''), Index (SYS ''shmctl''), Index (SYS ''dup''), Index (- 1), Index (- 1),
      Index (SYS ''nanosleep''), Index (SYS ''getitimer''), Index (- 1), Index (SYS ''setitimer''),
      Index (SYS ''getpid''), Index (SYS ''sendfile''), Index (SYS ''socket''),
      Index (SYS ''connect''), Index (SYS ''accept''), Index (SYS ''sendto''),
      Index (SYS ''recvfrom''), Index (SYS ''sendmsg''), Index (SYS ''recvmsg''),
      Index (SYS ''shutdown''), Index (SYS ''bind''), Index (SYS ''listen''),
      Index (SYS ''getsockname''), Index (SYS ''getpeername''), Index (SYS ''socketpair''),
      Index (SYS ''setsockopt''), Index (SYS ''getsockopt''), Index (SYS ''clone''), Index (- 1),
      Index (- 1), Index (SYS ''execve''), Emulation Emulate_exit, Index (SYS ''wait4''),
      Index (SYS ''kill''), Index (SYS ''uname''), Index (SYS ''semget''), Index (SYS ''semop''),
      Index (SYS ''semctl''), Index (SYS ''shmdt''), Index (SYS ''msgget''), Index (SYS ''msgsnd''),
      Index (SYS ''msgrcv''), Index (SYS ''msgctl''), Index (SYS ''fcntl''), Index (SYS ''flock''),
      Index (SYS ''fsync''), Index (SYS ''fdatasync''), Index (SYS ''truncate''),
      Index (SYS ''ftruncate''), Index (- 1), Index (SYS ''getcwd''), Index (SYS ''chdir''),
      Index (SYS ''fchdir''), Index (- 1), Index (- 1), Index (- 1), Index (- 1), Index (- 1),
      Index (- 1), Index (- 1), Index (- 1), Index (- 1), Index (SYS ''fchmod''), Index (- 1),
      Index (SYS ''fchown''), Index (- 1), Index (SYS ''umask''), Index (SYS ''gettimeofday''),
      Index (SYS ''getrlimit''), Index (SYS ''getrusage''), Index (SYS ''sysinfo''),
      Index (SYS ''times''), Index (SYS ''ptrace''), Index (SYS ''getuid''), Index (SYS ''syslog''),
      Index (SYS ''getgid''), Index (SYS ''setuid''), Index (SYS ''setgid''),
      Index (SYS ''geteuid''), Index (SYS ''getegid''), Index (SYS ''setpgid''),
      Index (SYS ''getppid''), Index (- 1), Index (SYS ''setsid''), Index (SYS ''setreuid''),
      Index (SYS ''setregid''), Index (SYS ''getgroups''), Index (SYS ''setgroups''),
      Index (SYS ''setresuid''), Index (SYS ''getresuid''), Index (SYS ''setresgid''),
      Index (SYS ''getresgid''), Index (SYS ''getpgid''), Index (SYS ''setfsuid''),
      Index (SYS ''setfsgid''), Index (SYS ''getsid''), Index (SYS ''capget''),
      Index (SYS ''capset''), Index (SYS ''rt_sigpending''), Index (SYS ''rt_sigtimedwait''),
      Index (SYS ''rt_sigqueueinfo''), Index (SYS ''rt_sigsuspend''), Index (SYS ''sigaltstack''),
      Index (- 1), Index (- 1), Index (- 1), Index (SYS ''personality''), Index (- 1),
      Index (SYS ''statfs''), Index (SYS ''fstatfs''), Index (- 1), Index (SYS ''getpriority''),
      Index (SYS ''setpriority''), Index (SYS ''sched_setparam''), Index (SYS ''sched_getparam''),
      Index (SYS ''sched_setscheduler''), Index (SYS ''sched_getscheduler''),
      Index (SYS ''sched_get_priority_max''), Index (SYS ''sched_get_priority_min''),
      Index (SYS ''sched_rr_get_interval''), Index (SYS ''mlock''), Index (SYS ''munlock''),
      Index (SYS ''mlockall''), Index (SYS ''munlockall''), Index (SYS ''vhangup''), Index (- 1),
      Index (SYS ''pivot_root''), Index (- 1), Index (SYS ''prctl''), Emulation Emulate_arch_prctl,
      Index (SYS ''adjtimex''), Index (SYS ''setrlimit''), Index (SYS ''chroot''),
      Index (SYS ''sync''), Index (SYS ''acct''), Index (SYS ''settimeofday''),
      Index (SYS ''mount''), Index (SYS ''umount2''), Index (SYS ''swapon''),
      Index (SYS ''swapoff''), Index (SYS ''reboot''), Index (SYS ''sethostname''),
      Index (SYS ''setdomainname''), Index (- 1), Index (- 1), Index (- 1),
      Index (SYS ''init_module''), Index (SYS ''delete_module''), Index (- 1), Index (- 1),
      Index (SYS ''quotactl''), Index (SYS ''nfsservctl''), Index (- 1), Index (- 1), Index (- 1),
      Index (- 1), Index (- 1), Index (SYS ''gettid''), Index (SYS ''readahead''),
      Index (SYS ''setxattr''), Index (SYS ''lsetxattr''), Index (SYS ''fsetxattr''),
      Index (SYS ''getxattr''), Index (SYS ''lgetxattr''), Index (SYS ''fgetxattr''),
      Index (SYS ''listxattr''), Index (SYS ''llistxattr''), Index (SYS ''flistxattr''),
      Index (SYS ''removexattr''), Index (SYS ''lremovexattr''), Index (SYS ''fremovexattr''),
      Index (SYS ''tkill''), Index (- 1), Index (SYS ''futex''), Index (SYS ''sched_setaffinity''),
      Index (SYS ''sched_getaffinity''), Index (- 1), Index (SYS ''io_setup''),
      Index (SYS ''io_destroy''), Index (SYS ''io_getevents''), Index (SYS ''io_submit''),
      Index (SYS ''io_cancel''), Index (- 1), Index (SYS ''lookup_dcookie''), Index (- 1),
      Index (- 1), Index (- 1), Index (SYS ''remap_file_pages''), Index (SYS ''getdents64''),
      Index (SYS ''set_tid_address''), Index (SYS ''restart_syscall''), Index (SYS ''semtimedop''),
      Index (SYS ''fadvise64''), Index (SYS ''timer_create''), Index (SYS ''timer_settime''),
      Index (SYS ''timer_gettime''), Index (SYS ''timer_getoverrun''), Index (SYS ''timer_delete''),
      Index (SYS ''clock_settime''), Index (SYS ''clock_gettime''), Index (SYS ''clock_getres''),
      Index (SYS ''clock_nanosleep''), Emulation Emulate_exit, Index (- 1),
      Index (SYS ''epoll_ctl''), Index (SYS ''tgkill''), Index (- 1), Index (- 1),
      Index (SYS ''mbind''), Index (SYS ''set_mempolicy''), Index (SYS ''get_mempolicy''),
      Index (SYS ''mq_open''), Index (SYS ''mq_unlink''), Index (SYS ''mq_timedsend''),
      Index (SYS ''mq_timedreceive''), Index (SYS ''mq_notify''), Index (SYS ''mq_getsetattr''),
      Index (SYS ''kexec_load''), Index (SYS ''waitid''), Index (SYS ''add_key''),
      Index (SYS ''request_key''), Index (SYS ''keyctl''), Index (SYS ''ioprio_set''),
      Index (SYS ''ioprio_get''), Index (- 1), Index (SYS ''inotify_add_watch''),
      Index (SYS ''inotify_rm_watch''), Index (SYS ''migrate_pages''), Index (SYS ''openat''),
      Index (SYS ''mkdirat''), Index (SYS ''mknodat''), Index (SYS ''fchownat''), Index (- 1),
      Index (SYS ''newfstatat''), Index (SYS ''unlinkat''), Index (- 1), Index (SYS ''linkat''),
      Index (SYS ''symlinkat''), Index (SYS ''readlinkat''), Index (SYS ''fchmodat''),
      Index (SYS ''faccessat''), Index (SYS ''pselect6''), Index (SYS ''ppoll''),
      Index (SYS ''unshare''), Index (SYS ''set_robust_list''), Index (SYS ''get_robust_list''),
      Index (SYS ''splice''), Index (SYS ''tee''), Index (SYS ''sync_file_range''),
      Index (SYS ''vmsplice''), Index (SYS ''move_pages''), Index (SYS ''utimensat''),
      Index (SYS ''epoll_pwait''), Index (- 1), Index (SYS ''timerfd_create''), Index (- 1),
      Index (SYS ''fallocate''), Index (SYS ''timerfd_settime''), Index (SYS ''timerfd_gettime''),
      Index (SYS ''accept4''), Index (SYS ''signalfd4''), Index (SYS ''eventfd2''),
      Index (SYS ''epoll_create1''), Index (SYS ''dup3''), Index (SYS ''pipe2''),
      Index (SYS ''inotify_init1''), Index (SYS ''preadv''), Index (SYS ''pwritev''),
      Index (SYS ''rt_tgsigqueueinfo''), Index (SYS ''perf_event_open''), Index (SYS ''recvmmsg''),
      Index (SYS ''fanotify_init''), Index (SYS ''fanotify_mark''), Index (SYS ''prlimit64''),
      Index (SYS ''name_to_handle_at''), Index (SYS ''open_by_handle_at''),
      Index (SYS ''clock_adjtime''), Index (SYS ''syncfs''), Index (SYS ''sendmmsg''),
      Index (SYS ''setns''), Index (SYS ''getcpu''), Index (SYS ''process_vm_readv''),
      Index (SYS ''process_vm_writev''), Index (SYS ''kcmp''), Index (SYS ''finit_module''),
      Index (SYS ''sched_setattr''), Index (SYS ''sched_getattr''), Index (SYS ''renameat2''),
      Index (SYS ''seccomp''), Index (SYS ''getrandom''), Index (SYS ''memfd_create''), Index (- 1),
      Index (SYS ''bpf'')]"

text \<open>
  \<^verbatim>\<open>Dispatcher::emulate_syscall\<close>. Calling an entry that is a number is calling that address.
\<close>

definition emulate_syscall ::
  "(EmulationFn \<Rightarrow> u64) \<Rightarrow> (string \<Rightarrow> int) \<Rightarrow> kernel \<Rightarrow> ExecutionContext \<Rightarrow> outcome" where
  "emulate_syscall fn SYS k ctx =
    (let guest_index = get_guest guest_rax ctx; table = syscall_map SYS in
     if guest_index < of_nat (length table) \<and> is_valid fn (table ! unat guest_index) then
       case table ! unat guest_index of
         Emulation f \<Rightarrow> emulation_fn f k ctx
       | Index i \<Rightarrow> Faults Undefined_behaviour
     else Faults (Unsupported_syscall guest_index))"

end
