(* ===== verification/SyscallRules.thy ===== *)
theory SyscallRules
  imports Syscalls Elf
begin

text \<open>
  The contracts of the emulated system calls: the invariant of the program break and what growing and
  shrinking it does, the round trip of the segment bases, and the dispatch on the number of the call.
\<close>

section \<open>The program break\<close>

definition round_page :: "nat \<Rightarrow> nat" where
  "round_page n = (n + 0xfff) div 4096 * 4096"

lemma round_page_bounds: "n \<le> round_page n" "round_page n < n + 4096" "4096 dvd round_page n"
proof -
  have "(n + 0xfff) div 4096 * 4096 + (n + 0xfff) mod 4096 = n + 0xfff" "(n + 0xfff) mod 4096 < 4096"
    by simp_all
  then show "n \<le> round_page n" "round_page n < n + 4096"
    unfolding round_page_def by linarith+
qed (simp add: round_page_def)

lemma round_page_unique: "4096 dvd m \<Longrightarrow> n \<le> m \<Longrightarrow> m < n + 4096 \<Longrightarrow> round_page n = m"
proof -
  assume a: "4096 dvd m" "n \<le> m" "m < n + 4096"
  obtain i j where "m = 4096 * i" "round_page n = 4096 * j"
    using a(1) round_page_bounds(3) [of n] by (auto elim!: dvdE)
  then show ?thesis
    using a(2,3) round_page_bounds(1,2) [of n] by auto
qed

lemma round_page_mono: "m \<le> n \<Longrightarrow> round_page m \<le> round_page n"
  by (simp add: round_page_def div_le_mono)

lemma page_align_round: "unat a + 0xfff < 2 ^ 32 \<Longrightarrow> unat (page_align a) = round_page (unat a)"
  by (simp add: page_align_rounds round_page_def)

text \<open>An address less than a page below another one is at distance 0 once it is aligned.\<close>

lemma page_align_below:
  assumes "unat b < 4096"
  shows "page_align (- b) = 0"
proof -
  have "unat (0xfff - b) < 4096"
    using assms by (subst unat_sub) (simp_all add: word_le_nat_alt)
  then have "0xfff - b < 2 ^ 12"
    by (simp add: word_less_nat_alt)
  then have low: "take_bit 12 (0xfff - b) = 0xfff - b"
    using take_bit_self_iff [of 12 "0xfff - b"] by simp
  have "take_bit 32 (take_bit 12 w) AND NOT (mask 12) = 0" for w :: u64
    by (rule bit_word_eqI) (auto simp: bit_simps)
  from this [of "0xfff - b"] show ?thesis
    by (simp only: page_align_eq low uminus_add_conv_diff)
qed

text \<open>The break is inside its last page, which is mapped; all below 4 GB.\<close>

definition brk_ok :: "ExecutionContext \<Rightarrow> bool" where
  "brk_ok ctx \<longleftrightarrow> initial_break ctx \<le> program_break ctx \<and> unat (program_break ctx) + 0xfff < 2 ^ 32 \<and>
     unat (last_break_page ctx) = round_page (unat (program_break ctx))"

definition brk_returns :: "ExecutionContext \<Rightarrow> ExecutionContext \<Rightarrow> bool" where
  "brk_returns ctx ctx' \<longleftrightarrow> brk_ok ctx' \<and> get_guest guest_rax ctx' = program_break ctx' \<and>
     initial_break ctx' = initial_break ctx"

lemma return_break_simps [simp]:
  "get_guest guest_rax (return_break ctx) = program_break ctx" "program_break (return_break ctx) = program_break ctx"
  "initial_break (return_break ctx) = initial_break ctx" "last_break_page (return_break ctx) = last_break_page ctx"
  "brk_ok (return_break ctx) = brk_ok ctx"
  by (simp_all add: return_break_def get_guest_def set_guest_def brk_ok_def)

lemma munmap_simps [simp]:
  "program_break (munmap a n ctx) = program_break ctx" "initial_break (munmap a n ctx) = initial_break ctx"
  "last_break_page (munmap a n ctx) = last_break_page ctx" "brk_ok (munmap a n ctx) = brk_ok ctx"
  by (simp_all add: munmap_def brk_ok_def)

lemma brk_below:
  assumes "brk_ok ctx" "get_guest guest_rdi ctx < initial_break ctx"
  shows "Syscall_brk k ctx = Returns (return_break ctx)"
  using assms by (simp add: Syscall_brk_def)

lemma brk_shrinks:
  assumes "brk_ok ctx" "initial_break ctx \<le> get_guest guest_rdi ctx" "get_guest guest_rdi ctx \<le> program_break ctx"
  shows "\<exists>ctx'. Syscall_brk k ctx = Returns ctx' \<and> brk_returns ctx ctx' \<and> program_break ctx' = get_guest guest_rdi ctx"
proof -
  let ?a = "get_guest guest_rdi ctx"
  have a: "unat ?a + 0xfff < 2 ^ 32" "unat ?a \<le> unat (program_break ctx)"
    using assms(1,3) by (simp_all add: brk_ok_def word_le_nat_alt)
  have al: "unat (page_align ?a) = round_page (unat ?a)"
    by (rule page_align_round [OF a(1)])
  have "round_page (unat ?a) \<le> unat (last_break_page ctx)"
    using round_page_mono [OF a(2)] assms(1) by (simp add: brk_ok_def)
  then have "page_align ?a < last_break_page ctx \<or> unat (last_break_page ctx) = round_page (unat ?a)"
    by (auto simp: word_less_nat_alt al)
  then show ?thesis
    using assms a al by (auto simp: Syscall_brk_def Let_def brk_returns_def brk_ok_def not_less)
qed

lemma brk_grows:
  assumes "brk_ok ctx" "program_break ctx < get_guest guest_rdi ctx" "unat (get_guest guest_rdi ctx) + 0xfff < 2 ^ 32"
  shows "\<exists>ctx'. Syscall_brk k ctx = Returns ctx' \<and> brk_returns ctx ctx' \<and>
    program_break ctx' =
      (if kernel_mmap k (last_break_page ctx) (page_align (get_guest guest_rdi ctx - last_break_page ctx)) =
          Some (last_break_page ctx)
       then get_guest guest_rdi ctx else program_break ctx)"
proof -
  let ?a = "get_guest guest_rdi ctx" and ?l = "last_break_page ctx" and ?p = "program_break ctx"
  let ?n = "page_align (?a - ?l)"
  have l: "unat ?l = round_page (unat ?p)"
    using assms(1) by (simp add: brk_ok_def)
  note b = round_page_bounds [of "unat ?p"]
  have n: "unat (?l + ?n) = round_page (unat ?a)"
  proof (cases "?a \<le> ?l")
    case True
    have "?n = 0"
      using page_align_below [of "?l - ?a"] True b assms(2) l
      by (simp add: unat_sub word_le_nat_alt word_less_nat_alt)
    moreover have "round_page (unat ?a) = unat ?l"
      using round_page_unique [of "unat ?l" "unat ?a"] True assms(2) b l by (simp add: word_le_nat_alt word_less_nat_alt)
    ultimately show ?thesis
      by simp
  next
    case False
    then have d: "unat (?a - ?l) = unat ?a - unat ?l" "unat ?l \<le> unat ?a"
      by (simp_all add: unat_sub word_le_nat_alt)
    then have al: "unat ?n = round_page (unat ?a - unat ?l)"
      using page_align_round [of "?a - ?l"] assms(3) by simp
    note c = round_page_bounds [of "unat ?a - unat ?l"]
    have "unat ?l + unat ?n = round_page (unat ?a)"
      using al b(3) c d(2) l by (intro round_page_unique [symmetric]) auto
    moreover have "round_page (unat ?a) < 2 ^ 64"
      using round_page_bounds(2) [of "unat ?a"] assms(3) by simp
    ultimately show ?thesis
      by (subst unat_add_lem [THEN iffD1]) simp_all
  qed
  have ge: "initial_break ctx \<le> ?p" "\<not> ?a < initial_break ctx" "\<not> ?a \<le> ?p"
    using assms(1,2) by (auto simp: brk_ok_def)
  show ?thesis
    using assms n ge by (auto simp: Syscall_brk_def Let_def brk_returns_def brk_ok_def split: option.splits)
qed

text \<open>Growth inside the last page asks for a mapping of no bytes.\<close>

lemma brk_inside_page:
  assumes "brk_ok ctx" "program_break ctx < get_guest guest_rdi ctx" "get_guest guest_rdi ctx \<le> last_break_page ctx"
    and "\<And>a. kernel_mmap k a 0 = None"
  shows "Syscall_brk k ctx = Returns (return_break ctx)"
proof -
  let ?a = "get_guest guest_rdi ctx" and ?l = "last_break_page ctx" and ?p = "program_break ctx"
  note b = round_page_bounds [of "unat ?p"]
  have "page_align (?a - ?l) = 0"
    using page_align_below [of "?l - ?a"] assms b
    by (simp add: unat_sub word_le_nat_alt word_less_nat_alt brk_ok_def)
  then show ?thesis
    using assms by (auto simp: Syscall_brk_def Let_def brk_ok_def)
qed

section \<open>Segment bases\<close>

definition prctl :: "u64 \<Rightarrow> u64 \<Rightarrow> ExecutionContext \<Rightarrow> ExecutionContext" where
  "prctl code a ctx = set_guest guest_rsi a (set_guest guest_rdi code ctx)"

lemma prctl_get:
  "get_guest guest_rdi (prctl code a ctx) = code" "get_guest guest_rsi (prctl code a ctx) = a"
  "fs_base (prctl code a ctx) = fs_base ctx" "gs_base (prctl code a ctx) = gs_base ctx"
  by (simp_all add: prctl_def set_guest_def get_guest_def guest_rsi_def guest_rdi_def)

lemma arch_prctl_sets:
  "Syscall_arch_prctl k (prctl arch_set_fs base ctx) =
     Returns (set_guest guest_rax 0 (write_context 8 base base ((prctl arch_set_fs base ctx)\<lparr>fs_base := base\<rparr>)))"
  "Syscall_arch_prctl k (prctl arch_set_gs base ctx) =
     Returns (set_guest guest_rax 0 (write_context 8 base base ((prctl arch_set_gs base ctx)\<lparr>gs_base := base\<rparr>)))"
  by (simp_all add: Syscall_arch_prctl_def prctl_get arch_set_fs_def arch_set_gs_def)

lemma arch_prctl_gets:
  "Syscall_arch_prctl k (prctl arch_get_fs a ctx) =
     Returns (set_guest guest_rax 0 (write_context 8 a (fs_base ctx) (prctl arch_get_fs a ctx)))"
  "Syscall_arch_prctl k (prctl arch_get_gs a ctx) =
     Returns (set_guest guest_rax 0 (write_context 8 a (gs_base ctx) (prctl arch_get_gs a ctx)))"
  by (simp_all add: Syscall_arch_prctl_def prctl_get arch_set_fs_def arch_set_gs_def arch_get_fs_def arch_get_gs_def)

lemma written_context:
  "mload 8 (ctx_mem (set_guest r v (write_context 8 a w ctx))) a = w"
  "get_guest r (set_guest r v ctx) = v"
  "fs_base (set_guest r v (write_context 8 a w ctx)) = fs_base ctx"
  "gs_base (set_guest r v (write_context 8 a w ctx)) = gs_base ctx"
proof -
  have mem: "ctx_mem (set_guest r v (write_context 8 a w ctx)) = mstore 8 (ctx_mem ctx) a w"
    unfolding set_guest_def write_context_def by simp
  show "mload 8 (ctx_mem (set_guest r v (write_context 8 a w ctx))) a = w"
    unfolding mem using mload_mstore_same [of 8 8 "ctx_mem ctx" a w] by simp
qed (simp_all add: set_guest_def get_guest_def write_context_def)

lemma arch_prctl_round_trip:
  assumes "(setter, getter) \<in> {(arch_set_fs, arch_get_fs), (arch_set_gs, arch_get_gs)}"
  shows "\<exists>ctx1 ctx2. Syscall_arch_prctl k (prctl setter base ctx) = Returns ctx1 \<and>
    Syscall_arch_prctl k (prctl getter a ctx1) = Returns ctx2 \<and> mload 8 (ctx_mem ctx2) a = base \<and>
    get_guest guest_rax ctx2 = 0"
  using assms by (elim insertE emptyE; clarsimp simp: arch_prctl_sets arch_prctl_gets written_context)

lemma arch_prctl_unknown:
  assumes "code \<notin> {arch_set_fs, arch_get_fs, arch_set_gs, arch_get_gs}"
  shows "Syscall_arch_prctl k (prctl code a ctx) = Returns (set_guest guest_rax (- 1) (prctl code a ctx))"
  using assms by (simp add: Syscall_arch_prctl_def prctl_get)

section \<open>Dispatch\<close>

definition syscall_numbers_ok :: "(EmulationFn \<Rightarrow> u64) \<Rightarrow> (string \<Rightarrow> int) \<Rightarrow> bool" where
  "syscall_numbers_ok fn SYS \<longleftrightarrow> (\<forall>f. 0x1000 \<le> fn f \<and> fn f \<noteq> - 1) \<and> (\<forall>n. 0 \<le> SYS n \<and> SYS n < 0x1000)"

lemma emulate_syscall_emulated:
  assumes "syscall_numbers_ok fn SYS" "unat (get_guest guest_rax ctx) < length (syscall_map SYS)"
    and "syscall_map SYS ! unat (get_guest guest_rax ctx) = Emulation f"
  shows "emulate_syscall fn SYS k ctx = emulation_fn f k ctx"
proof -
  have "get_guest guest_rax ctx < of_nat (length (syscall_map SYS))"
    using assms(2) by (simp add: word_less_nat_alt syscall_map_def)
  then show ?thesis
    using assms(1,3) by (simp add: emulate_syscall_def Let_def is_valid_def riscv_index_def syscall_numbers_ok_def)
qed

lemma emulate_syscall_unsupported:
  assumes "length (syscall_map SYS) \<le> unat (get_guest guest_rax ctx) \<or>
    syscall_map SYS ! unat (get_guest guest_rax ctx) = Index (- 1)"
  shows "emulate_syscall fn SYS k ctx = Faults (Unsupported_syscall (get_guest guest_rax ctx))"
  using assms
proof
  assume "length (syscall_map SYS) \<le> unat (get_guest guest_rax ctx)"
  then have "\<not> get_guest guest_rax ctx < of_nat (length (syscall_map SYS))"
    by (simp add: word_less_nat_alt syscall_map_def)
  then show ?thesis
    by (simp add: emulate_syscall_def Let_def)
qed (simp add: emulate_syscall_def Let_def is_valid_def riscv_index_def)

end
