(* ===== verification/ArgumentRules.thy ===== *)
theory ArgumentRules
  imports Arguments
begin

text \<open>
  The contracts of the command line: the bounds of the numbers and the invariant they give the stored
  arguments, and the splitting of the guest's arguments, into words and around quotes.
\<close>

section \<open>Numbers\<close>

lemma parse_string_range_iff:
  "parse_string_range strtol str lo hi failure = Inr v \<longleftrightarrow> strtol str = (v, []) \<and> lo \<le> v \<and> v \<le> hi"
  by (auto simp: parse_string_range_def parse_string_min_def parse_string_def split: prod.splits if_splits)

lemma parse_string_min_iff:
  "parse_string_min strtol str lo failure = Inr v \<longleftrightarrow> strtol str = (v, []) \<and> lo \<le> v"
  by (auto simp: parse_string_min_def parse_string_def split: prod.splits if_splits)

text \<open>What the rest of the program relies on.\<close>

definition arguments_ok :: "StoredArguments \<Rightarrow> bool" where
  "arguments_ok args \<longleftrightarrow> debugging args \<le> 2 \<and> stack_size args \<noteq> 0 \<and> instruction_list_size args \<noteq> 0 \<and>
     offset_list_size args \<noteq> 0 \<and> entry_list_size args \<noteq> 0"

text \<open>\<^verbatim>\<open>strtol\<close> returns a \<^verbatim>\<open>long\<close>.\<close>

definition strtol_ok :: "(string \<Rightarrow> int \<times> string) \<Rightarrow> bool" where
  "strtol_ok strtol \<longleftrightarrow> (\<forall>s. - (2 ^ 63) \<le> fst (strtol s) \<and> fst (strtol s) < 2 ^ 63)"

lemma positive_word:
  assumes "strtol_ok strtol" "strtol s = (v, r)" "1 \<le> v"
  shows "(word_of_int v :: u64) \<noteq> 0"
proof -
  have "v < 2 ^ 63"
    using assms(1,2) by (metis fst_conv strtol_ok_def)
  then have "uint (word_of_int v :: u64) = v"
    using assms(3) by (simp add: uint_word_of_int_eq take_bit_int_eq_self)
  then show ?thesis
    using assms(3) by auto
qed

lemma parse_opt_ok:
  assumes "strtol_ok strtol" "arguments_ok args" "parse_opt strtol key arg args = Parsed args'"
  shows "arguments_ok args'"
proof -
  have small: "(word_of_int v :: u8) \<le> 2" if "0 \<le> v" "v \<le> 2" for v :: int
  proof -
    have "v = 0 \<or> v = 1 \<or> v = 2"
      using that by linarith
    then show ?thesis
      by (elim disjE) simp_all
  qed
  show ?thesis
    using assms(2,3) small positive_word [OF assms(1)]
    by (auto simp: parse_opt_def with_number_def arguments_ok_def parse_string_range_iff parse_string_min_iff
        split: option_key.splits if_splits sum.splits)
qed

lemma parse_arguments_ok:
  assumes "strtol_ok strtol" "arguments_ok args" "parse_arguments strtol opts args = Parsed args'"
  shows "arguments_ok args'"
  using assms(2,3) parse_opt_ok [OF assms(1)]
proof (induction opts arbitrary: args)
  case (Cons opt opts)
  then obtain args1 where "parse_opt strtol (fst opt) (snd opt) args = Parsed args1"
    "parse_arguments strtol opts args1 = Parsed args'"
    by (auto split: parse_result.splits)
  then show ?case
    using Cons.IH Cons.prems(1,3) by blast
qed simp

lemma default_arguments_ok: "arguments_ok Arguments_default"
  by (simp add: arguments_ok_def Arguments_default_def)

section \<open>Splitting\<close>

text \<open>The pieces of a string between delimiters.\<close>

primrec pieces :: "char \<Rightarrow> string \<Rightarrow> string list" where
  "pieces d [] = [[]]"
| "pieces d (c # s) =
    (if c = d then [] # pieces d s
     else (case pieces d s of [] \<Rightarrow> [[c]] | p # ps \<Rightarrow> (c # p) # ps))"

lemma pieces_unfold:
  "pieces d s = (let p = takeWhile (\<lambda>c. c \<noteq> d) s in
     if d \<in> set s then p # pieces d (drop (length p + 1) s) else [s])"
  by (induction s) (auto simp: Let_def)

abbreviation quote :: char where "quote \<equiv> CHR 0x22"

lemma not_open: "quote \<notin> set t \<Longrightarrow> \<not> open_quote t"
  by (simp add: open_quote_def find_first_of_def npos_def)

lemma add_token_plain:
  assumes "\<forall>t\<in>set tokens. quote \<notin> set t"
  shows "add_token d tokens t = tokens @ filter (\<lambda>t. t \<noteq> []) [t]"
  using assms not_open by (auto simp: add_token_def)

lemma split_from_plain:
  assumes "quote \<notin> set rest" "\<forall>t\<in>set tokens. quote \<notin> set t"
  shows "split_from d rest tokens = tokens @ filter (\<lambda>t. t \<noteq> []) (pieces d rest)"
  using assms
proof (induction d rest tokens rule: split_from.induct)
  case (1 d rest tokens)
  let ?t = "takeWhile (\<lambda>c. c \<noteq> d) rest"
  have t: "quote \<notin> set ?t" "quote \<notin> set (drop (length ?t + 1) rest)"
    using "1.prems"(1) by (auto dest: set_takeWhileD in_set_dropD)
  have tokens: "add_token d tokens ?t = tokens @ filter (\<lambda>t. t \<noteq> []) [?t]"
    by (rule add_token_plain [OF "1.prems"(2)])
  show ?case
  proof (cases "d \<in> set rest")
    case True
    have "split_from d rest tokens = split_from d (drop (length ?t + 1) rest) (add_token d tokens ?t)"
      using True by (subst split_from.simps) (simp add: Let_def)
    also have "\<dots> = add_token d tokens ?t @ filter (\<lambda>t. t \<noteq> []) (pieces d (drop (length ?t + 1) rest))"
      using "1.IH" [OF refl refl True] t "1.prems"(2) tokens by auto
    finally show ?thesis
      using True by (subst pieces_unfold) (simp add: tokens Let_def)
  next
    case False
    then have "?t = rest"
      by (auto simp: takeWhile_eq_all_conv)
    then show ?thesis
      using False tokens by (subst split_from.simps, subst pieces_unfold) (simp only: Let_def if_False)
  qed
qed

lemma string_split_plain:
  "quote \<notin> set str \<Longrightarrow> string_split str d = filter (\<lambda>t. t \<noteq> []) (pieces d str)"
  by (simp add: string_split_def split_from_plain)

text \<open>A quoted argument is one token, whatever delimiters it contains.\<close>

lemma open_prefix:
  assumes "quote \<notin> set u" "CHR 0x5C \<notin> set u" "length u + 1 < 2 ^ 64"
  shows "open_quote (quote # u)"
proof -
  have "takeWhile (\<lambda>x. x \<noteq> quote) (rev (quote # u)) = rev u"
    using assms(1) by (auto simp: takeWhile_append2 takeWhile_tail takeWhile_eq_all_conv)
  then have last: "find_last_of quote (quote # u) = 0"
    by (simp add: find_last_of_def)
  have "u \<noteq> [] \<Longrightarrow> (0 :: u64) \<noteq> of_nat (length (quote # u)) - 1"
  proof -
    assume "u \<noteq> []"
    moreover have "unat (of_nat (length u) :: u64) = length u"
      using assms(3) by (simp add: unat_of_nat take_bit_nat_eq_self)
    ultimately show ?thesis
      by auto
  qed
  then show ?thesis
    using assms(2) last
    by (cases "u = []") (auto simp: open_quote_def find_first_of_def string_length_def find_last_of_def npos_def)
qed

lemma split_from_quoted:
  assumes "d \<noteq> quote" "d \<noteq> CHR 0x5C" "quote \<notin> set u" "CHR 0x5C \<notin> set u" "quote \<notin> set v" "CHR 0x5C \<notin> set v"
    and "length u + length v + 2 < 2 ^ 64"
  shows "split_from d (v @ [quote]) (ts @ [quote # u]) = ts @ [quote # u @ d # v @ [quote]]"
  using assms(3-7)
proof (induction "length v" arbitrary: u v rule: less_induct)
  case less
  have add: "add_token d (ts @ [quote # u]) t = ts @ [quote # u @ d # t]" for t
    using open_prefix [of u] less.prems by (simp add: add_token_def)
  show ?case
  proof (cases "d \<in> set v")
    case True
    then obtain v1 v2 where v: "v = v1 @ d # v2" "d \<notin> set v1"
      by (meson split_list_first)
    have tw: "takeWhile (\<lambda>c. c \<noteq> d) (v @ [quote]) = v1"
      using v by (auto simp: takeWhile_append2 takeWhile_tail)
    have "split_from d (v @ [quote]) (ts @ [quote # u]) = split_from d (v2 @ [quote]) (ts @ [quote # u @ d # v1])"
      using v(1) by (subst split_from.simps) (simp add: Let_def tw [unfolded v(1), simplified] add)
    also have "\<dots> = ts @ [quote # (u @ d # v1) @ d # v2 @ [quote]]"
      using less.hyps [of v2 "u @ d # v1"] less.prems v assms(1,2) by auto
    finally show ?thesis
      by (simp add: v(1))
  next
    case False
    then have "takeWhile (\<lambda>c. c \<noteq> d) (v @ [quote]) = v @ [quote]"
      using assms(1) by (auto simp: takeWhile_eq_all_conv)
    then show ?thesis
      using False assms(1) by (subst split_from.simps) (simp add: Let_def add)
  qed
qed

lemma string_split_quoted:
  assumes "d \<noteq> quote" "d \<noteq> CHR 0x5C" "quote \<notin> set w" "CHR 0x5C \<notin> set w" "length w + 2 < 2 ^ 64"
  shows "string_split (quote # w @ [quote]) d = [quote # w @ [quote]]"
proof (cases "d \<in> set w")
  case True
  then obtain w1 w2 where w: "w = w1 @ d # w2" "d \<notin> set w1"
    by (meson split_list_first)
  have tw: "takeWhile (\<lambda>c. c \<noteq> d) (quote # w @ [quote]) = quote # w1"
    using w assms(1) by (auto simp: takeWhile_append2 takeWhile_tail)
  have "string_split (quote # w @ [quote]) d = split_from d (w2 @ [quote]) [quote # w1]"
    using w(1) tw assms(1) unfolding string_split_def
    by (subst split_from.simps) (auto simp: Let_def add_token_def)
  then show ?thesis
    using split_from_quoted [of d w1 w2 "[]"] w assms by simp
next
  case False
  then have "takeWhile (\<lambda>c. c \<noteq> d) (quote # w @ [quote]) = quote # w @ [quote]"
    using assms(1) by (auto simp: takeWhile_eq_all_conv)
  then show ?thesis
    using False assms(1) unfolding string_split_def
    by (subst split_from.simps) (auto simp: Let_def add_token_def)
qed

end
