(* ===== verification/FlagUpdates.thy ===== *)
theory FlagUpdates
  imports FlagEval
begin

text \<open>
  What generated code changes: registers, and bytes of the execution context, given by their offsets.
  The cells of each flag are the bytes its recorded value is kept in; an update changes the cells of
  its flag only, and leaves the flag with the value x86 gives it.
\<close>

section \<open>Frames\<close>

definition frame :: "RiscVRegister set \<Rightarrow> nat set \<Rightarrow> rv_state \<Rightarrow> rv_state \<Rightarrow> bool" where
  "frame R C s t \<longleftrightarrow> (\<forall>r. r \<notin> R \<longrightarrow> rget r t = rget r s) \<and>
     (\<forall>a. unat (a - rget s11 s) \<notin> C \<longrightarrow> rv_mem t a = rv_mem s a)"

lemma keeps_frame: "keeps R s t \<Longrightarrow> frame R C s t"
  by (auto simp: frame_def keeps_def)

lemma frame_refl [simp]: "frame R C s s"
  by (simp add: frame_def)

lemma frame_trans:
  "frame R C s t \<Longrightarrow> frame R' C' t u \<Longrightarrow> s11 \<notin> R \<Longrightarrow> frame (R \<union> R') (C \<union> C') s u"
  by (simp add: frame_def)

lemma frame_mono: "frame R C s t \<Longrightarrow> R \<subseteq> R' \<Longrightarrow> C \<subseteq> C' \<Longrightarrow> frame R' C' s t"
  unfolding frame_def by blast

lemma frame_rget: "frame R C s t \<Longrightarrow> r \<notin> R \<Longrightarrow> rget r t = rget r s"
  by (simp add: frame_def)

lemma frame_rset: "frame R C s t \<Longrightarrow> r \<in> R \<Longrightarrow> frame R C s (rset r v t)"
  by (auto simp: frame_def rv_simps)

lemma frame_store:
  assumes "frame R C s t" "{off..<off + n} \<subseteq> C" "off + n < 2 ^ 64"
  shows "frame R C s (store n (rget s11 s + of_nat off) v t)"
proof -
  have "mstore n (rv_mem t) (rget s11 s + of_nat off) v a = rv_mem t a"
    if a: "unat (a - rget s11 s) \<notin> C" for a
  proof -
    have "\<not> unat (a - (rget s11 s + of_nat off)) < n"
    proof
      let ?d = "a - (rget s11 s + of_nat off)"
      assume lt: "unat ?d < n"
      have o: "unat (of_nat off :: u64) = off"
        using assms(3) by (simp add: unat_of_nat take_bit_nat_eq_self)
      have "a - rget s11 s = of_nat off + ?d"
        by simp
      also have "unat \<dots> = off + unat ?d"
        using lt assms(3) o by (subst unat_add_lem [THEN iffD1]) simp_all
      finally have "unat (a - rget s11 s) \<in> {off..<off + n}"
        using lt by simp
      then show False
        using a assms(2) by blast
    qed
    then show ?thesis
      by (simp add: mstore_apply)
  qed
  then show ?thesis
    using assms(1) by (simp add: frame_def rv_simps)
qed

lemma unat_of_nat_small: "n < 2 ^ 64 \<Longrightarrow> unat (of_nat n :: u64) = n"
  by (simp add: unat_of_nat take_bit_nat_eq_self)

lemma mload_cong:
  "(\<And>i. i < n \<Longrightarrow> m (a + of_nat i) = m' (a + of_nat i)) \<Longrightarrow> mload n m a = mload n m' a"
proof (induction n arbitrary: a)
  case (Suc n)
  have "m (a + 1 + of_nat i) = m' (a + 1 + of_nat i)" if "i < n" for i
    using Suc.prems [of "Suc i"] that by (simp add: algebra_simps)
  then show ?case
    using Suc.IH [of "a + 1"] Suc.prems [of 0] by simp
qed simp

lemma frame_flag_word:
  assumes "frame R C s t" "s11 \<notin> R" "{off..<off + n} \<inter> C = {}" "off + n < 2 ^ 64"
  shows "flag_word n off t = flag_word n off s"
proof -
  have eq: "rv_mem t (rget s11 s + of_nat off + of_nat i) = rv_mem s (rget s11 s + of_nat off + of_nat i)"
    if "i < n" for i
  proof -
    have "unat (rget s11 s + of_nat off + of_nat i - rget s11 s) = off + i"
      using unat_of_nat_small [of "off + i"] that assms(4) by simp
    moreover have "off + i \<in> {off..<off + n}"
      using that by simp
    ultimately show ?thesis
      using assms(1,3) by (metis disjoint_iff frame_def)
  qed
  show ?thesis
    unfolding flag_word_def load_def frame_rget [OF assms(1,2)] using eq by (rule mload_cong)
qed

lemma flag_word_narrow: "m \<le> n \<Longrightarrow> flag_word m off s = take_bit (8 * m) (flag_word n off s)"
  unfolding flag_word_def load_def by (rule bit_word_eqI) (auto simp: bit_simps bit_mload)

section \<open>Cells\<close>

definition zero_cells :: "nat set" where "zero_cells = {0x200..<0x208}"
definition sign_cells :: "nat set" where "sign_cells = {0x208..<0x210} \<union> {0x244..<0x245}"
definition parity_cells :: "nat set" where "parity_cells = {0x245..<0x246}"
definition overflow_cells :: "nat set" where
  "overflow_cells = {0x210..<0x220} \<union> {0x230..<0x238} \<union> {0x240..<0x242}"
definition carry_cells :: "nat set" where
  "carry_cells = {0x220..<0x230} \<union> {0x238..<0x240} \<union> {0x242..<0x244}"

lemmas cells_defs = zero_cells_def sign_cells_def parity_cells_def overflow_cells_def
  carry_cells_def

lemma cells_disjoint [simp]:
  "zero_cells \<inter> sign_cells = {}" "zero_cells \<inter> parity_cells = {}"
  "zero_cells \<inter> overflow_cells = {}" "zero_cells \<inter> carry_cells = {}"
  "sign_cells \<inter> parity_cells = {}" "sign_cells \<inter> overflow_cells = {}"
  "sign_cells \<inter> carry_cells = {}" "parity_cells \<inter> overflow_cells = {}"
  "parity_cells \<inter> carry_cells = {}" "overflow_cells \<inter> carry_cells = {}"
  by (auto simp: cells_defs)

text \<open>The bytes of some cells are the same in two states.\<close>

definition same_cells :: "nat set \<Rightarrow> rv_state \<Rightarrow> rv_state \<Rightarrow> bool" where
  "same_cells C s t \<longleftrightarrow> (\<forall>off n. {off..<off + n} \<subseteq> C \<longrightarrow> flag_word n off t = flag_word n off s)"

lemma frame_same_cells:
  assumes "frame R C s t" "s11 \<notin> R" "C \<inter> D = {}" "D \<subseteq> {..<0x1000}"
  shows "same_cells D s t"
  unfolding same_cells_def
proof (intro allI impI)
  fix off n assume sub: "{off..<off + n} \<subseteq> D"
  show "flag_word n off t = flag_word n off s"
  proof (cases "n = 0")
    case True
    then show ?thesis
      by (simp add: flag_word_def load_def)
  next
    case False
    then have "off + n - 1 \<in> D"
      using sub by auto
    then have "off + n < 2 ^ 64"
      using assms(4) by fastforce
    then show ?thesis
      using frame_flag_word [OF assms(1,2)] sub assms(3) by blast
  qed
qed

lemma same_cells_trans: "same_cells C s t \<Longrightarrow> same_cells C t u \<Longrightarrow> same_cells C s u"
  by (simp add: same_cells_def)

lemma cells_small:
  "zero_cells \<subseteq> {..<0x1000}" "sign_cells \<subseteq> {..<0x1000}" "parity_cells \<subseteq> {..<0x1000}"
  "overflow_cells \<subseteq> {..<0x1000}" "carry_cells \<subseteq> {..<0x1000}"
  by (auto simp: cells_defs)

text \<open>The flags are determined by their cells; for carry and overflow this is part of the value.\<close>

lemma zero_flag_same: "same_cells zero_cells s t \<Longrightarrow> zero_flag t = zero_flag s"
  by (simp add: same_cells_def zero_flag_def zero_cells_def flag_offsets)

lemma sign_flag_same: "same_cells sign_cells s t \<Longrightarrow> sign_flag t = sign_flag s"
  by (simp add: same_cells_def sign_flag_def sign_cells_def flag_offsets)

lemma parity_flag_same: "same_cells parity_cells s t \<Longrightarrow> parity_flag t = parity_flag s"
  by (simp add: same_cells_def parity_flag_def parity_cells_def flag_offsets)

text \<open>
  \<open>records_carry b s\<close>: the carry cells of \<open>s\<close> record the value \<open>b\<close>, by the offset of a routine that
  computes it, and do so in every state with the same cells.
\<close>

definition records_carry :: "bool \<Rightarrow> rv_state \<Rightarrow> bool" where
  "records_carry b s \<longleftrightarrow> (\<forall>t. same_cells carry_cells s t \<longrightarrow>
     carry_flag t = Some b \<and> offset_ok carry_operation_offset t)"

definition records_overflow :: "bool \<Rightarrow> rv_state \<Rightarrow> bool" where
  "records_overflow b s \<longleftrightarrow> (\<forall>t. same_cells overflow_cells s t \<longrightarrow>
     overflow_flag t = Some b \<and> offset_ok overflow_operation_offset t)"

lemma records_flags:
  "records_carry b s \<Longrightarrow> carry_flag s = Some b" "records_overflow b s \<Longrightarrow> overflow_flag s = Some b"
  by (auto simp: records_carry_def records_overflow_def same_cells_def)

lemma records_same:
  "records_carry b s \<Longrightarrow> same_cells carry_cells s t \<Longrightarrow> records_carry b t"
  "records_overflow b s \<Longrightarrow> same_cells overflow_cells s t \<Longrightarrow> records_overflow b t"
  by (auto simp: records_carry_def records_overflow_def dest: same_cells_trans)

definition carry_word :: "nat \<Rightarrow> rv_state \<Rightarrow> u64" where
  "carry_word k s = flag_word 8 (carry_values_offset + 8 * k) s"

definition overflow_word :: "nat \<Rightarrow> rv_state \<Rightarrow> u64" where
  "overflow_word k s = flag_word 8 (overflow_values_offset + 8 * k) s"

lemma value_word:
  assumes "n \<le> 8"
  shows "carry_value n k s = take_bit (8 * n) (carry_word k s)"
    "overflow_value n k s = take_bit (8 * n) (overflow_word k s)"
  unfolding carry_value_def overflow_value_def carry_word_def overflow_word_def
    flag_word_def [symmetric] by (rule flag_word_narrow [OF assms])+

lemma same_cellsD:
  "same_cells C s t \<Longrightarrow> {off..<off + n} \<subseteq> C \<Longrightarrow> flag_word n off t = flag_word n off s"
  by (simp add: same_cells_def)

lemma carry_word_same:
  "same_cells carry_cells s t \<Longrightarrow> k < 2 \<Longrightarrow> carry_word k t = carry_word k s"
  unfolding carry_word_def
  by (erule same_cellsD) (auto simp: carry_cells_def flag_offsets less_2_cases_iff)

lemma overflow_word_same:
  "same_cells overflow_cells s t \<Longrightarrow> k < 2 \<Longrightarrow> overflow_word k t = overflow_word k s"
  unfolding overflow_word_def
  by (erule same_cellsD) (auto simp: overflow_cells_def flag_offsets less_2_cases_iff)

text \<open>The table offset of an entry.\<close>

definition entry_word :: "Entry \<Rightarrow> u64" where
  "entry_word e = push_bit 2 (ucast e)"

lemma entry_bits: "e < 0x100 \<Longrightarrow> bit e n \<Longrightarrow> n < 8" for e :: Entry
  using take_bit_self_iff [of 8 e] bit_take_bit_iff [of 8 e n] by simp

lemma entry_word_entry: "e < 0x100 \<Longrightarrow> ucast (drop_bit 2 (entry_word e)) = e"
  unfolding entry_word_def by (rule bit_word_eqI) (auto simp: bit_simps)

lemma entry_word_ok:
  assumes "e < 0x100"
  shows "entry_word e AND 3 = 0 \<and> entry_word e < 0x1000"
proof
  have "entry_word e AND 3 = take_bit 2 (entry_word e)"
    by (simp add: take_bit_eq_mask mask_eq_exp_minus_1)
  then show "entry_word e AND 3 = 0"
    by (simp add: entry_word_def take_bit_push_bit)
  have "take_bit 12 (entry_word e) = entry_word e"
    unfolding entry_word_def
    by (rule bit_word_eqI) (auto simp: bit_simps dest: entry_bits [OF assms])
  then show "entry_word e < 0x1000"
    using take_bit_self_iff [of 12 "entry_word e"] by simp
qed

lemma sext12_entry:
  assumes "e < 0x100"
  shows "sext12 (e * 4) = entry_word (e :: Entry)"
proof -
  have "e * 4 = push_bit 2 e"
    by (simp add: push_bit_eq_mult)
  then show ?thesis
    unfolding entry_word_def
    by (intro bit_word_eqI) (auto simp: bit_simps min_def dest: entry_bits [OF assms])
qed

lemma take_entry_word: "e < 0x100 \<Longrightarrow> take_bit 16 (entry_word e) = entry_word e"
  unfolding entry_word_def by (intro bit_word_eqI) (auto simp: bit_simps dest: entry_bits)

lemma records_carryI:
  assumes "flag_word 2 carry_operation_offset s = entry_word e" "e < 0x100"
    and "\<And>t. carry_word 0 t = carry_word 0 s \<Longrightarrow> carry_word 1 t = carry_word 1 s \<Longrightarrow>
      \<exists>u. routine e t = Some u \<and> rget t4 u = of_bool b \<and> keeps {t4, t5, t6} t u"
  shows "records_carry b s"
  unfolding records_carry_def
proof (intro allI impI)
  fix t assume same: "same_cells carry_cells s t"
  have "flag_word 2 carry_operation_offset t = entry_word e"
    using same assms(1) by (simp add: same_cells_def carry_cells_def flag_offsets)
  then show "carry_flag t = Some b \<and> offset_ok carry_operation_offset t"
    using assms(3) [of t] carry_word_same [OF same] entry_word_entry [OF assms(2)]
      entry_word_ok [OF assms(2)]
    by (auto simp: carry_flag_def routine_flag_def offset_ok_def)
qed

lemma records_overflowI:
  assumes "flag_word 2 overflow_operation_offset s = entry_word e" "e < 0x100"
    and "\<And>t. overflow_word 0 t = overflow_word 0 s \<Longrightarrow> overflow_word 1 t = overflow_word 1 s \<Longrightarrow>
      \<exists>u. routine e t = Some u \<and> rget t4 u = of_bool b \<and> keeps {t4, t5, t6} t u"
  shows "records_overflow b s"
  unfolding records_overflow_def
proof (intro allI impI)
  fix t assume same: "same_cells overflow_cells s t"
  have "flag_word 2 overflow_operation_offset t = entry_word e"
    using same assms(1) by (simp add: same_cells_def overflow_cells_def flag_offsets)
  then show "overflow_flag t = Some b \<and> offset_ok overflow_operation_offset t"
    using assms(3) [of t] overflow_word_same [OF same] entry_word_entry [OF assms(2)]
      entry_word_ok [OF assms(2)]
    by (auto simp: overflow_flag_def routine_flag_def offset_ok_def)
qed

section \<open>Updates\<close>

lemma frame_store_numeral:
  assumes "frame R C s t" "{numeral k..<numeral k + n} \<subseteq> C" "numeral k + n < (2 ^ 64 :: nat)"
  shows "frame R C s (store n (rget s11 s + numeral k) v t)"
  using frame_store [OF assms] by simp

lemma load_store_narrow:
  "n < k \<Longrightarrow> load k a (store n a v s) = (load k a s AND NOT (mask (8 * n))) OR take_bit (8 * n) v"
  by (simp add: load_def store_def mem_simps)

lemma load_store_apart:
  assumes "j + n \<le> i \<or> i + k \<le> j" "i \<noteq> j" "i + k < 2 ^ 64" "j + n < 2 ^ 64"
  shows "load k (a + of_nat i) (store n (a + of_nat j) v s) = load k (a + of_nat i) s"
proof (rule load_store_disjoint)
  have less: "unat (of_nat x - of_nat y :: u64) = x - y \<and>
      unat (of_nat y - of_nat x :: u64) = 2 ^ 64 - (x - y)" if "y < x" "x < 2 ^ 64" for x y :: nat
  proof
    have eq: "(of_nat x - of_nat y :: u64) = of_nat (x - y)"
      using that by (simp add: of_nat_diff)
    show "unat (of_nat x - of_nat y :: u64) = x - y"
      unfolding eq by (rule unat_of_nat_small) (use that in simp)
    have "(of_nat y - of_nat x :: u64) = of_nat (2 ^ 64 - (x - y))"
      using eq that by (simp add: of_nat_diff)
    then show "unat (of_nat y - of_nat x :: u64) = 2 ^ 64 - (x - y)"
      using that unat_of_nat_small [of "2 ^ 64 - (x - y)"] by (simp del: of_nat_diff)
  qed
  consider "j < i" | "i < j"
    using assms(2) by linarith
  then show "n \<le> unat (a + of_nat i - (a + of_nat j))" "k \<le> unat (a + of_nat j - (a + of_nat i))"
    using assms less [of j i] less [of i j] by (cases; simp)+
qed

lemmas load_store_apart_numeral =
  load_store_apart [of "numeral j" n "numeral i" for i j n, simplified]

lemmas update_simps = runs_iff rv_simps reserved_regs flag_offsets load_store_same load_store_narrow
  frame_store_numeral store_rset frame_rset load_store_apart_numeral

lemma update_zero_runs:
  assumes "valid_size sz"
  shows "\<exists>t. runs (update_zero inst va sz) s t \<and>
    frame {} (if updates flags_zero inst then zero_cells else {}) s t \<and>
    (updates flags_zero inst \<longrightarrow> (zero_flag t \<longleftrightarrow> take_bit (8 * sz) (rget va s) = 0))"
  by (rule valid_size_cases [OF assms];
      simp add: update_zero_def update_simps zero_cells_def zero_flag_def flag_word_def)

lemma update_sign_runs:
  assumes "valid_size sz" "temp \<noteq> zero" "temp \<noteq> s11" "temp \<noteq> va"
  shows "\<exists>t. runs (update_sign inst va sz temp) s t \<and>
    frame {temp} (if updates flags_sign inst then sign_cells else {}) s t \<and>
    (updates flags_sign inst \<longrightarrow> (sign_flag t \<longleftrightarrow> bit (rget va s) (8 * sz - 1)))"
  using assms(2-4)
  by (rule_tac valid_size_cases [OF assms(1)];
      simp add: update_sign_def update_simps sign_cells_def sign_flag_def flag_word_def)

lemma update_parity_runs:
  "\<exists>t. runs (update_parity inst va) s t \<and>
    frame {} (if updates flags_parity inst then parity_cells else {}) s t \<and>
    (updates flags_parity inst \<longrightarrow>
      (parity_flag t \<longleftrightarrow> even (\<Sum>i<8. of_bool (bit (rget va s) i) :: nat)))"
  by (simp add: update_parity_def update_simps parity_cells_def parity_flag_def even_bits8
      flag_word_def bit_take_bit_iff del: sum_of_bool_eq)

text \<open>Carry and overflow: what an update leaves in the cells, by the operands it is given.\<close>

definition or_old :: "RiscVRegister option \<Rightarrow> rv_state \<Rightarrow> u64 \<Rightarrow> u64" where
  "or_old v s w = (case v of Some r \<Rightarrow> rget r s | None \<Rightarrow> w)"

lemma value_cells [simp]:
  "{544..<552} \<subseteq> carry_cells" "{552..<560} \<subseteq> carry_cells" "{568..<576} \<subseteq> carry_cells"
  "{578..<580} \<subseteq> carry_cells"
  "{528..<536} \<subseteq> overflow_cells" "{536..<544} \<subseteq> overflow_cells" "{560..<568} \<subseteq> overflow_cells"
  "{576..<578} \<subseteq> overflow_cells"
  by (auto simp: cells_defs)

lemma update_carry_runs:
  assumes "\<And>e. entry = Some e \<Longrightarrow> e < 0x100" "\<And>e. entry = Some e \<Longrightarrow> temp \<noteq> zero"
    "\<And>e. entry = Some e \<Longrightarrow> temp \<noteq> s11"
    "\<And>e. entry = Some e \<Longrightarrow> va \<noteq> Some temp" "\<And>e. entry = Some e \<Longrightarrow> vb \<noteq> Some temp"
  shows "\<exists>t. runs (update_carry inst entry va vb temp) s t \<and>
    frame (if entry = None then {} else {temp}) (if updates flags_carry inst then carry_cells else {}) s t \<and>
    (updates flags_carry inst \<longrightarrow>
      flag_word 2 carry_operation_offset t =
        (case entry of Some e \<Rightarrow> entry_word e | None \<Rightarrow> flag_word 2 carry_operation_offset s) \<and>
      carry_word 0 t = or_old va s (carry_word 0 s) \<and> carry_word 1 t = or_old vb s (carry_word 1 s))"
  using assms
  by (cases entry; cases va; cases vb;
      simp add: update_carry_def store_entry_def store_value_def update_simps or_old_def
        carry_word_def flag_word_def sext12_entry take_entry_word)

lemma update_overflow_runs:
  assumes "\<And>e. entry = Some e \<Longrightarrow> e < 0x100" "\<And>e. entry = Some e \<Longrightarrow> temp \<noteq> zero"
    "\<And>e. entry = Some e \<Longrightarrow> temp \<noteq> s11"
    "\<And>e. entry = Some e \<Longrightarrow> va \<noteq> Some temp" "\<And>e. entry = Some e \<Longrightarrow> vb \<noteq> Some temp"
  shows "\<exists>t. runs (update_overflow inst entry va vb temp) s t \<and>
    frame (if entry = None then {} else {temp}) (if updates flags_overflow inst then overflow_cells else {}) s t \<and>
    (updates flags_overflow inst \<longrightarrow>
      flag_word 2 overflow_operation_offset t =
        (case entry of Some e \<Rightarrow> entry_word e | None \<Rightarrow> flag_word 2 overflow_operation_offset s) \<and>
      overflow_word 0 t = or_old va s (overflow_word 0 s) \<and>
      overflow_word 1 t = or_old vb s (overflow_word 1 s))"
  using assms
  by (cases entry; cases va; cases vb;
      simp add: update_overflow_def store_entry_def store_value_def update_simps or_old_def
        overflow_word_def flag_word_def sext12_entry take_entry_word)

lemma entries_small:
  assumes "valid_size sz" "e < 0x80"
  shows "e + size_index sz < 0x100"
proof -
  have "size_index sz \<le> 3"
    by (rule valid_size_cases [OF assms(1)]; simp add: size_index_def)
  then show ?thesis
    using assms(2) by (simp add: word_less_nat_alt word_le_nat_alt unat_word_ariths)
qed

lemma calculate_entries_runs:
  assumes "valid_size sz"
  shows "runs_val (calculate_entries c v sz) s (c + size_index sz, v + size_index sz) s"
  by (rule valid_size_cases [OF assms];
      simp add: calculate_entries_def size_index_def runs_val_ret runs_val_ret [of "(_, _)", simplified])

text \<open>A flag whose routine computes \<open>f\<close> from the two recorded values.\<close>

lemma records_carry_routine:
  assumes "flag_word 2 carry_operation_offset s = entry_word e" "e < 0x100"
    and "\<And>t. \<exists>u. routine e t = Some u \<and> rget t4 u = of_bool (f (carry_word 0 t) (carry_word 1 t)) \<and>
      keeps {t4, t5, t6} t u"
  shows "records_carry (f (carry_word 0 s) (carry_word 1 s)) s"
  by (rule records_carryI [OF assms(1,2)]) (metis assms(3))

lemma records_overflow_routine:
  assumes "flag_word 2 overflow_operation_offset s = entry_word e" "e < 0x100"
    and "\<And>t. \<exists>u. routine e t = Some u \<and>
      rget t4 u = of_bool (f (overflow_word 0 t) (overflow_word 1 t)) \<and> keeps {t4, t5, t6} t u"
  shows "records_overflow (f (overflow_word 0 s) (overflow_word 1 s)) s"
  by (rule records_overflowI [OF assms(1,2)]) (metis assms(3))

text \<open>The flags a set or cleared carry or overflow records.\<close>

lemma constant_flags:
  "flag_word 2 carry_operation_offset s = entry_word Entry_carry_clear \<Longrightarrow> records_carry False s"
  "flag_word 2 carry_operation_offset s = entry_word Entry_carry_set \<Longrightarrow> records_carry True s"
  "flag_word 2 overflow_operation_offset s = entry_word Entry_overflow_clear \<Longrightarrow> records_overflow False s"
  "flag_word 2 overflow_operation_offset s = entry_word Entry_overflow_set \<Longrightarrow> records_overflow True s"
  by (erule records_carryI records_overflowI; simp add: routine_simps)+

text \<open>The x86 meaning of carry and overflow of an addition and a subtraction.\<close>

definition add_carry :: "nat \<Rightarrow> u64 \<Rightarrow> u64 \<Rightarrow> bool" where
  "add_carry sz x y \<longleftrightarrow> 2 ^ (8 * sz) \<le> uval sz x + uval sz y"

definition add_overflow :: "nat \<Rightarrow> u64 \<Rightarrow> u64 \<Rightarrow> bool" where
  "add_overflow sz x y \<longleftrightarrow> \<not> sfits sz (sval sz x + sval sz y)"

definition sub_carry :: "nat \<Rightarrow> u64 \<Rightarrow> u64 \<Rightarrow> bool" where
  "sub_carry sz x y \<longleftrightarrow> uval sz x < uval sz y"

definition sub_overflow :: "nat \<Rightarrow> u64 \<Rightarrow> u64 \<Rightarrow> bool" where
  "sub_overflow sz x y \<longleftrightarrow> \<not> sfits sz (sval sz x - sval sz y)"

lemma valid_size_bound: "valid_size sz \<Longrightarrow> 0 < sz \<and> sz \<le> 8"
  by (auto simp: valid_size_def)

lemma uval_take: "uint (take_bit (8 * sz) v) = uval sz v"
  by (simp add: uval_def unsigned_take_bit_eq)

lemma uval_bounds: "0 \<le> uval sz v" "uval sz v < 2 ^ (8 * sz)"
  by (simp_all add: uval_def)

lemma uval_arith:
  assumes "sz \<le> 8"
  shows "uval sz (x + y) = (uval sz x + uval sz y) mod 2 ^ (8 * sz)"
    "uval sz (x - y) = (uval sz x - uval sz y) mod 2 ^ (8 * sz)"
proof -
  have "(2 :: int) ^ (8 * sz) dvd 2 ^ 64"
    using assms by (intro le_imp_power_dvd) simp
  then have cancel: "k mod 2 ^ 64 mod 2 ^ (8 * sz) = k mod 2 ^ (8 * sz)" for k :: int
    by (rule mod_mod_cancel)
  show "uval sz (x + y) = (uval sz x + uval sz y) mod 2 ^ (8 * sz)"
    "uval sz (x - y) = (uval sz x - uval sz y) mod 2 ^ (8 * sz)"
    using cancel by (simp_all add: uval_def uint_word_ariths take_bit_eq_mod mod_simps)
qed

lemma mod_two_cases:
  fixes a b m :: int
  assumes "0 \<le> a" "a < m" "0 \<le> b" "b < m"
  shows "(a + b) mod m = (if a + b < m then a + b else a + b - m)"
    "(a - b) mod m = (if b \<le> a then a - b else a - b + m)"
proof -
  show "(a + b) mod m = (if a + b < m then a + b else a + b - m)"
    using assms by (auto simp: mod_add_if_z)
  show "(a - b) mod m = (if b \<le> a then a - b else a - b + m)"
    using assms mod_add_self2 [of "a - b" m] mod_pos_pos_trivial [of "a - b + m" m] by auto
qed

lemma carry_of_sum:
  assumes "sz \<le> 8"
  shows "take_bit (8 * sz) (x + y) < take_bit (8 * sz) y \<longleftrightarrow> add_carry sz x y"
    "take_bit (8 * sz) (x + y) < take_bit (8 * sz) x \<longleftrightarrow> add_carry sz x y"
    "take_bit (8 * sz) x < take_bit (8 * sz) (x - y) \<longleftrightarrow> sub_carry sz x y"
  unfolding word_less_def uval_take uval_arith [OF assms] add_carry_def sub_carry_def
  using uval_bounds [of sz x] uval_bounds [of sz y] by (auto simp: mod_two_cases)

lemma sval_signed: "sval sz v = signed_take_bit (8 * sz - 1) (sint v)" if "valid_size sz"
  by (rule valid_size_cases [OF that]; simp add: sval_def sint_signed_take(3))
    (metis signed_take_bit_int_eq_self sint_range64 minus_le_iff)

lemma sval_take [simp]: "valid_size sz \<Longrightarrow> sval sz (take_bit (8 * sz) v) = sval sz v"
  by (erule valid_size_cases; simp add: sval_def signed_take_bit_take_bit)

lemma add_flags:
  assumes "valid_size sz"
  shows "flag_word 2 carry_operation_offset s = entry_word (Entry_carry_add + size_index sz) \<Longrightarrow>
      records_carry (take_bit (8 * sz) (carry_word 1 s) < take_bit (8 * sz) (carry_word 0 s)) s"
    "flag_word 2 overflow_operation_offset s = entry_word (Entry_overflow_add + size_index sz) \<Longrightarrow>
      records_overflow (add_overflow sz (overflow_word 1 s) (overflow_word 0 s)) s"
    "flag_word 2 overflow_operation_offset s = entry_word (Entry_overflow_sub + size_index sz) \<Longrightarrow>
      records_overflow (sub_overflow sz (overflow_word 1 s) (overflow_word 0 s)) s"
    "flag_word 2 overflow_operation_offset s = entry_word (Entry_overflow_add_pos + size_index sz) \<Longrightarrow>
      records_overflow (sval sz (overflow_word 1 s) < sval sz (overflow_word 0 s)) s"
    "flag_word 2 overflow_operation_offset s = entry_word (Entry_overflow_add_neg + size_index sz) \<Longrightarrow>
      records_overflow (sval sz (overflow_word 0 s) < sval sz (overflow_word 1 s)) s"
proof -
  note w = value_word [of sz] valid_size_bound [OF assms] sval_take [OF assms] add_overflow_def
    sub_overflow_def add.commute
  have small: "Entry_carry_add + size_index sz < 0x100" "Entry_overflow_add + size_index sz < 0x100"
    "Entry_overflow_sub + size_index sz < 0x100" "Entry_overflow_add_pos + size_index sz < 0x100"
    "Entry_overflow_add_neg + size_index sz < 0x100"
    by (intro entries_small [OF assms]; simp add: Entry_defs)+
  show "flag_word 2 carry_operation_offset s = entry_word (Entry_carry_add + size_index sz) \<Longrightarrow>
      records_carry (take_bit (8 * sz) (carry_word 1 s) < take_bit (8 * sz) (carry_word 0 s)) s"
    by (erule records_carry_routine [where f = "\<lambda>a b. take_bit (8 * sz) b < take_bit (8 * sz) a"])
      (use small carry_add_routine [OF assms] in \<open>simp_all add: w split del: split_of_bool\<close>)
  show "flag_word 2 overflow_operation_offset s = entry_word (Entry_overflow_add + size_index sz) \<Longrightarrow>
      records_overflow (add_overflow sz (overflow_word 1 s) (overflow_word 0 s)) s"
    by (erule records_overflow_routine [where f = "\<lambda>a b. add_overflow sz b a"])
      (use small overflow_add_routine [OF assms] in \<open>simp_all add: w split del: split_of_bool\<close>)
  show "flag_word 2 overflow_operation_offset s = entry_word (Entry_overflow_sub + size_index sz) \<Longrightarrow>
      records_overflow (sub_overflow sz (overflow_word 1 s) (overflow_word 0 s)) s"
    by (erule records_overflow_routine [where f = "\<lambda>a b. sub_overflow sz b a"])
      (use small overflow_sub_routine [OF assms] in \<open>simp_all add: w split del: split_of_bool\<close>)
  show "flag_word 2 overflow_operation_offset s = entry_word (Entry_overflow_add_pos + size_index sz) \<Longrightarrow>
      records_overflow (sval sz (overflow_word 1 s) < sval sz (overflow_word 0 s)) s"
    by (erule records_overflow_routine [where f = "\<lambda>a b. sval sz b < sval sz a"])
      (use small overflow_add_pos_routine [OF assms] in \<open>simp_all add: w split del: split_of_bool\<close>)
  show "flag_word 2 overflow_operation_offset s = entry_word (Entry_overflow_add_neg + size_index sz) \<Longrightarrow>
      records_overflow (sval sz (overflow_word 0 s) < sval sz (overflow_word 1 s)) s"
    by (erule records_overflow_routine [where f = "\<lambda>a b. sval sz a < sval sz b"])
      (use small overflow_add_neg_routine [OF assms] in \<open>simp_all add: w split del: split_of_bool\<close>)
qed

lemma sval_bounds:
  assumes "valid_size sz"
  shows "- (2 ^ (8 * sz - 1)) \<le> sval sz v" "sval sz v < 2 ^ (8 * sz - 1)"
  unfolding sval_signed [OF assms]
  by (simp_all add: signed_take_bit_int_greater_eq_minus_exp signed_take_bit_int_less_exp)

lemma mod_wrap:
  fixes j m :: int
  assumes "- m \<le> j" "j < 2 * m"
  shows "j mod m = (if j < 0 then j + m else if j < m then j else j - m)"
proof (cases "j < 0")
  case True
  have "j mod m = (j + m) mod m"
    by simp
  also have "\<dots> = j + m"
    using True assms by (intro mod_pos_pos_trivial) auto
  finally show ?thesis
    using True by simp
next
  case False
  have "j mod m = (j - m) mod m"
    by simp
  also have "m \<le> j \<Longrightarrow> \<dots> = j - m"
    using assms by (intro mod_pos_pos_trivial) auto
  finally show ?thesis
    using False by (cases "j < m") simp_all
qed

lemma signed_wrap:
  fixes k :: int
  assumes "- (2 ^ Suc n) \<le> k" "k < 2 ^ Suc n"
  shows "signed_take_bit n k =
    (if - (2 ^ n) \<le> k \<and> k < 2 ^ n then k else if k < 0 then k + 2 ^ Suc n else k - 2 ^ Suc n)"
proof -
  have p: "(0 :: int) < 2 ^ n" "(2 :: int) ^ Suc n = 2 * 2 ^ n"
    by simp_all
  have "signed_take_bit n k = (k + 2 ^ n) mod 2 ^ Suc n - 2 ^ n"
    by (simp add: signed_take_bit_eq_take_bit_shift take_bit_eq_mod)
  also have "(k + 2 ^ n) mod 2 ^ Suc n = (if k + 2 ^ n < 0 then k + 2 ^ n + 2 ^ Suc n
      else if k + 2 ^ n < 2 ^ Suc n then k + 2 ^ n else k + 2 ^ n - 2 ^ Suc n)"
    by (rule mod_wrap) (use assms p in linarith)+
  finally show ?thesis
    using p by (simp split: if_splits; linarith)
qed

lemma sval_arith:
  assumes "valid_size sz"
  shows "sval sz (x + y) = signed_take_bit (8 * sz - 1) (sval sz x + sval sz y)"
    "sval sz (x - y) = signed_take_bit (8 * sz - 1) (sval sz x - sval sz y)"
proof -
  have le: "8 * sz - 1 \<le> 63"
    using valid_size_bound [OF assms] by linarith
  have "signed_take_bit (8 * sz - 1) (signed_take_bit 63 k) = signed_take_bit (8 * sz - 1) k" for k :: int
    using le by (simp add: signed_take_bit_signed_take_bit min_def)
  then show "sval sz (x + y) = signed_take_bit (8 * sz - 1) (sval sz x + sval sz y)"
    "sval sz (x - y) = signed_take_bit (8 * sz - 1) (sval sz x - sval sz y)"
    unfolding sval_signed [OF assms]
    by (simp_all add: sint_word_ariths signed_take_bit_add signed_take_bit_diff)
qed

lemma overflow_of_sum:
  assumes "valid_size sz"
  shows "0 \<le> sval sz y \<Longrightarrow> sval sz (x + y) < sval sz x \<longleftrightarrow> add_overflow sz x y"
    "sval sz y < 0 \<Longrightarrow> sval sz x < sval sz (x + y) \<longleftrightarrow> add_overflow sz x y"
    "0 \<le> sval sz y \<Longrightarrow> sval sz x < sval sz (x - y) \<longleftrightarrow> sub_overflow sz x y"
    "sval sz y < 0 \<Longrightarrow> sval sz (x - y) < sval sz x \<longleftrightarrow> sub_overflow sz x y"
proof -
  have two: "(2 :: int) ^ Suc (8 * sz - 1) = 2 * 2 ^ (8 * sz - 1)"
    by simp
  note b = sval_bounds [OF assms, of x] sval_bounds [OF assms, of y]
  note simps = sval_arith [OF assms] signed_wrap two add_overflow_def sub_overflow_def sfits_def
  show "0 \<le> sval sz y \<Longrightarrow> sval sz (x + y) < sval sz x \<longleftrightarrow> add_overflow sz x y"
    "sval sz y < 0 \<Longrightarrow> sval sz x < sval sz (x + y) \<longleftrightarrow> add_overflow sz x y"
    "0 \<le> sval sz y \<Longrightarrow> sval sz x < sval sz (x - y) \<longleftrightarrow> sub_overflow sz x y"
    "sval sz y < 0 \<Longrightarrow> sval sz (x - y) < sval sz x \<longleftrightarrow> sub_overflow sz x y"
    using b by (simp_all add: simps; linarith)+
qed

end
