(* ===== verification/Executors.thy ===== *)
theory Executors
  imports FlagUpdates Operations
begin

text \<open>
  What a translated instruction does to a register operand, and the contract that the binary
  operations share. \<open>register_operand\<close> are the operands that name an x86 register, the high bytes
  included; \<open>flag_results\<close> says that the flags an instruction updates are those of its result. The
  locale \<open>binary_executor\<close> has the two abstract methods of \<^verbatim>\<open>BinaryOperation\<close> as its operations and
  their effect as its laws, and gives the effect of the whole instruction.
\<close>

section \<open>Register operands\<close>

definition register_operand :: "Operand \<Rightarrow> bool" where
  "register_operand op \<longleftrightarrow> op_type op = op_reg \<and>
    (if op_register_type op = rt_gph then op_size op = 1 \<and> 4 \<le> op_register op \<and> op_register op < 8
     else op_register op < 16 \<and> valid_size (op_size op))"

definition op_access :: "Operand \<Rightarrow> nat" where
  "op_access op = (if op_register_type op = rt_gph then 0 else op_size op)"

definition op_reg_of :: "Operand \<Rightarrow> RiscVRegister" where
  "op_reg_of op = map_reg_typed (op_register op) (op_register_type op)"

definition operand_value :: "Operand \<Rightarrow> rv_state \<Rightarrow> u64" where
  "operand_value op s = x86_read (op_access op) (rget (op_reg_of op) s)"

lemma x86_registers:
  "r \<in> set register_mapping \<Longrightarrow>
   r \<noteq> zero \<and> r \<noteq> ra \<and> r \<noteq> t0 \<and> r \<noteq> t1 \<and> r \<noteq> t2 \<and> r \<noteq> t3 \<and> r \<noteq> t4 \<and> r \<noteq> t5 \<and> r \<noteq> t6 \<and> r \<noteq> s10 \<and> r \<noteq> s11"
  by (auto simp: register_mapping_def)

lemma op_reg_of_mapped:
  assumes "register_operand op"
  shows "op_reg_of op \<in> set register_mapping"
proof -
  have "unat (if op_register_type op = rt_gph then op_register op - 4 else op_register op) < 16"
    using assms by (auto simp: register_operand_def word_less_nat_alt word_le_nat_alt unat_sub split: if_splits)
  moreover have "length register_mapping = 16"
    by (simp add: register_mapping_def)
  ultimately show ?thesis
    by (auto simp: op_reg_of_def map_reg_typed_def map_reg_high_def map_reg_def)
qed

lemmas op_reg_distinct = x86_registers [OF op_reg_of_mapped]

lemma register_operand_access:
  "register_operand op \<Longrightarrow> valid_access (op_access op) \<and> valid_size (op_size op) \<and>
     max 1 (op_access op) = op_size op \<and> op_type op = op_reg \<and> (4 \<le> op_size op \<longrightarrow> op_access op = op_size op)"
  by (auto simp: register_operand_def op_access_def valid_access_def valid_size_def)

lemma source_register_runs:
  assumes "register_operand op" "temp \<noteq> zero"
  shows "\<exists>r t. runs_val (translate_operand inst op temp temp' False False False False) s (r, zero) t \<and>
    keeps {temp} s t \<and> r \<in> {op_reg_of op, temp} \<and> take_bit (8 * op_size op) (rget r t) = operand_value op s"
proof -
  note a = register_operand_access [OF assms(1)]
  obtain r t where "runs_val (load_from_register (op_reg_of op) (op_access op) temp False False False) s r t"
    "r \<in> {op_reg_of op, temp}" "keeps {temp} s t" "take_bit (8 * op_size op) (rget r t) = operand_value op s"
    using load_from_register_runs [OF assms(2), of "op_access op" "op_reg_of op" False False False s] a
    unfolding operand_value_def by metis
  then show ?thesis
    using a by (auto simp: translate_operand_def op_reg_of_def op_access_def Let_def
        intro!: exI runs_val_bind runs_val_ret)
qed

lemma dest_register_runs:
  assumes "register_operand op" "temp \<noteq> zero"
  shows "\<exists>t. runs_val (translate_operand inst op temp temp' True False False True) s
      (if 4 \<le> op_size op then op_reg_of op else temp, zero) t \<and>
    keeps {temp} s t \<and>
    take_bit (8 * op_size op) (rget (if 4 \<le> op_size op then op_reg_of op else temp) t) = operand_value op s"
proof (cases "4 \<le> op_size op")
  case True
  then show ?thesis
    using register_operand_access [OF assms(1)]
    by (intro exI [of _ s]) (auto simp: translate_operand_def op_reg_of_def operand_value_def x86_read_def Let_def
        intro: runs_val_ret)
next
  case False
  note a = register_operand_access [OF assms(1)]
  obtain t where "runs_val (load_from_register (op_reg_of op) (op_access op) temp True False False) s temp t"
    "keeps {temp} s t" "take_bit (8 * op_size op) (rget temp t) = operand_value op s"
    using load_from_register_runs [OF assms(2), of "op_access op" "op_reg_of op" True False False s] a
    unfolding operand_value_def by metis
  then show ?thesis
    using a False by (auto simp: translate_operand_def op_reg_of_def op_access_def Let_def
        intro!: exI runs_val_bind runs_val_ret)
qed

lemma write_back_runs:
  assumes "register_operand (get_operand 0 inst)" "op = get_operand 0 inst" "temp \<noteq> zero" "temp \<notin> set register_mapping"
    "r = op_reg_of op \<and> 4 \<le> op_size op \<or> r \<noteq> op_reg_of op \<and> r \<noteq> temp"
  shows "\<exists>t. runs (translate_destination inst r zero temp temp') s t \<and>
    rget (op_reg_of op) t = x86_write (op_access op) (rget (op_reg_of op) s) (rget r s) \<and>
    keeps {op_reg_of op, temp} s t"
proof -
  note a = register_operand_access [OF assms(1)] op_reg_of_mapped [OF assms(1)] op_reg_distinct [OF assms(1)]
  show ?thesis
  proof (cases "op_size op = 8 \<and> r = op_reg_of op")
    case True
    then show ?thesis
      using a assms(2) by (intro exI [of _ s])
        (auto simp: translate_destination_def x86_write_def op_reg_of_def Let_def intro: runs_skip)
  next
    case False
    have "valid_access (op_access op)" "r \<noteq> op_reg_of op \<or> op_access op \<in> {4, 8}"
      using a(1) assms(2,5) by (auto simp: valid_size_def)
    then obtain t where "runs (move_to_register (op_reg_of op) r (op_access op) temp False) s t"
      "rget (op_reg_of op) t = x86_write (op_access op) (rget (op_reg_of op) s) (rget r s)"
      "keeps {op_reg_of op, temp} s t"
      using move_to_register_runs [of "op_reg_of op" temp r "op_access op" False s] a assms by auto
    then show ?thesis
      using a False assms(2) by (intro exI [of _ t])
        (auto simp: translate_destination_def op_reg_of_def op_access_def Let_def)
  qed
qed

section \<open>Results\<close>

text \<open>
  \<open>flag_results inst sz v c ov t\<close>: the flags that \<open>inst\<close> updates are those of the result \<open>v\<close>, with
  carry \<open>c\<close> and overflow \<open>ov\<close>. The cells of the other flags are not touched.
\<close>

definition flag_results :: "Instruction \<Rightarrow> nat \<Rightarrow> u64 \<Rightarrow> bool \<Rightarrow> bool \<Rightarrow> rv_state \<Rightarrow> bool" where
  "flag_results inst sz v c ov t \<longleftrightarrow>
     (updates flags_zero inst \<longrightarrow> (zero_flag t \<longleftrightarrow> take_bit (8 * sz) v = 0)) \<and>
     (updates flags_sign inst \<longrightarrow> (sign_flag t \<longleftrightarrow> bit v (8 * sz - 1))) \<and>
     (updates flags_parity inst \<longrightarrow> (parity_flag t \<longleftrightarrow> even (\<Sum>i<8. of_bool (bit v i) :: nat))) \<and>
     (updates flags_carry inst \<longrightarrow> records_carry c t) \<and>
     (updates flags_overflow inst \<longrightarrow> records_overflow ov t)"

definition carry_overflow_cells :: "Instruction \<Rightarrow> nat set" where
  "carry_overflow_cells inst =
     (if updates flags_carry inst then carry_cells else {}) \<union>
     (if updates flags_overflow inst then overflow_cells else {})"

definition value_cells :: "Instruction \<Rightarrow> nat set" where
  "value_cells inst =
     (if updates flags_zero inst then zero_cells else {}) \<union>
     (if updates flags_sign inst then sign_cells else {}) \<union>
     (if updates flags_parity inst then parity_cells else {})"

definition updated_cells :: "Instruction \<Rightarrow> nat set" where
  "updated_cells inst = carry_overflow_cells inst \<union> value_cells inst"

lemmas cells_disjoint' [simp] = cells_disjoint [THEN trans [OF Int_commute]]

lemma value_cells_apart [simp]:
  "value_cells inst \<inter> carry_cells = {}" "value_cells inst \<inter> overflow_cells = {}"
  by (simp_all add: value_cells_def Int_Un_distrib2)

lemma frame_records:
  assumes "frame R C s t" "s11 \<notin> R"
  shows "C \<inter> carry_cells = {} \<Longrightarrow> records_carry b s \<Longrightarrow> records_carry b t"
    "C \<inter> overflow_cells = {} \<Longrightarrow> records_overflow b s \<Longrightarrow> records_overflow b t"
  by (erule (1) records_same(1) [OF _ frame_same_cells [OF assms _ cells_small(5)]]
      records_same(2) [OF _ frame_same_cells [OF assms _ cells_small(4)]])+

lemma record_value_runs:
  assumes "valid_size sz" "temp \<noteq> zero" "temp \<noteq> s11" "temp \<noteq> r"
  shows "\<exists>t. runs (do { update_zero inst r sz; update_sign inst r sz temp; update_parity inst r }) s t \<and>
    frame {temp} (value_cells inst) s t \<and>
    (updates flags_zero inst \<longrightarrow> (zero_flag t \<longleftrightarrow> take_bit (8 * sz) (rget r s) = 0)) \<and>
    (updates flags_sign inst \<longrightarrow> (sign_flag t \<longleftrightarrow> bit (rget r s) (8 * sz - 1))) \<and>
    (updates flags_parity inst \<longrightarrow> (parity_flag t \<longleftrightarrow> even (\<Sum>i<8. of_bool (bit (rget r s) i) :: nat)))"
proof -
  let ?Z = "if updates flags_zero inst then zero_cells else {}"
  let ?S = "if updates flags_sign inst then sign_cells else {}"
  let ?P = "if updates flags_parity inst then parity_cells else {}"
  obtain s1 where s1: "runs (update_zero inst r sz) s s1" "frame {} ?Z s s1"
    "updates flags_zero inst \<longrightarrow> (zero_flag s1 \<longleftrightarrow> take_bit (8 * sz) (rget r s) = 0)"
    using update_zero_runs [OF assms(1)] by blast
  obtain s2 where s2: "runs (update_sign inst r sz temp) s1 s2" "frame {temp} ?S s1 s2"
    "updates flags_sign inst \<longrightarrow> (sign_flag s2 \<longleftrightarrow> bit (rget r s1) (8 * sz - 1))"
    using update_sign_runs [OF assms] by blast
  obtain t where t: "runs (update_parity inst r) s2 t" "frame {} ?P s2 t"
    "updates flags_parity inst \<longrightarrow> (parity_flag t \<longleftrightarrow> even (\<Sum>i<8. of_bool (bit (rget r s2) i) :: nat))"
    using update_parity_runs by blast
  have r: "rget r s1 = rget r s" "rget r s2 = rget r s"
    using s1(2) s2(2) assms(4) by (simp_all add: frame_def)
  have f: "frame {temp} (?Z \<union> ?S) s s2" "frame {temp} (?S \<union> ?P) s1 t"
    using frame_trans [OF s1(2) s2(2)] frame_trans [OF s2(2) t(2)] assms(3) by simp_all
  have "frame {temp} (value_cells inst) s t"
    using frame_trans [OF f(1) t(2)] assms(3) by (simp add: value_cells_def)
  moreover have "zero_flag t = zero_flag s1"
    by (rule zero_flag_same [OF frame_same_cells [OF f(2)]]) (use assms(3) cells_small in \<open>simp_all add: Int_Un_distrib2\<close>)
  moreover have "sign_flag t = sign_flag s2"
    by (rule sign_flag_same [OF frame_same_cells [OF t(2)]]) (use cells_small in simp_all)
  ultimately show ?thesis
    using s1 s2 t r runs_comp [OF s1(1) runs_comp [OF s2(1) t(1)]] by auto
qed

lemma flag_results_cong:
  assumes "flag_results inst sz v c ov t" "take_bit (8 * sz) v = take_bit (8 * sz) w" "valid_size sz"
  shows "flag_results inst sz w c ov t"
proof -
  have "bit v i = bit w i" if "i < 8 * sz" for i
    using that assms(2) by (metis bit_take_bit_iff)
  moreover have "8 * sz - 1 < 8 * sz" "8 \<le> 8 * sz"
    using valid_size_bound [OF assms(3)] by simp_all
  ultimately show ?thesis
    using assms(1,2) by (simp add: flag_results_def)
qed

text \<open>The last part of a binary operation: flags of the result, and the result itself.\<close>

lemma finish_runs:
  assumes "register_operand op" "op = get_operand 0 inst"
    and "r = (if 4 \<le> op_size op then op_reg_of op else t0)"
    and "updates flags_carry inst \<Longrightarrow> records_carry c s"
    and "updates flags_overflow inst \<Longrightarrow> records_overflow ov s" and tmp: "tmp \<in> {t2, t3}"
  shows "\<exists>t. runs (do {
      update_zero inst r (op_size op);
      update_sign inst r (op_size op) tmp;
      update_parity inst r;
      translate_destination inst r zero t2 t3 }) s t \<and>
    rget (op_reg_of op) t = x86_write (op_access op) (rget (op_reg_of op) s) (rget r s) \<and>
    frame {op_reg_of op, t2, t3} (value_cells inst) s t \<and>
    flag_results inst (op_size op) (rget r s) c ov t"
proof -
  note d = op_reg_distinct [OF assms(1)] op_reg_of_mapped [OF assms(1)]
  have r: "r \<noteq> tmp" "r \<noteq> t2" "r \<noteq> t3"
    using d assms(3) tmp by auto
  obtain u where u: "runs (do { update_zero inst r (op_size op); update_sign inst r (op_size op) tmp;
        update_parity inst r }) s u" "frame {t2, t3} (value_cells inst) s u"
    "updates flags_zero inst \<longrightarrow> (zero_flag u \<longleftrightarrow> take_bit (8 * op_size op) (rget r s) = 0)"
    "updates flags_sign inst \<longrightarrow> (sign_flag u \<longleftrightarrow> bit (rget r s) (8 * op_size op - 1))"
    "updates flags_parity inst \<longrightarrow> (parity_flag u \<longleftrightarrow> even (\<Sum>i<8. of_bool (bit (rget r s) i) :: nat))"
  proof -
    obtain u where "runs (do { update_zero inst r (op_size op); update_sign inst r (op_size op) tmp;
        update_parity inst r }) s u" "frame {tmp} (value_cells inst) s u"
      "updates flags_zero inst \<longrightarrow> (zero_flag u \<longleftrightarrow> take_bit (8 * op_size op) (rget r s) = 0)"
      "updates flags_sign inst \<longrightarrow> (sign_flag u \<longleftrightarrow> bit (rget r s) (8 * op_size op - 1))"
      "updates flags_parity inst \<longrightarrow> (parity_flag u \<longleftrightarrow> even (\<Sum>i<8. of_bool (bit (rget r s) i) :: nat))"
      using record_value_runs [of "op_size op" tmp r inst s] r register_operand_access [OF assms(1)] tmp
      by auto
    then show thesis
      using that frame_mono [of "{tmp}" "value_cells inst" s u "{t2, t3}" "value_cells inst"] tmp by blast
  qed
  obtain t where t: "runs (translate_destination inst r zero t2 t3) u t"
    "rget (op_reg_of op) t = x86_write (op_access op) (rget (op_reg_of op) u) (rget r u)"
    "keeps {op_reg_of op, t2} u t"
  proof -
    have "t2 \<notin> set register_mapping"
      by (simp add: register_mapping_def)
    moreover have "r = op_reg_of op \<and> 4 \<le> op_size op \<or> r \<noteq> op_reg_of op \<and> r \<noteq> t2"
      using assms(3) d by auto
    ultimately show thesis
      using write_back_runs [of inst op t2 r t3 u] assms(1,2) that by auto
  qed
  have k: "frame {op_reg_of op, t2} {} u t"
    by (rule keeps_frame [OF t(3)])
  have "runs (do { update_zero inst r (op_size op); update_sign inst r (op_size op) tmp;
      update_parity inst r; translate_destination inst r zero t2 t3 }) s t"
    using runs_comp [OF u(1) t(1)] by simp
  moreover have "rget (op_reg_of op) u = rget (op_reg_of op) s" "rget r u = rget r s"
    using u(2) d r by (simp_all add: frame_def)
  moreover have "frame {op_reg_of op, t2, t3} (value_cells inst) s t"
    using frame_trans [OF u(2) k] by (auto intro: frame_mono)
  moreover have "same_cells C u t" if "C \<subseteq> {..<0x1000}" for C
    by (rule frame_same_cells [OF k]) (use that d in auto)
  then have "flag_results inst (op_size op) (rget r s) c ov t"
    using u assms(4,5) cells_small zero_flag_same [of u t] sign_flag_same [of u t] parity_flag_same [of u t]
      frame_records [OF u(2)] records_same [of _ u t]
    unfolding flag_results_def by (metis insertE empty_iff value_cells_apart RiscVRegister.distinct)
  ultimately show ?thesis
    using t(2) by auto
qed

lemma x86_write_cong:
  assumes "valid_access access" "take_bit (8 * max 1 access) v = take_bit (8 * max 1 access) w"
    "access \<in> {4, 8} \<or> d = d'"
  shows "x86_write access d v = x86_write access d' w"
  using assms by (auto simp: valid_access_def x86_write_def)

text \<open>
  A binary operation on a destination register, from the state in which the source is available:
  \<open>g\<close> is the code of the operation, \<open>v\<close> its result, \<open>c\<close> and \<open>ov\<close> its carry and overflow.
\<close>

lemma destination_runs:
  assumes op: "register_operand op" "op = get_operand 0 inst" and tmp: "tmp \<in> {t2, t3}"
    and exec: "\<And>u d. d = (if 4 \<le> op_size op then op_reg_of op else t0) \<Longrightarrow> keeps {t0} s u \<Longrightarrow>
      take_bit (8 * op_size op) (rget d u) = operand_value op s \<Longrightarrow>
      \<exists>t. runs (g d) u t \<and> frame {d, t4} (carry_overflow_cells inst) u t \<and>
        take_bit (8 * op_size op) (rget d t) = take_bit (8 * op_size op) v \<and>
        (updates flags_carry inst \<longrightarrow> records_carry c t) \<and>
        (updates flags_overflow inst \<longrightarrow> records_overflow ov t)"
  shows "\<exists>t. runs (do {
      (d, address) \<leftarrow> translate_operand inst op t0 t1 True False False True;
      g d;
      update_zero inst d (op_size op);
      update_sign inst d (op_size op) tmp;
      update_parity inst d;
      translate_destination inst d address t2 t3 }) s t \<and>
    rget (op_reg_of op) t = x86_write (op_access op) (rget (op_reg_of op) s) v \<and>
    frame {op_reg_of op, t0, t2, t3, t4} (updated_cells inst) s t \<and>
    flag_results inst (op_size op) v c ov t"
proof -
  note d = op_reg_distinct [OF op(1)] and a = register_operand_access [OF op(1)]
  define r where "r = (if 4 \<le> op_size op then op_reg_of op else t0)"
  obtain u where u: "runs_val (translate_operand inst op t0 t1 True False False True) s (r, zero) u"
    "keeps {t0} s u" "take_bit (8 * op_size op) (rget r u) = operand_value op s"
    using dest_register_runs [OF op(1), of t0 inst t1 s] unfolding r_def by auto
  obtain w where w: "runs (g r) u w" "frame {r, t4} (carry_overflow_cells inst) u w"
    "take_bit (8 * op_size op) (rget r w) = take_bit (8 * op_size op) v"
    "updates flags_carry inst \<longrightarrow> records_carry c w"
    "updates flags_overflow inst \<longrightarrow> records_overflow ov w"
    using exec [OF r_def u(2,3)] by auto
  obtain t where t: "runs (do { update_zero inst r (op_size op); update_sign inst r (op_size op) tmp;
        update_parity inst r; translate_destination inst r zero t2 t3 }) w t"
    "rget (op_reg_of op) t = x86_write (op_access op) (rget (op_reg_of op) w) (rget r w)"
    "frame {op_reg_of op, t2, t3} (value_cells inst) w t"
    "flag_results inst (op_size op) (rget r w) c ov t"
    using finish_runs [OF op r_def, of c w ov tmp] w(4,5) tmp by auto
  have rs: "s11 \<notin> {r, t4}" "s11 \<notin> {t0}"
    using d by (auto simp: r_def)
  have "frame ({t0} \<union> {r, t4} \<union> {op_reg_of op, t2, t3}) ({} \<union> carry_overflow_cells inst \<union> value_cells inst) s t"
    using frame_trans [OF frame_trans [OF keeps_frame [OF u(2), of "{}"] w(2)] t(3)] rs by simp
  then have "frame {op_reg_of op, t0, t2, t3, t4} (updated_cells inst) s t"
    by (rule frame_mono) (auto simp: r_def updated_cells_def)
  moreover have "rget (op_reg_of op) t = x86_write (op_access op) (rget (op_reg_of op) s) v"
  proof -
    have "rget (op_reg_of op) w = rget (op_reg_of op) s \<or> op_access op \<in> {4, 8}"
    proof (cases "4 \<le> op_size op")
      case True
      then show ?thesis
        using a by (auto simp: valid_size_def)
    next
      case False
      then show ?thesis
        using d frame_rget [OF w(2), of "op_reg_of op"] keeps_rget [OF u(2), of "op_reg_of op"]
        by (simp add: r_def)
    qed
    then show ?thesis
      unfolding t(2) using a w(3) by (intro x86_write_cong) auto
  qed
  moreover have "flag_results inst (op_size op) v c ov t"
    using flag_results_cong [OF t(4) w(3)] a by simp
  moreover have "runs (do {
      (d, address) \<leftarrow> translate_operand inst op t0 t1 True False False True;
      g d;
      update_zero inst d (op_size op);
      update_sign inst d (op_size op) tmp;
      update_parity inst d;
      translate_destination inst d address t2 t3 }) s t"
    by (rule runs_bind [OF u(1)]) (simp add: runs_comp [OF w(1) t(1)])
  ultimately show ?thesis
    by blast
qed

section \<open>The contract of a binary operation\<close>

locale binary_executor =
  fixes execute_reg :: execute_reg and execute_imm :: execute_imm
    and result :: "u64 \<Rightarrow> u64 \<Rightarrow> u64"
    and carries overflows :: "nat \<Rightarrow> u64 \<Rightarrow> u64 \<Rightarrow> bool"
    and aliasing :: bool
  assumes result_low: "valid_size sz \<Longrightarrow> take_bit (8 * sz) x = take_bit (8 * sz) x' \<Longrightarrow>
      take_bit (8 * sz) y = take_bit (8 * sz) y' \<Longrightarrow>
      take_bit (8 * sz) (result x y) = take_bit (8 * sz) (result x' y')"
    and flags_low: "valid_size sz \<Longrightarrow> take_bit (8 * sz) x = take_bit (8 * sz) x' \<Longrightarrow>
      take_bit (8 * sz) y = take_bit (8 * sz) y' \<Longrightarrow>
      carries sz x y = carries sz x' y' \<and> overflows sz x y = overflows sz x' y'"
    and reg: "valid_size (op_size (get_operand 0 inst)) \<Longrightarrow> op_size (get_operand 0 inst) = sz \<Longrightarrow>
      dst \<notin> {zero, t4, s11} \<Longrightarrow> src \<notin> {zero, t4, s11} \<Longrightarrow> dst \<noteq> src \<or> aliasing \<Longrightarrow>
      \<exists>t. runs (execute_reg inst dst src) s t \<and>
        frame {dst, t4} (carry_overflow_cells inst) s t \<and>
        rget dst t = result (rget dst s) (rget src s) \<and>
        (updates flags_carry inst \<longrightarrow> records_carry (carries sz (rget dst s) (rget src s)) t) \<and>
        (updates flags_overflow inst \<longrightarrow> records_overflow (overflows sz (rget dst s) (rget src s)) t)"
    and imm: "valid_size (op_size (get_operand 0 inst)) \<Longrightarrow> op_size (get_operand 0 inst) = sz \<Longrightarrow>
      dst \<notin> {zero, t4, s11} \<Longrightarrow> fits_imm12 k \<Longrightarrow> sval sz k = sint k \<Longrightarrow>
      \<exists>t. runs (execute_imm inst dst k) s t \<and>
        frame {dst, t4} (carry_overflow_cells inst) s t \<and>
        rget dst t = result (rget dst s) k \<and>
        (updates flags_carry inst \<longrightarrow> records_carry (carries sz (rget dst s) k) t) \<and>
        (updates flags_overflow inst \<longrightarrow> records_overflow (overflows sz (rget dst s) k) t)"
begin


text \<open>The instruction, with a destination register and a translated source of value \<open>y\<close>.\<close>

lemma generate_source:
  assumes op: "register_operand op" "op = get_operand 0 inst"
    and src: "op_type (get_operand 1 inst) \<noteq> op_imm \<or> \<not> fits_imm12 (inst_imm inst)"
      "runs_val (translate_operand inst (get_operand 1 inst) t2 t3 False False False False) s (r, ad) u"
      "keeps {t2, t3} s u" "take_bit (8 * op_size op) (rget r u) = take_bit (8 * op_size op) y"
    and r: "r \<notin> {zero, t0, t4, s11}" "r = op_reg_of op \<and> 4 \<le> op_size op \<longrightarrow> aliasing"
  shows "\<exists>t. runs (BinaryOperation_generate True execute_reg execute_imm inst) s t \<and>
    rget (op_reg_of op) t =
      x86_write (op_access op) (rget (op_reg_of op) s) (result (operand_value op s) y) \<and>
    frame {op_reg_of op, t0, t2, t3, t4} (updated_cells inst) s t \<and>
    flag_results inst (op_size op) (result (operand_value op s) y)
      (carries (op_size op) (operand_value op s) y) (overflows (op_size op) (operand_value op s) y) t"
proof -
  let ?x = "operand_value op s"
  note d = op_reg_distinct [OF op(1)] and a = register_operand_access [OF op(1)]
  have same: "rget (op_reg_of op) u = rget (op_reg_of op) s"
    using keeps_rget [OF src(3)] d by simp
  then have x: "operand_value op u = ?x"
    by (simp add: operand_value_def)
  have "\<exists>t. runs (do {
      (d, address) \<leftarrow> translate_operand inst op t0 t1 True False False True;
      execute_reg inst d r;
      update_zero inst d (op_size op);
      update_sign inst d (op_size op) t3;
      update_parity inst d;
      translate_destination inst d address t2 t3 }) u t \<and>
    rget (op_reg_of op) t = x86_write (op_access op) (rget (op_reg_of op) u) (result ?x y) \<and>
    frame {op_reg_of op, t0, t2, t3, t4} (updated_cells inst) u t \<and>
    flag_results inst (op_size op) (result ?x y) (carries (op_size op) ?x y) (overflows (op_size op) ?x y) t"
  proof (rule destination_runs [OF op, of t3])
    show "t3 \<in> {t2, t3}"
      by simp
  next
    fix w d'
    assume d': "d' = (if 4 \<le> op_size op then op_reg_of op else t0)" and k: "keeps {t0} u w"
      and val: "take_bit (8 * op_size op) (rget d' w) = operand_value op u"
    have y: "take_bit (8 * op_size op) (rget r w) = take_bit (8 * op_size op) y"
      using keeps_rget [OF k, of r] r(1) src(4) by simp
    have x': "take_bit (8 * op_size op) (rget d' w) = take_bit (8 * op_size op) ?x"
      unfolding x [symmetric] val [symmetric] by simp
    obtain t where t: "runs (execute_reg inst d' r) w t" "frame {d', t4} (carry_overflow_cells inst) w t"
      "rget d' t = result (rget d' w) (rget r w)"
      "updates flags_carry inst \<longrightarrow> records_carry (carries (op_size op) (rget d' w) (rget r w)) t"
      "updates flags_overflow inst \<longrightarrow> records_overflow (overflows (op_size op) (rget d' w) (rget r w)) t"
    proof -
      have "valid_size (op_size (get_operand 0 inst))" "op_size (get_operand 0 inst) = op_size op"
        using a op(2) by simp_all
      moreover have "d' \<notin> {zero, t4, s11}" "r \<notin> {zero, t4, s11}" "d' \<noteq> r \<or> aliasing"
        using d d' r by auto
      ultimately show thesis
        using reg [of inst "op_size op" d' r w] that by blast
    qed
    show "\<exists>t. runs (execute_reg inst d' r) w t \<and> frame {d', t4} (carry_overflow_cells inst) w t \<and>
        take_bit (8 * op_size op) (rget d' t) = take_bit (8 * op_size op) (result ?x y) \<and>
        (updates flags_carry inst \<longrightarrow> records_carry (carries (op_size op) ?x y) t) \<and>
        (updates flags_overflow inst \<longrightarrow> records_overflow (overflows (op_size op) ?x y) t)"
      using t flags_low [OF _ x' y] a result_low [OF _ x' y] by auto
  qed
  then obtain t where t: "runs (do {
      (d, address) \<leftarrow> translate_operand inst op t0 t1 True False False True;
      execute_reg inst d r;
      update_zero inst d (op_size op);
      update_sign inst d (op_size op) t3;
      update_parity inst d;
      translate_destination inst d address t2 t3 }) u t"
    "rget (op_reg_of op) t = x86_write (op_access op) (rget (op_reg_of op) s) (result ?x y)"
    "frame {op_reg_of op, t0, t2, t3, t4} (updated_cells inst) u t"
    "flag_results inst (op_size op) (result ?x y) (carries (op_size op) ?x y) (overflows (op_size op) ?x y) t"
    using same by auto
  have "frame {op_reg_of op, t0, t2, t3, t4} (updated_cells inst) s t"
    using frame_trans [OF keeps_frame [OF src(3), of "{}"] t(3)] by (auto intro: frame_mono)
  moreover have "runs (BinaryOperation_generate True execute_reg execute_imm inst) s t"
  proof -
    have "runs_val (if op_type (get_operand 1 inst) \<noteq> op_imm \<or> \<not> fits_imm12 (inst_imm inst)
        then do { (reg, address) \<leftarrow> translate_operand inst (get_operand 1 inst) t2 t3 False False False False;
          ret reg } else ret zero) s r u"
      unfolding if_P [OF src(1)] by (rule runs_val_bind [OF src(2)]) (simp add: runs_val_ret)
    moreover have "r \<noteq> zero"
      using r by simp
    ultimately show ?thesis
      unfolding BinaryOperation_generate_def Let_def op(2) [symmetric]
      by - (rule runs_bind, assumption, use t(1) in simp)
  qed
  ultimately show ?thesis
    using t by blast
qed

lemma generate_register:
  assumes op: "register_operand op" "op = get_operand 0 inst"
    and src: "register_operand src" "src = get_operand 1 inst" "op_size src = op_size op"
    and apart: "op_reg_of src = op_reg_of op \<and> 4 \<le> op_size op \<longrightarrow> aliasing"
  shows "\<exists>t. runs (BinaryOperation_generate True execute_reg execute_imm inst) s t \<and>
    rget (op_reg_of op) t = x86_write (op_access op) (rget (op_reg_of op) s)
      (result (operand_value op s) (operand_value src s)) \<and>
    frame {op_reg_of op, t0, t2, t3, t4} (updated_cells inst) s t \<and>
    flag_results inst (op_size op) (result (operand_value op s) (operand_value src s))
      (carries (op_size op) (operand_value op s) (operand_value src s))
      (overflows (op_size op) (operand_value op s) (operand_value src s)) t"
proof -
  obtain r u where u: "runs_val (translate_operand inst src t2 t3 False False False False) s (r, zero) u"
    "keeps {t2} s u" "r \<in> {op_reg_of src, t2}" "take_bit (8 * op_size op) (rget r u) = operand_value src s"
    using source_register_runs [OF src(1), of t2 inst t3 s] src(3) by auto
  note d = op_reg_distinct [OF op(1)] op_reg_distinct [OF src(1)]
  have "take_bit (8 * op_size op) (rget r u) = take_bit (8 * op_size op) (operand_value src s)"
    unfolding u(4) [symmetric] by simp
  then show ?thesis
    using generate_source [OF op _ _ _ _, of s r zero u "operand_value src s"] u src d apart
      keeps_mono [OF u(2), of "{t2, t3}"] register_operand_access [OF src(1)] by auto
qed

lemma generate_immediate:
  assumes op: "register_operand op" "op = get_operand 0 inst"
    and src: "op_type (get_operand 1 inst) = op_imm" "fits_imm12 (inst_imm inst)"
      "sval (op_size op) (inst_imm inst) = sint (inst_imm inst)"
  shows "\<exists>t. runs (BinaryOperation_generate True execute_reg execute_imm inst) s t \<and>
    rget (op_reg_of op) t = x86_write (op_access op) (rget (op_reg_of op) s)
      (result (operand_value op s) (inst_imm inst)) \<and>
    frame {op_reg_of op, t0, t2, t3, t4} (updated_cells inst) s t \<and>
    flag_results inst (op_size op) (result (operand_value op s) (inst_imm inst))
      (carries (op_size op) (operand_value op s) (inst_imm inst))
      (overflows (op_size op) (operand_value op s) (inst_imm inst)) t"
proof -
  let ?x = "operand_value op s" and ?y = "inst_imm inst"
  note d = op_reg_distinct [OF op(1)] and a = register_operand_access [OF op(1)]
  have "\<exists>t. runs (do {
      (d, address) \<leftarrow> translate_operand inst op t0 t1 True False False True;
      execute_imm inst d ?y;
      update_zero inst d (op_size op);
      update_sign inst d (op_size op) t3;
      update_parity inst d;
      translate_destination inst d address t2 t3 }) s t \<and>
    rget (op_reg_of op) t = x86_write (op_access op) (rget (op_reg_of op) s) (result ?x ?y) \<and>
    frame {op_reg_of op, t0, t2, t3, t4} (updated_cells inst) s t \<and>
    flag_results inst (op_size op) (result ?x ?y) (carries (op_size op) ?x ?y) (overflows (op_size op) ?x ?y) t"
  proof (rule destination_runs [OF op, of t3])
    show "t3 \<in> {t2, t3}"
      by simp
  next
    fix w d'
    assume d': "d' = (if 4 \<le> op_size op then op_reg_of op else t0)" and k: "keeps {t0} s w"
      and val: "take_bit (8 * op_size op) (rget d' w) = operand_value op s"
    have x': "take_bit (8 * op_size op) (rget d' w) = take_bit (8 * op_size op) ?x"
      unfolding val [symmetric] by simp
    obtain t where t: "runs (execute_imm inst d' ?y) w t" "frame {d', t4} (carry_overflow_cells inst) w t"
      "rget d' t = result (rget d' w) ?y"
      "updates flags_carry inst \<longrightarrow> records_carry (carries (op_size op) (rget d' w) ?y) t"
      "updates flags_overflow inst \<longrightarrow> records_overflow (overflows (op_size op) (rget d' w) ?y) t"
    proof -
      have "valid_size (op_size (get_operand 0 inst))" "op_size (get_operand 0 inst) = op_size op"
        using a op(2) by simp_all
      moreover have "d' \<notin> {zero, t4, s11}"
        using d d' by auto
      ultimately show thesis
        using imm [of inst "op_size op" d' ?y w] src(2,3) that by blast
    qed
    show "\<exists>t. runs (execute_imm inst d' ?y) w t \<and> frame {d', t4} (carry_overflow_cells inst) w t \<and>
        take_bit (8 * op_size op) (rget d' t) = take_bit (8 * op_size op) (result ?x ?y) \<and>
        (updates flags_carry inst \<longrightarrow> records_carry (carries (op_size op) ?x ?y) t) \<and>
        (updates flags_overflow inst \<longrightarrow> records_overflow (overflows (op_size op) ?x ?y) t)"
      using t flags_low [OF _ x' refl] a result_low [OF _ x' refl] by auto
  qed
  moreover have "BinaryOperation_generate True execute_reg execute_imm inst = (do {
      (d, address) \<leftarrow> translate_operand inst op t0 t1 True False False True;
      execute_imm inst d ?y;
      update_zero inst d (op_size op);
      update_sign inst d (op_size op) t3;
      update_parity inst d;
      translate_destination inst d address t2 t3 })"
    using src by (simp add: BinaryOperation_generate_def op(2) Let_def)
  ultimately show ?thesis
    by (simp only:)
qed

end

section \<open>The contract of a unary operation\<close>

text \<open>\<open>applies\<close> are the instructions whose carry and overflow updates the operation does record.\<close>

locale unary_executor =
  fixes execute_operation :: execute_unary
    and result :: "u64 \<Rightarrow> u64"
    and carries overflows :: "nat \<Rightarrow> u64 \<Rightarrow> bool"
    and applies :: "Instruction \<Rightarrow> bool"
  assumes result_low: "valid_size sz \<Longrightarrow> take_bit (8 * sz) x = take_bit (8 * sz) x' \<Longrightarrow>
      take_bit (8 * sz) (result x) = take_bit (8 * sz) (result x')"
    and flags_low: "valid_size sz \<Longrightarrow> take_bit (8 * sz) x = take_bit (8 * sz) x' \<Longrightarrow>
      carries sz x = carries sz x' \<and> overflows sz x = overflows sz x'"
    and execute: "applies inst \<Longrightarrow> valid_size sz \<Longrightarrow> op_size (get_operand 0 inst) = sz \<Longrightarrow>
      dst \<notin> {zero, t4, s11} \<Longrightarrow>
      \<exists>t. runs (execute_operation inst dst) s t \<and>
        frame {dst, t4} (carry_overflow_cells inst) s t \<and> rget dst t = result (rget dst s) \<and>
        (updates flags_carry inst \<longrightarrow> records_carry (carries sz (rget dst s)) t) \<and>
        (updates flags_overflow inst \<longrightarrow> records_overflow (overflows sz (rget dst s)) t)"
begin

lemma generate_register:
  assumes op: "register_operand op" "op = get_operand 0 inst" and applies: "applies inst"
  shows "\<exists>t. runs (UnaryOperation_generate execute_operation inst) s t \<and>
    rget (op_reg_of op) t =
      x86_write (op_access op) (rget (op_reg_of op) s) (result (operand_value op s)) \<and>
    frame {op_reg_of op, t0, t2, t3, t4} (updated_cells inst) s t \<and>
    flag_results inst (op_size op) (result (operand_value op s))
      (carries (op_size op) (operand_value op s)) (overflows (op_size op) (operand_value op s)) t"
proof -
  let ?x = "operand_value op s"
  note d = op_reg_distinct [OF op(1)] and a = register_operand_access [OF op(1)]
  show ?thesis
    unfolding UnaryOperation_generate_def Let_def op(2) [symmetric]
  proof (rule destination_runs [OF op, of t2])
    show "t2 \<in> {t2, t3}"
      by simp
  next
    fix w d'
    assume d': "d' = (if 4 \<le> op_size op then op_reg_of op else t0)"
      and val: "take_bit (8 * op_size op) (rget d' w) = ?x"
    have x': "take_bit (8 * op_size op) (rget d' w) = take_bit (8 * op_size op) ?x"
      unfolding val [symmetric] by simp
    have "valid_size (op_size op)" "op_size (get_operand 0 inst) = op_size op" "d' \<notin> {zero, t4, s11}"
      using a op(2) d d' by auto
    then show "\<exists>t. runs (execute_operation inst d') w t \<and> frame {d', t4} (carry_overflow_cells inst) w t \<and>
        take_bit (8 * op_size op) (rget d' t) = take_bit (8 * op_size op) (result ?x) \<and>
        (updates flags_carry inst \<longrightarrow> records_carry (carries (op_size op) ?x) t) \<and>
        (updates flags_overflow inst \<longrightarrow> records_overflow (overflows (op_size op) ?x) t)"
      using execute [OF applies, of "op_size op" d' w] flags_low [OF _ x'] result_low [OF _ x'] by auto
  qed
qed

end

section \<open>The contract of a comparison\<close>

locale compare_executor =
  fixes compare_reg :: compare_reg and compare_imm :: compare_imm
    and result :: "u64 \<Rightarrow> u64 \<Rightarrow> u64"
    and carries overflows :: "nat \<Rightarrow> u64 \<Rightarrow> u64 \<Rightarrow> bool"
    and constant_ok :: "u64 \<Rightarrow> bool"
  assumes result_low: "valid_size sz \<Longrightarrow> take_bit (8 * sz) x = take_bit (8 * sz) x' \<Longrightarrow>
      take_bit (8 * sz) y = take_bit (8 * sz) y' \<Longrightarrow>
      take_bit (8 * sz) (result x y) = take_bit (8 * sz) (result x' y')"
    and flags_low: "valid_size sz \<Longrightarrow> take_bit (8 * sz) x = take_bit (8 * sz) x' \<Longrightarrow>
      take_bit (8 * sz) y = take_bit (8 * sz) y' \<Longrightarrow>
      carries sz x y = carries sz x' y' \<and> overflows sz x y = overflows sz x' y'"
    and reg: "valid_size (op_size (get_operand 0 inst)) \<Longrightarrow> op_size (get_operand 0 inst) = sz \<Longrightarrow>
      dst \<notin> {zero, t4, t5, s11} \<Longrightarrow> src \<notin> {zero, t4, t5, s11} \<Longrightarrow>
      \<exists>r t. runs_val (compare_reg inst dst src) s r t \<and> r \<in> {dst, t5} \<and>
        frame {t4, t5} (carry_overflow_cells inst) s t \<and>
        rget r t = result (rget dst s) (rget src s) \<and>
        (updates flags_carry inst \<longrightarrow> records_carry (carries sz (rget dst s) (rget src s)) t) \<and>
        (updates flags_overflow inst \<longrightarrow> records_overflow (overflows sz (rget dst s) (rget src s)) t)"
    and imm: "valid_size (op_size (get_operand 0 inst)) \<Longrightarrow> op_size (get_operand 0 inst) = sz \<Longrightarrow>
      dst \<notin> {zero, t4, t5, s11} \<Longrightarrow> fits_imm12 k \<Longrightarrow> sval sz k = sint k \<Longrightarrow> constant_ok k \<Longrightarrow>
      \<exists>r t. runs_val (compare_imm inst dst k) s r t \<and> r \<in> {dst, t5} \<and>
        frame {t4, t5} (carry_overflow_cells inst) s t \<and>
        rget r t = result (rget dst s) k \<and>
        (updates flags_carry inst \<longrightarrow> records_carry (carries sz (rget dst s) k) t) \<and>
        (updates flags_overflow inst \<longrightarrow> records_overflow (overflows sz (rget dst s) k) t)"
begin

text \<open>The flags of the result of a comparison \<open>g\<close> of the register \<open>d\<close>.\<close>

lemma compared_runs:
  assumes "runs_val g s r w" "r \<in> {d, t5}" "d \<noteq> t3" "frame {t4, t5} (carry_overflow_cells inst) s w"
    "valid_size sz" "take_bit (8 * sz) (rget r w) = take_bit (8 * sz) v"
    "updates flags_carry inst \<longrightarrow> records_carry c w"
    "updates flags_overflow inst \<longrightarrow> records_overflow ov w"
  shows "\<exists>t. runs (do {
      result \<leftarrow> g;
      update_zero inst result sz;
      update_sign inst result sz t3;
      update_parity inst result }) s t \<and>
    frame {t3, t4, t5} (updated_cells inst) s t \<and> flag_results inst sz v c ov t"
proof -
  have "t3 \<noteq> r"
    using assms(2,3) by auto
  then obtain t where t: "runs (do { update_zero inst r sz; update_sign inst r sz t3; update_parity inst r }) w t"
    "frame {t3} (value_cells inst) w t"
    "updates flags_zero inst \<longrightarrow> (zero_flag t \<longleftrightarrow> take_bit (8 * sz) (rget r w) = 0)"
    "updates flags_sign inst \<longrightarrow> (sign_flag t \<longleftrightarrow> bit (rget r w) (8 * sz - 1))"
    "updates flags_parity inst \<longrightarrow> (parity_flag t \<longleftrightarrow> even (\<Sum>i<8. of_bool (bit (rget r w) i) :: nat))"
    using record_value_runs [OF assms(5), of t3 r inst w] by auto
  have "frame ({t4, t5} \<union> {t3}) (carry_overflow_cells inst \<union> value_cells inst) s t"
    by (rule frame_trans [OF assms(4) t(2)]) simp
  then have "frame {t3, t4, t5} (updated_cells inst) s t"
    by (rule frame_mono) (auto simp: updated_cells_def)
  moreover have "flag_results inst sz (rget r w) c ov t"
    using t(3-5) assms(7,8) frame_records [OF t(2)] by (simp add: flag_results_def)
  then have "flag_results inst sz v c ov t"
    using flag_results_cong assms(5,6) by blast
  moreover have "runs (do { result \<leftarrow> g; update_zero inst result sz; update_sign inst result sz t3;
      update_parity inst result }) s t"
    by (rule runs_bind [OF assms(1)]) (rule t(1))
  ultimately show ?thesis
    by blast
qed

lemma generate_source:
  assumes op: "register_operand op" "op = get_operand 0 inst"
    and src: "op_type (get_operand 1 inst) \<noteq> op_imm \<or> \<not> fits_imm12 (inst_imm inst)"
      "runs_val (translate_operand inst (get_operand 1 inst) t2 t3 False False False False) s (r, ad) u"
      "keeps {t2, t3} s u" "take_bit (8 * op_size op) (rget r u) = take_bit (8 * op_size op) y"
    and r: "r \<notin> {zero, t0, t4, t5, s11}"
  shows "\<exists>t. runs (Comparable_generate compare_reg compare_imm inst) s t \<and>
    frame {t0, t2, t3, t4, t5} (updated_cells inst) s t \<and>
    flag_results inst (op_size op) (result (operand_value op s) y)
      (carries (op_size op) (operand_value op s) y) (overflows (op_size op) (operand_value op s) y) t"
proof -
  let ?x = "operand_value op s"
  note d = op_reg_distinct [OF op(1)] and a = register_operand_access [OF op(1)]
  define d' where "d' = (if 4 \<le> op_size op then op_reg_of op else t0)"
  have x: "operand_value op u = ?x"
    using keeps_rget [OF src(3), of "op_reg_of op"] d by (simp add: operand_value_def)
  obtain w where w: "runs_val (translate_operand inst op t0 t1 True False False True) u (d', zero) w"
    "keeps {t0} u w" "take_bit (8 * op_size op) (rget d' w) = operand_value op u"
    using dest_register_runs [OF op(1), of t0 inst t1 u] unfolding d'_def by auto
  have x': "take_bit (8 * op_size op) (rget d' w) = take_bit (8 * op_size op) ?x"
    unfolding x [symmetric] w(3) [symmetric] by simp
  have y: "take_bit (8 * op_size op) (rget r w) = take_bit (8 * op_size op) y"
    using keeps_rget [OF w(2), of r] r src(4) by simp
  have sizes: "valid_size (op_size (get_operand 0 inst))" "op_size (get_operand 0 inst) = op_size op"
    "d' \<notin> {zero, t4, t5, s11}" "r \<notin> {zero, t4, t5, s11}"
    using a d op(2) r by (auto simp: d'_def)
  obtain r' v where v: "runs_val (compare_reg inst d' r) w r' v" "r' \<in> {d', t5}"
    "frame {t4, t5} (carry_overflow_cells inst) w v" "rget r' v = result (rget d' w) (rget r w)"
    "updates flags_carry inst \<longrightarrow> records_carry (carries (op_size op) (rget d' w) (rget r w)) v"
    "updates flags_overflow inst \<longrightarrow> records_overflow (overflows (op_size op) (rget d' w) (rget r w)) v"
    using reg [OF sizes, of w] by blast
  have low: "take_bit (8 * op_size op) (rget r' v) = take_bit (8 * op_size op) (result ?x y)"
    "carries (op_size op) (rget d' w) (rget r w) = carries (op_size op) ?x y"
    "overflows (op_size op) (rget d' w) (rget r w) = overflows (op_size op) ?x y"
    using result_low [OF _ x' y] flags_low [OF _ x' y] a v(4) by simp_all
  have nt3: "d' \<noteq> t3"
    using d by (simp add: d'_def)
  obtain t where t: "runs (do {
      result \<leftarrow> compare_reg inst d' r;
      update_zero inst result (op_size op);
      update_sign inst result (op_size op) t3;
      update_parity inst result }) w t"
    "frame {t3, t4, t5} (updated_cells inst) w t"
    "flag_results inst (op_size op) (result ?x y) (carries (op_size op) ?x y) (overflows (op_size op) ?x y) t"
    using compared_runs [OF v(1,2) nt3 v(3) _ low(1) v(5,6)] a unfolding low by auto
  have "frame ({t2, t3} \<union> {t0} \<union> {t3, t4, t5}) ({} \<union> {} \<union> updated_cells inst) s t"
    by (rule frame_trans [OF frame_trans [OF keeps_frame [OF src(3)] keeps_frame [OF w(2)]] t(2)]) simp_all
  then have "frame {t0, t2, t3, t4, t5} (updated_cells inst) s t"
    by (rule frame_mono) auto
  moreover have "runs (Comparable_generate compare_reg compare_imm inst) s t"
  proof -
    have "runs_val (if op_type (get_operand 1 inst) \<noteq> op_imm \<or> \<not> fits_imm12 (inst_imm inst)
        then do { (reg, address) \<leftarrow> translate_operand inst (get_operand 1 inst) t2 t3 False False False False;
          ret reg } else ret zero) s r u"
      unfolding if_P [OF src(1)] by (rule runs_val_bind [OF src(2)]) (simp add: runs_val_ret)
    moreover have "runs (do {
        (d, address) \<leftarrow> translate_operand inst op t0 t1 True False False True;
        result \<leftarrow> (if r \<noteq> zero then compare_reg inst d r else compare_imm inst d (inst_imm inst));
        update_zero inst result (op_size op);
        update_sign inst result (op_size op) t3;
        update_parity inst result }) u t"
      by (rule runs_bind [OF w(1)]) (use t(1) r in simp)
    ultimately show ?thesis
      unfolding Comparable_generate_def Let_def op(2) [symmetric] by - (rule runs_bind, assumption, simp)
  qed
  ultimately show ?thesis
    using t(3) by blast
qed

lemma generate_register:
  assumes op: "register_operand op" "op = get_operand 0 inst"
    and src: "register_operand src" "src = get_operand 1 inst" "op_size src = op_size op"
  shows "\<exists>t. runs (Comparable_generate compare_reg compare_imm inst) s t \<and>
    frame {t0, t2, t3, t4, t5} (updated_cells inst) s t \<and>
    flag_results inst (op_size op) (result (operand_value op s) (operand_value src s))
      (carries (op_size op) (operand_value op s) (operand_value src s))
      (overflows (op_size op) (operand_value op s) (operand_value src s)) t"
proof -
  obtain r u where u: "runs_val (translate_operand inst src t2 t3 False False False False) s (r, zero) u"
    "keeps {t2} s u" "r \<in> {op_reg_of src, t2}" "take_bit (8 * op_size op) (rget r u) = operand_value src s"
    using source_register_runs [OF src(1), of t2 inst t3 s] src(3) by auto
  have "take_bit (8 * op_size op) (rget r u) = take_bit (8 * op_size op) (operand_value src s)"
    unfolding u(4) [symmetric] by simp
  then show ?thesis
    using generate_source [OF op, of s r zero u "operand_value src s"] u src op_reg_distinct [OF src(1)]
      keeps_mono [OF u(2), of "{t2, t3}"] register_operand_access [OF src(1)] by auto
qed

lemma generate_immediate:
  assumes op: "register_operand op" "op = get_operand 0 inst"
    and src: "op_type (get_operand 1 inst) = op_imm" "fits_imm12 (inst_imm inst)"
      "sval (op_size op) (inst_imm inst) = sint (inst_imm inst)" "constant_ok (inst_imm inst)"
  shows "\<exists>t. runs (Comparable_generate compare_reg compare_imm inst) s t \<and>
    frame {t0, t2, t3, t4, t5} (updated_cells inst) s t \<and>
    flag_results inst (op_size op) (result (operand_value op s) (inst_imm inst))
      (carries (op_size op) (operand_value op s) (inst_imm inst))
      (overflows (op_size op) (operand_value op s) (inst_imm inst)) t"
proof -
  let ?x = "operand_value op s" and ?y = "inst_imm inst"
  note d = op_reg_distinct [OF op(1)] and a = register_operand_access [OF op(1)]
  define d' where "d' = (if 4 \<le> op_size op then op_reg_of op else t0)"
  obtain w where w: "runs_val (translate_operand inst op t0 t1 True False False True) s (d', zero) w"
    "keeps {t0} s w" "take_bit (8 * op_size op) (rget d' w) = ?x"
    using dest_register_runs [OF op(1), of t0 inst t1 s] unfolding d'_def by auto
  have x': "take_bit (8 * op_size op) (rget d' w) = take_bit (8 * op_size op) ?x"
    unfolding w(3) [symmetric] by simp
  have sizes: "valid_size (op_size (get_operand 0 inst))" "op_size (get_operand 0 inst) = op_size op"
    "d' \<notin> {zero, t4, t5, s11}"
    using a d op(2) by (auto simp: d'_def)
  obtain r' v where v: "runs_val (compare_imm inst d' ?y) w r' v" "r' \<in> {d', t5}"
    "frame {t4, t5} (carry_overflow_cells inst) w v" "rget r' v = result (rget d' w) ?y"
    "updates flags_carry inst \<longrightarrow> records_carry (carries (op_size op) (rget d' w) ?y) v"
    "updates flags_overflow inst \<longrightarrow> records_overflow (overflows (op_size op) (rget d' w) ?y) v"
    using imm [OF sizes src(2,3,4), of w] by blast
  have low: "take_bit (8 * op_size op) (rget r' v) = take_bit (8 * op_size op) (result ?x ?y)"
    "carries (op_size op) (rget d' w) ?y = carries (op_size op) ?x ?y"
    "overflows (op_size op) (rget d' w) ?y = overflows (op_size op) ?x ?y"
    using result_low [OF _ x' refl] flags_low [OF _ x' refl] a v(4) by simp_all
  have nt3: "d' \<noteq> t3"
    using d by (simp add: d'_def)
  obtain t where t: "runs (do {
      result \<leftarrow> compare_imm inst d' ?y;
      update_zero inst result (op_size op);
      update_sign inst result (op_size op) t3;
      update_parity inst result }) w t"
    "frame {t3, t4, t5} (updated_cells inst) w t"
    "flag_results inst (op_size op) (result ?x ?y) (carries (op_size op) ?x ?y) (overflows (op_size op) ?x ?y) t"
    using compared_runs [OF v(1,2) nt3 v(3) _ low(1) v(5,6)] a unfolding low by auto
  have "frame ({t0} \<union> {t3, t4, t5}) ({} \<union> updated_cells inst) s t"
    by (rule frame_trans [OF keeps_frame [OF w(2)] t(2)]) simp
  then have "frame {t0, t2, t3, t4, t5} (updated_cells inst) s t"
    by (rule frame_mono) auto
  moreover have "runs (Comparable_generate compare_reg compare_imm inst) s t"
  proof -
    have "runs (do {
        (d, address) \<leftarrow> translate_operand inst op t0 t1 True False False True;
        result \<leftarrow> compare_imm inst d ?y;
        update_zero inst result (op_size op);
        update_sign inst result (op_size op) t3;
        update_parity inst result }) s t"
      by (rule runs_bind [OF w(1)]) (use t(1) in simp)
    moreover have "Comparable_generate compare_reg compare_imm inst = (do {
        (d, address) \<leftarrow> translate_operand inst op t0 t1 True False False True;
        result \<leftarrow> compare_imm inst d ?y;
        update_zero inst result (op_size op);
        update_sign inst result (op_size op) t3;
        update_parity inst result })"
      using src by (simp add: Comparable_generate_def op(2) Let_def)
    ultimately show ?thesis
      by (simp only:)
  qed
  ultimately show ?thesis
    using t(3) by blast
qed

end

end
