(* ===== verification/BinaryOperations.thy ===== *)
theory BinaryOperations
  imports Executors Arithmetic Logic
begin

text \<open>
  The operations of addition, subtraction, and, or and exclusive or record the x86 flags and compute
  the x86 result, with a register and with a constant operand: each is an interpretation of
  \<open>binary_executor\<close>. An addition needs its two registers to differ, as it records the source after it
  has overwritten the destination.
\<close>

section \<open>Values of an operand size\<close>

lemma sval_low:
  assumes "valid_size sz" "take_bit (8 * sz) x = take_bit (8 * sz) x'"
  shows "sval sz x = sval sz x'"
  using sval_take [OF assms(1)] assms(2) by metis

lemma uval_low: "take_bit (8 * sz) x = take_bit (8 * sz) x' \<Longrightarrow> uval sz x = uval sz x'"
  by (metis uval_take)

lemma take_bit_eq_uval: "take_bit (8 * sz) x = take_bit (8 * sz) y \<longleftrightarrow> uval sz x = uval sz y"
  by (metis uval_take word_uint_eqI)

lemma take_bit_arith_cong:
  assumes "valid_size sz" "take_bit (8 * sz) x = take_bit (8 * sz) x'"
    "take_bit (8 * sz) y = take_bit (8 * sz) (y' :: u64)"
  shows "take_bit (8 * sz) (x + y) = take_bit (8 * sz) (x' + y')"
    "take_bit (8 * sz) (x - y) = take_bit (8 * sz) (x' - y')"
  using assms(2,3) valid_size_bound [OF assms(1)] by (simp_all add: take_bit_eq_uval uval_arith)

lemma frame_rset_self: "frame {r} {} s (rset r v s)"
  by (rule frame_rset) simp_all

lemma records_rset:
  "r \<noteq> s11 \<Longrightarrow> records_carry b s \<Longrightarrow> records_carry b (rset r v s)"
  "r \<noteq> s11 \<Longrightarrow> records_overflow b s \<Longrightarrow> records_overflow b (rset r v s)"
  by (rule frame_records [OF frame_rset_self]; auto)+

text \<open>Recording carry and overflow for a size, from the operands the code passes.\<close>

lemma carry_entry_runs:
  assumes "valid_size sz" "e < 0x80" "temp \<noteq> zero" "temp \<noteq> s11" "va \<noteq> Some temp" "vb \<noteq> Some temp"
  shows "\<exists>t. runs (update_carry inst (Some (e + size_index sz)) va vb temp) s t \<and>
    frame {temp} (if updates flags_carry inst then carry_cells else {}) s t \<and>
    (updates flags_carry inst \<longrightarrow>
      flag_word 2 carry_operation_offset t = entry_word (e + size_index sz) \<and>
      carry_word 0 t = or_old va s (carry_word 0 s) \<and> carry_word 1 t = or_old vb s (carry_word 1 s))"
  using update_carry_runs [of "Some (e + size_index sz)" temp va vb inst s] entries_small [OF assms(1,2)]
    assms by simp

lemma overflow_entry_runs:
  assumes "valid_size sz" "e < 0x80" "temp \<noteq> zero" "temp \<noteq> s11" "va \<noteq> Some temp" "vb \<noteq> Some temp"
  shows "\<exists>t. runs (update_overflow inst (Some (e + size_index sz)) va vb temp) s t \<and>
    frame {temp} (if updates flags_overflow inst then overflow_cells else {}) s t \<and>
    (updates flags_overflow inst \<longrightarrow>
      flag_word 2 overflow_operation_offset t = entry_word (e + size_index sz) \<and>
      overflow_word 0 t = or_old va s (overflow_word 0 s) \<and>
      overflow_word 1 t = or_old vb s (overflow_word 1 s))"
  using update_overflow_runs [of "Some (e + size_index sz)" temp va vb inst s] entries_small [OF assms(1,2)]
    assms by simp

lemma carry_value_runs:
  "\<exists>t. runs (update_carry inst None va vb temp) s t \<and>
    frame {} (if updates flags_carry inst then carry_cells else {}) s t \<and>
    (updates flags_carry inst \<longrightarrow>
      flag_word 2 carry_operation_offset t = flag_word 2 carry_operation_offset s \<and>
      carry_word 0 t = or_old va s (carry_word 0 s) \<and> carry_word 1 t = or_old vb s (carry_word 1 s))"
  using update_carry_runs [of None temp va vb inst s] by simp

lemma overflow_value_runs:
  "\<exists>t. runs (update_overflow inst None va vb temp) s t \<and>
    frame {} (if updates flags_overflow inst then overflow_cells else {}) s t \<and>
    (updates flags_overflow inst \<longrightarrow>
      flag_word 2 overflow_operation_offset t = flag_word 2 overflow_operation_offset s \<and>
      overflow_word 0 t = or_old va s (overflow_word 0 s) \<and>
      overflow_word 1 t = or_old vb s (overflow_word 1 s))"
  using update_overflow_runs [of None temp va vb inst s] by simp

text \<open>What of one flag's cells another step of the code leaves alone.\<close>

lemma frame_words:
  assumes "frame R C s t" "s11 \<notin> R"
  shows "C \<inter> carry_cells = {} \<Longrightarrow> flag_word 2 carry_operation_offset t = flag_word 2 carry_operation_offset s \<and>
      carry_word 0 t = carry_word 0 s \<and> carry_word 1 t = carry_word 1 s"
    "C \<inter> overflow_cells = {} \<Longrightarrow>
      flag_word 2 overflow_operation_offset t = flag_word 2 overflow_operation_offset s \<and>
      overflow_word 0 t = overflow_word 0 s \<and> overflow_word 1 t = overflow_word 1 s"
proof -
  assume c: "C \<inter> carry_cells = {}"
  note sc = frame_same_cells [OF assms c cells_small(5)]
  show "flag_word 2 carry_operation_offset t = flag_word 2 carry_operation_offset s \<and>
      carry_word 0 t = carry_word 0 s \<and> carry_word 1 t = carry_word 1 s"
    using same_cellsD [OF sc, of carry_operation_offset 2] carry_word_same [OF sc]
    by (simp add: flag_offsets)
next
  assume c: "C \<inter> overflow_cells = {}"
  note sc = frame_same_cells [OF assms c cells_small(4)]
  show "flag_word 2 overflow_operation_offset t = flag_word 2 overflow_operation_offset s \<and>
      overflow_word 0 t = overflow_word 0 s \<and> overflow_word 1 t = overflow_word 1 s"
    using same_cellsD [OF sc, of overflow_operation_offset 2] overflow_word_same [OF sc]
    by (simp add: flag_offsets)
qed

lemma entry_bounds:
  "Entry_carry_add < 0x80" "Entry_overflow_add < 0x80" "Entry_overflow_sub < 0x80"
  "Entry_overflow_add_pos < 0x80" "Entry_overflow_add_neg < 0x80" "Entry_carry_neg < 0x80"
  "Entry_overflow_inc < 0x80" "Entry_overflow_dec < 0x80"
  by (simp_all add: Entry_defs)

abbreviation "carry_part inst \<equiv> (if updates flags_carry inst then carry_cells else {})"
abbreviation "overflow_part inst \<equiv> (if updates flags_overflow inst then overflow_cells else {})"

lemma parts_apart [simp]:
  "overflow_part inst \<inter> carry_cells = {}" "carry_part inst \<inter> overflow_cells = {}"
  by simp_all

lemma Add_reg_runs:
  assumes "valid_size sz" "op_size (get_operand 0 inst) = sz" "dst \<notin> {zero, t4, s11}" "src \<notin> {zero, t4, s11}"
    "dst \<noteq> src"
  shows "\<exists>t. runs (Add_execute_reg inst dst src) s t \<and> frame {dst, t4} (carry_overflow_cells inst) s t \<and>
    rget dst t = rget dst s + rget src s \<and>
    (updates flags_carry inst \<longrightarrow> records_carry (add_carry sz (rget dst s) (rget src s)) t) \<and>
    (updates flags_overflow inst \<longrightarrow> records_overflow (add_overflow sz (rget dst s) (rget src s)) t)"
proof -
  obtain u where u: "runs (update_overflow inst (Some (Entry_overflow_add + size_index sz)) (Some src) (Some dst) t4) s u"
    "frame {t4} (overflow_part inst) s u"
    "updates flags_overflow inst \<longrightarrow>
      flag_word 2 overflow_operation_offset u = entry_word (Entry_overflow_add + size_index sz) \<and>
      overflow_word 0 u = rget src s \<and> overflow_word 1 u = rget dst s"
    using overflow_entry_runs [OF assms(1) entry_bounds(2), of t4 "Some src" "Some dst" inst s] assms
    by (auto simp: or_old_def)
  let ?w = "rset dst (rget src u + rget dst u) u"
  have regs: "rget src u = rget src s" "rget dst u = rget dst s"
    using frame_rget [OF u(2)] assms by auto
  obtain t where t: "runs (update_carry inst (Some (Entry_carry_add + size_index sz)) (Some src) (Some dst) t4) ?w t"
    "frame {t4} (carry_part inst) ?w t"
    "updates flags_carry inst \<longrightarrow>
      flag_word 2 carry_operation_offset t = entry_word (Entry_carry_add + size_index sz) \<and>
      carry_word 0 t = rget src s \<and> carry_word 1 t = rget dst s + rget src s"
    using carry_entry_runs [OF assms(1) entry_bounds(1), of t4 "Some src" "Some dst" inst ?w] assms regs
    by (auto simp: or_old_def rv_simps add.commute)
  have f: "frame {t4, dst} (overflow_part inst) s ?w"
    by (rule frame_rset [OF frame_mono [OF u(2)]]) simp_all
  have "frame ({t4, dst} \<union> {t4}) (overflow_part inst \<union> carry_part inst) s t"
    by (rule frame_trans [OF f t(2)]) (use assms in auto)
  then have "frame {dst, t4} (carry_overflow_cells inst) s t"
    by (rule frame_mono) (auto simp: carry_overflow_cells_def)
  moreover have "rget dst t = rget dst s + rget src s"
    using frame_rget [OF t(2), of dst] assms regs by (simp add: rv_simps add.commute)
  moreover have "runs (Add_execute_reg inst dst src) s t"
    unfolding Add_execute_reg_def assms(2)
    by (rule runs_bind [OF calculate_entries_runs [OF assms(1)]])
      (simp, rule runs_comp [OF u(1)], rule runs_emit_comp [OF _ t(1)], simp add: rv_simps)
  moreover have "records_overflow (add_overflow sz (rget dst s) (rget src s)) t" if "updates flags_overflow inst"
  proof (rule frame_records(2) [OF t(2)])
    have "records_overflow (add_overflow sz (rget dst s) (rget src s)) u"
      using add_flags(2) [OF assms(1), of u] u(3) that by simp
    then show "records_overflow (add_overflow sz (rget dst s) (rget src s)) ?w"
      using records_rset(2) assms by simp
  qed (use assms in simp_all)
  moreover have "records_carry (add_carry sz (rget dst s) (rget src s)) t" if "updates flags_carry inst"
    using add_flags(1) [OF assms(1), of t] t(3) that carry_of_sum(1) [of sz "rget dst s" "rget src s"]
      valid_size_bound [OF assms(1)] by simp
  ultimately show ?thesis by blast
qed

lemma Sub_reg_runs:
  assumes "valid_size sz" "op_size (get_operand 0 inst) = sz" "dst \<notin> {zero, t4, s11}" "src \<notin> {zero, t4, s11}"
  shows "\<exists>t. runs (Sub_execute_reg inst dst src) s t \<and> frame {dst, t4} (carry_overflow_cells inst) s t \<and>
    rget dst t = rget dst s - rget src s \<and>
    (updates flags_carry inst \<longrightarrow> records_carry (sub_carry sz (rget dst s) (rget src s)) t) \<and>
    (updates flags_overflow inst \<longrightarrow> records_overflow (sub_overflow sz (rget dst s) (rget src s)) t)"
proof -
  obtain u where u: "runs (update_carry inst (Some (Entry_carry_add + size_index sz)) None (Some dst) t4) s u"
    "frame {t4} (carry_part inst) s u"
    "updates flags_carry inst \<longrightarrow>
      flag_word 2 carry_operation_offset u = entry_word (Entry_carry_add + size_index sz) \<and>
      carry_word 1 u = rget dst s"
    using carry_entry_runs [OF assms(1) entry_bounds(1), of t4 None "Some dst" inst s] assms
    by (auto simp: or_old_def)
  obtain v where v: "runs (update_overflow inst (Some (Entry_overflow_sub + size_index sz)) (Some src) (Some dst) t4) u v"
    "frame {t4} (overflow_part inst) u v"
    "updates flags_overflow inst \<longrightarrow>
      flag_word 2 overflow_operation_offset v = entry_word (Entry_overflow_sub + size_index sz) \<and>
      overflow_word 0 v = rget src u \<and> overflow_word 1 v = rget dst u"
    using overflow_entry_runs [OF assms(1) entry_bounds(3), of t4 "Some src" "Some dst" inst u] assms
    by (auto simp: or_old_def)
  have regs: "rget src u = rget src s" "rget dst u = rget dst s" "rget src v = rget src s" "rget dst v = rget dst s"
    using frame_rget [OF u(2)] frame_rget [OF v(2)] assms by auto
  let ?w = "rset dst (rget dst v - rget src v) v"
  obtain t where t: "runs (update_carry inst None (Some dst) None zero) ?w t"
    "frame {} (carry_part inst) ?w t"
    "updates flags_carry inst \<longrightarrow>
      flag_word 2 carry_operation_offset t = flag_word 2 carry_operation_offset ?w \<and>
      carry_word 0 t = rget dst s - rget src s \<and> carry_word 1 t = carry_word 1 ?w"
    using carry_value_runs [of inst "Some dst" None zero ?w] assms regs
    by (auto simp: or_old_def rv_simps)
  have "frame ({t4} \<union> {t4}) (carry_part inst \<union> overflow_part inst) s v"
    by (rule frame_trans [OF u(2) v(2)]) simp
  then have "frame {dst, t4} (carry_part inst \<union> overflow_part inst) s ?w"
    by (intro frame_rset) (auto elim: frame_mono)
  then have "frame ({dst, t4} \<union> {}) (carry_part inst \<union> overflow_part inst \<union> carry_part inst) s t"
    by (rule frame_trans [OF _ t(2)]) (use assms in auto)
  then have "frame {dst, t4} (carry_overflow_cells inst) s t"
    by (rule frame_mono) (auto simp: carry_overflow_cells_def)
  moreover have "rget dst t = rget dst s - rget src s"
    using frame_rget [OF t(2), of dst] assms regs by (simp add: rv_simps)
  moreover have "runs (Sub_execute_reg inst dst src) s t"
    unfolding Sub_execute_reg_def assms(2)
    by (rule runs_bind [OF calculate_entries_runs [OF assms(1)]])
      (simp, rule runs_comp [OF u(1)], rule runs_comp [OF v(1)], rule runs_emit_comp [OF _ t(1)], simp add: rv_simps)
  moreover have "records_overflow (sub_overflow sz (rget dst s) (rget src s)) t" if "updates flags_overflow inst"
  proof (rule frame_records(2) [OF t(2)])
    have "records_overflow (sub_overflow sz (rget dst s) (rget src s)) v"
      using add_flags(3) [OF assms(1), of v] v(3) that regs by simp
    then show "records_overflow (sub_overflow sz (rget dst s) (rget src s)) ?w"
      using records_rset(2) assms by simp
  qed (use assms in simp_all)
  moreover have "records_carry (sub_carry sz (rget dst s) (rget src s)) t" if "updates flags_carry inst"
  proof -
    have "frame ({t4} \<union> {dst}) (overflow_part inst \<union> {}) u ?w"
      by (rule frame_trans [OF v(2) frame_rset_self]) simp
    then have "flag_word 2 carry_operation_offset ?w = entry_word (Entry_carry_add + size_index sz) \<and>
        carry_word 1 ?w = rget dst s"
      using frame_words(1) u(3) that assms by fastforce
    then show ?thesis
      using add_flags(1) [OF assms(1), of t] t(3) that carry_of_sum(3) [of sz "rget dst s" "rget src s"]
        valid_size_bound [OF assms(1)] by simp
  qed
  ultimately show ?thesis by blast
qed

text \<open>
  An operation with a constant records its entries and the old value first, and the new value, in
  the register \<open>res\<close>, after the operation: \<open>p\<close> says which of the two carry values is the old one.
\<close>

definition pick :: "bool \<Rightarrow> RiscVRegister \<Rightarrow> RiscVRegister option" where
  "pick p r = (if p then Some r else None)"

lemma pick_simps [simp]:
  "or_old (pick p r) s w = (if p then rget r s else w)" "r \<noteq> r' \<Longrightarrow> pick p r \<noteq> Some r'"
  by (simp_all add: pick_def or_old_def)

lemma constant_pattern_runs:
  assumes "valid_size sz" "dst \<notin> {zero, t4, s11}" "ec < 0x80" "eo < 0x80"
    and res: "res \<noteq> t4" "q \<noteq> s11"
    and op: "\<And>u. rget dst u = rget dst s \<Longrightarrow> \<exists>w. runs g u w \<and> frame {q} {} u w \<and> rget res w = v"
  shows "\<exists>t. runs (do {
      update_carry inst (Some (ec + size_index sz)) (pick p dst) (pick (\<not> p) dst) t4;
      update_overflow inst (Some (eo + size_index sz)) (Some dst) None t4;
      g;
      update_carry inst None (pick (\<not> p) res) (pick p res) zero;
      update_overflow inst None None (Some res) zero }) s t \<and>
    frame {q, t4} (carry_overflow_cells inst) s t \<and> rget res t = v \<and>
    (updates flags_carry inst \<longrightarrow>
      flag_word 2 carry_operation_offset t = entry_word (ec + size_index sz) \<and>
      carry_word 0 t = (if p then rget dst s else v) \<and> carry_word 1 t = (if p then v else rget dst s)) \<and>
    (updates flags_overflow inst \<longrightarrow>
      flag_word 2 overflow_operation_offset t = entry_word (eo + size_index sz) \<and>
      overflow_word 0 t = rget dst s \<and> overflow_word 1 t = v)"
proof -
  obtain u where u: "runs (update_carry inst (Some (ec + size_index sz)) (pick p dst) (pick (\<not> p) dst) t4) s u"
    "frame {t4} (carry_part inst) s u"
    "updates flags_carry inst \<longrightarrow>
      flag_word 2 carry_operation_offset u = entry_word (ec + size_index sz) \<and>
      (p \<longrightarrow> carry_word 0 u = rget dst s) \<and> (\<not> p \<longrightarrow> carry_word 1 u = rget dst s)"
    using carry_entry_runs [OF assms(1,3), of t4 "pick p dst" "pick (\<not> p) dst" inst s] assms(2)
    by auto
  obtain v1 where v: "runs (update_overflow inst (Some (eo + size_index sz)) (Some dst) None t4) u v1"
    "frame {t4} (overflow_part inst) u v1"
    "updates flags_overflow inst \<longrightarrow>
      flag_word 2 overflow_operation_offset v1 = entry_word (eo + size_index sz) \<and>
      overflow_word 0 v1 = rget dst u"
    using overflow_entry_runs [OF assms(1,4), of t4 "Some dst" None inst u] assms(2)
    by (auto simp: or_old_def)
  have regs: "rget dst u = rget dst s" "rget dst v1 = rget dst s"
    using frame_rget [OF u(2)] frame_rget [OF v(2)] assms(2) by auto
  obtain w where w: "runs g v1 w" "frame {q} {} v1 w" "rget res w = v"
    using op [OF regs(2)] by blast
  obtain x where x: "runs (update_carry inst None (pick (\<not> p) res) (pick p res) zero) w x"
    "frame {} (carry_part inst) w x"
    "updates flags_carry inst \<longrightarrow>
      flag_word 2 carry_operation_offset x = flag_word 2 carry_operation_offset w \<and>
      carry_word 0 x = (if p then carry_word 0 w else v) \<and> carry_word 1 x = (if p then v else carry_word 1 w)"
    using carry_value_runs [of inst "pick (\<not> p) res" "pick p res" zero w] w(3)
    by auto
  have dx: "rget res x = v"
    using frame_rget [OF x(2), of res] w(3) by simp
  obtain t where t: "runs (update_overflow inst None None (Some res) zero) x t"
    "frame {} (overflow_part inst) x t"
    "updates flags_overflow inst \<longrightarrow>
      flag_word 2 overflow_operation_offset t = flag_word 2 overflow_operation_offset x \<and>
      overflow_word 0 t = overflow_word 0 x \<and> overflow_word 1 t = v"
    using overflow_value_runs [of inst None "Some res" zero x] dx by (auto simp: or_old_def)
  have dt: "rget res t = v"
    using frame_rget [OF t(2), of res] dx by simp
  have s11: "s11 \<notin> {t4}" "s11 \<notin> {q}" "s11 \<notin> {t4} \<union> {t4}" "s11 \<notin> {t4} \<union> {t4} \<union> {q}" "s11 \<notin> {t4} \<union> {q}"
    "s11 \<notin> {q} \<union> {}"
    using res by auto
  note f1 = frame_trans [OF frame_trans [OF u(2) v(2) s11(1)] w(2) s11(3)]
  have "frame ({t4} \<union> {t4} \<union> {q} \<union> {} \<union> {})
      (carry_part inst \<union> overflow_part inst \<union> {} \<union> carry_part inst \<union> overflow_part inst) s t"
    using frame_trans [OF frame_trans [OF f1 x(2) s11(4)] t(2)] s11(4) by simp
  then have "frame {q, t4} (carry_overflow_cells inst) s t"
    by (rule frame_mono) (auto simp: carry_overflow_cells_def)
  moreover have "flag_word 2 carry_operation_offset w = flag_word 2 carry_operation_offset u \<and>
      carry_word 0 w = carry_word 0 u \<and> carry_word 1 w = carry_word 1 u"
    using frame_words(1) [OF frame_trans [OF v(2) w(2) s11(1)] s11(5)] by simp
  moreover have "flag_word 2 carry_operation_offset t = flag_word 2 carry_operation_offset x \<and>
      carry_word 0 t = carry_word 0 x \<and> carry_word 1 t = carry_word 1 x"
    using frame_words(1) [OF t(2)] by simp
  moreover have "flag_word 2 overflow_operation_offset x = flag_word 2 overflow_operation_offset v1 \<and>
      overflow_word 0 x = overflow_word 0 v1 \<and> overflow_word 1 x = overflow_word 1 v1"
    using frame_words(2) [OF frame_trans [OF w(2) x(2) s11(2)] s11(6)] by simp
  moreover have "runs (do {
      update_carry inst (Some (ec + size_index sz)) (pick p dst) (pick (\<not> p) dst) t4;
      update_overflow inst (Some (eo + size_index sz)) (Some dst) None t4;
      g;
      update_carry inst None (pick (\<not> p) res) (pick p res) zero;
      update_overflow inst None None (Some res) zero }) s t"
    by (intro runs_comp [OF u(1)] runs_comp [OF v(1)] runs_comp [OF w(1)] runs_comp [OF x(1)] t(1))
  ultimately show ?thesis
    using u(3) v(3) x(3) t(3) dt regs by auto
qed

lemma fits_imm12_range: "fits_imm12 k \<longleftrightarrow> - 2048 \<le> sint k \<and> sint k < 2048"
  by (simp add: fits_imm12_def)

lemma sext12_fits:
  assumes "fits_imm12 k"
  shows "sext12 (ucast k) = k"
proof -
  have "signed_take_bit 11 (sint k) = sint k"
    using assms by (intro signed_take_bit_int_eq_self) (simp_all add: fits_imm12_range)
  then have eq: "bit (sint k) n = bit (sint k) (min 11 n)" for n
    using bit_signed_take_bit_iff [of 11 "sint k" n] by simp
  have small: "bit (sint k) m = bit k m" if "m < 64" for m
    using that by (simp add: bit_sint_iff)
  have "bit k n = bit k (min n 11)" if "n < 64" for n
    unfolding min.commute [of n] small [OF that, symmetric]
    by (rule trans [OF eq small]) simp
  note same = this
  show ?thesis
  proof (rule bit_word_eqI)
    fix n assume n: "n < LENGTH(64)"
    then show "bit (sext12 (ucast k)) n = bit k n"
      using same [of n] by (auto simp: bit_sext12 bit_ucast_iff)
  qed
qed

lemma fits_negative:
  assumes "fits_imm12 k" "k \<noteq> - 0x800"
  shows "fits_imm12 (- k)"
proof -
  have "sint k \<noteq> - 2048"
  proof
    assume "sint k = - 2048"
    then have "k = - 2048"
      by (intro signed_word_eqI) simp
    then show False
      using assms(2) by simp
  qed
  moreover have "sint (- k) = - sint k"
    using sint_add_cases [of k "- k"] sint_range64 [of "- k"] assms(1) by (auto simp: fits_imm12_range)
  ultimately show ?thesis
    using assms(1) by (simp add: fits_imm12_range)
qed

lemma step_result:
  "runs g u (rset r v u) \<Longrightarrow> r \<noteq> zero \<Longrightarrow> \<exists>w. runs g u w \<and> frame {r} {} u w \<and> rget r w = v"
  using frame_rset_self by (intro exI [of _ "rset r v u"]) (simp add: rv_simps)

lemma Add_imm_runs:
  assumes "valid_size sz" "op_size (get_operand 0 inst) = sz" "dst \<notin> {zero, t4, s11}" "fits_imm12 k"
    "sval sz k = sint k"
  shows "\<exists>t. runs (Add_execute_imm inst dst k) s t \<and> frame {dst, t4} (carry_overflow_cells inst) s t \<and>
    rget dst t = rget dst s + k \<and>
    (updates flags_carry inst \<longrightarrow> records_carry (add_carry sz (rget dst s) k) t) \<and>
    (updates flags_overflow inst \<longrightarrow> records_overflow (add_overflow sz (rget dst s) k) t)"
proof -
  let ?eo = "if 0 \<le> sint k then Entry_overflow_add_pos else Entry_overflow_add_neg"
  have g: "\<exists>w. runs (emit (ADDI dst dst (ucast k))) u w \<and> frame {dst} {} u w \<and> rget dst w = rget dst s + k"
    if "rget dst u = rget dst s" for u
    by (rule step_result, rule runs_emit) (use assms(3) in \<open>simp_all add: rv_simps sext12_fits [OF assms(4)] that\<close>)
  have eo: "?eo < 0x80"
    using entry_bounds by simp
  have res: "dst \<noteq> t4" "dst \<noteq> s11"
    using assms(3) by simp_all
  obtain t where t: "runs (do {
      update_carry inst (Some (Entry_carry_add + size_index sz)) (pick True dst) (pick (\<not> True) dst) t4;
      update_overflow inst (Some (?eo + size_index sz)) (Some dst) None t4;
      emit (ADDI dst dst (ucast k));
      update_carry inst None (pick (\<not> True) dst) (pick True dst) zero;
      update_overflow inst None None (Some dst) zero }) s t"
    "frame {dst, t4} (carry_overflow_cells inst) s t" "rget dst t = rget dst s + k"
    "updates flags_carry inst \<longrightarrow>
      flag_word 2 carry_operation_offset t = entry_word (Entry_carry_add + size_index sz) \<and>
      carry_word 0 t = rget dst s \<and> carry_word 1 t = rget dst s + k"
    "updates flags_overflow inst \<longrightarrow>
      flag_word 2 overflow_operation_offset t = entry_word (?eo + size_index sz) \<and>
      overflow_word 0 t = rget dst s \<and> overflow_word 1 t = rget dst s + k"
    using constant_pattern_runs [OF assms(1,3) entry_bounds(1) eo res g, where inst = inst and p = True, unfolded if_True] by blast
  have "runs_val (add_entries k sz) s (Entry_carry_add + size_index sz, ?eo + size_index sz) s"
    using calculate_entries_runs [OF assms(1)] by (simp add: add_entries_def)
  then have "runs (Add_execute_imm inst dst k) s t"
    unfolding Add_execute_imm_def assms(2)
    by (rule runs_bind) (use t(1) in \<open>simp add: pick_def\<close>)
  moreover have "records_carry (add_carry sz (rget dst s) k) t" if "updates flags_carry inst"
    using add_flags(1) [OF assms(1), of t] t(4) that carry_of_sum(2) [of sz "rget dst s" k]
      valid_size_bound [OF assms(1)] by simp
  moreover have "records_overflow (add_overflow sz (rget dst s) k) t" if "updates flags_overflow inst"
    using add_flags(4,5) [OF assms(1), of t] t(5) that overflow_of_sum(1,2) [OF assms(1), of k "rget dst s"]
      assms(5) by (simp split: if_splits)
  ultimately show ?thesis
    using t by blast
qed

lemma Sub_imm_runs:
  assumes "valid_size sz" "op_size (get_operand 0 inst) = sz" "dst \<notin> {zero, t4, s11}" "fits_imm12 k"
    "sval sz k = sint k"
  shows "\<exists>t. runs (Sub_execute_imm inst dst k) s t \<and> frame {dst, t4} (carry_overflow_cells inst) s t \<and>
    rget dst t = rget dst s - k \<and>
    (updates flags_carry inst \<longrightarrow> records_carry (sub_carry sz (rget dst s) k) t) \<and>
    (updates flags_overflow inst \<longrightarrow> records_overflow (sub_overflow sz (rget dst s) k) t)"
proof -
  let ?eo = "if 0 \<le> sint k then Entry_overflow_add_neg else Entry_overflow_add_pos"
  let ?g = "if k = - 0x800 then do { emit (ADDI dst dst 1); emit (ADDI dst dst (ucast (- k - 1))) }
      else emit (ADDI dst dst (ucast (- k)))"
  have "runs ?g u (rset dst (rget dst s - k) u)" if "rget dst u = rget dst s" for u
  proof (cases "k = - 0x800")
    case True
    then show ?thesis
      using that assms(3)
      by (simp add: runs_iff rv_simps) (simp add: add.commute)
  next
    case False
    then show ?thesis
      using sext12_fits [OF fits_negative [OF assms(4) False]] that
      by (auto intro!: runs_emit simp: rv_simps)
  qed
  then have g: "\<exists>w. runs ?g u w \<and> frame {dst} {} u w \<and> rget dst w = rget dst s - k"
    if "rget dst u = rget dst s" for u
    using step_result [of ?g u dst "rget dst s - k"] that assms(3) by auto
  have eo: "?eo < 0x80"
    using entry_bounds by simp
  have res: "dst \<noteq> t4" "dst \<noteq> s11"
    using assms(3) by simp_all
  obtain t where t: "runs (do {
      update_carry inst (Some (Entry_carry_add + size_index sz)) (pick False dst) (pick (\<not> False) dst) t4;
      update_overflow inst (Some (?eo + size_index sz)) (Some dst) None t4;
      ?g;
      update_carry inst None (pick (\<not> False) dst) (pick False dst) zero;
      update_overflow inst None None (Some dst) zero }) s t"
    "frame {dst, t4} (carry_overflow_cells inst) s t" "rget dst t = rget dst s - k"
    "updates flags_carry inst \<longrightarrow>
      flag_word 2 carry_operation_offset t = entry_word (Entry_carry_add + size_index sz) \<and>
      carry_word 0 t = rget dst s - k \<and> carry_word 1 t = rget dst s"
    "updates flags_overflow inst \<longrightarrow>
      flag_word 2 overflow_operation_offset t = entry_word (?eo + size_index sz) \<and>
      overflow_word 0 t = rget dst s \<and> overflow_word 1 t = rget dst s - k"
    using constant_pattern_runs [OF assms(1,3) entry_bounds(1) eo res g, where inst = inst and p = False, unfolded if_False] by blast
  have "runs_val (sub_entries k sz) s (Entry_carry_add + size_index sz, ?eo + size_index sz) s"
    using calculate_entries_runs [OF assms(1)] by (simp add: sub_entries_def)
  then have "runs (Sub_execute_imm inst dst k) s t"
    unfolding Sub_execute_imm_def assms(2)
    by (rule runs_bind) (use t(1) in \<open>simp add: pick_def\<close>)
  moreover have "records_carry (sub_carry sz (rget dst s) k) t" if "updates flags_carry inst"
    using add_flags(1) [OF assms(1), of t] t(4) that carry_of_sum(3) [of sz "rget dst s" k]
      valid_size_bound [OF assms(1)] by simp
  moreover have "records_overflow (sub_overflow sz (rget dst s) k) t" if "updates flags_overflow inst"
    using add_flags(4,5) [OF assms(1), of t] t(5) that overflow_of_sum(3,4) [OF assms(1), of k "rget dst s"]
      assms(5) by (simp split: if_splits)
  ultimately show ?thesis
    using t by blast
qed

text \<open>The logical operations clear carry and overflow.\<close>

lemma clear_flags_runs:
  assumes "temp \<noteq> zero" "temp \<noteq> s11"
  shows "\<exists>t. runs (do { update_carry_to inst False temp; update_overflow_to inst False temp }) s t \<and>
    frame {temp} (carry_overflow_cells inst) s t \<and>
    (updates flags_carry inst \<longrightarrow> records_carry False t) \<and>
    (updates flags_overflow inst \<longrightarrow> records_overflow False t)"
proof -
  have eq: "update_carry_to inst False temp = update_carry inst (Some Entry_carry_clear) None None temp"
    "update_overflow_to inst False temp = update_overflow inst (Some Entry_overflow_clear) None None temp"
    by (simp_all add: update_carry_to_def update_overflow_to_def update_carry_def update_overflow_def
        store_entry_def store_value_def)
  obtain u where u: "runs (update_carry_to inst False temp) s u" "frame {temp} (carry_part inst) s u"
    "updates flags_carry inst \<longrightarrow> records_carry False u"
    using update_carry_runs [of "Some Entry_carry_clear" temp None None inst s] assms constant_flags(1)
    unfolding eq by (auto simp: Entry_defs)
  obtain t where t: "runs (update_overflow_to inst False temp) u t" "frame {temp} (overflow_part inst) u t"
    "updates flags_overflow inst \<longrightarrow> records_overflow False t"
    using update_overflow_runs [of "Some Entry_overflow_clear" temp None None inst u] assms constant_flags(3)
    unfolding eq by (auto simp: Entry_defs)
  have "frame ({temp} \<union> {temp}) (carry_part inst \<union> overflow_part inst) s t"
    by (rule frame_trans [OF u(2) t(2)]) (use assms in simp)
  then show ?thesis
    using runs_comp [OF u(1) t(1)] t(3) u(3) frame_records(1) [OF t(2)] assms
    by (auto simp: carry_overflow_cells_def)
qed

lemma logic_runs:
  assumes "dst \<notin> {zero, t4, s11}" "\<And>u. rv_step w s = Some (rset dst v s)"
  shows "\<exists>t. runs (do { emit w; update_carry_to inst False t4; update_overflow_to inst False t4 }) s t \<and>
    frame {dst, t4} (carry_overflow_cells inst) s t \<and> rget dst t = v \<and>
    (updates flags_carry inst \<longrightarrow> records_carry False t) \<and>
    (updates flags_overflow inst \<longrightarrow> records_overflow False t)"
proof -
  obtain t where t: "runs (do { update_carry_to inst False t4; update_overflow_to inst False t4 }) (rset dst v s) t"
    "frame {t4} (carry_overflow_cells inst) (rset dst v s) t"
    "updates flags_carry inst \<longrightarrow> records_carry False t"
    "updates flags_overflow inst \<longrightarrow> records_overflow False t"
    using clear_flags_runs [of t4 inst "rset dst v s"] by auto
  have "frame ({dst} \<union> {t4}) ({} \<union> carry_overflow_cells inst) s t"
    by (rule frame_trans [OF frame_rset_self t(2)]) (use assms in auto)
  moreover have "rget dst t = v"
    using frame_rget [OF t(2), of dst] assms(1) by (simp add: rv_simps)
  ultimately show ?thesis
    using t runs_emit_comp [OF assms(2) t(1)] by (auto simp: insert_commute)
qed

lemma logic_low:
  "take_bit n x = take_bit n x' \<Longrightarrow> take_bit n y = take_bit n (y' :: u64) \<Longrightarrow>
   take_bit n (x AND y) = take_bit n (x' AND y') \<and> take_bit n (x OR y) = take_bit n (x' OR y') \<and>
   take_bit n (x XOR y) = take_bit n (x' XOR y')"
  by (simp add: take_bit_and take_bit_or take_bit_xor)

lemma arithmetic_low:
  assumes "valid_size sz" "take_bit (8 * sz) x = take_bit (8 * sz) x'" "take_bit (8 * sz) y = take_bit (8 * sz) y'"
  shows "add_carry sz x y = add_carry sz x' y'" "sub_carry sz x y = sub_carry sz x' y'"
    "add_overflow sz x y = add_overflow sz x' y'" "sub_overflow sz x y = sub_overflow sz x' y'"
  using uval_low [OF assms(2)] uval_low [OF assms(3)] sval_low [OF assms(1,2)] sval_low [OF assms(1,3)]
  by (simp_all add: add_carry_def sub_carry_def add_overflow_def sub_overflow_def)

section \<open>The executors of the program\<close>

interpretation addition: binary_executor Add_execute_reg Add_execute_imm "(+)" add_carry add_overflow False
proof (unfold_locales, goal_cases)
  case 1
  then show ?case by (rule take_bit_arith_cong(1))
next
  case 2
  then show ?case by (intro conjI arithmetic_low(1,3))
next
  case (3 inst sz dst src s)
  then show ?case by (intro Add_reg_runs) simp_all
next
  case (4 inst sz dst k s)
  then show ?case by (intro Add_imm_runs) simp_all
qed

interpretation subtraction: binary_executor Sub_execute_reg Sub_execute_imm "(-)" sub_carry sub_overflow True
proof (unfold_locales, goal_cases)
  case 1
  then show ?case by (rule take_bit_arith_cong(2))
next
  case 2
  then show ?case by (intro conjI arithmetic_low(2,4))
next
  case (3 inst sz dst src s)
  then show ?case by (intro Sub_reg_runs) simp_all
next
  case (4 inst sz dst k s)
  then show ?case by (intro Sub_imm_runs) simp_all
qed

lemmas logic_executor_defs = And_execute_reg_def And_execute_imm_def Or_execute_reg_def Or_execute_imm_def
  Xor_execute_reg_def Xor_execute_imm_def

interpretation conjunction: binary_executor And_execute_reg And_execute_imm "(AND)"
  "\<lambda>sz x y. False" "\<lambda>sz x y. False" True
  by unfold_locales
    (use logic_low in \<open>auto simp: logic_executor_defs sext12_fits rv_simps intro!: logic_runs\<close>)

interpretation disjunction: binary_executor Or_execute_reg Or_execute_imm "(OR)"
  "\<lambda>sz x y. False" "\<lambda>sz x y. False" True
  by unfold_locales
    (use logic_low in \<open>auto simp: logic_executor_defs sext12_fits rv_simps intro!: logic_runs\<close>)

interpretation exclusion: binary_executor Xor_execute_reg Xor_execute_imm "(XOR)"
  "\<lambda>sz x y. False" "\<lambda>sz x y. False" True
  by unfold_locales
    (use logic_low in \<open>auto simp: logic_executor_defs sext12_fits rv_simps intro!: logic_runs\<close>)

end
