(* ===== verification/UnaryComparisons.thy ===== *)
theory UnaryComparisons
  imports BinaryOperations
begin

text \<open>
  The unary operations and the comparisons record the x86 flags and compute the x86 result: each is an
  interpretation of \<open>unary_executor\<close> or \<open>compare_executor\<close>.
\<close>

section \<open>Increment, decrement, negation, complement\<close>

lemma unary_flags:
  assumes "valid_size sz"
  shows "flag_word 2 overflow_operation_offset s = entry_word (Entry_overflow_inc + size_index sz) \<Longrightarrow>
      records_overflow (\<not> sfits sz (sval sz (overflow_word 0 s) + 1)) s"
    "flag_word 2 overflow_operation_offset s = entry_word (Entry_overflow_dec + size_index sz) \<Longrightarrow>
      records_overflow (\<not> sfits sz (sval sz (overflow_word 0 s) - 1)) s"
    "flag_word 2 carry_operation_offset s = entry_word (Entry_carry_neg + size_index sz) \<Longrightarrow>
      records_carry (take_bit (8 * sz) (carry_word 0 s) \<noteq> 0) s"
proof -
  note w = value_word [of sz] valid_size_bound [OF assms] sval_take [OF assms]
  have small: "Entry_overflow_inc + size_index sz < 0x100" "Entry_overflow_dec + size_index sz < 0x100"
    "Entry_carry_neg + size_index sz < 0x100"
    by (intro entries_small [OF assms]; simp add: Entry_defs)+
  show "flag_word 2 overflow_operation_offset s = entry_word (Entry_overflow_inc + size_index sz) \<Longrightarrow>
      records_overflow (\<not> sfits sz (sval sz (overflow_word 0 s) + 1)) s"
    by (erule records_overflow_routine [where f = "\<lambda>a b. \<not> sfits sz (sval sz a + 1)"])
      (use small overflow_inc_routine [OF assms] in \<open>simp_all add: w split del: split_of_bool\<close>)
  show "flag_word 2 overflow_operation_offset s = entry_word (Entry_overflow_dec + size_index sz) \<Longrightarrow>
      records_overflow (\<not> sfits sz (sval sz (overflow_word 0 s) - 1)) s"
    by (erule records_overflow_routine [where f = "\<lambda>a b. \<not> sfits sz (sval sz a - 1)"])
      (use small overflow_dec_routine [OF assms] in \<open>simp_all add: w split del: split_of_bool\<close>)
  show "flag_word 2 carry_operation_offset s = entry_word (Entry_carry_neg + size_index sz) \<Longrightarrow>
      records_carry (take_bit (8 * sz) (carry_word 0 s) \<noteq> 0) s"
    by (erule records_carry_routine [where f = "\<lambda>a b. take_bit (8 * sz) a \<noteq> 0"])
      (use small carry_neg_routine [OF assms] in \<open>simp_all add: w split del: split_of_bool\<close>)
qed

text \<open>An operation that records its overflow entry and operand, and then changes its register.\<close>

lemma overflow_step_runs:
  assumes "valid_size sz" "dst \<notin> {zero, t4, s11}" "e < 0x80"
    and op: "\<And>u. rget dst u = rget dst s \<Longrightarrow> runs g u (rset dst v u)"
  shows "\<exists>t. runs (do { update_overflow inst (Some (e + size_index sz)) (Some dst) None t4; g }) s t \<and>
    frame {dst, t4} (overflow_part inst) s t \<and> rget dst t = v \<and>
    (updates flags_overflow inst \<longrightarrow>
      flag_word 2 overflow_operation_offset t = entry_word (e + size_index sz) \<and>
      overflow_word 0 t = rget dst s)"
proof -
  obtain u where u: "runs (update_overflow inst (Some (e + size_index sz)) (Some dst) None t4) s u"
    "frame {t4} (overflow_part inst) s u"
    "updates flags_overflow inst \<longrightarrow>
      flag_word 2 overflow_operation_offset u = entry_word (e + size_index sz) \<and>
      overflow_word 0 u = rget dst s"
    using overflow_entry_runs [OF assms(1,3), of t4 "Some dst" None inst s] assms(2)
    by (auto simp: or_old_def)
  have "rget dst u = rget dst s"
    using frame_rget [OF u(2)] assms(2) by auto
  note g = op [OF this]
  have "frame ({t4} \<union> {dst}) (overflow_part inst \<union> {}) s (rset dst v u)"
    by (rule frame_trans [OF u(2) frame_rset_self]) simp
  then have "frame {dst, t4} (overflow_part inst) s (rset dst v u)"
    by (simp add: insert_commute)
  moreover have "s11 \<notin> {dst}"
    using assms(2) by auto
  ultimately show ?thesis
    using runs_comp [OF u(1) g] u(3) frame_words(2) [OF frame_rset_self [of dst u v]] assms(2)
    by (intro exI [of _ "rset dst v u"]) (auto simp: rv_simps)
qed

lemma Inc_runs:
  assumes "\<not> updates flags_carry inst" "valid_size sz" "op_size (get_operand 0 inst) = sz"
    "dst \<notin> {zero, t4, s11}"
  shows "\<exists>t. runs (Inc_execute_operation inst dst) s t \<and> frame {dst, t4} (carry_overflow_cells inst) s t \<and>
    rget dst t = rget dst s + 1 \<and>
    (updates flags_overflow inst \<longrightarrow> records_overflow (\<not> sfits sz (sval sz (rget dst s) + 1)) t)"
proof -
  have g: "runs (emit (ADDI dst dst 1)) u (rset dst (rget dst s + 1) u)" if "rget dst u = rget dst s" for u
    by (rule runs_emit) (simp add: rv_simps that)
  obtain t where t: "runs (do { update_overflow inst (Some (Entry_overflow_inc + size_index sz)) (Some dst) None t4;
      emit (ADDI dst dst 1) }) s t" "frame {dst, t4} (overflow_part inst) s t" "rget dst t = rget dst s + 1"
    "updates flags_overflow inst \<longrightarrow>
      flag_word 2 overflow_operation_offset t = entry_word (Entry_overflow_inc + size_index sz) \<and>
      overflow_word 0 t = rget dst s"
    using overflow_step_runs [OF assms(2,4) entry_bounds(7) g] by blast
  have "runs (Inc_execute_operation inst dst) s t"
    unfolding Inc_execute_operation_def assms(3)
    by (rule runs_bind [OF calculate_entries_runs [OF assms(2)]]) (use t(1) in simp)
  then show ?thesis
    using t unary_flags(1) [OF assms(2), of t] assms(1) by (auto simp: carry_overflow_cells_def)
qed

lemma Dec_runs:
  assumes "\<not> updates flags_carry inst" "valid_size sz" "op_size (get_operand 0 inst) = sz"
    "dst \<notin> {zero, t4, s11}"
  shows "\<exists>t. runs (Dec_execute_operation inst dst) s t \<and> frame {dst, t4} (carry_overflow_cells inst) s t \<and>
    rget dst t = rget dst s - 1 \<and>
    (updates flags_overflow inst \<longrightarrow> records_overflow (\<not> sfits sz (sval sz (rget dst s) - 1)) t)"
proof -
  have g: "runs (emit (ADDI dst dst (- 1))) u (rset dst (rget dst s - 1) u)" if "rget dst u = rget dst s" for u
    by (rule runs_emit) (simp add: rv_simps that)
  obtain t where t: "runs (do { update_overflow inst (Some (Entry_overflow_dec + size_index sz)) (Some dst) None t4;
      emit (ADDI dst dst (- 1)) }) s t" "frame {dst, t4} (overflow_part inst) s t" "rget dst t = rget dst s - 1"
    "updates flags_overflow inst \<longrightarrow>
      flag_word 2 overflow_operation_offset t = entry_word (Entry_overflow_dec + size_index sz) \<and>
      overflow_word 0 t = rget dst s"
    using overflow_step_runs [OF assms(2,4) entry_bounds(8) g] by blast
  have "runs (Dec_execute_operation inst dst) s t"
    unfolding Dec_execute_operation_def assms(3)
    by (rule runs_bind [OF calculate_entries_runs [OF assms(2)]]) (use t(1) in simp)
  then show ?thesis
    using t unary_flags(2) [OF assms(2), of t] assms(1) by (auto simp: carry_overflow_cells_def)
qed

text \<open>Negation overflows exactly at the least value, where subtracting one overflows too.\<close>

lemma neg_overflow:
  assumes "valid_size sz"
  shows "\<not> sfits sz (sval sz x - 1) \<longleftrightarrow> sub_overflow sz 0 x"
proof -
  have "sval sz 0 = 0"
    by (simp add: sval_def)
  then show ?thesis
    using sval_bounds [OF assms, of x] by (auto simp: sub_overflow_def sfits_def)
qed

lemma neg_carry: "take_bit (8 * sz) x \<noteq> 0 \<longleftrightarrow> sub_carry sz 0 x"
proof -
  have "uval sz 0 = 0"
    by (simp add: uval_def)
  then show ?thesis
    using take_bit_eq_uval [of sz x 0] uval_bounds(1) [of sz x] by (auto simp: sub_carry_def)
qed

lemma Neg_runs:
  assumes "valid_size sz" "op_size (get_operand 0 inst) = sz" "dst \<notin> {zero, t4, s11}"
  shows "\<exists>t. runs (Neg_execute_operation inst dst) s t \<and> frame {dst, t4} (carry_overflow_cells inst) s t \<and>
    rget dst t = - rget dst s \<and>
    (updates flags_carry inst \<longrightarrow> records_carry (sub_carry sz 0 (rget dst s)) t) \<and>
    (updates flags_overflow inst \<longrightarrow> records_overflow (sub_overflow sz 0 (rget dst s)) t)"
proof -
  obtain u where u: "runs (update_carry inst (Some (Entry_carry_neg + size_index sz)) (Some dst) None t4) s u"
    "frame {t4} (carry_part inst) s u"
    "updates flags_carry inst \<longrightarrow>
      flag_word 2 carry_operation_offset u = entry_word (Entry_carry_neg + size_index sz) \<and>
      carry_word 0 u = rget dst s"
    using carry_entry_runs [OF assms(1) entry_bounds(6), of t4 "Some dst" None inst s] assms(3)
    by (auto simp: or_old_def)
  have same: "rget dst u = rget dst s"
    using frame_rget [OF u(2)] assms(3) by auto
  have g: "runs (emit (NEG dst dst)) v (rset dst (- rget dst s) v)" if "rget dst v = rget dst u" for v
    by (rule runs_emit) (simp add: rv_simps that same)
  obtain t where t: "runs (do { update_overflow inst (Some (Entry_overflow_dec + size_index sz)) (Some dst) None t4;
      emit (NEG dst dst) }) u t" "frame {dst, t4} (overflow_part inst) u t" "rget dst t = - rget dst s"
    "updates flags_overflow inst \<longrightarrow>
      flag_word 2 overflow_operation_offset t = entry_word (Entry_overflow_dec + size_index sz) \<and>
      overflow_word 0 t = rget dst u"
    using overflow_step_runs [OF assms(1,3) entry_bounds(8) g] by blast
  have s11: "s11 \<notin> {dst, t4}"
    using assms(3) by auto
  have "frame ({t4} \<union> {dst, t4}) (carry_part inst \<union> overflow_part inst) s t"
    by (rule frame_trans [OF u(2) t(2)]) simp
  then have "frame {dst, t4} (carry_overflow_cells inst) s t"
    by (rule frame_mono) (auto simp: carry_overflow_cells_def)
  moreover have "Entry_overflow_neg = Entry_overflow_dec"
    by (simp add: Entry_defs)
  then have "runs (Neg_execute_operation inst dst) s t"
    unfolding Neg_execute_operation_def assms(2)
    by (rule_tac runs_bind [OF calculate_entries_runs [OF assms(1)]]) (simp, rule runs_comp [OF u(1) t(1)])
  moreover have "records_carry (sub_carry sz 0 (rget dst s)) t" if "updates flags_carry inst"
    using unary_flags(3) [OF assms(1), of u] u(3) that frame_records(1) [OF t(2) s11] neg_carry by simp
  moreover have "records_overflow (sub_overflow sz 0 (rget dst s)) t" if "updates flags_overflow inst"
    using unary_flags(2) [OF assms(1), of t] t(4) that neg_overflow [OF assms(1)] same by simp
  ultimately show ?thesis
    using t(3) by blast
qed

lemma Not_runs:
  assumes "\<not> updates flags_carry inst" "\<not> updates flags_overflow inst" "dst \<notin> {zero, t4, s11}"
  shows "\<exists>t. runs (Not_execute_operation inst dst) s t \<and> frame {dst, t4} (carry_overflow_cells inst) s t \<and>
    rget dst t = NOT (rget dst s)"
  using assms
  by (intro exI [of _ "rset dst (NOT (rget dst s)) s"])
    (auto simp: Not_execute_operation_def rv_simps intro!: runs_emit frame_rset)

interpretation increment: unary_executor Inc_execute_operation "\<lambda>x. x + 1" "\<lambda>sz x. False"
  "\<lambda>sz x. \<not> sfits sz (sval sz x + 1)" "\<lambda>inst. \<not> updates flags_carry inst"
proof (unfold_locales, goal_cases)
  case 1
  then show ?case by (rule take_bit_arith_cong(1) [OF _ _ refl])
next
  case (2 sz x x')
  then show ?case using sval_low by metis
next
  case (3 inst sz dst s)
  then show ?case using Inc_runs [of inst sz dst s] by auto
qed

interpretation decrement: unary_executor Dec_execute_operation "\<lambda>x. x - 1" "\<lambda>sz x. False"
  "\<lambda>sz x. \<not> sfits sz (sval sz x - 1)" "\<lambda>inst. \<not> updates flags_carry inst"
proof (unfold_locales, goal_cases)
  case 1
  then show ?case by (rule take_bit_arith_cong(2) [OF _ _ refl])
next
  case (2 sz x x')
  then show ?case using sval_low by metis
next
  case (3 inst sz dst s)
  then show ?case using Dec_runs [of inst sz dst s] by auto
qed

interpretation negation: unary_executor Neg_execute_operation uminus "\<lambda>sz. sub_carry sz 0"
  "\<lambda>sz. sub_overflow sz 0" "\<lambda>inst. True"
proof (unfold_locales, goal_cases)
  case (1 sz x x')
  then show ?case using take_bit_arith_cong(2) [of sz 0 0 x x'] by simp
next
  case 2
  then show ?case by (intro conjI arithmetic_low(2,4)) simp_all
next
  case 3
  then show ?case by (intro Neg_runs) simp_all
qed

interpretation complement: unary_executor Not_execute_operation "\<lambda>x. NOT x" "\<lambda>sz x. False" "\<lambda>sz x. False"
  "\<lambda>inst. \<not> updates flags_carry inst \<and> \<not> updates flags_overflow inst"
proof (unfold_locales, goal_cases)
  case (1 sz x x')
  then show ?case by (metis take_bit_not_eq_mask_diff take_bit_not_iff)
next
  case 2
  then show ?case by simp
next
  case (3 inst sz dst s)
  then show ?case using Not_runs [of inst dst s] by auto
qed

section \<open>Comparison and test\<close>

lemma runs_val_of_runs: "runs g s t \<Longrightarrow> runs_val (do { g; ret r }) s r t"
  by (rule runs_val_returning)

lemma Cmp_reg_runs:
  assumes "valid_size sz" "op_size (get_operand 0 inst) = sz" "dst \<notin> {zero, t4, t5, s11}"
    "src \<notin> {zero, t4, t5, s11}"
  shows "\<exists>t. runs_val (Cmp_execute_reg inst dst src) s t5 t \<and>
    frame {t4, t5} (carry_overflow_cells inst) s t \<and> rget t5 t = rget dst s - rget src s \<and>
    (updates flags_carry inst \<longrightarrow> records_carry (sub_carry sz (rget dst s) (rget src s)) t) \<and>
    (updates flags_overflow inst \<longrightarrow> records_overflow (sub_overflow sz (rget dst s) (rget src s)) t)"
proof -
  obtain u where u: "runs (update_carry inst (Some (Entry_carry_add + size_index sz)) None (Some dst) t4) s u"
    "frame {t4} (carry_part inst) s u"
    "updates flags_carry inst \<longrightarrow>
      flag_word 2 carry_operation_offset u = entry_word (Entry_carry_add + size_index sz) \<and>
      carry_word 1 u = rget dst s"
    using carry_entry_runs [OF assms(1) entry_bounds(1), of t4 None "Some dst" inst s] assms
    by (auto simp: or_old_def)
  obtain v where v: "runs (update_overflow inst (Some (Entry_overflow_sub + size_index sz)) (Some src) (Some dst) t4) u v"
    "frame {t4} (overflow_part inst) u v"
    "updates flags_overflow inst \<longrightarrow>
      flag_word 2 overflow_operation_offset v = entry_word (Entry_overflow_sub + size_index sz) \<and>
      overflow_word 0 v = rget src u \<and> overflow_word 1 v = rget dst u"
    using overflow_entry_runs [OF assms(1) entry_bounds(3), of t4 "Some src" "Some dst" inst u] assms
    by (auto simp: or_old_def)
  have regs: "rget src u = rget src s" "rget dst u = rget dst s" "rget src v = rget src s" "rget dst v = rget dst s"
    using frame_rget [OF u(2)] frame_rget [OF v(2)] assms by auto
  let ?w = "rset t5 (rget dst v - rget src v) v"
  obtain t where t: "runs (update_carry inst None (Some t5) None zero) ?w t"
    "frame {} (carry_part inst) ?w t"
    "updates flags_carry inst \<longrightarrow>
      flag_word 2 carry_operation_offset t = flag_word 2 carry_operation_offset ?w \<and>
      carry_word 0 t = rget dst s - rget src s \<and> carry_word 1 t = carry_word 1 ?w"
    using carry_value_runs [of inst "Some t5" None zero ?w] regs by (auto simp: or_old_def rv_simps)
  have "frame ({t4} \<union> {t4} \<union> {t5} \<union> {}) (carry_part inst \<union> overflow_part inst \<union> {} \<union> carry_part inst) s t"
    by (rule frame_trans [OF frame_trans [OF frame_trans [OF u(2) v(2)] frame_rset_self] t(2)]) simp_all
  then have "frame {t4, t5} (carry_overflow_cells inst) s t"
    by (rule frame_mono) (auto simp: carry_overflow_cells_def)
  moreover have "rget t5 t = rget dst s - rget src s"
    using frame_rget [OF t(2), of t5] regs by (simp add: rv_simps)
  moreover have "runs_val (Cmp_execute_reg inst dst src) s t5 t"
    unfolding Cmp_execute_reg_def assms(2)
    by (rule runs_val_bind [OF calculate_entries_runs [OF assms(1)]])
      (simp, rule runs_val_pre [OF u(1)], rule runs_val_pre [OF v(1)],
        rule runs_val_emit_comp [OF _ runs_val_returning [OF t(1)]], simp add: rv_simps)
  moreover have "records_overflow (sub_overflow sz (rget dst s) (rget src s)) t" if "updates flags_overflow inst"
  proof (rule frame_records(2) [OF t(2)])
    have "records_overflow (sub_overflow sz (rget dst s) (rget src s)) v"
      using add_flags(3) [OF assms(1), of v] v(3) that regs by simp
    then show "records_overflow (sub_overflow sz (rget dst s) (rget src s)) ?w"
      using records_rset(2) [of t5] by simp
  qed simp_all
  moreover have "records_carry (sub_carry sz (rget dst s) (rget src s)) t" if "updates flags_carry inst"
  proof -
    have "frame ({t4} \<union> {t5}) (overflow_part inst \<union> {}) u ?w"
      by (rule frame_trans [OF v(2) frame_rset_self]) simp
    then have "flag_word 2 carry_operation_offset ?w = entry_word (Entry_carry_add + size_index sz) \<and>
        carry_word 1 ?w = rget dst s"
      using frame_words(1) u(3) that by fastforce
    then show ?thesis
      using add_flags(1) [OF assms(1), of t] t(3) that carry_of_sum(3) [of sz "rget dst s" "rget src s"]
        valid_size_bound [OF assms(1)] by simp
  qed
  ultimately show ?thesis by blast
qed

text \<open>
  With a constant the result is the operand itself when the constant is 0. The least constant is
  excluded: for it the code adds 1 and discards the sum, so that the difference is off by one
  instruction immediate (\<open>Cmp_least_constant\<close> below).
\<close>

lemma Cmp_imm_runs:
  assumes "valid_size sz" "op_size (get_operand 0 inst) = sz" "dst \<notin> {zero, t4, t5, s11}" "fits_imm12 k"
    "sval sz k = sint k" "k \<noteq> - 0x800"
  shows "\<exists>r t. runs_val (Cmp_execute_imm inst dst k) s r t \<and> r \<in> {dst, t5} \<and>
    frame {t4, t5} (carry_overflow_cells inst) s t \<and> rget r t = rget dst s - k \<and>
    (updates flags_carry inst \<longrightarrow> records_carry (sub_carry sz (rget dst s) k) t) \<and>
    (updates flags_overflow inst \<longrightarrow> records_overflow (sub_overflow sz (rget dst s) k) t)"
proof -
  let ?eo = "if 0 \<le> sint k then Entry_overflow_add_neg else Entry_overflow_add_pos"
  define res where "res = (if k = 0 then dst else t5)"
  define g where "g = (if k = 0 then skip else emit (ADDI t5 dst (ucast (- k))))"
  have op: "\<exists>w. runs g u w \<and> frame {t5} {} u w \<and> rget res w = rget dst s - k" if "rget dst u = rget dst s" for u
  proof (cases "k = 0")
    case True
    then show ?thesis
      using that by (intro exI [of _ u]) (simp add: g_def res_def runs_skip)
  next
    case False
    then show ?thesis
      using sext12_fits [OF fits_negative [OF assms(4,6)]] that frame_rset_self [of t5 u]
      by (intro exI [of _ "rset t5 (rget dst s - k) u"])
        (auto intro!: runs_emit simp: rv_simps g_def res_def)
  qed
  have res: "res \<noteq> t4" "t5 \<noteq> s11"
    using assms(3) by (simp_all add: res_def)
  have eo: "?eo < 0x80"
    using entry_bounds by simp
  have ds: "dst \<notin> {zero, t4, s11}"
    using assms(3) by simp
  obtain t where t: "runs (do {
      update_carry inst (Some (Entry_carry_add + size_index sz)) (pick False dst) (pick (\<not> False) dst) t4;
      update_overflow inst (Some (?eo + size_index sz)) (Some dst) None t4;
      g;
      update_carry inst None (pick (\<not> False) res) (pick False res) zero;
      update_overflow inst None None (Some res) zero }) s t"
    "frame {t5, t4} (carry_overflow_cells inst) s t" "rget res t = rget dst s - k"
    "updates flags_carry inst \<longrightarrow>
      flag_word 2 carry_operation_offset t = entry_word (Entry_carry_add + size_index sz) \<and>
      carry_word 0 t = rget dst s - k \<and> carry_word 1 t = rget dst s"
    "updates flags_overflow inst \<longrightarrow>
      flag_word 2 overflow_operation_offset t = entry_word (?eo + size_index sz) \<and>
      overflow_word 0 t = rget dst s \<and> overflow_word 1 t = rget dst s - k"
    using constant_pattern_runs [OF assms(1) ds entry_bounds(1) eo res op, where inst = inst and p = False, unfolded if_False] by blast
  have "runs_val (sub_entries k sz) s (Entry_carry_add + size_index sz, ?eo + size_index sz) s"
    using calculate_entries_runs [OF assms(1)] by (simp add: sub_entries_def)
  then have "runs_val (Cmp_execute_imm inst dst k) s res t"
    unfolding Cmp_execute_imm_def assms(2)
    by (rule runs_val_bind) (use runs_val_returning [OF t(1), of res] assms(6) in \<open>auto simp: pick_def g_def res_def\<close>)
  moreover have "records_carry (sub_carry sz (rget dst s) k) t" if "updates flags_carry inst"
    using add_flags(1) [OF assms(1), of t] t(4) that carry_of_sum(3) [of sz "rget dst s" k]
      valid_size_bound [OF assms(1)] by simp
  moreover have "records_overflow (sub_overflow sz (rget dst s) k) t" if "updates flags_overflow inst"
    using add_flags(4,5) [OF assms(1), of t] t(5) that overflow_of_sum(3,4) [OF assms(1), of k "rget dst s"]
      assms(5) by (simp split: if_splits)
  moreover have "res \<in> {dst, t5}"
    by (simp add: res_def)
  ultimately show ?thesis
    using t(2,3) by (intro exI [of _ res] exI [of _ t]) (auto simp: insert_commute)
qed

lemma Test_runs:
  assumes "dst \<notin> {zero, t4, t5, s11}" "\<And>u. rv_step w s = Some (rset t5 v s)"
  shows "\<exists>t. runs_val (do { emit w; update_carry_to inst False t4; update_overflow_to inst False t4; ret t5 }) s t5 t \<and>
    frame {t4, t5} (carry_overflow_cells inst) s t \<and> rget t5 t = v \<and>
    (updates flags_carry inst \<longrightarrow> records_carry False t) \<and>
    (updates flags_overflow inst \<longrightarrow> records_overflow False t)"
proof -
  obtain t where t: "runs (do { emit w; update_carry_to inst False t4; update_overflow_to inst False t4 }) s t"
    "frame {t5, t4} (carry_overflow_cells inst) s t" "rget t5 t = v"
    "updates flags_carry inst \<longrightarrow> records_carry False t"
    "updates flags_overflow inst \<longrightarrow> records_overflow False t"
    using logic_runs [of t5 w s v inst] assms(2) by auto
  then show ?thesis
    using runs_val_returning [OF t(1), of t5] by (auto simp: insert_commute)
qed

lemmas test_executor_defs = Test_execute_reg_def Test_execute_imm_def

interpretation comparison: compare_executor Cmp_execute_reg Cmp_execute_imm "(-)" sub_carry sub_overflow
  "\<lambda>k. k \<noteq> - 0x800"
proof (unfold_locales, goal_cases)
  case 1
  then show ?case by (rule take_bit_arith_cong(2))
next
  case 2
  then show ?case by (intro conjI arithmetic_low(2,4))
next
  case (3 inst sz dst src s)
  then show ?case using Cmp_reg_runs [of sz inst dst src s] by blast
next
  case (4 inst sz dst k s)
  then show ?case by (intro Cmp_imm_runs) simp_all
qed

interpretation bit_test: compare_executor Test_execute_reg Test_execute_imm "(AND)" "\<lambda>sz x y. False"
  "\<lambda>sz x y. False" "\<lambda>k. True"
proof (unfold_locales, goal_cases)
  case 1
  then show ?case using logic_low by blast
next
  case 2
  then show ?case by simp
next
  case (3 inst sz dst src s)
  then show ?case
    using Test_runs [of dst "AND' t5 dst src" s "rget dst s AND rget src s" inst]
    by (auto simp: test_executor_defs rv_simps)
next
  case (4 inst sz dst k s)
  then show ?case
    using Test_runs [of dst "ANDI t5 dst (ucast k)" s "rget dst s AND k" inst]
    by (auto simp: test_executor_defs rv_simps sext12_fits)
qed

text \<open>
  What the code does for the least constant: the second addition starts from the operand again and
  takes the constant with the wrong sign, so the recorded result is \<open>x - 0x800\<close> in place of
  \<open>x + 0x800\<close>.
\<close>

lemma Cmp_least_constant:
  assumes "valid_size sz" "op_size (get_operand 0 inst) = sz" "dst \<notin> {zero, t4, t5, s11}"
  shows "\<exists>t. runs_val (Cmp_execute_imm inst dst (- 0x800)) s t5 t \<and>
    frame {t4, t5} (carry_overflow_cells inst) s t \<and> rget t5 t = rget dst s - 0x800"
proof -
  define g where "g = (do { emit (ADDI t5 dst 1); emit (ADDI t5 dst 0x800) })"
  have op: "\<exists>w. runs g u w \<and> frame {t5} {} u w \<and> rget t5 w = rget dst s - 0x800" if "rget dst u = rget dst s" for u
    using that assms(3) frame_rset_self [of t5 u]
    by (intro exI [of _ "rset t5 (rget dst s - 0x800) u"])
      (simp add: g_def runs_iff rv_simps)
  have res: "t5 \<noteq> t4" "t5 \<noteq> s11"
    by simp_all
  have ds: "dst \<notin> {zero, t4, s11}"
    using assms(3) by simp
  obtain t where t: "runs (do {
      update_carry inst (Some (Entry_carry_add + size_index sz)) (pick False dst) (pick (\<not> False) dst) t4;
      update_overflow inst (Some (Entry_overflow_add_pos + size_index sz)) (Some dst) None t4;
      g;
      update_carry inst None (pick (\<not> False) t5) (pick False t5) zero;
      update_overflow inst None None (Some t5) zero }) s t"
    "frame {t5, t4} (carry_overflow_cells inst) s t" "rget t5 t = rget dst s - 0x800"
    using constant_pattern_runs [OF assms(1) ds entry_bounds(1,4) res op, where inst = inst and p = False]
    by blast
  have "runs_val (sub_entries (- 0x800) sz) s (Entry_carry_add + size_index sz, Entry_overflow_add_pos + size_index sz) s"
    using calculate_entries_runs [OF assms(1)] by (simp add: sub_entries_def)
  then have "runs_val (Cmp_execute_imm inst dst (- 0x800)) s t5 t"
    unfolding Cmp_execute_imm_def assms(2)
    by (rule runs_val_bind) (use runs_val_returning [OF t(1), of t5] in \<open>simp add: pick_def g_def\<close>)
  then show ?thesis
    using t(2,3) by (auto simp: insert_commute)
qed

end
