(* ===== verification/ConditionCodes.thy ===== *)
theory ConditionCodes
  imports UnaryComparisons Conditions
begin

text \<open>
  The sixteen conditions of x86, as the instructions that set a byte evaluate them. \<open>has_flags\<close> relates
  the context to the flags of the x86 machine; the locale \<open>condition_code\<close> is the contract of a
  condition, and each of the sixteen classes derived from \<^verbatim>\<open>Setcc\<close> is an interpretation. Together with
  the contract of a comparison they give what a comparison and a condition compute.
\<close>

section \<open>The flags a condition reads\<close>

record x86_flags =
  fl_carry :: bool
  fl_zero :: bool
  fl_sign :: bool
  fl_overflow :: bool
  fl_parity :: bool

text \<open>The context stands for the flags \<open>f\<close>, as far as the flag set \<open>req\<close> goes.\<close>

definition has_flags :: "u8 \<Rightarrow> x86_flags \<Rightarrow> rv_state \<Rightarrow> bool" where
  "has_flags req f s \<longleftrightarrow>
     (req AND flags_carry \<noteq> 0 \<longrightarrow> records_carry (fl_carry f) s) \<and>
     (req AND flags_zero \<noteq> 0 \<longrightarrow> zero_flag s = fl_zero f) \<and>
     (req AND flags_sign \<noteq> 0 \<longrightarrow> sign_flag s = fl_sign f) \<and>
     (req AND flags_overflow \<noteq> 0 \<longrightarrow> records_overflow (fl_overflow f) s) \<and>
     (req AND flags_parity \<noteq> 0 \<longrightarrow> parity_flag s = fl_parity f)"

lemma keeps_same_cells: "keeps R s t \<Longrightarrow> s11 \<notin> R \<Longrightarrow> C \<subseteq> {..<0x1000} \<Longrightarrow> same_cells C s t"
  using frame_same_cells [OF keeps_frame [of R s t "{}"]] by simp

lemma keeps_flags:
  assumes "keeps R s t" "s11 \<notin> R"
  shows "zero_flag t = zero_flag s" "sign_flag t = sign_flag s" "parity_flag t = parity_flag s"
    "records_carry c s \<Longrightarrow> records_carry c t" "records_overflow c s \<Longrightarrow> records_overflow c t"
  using zero_flag_same sign_flag_same parity_flag_same records_same keeps_same_cells [OF assms] cells_small
  by blast+

section \<open>Evaluation of carry and overflow\<close>

definition jump_table_at :: "u64 \<Rightarrow> rv_state \<Rightarrow> bool" where
  "jump_table_at table s \<longleftrightarrow> rget s10 s = table \<and> even table"

lemma jump_table_at_keeps: "keeps R s t \<Longrightarrow> s10 \<notin> R \<Longrightarrow> jump_table_at table s \<Longrightarrow> jump_table_at table t"
  by (simp add: jump_table_at_def keeps_def)

lemma evaluate_carry_achieves:
  assumes "jump_table_at table s" "records_carry c s"
  shows "achieves (jt_env table) evaluate_carry
    (\<lambda>t. rget t4 t = of_bool c \<and> keeps {ra, t4, t5, t6} s t) s"
  unfolding evaluate_carry_def
  using evaluate_routine_achieves [of s table carry_operation_offset c] assms
  by (auto simp: jump_table_at_def records_carry_def carry_flag_def same_cells_def)

lemma evaluate_overflow_achieves:
  assumes "jump_table_at table s" "records_overflow c s"
  shows "achieves (jt_env table) evaluate_overflow
    (\<lambda>t. rget t4 t = of_bool c \<and> keeps {ra, t4, t5, t6} s t) s"
  unfolding evaluate_overflow_def
  using evaluate_routine_achieves [of s table overflow_operation_offset c] assms
  by (auto simp: jump_table_at_def records_overflow_def overflow_flag_def same_cells_def)

text \<open>Every part of a condition appends the same code whatever the state, so the parts compose.\<close>

definition appends :: "unit gen \<Rightarrow> bool" where
  "appends g \<longleftrightarrow> (\<exists>code. \<forall>c. run_state g (Inr c) = ((), Inr (c @ code)))"

lemma appends_emit [simp]: "appends (emit w)"
  unfolding appends_def by (intro exI [of _ "[w]"]) simp

lemma appends_skip [simp]: "appends skip"
  unfolding appends_def by (intro exI [of _ "[]"]) simp

lemma appends_comp [simp]: "appends g \<Longrightarrow> appends h \<Longrightarrow> appends (g \<then> h)"
  unfolding appends_def by (elim exE, rule_tac x = "code @ codea" in exI) simp

lemma appends_bind_ret: "appends (g \<bind> (\<lambda>_. h)) = appends (g \<then> h)"
  by simp

lemma appends_achieves: "achieves env g P s \<Longrightarrow> appends g"
  by (auto simp: achieves_def appends_def)

lemma appends_runs: "runs g s t \<Longrightarrow> appends g"
  by (auto simp: runs_iff appends_def)

lemma achieves_then:
  "achieves env g Q s \<Longrightarrow> (\<And>t. Q t \<Longrightarrow> achieves env h P t) \<Longrightarrow> appends h \<Longrightarrow> achieves env (g \<then> h) P s"
  unfolding appends_def by (rule achieves_comp)

lemma appends_evaluate [simp]:
  "appends (evaluate_zero d)" "appends (evaluate_sign d t)" "appends (evaluate_parity d t)"
  "appends evaluate_carry" "appends evaluate_overflow"
  by (simp_all add: evaluate_zero_def evaluate_sign_def evaluate_parity_def evaluate_carry_def
      evaluate_overflow_def jump_table_offset_def)

text \<open>Going through a condition part by part.\<close>

lemma achieves_emit_then:
  "rv_step w s = Some t \<Longrightarrow> achieves env h P t \<Longrightarrow> achieves env (emit w \<then> h) P s"
  by (rule achieves_runs_comp [OF runs_emit])

lemma achieves_emit: "rv_step w s = Some t \<Longrightarrow> P t \<Longrightarrow> achieves env (emit w) P s"
  by (rule achieves_runs [OF runs_emit])

lemma achieves_zero:
  assumes "dest \<notin> {zero, s10, s11}"
  shows "achieves env (evaluate_zero dest) (\<lambda>t. rget dest t = of_bool (zero_flag s) \<and> keeps {dest} s t) s"
  using evaluate_zero_runs [of dest s] assms by (auto intro: achieves_runs)

lemma achieves_sign:
  assumes "dest \<notin> {zero, s10, s11}" "temp \<notin> {zero, s10, s11}" "dest \<noteq> temp"
  shows "achieves env (evaluate_sign dest temp)
    (\<lambda>t. rget dest t = of_bool (sign_flag s) \<and> keeps {dest, temp} s t) s"
  using evaluate_sign_runs [of dest temp s] assms by (auto intro: achieves_runs)

lemma achieves_parity:
  assumes "dest \<notin> {zero, s10, s11}" "temp \<notin> {zero, s10, s11}" "dest \<noteq> temp"
  shows "achieves env (evaluate_parity dest temp)
    (\<lambda>t. rget dest t = of_bool (parity_flag s) \<and> keeps {dest, temp} s t) s"
  using evaluate_parity_runs [of dest temp s] assms by (auto intro: achieves_runs)

lemma of_bool_words:
  "of_bool a XOR of_bool b = (of_bool (a \<noteq> b) :: u64)" "of_bool a OR of_bool b = (of_bool (a \<or> b) :: u64)"
  by (cases a; cases b; simp)+

lemma or_step: "rv_step (OR' d r1 r2) s = Some (rset d (rget r1 s OR rget r2 s) s)"
  by (simp add: rv_simps)

lemma xor_step: "rv_step (XOR' d r1 r2) s = Some (rset d (rget r1 s XOR rget r2 s) s)"
  by (simp add: rv_simps)

lemma seqz_step: "rget r s = of_bool b \<Longrightarrow> rv_step (SEQZ d r) s = Some (rset d (of_bool (\<not> b)) s)"
  by (cases b) (simp_all add: rv_simps)

abbreviation condition_registers :: "RiscVRegister set" where
  "condition_registers \<equiv> {ra, t0, t4, t5, t6}"

text \<open>\<open>t0\<close> becomes the disjunction of the zero and the carry flag, or says whether sign and overflow differ.\<close>

lemma zero_or_carry_achieves:
  assumes "jump_table_at table s" "records_carry c s"
  shows "achieves (jt_env table) (do { evaluate_zero t0; evaluate_carry; emit (OR' t0 t0 t4) })
    (\<lambda>t. rget t0 t = of_bool (zero_flag s \<or> c) \<and> keeps condition_registers s t) s"
proof (rule achieves_then [OF achieves_zero], simp, rule achieves_then [OF evaluate_carry_achieves])
  fix t assume t: "rget t0 t = of_bool (zero_flag s) \<and> keeps {t0} s t"
  then show "jump_table_at table t"
    using jump_table_at_keeps assms(1) by fastforce
  show "records_carry c t"
    using t keeps_flags(4) assms(2) by fastforce
  fix u assume "rget t4 u = of_bool c \<and> keeps {ra, t4, t5, t6} t u"
  then show "achieves (jt_env table) (emit (OR' t0 t0 t4))
      (\<lambda>t. rget t0 t = of_bool (zero_flag s \<or> c) \<and> keeps condition_registers s t) u"
    using t keeps_rget [of "{ra, t4, t5, t6}" t u t0] keeps_trans [of "{t0}" s t "{ra, t4, t5, t6}" u]
    by (intro achieves_emit [OF or_step]) (auto simp: rv_simps of_bool_words insert_commute)
qed simp_all

lemma sign_overflow_achieves:
  assumes "jump_table_at table s" "records_overflow v s"
  shows "achieves (jt_env table) (do { evaluate_sign t0 t5; evaluate_overflow; emit (XOR' t0 t0 t4) })
    (\<lambda>t. rget t0 t = of_bool (sign_flag s \<noteq> v) \<and> keeps condition_registers s t) s"
proof (rule achieves_then [OF achieves_sign], simp, simp, simp,
    rule achieves_then [OF evaluate_overflow_achieves])
  fix t assume t: "rget t0 t = of_bool (sign_flag s) \<and> keeps {t0, t5} s t"
  then show "jump_table_at table t"
    using jump_table_at_keeps assms(1) by fastforce
  show "records_overflow v t"
    using t keeps_flags(5) assms(2) by fastforce
  fix u assume "rget t4 u = of_bool v \<and> keeps {ra, t4, t5, t6} t u"
  then show "achieves (jt_env table) (emit (XOR' t0 t0 t4))
      (\<lambda>t. rget t0 t = of_bool (sign_flag s \<noteq> v) \<and> keeps condition_registers s t) u"
    using t keeps_rget [of "{ra, t4, t5, t6}" t u t0] keeps_trans [of "{t0, t5}" s t "{ra, t4, t5, t6}" u]
    by (intro achieves_emit [OF xor_step]) (auto simp: rv_simps of_bool_words insert_commute)
qed simp_all

section \<open>The contract of a condition\<close>

locale condition_code =
  fixes generate :: "Instruction \<Rightarrow> unit gen"
    and evaluate :: "unit gen"
    and res :: RiscVRegister
    and req :: u8
    and holds :: "x86_flags \<Rightarrow> bool"
  assumes generate_parts: "generate inst = do { evaluate; Setcc_set_value inst res }"
    and evaluates: "jump_table_at table s \<Longrightarrow> has_flags req f s \<Longrightarrow>
      achieves (jt_env table) evaluate
        (\<lambda>t. rget res t = of_bool (holds f) \<and> keeps condition_registers s t) s"
    and result_register: "res = t0 \<or> res = t4"
begin

lemma generate_achieves:
  assumes "register_operand op" "op = get_operand 0 inst" "op_size op = 1"
    and "op_register_type op \<noteq> rt_gph \<or> res = t4"
    and "jump_table_at table s" "has_flags req f s"
  shows "achieves (jt_env table) (generate inst)
    (\<lambda>t. rget (op_reg_of op) t = x86_write (op_access op) (rget (op_reg_of op) s) (of_bool (holds f)) \<and>
      keeps (insert (op_reg_of op) condition_registers) s t) s"
proof -
  let ?r = "op_reg_of op" and ?a = "if op_register_type op = rt_gph then 0 else 1 :: nat"
  note d = op_reg_distinct [OF assms(1)]
  have access: "op_access op = ?a"
    using assms(3) by (simp add: op_access_def)
  have eq: "Setcc_set_value inst res = move_to_register ?r res ?a t0 True"
    using register_operand_access [OF assms(1)] assms(2)
    by (simp add: Setcc_set_value_def op_reg_of_def Let_def)
  have move: "\<exists>u. runs (move_to_register ?r res ?a t0 True) t u \<and>
      rget ?r u = x86_write ?a (rget ?r t) (rget res t) \<and> keeps {?r, t0} t u"
    if "rget res t = of_bool (holds f)" for t
  proof (cases "res = t4")
    case True
    then show ?thesis
      using move_to_register_runs [of ?r t0 res ?a True t] d that by (auto simp: valid_access_def)
  next
    case False
    then have "res = t0" "?a = 1"
      using result_register assms(4) by auto
    then show ?thesis
      using d that
      by (intro exI [of _ "rset ?r (x86_write 1 (rget ?r t) (rget t0 t)) t"])
        (auto simp: move_to_register_def runs_iff rv_simps x86_write_def)
  qed
  show ?thesis
    unfolding generate_parts access
  proof (rule achieves_then [OF evaluates [OF assms(5,6)]])
    fix t assume t: "rget res t = of_bool (holds f) \<and> keeps condition_registers s t"
    then obtain u where u: "runs (Setcc_set_value inst res) t u"
      "rget ?r u = x86_write ?a (rget ?r t) (of_bool (holds f))" "keeps {?r, t0} t u"
      using move [of t] unfolding eq by auto
    have "rget ?r t = rget ?r s"
      using keeps_rget t d by fastforce
    moreover have "keeps (insert ?r condition_registers) s u"
      using keeps_trans [OF conjunct2 [OF t] u(3)] by (rule keeps_mono) auto
    ultimately show "achieves (jt_env table) (Setcc_set_value inst res) (\<lambda>u. rget ?r u =
        x86_write ?a (rget ?r s) (of_bool (holds f)) \<and> keeps (insert ?r condition_registers) s u) t"
      using achieves_runs [OF u(1)] u(2) by auto
  next
    have "\<exists>u. runs (move_to_register ?r res ?a t0 True) (rset res (of_bool (holds f)) s) u"
      using move [of "rset res (of_bool (holds f)) s"] result_register by (auto simp: rv_simps)
    then show "appends (Setcc_set_value inst res)"
      unfolding eq using appends_runs by blast
  qed
qed

end

section \<open>The sixteen conditions\<close>

text \<open>The conditions the others are made of, by the flags they read.\<close>

lemma achieves_weaken:
  "achieves env g (\<lambda>t. P t \<and> keeps R s t) s \<Longrightarrow> R \<subseteq> R' \<Longrightarrow> achieves env g (\<lambda>t. P t \<and> keeps R' s t) s"
  by (erule achieves_mono) (auto intro: keeps_mono)

lemma carry_condition:
  "jump_table_at table s \<Longrightarrow> records_carry c s \<Longrightarrow>
   achieves (jt_env table) evaluate_carry (\<lambda>t. rget t4 t = of_bool c \<and> keeps condition_registers s t) s"
  by (rule achieves_weaken [OF evaluate_carry_achieves]) auto

lemma overflow_condition:
  "jump_table_at table s \<Longrightarrow> records_overflow c s \<Longrightarrow>
   achieves (jt_env table) evaluate_overflow (\<lambda>t. rget t4 t = of_bool c \<and> keeps condition_registers s t) s"
  by (rule achieves_weaken [OF evaluate_overflow_achieves]) auto

lemma zero_condition:
  "zero_flag s = b \<Longrightarrow>
   achieves env (evaluate_zero t4) (\<lambda>t. rget t4 t = of_bool b \<and> keeps condition_registers s t) s"
  using achieves_weaken [OF achieves_zero [of t4 env s]] by auto

lemma sign_condition:
  "sign_flag s = b \<Longrightarrow>
   achieves env (evaluate_sign t4 t0) (\<lambda>t. rget t4 t = of_bool b \<and> keeps condition_registers s t) s"
  using achieves_weaken [OF achieves_sign [of t4 t0 env s]] by auto

lemma parity_condition:
  "parity_flag s = b \<Longrightarrow>
   achieves env (evaluate_parity t4 t5) (\<lambda>t. rget t4 t = of_bool b \<and> keeps condition_registers s t) s"
  using achieves_weaken [OF achieves_parity [of t4 t5 env s]] by auto

lemma zero_or_carry_condition:
  "jump_table_at table s \<Longrightarrow> records_carry c s \<Longrightarrow> zero_flag s = z \<Longrightarrow>
   achieves (jt_env table) (do { evaluate_zero t0; evaluate_carry; emit (OR' t0 t0 t4) })
    (\<lambda>t. rget t0 t = of_bool (z \<or> c) \<and> keeps condition_registers s t) s"
  using zero_or_carry_achieves by blast

lemma sign_overflow_condition:
  "jump_table_at table s \<Longrightarrow> records_overflow v s \<Longrightarrow> sign_flag s = n \<Longrightarrow>
   achieves (jt_env table) (do { evaluate_sign t0 t5; evaluate_overflow; emit (XOR' t0 t0 t4) })
    (\<lambda>t. rget t0 t = of_bool (n \<noteq> v) \<and> keeps condition_registers s t) s"
  using sign_overflow_achieves by blast

lemma less_equal_condition:
  assumes "jump_table_at table s" "records_overflow v s" "sign_flag s = n" "zero_flag s = z"
  shows "achieves (jt_env table)
      (do { do { evaluate_sign t0 t5; evaluate_overflow; emit (XOR' t0 t0 t4) }; evaluate_zero t4; emit (OR' t0 t0 t4) })
    (\<lambda>t. rget t0 t = of_bool (n \<noteq> v \<or> z) \<and> keeps condition_registers s t) s"
proof (rule achieves_then [OF sign_overflow_condition [OF assms(1-3)]])
  fix t assume t: "rget t0 t = of_bool (n \<noteq> v) \<and> keeps condition_registers s t"
  have z: "zero_flag t = z"
    using keeps_flags(1) [OF conjunct2 [OF t]] assms(4) by simp
  show "achieves (jt_env table) (do { evaluate_zero t4; emit (OR' t0 t0 t4) })
      (\<lambda>t. rget t0 t = of_bool (n \<noteq> v \<or> z) \<and> keeps condition_registers s t) t"
  proof (rule achieves_then [OF achieves_zero], simp)
    fix u assume u: "rget t4 u = of_bool (zero_flag t) \<and> keeps {t4} t u"
    then have "rget t0 u = of_bool (n \<noteq> v)"
      using t keeps_rget [of "{t4}" t u t0] by simp
    moreover have "keeps condition_registers s u"
      using keeps_trans [OF conjunct2 [OF t] conjunct2 [OF u]] by (rule keeps_mono) auto
    ultimately show "achieves (jt_env table) (emit (OR' t0 t0 t4))
        (\<lambda>t. rget t0 t = of_bool (n \<noteq> v \<or> z) \<and> keeps condition_registers s t) u"
      using u z by (intro achieves_emit [OF or_step]) (auto simp: rv_simps of_bool_words)
  qed simp
qed simp

lemma negated_achieves:
  assumes "achieves env g (\<lambda>t. rget r t = of_bool b \<and> keeps condition_registers s t) s"
  shows "achieves env (do { g; emit (SEQZ t0 r) }) (\<lambda>t. rget t0 t = of_bool (\<not> b) \<and> keeps condition_registers s t) s"
  by (rule achieves_then [OF assms]) (auto intro!: achieves_emit [OF seqz_step] simp: rv_simps)

interpretation set_above: condition_code Seta_generate
  "do { do { evaluate_zero t0; evaluate_carry; emit (OR' t0 t0 t4) }; emit (SEQZ t0 t0) }" t0 "flags_carry OR flags_zero" "\<lambda>f. \<not> (fl_zero f \<or> fl_carry f)"
proof (unfold_locales, goal_cases)
  case 1
  show ?case by (simp add: Seta_generate_def)
next
  case (2 table s f)
  then show ?case by (intro negated_achieves [OF zero_or_carry_condition]) (simp_all add: has_flags_def flags_defs)
qed simp

interpretation set_below_equal: condition_code Setbe_generate
  "do { evaluate_zero t0; evaluate_carry; emit (OR' t0 t0 t4) }" t0 "flags_carry OR flags_zero" "\<lambda>f. fl_zero f \<or> fl_carry f"
proof (unfold_locales, goal_cases)
  case 1
  show ?case by (simp add: Setbe_generate_def)
next
  case (2 table s f)
  then show ?case by (intro zero_or_carry_condition) (simp_all add: has_flags_def flags_defs)
qed simp

interpretation set_carry: condition_code Setc_generate
  "evaluate_carry" t4 "flags_carry" "\<lambda>f. fl_carry f"
proof (unfold_locales, goal_cases)
  case 1
  show ?case by (simp add: Setc_generate_def)
next
  case (2 table s f)
  then show ?case by (intro carry_condition) (simp_all add: has_flags_def flags_defs)
qed simp

interpretation set_greater: condition_code Setg_generate
  "do { do { do { evaluate_sign t0 t5; evaluate_overflow; emit (XOR' t0 t0 t4) }; evaluate_zero t4; emit (OR' t0 t0 t4) }; emit (SEQZ t0 t0) }" t0 "flags_zero OR flags_sign OR flags_overflow" "\<lambda>f. \<not> (fl_sign f \<noteq> fl_overflow f \<or> fl_zero f)"
proof (unfold_locales, goal_cases)
  case 1
  show ?case by (simp add: Setg_generate_def)
next
  case (2 table s f)
  then show ?case by (intro negated_achieves [OF less_equal_condition]) (simp_all add: has_flags_def flags_defs)
qed simp

interpretation set_greater_equal: condition_code Setge_generate
  "do { do { evaluate_sign t0 t5; evaluate_overflow; emit (XOR' t0 t0 t4) }; emit (SEQZ t0 t0) }" t0 "flags_sign OR flags_overflow" "\<lambda>f. \<not> (fl_sign f \<noteq> fl_overflow f)"
proof (unfold_locales, goal_cases)
  case 1
  show ?case by (simp add: Setge_generate_def)
next
  case (2 table s f)
  then show ?case by (intro negated_achieves [OF sign_overflow_condition]) (simp_all add: has_flags_def flags_defs)
qed simp

interpretation set_less: condition_code Setl_generate
  "do { evaluate_sign t0 t5; evaluate_overflow; emit (XOR' t0 t0 t4) }" t0 "flags_sign OR flags_overflow" "\<lambda>f. fl_sign f \<noteq> fl_overflow f"
proof (unfold_locales, goal_cases)
  case 1
  show ?case by (simp add: Setl_generate_def)
next
  case (2 table s f)
  then show ?case by (intro sign_overflow_condition) (simp_all add: has_flags_def flags_defs)
qed simp

interpretation set_less_equal: condition_code Setle_generate
  "do { do { evaluate_sign t0 t5; evaluate_overflow; emit (XOR' t0 t0 t4) }; evaluate_zero t4; emit (OR' t0 t0 t4) }" t0 "flags_zero OR flags_sign OR flags_overflow" "\<lambda>f. fl_sign f \<noteq> fl_overflow f \<or> fl_zero f"
proof (unfold_locales, goal_cases)
  case 1
  show ?case by (simp add: Setle_generate_def)
next
  case (2 table s f)
  then show ?case by (intro less_equal_condition) (simp_all add: has_flags_def flags_defs)
qed simp

interpretation set_not_carry: condition_code Setnc_generate
  "do { evaluate_carry; emit (SEQZ t0 t4) }" t0 "flags_carry" "\<lambda>f. \<not> fl_carry f"
proof (unfold_locales, goal_cases)
  case 1
  show ?case by (simp add: Setnc_generate_def)
next
  case (2 table s f)
  then show ?case by (intro negated_achieves [OF carry_condition]) (simp_all add: has_flags_def flags_defs)
qed simp

interpretation set_not_overflow: condition_code Setno_generate
  "do { evaluate_overflow; emit (SEQZ t0 t4) }" t0 "flags_overflow" "\<lambda>f. \<not> fl_overflow f"
proof (unfold_locales, goal_cases)
  case 1
  show ?case by (simp add: Setno_generate_def)
next
  case (2 table s f)
  then show ?case by (intro negated_achieves [OF overflow_condition]) (simp_all add: has_flags_def flags_defs)
qed simp

interpretation set_not_parity: condition_code Setnp_generate
  "do { evaluate_parity t4 t5; emit (SEQZ t0 t4) }" t0 "flags_parity" "\<lambda>f. \<not> fl_parity f"
proof (unfold_locales, goal_cases)
  case 1
  show ?case by (simp add: Setnp_generate_def)
next
  case (2 table s f)
  then show ?case by (intro negated_achieves [OF parity_condition]) (simp_all add: has_flags_def flags_defs)
qed simp

interpretation set_not_sign: condition_code Setns_generate
  "do { evaluate_sign t4 t0; emit (SEQZ t0 t4) }" t0 "flags_sign" "\<lambda>f. \<not> fl_sign f"
proof (unfold_locales, goal_cases)
  case 1
  show ?case by (simp add: Setns_generate_def)
next
  case (2 table s f)
  then show ?case by (intro negated_achieves [OF sign_condition]) (simp_all add: has_flags_def flags_defs)
qed simp

interpretation set_not_zero: condition_code Setnz_generate
  "do { evaluate_zero t4; emit (SEQZ t0 t4) }" t0 "flags_zero" "\<lambda>f. \<not> fl_zero f"
proof (unfold_locales, goal_cases)
  case 1
  show ?case by (simp add: Setnz_generate_def)
next
  case (2 table s f)
  then show ?case by (intro negated_achieves [OF zero_condition]) (simp_all add: has_flags_def flags_defs)
qed simp

interpretation set_overflow: condition_code Seto_generate
  "evaluate_overflow" t4 "flags_overflow" "\<lambda>f. fl_overflow f"
proof (unfold_locales, goal_cases)
  case 1
  show ?case by (simp add: Seto_generate_def)
next
  case (2 table s f)
  then show ?case by (intro overflow_condition) (simp_all add: has_flags_def flags_defs)
qed simp

interpretation set_parity: condition_code Setp_generate
  "evaluate_parity t4 t5" t4 "flags_parity" "\<lambda>f. fl_parity f"
proof (unfold_locales, goal_cases)
  case 1
  show ?case by (simp add: Setp_generate_def)
next
  case (2 table s f)
  then show ?case by (intro parity_condition) (simp_all add: has_flags_def flags_defs)
qed simp

interpretation set_sign: condition_code Sets_generate
  "evaluate_sign t4 t0" t4 "flags_sign" "\<lambda>f. fl_sign f"
proof (unfold_locales, goal_cases)
  case 1
  show ?case by (simp add: Sets_generate_def)
next
  case (2 table s f)
  then show ?case by (intro sign_condition) (simp_all add: has_flags_def flags_defs)
qed simp

interpretation set_zero: condition_code Setz_generate
  "evaluate_zero t4" t4 "flags_zero" "\<lambda>f. fl_zero f"
proof (unfold_locales, goal_cases)
  case 1
  show ?case by (simp add: Setz_generate_def)
next
  case (2 table s f)
  then show ?case by (intro zero_condition) (simp_all add: has_flags_def flags_defs)
qed simp

section \<open>A comparison and a condition\<close>

lemma sval_negative:
  assumes "valid_size sz"
  shows "bit v (8 * sz - 1) \<longleftrightarrow> sval sz v < 0"
proof -
  have "8 * sz - 1 < 64"
    using valid_size_bound [OF assms] by linarith
  then show ?thesis
    unfolding sval_signed [OF assms] by (simp add: bit_sint_iff)
qed

lemma signed_less:
  assumes "valid_size sz"
  shows "bit (x - y) (8 * sz - 1) \<noteq> sub_overflow sz x y \<longleftrightarrow> sval sz x < sval sz y"
proof -
  define n where "n = 8 * sz - 1"
  let ?N = "(2 :: int) ^ n" and ?d = "sval sz x - sval sz y"
  note b = sval_bounds [OF assms, of x, folded n_def] sval_bounds [OF assms, of y, folded n_def]
  have "sval sz (x - y) = (if - ?N \<le> ?d \<and> ?d < ?N then ?d else if ?d < 0 then ?d + 2 * ?N else ?d - 2 * ?N)"
    unfolding sval_arith [OF assms, folded n_def] by (subst signed_wrap) (use b in simp_all)
  moreover have "bit (x - y) (8 * sz - 1) \<longleftrightarrow> sval sz (x - y) < 0"
    by (rule sval_negative [OF assms])
  moreover have "sub_overflow sz x y \<longleftrightarrow> \<not> (- ?N \<le> ?d \<and> ?d < ?N)"
    by (simp add: sub_overflow_def sfits_def n_def)
  ultimately show ?thesis
    using b by auto
qed

lemma compare_equal:
  assumes "valid_size sz"
  shows "take_bit (8 * sz) (x - y) = 0 \<longleftrightarrow> take_bit (8 * sz) x = take_bit (8 * sz) (y :: u64)"
proof
  assume "take_bit (8 * sz) (x - y) = 0"
  then have "take_bit (8 * sz) (x - y + y) = take_bit (8 * sz) (0 + y)"
    by (intro take_bit_arith_cong(1) [OF assms]) simp_all
  then show "take_bit (8 * sz) x = take_bit (8 * sz) y"
    by simp
next
  assume "take_bit (8 * sz) x = take_bit (8 * sz) y"
  then have "take_bit (8 * sz) (x - y) = take_bit (8 * sz) (y - y)"
    by (intro take_bit_arith_cong(2) [OF assms]) simp_all
  then show "take_bit (8 * sz) (x - y) = 0"
    by simp
qed

text \<open>The flags after a comparison, as a condition reads them.\<close>

definition compare_flags :: "nat \<Rightarrow> u64 \<Rightarrow> u64 \<Rightarrow> x86_flags" where
  "compare_flags sz x y = \<lparr>fl_carry = sub_carry sz x y, fl_zero = (take_bit (8 * sz) x = take_bit (8 * sz) y),
     fl_sign = bit (x - y) (8 * sz - 1), fl_overflow = sub_overflow sz x y,
     fl_parity = even (\<Sum>i<8. of_bool (bit (x - y) i) :: nat)\<rparr>"

lemma compare_conditions:
  assumes "valid_size sz"
  shows "fl_carry (compare_flags sz x y) \<longleftrightarrow> uval sz x < uval sz y"
    "fl_zero (compare_flags sz x y) \<longleftrightarrow> uval sz x = uval sz y"
    "fl_sign (compare_flags sz x y) \<noteq> fl_overflow (compare_flags sz x y) \<longleftrightarrow> sval sz x < sval sz y"
  using signed_less [OF assms] by (simp_all add: compare_flags_def sub_carry_def take_bit_eq_uval)

lemma flag_results_flags:
  assumes "flag_results inst sz (x - y) (sub_carry sz x y) (sub_overflow sz x y) t" "valid_size sz"
    "req AND NOT (update_flags inst) = 0"
  shows "has_flags req (compare_flags sz x y) t"
proof -
  have "updates m inst" if "req AND m \<noteq> 0" for m
  proof -
    have "req AND m = (req AND (update_flags inst AND m)) OR ((req AND NOT (update_flags inst)) AND m)"
      by (rule bit_word_eqI) (auto simp: bit_simps)
    then show ?thesis
      using that assms(3) by (auto simp: updates_def)
  qed
  then show ?thesis
    using assms(1) compare_equal [OF assms(2)] unfolding flag_results_def has_flags_def compare_flags_def by simp
qed

text \<open>A comparison of two registers, then an instruction that sets a byte register by a condition.\<close>

lemma compared_flags:
  assumes "register_operand op" "op = get_operand 0 inst" "register_operand src" "src = get_operand 1 inst"
    "op_size src = op_size op" "req AND NOT (update_flags inst) = 0" "jump_table_at table s"
  obtains t where "runs (Comparable_generate Cmp_execute_reg Cmp_execute_imm inst) s t"
    "frame {t0, t2, t3, t4, t5} (updated_cells inst) s t"
    "has_flags req (compare_flags (op_size op) (operand_value op s) (operand_value src s)) t"
    "jump_table_at table t"
proof -
  obtain t where t: "runs (Comparable_generate Cmp_execute_reg Cmp_execute_imm inst) s t"
    "frame {t0, t2, t3, t4, t5} (updated_cells inst) s t"
    "flag_results inst (op_size op) (operand_value op s - operand_value src s)
      (sub_carry (op_size op) (operand_value op s) (operand_value src s))
      (sub_overflow (op_size op) (operand_value op s) (operand_value src s)) t"
    using comparison.generate_register [OF assms(1-5)] by blast
  moreover have "jump_table_at table t"
    using assms(7) frame_rget [OF t(2), of s10] by (simp add: jump_table_at_def)
  ultimately show thesis
    using that flag_results_flags [OF t(3) _ assms(6)] register_operand_access [OF assms(1)] by blast
qed

context condition_code
begin

lemma after_comparison:
  assumes "register_operand op" "op = get_operand 0 inst" "register_operand src" "src = get_operand 1 inst"
    "op_size src = op_size op" "req AND NOT (update_flags inst) = 0" "jump_table_at table s"
    and "register_operand dst" "dst = get_operand 0 inst'" "op_size dst = 1"
    "op_register_type dst \<noteq> rt_gph \<or> res = t4"
  shows "achieves (jt_env table)
    (do { Comparable_generate Cmp_execute_reg Cmp_execute_imm inst; generate inst' })
    (\<lambda>t. rget (op_reg_of dst) t = x86_write (op_access dst) (rget (op_reg_of dst) s)
      (of_bool (holds (compare_flags (op_size op) (operand_value op s) (operand_value src s))))) s"
proof -
  obtain t where t: "runs (Comparable_generate Cmp_execute_reg Cmp_execute_imm inst) s t"
    "frame {t0, t2, t3, t4, t5} (updated_cells inst) s t"
    "has_flags req (compare_flags (op_size op) (operand_value op s) (operand_value src s)) t"
    "jump_table_at table t"
    by (rule compared_flags [OF assms(1-7)])
  have "rget (op_reg_of dst) t = rget (op_reg_of dst) s"
    using frame_rget [OF t(2)] op_reg_distinct [OF assms(8)] by simp
  then show ?thesis
    using generate_achieves [OF assms(8-11) t(4,3)]
    by (intro achieves_runs_comp [OF t(1)]) (auto elim!: achieves_mono)
qed

end

section \<open>All conditions\<close>

text \<open>The conditions, with the register that holds their value, the flags they read, and their meaning.\<close>

definition condition_table ::
  "((Instruction \<Rightarrow> unit gen) \<times> RiscVRegister \<times> u8 \<times> (x86_flags \<Rightarrow> bool)) list" where
  "condition_table =
     [(Seta_generate, t0, flags_carry OR flags_zero, \<lambda>f. \<not> (fl_zero f \<or> fl_carry f)),
      (Setbe_generate, t0, flags_carry OR flags_zero, \<lambda>f. fl_zero f \<or> fl_carry f),
      (Setc_generate, t4, flags_carry, \<lambda>f. fl_carry f),
      (Setg_generate, t0, flags_zero OR flags_sign OR flags_overflow,
        \<lambda>f. \<not> (fl_sign f \<noteq> fl_overflow f \<or> fl_zero f)),
      (Setge_generate, t0, flags_sign OR flags_overflow, \<lambda>f. \<not> (fl_sign f \<noteq> fl_overflow f)),
      (Setl_generate, t0, flags_sign OR flags_overflow, \<lambda>f. fl_sign f \<noteq> fl_overflow f),
      (Setle_generate, t0, flags_zero OR flags_sign OR flags_overflow,
        \<lambda>f. fl_sign f \<noteq> fl_overflow f \<or> fl_zero f),
      (Setnc_generate, t0, flags_carry, \<lambda>f. \<not> fl_carry f),
      (Setno_generate, t0, flags_overflow, \<lambda>f. \<not> fl_overflow f),
      (Setnp_generate, t0, flags_parity, \<lambda>f. \<not> fl_parity f),
      (Setns_generate, t0, flags_sign, \<lambda>f. \<not> fl_sign f),
      (Setnz_generate, t0, flags_zero, \<lambda>f. \<not> fl_zero f),
      (Seto_generate, t4, flags_overflow, \<lambda>f. fl_overflow f),
      (Setp_generate, t4, flags_parity, \<lambda>f. fl_parity f),
      (Sets_generate, t4, flags_sign, \<lambda>f. fl_sign f),
      (Setz_generate, t4, flags_zero, \<lambda>f. fl_zero f)]"

lemmas condition_code_interpretations = set_above.condition_code_axioms
  set_below_equal.condition_code_axioms set_carry.condition_code_axioms
  set_greater.condition_code_axioms set_greater_equal.condition_code_axioms
  set_less.condition_code_axioms set_less_equal.condition_code_axioms
  set_not_carry.condition_code_axioms set_not_overflow.condition_code_axioms
  set_not_parity.condition_code_axioms set_not_sign.condition_code_axioms
  set_not_zero.condition_code_axioms set_overflow.condition_code_axioms
  set_parity.condition_code_axioms set_sign.condition_code_axioms set_zero.condition_code_axioms

lemma condition_table_ok:
  "list_all (\<lambda>(g, r, q, h). \<exists>e. condition_code g e r q h) condition_table"
  unfolding condition_table_def list.pred_inject(2) prod.case
  by (rule list.pred_inject(1) conjI exI condition_code_interpretations)+

lemma condition_table_code:
  assumes "(g, r, q, h) \<in> set condition_table"
  obtains e where "condition_code g e r q h"
  using condition_table_ok assms by (auto simp: list_all_iff)

end
