(* ===== verification/SourceOperands.thy ===== *)
theory SourceOperands
  imports ConditionCodes
begin

text \<open>
  The second operand of a binary operation or a comparison: a register or a constant of the size of the
  first one. \<open>generate_any\<close> extends the contracts of \<open>Executors\<close> to every such operand, whether the
  constant fits an instruction or is loaded.
\<close>

section \<open>Source operands\<close>

definition source_operand :: "'a fadec_Instruction_scheme \<Rightarrow> bool" where
  "source_operand inst \<longleftrightarrow> (let op = get_operand 0 inst; src = get_operand 1 inst in
     op_size src = op_size op \<and>
     (if op_type src = op_imm then
        fits_imm12 (inst_imm inst) \<longrightarrow> sval (op_size op) (inst_imm inst) = sint (inst_imm inst)
      else register_operand src))"

definition source_value :: "'a fadec_Instruction_scheme \<Rightarrow> rv_state \<Rightarrow> u64" where
  "source_value inst s = (let src = get_operand 1 inst in
     if op_type src = op_imm then inst_imm inst else operand_value src s)"

lemma immediate_runs:
  assumes "op_type src = op_imm" "valid_size (op_size src)" "temp \<noteq> zero"
  shows "\<exists>t. runs_val (translate_operand inst src temp temp' False False False destination) s (temp, zero) t \<and>
    runs_val (translate_operand inst src temp temp' True False False destination) s (temp, zero) t \<and>
    keeps {temp} s t \<and> rget temp t = take_bit (8 * op_size src) (inst_imm inst)"
proof -
  define k where "k = (if op_size src < 8 then inst_imm inst AND drop_bit (64 - op_size src * 8) 0xffffffffffffffff else inst_imm inst)"
  obtain t where t: "runs (load_immediate k temp) s t" "rget temp t = k" "keeps {temp} s t"
    using load_immediate_runs [OF assms(3), of k s] by blast
  have "runs_val (translate_operand inst src temp temp' m False False destination) s (temp, zero) t" for m
    using t(1) assms(1) by (simp add: translate_operand_def k_def Let_def runs_val_returning)
  moreover have "k = take_bit (8 * op_size src) (inst_imm inst)"
  proof -
    have "(0xffffffffffffffff :: u64) = mask 64"
      by (simp add: mask_eq_exp_minus_1)
    then show ?thesis
      using assms(2) by (auto simp: k_def valid_size_def simp flip: take_bit_eq_mask) (simp_all add: take_bit_eq_mask mask_eq_exp_minus_1)
  qed
  ultimately show ?thesis
    using t(2,3) by auto
qed

lemma source_runs:
  assumes "register_operand op" "op = get_operand 0 inst" "source_operand inst"
  shows "\<exists>r t. runs_val (translate_operand inst (get_operand 1 inst) t2 t3 False False False False) s (r, zero) t \<and>
    keeps {t2, t3} s t \<and> r \<noteq> zero \<and> (r = t2 \<or> op_type (get_operand 1 inst) = op_reg \<and> r = op_reg_of (get_operand 1 inst)) \<and>
    take_bit (8 * op_size op) (rget r t) = take_bit (8 * op_size op) (source_value inst s)"
proof (cases "op_type (get_operand 1 inst) = op_imm")
  case True
  then show ?thesis
    using immediate_runs [of "get_operand 1 inst" t2 inst t3 False s] assms register_operand_access [OF assms(1)]
      keeps_mono [of "{t2}" s _ "{t2, t3}"]
    by (auto simp: source_operand_def source_value_def Let_def)
next
  case False
  then have src: "register_operand (get_operand 1 inst)" "op_size (get_operand 1 inst) = op_size op"
    using assms by (simp_all add: source_operand_def Let_def)
  obtain r t where t: "runs_val (translate_operand inst (get_operand 1 inst) t2 t3 False False False False) s (r, zero) t"
    "keeps {t2} s t" "r \<in> {op_reg_of (get_operand 1 inst), t2}"
    "take_bit (8 * op_size op) (rget r t) = operand_value (get_operand 1 inst) s"
    using source_register_runs [OF src(1), of t2 inst t3 s] src(2) by auto
  have "source_value inst s = operand_value (get_operand 1 inst) s"
    using False by (simp add: source_value_def)
  then have "take_bit (8 * op_size op) (rget r t) = take_bit (8 * op_size op) (source_value inst s)"
    unfolding t(4) [symmetric] by simp
  then show ?thesis
    using t(1-3) keeps_mono [OF t(2), of "{t2, t3}"] op_reg_distinct [OF src(1)] register_operand_access [OF src(1)]
    by auto
qed

lemma source_cases:
  assumes "source_operand inst" "op = get_operand 0 inst"
  obtains (small) "op_type (get_operand 1 inst) = op_imm" "fits_imm12 (inst_imm inst)"
      "sval (op_size op) (inst_imm inst) = sint (inst_imm inst)" "source_value inst = (\<lambda>s. inst_imm inst)"
  | (translated) "op_type (get_operand 1 inst) \<noteq> op_imm \<or> \<not> fits_imm12 (inst_imm inst)"
proof -
  have "op_type (get_operand 1 inst) = op_imm \<Longrightarrow> source_value inst = (\<lambda>s. inst_imm inst)"
    by (rule ext) (simp add: source_value_def)
  then show thesis
    using assms small translated unfolding source_operand_def Let_def by (metis (full_types))
qed

lemma source_register:
  assumes "source_operand inst" "op_type (get_operand 1 inst) = op_reg"
  shows "register_operand (get_operand 1 inst)"
  using assms by (auto simp: source_operand_def Let_def)

text \<open>The operands an operation that must not alias its registers may have.\<close>

definition apart :: "'a fadec_Instruction_scheme \<Rightarrow> bool" where
  "apart inst \<longleftrightarrow> (let op = get_operand 0 inst; src = get_operand 1 inst in
     op_type src = op_reg \<longrightarrow> op_reg_of src = op_reg_of op \<longrightarrow> op_size op < 4)"

context binary_executor
begin

lemma generate_any:
  assumes op: "register_operand op" "op = get_operand 0 inst" "source_operand inst" and apart: "aliasing \<or> apart inst"
  shows "\<exists>t. runs (BinaryOperation_generate True execute_reg execute_imm inst) s t \<and>
    rget (op_reg_of op) t = x86_write (op_access op) (rget (op_reg_of op) s)
      (result (operand_value op s) (source_value inst s)) \<and>
    frame {op_reg_of op, t0, t2, t3, t4} (updated_cells inst) s t \<and>
    flag_results inst (op_size op) (result (operand_value op s) (source_value inst s))
      (carries (op_size op) (operand_value op s) (source_value inst s))
      (overflows (op_size op) (operand_value op s) (source_value inst s)) t"
  using op(3,2)
proof (cases rule: source_cases)
  case small
  then show ?thesis
    using generate_immediate [OF op(1,2) small(1-3)] by simp
next
  case translated
  note d = op_reg_distinct [OF op(1)]
  obtain r u where u: "runs_val (translate_operand inst (get_operand 1 inst) t2 t3 False False False False) s (r, zero) u"
    "keeps {t2, t3} s u" "r \<noteq> zero" "r = t2 \<or> op_type (get_operand 1 inst) = op_reg \<and> r = op_reg_of (get_operand 1 inst)"
    "take_bit (8 * op_size op) (rget r u) = take_bit (8 * op_size op) (source_value inst s)"
    using source_runs [OF op] by blast
  have "r \<notin> {zero, t0, t4, s11}"
    using u(3,4) op_reg_distinct [OF source_register [OF op(3)]] by auto
  moreover have "r = op_reg_of op \<and> 4 \<le> op_size op \<longrightarrow> aliasing"
    using u(4) d apart op(2) by (auto simp: apart_def Let_def)
  ultimately show ?thesis
    using generate_source [OF op(1,2) translated u(1,2,5)] by blast
qed

end

context compare_executor
begin

lemma generate_any:
  assumes op: "register_operand op" "op = get_operand 0 inst" "source_operand inst"
    and const: "op_type (get_operand 1 inst) = op_imm \<longrightarrow> constant_ok (inst_imm inst)"
  shows "\<exists>t. runs (Comparable_generate compare_reg compare_imm inst) s t \<and>
    frame {t0, t2, t3, t4, t5} (updated_cells inst) s t \<and>
    flag_results inst (op_size op) (result (operand_value op s) (source_value inst s))
      (carries (op_size op) (operand_value op s) (source_value inst s))
      (overflows (op_size op) (operand_value op s) (source_value inst s)) t"
  using op(3,2)
proof (cases rule: source_cases)
  case small
  then show ?thesis
    using generate_immediate [OF op(1,2) small(1-3)] const by simp
next
  case translated
  obtain r u where u: "runs_val (translate_operand inst (get_operand 1 inst) t2 t3 False False False False) s (r, zero) u"
    "keeps {t2, t3} s u" "r \<noteq> zero" "r = t2 \<or> op_type (get_operand 1 inst) = op_reg \<and> r = op_reg_of (get_operand 1 inst)"
    "take_bit (8 * op_size op) (rget r u) = take_bit (8 * op_size op) (source_value inst s)"
    using source_runs [OF op] by blast
  have "r \<notin> {zero, t0, t4, t5, s11}"
    using u(3,4) op_reg_distinct [OF source_register [OF op(3)]] by auto
  then show ?thesis
    using generate_source [OF op(1,2) translated u(1,2,5)] by blast
qed

end

end
