(* ===== verification/FlagLiveness.thy ===== *)
theory FlagLiveness
  imports Codegen
begin

text \<open>
  Which flags the instructions of a block still record after the prediction
  (\<open>predict_flags\<close>): an instruction keeps every flag that it updates and that may be read after it.
\<close>

section \<open>What the pass keeps\<close>

text \<open>
  \<open>live env cg out obs f\<close>: the flag \<open>f\<close> may be read from the start of the instructions \<open>obs\<close> on, when
  after them the flags \<open>out\<close> may be read; a branch may be taken to an address from which it is read.
\<close>

primrec live :: "environment \<Rightarrow> CodeGenerator \<Rightarrow> u8 \<Rightarrow> object list \<Rightarrow> nat \<Rightarrow> bool" where
  "live env cg out [] f = bit out f"
| "live env cg out (ob # obs) f =
    (bit (object_require ob) f \<or>
     control_flow_dimension ob \<noteq> 0 \<and>
       (branch_address ob = 0 \<or>
        may_need (env_decode env) (env_host env) (cg_elf cg) f (branch_address ob)) \<or>
     \<not> bit (object_update ob) f \<and> live env cg out obs f)"

lemma flags_all_bit: "bit flags_all f \<longleftrightarrow> f < 5"
proof -
  have "flags_all = mask 5"
    by (simp add: flags_all_value mask_eq_exp_minus_1)
  then show ?thesis
    unfolding \<open>flags_all = mask 5\<close> bit_mask_iff by auto
qed

lemma requirements_sound:
  "requirements env cg unclear addr = Some r \<Longrightarrow> bit unclear f \<Longrightarrow>
   may_need (env_decode env) (env_host env) (cg_elf cg) f addr \<Longrightarrow> bit r f"
  unfolding requirements_def by (rule recursive_flag_requirements_sound)

lemma object_update_set [simp]: "object_update (set_object_update u ob) = u"
  by (simp add: object_update_def set_object_update_def set_update_def get_update_def)

lemma flag_step_update:
  "flag_step env cg required ob = Some (q, ob') \<Longrightarrow> object_update ob' = object_update ob AND required"
  by (auto simp: flag_step_def Let_def bind_eq_Some_conv split: if_splits)

lemma flag_step_live:
  assumes "flag_step env cg required ob = Some (q, ob')" "f < 5"
    and "bit (object_require ob) f \<or>
      control_flow_dimension ob \<noteq> 0 \<and>
        (branch_address ob = 0 \<or>
         may_need (env_decode env) (env_host env) (cg_elf cg) f (branch_address ob)) \<or>
      \<not> bit (object_update ob) f \<and> bit required f"
  shows "bit q f"
proof -
  let ?n = "object_update ob AND required"
  let ?r = "(required XOR ?n) OR object_require ob"
  have f8: "f < LENGTH(8)"
    using assms(2) by simp
  have straight: "bit ?r f" if "bit (object_require ob) f \<or> \<not> bit (object_update ob) f \<and> bit required f"
    using that by (auto simp: bit_simps)
  consider (none) "control_flow_dimension ob = 0" "q = ?r"
    | (unknown) "branch_address ob = 0" "q = flags_all"
    | (branch) r where "requirements env cg (flags_all AND NOT (object_update ob AND ?r)) (branch_address ob) = Some r"
        "q = ?r OR r" "branch_address ob \<noteq> 0"
    using assms(1) by (auto simp: flag_step_def Let_def bind_eq_Some_conv split: if_splits)
  then show ?thesis
  proof cases
    case none
    then show ?thesis
      using straight assms(3) by auto
  next
    case unknown
    then show ?thesis
      using assms(2) by (simp add: flags_all_bit)
  next
    case branch
    show ?thesis
    proof (cases "bit ?r f")
      case False
      then have "bit (flags_all AND NOT (object_update ob AND ?r)) f"
        using assms(2) f8 by (auto simp: bit_simps flags_all_bit)
      moreover have "branch_address ob = 0 \<or> may_need (env_decode env) (env_host env) (cg_elf cg) f (branch_address ob)"
        using False straight assms(3) by blast
      ultimately show ?thesis
        using requirements_sound [OF branch(1)] branch(2,3) by (simp only: bit_or_iff) blast
    qed (simp add: branch(2) bit_or_iff)
  qed
qed

text \<open>
  After the pass an instruction records every flag that it updates and that may be read after it,
  and it records nothing that it does not update.
\<close>

lemma flag_pass_append:
  "flag_pass env cg required (xs @ ys) =
     Option.bind (flag_pass env cg required xs) (\<lambda>(q, xs').
     Option.bind (flag_pass env cg q ys) (\<lambda>(q', ys'). Some (q', xs' @ ys')))"
  by (induction xs arbitrary: required) (auto simp: Option.bind_assoc split: Option.bind_splits prod.splits)

lemma flag_pass_live:
  assumes "flag_pass env cg required (rev obs) = Some (q, obs')" "f < 5"
  shows "(live env cg required obs f \<longrightarrow> bit q f) \<and> length obs' = length obs \<and>
    (\<forall>i < length obs. \<forall>u. u = object_update (rev obs' ! i) \<longrightarrow>
      (bit u f \<longrightarrow> bit (object_update (obs ! i)) f) \<and>
      (bit (object_update (obs ! i)) f \<longrightarrow> live env cg required (drop (Suc i) obs) f \<longrightarrow> bit u f))"
  using assms(1)
proof (induction obs arbitrary: q obs')
  case Nil
  then show ?case by simp
next
  case (Cons ob obs)
  obtain p xs ob' where p: "flag_pass env cg required (rev obs) = Some (p, xs)"
    "flag_step env cg p ob = Some (q, ob')" "obs' = xs @ [ob']"
    using Cons.prems by (auto simp: flag_pass_append bind_eq_Some_conv)
  note IH = Cons.IH [OF p(1)]
  have "live env cg required (ob # obs) f \<longrightarrow> bit q f"
    using flag_step_live [OF p(2) assms(2)] IH by auto
  moreover have "length obs' = length (ob # obs)"
    using IH p(3) by simp
  moreover have "(bit u f \<longrightarrow> bit (object_update ((ob # obs) ! i)) f) \<and>
      (bit (object_update ((ob # obs) ! i)) f \<longrightarrow> live env cg required (drop (Suc i) (ob # obs)) f \<longrightarrow> bit u f)"
    if "i < length (ob # obs)" "u = object_update (rev obs' ! i)" for i u
  proof (cases i)
    case 0
    then show ?thesis
      using that flag_step_update [OF p(2)] IH by (auto simp: p(3) bit_simps)
  next
    case (Suc j)
    then show ?thesis
      using that IH by (auto simp: p(3))
  qed
  ultimately show ?case
    by blast
qed

lemma predict_flags_live:
  assumes "predict_flags env cg insts addr at_next = Some insts'" "insts \<noteq> []" "f < 5" "Suc i < length insts"
    and "last_requirements env cg (List.last insts) addr at_next = Some (required, ob)"
    and "bit (object_update (insts ! i)) f"
    and "live env cg required (drop (Suc i) (butlast insts)) f"
  shows "bit (object_update (insts' ! i)) f"
proof -
  obtain q obs' where q: "flag_pass env cg required (rev (butlast insts)) = Some (q, obs')"
    "insts' = rev obs' @ [ob]"
    using assms(1,5) by (auto simp: predict_flags_def bind_eq_Some_conv)
  have i: "i < length (butlast insts)" "insts ! i = butlast insts ! i"
    using assms(4) by (simp_all add: nth_butlast)
  have "bit (object_update (rev obs' ! i)) f"
    using flag_pass_live [OF q(1) assms(3)] i assms(6,7) by auto
  then show ?thesis
    using flag_pass_live [OF q(1) assms(3)] i by (simp add: q(2) nth_append)
qed

text \<open>The last instruction, when it branches or ends the translation unit.\<close>

lemma last_requirements_live:
  assumes "last_requirements env cg ob addr at_next = Some (required, ob')" "f < 5"
    and "branch_address ob \<noteq> 0 \<or> \<not> at_next"
    and "bit (object_require ob) f \<or> \<not> bit (object_update ob) f \<and>
      (branch_address ob \<noteq> 0 \<and> may_need (env_decode env) (env_host env) (cg_elf cg) f (branch_address ob) \<or>
       control_flow_dimension ob = 2 \<and> may_need (env_decode env) (env_host env) (cg_elf cg) f addr)"
  shows "bit required f"
proof -
  have f8: "f < LENGTH(8)"
    using assms(2) by simp
  have unclear: "\<not> bit (object_update ob) f \<Longrightarrow> bit (flags_all AND NOT (object_update ob)) f"
    using assms(2) f8 by (simp add: bit_and_iff bit_not_iff flags_all_bit)
  show ?thesis
    using assms(1,3,4) unclear requirements_sound flags_all_bit [of f] assms(2)
    unfolding last_requirements_def Let_def
    by (auto simp: bind_eq_Some_conv bit_or_iff split: if_splits)
qed

text \<open>
  When the block runs into the next translated one, the flags the last instruction reads are not
  taken into account, and its own update is replaced by what is read there.
\<close>

lemma last_requirements_next:
  assumes "branch_address ob = 0" "requirements env cg flags_all addr = Some r"
  shows "last_requirements env cg ob addr True = Some (r, set_object_update r ob)"
  using assms by (simp add: last_requirements_def Let_def)

end
