(* ===== verification/X86Machine.thy ===== *)
theory X86Machine
  imports SourceOperands FlagLiveness
begin

text \<open>
  An x86 machine of sixteen registers and five flags with the instructions whose translation is proved
  correct as a whole, and its relation \<open>sim\<close> to the RISC-V machine that runs translated code: the
  registers are the mapped ones, and the flags of a set are those the context stands for.
\<close>

section \<open>The x86 machine\<close>

record x86_state =
  x86_regs :: "nat \<Rightarrow> u64"
  x86_fl :: x86_flags

definition op_index :: "Operand \<Rightarrow> nat" where
  "op_index op = unat (if op_register_type op = rt_gph then op_register op - 4 else op_register op)"

definition x86_get :: "Operand \<Rightarrow> x86_state \<Rightarrow> u64" where
  "x86_get op x = x86_read (op_access op) (x86_regs x (op_index op))"

definition x86_put :: "Operand \<Rightarrow> u64 \<Rightarrow> x86_state \<Rightarrow> x86_state" where
  "x86_put op v x =
     x\<lparr>x86_regs := (x86_regs x)(op_index op := x86_write (op_access op) (x86_regs x (op_index op)) v)\<rparr>"

definition x86_source :: "fadec_Instruction \<Rightarrow> x86_state \<Rightarrow> u64" where
  "x86_source i x = (let src = get_operand 1 i in
     if op_type src = op_imm then inst_imm i else x86_get src x)"

definition result_flags :: "nat \<Rightarrow> u64 \<Rightarrow> bool \<Rightarrow> bool \<Rightarrow> x86_flags" where
  "result_flags sz v c ov = \<lparr>fl_carry = c, fl_zero = (take_bit (8 * sz) v = 0), fl_sign = bit v (8 * sz - 1),
     fl_overflow = ov, fl_parity = even (\<Sum>i<8. of_bool (bit v i) :: nat)\<rparr>"

definition no_flag :: "nat \<Rightarrow> u64 \<Rightarrow> u64 \<Rightarrow> bool" where "no_flag sz x y = False"

text \<open>Operations of two operands: the result, its carry and overflow; \<open>stores\<close> is false for comparisons.\<close>

definition x86_binary ::
  "(u64 \<Rightarrow> u64 \<Rightarrow> u64) \<Rightarrow> (nat \<Rightarrow> u64 \<Rightarrow> u64 \<Rightarrow> bool) \<Rightarrow> (nat \<Rightarrow> u64 \<Rightarrow> u64 \<Rightarrow> bool) \<Rightarrow> bool \<Rightarrow>
   fadec_Instruction \<Rightarrow> x86_state \<Rightarrow> x86_state" where
  "x86_binary f c ov stores i x =
    (let op = get_operand 0 i; a = x86_get op x; b = x86_source i x;
       x' = (if stores then x86_put op (f a b) x else x)
     in x'\<lparr>x86_fl := result_flags (op_size op) (f a b) (c (op_size op) a b) (ov (op_size op) a b)\<rparr>)"

definition x86_binaries ::
  "(string list \<times> (u64 \<Rightarrow> u64 \<Rightarrow> u64) \<times> (nat \<Rightarrow> u64 \<Rightarrow> u64 \<Rightarrow> bool) \<times> (nat \<Rightarrow> u64 \<Rightarrow> u64 \<Rightarrow> bool) \<times> bool) list" where
  "x86_binaries =
     [([''ADD'', ''ADD_IMM''], (+), add_carry, add_overflow, True),
      ([''SUB'', ''SUB_IMM''], (-), sub_carry, sub_overflow, True),
      ([''AND'', ''AND_IMM''], (AND), no_flag, no_flag, True),
      ([''OR'', ''OR_IMM''], (OR), no_flag, no_flag, True),
      ([''XOR'', ''XOR_IMM''], (XOR), no_flag, no_flag, True),
      ([''CMP'', ''CMP_IMM''], (-), sub_carry, sub_overflow, False),
      ([''TEST'', ''TEST_IMM''], (AND), no_flag, no_flag, False)]"

text \<open>Operations of one operand: increment and decrement leave the carry flag alone, a complement all flags.\<close>

definition x86_inc :: "fadec_Instruction \<Rightarrow> x86_state \<Rightarrow> x86_state" where
  "x86_inc i x = (let op = get_operand 0 i; a = x86_get op x; sz = op_size op in
     (x86_put op (a + 1) x)\<lparr>x86_fl :=
        result_flags sz (a + 1) (fl_carry (x86_fl x)) (\<not> sfits sz (sval sz a + 1))\<rparr>)"

definition x86_dec :: "fadec_Instruction \<Rightarrow> x86_state \<Rightarrow> x86_state" where
  "x86_dec i x = (let op = get_operand 0 i; a = x86_get op x; sz = op_size op in
     (x86_put op (a - 1) x)\<lparr>x86_fl :=
        result_flags sz (a - 1) (fl_carry (x86_fl x)) (\<not> sfits sz (sval sz a - 1))\<rparr>)"

definition x86_neg :: "fadec_Instruction \<Rightarrow> x86_state \<Rightarrow> x86_state" where
  "x86_neg i x = (let op = get_operand 0 i; a = x86_get op x; sz = op_size op in
     (x86_put op (- a) x)\<lparr>x86_fl := result_flags sz (- a) (sub_carry sz 0 a) (sub_overflow sz 0 a)\<rparr>)"

definition x86_not :: "fadec_Instruction \<Rightarrow> x86_state \<Rightarrow> x86_state" where
  "x86_not i x = (let op = get_operand 0 i in x86_put op (NOT (x86_get op x)) x)"

definition x86_unaries :: "(string \<times> (fadec_Instruction \<Rightarrow> x86_state \<Rightarrow> x86_state)) list" where
  "x86_unaries = [(''INC'', x86_inc), (''DEC'', x86_dec), (''NEG'', x86_neg), (''NOT'', x86_not)]"

definition x86_mov :: "fadec_Instruction \<Rightarrow> x86_state \<Rightarrow> x86_state" where
  "x86_mov i x = x86_put (get_operand 0 i) (x86_source i x) x"

definition x86_conditions :: "(string \<times> (x86_flags \<Rightarrow> bool)) list" where
  "x86_conditions =
     [(''SETA'', \<lambda>f. \<not> fl_carry f \<and> \<not> fl_zero f), (''SETBE'', \<lambda>f. fl_carry f \<or> fl_zero f),
      (''SETC'', fl_carry), (''SETG'', \<lambda>f. \<not> fl_zero f \<and> fl_sign f = fl_overflow f),
      (''SETGE'', \<lambda>f. fl_sign f = fl_overflow f), (''SETL'', \<lambda>f. fl_sign f \<noteq> fl_overflow f),
      (''SETLE'', \<lambda>f. fl_zero f \<or> fl_sign f \<noteq> fl_overflow f), (''SETNC'', \<lambda>f. \<not> fl_carry f),
      (''SETNO'', \<lambda>f. \<not> fl_overflow f), (''SETNP'', \<lambda>f. \<not> fl_parity f),
      (''SETNS'', \<lambda>f. \<not> fl_sign f), (''SETNZ'', \<lambda>f. \<not> fl_zero f), (''SETO'', fl_overflow),
      (''SETP'', fl_parity), (''SETS'', fl_sign), (''SETZ'', fl_zero)]"

definition x86_setcc :: "(x86_flags \<Rightarrow> bool) \<Rightarrow> fadec_Instruction \<Rightarrow> x86_state \<Rightarrow> x86_state" where
  "x86_setcc holds i x = x86_put (get_operand 0 i) (of_bool (holds (x86_fl x))) x"

text \<open>One instruction of the fragment; \<open>None\<close> for the others.\<close>

definition x86_step :: "fadec_Instruction \<Rightarrow> x86_state \<Rightarrow> x86_state option" where
  "x86_step i x =
    (case find (\<lambda>(names, _). inst_type i \<in> set names) x86_binaries of
       Some (names, f, c, ov, stores) \<Rightarrow> Some (x86_binary f c ov stores i x)
     | None \<Rightarrow>
       (case map_of x86_unaries (inst_type i) of
          Some f \<Rightarrow> Some (f i x)
        | None \<Rightarrow>
          (case map_of x86_conditions (inst_type i) of
             Some holds \<Rightarrow> Some (x86_setcc holds i x)
           | None \<Rightarrow>
             (if inst_type i \<in> {''MOV'', ''MOV_IMM'', ''MOVABS_IMM''} then Some (x86_mov i x)
              else if inst_type i \<in> {''NOP'', ''FNOP''} then Some x
              else None))))"

primrec x86_run :: "fadec_Instruction list \<Rightarrow> x86_state \<Rightarrow> x86_state option" where
  "x86_run [] x = Some x"
| "x86_run (i # is) x = Option.bind (x86_step i x) (x86_run is)"

section \<open>The simulation relation\<close>

definition sim :: "u64 \<Rightarrow> u8 \<Rightarrow> x86_state \<Rightarrow> rv_state \<Rightarrow> bool" where
  "sim table req x s \<longleftrightarrow> (\<forall>n<16. rget (register_mapping ! n) s = x86_regs x n) \<and>
     jump_table_at table s \<and> has_flags req (x86_fl x) s"

lemma op_index_less: "register_operand op \<Longrightarrow> op_index op < 16"
  by (auto simp: register_operand_def op_index_def word_less_nat_alt word_le_nat_alt unat_sub split: if_splits)

lemma op_reg_of_index: "op_reg_of op = register_mapping ! op_index op"
  by (simp add: op_reg_of_def map_reg_typed_def map_reg_high_def map_reg_def op_index_def)

lemma mapping_inject: "n < 16 \<Longrightarrow> m < 16 \<Longrightarrow> register_mapping ! n = register_mapping ! m \<longleftrightarrow> n = m"
  by (rule nth_eq_iff_index_eq) (simp_all add: register_mapping_def)

lemma mapping_x86: "n < 16 \<Longrightarrow> register_mapping ! n \<in> set register_mapping"
  by (rule nth_mem) (simp add: register_mapping_def)

lemma sim_value:
  assumes "sim table req x s" "register_operand op"
  shows "operand_value op s = x86_get op x"
  using assms op_index_less [OF assms(2)] by (simp add: sim_def operand_value_def x86_get_def op_reg_of_index)

lemma sim_source:
  assumes "sim table req x s" "source_operand i"
  shows "source_value i s = x86_source i x"
  using assms sim_value [OF assms(1)]
  by (auto simp: source_value_def x86_source_def source_operand_def Let_def)

text \<open>Flag sets.\<close>

lemma flag_bits [simp]:
  "w AND flags_carry = 0 \<longleftrightarrow> \<not> bit w 0" "w AND flags_zero = 0 \<longleftrightarrow> \<not> bit w 1"
  "w AND flags_sign = 0 \<longleftrightarrow> \<not> bit w 2" "w AND flags_overflow = 0 \<longleftrightarrow> \<not> bit w 3"
  "w AND flags_parity = 0 \<longleftrightarrow> \<not> bit w 4"
  using and_exp_eq_0_iff_not_bit [of w 0] and_exp_eq_0_iff_not_bit [of w 1] and_exp_eq_0_iff_not_bit [of w 2]
    and_exp_eq_0_iff_not_bit [of w 3] and_exp_eq_0_iff_not_bit [of w 4]
  by (simp_all add: flags_defs)

definition covers_flags :: "u8 \<Rightarrow> u8 \<Rightarrow> bool" where
  "covers_flags a b \<longleftrightarrow> b AND NOT a = 0"

lemma covers_flags_bit: "covers_flags a b \<Longrightarrow> bit b n \<Longrightarrow> bit (a :: u8) n"
  unfolding covers_flags_def by (metis bit_0_eq bit_and_iff bit_imp_le_length bit_not_iff bot_apply bot_bool_def possible_bit_word not_le)

lemma has_flags_covers: "covers_flags a b \<Longrightarrow> has_flags a f s \<Longrightarrow> has_flags b f s"
  by (auto simp: has_flags_def dest: covers_flags_bit)

lemma has_flags_or: "has_flags (a OR b) f s \<longleftrightarrow> has_flags a f s \<and> has_flags b f s"
  by (auto simp: has_flags_def bit_or_iff)

lemma has_flags_cong:
  "(\<And>n. n < 5 \<Longrightarrow> bit a n = bit b n) \<Longrightarrow> has_flags a f s = has_flags b f s"
  by (simp add: has_flags_def)

lemma has_flags_results:
  "flag_results inst sz v c ov t \<Longrightarrow> has_flags (update_flags inst) (result_flags sz v c ov) t"
  by (simp add: flag_results_def has_flags_def result_flags_def updates_def)

lemma has_flags_frame:
  assumes "has_flags a f s" "frame R (updated_cells inst) s t" "s11 \<notin> R"
  shows "has_flags (a AND NOT (update_flags inst)) f t"
proof -
  note same = frame_same_cells [OF assms(2,3)]
  have apart:
    "\<not> updates flags_zero inst \<Longrightarrow> updated_cells inst \<inter> zero_cells = {}"
    "\<not> updates flags_sign inst \<Longrightarrow> updated_cells inst \<inter> sign_cells = {}"
    "\<not> updates flags_parity inst \<Longrightarrow> updated_cells inst \<inter> parity_cells = {}"
    "\<not> updates flags_overflow inst \<Longrightarrow> updated_cells inst \<inter> overflow_cells = {}"
    "\<not> updates flags_carry inst \<Longrightarrow> updated_cells inst \<inter> carry_cells = {}"
    by (simp_all add: updated_cells_def carry_overflow_cells_def value_cells_def Int_Un_distrib2)
  show ?thesis
    using assms(1) apart cells_small same zero_flag_same [of s t] sign_flag_same [of s t] parity_flag_same [of s t]
      records_same [of _ s t]
    by (simp add: has_flags_def updates_def bit_and_iff bit_not_iff)
qed

end
