(* ===== verification/Simulation.thy ===== *)
theory Simulation
  imports X86Machine
begin

text \<open>
  Every instruction of the x86 machine is simulated by the code of its translation. The flags that the
  code records may be any part of those the instruction updates, so that the code that the flag
  prediction has stripped of updates is covered; \<open>recorded\<close> is the set of flags that are right
  afterwards.
\<close>

section \<open>Operations and comparisons\<close>

lemma make_Instruction_simps [simp]:
  "get_operand k (make_Instruction i u r e) = get_operand k i"
  "inst_imm (make_Instruction i u r e) = inst_imm i"
  "update_flags (make_Instruction i u r e) = u"
  "require_flags (make_Instruction i u r e) = r"
  "end_of_block (make_Instruction i u r e) = e"
  "set_update v (make_Instruction i u r e) = make_Instruction i v r e"
  by (simp_all add: get_operand_def make_Instruction_def fadec_Instruction.defs set_update_def)

lemma source_make_Instruction [simp]:
  "source_operand (make_Instruction i u r e) = source_operand i"
  "source_value (make_Instruction i u r e) = source_value i"
  "apart (make_Instruction i u r e) = apart i"
  by (auto simp: source_operand_def source_value_def apart_def fun_eq_iff Let_def)

lemma plain_object_update [simp]:
  "obj_inst (plain_object inst g) = inst"
  "set_object_update v (plain_object (make_Instruction i u r e) g) = plain_object (make_Instruction i v r e) g"
  "object_update (plain_object inst g) = update_flags inst"
  "object_require (plain_object inst g) = require_flags inst"
  by (simp_all add: set_object_update_def plain_object_def object_update_def object_require_def
      get_update_def get_require_def)

abbreviation scratch :: "RiscVRegister set" where
  "scratch \<equiv> {ra, t0, t1, t2, t3, t4, t5, t6}"

lemma sim_put:
  assumes "sim table req x s" "register_operand op" "frame R C s t" "R \<subseteq> insert (op_reg_of op) scratch"
    and "rget (op_reg_of op) t = x86_write (op_access op) (rget (op_reg_of op) s) v" "has_flags req' fl t"
  shows "sim table req' ((x86_put op v x)\<lparr>x86_fl := fl\<rparr>) t"
proof -
  have "rget (register_mapping ! n) t = x86_regs (x86_put op v x) n" if n: "n < 16" for n
  proof (cases "n = op_index op")
    case True
    then show ?thesis
      using assms(1,5) n by (simp add: x86_put_def op_reg_of_index sim_def)
  next
    case False
    then have "register_mapping ! n \<notin> R"
      using assms(4) mapping_inject [OF n op_index_less [OF assms(2)]] x86_registers [OF mapping_x86 [OF n]]
      by (auto simp: op_reg_of_index)
    then show ?thesis
      using frame_rget [OF assms(3)] assms(1) n False by (simp add: x86_put_def sim_def)
  qed
  moreover have "s10 \<notin> R"
    using assms(4) op_reg_distinct [OF assms(2)] by auto
  ultimately show ?thesis
    using assms(1,6) frame_rget [OF assms(3)] by (simp add: sim_def jump_table_at_def)
qed

lemma sim_scratch:
  assumes "sim table req x s" "frame R C s t" "R \<subseteq> scratch" "has_flags req' fl t"
  shows "sim table req' (x\<lparr>x86_fl := fl\<rparr>) t"
proof -
  have "register_mapping ! n \<notin> R" if "n < 16" for n
    using assms(3) x86_registers [OF mapping_x86 [OF that]] by auto
  moreover have "s10 \<notin> R"
    using assms(3) by auto
  ultimately show ?thesis
    using assms(1,4) frame_rget [OF assms(2)] by (simp add: sim_def jump_table_at_def)
qed

definition recorded :: "u8 \<Rightarrow> u8 \<Rightarrow> u8 \<Rightarrow> u8" where
  "recorded before update recs = (before AND NOT update) OR recs"

lemma has_flags_all:
  "has_flags (recorded a flags_all u) f s \<longleftrightarrow> has_flags u f s"
  by (rule has_flags_cong) (simp add: recorded_def bit_or_iff bit_and_iff bit_not_iff flags_all_bit)

definition simulates :: "u64 \<Rightarrow> u8 \<Rightarrow> u8 \<Rightarrow> x86_state \<Rightarrow> x86_state \<Rightarrow> unit gen \<Rightarrow> bool" where
  "simulates table before after x x' g \<longleftrightarrow>
     (\<forall>s. sim table before x s \<longrightarrow> achieves (jt_env table) g (sim table after x') s)"

context binary_executor
begin

lemma simulated:
  assumes "register_operand op" "op = get_operand 0 i" "source_operand i" "aliasing \<or> apart i"
  shows "simulates table before (recorded before flags_all u) x (x86_binary result carries overflows True i x)
    (BinaryOperation_generate True execute_reg execute_imm (make_Instruction i u r e))"
  unfolding simulates_def
proof (intro allI impI)
  fix s assume sim: "sim table before x s"
  let ?inst = "make_Instruction i u r e"
  obtain t where t: "runs (BinaryOperation_generate True execute_reg execute_imm ?inst) s t"
    "rget (op_reg_of op) t = x86_write (op_access op) (rget (op_reg_of op) s) (result (x86_get op x) (x86_source i x))"
    "frame {op_reg_of op, t0, t2, t3, t4} (updated_cells ?inst) s t"
    "flag_results ?inst (op_size op) (result (x86_get op x) (x86_source i x))
      (carries (op_size op) (x86_get op x) (x86_source i x))
      (overflows (op_size op) (x86_get op x) (x86_source i x)) t"
    using generate_any [of op ?inst s] assms sim_value [OF sim assms(1)] sim_source [OF sim assms(3)] by auto
  have "sim table (recorded before flags_all u) (x86_binary result carries overflows True i x) t"
    unfolding x86_binary_def Let_def assms(2) [symmetric] if_True
    by (rule sim_put [OF sim assms(1) t(3) _ t(2)]) (use has_flags_results [OF t(4)] in \<open>auto simp: has_flags_all\<close>)
  then show "achieves (jt_env table) (BinaryOperation_generate True execute_reg execute_imm ?inst)
      (sim table (recorded before flags_all u) (x86_binary result carries overflows True i x)) s"
    by (rule achieves_runs [OF t(1)])
qed

end

context compare_executor
begin

lemma simulated:
  assumes "register_operand op" "op = get_operand 0 i" "source_operand i"
    "op_type (get_operand 1 i) = op_imm \<longrightarrow> constant_ok (inst_imm i)"
  shows "simulates table before (recorded before flags_all u) x (x86_binary result carries overflows False i x)
    (Comparable_generate compare_reg compare_imm (make_Instruction i u r e))"
  unfolding simulates_def
proof (intro allI impI)
  fix s assume sim: "sim table before x s"
  let ?inst = "make_Instruction i u r e"
  obtain t where t: "runs (Comparable_generate compare_reg compare_imm ?inst) s t"
    "frame {t0, t2, t3, t4, t5} (updated_cells ?inst) s t"
    "flag_results ?inst (op_size op) (result (x86_get op x) (x86_source i x))
      (carries (op_size op) (x86_get op x) (x86_source i x))
      (overflows (op_size op) (x86_get op x) (x86_source i x)) t"
    using generate_any [of op ?inst s] assms sim_value [OF sim assms(1)] sim_source [OF sim assms(3)] by auto
  have "sim table (recorded before flags_all u) (x86_binary result carries overflows False i x) t"
    unfolding x86_binary_def Let_def assms(2) [symmetric] if_False
    by (rule sim_scratch [OF sim t(2)]) (use has_flags_results [OF t(3)] in \<open>auto simp: has_flags_all\<close>)
  then show "achieves (jt_env table) (Comparable_generate compare_reg compare_imm ?inst)
      (sim table (recorded before flags_all u) (x86_binary result carries overflows False i x)) s"
    by (rule achieves_runs [OF t(1)])
qed

end


context unary_executor
begin

lemma simulated:
  assumes "register_operand op" "op = get_operand 0 inst" "applies inst"
    and flags: "\<And>s t. sim table before x s \<Longrightarrow> frame {op_reg_of op, t0, t2, t3, t4} (updated_cells inst) s t \<Longrightarrow>
      flag_results inst (op_size op) (result (x86_get op x)) (carries (op_size op) (x86_get op x))
        (overflows (op_size op) (x86_get op x)) t \<Longrightarrow> has_flags after fl t"
  shows "simulates table before after x ((x86_put op (result (x86_get op x)) x)\<lparr>x86_fl := fl\<rparr>)
    (UnaryOperation_generate execute_operation inst)"
  unfolding simulates_def
proof (intro allI impI)
  fix s assume sim: "sim table before x s"
  obtain t where t: "runs (UnaryOperation_generate execute_operation inst) s t"
    "rget (op_reg_of op) t = x86_write (op_access op) (rget (op_reg_of op) s) (result (x86_get op x))"
    "frame {op_reg_of op, t0, t2, t3, t4} (updated_cells inst) s t"
    "flag_results inst (op_size op) (result (x86_get op x)) (carries (op_size op) (x86_get op x))
      (overflows (op_size op) (x86_get op x)) t"
    using generate_register [OF assms(1-3), of s] sim_value [OF sim assms(1)] by auto
  have "sim table after ((x86_put op (result (x86_get op x)) x)\<lparr>x86_fl := fl\<rparr>) t"
    by (rule sim_put [OF sim assms(1) t(3) _ t(2)]) (use flags [OF sim t(3,4)] in auto)
  then show "achieves (jt_env table) (UnaryOperation_generate execute_operation inst)
      (sim table after ((x86_put op (result (x86_get op x)) x)\<lparr>x86_fl := fl\<rparr>)) s"
    by (rule achieves_runs [OF t(1)])
qed

end

text \<open>Increment and decrement keep the carry flag.\<close>

lemma has_flags_keep_carry:
  assumes "sim table before x s" "frame R (updated_cells inst) s t" "s11 \<notin> R"
    and "flag_results inst sz v c ov t" "\<not> updates flags_carry inst"
  shows "has_flags (recorded before (flags_all XOR flags_carry) (update_flags inst))
    (result_flags sz v (fl_carry (x86_fl x)) ov) t"
proof -
  have "has_flags (before AND NOT (update_flags inst)) (x86_fl x) t"
    using assms(1) by (intro has_flags_frame [OF _ assms(2,3)]) (simp add: sim_def)
  then have "bit before 0 \<Longrightarrow> records_carry (fl_carry (x86_fl x)) t"
    using assms(5) by (simp add: has_flags_def updates_def bit_and_iff bit_not_iff)
  moreover have "has_flags (update_flags inst) (result_flags sz v (fl_carry (x86_fl x)) ov) t"
    using assms(4,5) by (intro has_flags_results) (simp add: flag_results_def)
  moreover have "\<not> bit (before AND NOT (flags_all XOR flags_carry)) n" if "n < 5" "n \<noteq> 0" for n
    using that by (simp add: bit_and_iff bit_not_iff bit_xor_iff flags_all_bit flags_carry_def bit_1_iff)
  ultimately show ?thesis
    unfolding recorded_def has_flags_or by (simp add: has_flags_def result_flags_def bit_and_iff)
qed

lemma increment_simulated:
  assumes "register_operand op" "op = get_operand 0 i" "covers_flags (flags_all XOR flags_carry) u"
  shows "simulates table before (recorded before (flags_all XOR flags_carry) u) x (x86_inc i x)
      (UnaryOperation_generate Inc_execute_operation (make_Instruction i u r e))"
    "simulates table before (recorded before (flags_all XOR flags_carry) u) x (x86_dec i x)
      (UnaryOperation_generate Dec_execute_operation (make_Instruction i u r e))"
proof -
  have "\<not> updates flags_carry (make_Instruction i u r e)"
    using covers_flags_bit [OF assms(3), of 0] by (auto simp: updates_def bit_xor_iff flags_all_bit) (simp add: flags_carry_def)
  moreover have "s11 \<notin> {op_reg_of op, t0, t2, t3, t4}"
    using op_reg_distinct [OF assms(1)] by auto
  ultimately show "simulates table before (recorded before (flags_all XOR flags_carry) u) x (x86_inc i x)
      (UnaryOperation_generate Inc_execute_operation (make_Instruction i u r e))"
    "simulates table before (recorded before (flags_all XOR flags_carry) u) x (x86_dec i x)
      (UnaryOperation_generate Dec_execute_operation (make_Instruction i u r e))"
    unfolding x86_inc_def x86_dec_def Let_def assms(2) [symmetric]
    using assms(1,2) has_flags_keep_carry [of table before x _ _ "make_Instruction i u r e"]
    by (intro increment.simulated decrement.simulated; simp)+
qed

lemma negation_simulated:
  assumes "register_operand op" "op = get_operand 0 i"
  shows "simulates table before (recorded before flags_all u) x (x86_neg i x)
    (UnaryOperation_generate Neg_execute_operation (make_Instruction i u r e))"
  unfolding x86_neg_def Let_def assms(2) [symmetric]
  using assms by (intro negation.simulated) (auto simp: has_flags_all dest: has_flags_results)

lemma complement_simulated:
  assumes "register_operand op" "op = get_operand 0 i" "covers_flags flags_none u"
  shows "simulates table before (recorded before flags_none u) x (x86_not i x)
    (UnaryOperation_generate Not_execute_operation (make_Instruction i u r e))"
proof -
  have u: "u = 0"
    using assms(3) by (simp add: covers_flags_def flags_none_def)
  have "has_flags (recorded before flags_none u) (x86_fl x) t"
    if "sim table before x s" "frame R (updated_cells (make_Instruction i u r e)) s t" "s11 \<notin> R" for s t R
    using has_flags_frame [OF _ that(2,3), of before] that(1) by (simp add: u recorded_def flags_none_def sim_def)
  moreover have "s11 \<notin> {op_reg_of op, t0, t2, t3, t4}"
    using op_reg_distinct [OF assms(1)] by auto
  ultimately have "simulates table before (recorded before flags_none u) x
      ((x86_put op (NOT (x86_get op x)) x)\<lparr>x86_fl := x86_fl x\<rparr>)
      (UnaryOperation_generate Not_execute_operation (make_Instruction i u r e))"
    using assms(1,2) by (intro complement.simulated) (auto simp: updates_def u)
  then show ?thesis
    by (simp add: x86_not_def Let_def x86_put_def assms(2))
qed

section \<open>Conditions\<close>

lemma keeps_sim_put:
  assumes "sim table req x s" "register_operand op" "keeps R s t" "R \<subseteq> insert (op_reg_of op) scratch"
    and "rget (op_reg_of op) t = x86_write (op_access op) (rget (op_reg_of op) s) v"
  shows "sim table req (x86_put op v x) t"
proof -
  have "s11 \<notin> R"
    using assms(4) op_reg_distinct [OF assms(2)] by auto
  then have "has_flags req (x86_fl x) t"
    using assms(1) keeps_flags [OF assms(3)] by (auto simp: sim_def has_flags_def)
  then have "sim table req ((x86_put op v x)\<lparr>x86_fl := x86_fl x\<rparr>) t"
    by (rule sim_put [OF assms(1,2) keeps_frame [OF assms(3)] assms(4,5)])
  then show ?thesis
    by (simp add: x86_put_def)
qed

lemma recorded_none: "covers_flags flags_none u \<Longrightarrow> recorded before flags_none u = before"
  by (simp add: covers_flags_def recorded_def flags_none_def)

context condition_code
begin

lemma simulated:
  assumes "register_operand op" "op = get_operand 0 inst" "op_size op = 1" "op_register_type op \<noteq> rt_gph \<or> res = t4"
    and "covers_flags before req" "\<And>f. meaning f \<longleftrightarrow> holds f"
  shows "simulates table before before x (x86_put op (of_bool (meaning (x86_fl x))) x) (generate inst)"
  unfolding simulates_def
proof (intro allI impI)
  fix s assume sim: "sim table before x s"
  then have "jump_table_at table s" "has_flags req (x86_fl x) s"
    using has_flags_covers [OF assms(5)] by (auto simp: sim_def)
  note a = generate_achieves [OF assms(1-4) this]
  show "achieves (jt_env table) (generate inst) (sim table before (x86_put op (of_bool (meaning (x86_fl x))) x)) s"
    using a by (rule achieves_mono)
      (use assms(6) in \<open>auto intro!: keeps_sim_put [OF sim assms(1), where R = "insert (op_reg_of op) condition_registers"]\<close>)
qed

end

section \<open>Moves\<close>

definition mov_ok :: "'a fadec_Instruction_scheme \<Rightarrow> bool" where
  "mov_ok i \<longleftrightarrow> (let dst = get_operand 0 i; src = get_operand 1 i in
     register_operand dst \<and> op_size src = op_size dst \<and>
     (op_type src = op_imm \<or>
      register_operand src \<and> (op_size dst < 4 \<longrightarrow> op_reg_of src \<noteq> op_reg_of dst)))"

lemma mov_wide_runs:
  assumes "mov_ok inst" "op = get_operand 0 inst" "4 \<le> op_size op"
  shows "\<exists>t. runs (Mov_generate inst) s t \<and> rget (op_reg_of op) t = take_bit (8 * op_size op) (source_value inst s) \<and>
    keeps {op_reg_of op} s t"
proof -
  let ?d = "op_reg_of op" and ?src = "get_operand 1 inst"
  have op: "register_operand op" "op_size ?src = op_size op"
    using assms(1,2) by (auto simp: mov_ok_def Let_def)
  have gpl: "op_register_type op \<noteq> rt_gph"
    using op(1) assms(3) by (auto simp: register_operand_def)
  have d: "?d = map_reg (op_register op)" "?d \<noteq> zero"
    using gpl op_reg_distinct [OF op(1)] by (simp_all add: op_reg_of_def map_reg_typed_def)
  have sz: "op_size op = 4 \<or> op_size op = 8"
    using register_operand_access [OF op(1)] assms(3) by (auto simp: valid_size_def)
  have mov: "Mov_generate inst = do {
      translate_operand inst ?src ?d t1 True False False False;
      if op_size op = 4 \<and> op_type ?src \<noteq> op_imm then do { emit (SLLI ?d ?d 32); emit (SRLI ?d ?d 32) } else skip }"
    using assms(2,3) register_operand_access [OF op(1)] d(1) by (simp add: Mov_generate_def Let_def)
  show ?thesis
  proof (cases "op_type ?src = op_imm")
    case True
    obtain t where t: "runs_val (translate_operand inst ?src ?d t1 True False False False) s (?d, zero) t"
      "keeps {?d} s t" "rget ?d t = take_bit (8 * op_size op) (inst_imm inst)"
      using immediate_runs [of ?src ?d inst t1 False s] True d(2) op(2) register_operand_access [OF op(1)] by auto
    have "runs (Mov_generate inst) s t"
      unfolding mov using True runs_bind [OF t(1), of "\<lambda>_. skip" t] runs_skip by simp
    then show ?thesis
      using t True by (auto simp: source_value_def)
  next
    case False
    then have src: "register_operand ?src"
      using assms(1) by (auto simp: mov_ok_def Let_def)
    have a: "op_access ?src = op_size op" "valid_access (op_access ?src)" "max 1 (op_access ?src) = op_size op"
      using register_operand_access [OF src] op(2) assms(3) by auto
    obtain r t where t: "runs_val (load_from_register (op_reg_of ?src) (op_access ?src) ?d True False False) s r t"
      "r = ?d" "keeps {?d} s t" "take_bit (8 * op_size op) (rget ?d t) = x86_read (op_access ?src) (rget (op_reg_of ?src) s)"
      using load_from_register_runs [OF d(2) a(2), of "op_reg_of ?src" True False False s] a(3) by auto
    have val: "take_bit (8 * op_size op) (rget ?d t) = take_bit (8 * op_size op) (source_value inst s)"
      using t(4) False a(1) sz by (auto simp: source_value_def operand_value_def x86_read_def)
    have tr: "runs_val (translate_operand inst ?src ?d t1 True False False False) s (?d, zero) t"
      using t(1,2) register_operand_access [OF src] unfolding op_access_def op_reg_of_def
      by (auto simp: translate_operand_def Let_def intro: runs_val_bind runs_val_ret)
    define u where "u = (if op_size op = 4 then rset ?d (take_bit 32 (rget ?d t)) t else t)"
    have "runs (if op_size op = 4 then do { emit (SLLI ?d ?d 32); emit (SRLI ?d ?d 32) } else skip) t u"
    proof (cases "op_size op = 4")
      case True
      have "drop_bit 32 (push_bit 32 v) = take_bit 32 (v :: u64)" for v
        by (rule bit_word_eqI) (auto simp: bit_simps)
      then show ?thesis
        using True d(2) by (simp add: runs_iff u_def rv_simps)
    qed (simp add: u_def runs_skip)
    then have "runs (Mov_generate inst) s u"
      unfolding mov using False runs_bind [OF tr, of "\<lambda>_. emit (SLLI ?d ?d 32) \<then> emit (SRLI ?d ?d 32)" u]
        runs_bind [OF tr, of "\<lambda>_. skip" u] by (auto split: if_splits)
    moreover have "rget ?d u = take_bit (8 * op_size op) (source_value inst s)"
      using val sz d(2) by (auto simp: u_def rv_simps)
    moreover have "keeps {?d} s u"
      using t(3) by (auto simp: u_def rv_simps)
    ultimately show ?thesis
      by blast
  qed
qed

lemma mov_narrow_runs:
  assumes "mov_ok inst" "op = get_operand 0 inst" "op_size op < 4"
  shows "\<exists>t. runs (Mov_generate inst) s t \<and>
    rget (op_reg_of op) t = x86_write (op_access op) (rget (op_reg_of op) s) (source_value inst s) \<and>
    keeps {op_reg_of op, t0, t1} s t"
proof -
  let ?d = "op_reg_of op" and ?src = "get_operand 1 inst"
  have op: "register_operand op" "op_size ?src = op_size op"
    using assms(1,2) by (auto simp: mov_ok_def Let_def)
  note d = op_reg_distinct [OF op(1)] and a = register_operand_access [OF op(1)]
  have src: "\<exists>r t. runs_val (translate_operand inst ?src t0 t2 False False False False) s (r, zero) t \<and>
      keeps {t0} s t \<and> r \<noteq> ?d \<and> r \<noteq> t1 \<and>
      take_bit (8 * op_size op) (rget r t) = take_bit (8 * op_size op) (source_value inst s)"
  proof (cases "op_type ?src = op_imm")
    case True
    then obtain t where t: "runs_val (translate_operand inst ?src t0 t2 False False False False) s (t0, zero) t"
      "keeps {t0} s t" "rget t0 t = take_bit (8 * op_size op) (inst_imm inst)"
      using immediate_runs [of ?src t0 inst t2 False s] op(2) a by auto
    show ?thesis
      by (rule exI [of _ t0], rule exI [of _ t]) (use t True d in \<open>auto simp: source_value_def\<close>)
  next
    case False
    then have src: "register_operand ?src" "op_reg_of ?src \<noteq> ?d"
      using assms by (auto simp: mov_ok_def Let_def)
    obtain r t where t: "runs_val (translate_operand inst ?src t0 t2 False False False False) s (r, zero) t"
      "keeps {t0} s t" "r \<in> {op_reg_of ?src, t0}" "take_bit (8 * op_size op) (rget r t) = operand_value ?src s"
      using source_register_runs [OF src(1), of t0 inst t2 s] op(2) by auto
    have "take_bit (8 * op_size op) (rget r t) = take_bit (8 * op_size op) (operand_value ?src s)"
      unfolding t(4) [symmetric] by simp
    then show ?thesis
      using t src d op_reg_distinct [OF src(1)] False by (intro exI [of _ r] exI [of _ t]) (auto simp: source_value_def)
  qed
  then obtain r t where t: "runs_val (translate_operand inst ?src t0 t2 False False False False) s (r, zero) t"
    "keeps {t0} s t" "r \<noteq> ?d" "r \<noteq> t1"
    "take_bit (8 * op_size op) (rget r t) = take_bit (8 * op_size op) (source_value inst s)"
    by blast
  have "t1 \<notin> set register_mapping"
    by (simp add: register_mapping_def)
  then obtain u where u: "runs (translate_destination inst r zero t1 t2) t u"
    "rget ?d u = x86_write (op_access op) (rget ?d t) (rget r t)" "keeps {?d, t1} t u"
    using write_back_runs [of inst op t1 r t2 t] op(1) assms(2) t(3,4) by auto
  have "runs (Mov_generate inst) s u"
    using runs_bind [OF t(1), of "\<lambda>(r, address). translate_destination inst r zero t1 t2" u] u(1) assms(2,3)
    by (simp add: Mov_generate_def Let_def)
  moreover have "x86_write (op_access op) (rget ?d t) (rget r t) = x86_write (op_access op) (rget ?d s) (source_value inst s)"
    using keeps_rget [OF t(2), of ?d] d a t(5) by (intro x86_write_cong) auto
  moreover have "keeps {?d, t0, t1} s u"
    using keeps_trans [OF t(2) u(3)] by (rule keeps_mono) auto
  ultimately show ?thesis
    using u(2) by auto
qed

lemma mov_simulated:
  assumes "mov_ok i"
  shows "simulates table before before x (x86_mov i x) (Mov_generate (make_Instruction i u r e))"
  unfolding simulates_def
proof (intro allI impI)
  fix s assume sim: "sim table before x s"
  let ?inst = "make_Instruction i u r e" and ?op = "get_operand 0 i"
  have op: "register_operand ?op" "mov_ok ?inst"
    using assms by (auto simp: mov_ok_def Let_def)
  have src: "source_value ?inst s = x86_source i x"
    using assms sim_value [OF sim] by (auto simp: source_value_def x86_source_def mov_ok_def Let_def)
  obtain t where t: "runs (Mov_generate ?inst) s t" "keeps {op_reg_of ?op, t0, t1} s t"
    "rget (op_reg_of ?op) t = x86_write (op_access ?op) (rget (op_reg_of ?op) s) (x86_source i x)"
  proof (cases "4 \<le> op_size ?op")
    case True
    then have "op_access ?op = 4 \<or> op_access ?op = 8" "op_access ?op = op_size ?op"
      using register_operand_access [OF op(1)] by (auto simp: valid_size_def)
    then show thesis
      using mov_wide_runs [OF op(2), of ?op s] True that keeps_mono [of "{op_reg_of ?op}" s _ "{op_reg_of ?op, t0, t1}"] src
      by (auto simp: x86_write_def)
  next
    case False
    then show thesis
      using mov_narrow_runs [OF op(2), of ?op s] that src by auto
  qed
  show "achieves (jt_env table) (Mov_generate ?inst) (sim table before (x86_mov i x)) s"
    unfolding x86_mov_def by (rule achieves_runs [OF t(1)], rule keeps_sim_put [OF sim op(1) t(2) _ t(3)]) auto
qed

lemma skip_simulated: "simulates table before before x x skip"
  by (auto simp: simulates_def intro: achieves_runs [OF runs_skip])

end
