(* ===== verification/BlockSimulation.thy ===== *)
theory BlockSimulation
  imports Simulation
begin

text \<open>
  The translation of a basic block is correct: the instructions that \<open>transform_instruction\<close> creates,
  with the flag updates that \<open>predict_flags\<close> leaves them, compute the registers of the x86 machine and
  every flag that may be needed afterwards.
\<close>

section \<open>The instructions of the fragment\<close>

text \<open>
  The operands the theorem needs: registers and constants; the registers of an addition differ, unless
  they are narrow, as do those of a narrow move, and a comparison is not with the least constant.
\<close>

definition supported :: "fadec_Instruction \<Rightarrow> bool" where
  "supported i \<longleftrightarrow>
    (if inst_type i \<in> {''MOV'', ''MOV_IMM'', ''MOVABS_IMM''} then mov_ok i
     else if inst_type i \<in> {''NOP'', ''FNOP''} then True
     else
       register_operand (get_operand 0 i) \<and>
       (inst_type i \<in> set (concat (map fst x86_binaries)) \<longrightarrow> source_operand i) \<and>
       (inst_type i \<in> {''ADD'', ''ADD_IMM''} \<longrightarrow> apart i) \<and>
       (inst_type i \<in> {''CMP'', ''CMP_IMM''} \<longrightarrow> op_type (get_operand 1 i) = op_imm \<longrightarrow> inst_imm i \<noteq> - 0x800) \<and>
       (inst_type i \<in> set (map fst x86_conditions) \<longrightarrow>
          op_size (get_operand 0 i) = 1 \<and> op_register_type (get_operand 0 i) \<noteq> rt_gph))"

lemma supported_binary:
  assumes "supported i" "inst_type i \<in> set (concat (map fst x86_binaries))"
  shows "register_operand (get_operand 0 i)" "source_operand i"
    "inst_type i \<in> {''ADD'', ''ADD_IMM''} \<Longrightarrow> apart i"
    "inst_type i \<in> {''CMP'', ''CMP_IMM''} \<Longrightarrow> op_type (get_operand 1 i) = op_imm \<Longrightarrow> inst_imm i \<noteq> - 0x800"
  using assms unfolding supported_def by (auto simp: x86_binaries_def split: if_splits)

lemma supported_unary:
  assumes "supported i" "inst_type i \<in> {''INC'', ''DEC'', ''NEG'', ''NOT''}"
  shows "register_operand (get_operand 0 i)"
  using assms unfolding supported_def by (auto split: if_splits)

lemma supported_condition:
  assumes "supported i" "(inst_type i, meaning) \<in> set x86_conditions"
  shows "register_operand (get_operand 0 i)" "op_size (get_operand 0 i) = 1"
    "op_register_type (get_operand 0 i) \<noteq> rt_gph"
proof -
  have "inst_type i \<in> set (map fst x86_conditions)"
    using assms(2) by force
  moreover from this have "inst_type i \<notin> {''MOV'', ''MOV_IMM'', ''MOVABS_IMM''}" "inst_type i \<notin> {''NOP'', ''FNOP''}"
    by (auto simp: x86_conditions_def)
  ultimately show "register_operand (get_operand 0 i)" "op_size (get_operand 0 i) = 1"
    "op_register_type (get_operand 0 i) \<noteq> rt_gph"
    using assms(1) unfolding supported_def by simp_all
qed

lemmas x86_tables = x86_step_def x86_binaries_def x86_unaries_def x86_conditions_def

lemma transform_binaries:
  "inst_type i \<in> {''ADD'', ''ADD_IMM''} \<Longrightarrow> transform_instruction h i = Add i"
  "inst_type i \<in> {''SUB'', ''SUB_IMM''} \<Longrightarrow> transform_instruction h i = Sub i"
  "inst_type i \<in> {''AND'', ''AND_IMM''} \<Longrightarrow> transform_instruction h i = And i"
  "inst_type i \<in> {''OR'', ''OR_IMM''} \<Longrightarrow> transform_instruction h i = Or i"
  "inst_type i \<in> {''XOR'', ''XOR_IMM''} \<Longrightarrow> transform_instruction h i = Xor i"
  "inst_type i \<in> {''CMP'', ''CMP_IMM''} \<Longrightarrow> transform_instruction h i = Cmp i"
  "inst_type i \<in> {''TEST'', ''TEST_IMM''} \<Longrightarrow> transform_instruction h i = Test i"
  unfolding transform_instruction_def transform_cases_def find_append insert_iff empty_iff
  by (elim disjE FalseE; simp add: transform_cases_defs)+

lemma transform_unaries:
  "inst_type i = ''INC'' \<Longrightarrow> transform_instruction h i = Inc i"
  "inst_type i = ''DEC'' \<Longrightarrow> transform_instruction h i = Dec i"
  "inst_type i = ''NEG'' \<Longrightarrow> transform_instruction h i = Neg i"
  "inst_type i = ''NOT'' \<Longrightarrow> transform_instruction h i = Not' i"
  unfolding transform_instruction_def transform_cases_def find_append
  by (simp_all add: transform_cases_defs)

lemma transform_moves:
  "inst_type i \<in> {''MOV'', ''MOV_IMM'', ''MOVABS_IMM''} \<Longrightarrow> transform_instruction h i = Mov i"
  "inst_type i \<in> {''NOP'', ''FNOP''} \<Longrightarrow> transform_instruction h i = Nop i"
  unfolding transform_instruction_def transform_cases_def find_append insert_iff empty_iff
  by (elim disjE FalseE; simp add: transform_cases_defs)+

text \<open>The translation of a condition, as a row of the table of conditions.\<close>

lemma transform_conditions:
  "inst_type i = ''SETA'' \<Longrightarrow> transform_instruction h i = Seta i"
  "inst_type i = ''SETBE'' \<Longrightarrow> transform_instruction h i = Setbe i"
  "inst_type i = ''SETC'' \<Longrightarrow> transform_instruction h i = Setc i"
  "inst_type i = ''SETG'' \<Longrightarrow> transform_instruction h i = Setg i"
  "inst_type i = ''SETGE'' \<Longrightarrow> transform_instruction h i = Setge i"
  "inst_type i = ''SETL'' \<Longrightarrow> transform_instruction h i = Setl i"
  "inst_type i = ''SETLE'' \<Longrightarrow> transform_instruction h i = Setle i"
  "inst_type i = ''SETNC'' \<Longrightarrow> transform_instruction h i = Setnc i"
  "inst_type i = ''SETNO'' \<Longrightarrow> transform_instruction h i = Setno i"
  "inst_type i = ''SETNP'' \<Longrightarrow> transform_instruction h i = Setnp i"
  "inst_type i = ''SETNS'' \<Longrightarrow> transform_instruction h i = Setns i"
  "inst_type i = ''SETNZ'' \<Longrightarrow> transform_instruction h i = Setnz i"
  "inst_type i = ''SETO'' \<Longrightarrow> transform_instruction h i = Seto i"
  "inst_type i = ''SETP'' \<Longrightarrow> transform_instruction h i = Setp i"
  "inst_type i = ''SETS'' \<Longrightarrow> transform_instruction h i = Sets i"
  "inst_type i = ''SETZ'' \<Longrightarrow> transform_instruction h i = Setz i"
  unfolding transform_instruction_def transform_cases_def find_append
  by (simp_all add: transform_cases_defs)

lemma condition_rows:
  "list_all2 (\<lambda>(n, meaning) (g, r, q, holds). (\<forall>f. meaning f \<longleftrightarrow> holds f) \<and>
     (\<forall>i. inst_type i = n \<longrightarrow> transform_instruction h i = Setcc i q g)) x86_conditions condition_table"
  unfolding x86_conditions_def condition_table_def list_all2_Cons list_all2_Nil prod.case
  by (intro conjI allI impI; (simp only: transform_conditions Seta_def Setbe_def Setc_def Setg_def
    Setge_def Setl_def Setle_def Setnc_def Setno_def Setnp_def Setns_def Setnz_def Seto_def Setp_def Sets_def Setz_def)?;
    blast)

lemma condition_row:
  assumes "(inst_type i, meaning) \<in> set x86_conditions"
  obtains g r q holds where "(g, r, q, holds) \<in> set condition_table" "\<And>f. meaning f \<longleftrightarrow> holds f"
    "transform_instruction h i = Setcc i q g"
proof -
  obtain k where k: "k < length x86_conditions" "x86_conditions ! k = (inst_type i, meaning)"
    using assms by (auto simp: in_set_conv_nth)
  obtain g r q holds where row: "condition_table ! k = (g, r, q, holds)"
    by (cases "condition_table ! k")
  have "(\<forall>f. meaning f \<longleftrightarrow> holds f) \<and> transform_instruction h i = Setcc i q g"
    using list_all2_nthD [OF condition_rows k(1), of h] k(2) row by auto
  moreover have "(g, r, q, holds) \<in> set condition_table"
    using list_all2_lengthD [OF condition_rows] k(1) row nth_mem by metis
  ultimately show thesis
    using that by blast
qed

section \<open>Every instruction is simulated\<close>

definition object_simulates :: "u64 \<Rightarrow> u8 \<Rightarrow> u8 \<Rightarrow> x86_state \<Rightarrow> x86_state \<Rightarrow> object \<Rightarrow> bool" where
  "object_simulates table before u x x' ob \<longleftrightarrow> control_flow_dimension ob = 0 \<and>
     (\<exists>inst g. set_object_update u ob = plain_object inst g \<and>
       simulates table before (recorded before (object_update ob) u) x x' (g inst))"

lemma object_simulatesI:
  assumes "x86_step i x = Some x'" "x86_step i x = Some y" "ob = plain_object (make_Instruction i upd req e) g"
    and "simulates table before (recorded before upd u) x y (g (make_Instruction i u req e))"
  shows "object_simulates table before u x x' ob"
  using assms by (auto simp: object_simulates_def)

lemma step_values:
  "inst_type i \<in> {''ADD'', ''ADD_IMM''} \<Longrightarrow> x86_step i x = Some (x86_binary (+) add_carry add_overflow True i x)"
  "inst_type i \<in> {''SUB'', ''SUB_IMM''} \<Longrightarrow> x86_step i x = Some (x86_binary (-) sub_carry sub_overflow True i x)"
  "inst_type i \<in> {''AND'', ''AND_IMM''} \<Longrightarrow> x86_step i x = Some (x86_binary (AND) no_flag no_flag True i x)"
  "inst_type i \<in> {''OR'', ''OR_IMM''} \<Longrightarrow> x86_step i x = Some (x86_binary (OR) no_flag no_flag True i x)"
  "inst_type i \<in> {''XOR'', ''XOR_IMM''} \<Longrightarrow> x86_step i x = Some (x86_binary (XOR) no_flag no_flag True i x)"
  "inst_type i \<in> {''CMP'', ''CMP_IMM''} \<Longrightarrow> x86_step i x = Some (x86_binary (-) sub_carry sub_overflow False i x)"
  "inst_type i \<in> {''TEST'', ''TEST_IMM''} \<Longrightarrow> x86_step i x = Some (x86_binary (AND) no_flag no_flag False i x)"
  "inst_type i = ''INC'' \<Longrightarrow> x86_step i x = Some (x86_inc i x)"
  "inst_type i = ''DEC'' \<Longrightarrow> x86_step i x = Some (x86_dec i x)"
  "inst_type i = ''NEG'' \<Longrightarrow> x86_step i x = Some (x86_neg i x)"
  "inst_type i = ''NOT'' \<Longrightarrow> x86_step i x = Some (x86_not i x)"
  "inst_type i \<in> {''MOV'', ''MOV_IMM'', ''MOVABS_IMM''} \<Longrightarrow> x86_step i x = Some (x86_mov i x)"
  "inst_type i \<in> {''NOP'', ''FNOP''} \<Longrightarrow> x86_step i x = Some x"
  by (auto simp: x86_tables)

lemma step_condition:
  assumes "(inst_type i, meaning) \<in> set x86_conditions"
  shows "x86_step i x = Some (x86_setcc meaning i x)"
proof -
  have "map_of x86_conditions (inst_type i) = Some meaning"
    using assms by (intro map_of_is_SomeI) (auto simp: x86_conditions_def)
  moreover from assms have "find (\<lambda>(names, _). inst_type i \<in> set names) x86_binaries = None"
    "map_of x86_unaries (inst_type i) = None"
    by (auto simp: x86_conditions_def x86_binaries_def x86_unaries_def)
  ultimately show ?thesis
    by (simp add: x86_step_def)
qed

lemma x86_step_cases:
  assumes "x86_step i x = Some x'"
  obtains (add) "inst_type i \<in> {''ADD'', ''ADD_IMM''}" | (sub) "inst_type i \<in> {''SUB'', ''SUB_IMM''}"
  | (and_) "inst_type i \<in> {''AND'', ''AND_IMM''}" | (or_) "inst_type i \<in> {''OR'', ''OR_IMM''}"
  | (xor_) "inst_type i \<in> {''XOR'', ''XOR_IMM''}" | (cmp) "inst_type i \<in> {''CMP'', ''CMP_IMM''}"
  | (test) "inst_type i \<in> {''TEST'', ''TEST_IMM''}" | (inc) "inst_type i = ''INC''" | (dec) "inst_type i = ''DEC''"
  | (neg) "inst_type i = ''NEG''" | (not_) "inst_type i = ''NOT''"
  | (cond) meaning where "(inst_type i, meaning) \<in> set x86_conditions"
  | (mov) "inst_type i \<in> {''MOV'', ''MOV_IMM'', ''MOVABS_IMM''}" | (nop) "inst_type i \<in> {''NOP'', ''FNOP''}"
proof (cases "map_of x86_conditions (inst_type i)")
  case (Some meaning)
  then show thesis
    using cond by (blast dest: map_of_SomeD)
next
  case None
  then consider "\<exists>v. find (\<lambda>(names, _). inst_type i \<in> set names) x86_binaries = Some v"
    | "\<exists>f. map_of x86_unaries (inst_type i) = Some f"
    | "inst_type i \<in> {''MOV'', ''MOV_IMM'', ''MOVABS_IMM''}" | "inst_type i \<in> {''NOP'', ''FNOP''}"
    using assms by (auto simp: x86_step_def split: option.splits if_splits)
  then show thesis
  proof cases
    case 1
    then show thesis
      using that(1-7) by (auto simp: x86_binaries_def split: if_splits)
  next
    case 2
    then show thesis
      using that(8-11) by (auto simp: x86_unaries_def split: if_splits)
  qed (use mov nop in blast)+
qed

lemma no_flag_fun: "no_flag = (\<lambda>sz x y. False)"
  by (simp add: no_flag_def fun_eq_iff)

lemma binary_types:
  "inst_type i \<in> {''ADD'', ''ADD_IMM''} \<union> {''SUB'', ''SUB_IMM''} \<union> {''AND'', ''AND_IMM''} \<union> {''OR'', ''OR_IMM''} \<union>
     {''XOR'', ''XOR_IMM''} \<union> {''CMP'', ''CMP_IMM''} \<union> {''TEST'', ''TEST_IMM''} \<Longrightarrow>
   inst_type i \<in> set (concat (map fst x86_binaries))"
  by (auto simp: x86_binaries_def)

lemma instruction_simulated:
  assumes step: "x86_step i x = Some x'" and ok: "supported i" and ob: "ob = transform_instruction h i"
    and u: "covers_flags (object_update ob) u" and req: "covers_flags before (object_require ob)"
  shows "object_simulates table before u x x' ob"
  using step
proof (cases rule: x86_step_cases)
  case add
  show ?thesis
    by (rule object_simulatesI [OF step step_values(1) [OF add], where g = "BinaryOperation_generate True Add_execute_reg Add_execute_imm" and upd = flags_all and
          req = flags_none and e = False], simp add: ob transform_binaries(1) [OF add] Add_def BinaryOperation_def,
        rule addition.simulated)
      (use supported_binary [OF ok binary_types] add in auto)
next
  case sub
  show ?thesis
    by (rule object_simulatesI [OF step step_values(2) [OF sub], where g = "BinaryOperation_generate True Sub_execute_reg Sub_execute_imm" and upd = flags_all and
          req = flags_none and e = False], simp add: ob transform_binaries(2) [OF sub] Sub_def BinaryOperation_def,
        rule subtraction.simulated)
      (use supported_binary [OF ok binary_types] sub in auto)
next
  case and_
  show ?thesis
    by (rule object_simulatesI [OF step step_values(3) [OF and_, unfolded no_flag_fun], where g = "BinaryOperation_generate True And_execute_reg And_execute_imm" and upd = flags_all and
          req = flags_none and e = False], simp add: ob transform_binaries(3) [OF and_] And_def BinaryOperation_def,
        rule conjunction.simulated)
      (use supported_binary [OF ok binary_types] and_ in auto)
next
  case or_
  show ?thesis
    by (rule object_simulatesI [OF step step_values(4) [OF or_, unfolded no_flag_fun], where g = "BinaryOperation_generate True Or_execute_reg Or_execute_imm" and upd = flags_all and
          req = flags_none and e = False], simp add: ob transform_binaries(4) [OF or_] Or_def BinaryOperation_def,
        rule disjunction.simulated)
      (use supported_binary [OF ok binary_types] or_ in auto)
next
  case xor_
  show ?thesis
    by (rule object_simulatesI [OF step step_values(5) [OF xor_, unfolded no_flag_fun], where g = "BinaryOperation_generate True Xor_execute_reg Xor_execute_imm" and upd = flags_all and
          req = flags_none and e = False], simp add: ob transform_binaries(5) [OF xor_] Xor_def BinaryOperation_def,
        rule exclusion.simulated)
      (use supported_binary [OF ok binary_types] xor_ in auto)
next
  case cmp
  show ?thesis
    by (rule object_simulatesI [OF step step_values(6) [OF cmp], where g = "Comparable_generate Cmp_execute_reg Cmp_execute_imm" and upd = flags_all and
          req = flags_none and e = False], simp add: ob transform_binaries(6) [OF cmp] Cmp_def Comparable_def,
        rule comparison.simulated)
      (use supported_binary [OF ok binary_types] cmp in auto)
next
  case test
  show ?thesis
    by (rule object_simulatesI [OF step step_values(7) [OF test, unfolded no_flag_fun], where g = "Comparable_generate Test_execute_reg Test_execute_imm" and upd = flags_all and
          req = flags_none and e = False], simp add: ob transform_binaries(7) [OF test] Test_def Comparable_def,
        rule bit_test.simulated)
      (use supported_binary [OF ok binary_types] test in auto)
next
  case inc
  show ?thesis
    by (rule object_simulatesI [OF step step_values(8) [OF inc], where g = "UnaryOperation_generate Inc_execute_operation" and
          upd = "flags_all XOR flags_carry" and req = flags_none and e = False],
        simp add: ob transform_unaries(1) [OF inc] Inc_def UnaryOperation_def, rule increment_simulated(1))
      (use supported_unary [OF ok] u inc transform_unaries(1) [OF inc, of h] in
        \<open>auto simp: ob Inc_def UnaryOperation_def\<close>)
next
  case dec
  show ?thesis
    by (rule object_simulatesI [OF step step_values(9) [OF dec], where g = "UnaryOperation_generate Dec_execute_operation" and
          upd = "flags_all XOR flags_carry" and req = flags_none and e = False],
        simp add: ob transform_unaries(2) [OF dec] Dec_def UnaryOperation_def, rule increment_simulated(2))
      (use supported_unary [OF ok] u dec transform_unaries(2) [OF dec, of h] in
        \<open>auto simp: ob Dec_def UnaryOperation_def\<close>)
next
  case neg
  show ?thesis
    by (rule object_simulatesI [OF step step_values(10) [OF neg], where g = "UnaryOperation_generate Neg_execute_operation" and
          upd = "flags_all" and req = flags_none and e = False],
        simp add: ob transform_unaries(3) [OF neg] Neg_def UnaryOperation_def, rule negation_simulated)
      (use supported_unary [OF ok] u neg transform_unaries(3) [OF neg, of h] in
        \<open>auto simp: ob Neg_def UnaryOperation_def\<close>)
next
  case not_
  show ?thesis
    by (rule object_simulatesI [OF step step_values(11) [OF not_], where g = "UnaryOperation_generate Not_execute_operation" and
          upd = "flags_none" and req = flags_none and e = False],
        simp add: ob transform_unaries(4) [OF not_] Not'_def UnaryOperation_def, rule complement_simulated)
      (use supported_unary [OF ok] u not_ transform_unaries(4) [OF not_, of h] in
        \<open>auto simp: ob Not'_def UnaryOperation_def\<close>)
next
  case (cond meaning)
  obtain g r q holds where row: "(g, r, q, holds) \<in> set condition_table" "\<And>f. meaning f \<longleftrightarrow> holds f"
    "transform_instruction h i = Setcc i q g"
    using condition_row [OF cond] by metis
  obtain e where code: "condition_code g e r q holds"
    using condition_table_code [OF row(1)] .
  have q: "covers_flags before q" "covers_flags flags_none u"
    using u req by (simp_all add: ob row(3) Setcc_def)
  have "simulates table before (recorded before flags_none u) x (x86_setcc meaning i x)
      (g (make_Instruction i u q False))"
    unfolding recorded_none [OF q(2)] x86_setcc_def
    by (rule condition_code.simulated [OF code]) (use supported_condition [OF ok cond] row(2) q(1) in simp_all)
  then show ?thesis
    by (rule object_simulatesI [OF step step_condition [OF cond], rotated]) (simp add: ob row(3) Setcc_def)
next
  case mov
  then have "mov_ok i" "covers_flags flags_none u"
    using ok u by (simp_all add: supported_def ob transform_moves(1) [OF mov] Mov_def)
  then have "simulates table before (recorded before flags_none u) x (x86_mov i x)
      (Mov_generate (make_Instruction i u flags_none False))"
    by (simp only: recorded_none mov_simulated)
  then show ?thesis
    by (rule object_simulatesI [OF step step_values(12) [OF mov], rotated])
      (simp add: ob transform_moves(1) [OF mov] Mov_def)
next
  case nop
  then have "covers_flags flags_none u"
    using u by (simp add: ob transform_moves(2) [OF nop] Nop_def)
  then have "simulates table before (recorded before flags_none u) x x
      (Nop_generate (make_Instruction i u flags_none False))"
    by (simp only: recorded_none Nop_generate_def skip_simulated)
  then show ?thesis
    by (rule object_simulatesI [OF step step_values(13) [OF nop], rotated])
      (simp add: ob transform_moves(2) [OF nop] Nop_def)
qed

section \<open>A block is simulated\<close>

definition code_of :: "CallEntry list \<Rightarrow> object \<Rightarrow> u32 list" where
  "code_of ct ob = (case snd (run_state (generate ob ct) (Inr [])) of Inl e \<Rightarrow> [] | Inr code \<Rightarrow> code)"

definition generates :: "CallEntry list \<Rightarrow> object \<Rightarrow> bool" where
  "generates ct ob \<longleftrightarrow> run_state (generate ob ct) (Inr []) = (ct, Inr (code_of ct ob))"

definition block_code :: "CallEntry list \<Rightarrow> object list \<Rightarrow> u32 list" where
  "block_code ct obs = concat (map (code_of ct) obs)"

lemma sim_covers: "covers_flags a b \<Longrightarrow> sim table a x s \<Longrightarrow> sim table b x s"
  by (auto simp: sim_def intro: has_flags_covers)

lemma has_flags_flags_all: "has_flags flags_all f s \<Longrightarrow> has_flags a f s"
  using flags_all_bit by (auto simp: has_flags_def)

lemma sim_flags_all: "sim table flags_all x s \<Longrightarrow> sim table a x s"
  using has_flags_flags_all by (auto simp: sim_def)

lemma passes_state: "passes env code P s \<Longrightarrow> \<exists>t. P t"
  unfolding passes_def by blast

lemma passes_nothing: "P s \<Longrightarrow> passes env [] P s"
  unfolding passes_def by (intro allI exI [of _ 0] exI [of _ s]) simp

lemma object_simulates_code:
  assumes "object_simulates table before u x x' ob" "sim table before x s"
  shows "generates ct (set_object_update u ob)"
    "passes (jt_env table) (code_of ct (set_object_update u ob))
      (sim table (recorded before (object_update ob) u) x') s"
proof -
  obtain inst g where g: "set_object_update u ob = plain_object inst g"
    "achieves (jt_env table) (g inst) (sim table (recorded before (object_update ob) u) x') s"
    using assms by (auto simp: object_simulates_def simulates_def)
  obtain code where code: "\<forall>c. run_state (g inst) (Inr c) = ((), Inr (c @ code))"
    "passes (jt_env table) code (sim table (recorded before (object_update ob) u) x') s"
    using g(2) by (auto simp: achieves_def)
  have run: "run_state (generate (set_object_update u ob) ct) (Inr []) = (ct, Inr code)"
    using code(1) by (simp add: g(1))
  then show "generates ct (set_object_update u ob)" "passes (jt_env table) (code_of ct (set_object_update u ob))
      (sim table (recorded before (object_update ob) u) x') s"
    using code(2) by (simp_all add: generates_def code_of_def)
qed

text \<open>What the pass keeps of a plain instruction's flags is enough for the instructions after it.\<close>

lemma flag_step_plain:
  assumes "flag_step env cg p ob = Some (q, ob')" "control_flow_dimension ob = 0"
  shows "ob' = set_object_update (object_update ob AND p) ob" "covers_flags q (object_require ob)"
    "covers_flags (object_update ob) (object_update ob AND p)"
    "covers_flags (recorded q (object_update ob) (object_update ob AND p)) p"
proof -
  let ?u = "object_update ob AND p"
  have q: "q = (p XOR ?u) OR object_require ob" "ob' = set_object_update ?u ob"
    using assms by (auto simp: flag_step_def Let_def)
  then show "ob' = set_object_update ?u ob"
    by simp
  show "covers_flags q (object_require ob)" "covers_flags (object_update ob) ?u"
    "covers_flags (recorded q (object_update ob) ?u) p"
    unfolding covers_flags_def recorded_def q(1) by (rule bit_word_eqI; auto simp: bit_simps)+
qed

lemma flag_pass_simulates:
  assumes "flag_pass env cg required (rev (map (transform_instruction h) is)) = Some (q, obs)"
    and "x86_run is x = Some x'" "\<forall>i\<in>set is. supported i" "sim table q x s"
  shows "(\<forall>ob\<in>set obs. generates ct ob) \<and>
    passes (jt_env table) (block_code ct (rev obs)) (sim table required x') s"
  using assms
proof (induction "is" arbitrary: q obs x s)
  case Nil
  then show ?case
    by (auto simp: block_code_def intro: passes_nothing)
next
  case (Cons i js)
  let ?ob = "transform_instruction h i"
  obtain p obs1 ob where p: "flag_pass env cg required (rev (map (transform_instruction h) js)) = Some (p, obs1)"
    "flag_step env cg p ?ob = Some (q, ob)" "obs = obs1 @ [ob]"
    using Cons.prems(1) by (auto simp: flag_pass_append bind_eq_Some_conv)
  obtain x1 where x1: "x86_step i x = Some x1" "x86_run js x1 = Some x'"
    using Cons.prems(2) by (auto simp: bind_eq_Some_conv)
  let ?u = "object_update ?ob AND p"
  have "object_simulates table q u x x1 ?ob" if "covers_flags (object_update ?ob) u" "covers_flags q (object_require ?ob)" for u
    using instruction_simulated [OF x1(1) _ refl that] Cons.prems(3) by simp
  moreover have "control_flow_dimension ?ob = 0"
    using instruction_simulated [OF x1(1) _ refl, of h 0 "- 1" table] Cons.prems(3)
    by (auto simp: object_simulates_def covers_flags_def)
  note plain = flag_step_plain [OF p(2) this]
  ultimately have ob: "object_simulates table q ?u x x1 ?ob"
    using plain by blast
  note code = object_simulates_code [OF ob Cons.prems(4), of ct]
  have rest: "(\<forall>ob\<in>set obs1. generates ct ob) \<and> passes (jt_env table) (block_code ct (rev obs1)) (sim table required x') t"
    if "sim table (recorded q (object_update ?ob) ?u) x1 t" for t
    using Cons.IH [OF p(1) x1(2) _ sim_covers [OF plain(4) that]] Cons.prems(3) by simp
  have "passes (jt_env table) (code_of ct ob) (passes (jt_env table) (block_code ct (rev obs1)) (sim table required x')) s"
    using passes_mono [OF code(2)] rest plain(1) by blast
  moreover have "\<forall>ob\<in>set obs1. generates ct ob"
    using passes_state [OF code(2)] rest by blast
  ultimately show ?case
    using code(1) plain(1) passes_append by (auto simp: p(3) block_code_def)
qed

text \<open>
  The instructions of a block before its last one, with the updates that the prediction has left them.
\<close>

lemma block_simulates:
  assumes "predict_flags env cg (map (transform_instruction h) is @ [ob]) addr at_next = Some obs"
    and "last_requirements env cg ob addr at_next = Some (required, ob')"
    and "x86_run is x = Some x'" "\<forall>i\<in>set is. supported i" "sim table flags_all x s"
  shows "(\<forall>ob\<in>set (butlast obs). generates ct ob) \<and>
    passes (jt_env table) (block_code ct (butlast obs)) (sim table required x') s"
proof -
  obtain q obs1 where q: "flag_pass env cg required (rev (map (transform_instruction h) is)) = Some (q, obs1)"
    "obs = rev obs1 @ [ob']"
    using assms(1,2) by (auto simp: predict_flags_def bind_eq_Some_conv butlast_append)
  show ?thesis
    using flag_pass_simulates [OF q(1) assms(3,4) sim_flags_all [OF assms(5)], of ct] by (simp add: q(2))
qed

end
