(* ===== verification/Divergences.thy ===== *)
theory Divergences
  imports BlockSimulation
begin

text \<open>
  Two cases in which the code does not compute what the x86 instruction does, each stated as what it
  computes instead. They are outside of what \<open>supported\<close> and \<open>condition_code\<close> admit.
\<close>

section \<open>A byte register moved to itself\<close>

lemma move_byte_self:
  assumes "d \<noteq> zero" "temp \<noteq> zero" "temp \<noteq> d"
  shows "\<exists>t. runs (move_to_register d d 1 temp False) s t \<and> x86_read 1 (rget d t) = 0"
  using assms
  apply -
  apply (rule exI, rule conjI, simp add: move_to_register_def)
   apply (rule runs_intros, simp add: rv_simps)+
  apply (simp add: rv_simps x86_read_def)
  apply (rule bit_word_eqI, auto simp: bit_simps)
  done

lemma mov_byte_self:
  assumes "register_operand op" "op = get_operand 0 inst" "get_operand 1 inst = op" "op_access op = 1"
  shows "\<exists>t. runs (Mov_generate inst) s t \<and> operand_value op t = 0"
proof -
  note d = op_reg_distinct [OF assms(1)] and a = register_operand_access [OF assms(1)]
  have sz: "op_size op = 1" "op_register_type op \<noteq> rt_gph"
    using a assms(4) by (auto simp: op_access_def split: if_splits)
  have "Mov_generate inst = move_to_register (op_reg_of op) (op_reg_of op) 1 t1 False"
    using a sz assms(2,3)
    by (simp add: Mov_generate_def translate_operand_def load_from_register_def translate_destination_def
        op_reg_of_def Let_def)
  then show ?thesis
    using move_byte_self [of "op_reg_of op" t1 s] d assms(4) by (auto simp: operand_value_def)
qed

section \<open>A condition stored in a high byte\<close>

lemma setcc_high_byte:
  assumes "register_operand op" "op = get_operand 0 inst" "op_register_type op = rt_gph"
  shows "\<exists>t. runs (Setcc_set_value inst t0) s t \<and> rget (op_reg_of op) t = rget (op_reg_of op) s"
proof -
  note d = op_reg_distinct [OF assms(1)]
  have eq: "Setcc_set_value inst t0 = move_to_register (op_reg_of op) t0 0 t0 True"
    using register_operand_access [OF assms(1)] assms(2,3)
    by (simp add: Setcc_set_value_def op_reg_of_def Let_def)
  show ?thesis
    unfolding eq using d by (simp add: move_to_register_def runs_iff rv_simps)
qed

end
