(* ===== verification/PatchCode.thy ===== *)
theory PatchCode
  imports FlagUpdates Codegen
begin

text \<open>
  The code that \<open>update_basic_block\<close> (codegen/codegen.cpp) writes over the end of a translated block so
  that it jumps straight to its successor: AUIPC and JALR while the successor is within 2 GB, and a
  \<open>load_immediate\<close> with JALR beyond that. \<open>patch_sum\<close> shows that the two immediates add up to the
  distance, \<open>patch_sum_wrong\<close> shows the \<open>0x800\<close> distances for which they do not, and
  \<open>update_basic_block_jumps\<close> shows that the patch jumps to its target.
\<close>

section \<open>The two immediates\<close>

lemma dvd_minus_signed: "(4096 :: int) dvd d - signed_take_bit 11 d"
proof -
  have "take_bit 12 (signed_take_bit 11 d) = take_bit 12 d"
    by (simp add: take_bit_signed_take_bit)
  then have "d mod 4096 = signed_take_bit 11 d mod 4096"
    by (simp add: take_bit_eq_mod)
  then show ?thesis
    by (simp add: mod_eq_dvd_iff)
qed

lemma push_high_part:
  "push_bit 12 (drop_bit 12 v + of_bool (bit v 11)) = v - signed_take_bit 11 (v :: u64)"
proof -
  have eleven: "n = 11" if "11 \<le> n" "n < 12" for n :: nat
    using that by simp
  have split: "v = push_bit 12 (drop_bit 12 v) + take_bit 12 v"
    by (simp add: bits_ident)
  have "take_bit 12 v = (if bit v 11 then signed_take_bit 11 v + 4096 else signed_take_bit 11 v)"
  proof (cases "bit v 11")
    case True
    have "take_bit 12 v + NOT (mask 12) = take_bit 12 v OR NOT (mask 12)"
      by (rule disjunctive_add) (auto simp: bit_simps)
    moreover have "signed_take_bit 11 v = take_bit 12 v OR NOT (mask 12)"
      using True by (intro bit_word_eqI) (auto simp: bit_simps min_def dest: eleven)
    moreover have "NOT (mask 12) = (- 4096 :: u64)"
      by (simp add: mask_eq_exp_minus_1 not_eq_complement)
    ultimately have "signed_take_bit 11 v = take_bit 12 v - 4096"
      by simp
    then show ?thesis
      using True by (simp only: if_True diff_add_cancel)
  next
    case False
    have "signed_take_bit 11 v = take_bit 12 v"
      using False by (intro bit_word_eqI) (auto simp: bit_simps min_def dest: eleven)
    then show ?thesis
      using False by simp
  qed
  then show ?thesis
    using split by (cases "bit v 11") (auto simp: push_bit_add algebra_simps push_bit_eq_mult)
qed

lemma signed_take_31:
  assumes "- (2 ^ 31) \<le> sint w" "sint w < 2 ^ 31"
  shows "signed_take_bit 31 w = (w :: u64)"
proof -
  have "sint (signed_take_bit 31 w) = sint w"
    using assms by (simp add: sint_signed_take(3) signed_take_bit_int_eq_self)
  then show ?thesis
    by (rule signed_word_eqI)
qed

text \<open>The two immediates of the patch add up to the distance, up to the last \<open>0x800\<close> values below 2 GB.\<close>

definition patch_hi :: "u64 \<Rightarrow> u64" where
  "patch_hi diff = drop_bit 12 diff + of_bool (bit diff 11)"

lemma sext12_low: "sext12 (ucast (diff AND 0xfff)) = signed_take_bit 11 (diff :: u64)"
proof -
  have "diff AND 0xfff = take_bit 12 diff"
    by (simp add: take_bit_eq_mask mask_eq_exp_minus_1)
  then show ?thesis
    by (intro bit_word_eqI) (auto simp: bit_sext12 bit_simps min.commute)
qed

lemma upper_high: "upper_imm (ucast (patch_hi diff)) = signed_take_bit 31 (diff - signed_take_bit 11 diff)"
proof -
  have "upper_imm (ucast h) = signed_take_bit 31 (push_bit 12 h)" for h :: u64
    unfolding upper_imm_def sext32_def by (rule bit_word_eqI) (auto simp: bit_simps)
  then show ?thesis
    by (simp only: patch_hi_def push_high_part)
qed

lemma patch_sum:
  assumes "- 0x7fffffff \<le> sint diff" "sint diff < 0x7ffff800"
  shows "upper_imm (ucast (patch_hi diff)) + sext12 (ucast (diff AND 0xfff)) = diff"
proof -
  let ?d = "sint diff" and ?e = "signed_take_bit 11 (sint diff)"
  have e: "- 2048 \<le> ?e" "?e < 2048"
    using signed_take_bit_int_greater_eq_minus_exp [of 11 ?d] signed_take_bit_int_less_exp [of 11 ?d] by simp_all
  have se: "sint (signed_take_bit 11 diff) = ?e"
    by (simp add: sint_signed_take(3))
  have sd: "sint (diff - signed_take_bit 11 diff) = ?d - ?e"
    using sint_add_cases [of "diff - signed_take_bit 11 diff" "signed_take_bit 11 diff"]
      sint_range64 [of "diff - signed_take_bit 11 diff"] assms e se by auto
  have "- 2147483648 \<le> ?d - ?e"
  proof -
    obtain k where k: "?d - ?e = 4096 * k"
      using dvd_minus_signed [of ?d] by (auto elim: dvdE)
    then have "- 524288 \<le> k"
      using assms(1) e by linarith
    then show ?thesis
      using k by linarith
  qed
  then show ?thesis
    unfolding upper_high sext12_low using assms(2) e sd
    by (subst signed_take_31) simp_all
qed

text \<open>In the last \<open>0x800\<close> distances below 2 GB the sum is 4 GB too low.\<close>

lemma patch_sum_wrong:
  assumes "0x7ffff800 \<le> sint diff" "sint diff \<le> 0x7fffffff"
  shows "upper_imm (ucast (patch_hi diff)) + sext12 (ucast (diff AND 0xfff)) = diff - 0x100000000"
proof -
  let ?d = "sint diff" and ?e = "signed_take_bit 11 (sint diff)"
  have e: "- 2048 \<le> ?e" "?e < 2048"
    using signed_take_bit_int_greater_eq_minus_exp [of 11 ?d] signed_take_bit_int_less_exp [of 11 ?d] by simp_all
  have se: "sint (signed_take_bit 11 diff) = ?e"
    by (simp add: sint_signed_take(3))
  have sd: "sint (diff - signed_take_bit 11 diff) = ?d - ?e"
    using sint_add_cases [of "diff - signed_take_bit 11 diff" "signed_take_bit 11 diff"]
      sint_range64 [of "diff - signed_take_bit 11 diff"] assms e se by auto
  obtain k where k: "?d - ?e = 4096 * k"
    using dvd_minus_signed [of ?d] by (auto elim: dvdE)
  then have "k = 524288"
    using assms e by linarith
  with k have "?d - ?e = 2147483648"
    by simp
  then have "diff - signed_take_bit 11 diff = 0x80000000"
    using sd by (intro signed_word_eqI) simp
  then have "upper_imm (ucast (patch_hi diff)) = signed_take_bit 31 0x80000000"
    unfolding upper_high by simp
  also have "\<dots> = 0x80000000 - 0x100000000"
    by simp
  finally show ?thesis
    unfolding sext12_low using \<open>diff - signed_take_bit 11 diff = 0x80000000\<close>
    by (simp add: algebra_simps)
qed

section \<open>The patch jumps to its target\<close>

lemma bit_low_11: "bit (diff AND 0xfff) 11 = bit (diff :: u64) 11"
proof -
  have "diff AND 0xfff = take_bit 12 diff"
    by (simp add: take_bit_eq_mask mask_eq_exp_minus_1)
  then show ?thesis
    by (simp add: bit_take_bit_iff)
qed

lemma patch_code_near:
  assumes "\<bar>sint (target - start)\<bar> \<le> 0x7fffffff" "diff = target - start"
  shows "run_state (patch_code start target) (Inr []) = ((), Inr
    [AUIPC address_destination (ucast (patch_hi diff)), JALR zero address_destination (ucast (diff AND 0xfff))])"
  using assms by (simp add: patch_code_def Let_def patch_hi_def bit_low_11)

lemma write_memory_all: "write_memory False code b = code_memory.write_all code b"
proof (induction code arbitrary: b)
  case (Cons a code)
  then show ?case
    using CodeMemory_append_def [of False a b]
    by (cases "CodeMemory_add False a b") (auto simp: code_memory.write_all.simps)
qed (simp add: code_memory.write_all.simps)

lemma write_memory_fits:
  assumes "length code \<le> n" "n \<le> length mem"
  shows "\<exists>b. write_memory False code (CodeMemory_new mem n) = Inr b \<and>
    take (length code) (cmem_code b) = code \<and> cmem_count b = length code"
proof -
  let ?b = "CodeMemory_new mem n"
  have ok: "CodeMemory_ok ?b" "CodeMemory_contents ?b = []" "cmem_max_size ?b = n"
    using assms(2) by (simp_all add: CodeMemory_new_def CodeMemory_ok_def CodeMemory_contents_def)
  obtain b where b: "code_memory.write_all code ?b = Inr b" "CodeMemory_ok b" "CodeMemory_contents b = code"
    using code_memory.write_all_fits [of ?b code] ok assms(1) by auto
  then have "length code = cmem_count b"
    by (auto simp: CodeMemory_ok_def CodeMemory_contents_def min_def)
  then show ?thesis
    using b by (auto simp: write_memory_all CodeMemory_contents_def)
qed

lemma even_jump: "even target \<Longrightarrow> target AND NOT 1 = (target :: u64)"
  by (rule even_and_not_1)

lemma run_near:
  assumes "even target" "- 0x7fffffff \<le> sint (target - start)" "sint (target - start) < 0x7ffff800"
    and "diff = target - start"
    and "code = AUIPC address_destination (ucast (patch_hi diff)) #
      JALR zero address_destination (ucast (diff AND 0xfff)) # rest"
  shows "rv_run env start code 2 0 s = Some (Jumped target,
    rset address_destination (start + upper_imm (ucast (patch_hi diff))) s)"
proof -
  have sum: "start + upper_imm (ucast (patch_hi diff)) + sext12 (ucast (diff AND 0xfff)) = target"
    using patch_sum [of diff] assms(2-4) by (simp add: add.assoc)
  show ?thesis
    using even_jump [OF assms(1)] sum
    by (simp add: assms(5) numeral_2_eq_2 rv_block_step_def rv_simps reserved_regs)
qed

lemma run_far:
  assumes "even target" "rv_straight xs s = Some t" "rget address_destination t = target"
    and "code = xs @ JALR zero address_destination 0 # rest"
  shows "rv_run env start code (length xs + 1) 0 s = Some (Jumped target, t)"
proof -
  have "rv_run env start ([] @ xs @ JALR zero address_destination 0 # rest) (length xs + 1) (length []) s =
      rv_run env start ([] @ xs @ JALR zero address_destination 0 # rest) 1 (length [] + length xs) t"
    using rv_run_straight [OF assms(2), of env start "[]" _ 1] by (simp only: list.size add_0)
  moreover have "rv_run env start ([] @ xs @ JALR zero address_destination 0 # rest) 1 (length [] + length xs) t =
      Some (Jumped target, t)"
    using even_jump [OF assms(1)] assms(3)
    by (simp add: rv_block_step_def rv_simps nth_append sext12_def)
  ultimately show ?thesis
    using assms(4) by simp
qed

lemma update_basic_block_jumps:
  assumes "even target" "9 \<le> length mem"
    and "\<not> (0x7ffff800 \<le> sint (target - patch_start False addr) \<and>
      sint (target - patch_start False addr) \<le> 0x7fffffff)"
  shows "\<exists>b. update_basic_block False addr target mem = Inr b \<and> cmem_count b \<le> 9 \<and>
    (\<forall>s. \<exists>t. keeps {address_destination} s t \<and>
      rv_run env (patch_start False addr) (cmem_code b) 10 0 s = Some (Jumped target, t))"
proof -
  let ?start = "patch_start False addr"
  define diff where "diff = target - ?start"
  show ?thesis
  proof (cases "\<bar>sint (target - ?start)\<bar> \<le> 0x7fffffff")
    case True
    let ?code = "[AUIPC address_destination (ucast (patch_hi diff)),
      JALR zero address_destination (ucast (diff AND 0xfff))]"
    obtain b where b: "write_memory False ?code (CodeMemory_new mem 9) = Inr b"
      "take (length ?code) (cmem_code b) = ?code" "cmem_count b = length ?code"
      using write_memory_fits [of ?code 9 mem] assms(2) by auto
    have mem: "cmem_code b = AUIPC address_destination (ucast (patch_hi diff)) #
        JALR zero address_destination (ucast (diff AND 0xfff)) # drop 2 (cmem_code b)"
      by (subst append_take_drop_id [of 2 "cmem_code b", symmetric]) (use b(2) in \<open>simp add: numeral_2_eq_2\<close>)
    have "rv_run env ?start (cmem_code b) 10 0 s = Some (Jumped target,
        rset address_destination (?start + upper_imm (ucast (patch_hi diff))) s)" for s
      by (rule rv_run_mono [OF run_near [OF assms(1) _ _ diff_def mem]]) (use True assms(3) in auto)
    moreover have "update_basic_block False addr target mem = Inr b"
      using b(1) patch_code_near [OF True diff_def] by (simp add: update_basic_block_def patch_size_def)
    ultimately show ?thesis
      using b(3) by (intro exI [of _ b]) (auto simp: rv_simps)
  next
    case False
    obtain code where code: "\<forall>c. run_state (load_immediate target address_destination) (Inr c) = ((), Inr (c @ code))"
      "length code \<le> 8"
      using load_immediate_length by blast
    let ?code = "code @ [JALR zero address_destination 0]"
    obtain b where b: "write_memory False ?code (CodeMemory_new mem 9) = Inr b"
      "take (length ?code) (cmem_code b) = ?code" "cmem_count b = length ?code"
      using write_memory_fits [of ?code 9 mem] assms(2) code(2) by auto
    have mem: "cmem_code b = code @ JALR zero address_destination 0 # drop (length ?code) (cmem_code b)"
      by (subst append_take_drop_id [of "length ?code" "cmem_code b", symmetric]) (use b(2) in simp)
    have "update_basic_block False addr target mem = Inr b"
      using b(1) False code(1)
      by (simp add: update_basic_block_def patch_size_def patch_code_def Let_def)
    moreover have "\<exists>t. keeps {address_destination} s t \<and>
        rv_run env ?start (cmem_code b) 10 0 s = Some (Jumped target, t)" for s
    proof -
      obtain t where t: "runs (load_immediate target address_destination) s t"
        "rget address_destination t = target" "keeps {address_destination} s t"
        using load_immediate_runs [of address_destination target s] by (auto simp: reserved_regs)
      then obtain code' where "\<forall>c. run_state (load_immediate target address_destination) (Inr c) = ((), Inr (c @ code'))"
        "rv_straight code' s = Some t"
        by (auto simp: runs_iff)
      then have "rv_straight code s = Some t"
        using code(1) by simp
      then show ?thesis
        using t(2,3) rv_run_mono [OF run_far [OF assms(1) _ t(2) mem]] code(2) by force
    qed
    ultimately show ?thesis
      using b(3) code(2) by auto
  qed
qed

end
