(* ===== verification/BlockStore.thy ===== *)
theory BlockStore
  imports BlockSimulation
begin

text \<open>
  What the code store holds after a block has been generated: the code of its instructions one after
  the other, with their sizes, at the address that the translation returns. \<open>add_instruction_constructs\<close>
  is the effect of storing one instruction, \<open>CodeStore_ok\<close> the invariant of the store between blocks, and
  \<open>store_block_simulates\<close> composes the stored code with the simulation of a block.
\<close>

section \<open>The block under construction\<close>

text \<open>
  \<open>code\<close> and \<open>offs\<close> are the instructions and the sizes stored so far for the block at \<open>p\<close>, both at the
  end of their lists.
\<close>

definition under_construction :: "CodeStore \<Rightarrow> pointer \<Rightarrow> u32 list \<Rightarrow> InstructionOffset list \<Rightarrow> bool" where
  "under_construction st p code offs \<longleftrightarrow>
     StaticList_ok (cs_entries st) \<and> StaticList_ok (cs_code st) \<and> StaticList_ok (cs_offsets st) \<and>
     stored (cs_entries st) p \<and>
     current_section (cs_code st) (riscv_start (block st p)) code \<and>
     current_section (cs_offsets st) (offsets (block st p)) offs \<and>
     instruction_count (block st p) = length offs"

definition shape :: "'a StaticList \<Rightarrow> nat \<times> pointer option \<times> nat \<times> nat" where
  "shape s = (length (sl_chunks s), sl_buffer s, sl_size_left s, sl_max_elements s)"

definition position :: "'a StaticList \<Rightarrow> pointer \<Rightarrow> bool" where
  "position s q \<longleftrightarrow> fst q < length (sl_chunks s) \<and> snd q < sl_max_elements s"

definition same_blocks :: "CodeStore \<Rightarrow> CodeStore \<Rightarrow> pointer \<Rightarrow> bool" where
  "same_blocks st st' p \<longleftrightarrow> shape (cs_entries st') = shape (cs_entries st) \<and>
     (\<forall>q. position (cs_entries st) q \<longrightarrow> q \<noteq> p \<longrightarrow> block st' q = block st q)"

lemma shape_simps:
  "shape s = shape s' \<Longrightarrow> stored s q = stored s' q" "shape s = shape s' \<Longrightarrow> position s q = position s' q"
  "shape (update_element p x s) = shape s" "stored s q \<Longrightarrow> position s q"
  by (simp_all add: shape_def stored_def position_def update_element_def split: option.splits)

lemma element_update_position:
  assumes "StaticList_ok s" "position s p" "position s q"
  shows "element_at (update_element p x s) q = (if q = p then x else element_at s q)"
  using assms
  by (auto simp: element_at_def update_element_def StaticList_ok_def position_def nth_list_update prod_eq_iff)

lemma same_blocks_trans: "same_blocks st st' p \<Longrightarrow> same_blocks st' st'' p \<Longrightarrow> same_blocks st st'' p"
  by (simp add: same_blocks_def shape_simps(2) [of "cs_entries st'" "cs_entries st"])

lemma same_blocks_entries: "cs_entries st' = cs_entries st \<Longrightarrow> same_blocks st st' p"
  by (simp add: same_blocks_def block_def)

lemma set_block_result:
  assumes "StaticList_ok (cs_entries st)" "stored (cs_entries st) p"
  shows "block (set_block p b st) p = b" "same_blocks st (set_block p b st) p"
    "StaticList_ok (cs_entries (set_block p b st))" "stored (cs_entries (set_block p b st)) p"
    "cs_code (set_block p b st) = cs_code st" "cs_offsets (set_block p b st) = cs_offsets st"
    "cs_pages (set_block p b st) = cs_pages st" "cs_elf (set_block p b st) = cs_elf st"
  using assms element_update [OF assms(1,2)] update_element_ok(1) [OF assms(1)]
    element_update_position [OF assms(1) shape_simps(4) [OF assms(2)]]
  by (simp_all add: block_def set_block_def same_blocks_def update_element_ok(2) shape_simps(3))

lemma insert_block_result:
  assumes "insert_block p a st = Inr st'" "StaticList_ok (cs_entries st)" "stored (cs_entries st) p"
  shows "same_blocks st st' p" "StaticList_ok (cs_entries st')" "stored (cs_entries st') p"
    "cs_code st' = cs_code st" "cs_offsets st' = cs_offsets st" "cs_elf st' = cs_elf st"
    "block st' p = (if instruction_count (block st p) = 0 then (block st p)\<lparr>x86_start := a\<rparr> else block st p)"
    "instruction_count (block st p) \<noteq> 0 \<Longrightarrow> x86_end (block st p) = a"
proof -
  let ?s = "set_block p ((block st p)\<lparr>x86_start := a\<rparr>) st"
  note s = set_block_result [OF assms(2,3), of "(block st p)\<lparr>x86_start := a\<rparr>"]
  have pages: "block (set_page i pg u) q = block u q" "cs_entries (set_page i pg u) = cs_entries u"
    "cs_code (set_page i pg u) = cs_code u" "cs_offsets (set_page i pg u) = cs_offsets u"
    "cs_elf (set_page i pg u) = cs_elf u" for i pg u q
    by (simp_all add: set_page_def block_def)
  have "same_blocks st st' p \<and> StaticList_ok (cs_entries st') \<and> stored (cs_entries st') p \<and>
    cs_code st' = cs_code st \<and> cs_offsets st' = cs_offsets st \<and> cs_elf st' = cs_elf st \<and>
    block st' p = (if instruction_count (block st p) = 0 then (block st p)\<lparr>x86_start := a\<rparr> else block st p) \<and>
    (instruction_count (block st p) \<noteq> 0 \<longrightarrow> x86_end (block st p) = a)"
  proof (cases "instruction_count (block st p) = 0")
    case True
    then obtain page where "page_array ?s (get_page_index ?s a) = Inr page"
      "st' = set_page (get_page_index ?s a) (insert_sorted ?s p a page) ?s"
      using assms(1) by (auto simp: insert_block_def Let_def and_then_Inr)
    then show ?thesis
      using True s same_blocks_trans [OF s(2) same_blocks_entries] by (simp add: pages)
  next
    case False
    then have "st' = st" "x86_end (block st p) = a"
      using assms(1) by (auto simp: insert_block_def split: if_splits)
    then show ?thesis
      using False assms(2,3) same_blocks_entries by simp
  qed
  then show "same_blocks st st' p" "StaticList_ok (cs_entries st')" "stored (cs_entries st') p"
    "cs_code st' = cs_code st" "cs_offsets st' = cs_offsets st" "cs_elf st' = cs_elf st"
    "block st' p = (if instruction_count (block st p) = 0 then (block st p)\<lparr>x86_start := a\<rparr> else block st p)"
    "instruction_count (block st p) \<noteq> 0 \<Longrightarrow> x86_end (block st p) = a"
    by blast+
qed

lemma overlap_page_result:
  assumes "overlap_page p st = Inr st'"
  obtains pages where "st' = st\<lparr>cs_pages := pages\<rparr>"
proof -
  have "\<exists>pages. st' = st\<lparr>cs_pages := pages\<rparr>"
    using assms by (auto simp: overlap_page_def Let_def and_then_Inr set_page_def split: if_splits)
      (metis CodeStore.surjective CodeStore.update_convs(2))+
  then show thesis
    using that by blast
qed

definition offset_entry :: "u8 \<Rightarrow> u32 list \<Rightarrow> InstructionOffset" where
  "offset_entry sz riscv = \<lparr>io_x86 = ucast sz, io_riscv = of_nat (length riscv * 4)\<rparr>"

lemma add_instruction_constructs:
  assumes "under_construction st p code offs" "allocator_ok (al_offsets al)"
    and "add_instruction al p a sz riscv st = Inr st'"
  shows "under_construction st' p (code @ riscv) (offs @ [offset_entry sz riscv])"
    "same_blocks st st' p" "extends (cs_code st) (cs_code st')" "extends (cs_offsets st) (cs_offsets st')"
    "x86_start (block st' p) = (if offs = [] then a else x86_start (block st p))"
    "offs \<noteq> [] \<Longrightarrow> x86_end (block st p) = a" "x86_end (block st' p) = a + ucast sz"
    "cs_elf st' = cs_elf st" "riscv_start (block st' p) \<noteq> None" "offsets (block st' p) \<noteq> None"
proof -
  note u = assms(1) [unfolded under_construction_def]
  obtain st1 where st1: "insert_block p a st = Inr st1"
    using assms(3) by (auto simp: add_instruction_def and_then_Inr)
  obtain start code' where code': "StaticList_add (ExecutableList_allocate (al_mapped al)) (riscv_start (block st1 p)) riscv
      (cs_code st1) = Inr (Some start, code')"
    using assms(3) st1 by (auto simp: add_instruction_def and_then_Inr Let_def split: if_splits)
  define st2 where "st2 = set_block p ((block st1 p)\<lparr>riscv_start := Some start\<rparr>) (st1\<lparr>cs_code := code'\<rparr>)"
  obtain off list where off: "StaticList_add (al_offsets al) (offsets (block st2 p)) [offset_entry sz riscv]
      (cs_offsets st2) = Inr (Some off, list)"
    using assms(3) st1 code'
    by (auto simp: add_instruction_def and_then_Inr Let_def st2_def offset_entry_def split: if_splits)
  define b where "b = (block st2 p)\<lparr>offsets := Some off\<rparr>"
  define st3 where "st3 = set_block p b (st2\<lparr>cs_offsets := list\<rparr>)"
  define b' where "b' = b\<lparr>instruction_count := instruction_count b + 1, x86_end := a + ucast sz\<rparr>"
  define st4 where "st4 = set_block p b' st3"
  have "st' = st4 \<or> overlap_page p st4 = Inr st'"
    using assms(3) st1 code' off
    by (auto simp: add_instruction_def and_then_Inr Let_def st2_def st3_def st4_def b_def b'_def
        offset_entry_def split: if_splits)
  then obtain pages where st': "st' = st4\<lparr>cs_pages := pages\<rparr>"
  proof
    assume "st' = st4"
    then have "st' = st4\<lparr>cs_pages := cs_pages st4\<rparr>"
      by simp
    then show thesis
      by (rule that)
  qed (use that overlap_page_result in blast)
  note i = insert_block_result [OF st1 conjunct1 [OF u]]
  have e1: "StaticList_ok (cs_entries st1)" "stored (cs_entries st1) p"
    using i u by simp_all
  note s2 = set_block_result [of "st1\<lparr>cs_code := code'\<rparr>" p "(block st1 p)\<lparr>riscv_start := Some start\<rparr>", folded st2_def, simplified, OF e1]
  note s3 = set_block_result [of "st2\<lparr>cs_offsets := list\<rparr>" p b, folded st3_def, simplified, OF s2(3,4)]
  note s4 = set_block_result [of st3 p b', folded st4_def, OF s3(3,4)]
  have same: "same_blocks (st1\<lparr>cs_code := code'\<rparr>) st2 p = same_blocks st1 st2 p"
    "same_blocks (st2\<lparr>cs_offsets := list\<rparr>) st3 p = same_blocks st2 st3 p"
    "same_blocks st st' p = same_blocks st st4 p" "block st' q = block st4 q" for q
    by (simp_all add: same_blocks_def block_def st')
  show "same_blocks st st' p"
    using i(1) s2(2) s3(2) s4(2) u same_blocks_trans unfolding same by blast
  have blk: "block st' p = b'"
    using s4(1) same by simp
  have cnt: "instruction_count (block st p) = length offs"
    using u by simp
  have c: "StaticList_ok code'" "extends (cs_code st) code'" "current_section code' (Some start) (code @ riscv)"
    using StaticList_add_correct [OF _ ExecutableList_allocate_ok, of "cs_code st" _ code "al_mapped al" riscv start code'] code' u i
    by (auto split: if_splits)
  have o: "StaticList_ok list" "extends (cs_offsets st) list"
    "current_section list (Some off) (offs @ [offset_entry sz riscv])"
    using StaticList_add_correct [OF _ assms(2), of "cs_offsets st" _ offs "[offset_entry sz riscv]" off list] off u i s2
    by (auto split: if_splits)
  show "extends (cs_code st) (cs_code st')" "extends (cs_offsets st) (cs_offsets st')"
    using c o s2 s3 s4 by (simp_all add: st')
  show "x86_start (block st' p) = (if offs = [] then a else x86_start (block st p))"
    "x86_end (block st' p) = a + ucast sz" "riscv_start (block st' p) \<noteq> None" "offsets (block st' p) \<noteq> None"
    using s2(1) i u cnt by (simp_all add: blk b'_def b_def)
  show "offs \<noteq> [] \<Longrightarrow> x86_end (block st p) = a"
    using i u cnt by simp
  show "cs_elf st' = cs_elf st"
    using i u s2 s3 s4 by (simp add: st')
  show "under_construction st' p (code @ riscv) (offs @ [offset_entry sz riscv])"
    using c o s2 s3 s4 i u cnt unfolding under_construction_def blk by (simp add: st' b'_def b_def)
qed


section \<open>The store between blocks\<close>

definition CodeStore_ok :: "CodeStore \<Rightarrow> bool" where
  "CodeStore_ok st \<longleftrightarrow> StaticList_ok (cs_entries st) \<and> StaticList_ok (cs_code st) \<and> StaticList_ok (cs_offsets st) \<and>
     0 < sl_max_elements (cs_entries st) \<and>
     (\<forall>q. position (cs_entries st) q \<longrightarrow> \<not> stored (cs_entries st) q \<longrightarrow> block st q = BlockEntry_default)"

lemma CodeStore_new_ok: "entry_list_size args \<noteq> 0 \<Longrightarrow> CodeStore_ok (CodeStore_new args elf)"
  using StaticList_new_ok [of "unat (entry_list_size args)"]
  by (simp add: CodeStore_ok_def CodeStore_new_def StaticList_new_ok position_def)
    (simp add: StaticList_new_def unat_gt_0)

lemma create_block_constructs:
  assumes "create_block al st = Inr (p, st')" "CodeStore_ok st"
  shows "under_construction st' p [] []" "CodeStore_ok st'" "\<not> stored (cs_entries st) p" "cs_pages st' = cs_pages st"
    "cs_code st' = cs_code st" "cs_offsets st' = cs_offsets st" "cs_elf st' = cs_elf st"
    "\<And>q. stored (cs_entries st) q \<Longrightarrow> stored (cs_entries st') q \<and> block st' q = block st q"
proof -
  obtain entries where e: "allocate_entry (new_entries (al_entries al)) (cs_entries st) = Inr (p, entries)"
    "st' = st\<lparr>cs_entries := entries\<rparr>"
    using assms(1) by (auto simp: create_block_def and_then_Inr)
  have new: "allocator_ok (new_entries (al_entries al))"
    by (auto simp: allocator_ok_def new_entries_def split: if_splits)
  note st = assms(2) [unfolded CodeStore_ok_def]
  have ok: "StaticList_ok entries" "extends (cs_entries st) entries" "\<not> stored (cs_entries st) p" "stored entries p"
    using allocate_entry_correct [OF _ new _ e(1)] st by simp_all
  have mx: "sl_max_elements entries = sl_max_elements (cs_entries st)"
    using e(1) by (auto simp: allocate_entry_def allocate_def Let_def split: option.splits if_splits prod.splits)
  have default: "element_at entries q = BlockEntry_default" if q: "position entries q" "\<not> stored entries q \<or> q = p" for q
  proof (cases "sl_size_left (cs_entries st) = 0")
    case True
    then obtain c where c: "new_entries (al_entries al) (length (sl_chunks (cs_entries st))) (sl_max_elements (cs_entries st)) = Some c"
      using e(1) by (cases "new_entries (al_entries al) (length (sl_chunks (cs_entries st))) (sl_max_elements (cs_entries st))")
        (use st in \<open>auto simp: allocate_entry_def allocate_def Let_def StaticList_ok_def split: option.splits\<close>)
    then have en: "sl_chunks entries = sl_chunks (cs_entries st) @ [replicate (sl_max_elements (cs_entries st)) BlockEntry_default]"
      "sl_buffer entries = Some (length (sl_chunks (cs_entries st)), 1)" "p = (length (sl_chunks (cs_entries st)), 0)"
      using e(1) True by (auto simp: allocate_entry_def allocate_def new_entries_def split: if_splits)
    then have "fst q = length (sl_chunks (cs_entries st))"
      using q by (auto simp: position_def stored_def)
    then show ?thesis
      using q(1) en mx by (simp add: element_at_def position_def)
  next
    case False
    then obtain c i where ci: "sl_buffer (cs_entries st) = Some (c, i)"
      using st by (auto simp: StaticList_ok_def split: option.splits)
    then have en: "sl_chunks entries = sl_chunks (cs_entries st)" "sl_buffer entries = Some (c, i + 1)" "p = (c, i)"
      using e(1) False by (auto simp: allocate_entry_def Let_def)
    then have "position (cs_entries st) q" "\<not> stored (cs_entries st) q"
      using q ci mx by (auto simp: position_def stored_def)
    then show ?thesis
      using st en(1) by (simp add: block_def element_at_def)
  qed
  show "\<not> stored (cs_entries st) p"
    by (rule ok(3))
  show "cs_pages st' = cs_pages st" "cs_code st' = cs_code st" "cs_offsets st' = cs_offsets st" "cs_elf st' = cs_elf st"
    by (simp_all add: e(2))
  show "stored (cs_entries st') q \<and> block st' q = block st q" if "stored (cs_entries st) q" for q
    using ok(2) [unfolded extends_def, rule_format, OF that] by (simp add: e(2) block_def)
  show "CodeStore_ok st'"
    using st ok default mx by (simp add: CodeStore_ok_def e(2) block_def)
  show "under_construction st' p [] []"
    using st ok default shape_simps(4) [OF ok(4)]
    by (simp add: under_construction_def e(2) block_def BlockEntry_default_def current_section_def store_count_def)
qed

lemma same_blocks_ok:
  assumes "CodeStore_ok st" "same_blocks st st' p" "under_construction st' p code offs"
  shows "CodeStore_ok st'"
proof -
  note shape = shape_simps(1,2) [OF conjunct1 [OF assms(2) [unfolded same_blocks_def]]]
  have "sl_max_elements (cs_entries st') = sl_max_elements (cs_entries st)"
    using assms(2) by (simp add: same_blocks_def shape_def)
  then show ?thesis
    using assms shape unfolding CodeStore_ok_def under_construction_def same_blocks_def by metis
qed

section \<open>The code of a block\<close>

text \<open>Which code each object generates, and how the call table changes.\<close>

inductive generated :: "u64 option \<Rightarrow> object list \<Rightarrow> CallEntry list \<Rightarrow> u32 list list \<Rightarrow> CallEntry list \<Rightarrow> bool"
  for link :: "u64 option" where
  Nothing: "generated link [] ct [] ct"
| Object: "run_batch (instruction_code ob (if obs = [] then link else None) ct) = Inr (ct', code) \<Longrightarrow>
    generated link obs ct' codes ct'' \<Longrightarrow> generated link (ob # obs) ct (code # codes) ct''"

inductive_cases generated_ConsE: "generated link (ob # obs) ct codes ct'"

definition block_entries :: "object list \<Rightarrow> u32 list list \<Rightarrow> InstructionOffset list" where
  "block_entries obs codes = map2 (\<lambda>ob code. offset_entry (of_nat (inst_size (obj_inst ob))) code) obs codes"

lemma generate_instruction_stores:
  assumes "generate_instruction env p nb ob cg = Inr cg'" "under_construction (cg_store cg) p code offs"
    and "allocator_ok (al_offsets (env_al env))"
    and "link = map_option (\<lambda>q. host_address (env_al env) (riscv_start (block (cg_store cg) q))) nb"
  obtains new where "run_batch (instruction_code ob link (cg_call_table cg)) = Inr (cg_call_table cg', new)"
    "under_construction (cg_store cg') p (code @ new) (offs @ [offset_entry (of_nat (inst_size (obj_inst ob))) new])"
    "same_blocks (cg_store cg) (cg_store cg') p" "extends (cs_code (cg_store cg)) (cs_code (cg_store cg'))"
    "extends (cs_offsets (cg_store cg)) (cs_offsets (cg_store cg'))" "cs_elf (cg_store cg') = cs_elf (cg_store cg)"
proof -
  obtain ct new st where r: "run_batch (instruction_code ob link (cg_call_table cg)) = Inr (ct, new)"
    "add_instruction (env_al env) p (inst_address (obj_inst ob)) (of_nat (inst_size (obj_inst ob))) new (cg_store cg) = Inr st"
    "cg' = cg\<lparr>cg_store := st, cg_call_table := ct\<rparr>"
    using assms(1,4) by (auto simp: generate_instruction_def Let_def and_then_Inr)
  show thesis
    using that [of new] r add_instruction_constructs [OF assms(2,3) r(2)] by simp
qed

lemma generate_block_stores:
  assumes "generate_block env p nb obs cg = Inr cg'" "under_construction (cg_store cg) p code offs"
    and "allocator_ok (al_offsets (env_al env))"
    and "\<And>q. nb = Some q \<Longrightarrow> position (cs_entries (cg_store cg)) q \<and> q \<noteq> p"
    and "link = map_option (\<lambda>q. host_address (env_al env) (riscv_start (block (cg_store cg) q))) nb"
  shows "\<exists>codes. generated link obs (cg_call_table cg) codes (cg_call_table cg') \<and>
    under_construction (cg_store cg') p (code @ concat codes) (offs @ block_entries obs codes) \<and>
    same_blocks (cg_store cg) (cg_store cg') p \<and> extends (cs_code (cg_store cg)) (cs_code (cg_store cg')) \<and>
    extends (cs_offsets (cg_store cg)) (cs_offsets (cg_store cg')) \<and> cs_elf (cg_store cg') = cs_elf (cg_store cg)"
  using assms
proof (induction obs arbitrary: cg code offs)
  case Nil
  then show ?case
    by (auto simp: block_entries_def same_blocks_def intro: generated.Nothing)
next
  case (Cons ob obs)
  obtain cg1 where g: "generate_instruction env p (if obs = [] then nb else None) ob cg = Inr cg1"
    "generate_block env p nb obs cg1 = Inr cg'"
    using Cons.prems(1) by (auto simp: and_then_Inr)
  have "(if obs = [] then link else None) =
      map_option (\<lambda>q. host_address (env_al env) (riscv_start (block (cg_store cg) q))) (if obs = [] then nb else None)"
    using Cons.prems(5) by simp
  then obtain new where new: "run_batch (instruction_code ob (if obs = [] then link else None) (cg_call_table cg)) =
      Inr (cg_call_table cg1, new)"
    "under_construction (cg_store cg1) p (code @ new) (offs @ [offset_entry (of_nat (inst_size (obj_inst ob))) new])"
    "same_blocks (cg_store cg) (cg_store cg1) p" "extends (cs_code (cg_store cg)) (cs_code (cg_store cg1))"
    "extends (cs_offsets (cg_store cg)) (cs_offsets (cg_store cg1))" "cs_elf (cg_store cg1) = cs_elf (cg_store cg)"
    by (rule generate_instruction_stores [OF g(1) Cons.prems(2,3)])
  have nb: "position (cs_entries (cg_store cg1)) q \<and> q \<noteq> p" "block (cg_store cg1) q = block (cg_store cg) q" if "nb = Some q" for q
    using Cons.prems(4) [OF that] new(3) shape_simps(2) [of "cs_entries (cg_store cg1)" "cs_entries (cg_store cg)" q]
    unfolding same_blocks_def by blast+
  have "link = map_option (\<lambda>q. host_address (env_al env) (riscv_start (block (cg_store cg1) q))) nb"
    using Cons.prems(5) nb(2) by (cases nb) simp_all
  then obtain codes where codes: "generated link obs (cg_call_table cg1) codes (cg_call_table cg')"
    "under_construction (cg_store cg') p ((code @ new) @ concat codes)
      ((offs @ [offset_entry (of_nat (inst_size (obj_inst ob))) new]) @ block_entries obs codes)"
    "same_blocks (cg_store cg1) (cg_store cg') p" "extends (cs_code (cg_store cg1)) (cs_code (cg_store cg'))"
    "extends (cs_offsets (cg_store cg1)) (cs_offsets (cg_store cg'))" "cs_elf (cg_store cg') = cs_elf (cg_store cg1)"
    using Cons.IH [OF g(2) new(2) Cons.prems(3) nb(1)] by blast
  show ?case
    using generated.Object [OF new(1) codes(1)] codes new same_blocks_trans [OF new(3) codes(3)]
      extends_trans [OF new(4) codes(4)] extends_trans [OF new(5) codes(5)]
    by (intro exI [of _ "new # codes"]) (simp add: block_entries_def)
qed

text \<open>Plain objects generate their code and leave the call table alone.\<close>

lemma generated_plain:
  assumes "generated link (obs @ [ob]) ct codes ct'" "\<forall>ob\<in>set obs. generates ct ob"
  shows "\<exists>code. concat codes = block_code ct obs @ code"
  using assms
proof (induction obs arbitrary: codes)
  case Nil
  then show ?case
    by (simp add: block_code_def)
next
  case (Cons o1 obs)
  obtain ct1 code rest where r: "codes = code # rest" "run_batch (instruction_code o1 None ct) = Inr (ct1, code)"
    "generated link (obs @ [ob]) ct1 rest ct'"
    using Cons.prems(1) by (auto elim: generated_ConsE)
  have "ct1 = ct" "code = code_of ct o1"
    using r(2) Cons.prems(2) by (auto simp: run_batch_def instruction_code_def generates_def split: if_splits)
  then show ?case
    using Cons.IH [of rest] Cons.prems(2) r by (auto simp: block_code_def)
qed

text \<open>
  The block that \<open>store_block\<close> stores: it starts at the address returned, and the code of the
  instructions before the last one simulates the x86 machine.
\<close>

lemma store_block_simulates:
  assumes "store_block env nb obs cg = Inr (addr, cg')" "CodeStore_ok (cg_store cg)"
    and "allocator_ok (al_offsets (env_al env))" "\<And>q. nb = Some q \<Longrightarrow> stored (cs_entries (cg_store cg)) q"
    and "predict_flags env cg0 (map (transform_instruction h) is @ [ob]) next_addr at_next = Some obs"
    and "last_requirements env cg0 ob next_addr at_next = Some (required, ob')"
    and "x86_run is x = Some x'" "\<forall>i\<in>set is. supported i" "sim table flags_all x s"
  shows "\<exists>p code last_code. CodeStore_ok (cg_store cg') \<and>
    addr = host_address (env_al env) (riscv_start (block (cg_store cg') p)) \<and>
    current_section (cs_code (cg_store cg')) (riscv_start (block (cg_store cg') p)) (code @ last_code) \<and>
    passes (jt_env table) code (sim table required x') s"
proof -
  obtain p st where st: "create_block (env_al env) (cg_store cg) = Inr (p, st)"
    "generate_block env p nb obs (cg\<lparr>cg_store := st\<rparr>) = Inr cg'"
    "addr = host_address (env_al env) (riscv_start (block (cg_store cg') p))"
    using assms(1) by (auto simp: store_block_def and_then_Inr)
  note c = create_block_constructs [OF st(1) assms(2)]
  define link where "link = map_option (\<lambda>q. host_address (env_al env) (riscv_start (block st q))) nb"
  have nb: "position (cs_entries st) q \<and> q \<noteq> p" if "nb = Some q" for q
    using assms(4) [OF that] c(3) c(8) [of q] shape_simps(4) by blast
  obtain codes where codes: "generated link obs (cg_call_table cg) codes (cg_call_table cg')"
    "under_construction (cg_store cg') p (concat codes) (block_entries obs codes)" "same_blocks st (cg_store cg') p"
    using generate_block_stores [OF st(2), of "[]" "[]" link] c(1) assms(3) nb link_def by auto
  obtain q obs1 where q: "flag_pass env cg0 required (rev (map (transform_instruction h) is)) = Some (q, obs1)"
    "obs = rev obs1 @ [ob']"
    using assms(5,6) by (auto simp: predict_flags_def bind_eq_Some_conv butlast_append)
  note sim = block_simulates [OF assms(5-9), where ct = "cg_call_table cg"]
  obtain code where code: "concat codes = block_code (cg_call_table cg) (butlast obs) @ code"
    using generated_plain [of link "butlast obs" ob' "cg_call_table cg" codes] codes(1) sim q(2) by auto
  have "CodeStore_ok (cg_store cg')"
    by (rule same_blocks_ok [OF c(2) codes(3,2)])
  then show ?thesis
    using st(3) codes(2) code sim unfolding under_construction_def
    by (intro exI [of _ p] exI [of _ "block_code (cg_call_table cg) (butlast obs)"] exI [of _ code]) simp
qed

end
