(* ===== verification/Dispatcher.thy ===== *)
theory Dispatcher
  imports Syscalls Codegen
begin

text \<open>
  The dispatcher (\<^verbatim>\<open>dispatcher/dispatcher.{h,cpp}\<close> and \<^verbatim>\<open>dispatcher.inc.s\<close>): the context and the stack
  that a guest starts with, the lookup table that caches the translation of branch targets, and the
  handler that a system call instruction of the guest reaches. Memory that the system maps and the
  addresses of the translator's own objects are parameters, in the record \<open>host_addresses\<close>.
\<close>

section \<open>The initial context\<close>

record host_addresses =
  ha_context :: u64
  ha_call_table :: u64
  ha_jump_table :: u64
  ha_return_stack :: u64
  ha_tlb :: u64
  ha_stack :: u64
  ha_envp :: u64
  ha_path :: u64
  ha_arguments :: "u64 list"

text \<open>The members of \<^verbatim>\<open>Context::map\<close> that are set, by their place in the union.\<close>

definition guest_rsp :: RiscVRegister where "guest_rsp = sp"
definition guest_rbp :: RiscVRegister where "guest_rbp = s0"
definition guest_return_stack :: RiscVRegister where "guest_return_stack = s1"
definition guest_call_table :: RiscVRegister where "guest_call_table = s8"
definition guest_tlb :: RiscVRegister where "guest_tlb = s9"
definition guest_jump_table :: RiscVRegister where "guest_jump_table = s10"
definition guest_context :: RiscVRegister where "guest_context = s11"

lemmas guest_defs = guest_rsp_def guest_rbp_def guest_return_stack_def guest_call_table_def guest_tlb_def
  guest_jump_table_def guest_context_def guest_rdi_def guest_rsi_def guest_rdx_def guest_rax_def

text \<open>The flags, as they are set before the guest is entered, at their places in the context.\<close>

definition init_flags :: "u64 \<Rightarrow> memory \<Rightarrow> memory" where
  "init_flags ctx m =
    (let m = mstore 2 m (ctx + of_nat overflow_operation_offset) (ucast Entry_overflow_clear * 4);
       m = mstore 2 m (ctx + of_nat carry_operation_offset) (ucast Entry_carry_clear * 4);
       m = mstore 8 m (ctx + of_nat zero_value_offset) 1;
       m = mstore 1 m (ctx + of_nat sign_size_offset) 0;
       m = mstore 1 m (ctx + of_nat parity_value_offset) 1;
       m = mstore 8 m (ctx + of_nat carry_ptr_offset) 0
     in mstore 8 m (ctx + of_nat overflow_ptr_offset) 0)"

section \<open>The stack of the guest\<close>

definition AT_NULL :: u64 where "AT_NULL = 0"
definition AT_PHDR :: u64 where "AT_PHDR = 3"
definition AT_ENTRY :: u64 where "AT_ENTRY = 9"

text \<open>
  The addresses after the null pointer that ends the environment, and after the entry that ends the
  auxiliary vectors. Where there is no end the loops do not end either.
\<close>

partial_function (option) after_environment :: "memory \<Rightarrow> u64 \<Rightarrow> u64 option" where
  "after_environment m p = (if mload 8 m p = 0 then Some (p + 8) else after_environment m (p + 8))"

partial_function (option) after_vectors :: "memory \<Rightarrow> u64 \<Rightarrow> u64 option" where
  "after_vectors m p = (if mload 8 m p = AT_NULL then Some (p + 16) else after_vectors m (p + 16))"

primrec write_words :: "u64 list \<Rightarrow> u64 \<Rightarrow> memory \<Rightarrow> memory" where
  "write_words [] p m = m"
| "write_words (w # ws) p m = write_words ws (p + 8) (mstore 8 m p w)"

text \<open>The entries that describe the translator are replaced by those that describe the guest.\<close>

definition replaced_value :: "Elf \<Rightarrow> u64 \<Rightarrow> u64 \<Rightarrow> u64 \<Rightarrow> u64" where
  "replaced_value elf phoff type v =
    (if type = AT_PHDR then elf_base elf + phoff
     else if type = AT_ENTRY then elf_entry_point elf
     else v)"

partial_function (option) replace_vectors :: "Elf \<Rightarrow> memory \<Rightarrow> u64 \<Rightarrow> memory option" where
  "replace_vectors elf m p =
    (if mload 8 m p = AT_NULL then Some m
     else
       let type = mload 8 m p; phoff = read64 m (elf_base elf + 32) in
       replace_vectors elf
         (if type = AT_PHDR \<or> type = AT_ENTRY
          then mstore 8 m (p + 8) (replaced_value elf phoff type (mload 8 m (p + 8))) else m)
         (p + 16))"

text \<open>
  The size of what is written on the stack as the source computes it: the auxiliary vectors, the
  environment, one pointer with those of the arguments, and the number of arguments.
\<close>

definition needed_size :: "u64 \<Rightarrow> u64 \<Rightarrow> u64 \<Rightarrow> u64" where
  "needed_size auxv_size env_count arguments = auxv_size + env_count * 8 + 8 + arguments * 8 + 8"

definition init_stack :: "Elf \<Rightarrow> StoredArguments \<Rightarrow> host_addresses \<Rightarrow> memory \<Rightarrow> (u64 \<times> memory) option" where
  "init_stack elf args ha m =
     Option.bind (after_environment m (ha_envp ha)) (\<lambda>auxvs.
     Option.bind (after_vectors m auxvs) (\<lambda>past.
       let env_count = drop_bit 3 (auxvs - ha_envp ha);
         auxv_size = drop_bit 4 (past - auxvs) * 16 - 8;
         arguments = of_nat (length (ha_arguments ha));
         min_stack_size = page_align (needed_size auxv_size env_count arguments);
         rsp = ha_stack ha + page_align (stack_size args) - min_stack_size;
         words = (arguments + 1) # ha_path ha # ha_arguments ha @ [0];
         m = write_words words rsp m;
         p = rsp + 8 * of_nat (length words);
         m = memcpy p (ha_envp ha) (env_count * 8) m;
         p = p + env_count * 8;
         m = memcpy p auxvs auxv_size m
       in Option.bind (replace_vectors elf m p) (\<lambda>m. Some (rsp, m))))"

text \<open>
  \<open>ctx\<close> is the context as it is constructed, whose registers are 0 and whose other members are not
  initialised; its memory is that of the process.
\<close>

definition init_guest_context ::
  "Elf \<Rightarrow> StoredArguments \<Rightarrow> host_addresses \<Rightarrow> ExecutionContext \<Rightarrow> ExecutionContext option" where
  "init_guest_context elf args ha ctx =
     Option.bind (init_stack elf args ha (ctx_mem ctx)) (\<lambda>(rsp, m).
       let end_of_image = elf_base elf + elf_size elf in
       Some (ctx\<lparr>ctx_guest := (\<lambda>r. 0)(guest_rdx := 0, guest_call_table := ha_call_table ha,
           guest_return_stack := ha_return_stack ha, guest_jump_table := ha_jump_table ha,
           guest_tlb := ha_tlb ha, guest_context := ha_context ha, guest_rsp := rsp, guest_rbp := 0),
         initial_break := end_of_image, last_break_page := end_of_image, program_break := end_of_image,
         ctx_mem := m\<rparr>))"

text \<open>The context that \<^verbatim>\<open>run\<close> enters the guest with.\<close>

definition start_context ::
  "Elf \<Rightarrow> StoredArguments \<Rightarrow> host_addresses \<Rightarrow> ExecutionContext \<Rightarrow> ExecutionContext option" where
  "start_context elf args ha ctx =
     map_option (\<lambda>ctx. ctx\<lparr>ctx_mem := init_flags (ha_context ha) (ctx_mem ctx)\<rparr>) (init_guest_context elf args ha ctx)"

section \<open>Switching contexts\<close>

text \<open>
  The macros that store the registers of the guest in the context and load them again. The temporaries
  are not among them, and the variant for the table leaves \<open>s2\<close> and \<open>s4\<close> to its caller.
\<close>

definition tlb_slots :: "(RiscVRegister \<times> u64) list" where
  "tlb_slots =
    [(ra, 0x00), (sp, 0x08), (s0, 0x38), (s1, 0x40), (a0, 0x48), (a1, 0x50), (a2, 0x58), (a3, 0x60), (a4, 0x68),
     (a5, 0x70), (a6, 0x78), (a7, 0x80), (s3, 0x90), (s5, 0xA0), (s6, 0xA8), (s7, 0xB0), (s8, 0xB8), (s9, 0xC0),
     (s10, 0xC8), (s11, 0xD0)]"

definition capture_context_tlb :: "RiscVRegister \<Rightarrow> rv_instr list" where
  "capture_context_tlb reg = map (\<lambda>(r, off). Store 8 reg r off) tlb_slots"

definition capture_context :: "RiscVRegister \<Rightarrow> rv_instr list" where
  "capture_context reg = capture_context_tlb reg @ [Store 8 reg s2 0x88, Store 8 reg s4 0x98]"

definition restore_slots :: "(RiscVRegister \<times> u64) list" where
  "restore_slots =
    [(ra, 0x00), (sp, 0x08), (s0, 0x38), (s1, 0x40), (a0, 0x48), (a1, 0x50), (a2, 0x58), (a3, 0x60), (a4, 0x68),
     (a5, 0x70), (a6, 0x78), (a7, 0x80), (s2, 0x88), (s3, 0x90), (s4, 0x98), (s5, 0xA0), (s6, 0xA8), (s7, 0xB0),
     (s8, 0xB8), (s9, 0xC0), (s10, 0xC8), (s11, 0xD0)]"

definition restore_context :: "RiscVRegister \<Rightarrow> rv_instr list" where
  "restore_context reg = map (\<lambda>(r, off). Load 8 False r reg off) restore_slots"

section \<open>The lookup table\<close>

text \<open>
  \<^verbatim>\<open>compute_tlb_address\<close>: from the guest address in \<open>t3\<close>, the address of its entry in \<open>s4\<close>; on a hit
  the translated address in \<open>s2\<close>. \<^verbatim>\<open>update_tlb_entry\<close> stores the guest address in \<open>s2\<close> with the translated
  one in \<open>a0\<close>.
\<close>

definition tlb_size :: nat where "tlb_size = 0x80"

definition tlb_entry_code :: "rv_instr list" where
  "tlb_entry_code =
    [OpImm aSRL t0 t3 11,
     Op aXOR t0 t0 t3,
     OpImm aAND t0 t0 0x7f0,
     Op aADD s4 t0 s9,
     Load 8 False t0 s4 0]"

definition compute_tlb_address :: "rv_state \<Rightarrow> (bool \<times> rv_state) option" where
  "compute_tlb_address s = Option.bind (rv_seqs tlb_entry_code s) (\<lambda>s.
     if rget t0 s \<noteq> rget t3 s then Some (False, s)
     else map_option (Pair True) (rv_seq (Load 8 False s2 s4 8) s))"

definition update_tlb_entry :: "rv_instr list" where
  "update_tlb_entry = [Store 8 s4 s2 0, Store 8 s4 a0 8]"

section \<open>Branches\<close>

text \<open>
  What \<open>reroute_dynamic\<close> does with a branch target: on a hit the table's address is taken, otherwise
  the target is translated and recorded. The table is part of the memory \<open>m\<close> at \<open>table\<close>.
\<close>

definition tlb_offset :: "u64 \<Rightarrow> u64" where
  "tlb_offset a = (drop_bit 11 a XOR a) AND 0x7f0"

definition tlb_lookup :: "u64 \<Rightarrow> memory \<Rightarrow> u64 \<Rightarrow> u64 option" where
  "tlb_lookup table m a = (let e = table + tlb_offset a in
     if mload 8 m e = a then Some (mload 8 m (e + 8)) else None)"

definition tlb_insert :: "u64 \<Rightarrow> u64 \<Rightarrow> u64 \<Rightarrow> memory \<Rightarrow> memory" where
  "tlb_insert table a v m = (let e = table + tlb_offset a in mstore 8 (mstore 8 m e a) (e + 8) v)"

definition reroute ::
  "environment \<Rightarrow> u64 \<Rightarrow> u64 \<Rightarrow> memory \<times> CodeGenerator \<Rightarrow> (fault + (u64 \<times> memory \<times> CodeGenerator)) option" where
  "reroute env table a = (\<lambda>(m, cg).
    (case tlb_lookup table m a of
       Some v \<Rightarrow> Some (Inr (v, m, cg))
     | None \<Rightarrow> map_option (\<lambda>r. case r of
           Inl e \<Rightarrow> Inl e
         | Inr (v, cg) \<Rightarrow> Inr (v, tlb_insert table a v m, cg)) (translate env a cg)))"

section \<open>System calls\<close>

text \<open>
  \<^verbatim>\<open>syscall_handler\<close>: a number in the table whose entry is below the threshold is forwarded, with the
  arguments in the registers they are in, and its result becomes \<^verbatim>\<open>rax\<close>, which is \<open>a7\<close>; \<open>a0\<close>, which is
  \<^verbatim>\<open>rdi\<close>, is restored. Everything else is emulated. \<open>forward\<close> is the system: from the number of the
  call and the guest's registers, the result and the effect on memory.
\<close>

definition syscall_map_size :: nat where "syscall_map_size = 322"
definition syscall_map_threshold :: u64 where "syscall_map_threshold = 0x1000"

type_synonym system = "u64 \<Rightarrow> (RiscVRegister \<Rightarrow> u64) \<Rightarrow> memory \<Rightarrow> u64 \<times> memory"

definition syscall_handler ::
  "(EmulationFn \<Rightarrow> u64) \<Rightarrow> (string \<Rightarrow> int) \<Rightarrow> system \<Rightarrow> kernel \<Rightarrow> ExecutionContext \<Rightarrow> outcome" where
  "syscall_handler fn SYS forward k ctx =
    (let index = get_guest guest_rax ctx;
       entry = riscv_index fn (syscall_map SYS ! unat index)
     in
     if index \<ge> of_nat syscall_map_size \<or> entry \<ge> syscall_map_threshold then emulate_syscall fn SYS k ctx
     else
       case forward entry (ctx_guest ctx) (ctx_mem ctx) of
         (r, m) \<Rightarrow> Returns (set_guest guest_rax r (ctx\<lparr>ctx_mem := m\<rparr>)))"

end
