(* ===== verification/DispatcherCode.thy ===== *)
theory DispatcherCode
  imports Dispatcher
begin

text \<open>
  The routines of \<^verbatim>\<open>dispatcher.inc.s\<close> as the sequences of instructions they are: the way into the guest and
  out of it, and the three ways in which translated code reaches the translation of its next target. The
  functions of the translator they call are arguments, from the state of the host at the call to the one at
  the return, with no use of the link register that the call sets; \<open>None\<close> does not return. Each routine ends
  with a jump, and its result is the state at the jump.
\<close>

type_synonym callee = "rv_state \<Rightarrow> rv_state option"

definition move :: "RiscVRegister \<Rightarrow> RiscVRegister \<Rightarrow> rv_instr" where
  "move rd rs = OpImm aADD rd rs 0"

definition host_offset :: u64 where "host_offset = 0x0F8"
definition guest_offset :: u64 where "guest_offset = 0"
definition codegen_offset :: u64 where "codegen_offset = 0x1F0"
definition guest_s2_offset :: u64 where "guest_s2_offset = 0x88"
definition guest_s4_offset :: u64 where "guest_s4_offset = 0x98"
definition red_zone :: u64 where "red_zone = - 128"

lemmas offset_defs = host_offset_def guest_offset_def codegen_offset_def guest_s2_offset_def guest_s4_offset_def
  red_zone_def

section \<open>Calls\<close>

text \<open>The call of the logger with the address of its format, and of a method of the code generator.\<close>

definition log_address :: "callee \<Rightarrow> u64 \<Rightarrow> rv_instr \<Rightarrow> callee" where
  "log_address logger fmt arg s = Option.bind (rv_seqs [arg] (rset a0 fmt s)) logger"

definition call_codegen :: "callee \<Rightarrow> rv_instr list \<Rightarrow> callee" where
  "call_codegen f args s = Option.bind (rv_seqs (Load 8 False a0 s11 codegen_offset # args) s) f"

section \<open>Branches\<close>

definition reroute_static :: "callee \<Rightarrow> u64 \<Rightarrow> callee \<Rightarrow> callee \<Rightarrow> callee" where
  "reroute_static logger fmt translate_fn update_fn s =
     Option.bind (rv_seqs (capture_context s11 @ [move s1 ra, OpImm aADD sp sp red_zone]) s) (\<lambda>s.
     Option.bind (compute_tlb_address s) (\<lambda>(hit, s).
     Option.bind
       (if hit then Some s
        else Option.bind (rv_seqs [move s2 t3] s) (\<lambda>s.
          Option.bind (log_address logger fmt (move a1 s2) s) (\<lambda>s.
          Option.bind (call_codegen translate_fn [move a1 s2] s)
            (rv_seqs (update_tlb_entry @ [move s2 a0])))))
       (\<lambda>s. Option.bind (call_codegen update_fn [move a1 s1, move a2 s2] s)
         (rv_seqs (move t3 s2 # restore_context s11)))))"

definition reroute_dynamic :: "callee \<Rightarrow> u64 \<Rightarrow> callee \<Rightarrow> callee" where
  "reroute_dynamic logger fmt translate_fn s =
     Option.bind (rv_seqs [Store 8 s11 s2 guest_s2_offset, Store 8 s11 s4 guest_s4_offset] s) (\<lambda>s.
     Option.bind (compute_tlb_address s) (\<lambda>(hit, s).
       if hit then
         rv_seqs [move t3 s2, Load 8 False s2 s11 guest_s2_offset, Load 8 False s4 s11 guest_s4_offset] s
       else
         Option.bind (rv_seqs (capture_context_tlb s11 @ [OpImm aADD sp sp red_zone, move s2 t3]) s) (\<lambda>s.
         Option.bind (log_address logger fmt (move a1 s2) s) (\<lambda>s.
         Option.bind (call_codegen translate_fn [move a1 s2] s)
           (rv_seqs (update_tlb_entry @ move t3 a0 # restore_context s11))))))"

text \<open>
  \<open>t1\<close> points to the call entry, which begins with the guest address to return to. On a hit the entry is
  read, with \<^verbatim>\<open>ld\<close>, where the other branch writes the translated address into it.
\<close>

definition reroute_return :: "callee \<Rightarrow> u64 \<Rightarrow> callee \<Rightarrow> callee" where
  "reroute_return logger fmt translate_fn s =
     Option.bind (rv_seqs [Store 8 s11 s2 guest_s2_offset, Store 8 s11 s4 guest_s4_offset, Load 8 False t3 t1 0] s) (\<lambda>s.
     Option.bind (compute_tlb_address s) (\<lambda>(hit, s).
       if hit then
         rv_seqs [move t3 s2, Load 8 False s2 t1 8, Load 8 False s2 s11 guest_s2_offset,
           Load 8 False s4 s11 guest_s4_offset] s
       else
         Option.bind (rv_seqs (capture_context_tlb s11 @ [OpImm aADD sp sp red_zone, move s2 t1]) s) (\<lambda>s.
         Option.bind (log_address logger fmt (Load 8 False a1 s2 0) s) (\<lambda>s.
         Option.bind (call_codegen translate_fn [Load 8 False a1 s2 0] s)
           (rv_seqs ([Store 8 s2 a0 8, Load 8 False s2 s2 0] @ update_tlb_entry @ move t3 a0 # restore_context s11))))))"

section \<open>Entering and leaving the guest\<close>

text \<open>
  \<open>a0\<close> is the context, \<open>a1\<close> the address of the guest, \<open>a2\<close> where the pointer to an error goes. The host's
  registers are kept in the second part of the context. The branch to \<open>reroute_dynamic\<close> is a call, which leaves
  the address after it, \<open>here\<close>, in \<open>ra\<close>.
\<close>

definition enter_code :: "rv_instr list" where
  "enter_code =
     [move t0 a0, move t3 a1, OpImm aADD a0 a0 host_offset, OpImm aADD t0 t0 guest_offset] @ capture_context a0"

definition guest_enter :: "callee \<Rightarrow> u64 \<Rightarrow> u64 \<Rightarrow> callee \<Rightarrow> callee" where
  "guest_enter logger fmt here translate_fn s =
     Option.bind (rv_seqs (enter_code @ restore_context t0) s)
       (\<lambda>s. reroute_dynamic logger fmt translate_fn (rset ra here s))"

definition guest_exit :: "rv_instr list" where
  "guest_exit =
     [move t1 a0, OpImm aADD t0 s11 host_offset] @ restore_context t0 @
     [Op aXOR t2 t2 t2, Store 8 a2 t2 0, move a0 t1]"

definition guest_fault :: "rv_instr list" where
  "guest_fault =
     [move t1 a0, move t2 a1, OpImm aADD t0 s11 host_offset] @ restore_context t0 @
     [Store 8 a2 t1 0, move a0 t2]"

section \<open>The run\<close>

text \<open>
  What \<^verbatim>\<open>run\<close> does when the guest has ended: the regions it unmaps, and the error or the exit code.
  \<open>text\<close> reads the string at an address.
\<close>

definition run_end ::
  "(u64 \<Rightarrow> string) \<Rightarrow> StoredArguments \<Rightarrow> host_addresses \<Rightarrow> u64 \<Rightarrow> u64 \<Rightarrow> (u64 \<times> u64) list \<times> (string + u64)" where
  "run_end text args ha error exit_code =
     ([(ha_return_stack ha, 0x1000), (ha_tlb ha, of_nat tlb_size * 8 * 2), (ha_stack ha, stack_size args)],
      if error \<noteq> 0 then Inl (text error) else Inr exit_code)"

end
