(* ===== verification/DispatcherRules.thy ===== *)
theory DispatcherRules
  imports Dispatcher SyscallRules X86Machine
begin

text \<open>
  The contracts of the dispatcher: the flags and the stack that a guest starts with, the lookup table as a
  cache of the translation, and the dispatch of system calls.
\<close>

section \<open>The initial flags\<close>

text \<open>The host state that \<^verbatim>\<open>guest_enter\<close> restores from a context.\<close>

definition guest_state :: "ExecutionContext \<Rightarrow> rv_state" where
  "guest_state ctx = \<lparr>rv_regs = ctx_guest ctx, rv_mem = ctx_mem ctx\<rparr>"

definition clear_flags :: x86_flags where
  "clear_flags = \<lparr>fl_carry = False, fl_zero = False, fl_sign = False, fl_overflow = False, fl_parity = False\<rparr>"

lemma init_flags_store:
  assumes "rget s11 s = ctx"
  shows "s\<lparr>rv_mem := init_flags ctx (rv_mem s)\<rparr> =
    store 8 (ctx + 0x230) 0 (store 8 (ctx + 0x238) 0 (store 1 (ctx + 0x245) 1 (store 1 (ctx + 0x244) 0
      (store 8 (ctx + 0x200) 1 (store 2 (ctx + 0x242) (ucast Entry_carry_clear * 4)
        (store 2 (ctx + 0x240) (ucast Entry_overflow_clear * 4) s))))))"
  using assms by (simp add: init_flags_def Let_def store_def flag_offsets)

lemma init_flags_clear:
  assumes "rget s11 s = ctx" "rv_mem s = init_flags ctx m"
  shows "has_flags (flags_all AND NOT flags_sign) clear_flags s"
proof -
  define s0 where "s0 = s\<lparr>rv_mem := m\<rparr>"
  have s: "s = store 8 (ctx + 0x230) 0 (store 8 (ctx + 0x238) 0 (store 1 (ctx + 0x245) 1 (store 1 (ctx + 0x244) 0
      (store 8 (ctx + 0x200) 1 (store 2 (ctx + 0x242) (ucast Entry_carry_clear * 4)
        (store 2 (ctx + 0x240) (ucast Entry_overflow_clear * 4) s0))))))"
  proof -
    have "s0\<lparr>rv_mem := init_flags ctx (rv_mem s0)\<rparr> = s"
      using assms(2) by (simp add: s0_def flip: assms(2))
    then show ?thesis
      using init_flags_store [of s0 ctx] assms(1) by (simp add: s0_def rget_def)
  qed
  have r: "rget s11 s0 = ctx"
    using assms(1) by (simp add: s0_def rget_def)
  have "flag_word 2 carry_operation_offset s = entry_word Entry_carry_clear"
    "flag_word 2 overflow_operation_offset s = entry_word Entry_overflow_clear"
    "flag_word 8 zero_value_offset s = 1" "flag_word 1 parity_value_offset s = 1"
    using r unfolding flag_word_def assms(1) by (simp_all add: s flag_offsets load_store_same load_store_apart_numeral
        Entry_defs entry_word_def)
  then have "records_carry False s" "records_overflow False s" "\<not> zero_flag s" "\<not> parity_flag s"
    using constant_flags by (simp_all add: zero_flag_def parity_flag_def lessThan_Suc eval_nat_numeral)
  then show ?thesis
    by (simp add: has_flags_def clear_flags_def flags_defs)
qed

section \<open>The initial stack\<close>

primrec words_at :: "memory \<Rightarrow> u64 \<Rightarrow> u64 list \<Rightarrow> bool" where
  "words_at m p [] \<longleftrightarrow> True"
| "words_at m p (w # ws) \<longleftrightarrow> mload 8 m p = w \<and> words_at m (p + 8) ws"

text \<open>\<open>changes p n m m'\<close>: only the \<open>n\<close> bytes from \<open>p\<close> on differ.\<close>

definition changes :: "u64 \<Rightarrow> nat \<Rightarrow> memory \<Rightarrow> memory \<Rightarrow> bool" where
  "changes p n m m' \<longleftrightarrow> (\<forall>a. n \<le> unat (a - p) \<longrightarrow> m' a = m a)"

text \<open>No byte of the \<open>k\<close> ones from \<open>q\<close> on is among the \<open>n\<close> bytes from \<open>p\<close> on.\<close>

definition outside :: "u64 \<Rightarrow> nat \<Rightarrow> u64 \<Rightarrow> nat \<Rightarrow> bool" where
  "outside p n q k \<longleftrightarrow> (\<forall>i<k. n \<le> unat (q + of_nat i - p))"

lemma words_at_append:
  "words_at m p (xs @ ys) \<longleftrightarrow> words_at m p xs \<and> words_at m (p + 8 * of_nat (length xs)) ys"
  by (induction xs arbitrary: p) (simp_all add: algebra_simps)

lemma changes_refl [simp]: "changes p n m m"
  by (simp add: changes_def)

lemma changes_trans: "changes p n m m' \<Longrightarrow> changes p n m' m'' \<Longrightarrow> changes p n m m''"
  by (simp add: changes_def)

lemma unat_offset:
  fixes a p :: u64
  assumes "k + n \<le> 2 ^ 64" "k + n \<le> unat (a - p)"
  shows "n \<le> unat (a - (p + of_nat k))"
proof (cases "n = 0")
  case False
  then have k: "unat (of_nat k :: u64) = k"
    using assms(1) by (intro unat_of_nat_small) simp
  then have "unat (a - p - of_nat k) = unat (a - p) - k"
    using assms(2) by (simp add: unat_sub word_le_nat_alt)
  then show ?thesis
    using assms(2) by (simp add: diff_diff_eq)
qed simp

lemma changes_mono:
  assumes "changes (p + of_nat k) n m m'" "k + n \<le> l" "l \<le> 2 ^ 64"
  shows "changes p l m m'"
  using assms unat_offset [of k n] by (simp add: changes_def)

lemma mload_changes:
  assumes "changes p n m m'" "outside p n q k"
  shows "mload k m' q = mload k m q"
  using assms by (intro mload_cong) (simp add: changes_def outside_def)

lemma outside_mono:
  assumes "outside p n q k" "j + l \<le> k"
  shows "outside p n (q + of_nat j) l"
  unfolding outside_def
proof (intro allI impI)
  fix i assume "i < l"
  then have "n \<le> unat (q + of_nat (j + i) - p)"
    using assms by (simp add: outside_def del: of_nat_add)
  then show "n \<le> unat (q + of_nat j + of_nat i - p)"
    by (simp add: add.assoc)
qed

lemma words_at_changes:
  assumes "changes p n m m'" "outside p n q (8 * length ws)"
  shows "words_at m' q ws = words_at m q ws"
  using assms(2)
proof (induction ws arbitrary: q)
  case (Cons w ws)
  then have "outside p n q 8" "outside p n (q + 8) (8 * length ws)"
    using outside_mono [of p n q "8 * length (w # ws)" 0 8] outside_mono [of p n q "8 * length (w # ws)" 8] by simp_all
  then show ?case
    using Cons.IH mload_changes [OF assms(1)] by simp
qed simp

text \<open>What is below a place is not above it.\<close>

lemma outside_below:
  assumes "k + n \<le> 2 ^ 64"
  shows "outside (p + of_nat k) n p k"
  unfolding outside_def
proof (intro allI impI)
  fix i assume i: "i < k"
  show "n \<le> unat (p + of_nat i - (p + of_nat k))"
  proof (cases "n = 0")
    case False
    have "(of_nat i - of_nat k :: u64) = of_nat (2 ^ 64 - (k - i))"
      using i assms by (simp add: of_nat_diff)
    then have "unat (of_nat i - of_nat k :: u64) = 2 ^ 64 - (k - i)"
      using i assms unat_of_nat_small [of "2 ^ 64 - (k - i)"] by (simp del: of_nat_diff)
    then show ?thesis
      using assms i by simp
  qed simp
qed

lemma outside_above:
  assumes "n \<le> j" "j + k \<le> 2 ^ 64"
  shows "outside p n (p + of_nat j) k"
  unfolding outside_def
proof (intro allI impI)
  fix i assume "i < k"
  then have "unat (of_nat (j + i) :: u64) = j + i"
    using assms by (intro unat_of_nat_small) simp
  then show "n \<le> unat (p + of_nat j + of_nat i - p)"
    using assms(1) by simp
qed

lemma outside_part:
  assumes "outside p l q k" "j + n \<le> l" "l \<le> 2 ^ 64"
  shows "outside (p + of_nat j) n q k"
  unfolding outside_def
proof (intro allI impI)
  fix i assume "i < k"
  then have "j + n \<le> unat (q + of_nat i - p)"
    using assms(1,2) by (auto simp: outside_def intro: order_trans)
  then show "n \<le> unat (q + of_nat i - (p + of_nat j))"
    using assms(2,3) by (intro unat_offset) simp_all
qed

lemma mstore_changes: "changes p n m (mstore n m p v)"
  by (simp add: changes_def mstore_apply)

lemma write_words_correct:
  assumes "8 * length ws \<le> 2 ^ 64"
  shows "changes p (8 * length ws) m (write_words ws p m) \<and> words_at (write_words ws p m) p ws"
  using assms
proof (induction ws arbitrary: p m)
  case (Cons w ws)
  let ?m = "mstore 8 m p w"
  have IH: "changes (p + 8) (8 * length ws) ?m (write_words ws (p + 8) ?m)"
    "words_at (write_words ws (p + 8) ?m) (p + 8) ws"
    using Cons.IH [of "p + 8" ?m] Cons.prems by simp_all
  have "mload 8 (write_words ws (p + 8) ?m) p = mload 8 ?m p"
    using mload_changes [OF IH(1), of p 8] outside_below [of 8 "8 * length ws" p] Cons.prems by simp
  then show ?case
    using IH changes_mono [of p 8 "8 * length ws" ?m _ "8 * length (w # ws)"] Cons.prems
      changes_mono [of p 0 8 m ?m "8 * length (w # ws)"] mstore_changes [of p 8 m w]
    by (auto simp: mem_simps intro: changes_trans)
qed simp

lemma memcpy_changes: "changes p (unat n) m (memcpy p src n m)"
  by (auto simp: changes_def memcpy_def word_less_nat_alt)

lemma mload_bytes:
  "(\<And>i. i < n \<Longrightarrow> m' (p + of_nat i) = m (q + of_nat i)) \<Longrightarrow> mload n m' p = mload n m q"
proof (induction n arbitrary: p q)
  case (Suc n)
  have "m' (p + 1 + of_nat i) = m (q + 1 + of_nat i)" if "i < n" for i
    using Suc.prems [of "Suc i"] that by (simp add: algebra_simps)
  then show ?case
    using Suc.IH [of "p + 1" "q + 1"] Suc.prems [of 0] by simp
qed simp

lemma words_at_bytes:
  "(\<And>i. i < 8 * length ws \<Longrightarrow> m' (p + of_nat i) = m (q + of_nat i)) \<Longrightarrow> words_at m' p ws = words_at m q ws"
proof (induction ws arbitrary: p q)
  case (Cons w ws)
  have "m' (p + 8 + of_nat i) = m (q + 8 + of_nat i)" if "i < 8 * length ws" for i
    using Cons.prems [of "8 + i"] that by (simp add: algebra_simps)
  then show ?case
    using Cons.IH [of "p + 8" "q + 8"] mload_bytes [of 8 m' p m q] Cons.prems by simp
qed simp

lemma memcpy_words:
  assumes "words_at m src ws" "8 * length ws \<le> unat n"
  shows "words_at (memcpy p src n m) p ws"
proof -
  have less: "unat n < 2 ^ 64"
    using unsigned_less [of n] by simp
  have "memcpy p src n m (p + of_nat i) = m (src + of_nat i)" if "i < 8 * length ws" for i
  proof -
    have "unat (of_nat i :: u64) = i"
      using that assms(2) less by (intro unat_of_nat_small) simp
    then show ?thesis
      using that assms(2) by (simp add: memcpy_def word_less_nat_alt)
  qed
  then show ?thesis
    using words_at_bytes [of ws "memcpy p src n m" p m src] assms(1) by simp
qed

section \<open>Reading the environment\<close>

lemma after_environment_words:
  assumes "words_at m p (env @ [0])" "0 \<notin> set env"
  shows "after_environment m p = Some (p + 8 * of_nat (length env + 1))"
  using assms
proof (induction env arbitrary: p)
  case Nil
  then show ?case by (simp add: after_environment.simps)
next
  case (Cons w env)
  then show ?case
    by (subst after_environment.simps) (simp add: algebra_simps)
qed

definition vector_words :: "(u64 \<times> u64) list \<Rightarrow> u64 list" where
  "vector_words aux = concat (map (\<lambda>(type, v). [type, v]) aux)"

lemma vector_words_simps [simp]:
  "vector_words [] = []" "vector_words (e # aux) = fst e # snd e # vector_words aux"
  "length (vector_words aux) = 2 * length aux"
  by (simp_all add: vector_words_def split_beta)
    (induction aux; simp add: split_beta)

lemma after_vectors_words:
  assumes "words_at m p (vector_words aux @ [0])" "0 \<notin> fst ` set aux"
  shows "after_vectors m p = Some (p + 16 * of_nat (length aux + 1))"
  using assms
proof (induction aux arbitrary: p)
  case Nil
  then show ?case by (simp add: after_vectors.simps AT_NULL_def)
next
  case (Cons e aux)
  then show ?case
    by (subst after_vectors.simps) (auto simp: AT_NULL_def algebra_simps)
qed

definition replaced :: "Elf \<Rightarrow> u64 \<Rightarrow> u64 \<times> u64 \<Rightarrow> u64 \<times> u64" where
  "replaced elf phoff e = (fst e, replaced_value elf phoff (fst e) (snd e))"

lemma replaced_simps [simp]:
  "fst (replaced elf phoff e) = fst e"
  "snd (replaced elf phoff e) = replaced_value elf phoff (fst e) (snd e)"
  by (simp_all add: replaced_def)

lemma replace_vectors_words:
  assumes "words_at m p (vector_words aux @ [0])" "0 \<notin> fst ` set aux" "16 * length aux + 8 \<le> 2 ^ 64"
    and "outside p (16 * length aux + 8) (elf_base elf + 32) 8"
  shows "\<exists>m'. replace_vectors elf m p = Some m' \<and> changes p (16 * length aux + 8) m m' \<and>
    words_at m' p (vector_words (map (replaced elf (read64 m (elf_base elf + 32))) aux) @ [0])"
  using assms
proof (induction aux arbitrary: p m)
  case Nil
  then show ?case
    by (subst replace_vectors.simps) (simp add: AT_NULL_def)
next
  case (Cons e aux)
  let ?phoff = "read64 m (elf_base elf + 32)" and ?n = "16 * length aux + 8"
  let ?m = "if fst e = AT_PHDR \<or> fst e = AT_ENTRY then mstore 8 m (p + 8) (replaced_value elf ?phoff (fst e) (snd e)) else m"
  have e: "mload 8 m p = fst e" "mload 8 m (p + 8) = snd e" "fst e \<noteq> AT_NULL"
    "words_at m (p + 16) (vector_words aux @ [0])"
    using Cons.prems by (auto simp: AT_NULL_def algebra_simps)
  have step: "replace_vectors elf m p = replace_vectors elf ?m (p + 16)"
    by (subst replace_vectors.simps) (simp add: e Let_def)
  have ch: "changes (p + of_nat 8) 8 m ?m"
    using mstore_changes [of "p + 8" 8 m] by simp
  have "outside (p + 8) 8 (p + 16) (8 * length (vector_words aux @ [0]))"
    using outside_above [of 8 8 "8 * length (vector_words aux @ [0])" "p + 8"] Cons.prems(3) by (simp add: algebra_simps)
  then have w: "words_at ?m (p + 16) (vector_words aux @ [0])"
    using words_at_changes [of "p + 8" 8 m ?m] ch e(4) by simp
  have elf: "read64 ?m (elf_base elf + 32) = ?phoff" "outside (p + 16) ?n (elf_base elf + 32) 8"
    using outside_part [OF Cons.prems(4), of 8 8] outside_part [OF Cons.prems(4), of 16 ?n] Cons.prems(3)
      mload_changes [OF ch, of "elf_base elf + 32" 8] by (simp_all add: read64_def)
  obtain m' where m': "replace_vectors elf ?m (p + 16) = Some m'" "changes (p + of_nat 16) ?n ?m m'"
    "words_at m' (p + 16) (vector_words (map (replaced elf ?phoff) aux) @ [0])"
    using Cons.IH [OF w _ _ elf(2)] Cons.prems(2,3) unfolding elf(1) by auto
  have "changes p (16 * length (e # aux) + 8) m m'"
    using changes_trans [OF changes_mono [OF ch] changes_mono [OF m'(2)], of "16 * length (e # aux) + 8"] Cons.prems(3)
    by simp
  moreover have below: "outside (p + of_nat 16) ?n p 16" "outside (p + of_nat 8) 8 p 8"
    using outside_below [of 16 ?n p] outside_below [of 8 8 p] Cons.prems(3) by simp_all
  have "mload 8 m' p = fst e"
    using mload_changes [OF m'(2)] mload_changes [OF ch below(2)] outside_mono [OF below(1), of 0 8] e(1) by simp
  moreover have "mload 8 m' (p + 8) = replaced_value elf ?phoff (fst e) (snd e)"
    using mload_changes [OF m'(2)] outside_mono [OF below(1), of 8 8] e(2)
    by (simp add: mem_simps replaced_value_def)
  ultimately show ?case
    using step m'(1,3) by (simp add: algebra_simps)
qed

section \<open>The stack that a guest starts with\<close>

lemma drop_words:
  fixes a :: u64
  assumes "2 ^ n * k < 2 ^ 64"
  shows "drop_bit n (of_nat (2 ^ n * k) :: u64) = of_nat k"
proof (rule word_unat_eq_iff [THEN iffD2])
  have "k < 2 ^ 64"
    using assms by (rule le_less_trans [rotated]) simp
  then show "unat (drop_bit n (of_nat (2 ^ n * k) :: u64)) = unat (of_nat k :: u64)"
    using assms by (subst unat_drop_bit_eq) (simp add: drop_bit_eq_div unat_of_nat_small del: of_nat_mult)
qed

text \<open>The number of bytes that are written, and the pages that the source takes for them.\<close>

definition stack_words :: "host_addresses \<Rightarrow> u64 list \<Rightarrow> (u64 \<times> u64) list \<Rightarrow> u64 list" where
  "stack_words ha env aux =
    (of_nat (length (ha_arguments ha)) + 1) # ha_path ha # ha_arguments ha @ [0] @ env @ [0] @ vector_words aux @ [0]"

definition first_rsp :: "StoredArguments \<Rightarrow> host_addresses \<Rightarrow> u64 list \<Rightarrow> (u64 \<times> u64) list \<Rightarrow> u64" where
  "first_rsp args ha env aux = ha_stack ha + page_align (stack_size args)
     - page_align (8 * of_nat (length (stack_words ha env aux)) - 8)"

lemma length_stack_words: "length (stack_words ha env (map f aux)) = length (stack_words ha env aux)"
  by (simp add: stack_words_def)

lemma words_at_below:
  assumes "words_at m p ws" "changes (p + of_nat k) n m m'" "8 * length ws \<le> k" "k + n \<le> 2 ^ 64"
  shows "words_at m' p ws"
  using assms words_at_changes [OF assms(2), of p ws] outside_mono [OF outside_below [OF assms(4)], of 0 "8 * length ws" p]
  by simp

lemma init_stack_words:
  assumes host: "words_at m (ha_envp ha) (env @ [0] @ vector_words aux @ [0])" "0 \<notin> set env" "0 \<notin> fst ` set aux"
    and size: "8 * length (stack_words ha env aux) < 2 ^ 63"
    and apart: "outside (first_rsp args ha env aux) (8 * length (stack_words ha env aux)) (ha_envp ha)
          (8 * length (env @ [0] @ vector_words aux @ [0]))"
      "outside (first_rsp args ha env aux) (8 * length (stack_words ha env aux)) (elf_base elf + 32) 8"
  shows "\<exists>m'. init_stack elf args ha m = Some (first_rsp args ha env aux, m') \<and>
    changes (first_rsp args ha env aux) (8 * length (stack_words ha env aux)) m m' \<and>
    words_at m' (first_rsp args ha env aux)
      (stack_words ha env (map (replaced elf (read64 m (elf_base elf + 32))) aux))"
proof -
  define rsp where "rsp = first_rsp args ha env aux"
  define k1 k2 k3 where k: "k1 = 8 * (length (ha_arguments ha) + 3)" "k2 = 8 * (length env + 1)" "k3 = 16 * length aux + 8"
  define words where "words = (of_nat (length (ha_arguments ha)) + 1) # ha_path ha # ha_arguments ha @ [0]"
  define auxvs where "auxvs = ha_envp ha + of_nat k2"
  define p1 p2 where p: "p1 = rsp + of_nat k1" "p2 = rsp + of_nat (k1 + k2)"
  define m1 m2 m3 where m: "m1 = write_words words rsp m" "m2 = memcpy p1 (ha_envp ha) (of_nat k2) m1"
    "m3 = memcpy p2 auxvs (of_nat k3) m2"
  have len: "8 * length (stack_words ha env aux) = k1 + k2 + k3" "8 * length words = k1"
    "8 * length (env @ [0] @ vector_words aux @ [0]) = k2 + k3"
    by (simp_all add: stack_words_def k words_def)
  have small: "k1 + k2 + k3 < 2 ^ 63"
    using size len by simp
  have unat: "unat (of_nat k2 :: u64) = k2" "unat (of_nat k3 :: u64) = k3"
    using small by (simp_all add: unat_of_nat_small)
  note out = apart [unfolded len, folded rsp_def]
  have env: "words_at m (ha_envp ha) (env @ [0])" "words_at m auxvs (vector_words aux @ [0])"
    using host(1) words_at_append [of m "ha_envp ha" "env @ [0]" "vector_words aux @ [0]"]
    by (simp_all add: auxvs_def k add.commute)
  have ch1: "changes rsp k1 m m1" "words_at m1 rsp words"
    using write_words_correct [of words rsp m] small by (simp_all add: m len)
  have ch2: "changes p1 k2 m1 m2" and ch3: "changes p2 k3 m2 m3"
    using memcpy_changes [of p1 "of_nat k2" m1 "ha_envp ha"] memcpy_changes [of p2 "of_nat k3" m2 auxvs]
    by (simp_all add: m unat)
  have all2: "changes rsp (k1 + k2 + k3) m m2"
    using changes_trans [OF changes_mono [of rsp 0 k1 m m1] changes_mono [OF ch2 [unfolded p]]] ch1(1) small by simp
  have all1: "changes rsp (k1 + k2 + k3) m m1"
    using changes_mono [of rsp 0 k1 m m1] ch1(1) small by simp
  have all3: "changes rsp (k1 + k2 + k3) m m3"
    using changes_trans [OF all2 changes_mono [OF ch3 [unfolded p]]] small by simp
  have e1: "words_at m1 (ha_envp ha) (env @ [0])"
    using words_at_changes [OF all1, of "ha_envp ha" "env @ [0]"] outside_mono [OF out(1), of 0 k2] env(1) by (simp add: k)
  have e2: "words_at m2 p1 (env @ [0])"
    using memcpy_words [OF e1, of "of_nat k2" p1] unat by (simp add: m k)
  have a2: "words_at m2 auxvs (vector_words aux @ [0])"
    using words_at_changes [OF all2, of auxvs "vector_words aux @ [0]"] outside_mono [OF out(1), of k2 k3] env(2)
    by (simp add: k(3) auxvs_def add.commute)
  have a3: "words_at m3 p2 (vector_words aux @ [0])"
    using memcpy_words [OF a2, of "of_nat k3" p2] unat by (simp add: m k)
  have elf: "read64 m3 (elf_base elf + 32) = read64 m (elf_base elf + 32)" "outside p2 k3 (elf_base elf + 32) 8"
    using mload_changes [OF all3 out(2)] outside_part [OF out(2), of "k1 + k2" k3] small by (simp_all add: read64_def p)
  obtain m' where m': "replace_vectors elf m3 p2 = Some m'" "changes p2 k3 m3 m'"
    "words_at m' p2 (vector_words (map (replaced elf (read64 m (elf_base elf + 32))) aux) @ [0])"
    using replace_vectors_words [OF a3 host(3), of elf] elf small by (auto simp: k)
  have "changes rsp (k1 + k2 + k3) m m'"
    using changes_trans [OF all3 changes_mono [OF m'(2) [unfolded p]]] small by simp
  moreover have "words_at m' rsp words"
    using words_at_below [of m1 rsp words k1 k2 m2] words_at_below [of m2 rsp words "k1 + k2" k3 m3]
      words_at_below [of m3 rsp words "k1 + k2" k3 m'] ch1(2) ch2 ch3 m'(2) small
    by (simp add: p len)
  moreover have "words_at m' p1 (env @ [0])"
    using words_at_below [of m2 p1 "env @ [0]" k2 k3 m3] words_at_below [of m3 p1 "env @ [0]" k2 k3 m'] e2 ch3 m'(2) small
    by (simp add: p k add.assoc)
  ultimately have "changes rsp (k1 + k2 + k3) m m' \<and>
      words_at m' rsp (stack_words ha env (map (replaced elf (read64 m (elf_base elf + 32))) aux))"
    using m'(3) words_at_append [of m' rsp words] words_at_append [of m' p1 "env @ [0]"]
    by (simp add: stack_words_def words_def p k algebra_simps)
  moreover have "init_stack elf args ha m = Some (rsp, m')"
  proof -
    have ends: "after_environment m (ha_envp ha) = Some auxvs" "after_vectors m auxvs = Some (auxvs + 16 * of_nat (length aux + 1))"
      using after_environment_words [OF env(1) host(2)] after_vectors_words [OF env(2) host(3)]
      by (simp_all add: auxvs_def k)
    have count: "drop_bit 3 (auxvs - ha_envp ha) = of_nat (length env + 1)"
      "drop_bit 4 (auxvs + 16 * of_nat (length aux + 1) - auxvs) * 16 - 8 = of_nat k3"
      using drop_words [of 3 "length env + 1"] drop_words [of 4 "length aux + 1"] small
      by (simp_all add: auxvs_def k algebra_simps)
    have start: "ha_stack ha + page_align (stack_size args) - page_align (needed_size (of_nat k3) (of_nat (length env + 1))
        (of_nat (length (ha_arguments ha)))) = rsp"
      by (simp add: rsp_def first_rsp_def needed_size_def stack_words_def k algebra_simps)
    have places: "rsp + 8 * of_nat (length words) = p1" "p1 + of_nat k2 = p2"
      "of_nat (length env + 1) * 8 = (of_nat k2 :: u64)"
      by (simp_all add: p words_def k algebra_simps)
    show ?thesis
      unfolding init_stack_def ends bind.bind_lunit Let_def count start places [folded words_def]
      unfolding words_def [symmetric] places m [symmetric] m'(1)
      by simp
  qed
  ultimately show ?thesis
    unfolding len rsp_def [symmetric] by blast
qed

section \<open>The lookup table as a cache\<close>

text \<open>What a client relies on: a recorded value is found until the entry is replaced.\<close>

locale lookup_cache =
  fixes find :: "'m \<Rightarrow> 'k \<Rightarrow> 'v option"
    and put :: "'k \<Rightarrow> 'v \<Rightarrow> 'm \<Rightarrow> 'm"
  assumes find_put: "find (put k v m) k = Some v"
    and find_put_other: "k' \<noteq> k \<Longrightarrow> find (put k v m) k' = Some v' \<Longrightarrow> find m k' = Some v'"
begin

lemma find_put_cases: "find (put k v m) k' = Some v' \<Longrightarrow> (if k' = k then v' = v else find m k' = Some v')"
  using find_put [of k v m] find_put_other [of k' k v m v'] by auto

text \<open>A cache agrees with the newest entries of a history.\<close>

lemma put_newest:
  assumes "\<And>k v. k \<in> K \<Longrightarrow> find m k = Some v \<Longrightarrow> map_of h k = Some v"
    and "k' \<in> K" "find (put k v m) k' = Some v'"
  shows "map_of ((k, v) # h) k' = Some v'"
  using assms find_put_cases [of k v m k' v'] by (auto split: if_splits)

end

lemma tlb_offset_entry:
  obtains i where "i < tlb_size" "tlb_offset a = 16 * of_nat i"
proof -
  let ?w = "drop_bit 11 a XOR a"
  have m: "(0x7f0 :: u64) = push_bit 4 (mask 7)"
    by (simp add: mask_eq_exp_minus_1)
  have "tlb_offset a = push_bit 4 (take_bit 7 (drop_bit 4 ?w))"
    unfolding tlb_offset_def m by (rule bit_word_eqI) (auto simp: bit_simps)
  then have "tlb_offset a = 16 * of_nat (unat (take_bit 7 (drop_bit 4 ?w)))"
    by (simp add: push_bit_eq_mult)
  moreover have "unat (take_bit 7 (drop_bit 4 ?w)) < tlb_size"
    unfolding unsigned_take_bit_eq tlb_size_def using take_bit_nat_less_exp [of 7 "unat (drop_bit 4 ?w)"]
    by (rule less_le_trans) simp
  ultimately show thesis
    using that by blast
qed

lemma tlb_entry_place:
  assumes "n < 16"
  shows "unat (tlb_offset a + of_nat n) < 16 * tlb_size"
proof -
  obtain i where i: "i < tlb_size" "tlb_offset a = 16 * of_nat i"
    by (rule tlb_offset_entry)
  then have "tlb_offset a + of_nat n = of_nat (16 * i + n)"
    by simp
  then show ?thesis
    using i(1) assms unat_of_nat_small [of "16 * i + n"] by (simp add: tlb_size_def del: of_nat_add of_nat_mult)
qed

lemma of_nat_complement: "d \<le> 2 ^ 64 \<Longrightarrow> (of_nat (2 ^ 64 - d) :: u64) = - of_nat d"
  by (simp add: of_nat_diff)

lemma tlb_entries_apart:
  assumes "tlb_offset a \<noteq> tlb_offset b" "n < 16"
  shows "16 \<le> unat (tlb_offset a + of_nat n - tlb_offset b)"
proof -
  obtain i where i: "i < tlb_size" "tlb_offset a = 16 * of_nat i"
    by (rule tlb_offset_entry)
  obtain j where j: "j < tlb_size" "tlb_offset b = 16 * of_nat j"
    by (rule tlb_offset_entry)
  have ij: "i \<noteq> j"
    using assms(1) i(2) j(2) by auto
  show ?thesis
  proof (cases "j < i")
    case True
    then have "tlb_offset a + of_nat n - tlb_offset b = of_nat (16 * (i - j) + n)"
      using i(2) j(2) by (simp add: of_nat_diff algebra_simps)
    then show ?thesis
      using True i(1) assms(2) unat_of_nat_small [of "16 * (i - j) + n"]
      by (simp add: tlb_size_def del: of_nat_add of_nat_mult of_nat_diff)
  next
    case False
    then have le: "n \<le> 16 * (j - i)" "16 * (j - i) - n \<le> 2 ^ 64"
      using ij j(1) assms(2) by (simp_all add: tlb_size_def)
    have "tlb_offset a + of_nat n - tlb_offset b = - of_nat (16 * (j - i) - n)"
      using False le(1) i(2) j(2) by (simp add: of_nat_diff algebra_simps)
    also have "\<dots> = of_nat (2 ^ 64 - (16 * (j - i) - n))"
      by (rule of_nat_complement [OF le(2), symmetric])
    finally show ?thesis
      using False ij j(1) assms(2) unat_of_nat_small [of "2 ^ 64 - (16 * (j - i) - n)"]
      by (simp add: tlb_size_def del: of_nat_add of_nat_mult of_nat_diff)
  qed
qed

lemma tlb_insert_changes: "changes (table + tlb_offset a) 16 m (tlb_insert table a v m)"
proof -
  let ?e = "table + tlb_offset a"
  have "changes ?e 16 m (mstore 8 m ?e a)" "changes ?e 16 (mstore 8 m ?e a) (mstore 8 (mstore 8 m ?e a) (?e + 8) v)"
    using changes_mono [of ?e 0 8 m "mstore 8 m ?e a" 16] mstore_changes [of ?e 8 m a]
      changes_mono [of ?e 8 8 _ _ 16] mstore_changes [of "?e + 8" 8] by simp_all
  then show ?thesis
    unfolding tlb_insert_def Let_def by (rule changes_trans)
qed

lemma tlb_insert_word:
  assumes "tlb_offset a \<noteq> tlb_offset b" "k + 8 \<le> 16"
  shows "mload 8 (tlb_insert table a v m) (table + tlb_offset b + of_nat k) = mload 8 m (table + tlb_offset b + of_nat k)"
proof (rule mload_changes [OF tlb_insert_changes])
  show "outside (table + tlb_offset a) 16 (table + tlb_offset b + of_nat k) 8"
    unfolding outside_def
  proof (intro allI impI)
    fix i :: nat assume "i < 8"
    then have "16 \<le> unat (tlb_offset b + of_nat (k + i) - tlb_offset a)"
      using assms by (intro tlb_entries_apart) auto
    then show "16 \<le> unat (table + tlb_offset b + of_nat k + of_nat i - (table + tlb_offset a))"
      by (simp add: algebra_simps)
  qed
qed

lemma tlb_insert_same:
  "mload 8 (tlb_insert table a v m) (table + tlb_offset a) = a"
  "mload 8 (tlb_insert table a v m) (table + tlb_offset a + 8) = v"
proof -
  let ?e = "table + tlb_offset a"
  have "outside (?e + of_nat 8) 8 ?e 8"
    by (rule outside_below) simp
  then show "mload 8 (tlb_insert table a v m) ?e = a"
    using mload_changes [OF mstore_changes [of "?e + 8" 8 "mstore 8 m ?e a" v], of ?e 8]
    by (simp add: tlb_insert_def Let_def mem_simps)
  show "mload 8 (tlb_insert table a v m) (?e + 8) = v"
    by (simp add: tlb_insert_def Let_def mem_simps)
qed

interpretation tlb: lookup_cache "tlb_lookup table" "tlb_insert table" for table
proof
  show "tlb_lookup table (tlb_insert table k v m) k = Some v" for k v m
    by (simp add: tlb_lookup_def Let_def tlb_insert_same)
  show "tlb_lookup table m k' = Some v'" if "k' \<noteq> k" "tlb_lookup table (tlb_insert table k v m) k' = Some v'" for k' k v m v'
  proof (cases "tlb_offset k = tlb_offset k'")
    case True
    then show ?thesis
      using that tlb_insert_same [of table k v m] by (simp add: tlb_lookup_def Let_def)
  next
    case False
    then show ?thesis
      using that tlb_insert_word [OF False, of 0 table v m] tlb_insert_word [OF False, of 8 table v m]
      by (simp add: tlb_lookup_def Let_def split: if_splits)
  qed
qed

text \<open>The code of the macros is the lookup and the insertion.\<close>

lemma alu_shift_11: "alu aSRL x 11 = drop_bit 11 x"
proof -
  have "(11 :: u64) AND 0x3f = 11" "unat (11 :: u64) = 11"
    by simp_all
  then show ?thesis
    by (simp only: alu_def alu_op.case)
qed

lemma compute_tlb_address_lookup:
  fixes s
  defines "a \<equiv> rget t3 s" and "table \<equiv> rget s9 s"
  shows "\<exists>t. compute_tlb_address s = Some (tlb_lookup table (rv_mem s) a \<noteq> None, t) \<and>
    keeps {t0, s2, s4} s t \<and> rget s4 t = table + tlb_offset a \<and>
    (case tlb_lookup table (rv_mem s) a of Some v \<Rightarrow> rget s2 t = v | None \<Rightarrow> rget s2 t = rget s2 s)"
  unfolding assms
  by (auto simp: compute_tlb_address_def tlb_entry_code_def tlb_lookup_def tlb_offset_def Let_def alu_shift_11 rv_simps load_def
      keeps_def add.commute simp del: alu_simps(7))

lemma update_tlb_entry_insert:
  assumes "rget s4 s = table + tlb_offset (rget s2 s)"
  shows "rv_seqs update_tlb_entry s =
    Some (s\<lparr>rv_mem := tlb_insert table (rget s2 s) (rget a0 s) (rv_mem s)\<rparr>)"
  using assms by (simp add: update_tlb_entry_def tlb_insert_def Let_def store_def rv_simps rget_def)

section \<open>Branches\<close>

text \<open>
  The states that branches through a zeroed table lead to, with the translations made on the way, the
  newest first. Between branches the guest changes memory outside the table.
\<close>

inductive reached :: "environment \<Rightarrow> u64 \<Rightarrow> memory \<times> CodeGenerator \<Rightarrow> (u64 \<times> u64) list \<Rightarrow> bool"
  for env :: environment and table :: u64 where
  reached_start: "\<forall>i<16 * tlb_size. m (table + of_nat i) = 0 \<Longrightarrow> reached env table (m, cg) []"
| reached_guest: "reached env table (m, cg) h \<Longrightarrow> \<forall>i<16 * tlb_size. m' (table + of_nat i) = m (table + of_nat i) \<Longrightarrow>
    reached env table (m', cg) h"
| reached_hit: "reached env table (m, cg) h \<Longrightarrow> tlb_lookup table m a \<noteq> None \<Longrightarrow>
    reroute env table a (m, cg) = Some (Inr (v, m', cg')) \<Longrightarrow> reached env table (m', cg') h"
| reached_miss: "reached env table (m, cg) h \<Longrightarrow> tlb_lookup table m a = None \<Longrightarrow>
    reroute env table a (m, cg) = Some (Inr (v, m', cg')) \<Longrightarrow> reached env table (m', cg') ((a, v) # h)"

inductive_simps reached_empty: "reached env table (m, cg) []"

lemma tlb_lookup_cong:
  assumes "\<forall>i<16 * tlb_size. m' (table + of_nat i) = m (table + of_nat i)"
  shows "tlb_lookup table m' a = tlb_lookup table m a"
proof -
  have same: "m' (table + tlb_offset a + of_nat n) = m (table + tlb_offset a + of_nat n)" if "n < 16" for n
    using assms [rule_format, OF tlb_entry_place [OF that, of a]] by (simp add: add.assoc)
  have "mload 8 m' (table + tlb_offset a) = mload 8 m (table + tlb_offset a)"
    by (rule mload_bytes) (simp add: same)
  moreover have "mload 8 m' (table + tlb_offset a + 8) = mload 8 m (table + tlb_offset a + 8)"
  proof (rule mload_bytes)
    show "m' (table + tlb_offset a + 8 + of_nat i) = m (table + tlb_offset a + 8 + of_nat i)" if "i < 8" for i
      using same [of "8 + i"] that by (simp add: add.assoc)
  qed
  ultimately show ?thesis
    by (simp add: tlb_lookup_def Let_def)
qed

lemma tlb_lookup_zeroed:
  assumes "\<forall>i<16 * tlb_size. m (table + of_nat i) = 0"
  shows "tlb_lookup table m a = (if a = 0 then Some 0 else None)"
proof -
  have z: "mload n (\<lambda>a. 0) p = 0" for n p
    by (induction n arbitrary: p) simp_all
  have "tlb_lookup table m a = tlb_lookup table (\<lambda>a. 0) a"
    using assms by (intro tlb_lookup_cong) simp
  then show ?thesis
    by (simp add: tlb_lookup_def Let_def z)
qed

lemma reroute_miss:
  assumes "tlb_lookup table m a = None"
  shows "reroute env table a (m, cg) = Some (Inr (v, m', cg')) \<longleftrightarrow>
    translate env a cg = Some (Inr (v, cg')) \<and> m' = tlb_insert table a v m"
proof (cases "translate env a cg")
  case (Some r)
  then show ?thesis
    using assms by (cases r) (auto simp: reroute_def)
qed (use assms in \<open>simp add: reroute_def\<close>)

lemma reached_newest:
  assumes "reached env table (m, cg) h" "a \<noteq> 0" "tlb_lookup table m a = Some v"
  shows "map_of h a = Some v"
  using assms
proof (induction "(m, cg)" h arbitrary: m cg a v rule: reached.induct)
  case (reached_start m cg)
  then show ?case
    by (simp add: tlb_lookup_zeroed)
next
  case (reached_guest m cg h m')
  then show ?case
    using tlb_lookup_cong [of m' table m] by simp
next
  case (reached_hit m cg h b w m' cg')
  then show ?case
    by (auto simp: reroute_def)
next
  case (reached_miss m cg h b w m' cg')
  then have "m' = tlb_insert table b w m"
    by (simp add: reroute_miss)
  then show ?case
    using tlb.put_newest [where K = "- {0}" and table = table and m = m and h = h] reached_miss by simp
qed

text \<open>A branch arrives at the newest translation of its target, which is a new one if the table has none.\<close>

lemma reroute_newest:
  assumes "reached env table (m, cg) h" "a \<noteq> 0" "reroute env table a (m, cg) = Some (Inr (v, m', cg'))"
  shows "tlb_lookup table m a = Some v \<and> map_of h a = Some v \<and> m' = m \<and> cg' = cg \<or>
    tlb_lookup table m a = None \<and> translate env a cg = Some (Inr (v, cg')) \<and> tlb_lookup table m' a = Some v"
proof (cases "tlb_lookup table m a")
  case None
  then show ?thesis
    using assms(3) tlb.find_put [of table a v m] by (simp add: reroute_miss)
next
  case (Some w)
  then show ?thesis
    using assms reached_newest [OF assms(1,2)] by (auto simp: reroute_def)
qed

section \<open>System calls\<close>

lemma syscall_map_length: "length (syscall_map SYS) = syscall_map_size"
  by (simp add: syscall_map_def syscall_map_size_def)

definition known_entry :: "(string \<Rightarrow> int) \<Rightarrow> syscall_entry \<Rightarrow> bool" where
  "known_entry SYS e \<longleftrightarrow> (case e of Emulation f \<Rightarrow> True | Index i \<Rightarrow> i = - 1 \<or> i \<in> range SYS)"

lemma syscall_map_known: "list_all (known_entry SYS) (syscall_map SYS)"
  by (simp add: syscall_map_def known_entry_def)

text \<open>Every number is forwarded, emulated or refused.\<close>

lemma syscall_handler_cases:
  assumes "syscall_numbers_ok fn SYS"
  shows "syscall_handler fn SYS forward k ctx =
    (let n = get_guest guest_rax ctx in
     if unat n < length (syscall_map SYS) then
       (case syscall_map SYS ! unat n of
          Emulation f \<Rightarrow> emulation_fn f k ctx
        | Index i \<Rightarrow>
            if i = - 1 then Faults (Unsupported_syscall n)
            else (case forward (word_of_int i) (ctx_guest ctx) (ctx_mem ctx) of
                (r, m) \<Rightarrow> Returns (set_guest guest_rax r (ctx\<lparr>ctx_mem := m\<rparr>))))
     else Faults (Unsupported_syscall n))"
proof (cases "unat (get_guest guest_rax ctx) < length (syscall_map SYS)")
  case False
  then have "of_nat syscall_map_size \<le> get_guest guest_rax ctx"
    by (simp add: syscall_map_length syscall_map_size_def word_le_nat_alt)
  then show ?thesis
    using False emulate_syscall_unsupported [of SYS ctx fn k] by (simp add: syscall_handler_def Let_def)
next
  case True
  let ?e = "syscall_map SYS ! unat (get_guest guest_rax ctx)"
  have n: "\<not> of_nat syscall_map_size \<le> get_guest guest_rax ctx"
    using True by (simp add: syscall_map_length syscall_map_size_def word_le_nat_alt)
  have known: "known_entry SYS ?e"
    using syscall_map_known True by (simp add: list_all_length)
  show ?thesis
  proof (cases ?e)
    case (Emulation f)
    then have "syscall_map_threshold \<le> riscv_index fn ?e"
      using assms by (simp add: syscall_numbers_ok_def riscv_index_def syscall_map_threshold_def)
    then show ?thesis
      using Emulation True emulate_syscall_emulated [OF assms True] by (simp add: syscall_handler_def Let_def)
  next
    case (Index i)
    show ?thesis
    proof (cases "i = - 1")
      case True
      then have "syscall_map_threshold \<le> riscv_index fn ?e"
        using Index by (simp add: riscv_index_def syscall_map_threshold_def)
      then show ?thesis
        using True Index n emulate_syscall_unsupported [of SYS ctx fn k] \<open>unat _ < _\<close>
        by (simp add: syscall_handler_def Let_def)
    next
      case False
      then have "0 \<le> i" "i < 0x1000"
        using known Index assms by (auto simp: known_entry_def syscall_numbers_ok_def)
      then have "\<not> (0x1000 :: u64) \<le> word_of_int i"
        by (simp add: not_le word_less_def uint_word_of_int_eq take_bit_int_eq_self)
      then show ?thesis
        using False Index n True by (simp add: syscall_handler_def Let_def riscv_index_def syscall_map_threshold_def)
    qed
  qed
qed

section \<open>The context that the guest is entered with\<close>

lemma init_flags_changes: "changes (ctx + 0x200) 0x46 m (init_flags ctx m)"
proof -
  have step: "changes (ctx + 0x200) 0x46 m (mstore n m' p v)"
    if "changes (ctx + 0x200) 0x46 m m'" "k + n \<le> 0x46" "p = ctx + 0x200 + of_nat k" for m' n k v p
    unfolding that(3) using changes_trans [OF that(1) changes_mono [OF mstore_changes that(2)]] by simp
  show ?thesis
    unfolding init_flags_def Let_def
    by (rule step [where k = "0x30"], rule step [where k = "0x38"], rule step [where k = "0x45"], rule step [where k = "0x44"],
        rule step [where k = 0], rule step [where k = "0x42"], rule step [where k = "0x40"], rule changes_refl)
      (simp_all add: flag_offsets)
qed

text \<open>The registers of the guest: all are 0 but number 4, which is the stack pointer.\<close>

definition start_registers :: "u64 \<Rightarrow> nat \<Rightarrow> u64" where
  "start_registers rsp = (\<lambda>n. 0)(4 := rsp)"

lemma start_context_words:
  assumes host: "words_at m (ha_envp ha) (env @ [0] @ vector_words aux @ [0])" "0 \<notin> set env" "0 \<notin> fst ` set aux"
    and size: "8 * length (stack_words ha env aux) < 2 ^ 63"
    and apart: "outside (first_rsp args ha env aux) (8 * length (stack_words ha env aux)) (ha_envp ha)
          (8 * length (env @ [0] @ vector_words aux @ [0]))"
      "outside (first_rsp args ha env aux) (8 * length (stack_words ha env aux)) (elf_base elf + 32) 8"
      "outside (ha_context ha + 0x200) 0x46 (first_rsp args ha env aux) (8 * length (stack_words ha env aux))"
    and "even (ha_jump_table ha)" "ctx_mem ctx = m"
  shows "\<exists>c. start_context elf args ha ctx = Some c \<and>
    words_at (ctx_mem c) (first_rsp args ha env aux)
      (stack_words ha env (map (replaced elf (read64 m (elf_base elf + 32))) aux)) \<and>
    sim (ha_jump_table ha) (flags_all AND NOT flags_sign)
      \<lparr>x86_regs = start_registers (first_rsp args ha env aux), x86_fl = clear_flags\<rparr> (guest_state c) \<and>
    program_break c = elf_base elf + elf_size elf"
proof -
  let ?rsp = "first_rsp args ha env aux"
  obtain m' where m': "init_stack elf args ha m = Some (?rsp, m')"
    "words_at m' ?rsp (stack_words ha env (map (replaced elf (read64 m (elf_base elf + 32))) aux))"
    using init_stack_words [OF host size apart(1,2)] by blast
  obtain c where c: "start_context elf args ha ctx = Some c" "ctx_mem c = init_flags (ha_context ha) m'"
    "program_break c = elf_base elf + elf_size elf"
    "ctx_guest c = (\<lambda>r. 0)(guest_rdx := 0, guest_call_table := ha_call_table ha,
           guest_return_stack := ha_return_stack ha, guest_jump_table := ha_jump_table ha,
           guest_tlb := ha_tlb ha, guest_context := ha_context ha, guest_rsp := ?rsp, guest_rbp := 0)"
    by (rule that) (use m'(1) assms(9) in \<open>simp_all add: start_context_def init_guest_context_def Let_def, simp_all\<close>)
  have regs: "rget r (guest_state c) = (if r = zero then 0 else ctx_guest c r)" for r
    by (simp add: guest_state_def rget_def)
  have "words_at (ctx_mem c) ?rsp (stack_words ha env (map (replaced elf (read64 m (elf_base elf + 32))) aux))"
    using words_at_changes [OF init_flags_changes, of "ha_context ha" ?rsp] m'(2) apart(3)
    by (simp add: c(2) length_stack_words)
  moreover have "has_flags (flags_all AND NOT flags_sign) clear_flags (guest_state c)"
    using init_flags_clear [of "guest_state c" "ha_context ha" m'] by (simp add: regs c guest_defs) (simp add: guest_state_def c)
  moreover have "jump_table_at (ha_jump_table ha) (guest_state c)"
    using assms(8) by (simp add: jump_table_at_def regs c guest_defs)
  moreover have "\<forall>n<16. rget (register_mapping ! n) (guest_state c) = start_registers ?rsp n"
    by (simp add: regs c guest_defs start_registers_def register_mapping_def All_less_Suc eval_nat_numeral)
  ultimately show ?thesis
    using c by (simp add: sim_def)
qed

section \<open>Switching contexts\<close>

lemma captured_slots:
  "\<exists>t. rv_seqs (capture_context s11) s = Some t \<and> (\<forall>r. rget r t = rget r s) \<and>
    (\<forall>(r, off) \<in> set restore_slots. load 8 (rget s11 s + off) t = rget r s)"
  by (simp add: capture_context_def capture_context_tlb_def tlb_slots_def restore_slots_def rv_simps
      load_store_same load_store_apart_numeral load_store_apart [of "numeral j" n 0 for j n, simplified])

lemma restored_slots:
  assumes "\<forall>(r, off) \<in> set restore_slots. load 8 (rget s11 u + off) u = f r"
  shows "\<exists>w. rv_seqs (restore_context s11) u = Some w \<and> rv_mem w = rv_mem u \<and>
    (\<forall>r. rget r w = (if r \<in> fst ` set restore_slots then f r else rget r u))"
  using assms by (simp add: restore_context_def restore_slots_def rv_simps)

text \<open>Whatever happens in between, the registers of the guest come back from an untouched context.\<close>

lemma context_switch:
  assumes "rv_seqs (capture_context s11) s = Some t" "rget s11 u = rget s11 s"
    and "\<forall>i<0xF8. rv_mem u (rget s11 s + of_nat i) = rv_mem t (rget s11 s + of_nat i)"
  shows "\<exists>w. rv_seqs (restore_context s11) u = Some w \<and> rv_mem w = rv_mem u \<and>
    (\<forall>r. rget r w = (if r \<in> fst ` set restore_slots then rget r s else rget r u))"
proof (rule restored_slots [of u "\<lambda>r. rget r s"], clarify)
  fix r off assume off: "(r, off) \<in> set restore_slots"
  obtain t' where "rv_seqs (capture_context s11) s = Some t'"
    "\<forall>(r, off) \<in> set restore_slots. load 8 (rget s11 s + off) t' = rget r s"
    using captured_slots [of s] by blast
  then have t: "load 8 (rget s11 s + off) t = rget r s"
    using off assms(1) by auto
  have "unat off + 8 \<le> 0xF8"
    using off by (auto simp: restore_slots_def)
  then have "mload 8 (rv_mem u) (rget s11 s + off) = mload 8 (rv_mem t) (rget s11 s + off)"
    using assms(3) [rule_format, of "unat off + _"] by (intro mload_bytes) (simp add: add.assoc)
  then show "load 8 (rget s11 u + off) u = rget r s"
    using t assms(2) by (simp add: load_def)
qed

end
