(* ===== verification/DispatcherSwitch.thy ===== *)
theory DispatcherSwitch
  imports DispatcherCode DispatcherRules
begin

text \<open>
  The routines of the dispatcher do what they are for, whatever the functions they call do, as long as these
  keep to the calling convention and leave the context and the lookup table alone: a branch arrives at the
  address that \<open>reroute\<close> yields with the registers of the guest, and the host gets its registers back.
\<close>

section \<open>Memory\<close>

definition same_at :: "u64 \<Rightarrow> nat \<Rightarrow> memory \<Rightarrow> memory \<Rightarrow> bool" where
  "same_at p n m m' \<longleftrightarrow> (\<forall>i<n. m' (p + of_nat i) = m (p + of_nat i))"

definition far_apart :: "u64 \<Rightarrow> nat \<Rightarrow> u64 \<Rightarrow> nat \<Rightarrow> bool" where
  "far_apart p n q k \<longleftrightarrow> (\<forall>i<n. \<forall>j<k. p + of_nat i \<noteq> q + of_nat j)"

lemma far_sym: "far_apart p n q k \<longleftrightarrow> far_apart q k p n"
  unfolding far_apart_def by metis

lemma far_intervals:
  assumes "unat p + n \<le> unat q" "unat q + k \<le> 2 ^ 64" "n < 2 ^ 64" "k < 2 ^ 64"
  shows "far_apart p n q k"
  unfolding far_apart_def
proof (intro allI impI notI)
  fix i j assume ij: "i < n" "j < k" "p + of_nat i = q + of_nat j"
  have "unat (p + of_nat i) = unat p + i" "unat (q + of_nat j) = unat q + j"
    using ij(1,2) assms by (simp_all add: unat_word_ariths(1) unat_of_nat)
  then show False
    using ij assms(1) by simp
qed

lemma far_outside:
  assumes "far_apart p n q k"
  shows "outside p n q k"
  unfolding outside_def
proof (intro allI impI, rule ccontr)
  fix i assume i: "i < k" "\<not> n \<le> unat (q + of_nat i - p)"
  have "p + of_nat (unat (q + of_nat i - p)) = q + of_nat i"
    by simp
  then show False
    using assms i unfolding far_apart_def by (meson not_le)
qed

lemma same_at_refl [simp]: "same_at p n m m"
  by (simp add: same_at_def)

lemma same_at_trans: "same_at p n m m' \<Longrightarrow> same_at p n m' m'' \<Longrightarrow> same_at p n m m''"
  by (simp add: same_at_def)

lemma same_at_sym: "same_at p n m m' \<longleftrightarrow> same_at p n m' m"
  by (auto simp: same_at_def)

lemma changes_same_at: "changes p n m m' \<Longrightarrow> outside p n q k \<Longrightarrow> same_at q k m m'"
  by (simp add: changes_def outside_def same_at_def)

lemma same_at_mload:
  assumes "same_at p n m m'" "unat off + k \<le> n"
  shows "mload k m' (p + off) = mload k m (p + off)"
proof (rule mload_bytes)
  fix i assume "i < k"
  then show "m' (p + off + of_nat i) = m (p + off + of_nat i)"
    using assms by (auto simp: same_at_def add.assoc dest!: spec [of _ "unat off + i"])
qed

section \<open>Stores and loads of a context\<close>

lemma rv_seqs_append [simp]: "rv_seqs (xs @ ys) s = Option.bind (rv_seqs xs s) (rv_seqs ys)"
  by (induction xs arbitrary: s) (simp_all split: Option.bind_split)

lemma rget_mem [simp]: "rget r (s\<lparr>rv_mem := m\<rparr>) = rget r s"
  by (simp add: rget_def)

lemma move_seq [simp]: "rv_seq (move rd rs) s = Some (rset rd (rget rs s) s)"
  by (simp add: move_def rv_simps)

lemma stores_run:
  assumes "\<forall>(r, off)\<in>set slots. unat off + 8 \<le> n" "n < 2 ^ 64"
  shows "\<exists>t. rv_seqs (map (\<lambda>(r, off). Store 8 b r off) slots) s = Some t \<and> (\<forall>r. rget r t = rget r s) \<and>
    changes (rget b s) n (rv_mem s) (rv_mem t)"
  using assms(1)
proof (induction slots arbitrary: s)
  case (Cons slot slots)
  obtain r off where slot: "slot = (r, off)"
    by (cases slot)
  let ?s = "store 8 (rget b s + off) (rget r s) s"
  have "changes (rget b s) n (rv_mem s) (rv_mem ?s)"
    using changes_mono [of "rget b s" "unat off" 8 _ _ n] mstore_changes [of "rget b s + off" 8] Cons.prems assms(2) slot
    by (simp add: rv_simps)
  then show ?case
    using Cons.IH [of ?s] Cons.prems slot by (auto simp: rv_simps intro: changes_trans)
qed simp

text \<open>
  The registers of the guest that are kept: all that a branch must not change. \<open>kept\<close> says that the context at
  \<open>ctx\<close> holds those of \<open>s\<close>.
\<close>

definition guest_kept :: "RiscVRegister set" where
  "guest_kept = fst ` set restore_slots"

definition kept :: "u64 \<Rightarrow> (RiscVRegister \<Rightarrow> u64) \<Rightarrow> memory \<Rightarrow> bool" where
  "kept ctx f m \<longleftrightarrow> (\<forall>(r, off)\<in>set restore_slots. mload 8 m (ctx + off) = f r)"

lemma kept_same:
  assumes "kept ctx f m" "same_at ctx 0xF8 m m'"
  shows "kept ctx f m'"
  unfolding kept_def
proof clarify
  fix r off assume off: "(r, off) \<in> set restore_slots"
  then have "unat off + 8 \<le> 0xF8"
    by (auto simp: restore_slots_def)
  then show "mload 8 m' (ctx + off) = f r"
    using assms(1) off same_at_mload [OF assms(2)] by (auto simp: kept_def)
qed

lemma kept_restore:
  assumes "kept (rget s11 u) f (rv_mem u)"
  shows "\<exists>w. rv_seqs (restore_context s11) u = Some w \<and> rv_mem w = rv_mem u \<and>
    (\<forall>r. rget r w = (if r \<in> guest_kept then f r else rget r u))"
  using assms restored_slots [of u f] by (simp add: kept_def load_def guest_kept_def)

lemma slots_bounded: "\<forall>(r, off)\<in>set tlb_slots. unat off + 8 \<le> 0xF8" "\<forall>(r, off)\<in>set restore_slots. unat off + 8 \<le> 0xF8"
  by (simp_all add: tlb_slots_def restore_slots_def)

lemma capture_run:
  "\<exists>t. rv_seqs (capture_context s11) s = Some t \<and> (\<forall>r. rget r t = rget r s) \<and>
    changes (rget s11 s) 0xF8 (rv_mem s) (rv_mem t) \<and> kept (rget s11 s) (\<lambda>r. rget r s) (rv_mem t)"
proof -
  have c: "capture_context s11 = map (\<lambda>(r, off). Store 8 s11 r off) (tlb_slots @ [(s2, 0x88), (s4, 0x98)])"
    by (simp add: capture_context_def capture_context_tlb_def)
  obtain t where t: "rv_seqs (capture_context s11) s = Some t" "\<forall>r. rget r t = rget r s"
    "changes (rget s11 s) 0xF8 (rv_mem s) (rv_mem t)"
    using stores_run [of "tlb_slots @ [(s2, 0x88), (s4, 0x98)]" "0xF8" s11 s] slots_bounded unfolding c by auto
  then show ?thesis
    using captured_slots [of s] by (auto simp: kept_def load_def)
qed

text \<open>The variant for the lookup table, after \<open>s2\<close> and \<open>s4\<close> have been stored.\<close>

lemma capture_tlb_run:
  assumes "mload 8 (rv_mem s) (rget s11 s + 0x88) = f s2" "mload 8 (rv_mem s) (rget s11 s + 0x98) = f s4"
    and "\<forall>r\<in>guest_kept. r \<notin> {s2, s4} \<longrightarrow> rget r s = f r"
  shows "\<exists>t. rv_seqs (capture_context_tlb s11) s = Some t \<and> (\<forall>r. rget r t = rget r s) \<and>
    changes (rget s11 s) 0xF8 (rv_mem s) (rv_mem t) \<and> kept (rget s11 s) f (rv_mem t)"
proof -
  obtain t where t: "rv_seqs (capture_context_tlb s11) s = Some t" "\<forall>r. rget r t = rget r s"
    "changes (rget s11 s) 0xF8 (rv_mem s) (rv_mem t)"
    using stores_run [of tlb_slots "0xF8" s11 s] slots_bounded unfolding capture_context_tlb_def by auto
  have "\<exists>t. rv_seqs (capture_context_tlb s11) s = Some t \<and> (\<forall>(r, off)\<in>set restore_slots. load 8 (rget s11 s + off) t =
      (if off = 0x88 then load 8 (rget s11 s + 0x88) s else if off = 0x98 then load 8 (rget s11 s + 0x98) s else rget r s))"
    by (simp add: capture_context_tlb_def tlb_slots_def restore_slots_def rv_simps
      load_store_same load_store_apart_numeral load_store_apart [of "numeral j" n 0 for j n, simplified]
      load_store_apart [of 0 n "numeral i" for n i, simplified])
  then have l: "\<forall>(r, off)\<in>set restore_slots. load 8 (rget s11 s + off) t =
      (if off = 0x88 then f s2 else if off = 0x98 then f s4 else rget r s)"
    using t(1) unfolding assms(1,2) [folded load_def, symmetric] by simp
  have "kept (rget s11 s) f (rv_mem t)"
    using l assms(3) by (simp add: kept_def load_def restore_slots_def guest_kept_def)
  then show ?thesis
    using t by blast
qed

section \<open>Calls\<close>

text \<open>
  A function of the translator returns, with the registers the calling convention saves, and leaves the
  regions \<open>R\<close> alone.
\<close>

definition callee_saved :: "RiscVRegister set" where
  "callee_saved = {sp, s0, s1, s2, s3, s4, s5, s6, s7, s8, s9, s10, s11}"

definition alike :: "(u64 \<times> nat) set \<Rightarrow> rv_state \<Rightarrow> rv_state \<Rightarrow> bool" where
  "alike R s t \<longleftrightarrow> (\<forall>r\<in>callee_saved. rget r t = rget r s) \<and> (\<forall>(p, n)\<in>R. same_at p n (rv_mem s) (rv_mem t))"

definition conforms :: "(u64 \<times> nat) set \<Rightarrow> callee \<Rightarrow> bool" where
  "conforms R f \<longleftrightarrow> (\<forall>s. \<exists>t. f s = Some t \<and> alike R s t)"

text \<open>The function returns \<open>v\<close> for the argument \<open>a\<close>.\<close>

definition yields :: "callee \<Rightarrow> u64 \<Rightarrow> u64 \<Rightarrow> bool" where
  "yields f a v \<longleftrightarrow> (\<forall>s t. rget a1 s = a \<longrightarrow> f s = Some t \<longrightarrow> rget a0 t = v)"

lemma alike_refl [simp]: "alike R s s"
  by (auto simp: alike_def)

lemma alike_same: "alike R s t \<Longrightarrow> (p, n) \<in> R \<Longrightarrow> same_at p n (rv_mem s) (rv_mem t)"
  by (auto simp: alike_def)

lemma alike_trans:
  assumes "alike R s t" "alike R t u"
  shows "alike R s u"
proof -
  have "same_at p n (rv_mem s) (rv_mem u)" if "(p, n) \<in> R" for p n
    using alike_same [OF assms(1) that] alike_same [OF assms(2) that] by (rule same_at_trans)
  moreover have "\<forall>r\<in>callee_saved. rget r u = rget r s"
    using conjunct1 [OF assms(1) [unfolded alike_def]] conjunct1 [OF assms(2) [unfolded alike_def]] by metis
  ultimately show ?thesis
    unfolding alike_def by blast
qed

lemma alike_saved:
  assumes "alike R s t"
  shows "rget s2 t = rget s2 s" "rget s4 t = rget s4 s" "rget s11 t = rget s11 s" "rget s1 t = rget s1 s"
  using assms by (simp_all add: alike_def callee_saved_def)

lemma alike_args [simp]:
  "alike R s (rset a0 v t) = alike R s t" "alike R s (rset a1 v t) = alike R s t" "alike R s (rset a2 v t) = alike R s t"
  by (auto simp: alike_def callee_saved_def rv_simps)

lemma conforms_call:
  assumes "conforms R f"
  obtains t where "f s = Some t" "alike R s t"
  using assms unfolding conforms_def by metis

text \<open>The logger and then the translation are called, both with the argument that \<open>arg\<close> puts into \<open>a1\<close>.\<close>

lemma translation_called:
  assumes "conforms R logger" "conforms R tr" "yields tr a v"
    and "\<And>t. alike R s t \<Longrightarrow> rv_seq arg t = Some (rset a1 a t)"
  obtains t where "Option.bind (log_address logger fmt arg s) (call_codegen tr [arg]) = Some t" "alike R s t" "rget a0 t = v"
proof -
  obtain u where u: "logger (rset a1 a (rset a0 fmt s)) = Some u" "alike R (rset a1 a (rset a0 fmt s)) u"
    using conforms_call [OF assms(1)] by metis
  have su: "alike R s u"
    by (rule alike_trans [OF _ u(2)]) simp
  let ?u = "rset a0 (load 8 (rget s11 u + codegen_offset) u) u"
  obtain t where t: "tr (rset a1 a ?u) = Some t" "alike R (rset a1 a ?u) t"
    using conforms_call [OF assms(2)] by metis
  have st: "alike R s t"
    by (rule alike_trans [OF _ t(2)]) (simp add: su)
  have "rget a1 (rset a1 a ?u) = a"
    by (simp add: rv_simps)
  then have "rget a0 t = v"
    using assms(3) t(1) unfolding yields_def by blast
  moreover have "log_address logger fmt arg s = Some u"
    using assms(4) [of "rset a0 fmt s"] u(1) by (simp add: log_address_def)
  moreover have "call_codegen tr [arg] u = Some t"
    using assms(4) [of ?u] t(1) su alike_saved [OF su] by (simp add: call_codegen_def load_extend_def)
  ultimately show thesis
    using that st by simp
qed

section \<open>The lookup table\<close>

lemma tlb_insert_table: "changes table (16 * tlb_size) m (tlb_insert table a v m)"
proof -
  obtain i where i: "i < tlb_size" "tlb_offset a = 16 * of_nat i"
    by (rule tlb_offset_entry)
  then show ?thesis
    using changes_mono [of table "16 * i" 16 m "tlb_insert table a v m" "16 * tlb_size"] tlb_insert_changes [of table a m v]
    by (simp add: tlb_size_def)
qed

lemma tlb_insert_same_at:
  assumes "same_at table (16 * tlb_size) m m'"
  shows "same_at table (16 * tlb_size) (tlb_insert table a v m) (tlb_insert table a v m')"
  using assms by (simp add: same_at_def tlb_insert_def Let_def mstore_apply)

text \<open>The end of the branch routines: the translated address \<open>v\<close> of \<open>a\<close> goes into the table.\<close>

lemma record_and_restore:
  assumes "rget s11 u = ctx" "rget s4 u = table + tlb_offset a" "rget s2 u = a" "rget a0 u = v"
    and "kept ctx f (rv_mem u)" "far_apart ctx 0xF8 table (16 * tlb_size)"
  shows "\<exists>w. rv_seqs (update_tlb_entry @ move t3 a0 # restore_context s11) u = Some w \<and>
    (\<forall>r\<in>guest_kept. rget r w = f r) \<and> rget t3 w = v \<and> rv_mem w = tlb_insert table a v (rv_mem u)"
proof -
  let ?t = "rset t3 v (u\<lparr>rv_mem := tlb_insert table a v (rv_mem u)\<rparr>)"
  have run: "rv_seqs (update_tlb_entry @ move t3 a0 # restore_context s11) u = rv_seqs (restore_context s11) ?t"
    using assms(1-4) update_tlb_entry_insert [of u table] by simp
  have "same_at ctx 0xF8 (rv_mem u) (tlb_insert table a v (rv_mem u))"
    using tlb_insert_table far_outside assms(6) far_sym by (blast intro: changes_same_at)
  then have "kept (rget s11 ?t) f (rv_mem ?t)"
    using kept_same [OF assms(5)] assms(1) by (simp add: rv_simps)
  moreover have "t3 \<notin> guest_kept" "rget t3 ?t = v"
    by (auto simp: guest_kept_def restore_slots_def rv_simps)
  ultimately show ?thesis
    unfolding run using kept_restore [of ?t f] by (auto simp: rv_simps)
qed

section \<open>Branches through the table\<close>

lemma guest_kept_cases: "t3 \<notin> guest_kept" "t0 \<notin> guest_kept" "s2 \<in> guest_kept" "s4 \<in> guest_kept" "s11 \<in> guest_kept" "s9 \<in> guest_kept"
  by (auto simp: guest_kept_def restore_slots_def)

text \<open>The first instructions, which make room for the lookup.\<close>

lemma save_run:
  "\<exists>u. rv_seqs [Store 8 s11 s2 guest_s2_offset, Store 8 s11 s4 guest_s4_offset] s = Some u \<and> (\<forall>r. rget r u = rget r s) \<and>
    changes (rget s11 s) 0xF8 (rv_mem s) (rv_mem u) \<and>
    mload 8 (rv_mem u) (rget s11 s + 0x88) = rget s2 s \<and> mload 8 (rv_mem u) (rget s11 s + 0x98) = rget s4 s"
proof -
  let ?u = "store 8 (rget s11 s + 0x98) (rget s4 s) (store 8 (rget s11 s + 0x88) (rget s2 s) s)"
  have "load 8 (rget s11 s + 0x88) ?u = rget s2 s" "load 8 (rget s11 s + 0x98) ?u = rget s4 s"
    by (simp_all add: load_store_same load_store_apart_numeral)
  moreover obtain u where "rv_seqs (map (\<lambda>(r, off). Store 8 s11 r off) [(s2, 0x88), (s4, 0x98)]) s = Some u"
    "changes (rget s11 s) 0xF8 (rv_mem s) (rv_mem u)"
    using stores_run [of "[(s2, 0x88), (s4, 0x98)]" "0xF8" s11 s] by auto
  ultimately show ?thesis
    by (auto simp: offset_defs rv_simps load_def)
qed

text \<open>A hit: \<open>u\<close> is the state after the lookup.\<close>

lemma hit_run:
  assumes "mload 8 (rv_mem u) (rget s11 u + 0x88) = f s2" "mload 8 (rv_mem u) (rget s11 u + 0x98) = f s4"
    and "\<forall>r\<in>guest_kept. r \<notin> {s2, s4} \<longrightarrow> rget r u = f r"
  shows "\<exists>w. rv_seqs [move t3 s2, Load 8 False s2 s11 guest_s2_offset, Load 8 False s4 s11 guest_s4_offset] u = Some w \<and>
    (\<forall>r\<in>guest_kept. rget r w = f r) \<and> rget t3 w = rget s2 u \<and> rv_mem w = rv_mem u"
  using assms guest_kept_cases by (simp add: offset_defs rv_simps load_def)

lemma lookup_same_at: "same_at table (16 * tlb_size) m m' \<Longrightarrow> tlb_lookup table m' a = tlb_lookup table m a"
  unfolding same_at_def by (rule tlb_lookup_cong)

text \<open>A miss, from the capture of the context to the jump.\<close>

lemma miss_run:
  assumes "conforms R logger" "conforms R tr" "yields tr a v" "{(ctx, 0xF8), (table, 16 * tlb_size)} \<subseteq> R"
    and "ctx = rget s11 u" "a = rget t3 u" "rget s4 u = table + tlb_offset a" "far_apart ctx 0xF8 table (16 * tlb_size)"
    and "mload 8 (rv_mem u) (ctx + 0x88) = f s2" "mload 8 (rv_mem u) (ctx + 0x98) = f s4"
    and "\<forall>r\<in>guest_kept. r \<notin> {s2, s4} \<longrightarrow> rget r u = f r"
  shows "\<exists>w m. Option.bind (rv_seqs (capture_context_tlb s11 @ [OpImm aADD sp sp red_zone, move s2 t3]) u) (\<lambda>s.
      Option.bind (log_address logger fmt (move a1 s2) s) (\<lambda>s.
      Option.bind (call_codegen tr [move a1 s2] s)
        (rv_seqs (update_tlb_entry @ move t3 a0 # restore_context s11)))) = Some w \<and>
    (\<forall>r\<in>guest_kept. rget r w = f r) \<and> rget t3 w = v \<and> rv_mem w = tlb_insert table a v m \<and>
    (\<forall>(p, n)\<in>R. far_apart ctx 0xF8 p n \<longrightarrow> same_at p n (rv_mem u) m)"
proof -
  obtain c where c: "rv_seqs (capture_context_tlb s11) u = Some c" "\<forall>r. rget r c = rget r u"
    "changes ctx 0xF8 (rv_mem u) (rv_mem c)" "kept ctx f (rv_mem c)"
    using capture_tlb_run [of u f] assms(5,9-11) by blast
  define d where "d = rset s2 a (rset sp (rget sp c + red_zone) c)"
  have d: "rv_seqs (capture_context_tlb s11 @ [OpImm aADD sp sp red_zone, move s2 t3]) u = Some d"
    "rget s2 d = a" "rget s4 d = table + tlb_offset a" "rget s11 d = ctx" "rv_mem d = rv_mem c"
    using c assms(5-7) by (simp_all add: d_def rv_simps)
  have arg: "rv_seq (move a1 s2) t = Some (rset a1 a t)" if "alike R d t" for t
    using alike_saved(1) [OF that] d(2) by simp
  obtain t where t: "Option.bind (log_address logger fmt (move a1 s2) d) (call_codegen tr [move a1 s2]) = Some t"
    "alike R d t" "rget a0 t = v"
    using translation_called [OF assms(1-3) arg] by metis
  have same: "same_at ctx 0xF8 (rv_mem c) (rv_mem t)" "same_at table (16 * tlb_size) (rv_mem c) (rv_mem t)"
    using alike_same [OF t(2)] assms(4) d(5) by auto
  obtain w where w: "rv_seqs (update_tlb_entry @ move t3 a0 # restore_context s11) t = Some w"
    "\<forall>r\<in>guest_kept. rget r w = f r" "rget t3 w = v" "rv_mem w = tlb_insert table a v (rv_mem t)"
    using record_and_restore [of t ctx table a v f] alike_saved [OF t(2)] d t(3) kept_same [OF c(4) same(1)] assms(8) by auto
  have "same_at p n (rv_mem u) (rv_mem t)" if "(p, n) \<in> R" "far_apart ctx 0xF8 p n" for p n
    using changes_same_at [OF c(3) far_outside [OF that(2)]] alike_same [OF t(2) that(1)] d(5) by (metis same_at_trans)
  then show ?thesis
    using d(1) t(1) w by (intro exI [of _ w] exI [of _ "rv_mem t"]) (auto simp: bind_assoc simp del: rv_seqs.simps rv_seqs_append split: bind_splits)
qed

text \<open>
  A branch whose target is in \<open>t3\<close>: the translation of \<open>reroute\<close> is in \<open>t3\<close> at the jump, and the table is the one
  of \<open>reroute\<close>.
\<close>

lemma reroute_dynamic_run:
  assumes "conforms R logger" "conforms R tr" "{(rget s11 s, 0xF8), (rget s9 s, 16 * tlb_size)} \<subseteq> R"
    and "far_apart (rget s11 s) 0xF8 (rget s9 s) (16 * tlb_size)" "a = rget t3 s" "table = rget s9 s"
    and "tlb_lookup table (rv_mem s) a = None \<Longrightarrow> yields tr a v"
  shows "\<exists>w m. reroute_dynamic logger fmt tr s = Some w \<and> (\<forall>r\<in>guest_kept. rget r w = rget r s) \<and>
    (\<forall>(p, n)\<in>R. far_apart (rget s11 s) 0xF8 p n \<longrightarrow> same_at p n (rv_mem s) m) \<and>
    (case tlb_lookup table (rv_mem s) a of
       Some x \<Rightarrow> rget t3 w = x \<and> rv_mem w = m
     | None \<Rightarrow> rget t3 w = v \<and> rv_mem w = tlb_insert table a v m)"
proof -
  let ?ctx = "rget s11 s"
  obtain s1 where s1: "rv_seqs [Store 8 s11 s2 guest_s2_offset, Store 8 s11 s4 guest_s4_offset] s = Some s1"
    "\<forall>r. rget r s1 = rget r s" "changes ?ctx 0xF8 (rv_mem s) (rv_mem s1)"
    "mload 8 (rv_mem s1) (?ctx + 0x88) = rget s2 s" "mload 8 (rv_mem s1) (?ctx + 0x98) = rget s4 s"
    using save_run [of s] by blast
  have tab: "same_at p n (rv_mem s) (rv_mem s1)" if "far_apart ?ctx 0xF8 p n" for p n
    using changes_same_at [OF s1(3) far_outside [OF that]] .
  obtain u where u: "compute_tlb_address s1 = Some (tlb_lookup table (rv_mem s) a \<noteq> None, u)" "keeps {t0, s2, s4} s1 u"
    "rget s4 u = table + tlb_offset a"
    "case tlb_lookup table (rv_mem s) a of Some x \<Rightarrow> rget s2 u = x | None \<Rightarrow> rget s2 u = rget s2 s1"
    using compute_tlb_address_lookup [of s1] s1(2) lookup_same_at [OF tab [OF assms(4)]] assms(5,6) by auto
  have "rget r u = rget r s" if "r \<notin> {t0, s2, s4}" for r
    using u(2) s1(2) that by (simp add: keeps_def)
  moreover have "r \<noteq> t0" if "r \<in> guest_kept" for r
    using that guest_kept_cases(2) by metis
  ultimately have regs: "\<forall>r\<in>guest_kept. r \<notin> {s2, s4} \<longrightarrow> rget r u = rget r s" "rget s11 u = ?ctx" "rget t3 u = a" "rv_mem u = rv_mem s1"
    using u(2) assms(5) by (simp_all add: keeps_def)
  show ?thesis
  proof (cases "tlb_lookup table (rv_mem s) a")
    case None
    have sub: "{(?ctx, 0xF8), (table, 16 * tlb_size)} \<subseteq> R" and far: "far_apart ?ctx 0xF8 table (16 * tlb_size)"
      using assms(3,4,6) by simp_all
    have kept: "mload 8 (rv_mem u) (?ctx + 0x88) = rget s2 s" "mload 8 (rv_mem u) (?ctx + 0x98) = rget s4 s"
      using s1(4,5) regs(4) by simp_all
    obtain w m where w: "Option.bind (rv_seqs (capture_context_tlb s11 @ [OpImm aADD sp sp red_zone, move s2 t3]) u) (\<lambda>s.
        Option.bind (log_address logger fmt (move a1 s2) s) (\<lambda>s.
        Option.bind (call_codegen tr [move a1 s2] s)
          (rv_seqs (update_tlb_entry @ move t3 a0 # restore_context s11)))) = Some w"
      "\<forall>r\<in>guest_kept. rget r w = rget r s" "rget t3 w = v" "rv_mem w = tlb_insert table a v m"
      "\<forall>(p, n)\<in>R. far_apart ?ctx 0xF8 p n \<longrightarrow> same_at p n (rv_mem u) m"
      using miss_run [OF assms(1,2) assms(7) [OF None] sub regs(2) [symmetric] regs(3) [symmetric] u(3) far,
          where f = "\<lambda>r. rget r s", OF kept regs(1)] by blast
    have "\<forall>(p, n)\<in>R. far_apart ?ctx 0xF8 p n \<longrightarrow> same_at p n (rv_mem s) m"
    proof clarify
      fix p n assume pn: "(p, n) \<in> R" "far_apart ?ctx 0xF8 p n"
      then have "same_at p n (rv_mem s1) m"
        using w(5) unfolding regs(4) by blast
      then show "same_at p n (rv_mem s) m"
        by (rule same_at_trans [OF tab [OF pn(2)]])
    qed
    then show ?thesis
      using s1(1) u(1) None w(1-4)
      by (intro exI [of _ w] exI [of _ m]) (simp add: reroute_dynamic_def del: rv_seqs.simps rv_seqs_append)
  next
    case (Some x)
    obtain w where w: "rv_seqs [move t3 s2, Load 8 False s2 s11 guest_s2_offset, Load 8 False s4 s11 guest_s4_offset] u = Some w"
      "\<forall>r\<in>guest_kept. rget r w = rget r s" "rget t3 w = rget s2 u" "rv_mem w = rv_mem u"
      using hit_run [of u "\<lambda>r. rget r s"] regs s1 by auto
    then show ?thesis
      using s1(1) u(1,4) Some tab unfolding regs(4)
      by (intro exI [of _ w] exI [of _ "rv_mem s1"]) (auto simp: reroute_dynamic_def simp del: rv_seqs.simps rv_seqs_append)
  qed
qed

section \<open>Returns\<close>

text \<open>A miss of a return, whose call entry is at \<open>e\<close>: the translated address is written into the entry, too.\<close>

lemma miss_return_run:
  assumes "conforms R logger" "conforms R tr" "yields tr a v" "{(ctx, 0xF8), (table, 16 * tlb_size), (e, 16)} \<subseteq> R"
    and "ctx = rget s11 u" "e = rget t1 u" "a = mload 8 (rv_mem u) e" "rget s4 u = table + tlb_offset a"
    and "far_apart ctx 0xF8 table (16 * tlb_size)" "far_apart ctx 0xF8 e 16" "far_apart table (16 * tlb_size) e 16"
    and "mload 8 (rv_mem u) (ctx + 0x88) = f s2" "mload 8 (rv_mem u) (ctx + 0x98) = f s4"
    and "\<forall>r\<in>guest_kept. r \<notin> {s2, s4} \<longrightarrow> rget r u = f r"
  shows "\<exists>w m. Option.bind (rv_seqs (capture_context_tlb s11 @ [OpImm aADD sp sp red_zone, move s2 t1]) u) (\<lambda>s.
      Option.bind (log_address logger fmt (Load 8 False a1 s2 0) s) (\<lambda>s.
      Option.bind (call_codegen tr [Load 8 False a1 s2 0] s)
        (rv_seqs ([Store 8 s2 a0 8, Load 8 False s2 s2 0] @ update_tlb_entry @ move t3 a0 # restore_context s11)))) = Some w \<and>
    (\<forall>r\<in>guest_kept. rget r w = f r) \<and> rget t3 w = v \<and> mload 8 (rv_mem w) e = a \<and> mload 8 (rv_mem w) (e + 8) = v \<and>
    rv_mem w = tlb_insert table a v m \<and> same_at table (16 * tlb_size) (rv_mem u) m"
proof -
  obtain c where c: "rv_seqs (capture_context_tlb s11) u = Some c" "\<forall>r. rget r c = rget r u"
    "changes ctx 0xF8 (rv_mem u) (rv_mem c)" "kept ctx f (rv_mem c)"
    using capture_tlb_run [of u f] assms(5,12-14) by blast
  define d where "d = rset s2 e (rset sp (rget sp c + red_zone) c)"
  have d: "rv_seqs (capture_context_tlb s11 @ [OpImm aADD sp sp red_zone, move s2 t1]) u = Some d"
    "rget s2 d = e" "rget s4 d = table + tlb_offset a" "rget s11 d = ctx" "rv_mem d = rv_mem c"
    using c assms(5,6,8) by (simp_all add: d_def rv_simps)
  have entry: "same_at e 16 (rv_mem u) (rv_mem c)"
    using changes_same_at [OF c(3) far_outside [OF assms(10)]] .
  have e_word: "mload 8 m e = a" if "same_at e 16 (rv_mem d) m" for m
    using same_at_mload [OF same_at_trans [OF entry], of m 0 8] that assms(7) d(5) by simp
  have arg: "rv_seq (Load 8 False a1 s2 0) t = Some (rset a1 a t)" if "alike R d t" for t
  proof -
    have "same_at e 16 (rv_mem d) (rv_mem t)"
      using alike_same [OF that] assms(4) by simp
    then show ?thesis
      using alike_saved(1) [OF that] d(2) e_word by (simp add: rv_simps load_def)
  qed
  obtain t where t: "Option.bind (log_address logger fmt (Load 8 False a1 s2 0) d) (call_codegen tr [Load 8 False a1 s2 0]) = Some t"
    "alike R d t" "rget a0 t = v"
    using translation_called [OF assms(1-3) arg] by metis
  have same: "same_at ctx 0xF8 (rv_mem c) (rv_mem t)" "same_at table (16 * tlb_size) (rv_mem c) (rv_mem t)"
    "same_at e 16 (rv_mem d) (rv_mem t)"
    using alike_same [OF t(2)] assms(4) d(5) by auto
  define x where "x = rset s2 a (store 8 (e + 8) v t)"
  have wr: "changes e 16 (rv_mem t) (rv_mem x)"
    using changes_mono [of e 8 8 _ _ 16] mstore_changes [of "e + 8" 8 "rv_mem t" v] by (simp add: x_def rv_simps)
  have low: "mload 8 (mstore 8 (rv_mem t) (e + 8) v) e = a"
    using mload_changes [OF mstore_changes [of "e + 8" 8 "rv_mem t" v], of e 8] outside_below [of 8 8 e] e_word [OF same(3)] by simp
  have x: "rv_seqs [Store 8 s2 a0 8, Load 8 False s2 s2 0] t = Some x" "rget s11 x = ctx" "rget s4 x = table + tlb_offset a"
    "rget s2 x = a" "rget a0 x = v" "mload 8 (rv_mem x) e = a" "mload 8 (rv_mem x) (e + 8) = v"
    using alike_saved [OF t(2)] d t(3) low by (simp_all add: x_def rv_simps load_def store_def mem_simps)
  have "kept ctx f (rv_mem x)"
    using kept_same [OF kept_same [OF c(4) same(1)]] changes_same_at [OF wr] far_outside assms(10) far_sym by metis
  then obtain w where w: "rv_seqs (update_tlb_entry @ move t3 a0 # restore_context s11) x = Some w"
    "\<forall>r\<in>guest_kept. rget r w = f r" "rget t3 w = v" "rv_mem w = tlb_insert table a v (rv_mem x)"
    using record_and_restore [OF x(2-5) _ assms(9)] by metis
  have tab: "same_at table (16 * tlb_size) (rv_mem u) (rv_mem x)"
    using same_at_trans [OF same_at_trans [OF changes_same_at [OF c(3) far_outside [OF assms(9)]] same(2)]]
      changes_same_at [OF wr] far_outside assms(11) far_sym by metis
  have "same_at e 16 (rv_mem x) (rv_mem w)"
    unfolding w(4) using changes_same_at [OF tlb_insert_table] far_outside assms(11) by metis
  then have "mload 8 (rv_mem w) e = a" "mload 8 (rv_mem w) (e + 8) = v"
    using same_at_mload [of e 16 "rv_mem x" "rv_mem w" 0 8] same_at_mload [of e 16 "rv_mem x" "rv_mem w" 8 8] x(6,7) by simp_all
  moreover have "rv_seqs ([Store 8 s2 a0 8, Load 8 False s2 s2 0] @ update_tlb_entry @ move t3 a0 # restore_context s11) t = Some w"
    unfolding rv_seqs_append [of "[Store 8 s2 a0 8, Load 8 False s2 s2 0]"] x(1) using w(1) by (simp del: rv_seqs.simps rv_seqs_append)
  ultimately show ?thesis
    using d(1) t(1) w(2-) tab
    by (intro exI [of _ w] exI [of _ "rv_mem x"])
      (auto simp: bind_assoc simp del: rv_seqs.simps rv_seqs_append split: bind_splits)
qed

text \<open>
  A return: the registers and the target are right on both ways, but only a miss brings the call entry up to
  date; a hit leaves all of its memory as it was.
\<close>

lemma reroute_return_run:
  assumes "conforms R logger" "conforms R tr" "{(rget s11 s, 0xF8), (table, 16 * tlb_size), (e, 16)} \<subseteq> R"
    and "table = rget s9 s" "e = rget t1 s" "a = mload 8 (rv_mem s) e"
    and "far_apart (rget s11 s) 0xF8 table (16 * tlb_size)" "far_apart (rget s11 s) 0xF8 e 16" "far_apart table (16 * tlb_size) e 16"
    and "tlb_lookup table (rv_mem s) a = None \<Longrightarrow> yields tr a v"
  shows "\<exists>w m. reroute_return logger fmt tr s = Some w \<and> (\<forall>r\<in>guest_kept. rget r w = rget r s) \<and>
    same_at table (16 * tlb_size) (rv_mem s) m \<and>
    (case tlb_lookup table (rv_mem s) a of
       Some x \<Rightarrow> rget t3 w = x \<and> rv_mem w = m \<and> same_at e 16 (rv_mem s) (rv_mem w)
     | None \<Rightarrow> rget t3 w = v \<and> rv_mem w = tlb_insert table a v m \<and> mload 8 (rv_mem w) e = a \<and> mload 8 (rv_mem w) (e + 8) = v)"
proof -
  let ?ctx = "rget s11 s"
  obtain s1 where s1: "rv_seqs [Store 8 s11 s2 guest_s2_offset, Store 8 s11 s4 guest_s4_offset] s = Some s1"
    "\<forall>r. rget r s1 = rget r s" "changes ?ctx 0xF8 (rv_mem s) (rv_mem s1)"
    "mload 8 (rv_mem s1) (?ctx + 0x88) = rget s2 s" "mload 8 (rv_mem s1) (?ctx + 0x98) = rget s4 s"
    using save_run [of s] by blast
  have tab: "same_at table (16 * tlb_size) (rv_mem s) (rv_mem s1)" and ent: "same_at e 16 (rv_mem s) (rv_mem s1)"
    using changes_same_at [OF s1(3) far_outside] assms(7,8) by simp_all
  have a: "mload 8 (rv_mem s1) e = a"
    using same_at_mload [OF ent, of 0 8] assms(6) by simp
  define s3 where "s3 = rset t3 a s1"
  have s3: "rv_seqs [Store 8 s11 s2 guest_s2_offset, Store 8 s11 s4 guest_s4_offset, Load 8 False t3 t1 0] s = Some s3"
    using s1(1,2) a assms(5) rv_seqs_append [of "[Store 8 s11 s2 guest_s2_offset, Store 8 s11 s4 guest_s4_offset]" "[Load 8 False t3 t1 0]" s]
    by (simp add: s3_def rv_simps load_def)
  have regs3: "rget r s3 = rget r s" if "r \<noteq> t3" for r
    using that s1(2) by (simp add: s3_def rv_simps)
  have s3m: "rget t3 s3 = a" "rget s9 s3 = table" "rv_mem s3 = rv_mem s1"
    using assms(4) s1(2) by (simp_all add: s3_def rv_simps)
  obtain u where u: "compute_tlb_address s3 = Some (tlb_lookup table (rv_mem s) a \<noteq> None, u)" "keeps {t0, s2, s4} s3 u"
    "rget s4 u = table + tlb_offset a"
    "case tlb_lookup table (rv_mem s) a of Some x \<Rightarrow> rget s2 u = x | None \<Rightarrow> rget s2 u = rget s2 s3"
    using compute_tlb_address_lookup [of s3] lookup_same_at [OF tab] unfolding s3m by auto
  have "rget r u = rget r s" if "r \<notin> {t0, s2, s4, t3}" for r
    using u(2) regs3 that by (simp add: keeps_def)
  moreover have "r \<noteq> t0 \<and> r \<noteq> t3" if "r \<in> guest_kept" for r
    using that guest_kept_cases(1,2) by metis
  ultimately have regs: "\<forall>r\<in>guest_kept. r \<notin> {s2, s4} \<longrightarrow> rget r u = rget r s" "rget s11 u = ?ctx" "rget t1 u = e" "rv_mem u = rv_mem s1"
    using u(2) assms(5) s3m(3) by (simp_all add: keeps_def)
  have kept: "mload 8 (rv_mem u) (?ctx + 0x88) = rget s2 s" "mload 8 (rv_mem u) (?ctx + 0x98) = rget s4 s"
    using s1(4,5) regs(4) by simp_all
  show ?thesis
  proof (cases "tlb_lookup table (rv_mem s) a")
    case None
    have au: "a = mload 8 (rv_mem u) e"
      using a regs(4) by simp
    show ?thesis
      using miss_return_run [OF assms(1,2) assms(10) [OF None] assms(3) regs(2) [symmetric] regs(3) [symmetric] au u(3) assms(7-9),
          where f = "\<lambda>r. rget r s" and fmt = fmt, OF kept regs(1)] s3 u(1) None same_at_trans [OF tab] regs(4)
      by (auto simp: reroute_return_def simp del: rv_seqs.simps rv_seqs_append)
  next
    case (Some x)
    then have "rget s2 u = x"
      using u(4) by simp
    then have "\<exists>w. rv_seqs [move t3 s2, Load 8 False s2 t1 8, Load 8 False s2 s11 guest_s2_offset,
          Load 8 False s4 s11 guest_s4_offset] u = Some w \<and> (\<forall>r\<in>guest_kept. rget r w = rget r s) \<and> rget t3 w = x \<and> rv_mem w = rv_mem u"
      using regs kept guest_kept_cases by (simp add: offset_defs rv_simps load_def)
    then show ?thesis
      using s3 u(1) Some tab ent regs(4) by (auto simp: reroute_return_def simp del: rv_seqs.simps rv_seqs_append)
  qed
qed

section \<open>Static branches\<close>

text \<open>The end of a static branch: the block that ended with it, at \<open>s1\<close>, is brought up to date.\<close>

lemma update_run:
  assumes "conforms R upd" "(ctx, 0xF8) \<in> R" "rget s11 s = ctx" "kept ctx f (rv_mem s)"
  shows "\<exists>x y w. Option.bind (call_codegen upd [move a1 s1, move a2 s2] s) (rv_seqs (move t3 s2 # restore_context s11)) = Some w \<and>
    upd x = Some y \<and> rget a1 x = rget s1 s \<and> rget a2 x = rget s2 s \<and> rv_mem x = rv_mem s \<and> rv_mem w = rv_mem y \<and>
    (\<forall>r\<in>guest_kept. rget r w = f r) \<and> rget t3 w = rget s2 s"
proof -
  define x where "x = rset a2 (rget s2 s) (rset a1 (rget s1 s) (rset a0 (load 8 (ctx + codegen_offset) s) s))"
  have x: "rget a1 x = rget s1 s" "rget a2 x = rget s2 s" "rv_mem x = rv_mem s" "alike R s x"
    by (simp_all add: x_def rv_simps)
  obtain y where y: "upd x = Some y" "alike R x y"
    using conforms_call [OF assms(1)] by metis
  have sy: "alike R s y"
    by (rule alike_trans [OF x(4) y(2)])
  let ?y = "rset t3 (rget s2 s) y"
  have "kept (rget s11 ?y) f (rv_mem ?y)"
    using kept_same [OF assms(4) alike_same [OF sy assms(2)]] alike_saved(3) [OF sy] assms(3) by (simp add: rv_simps)
  then obtain w where w: "rv_seqs (restore_context s11) ?y = Some w" "rv_mem w = rv_mem ?y"
    "\<forall>r. rget r w = (if r \<in> guest_kept then f r else rget r ?y)"
    using kept_restore by metis
  have "call_codegen upd [move a1 s1, move a2 s2] s = upd x"
    using assms(3) by (simp add: call_codegen_def load_extend_def x_def rv_simps)
  moreover have "rv_seqs (move t3 s2 # restore_context s11) y = Some w"
    using w(1) alike_saved(1) [OF sy] by simp
  moreover have "rget t3 w = rget s2 s" "\<forall>r\<in>guest_kept. rget r w = f r" "rv_mem w = rv_mem y"
    using w(2,3) guest_kept_cases(1) by (simp_all add: rv_simps)
  ultimately show ?thesis
    using x(1-3) y(1) by (intro exI [of _ x] exI [of _ y] exI [of _ w]) (simp del: rv_seqs.simps)
qed

text \<open>
  A branch with a target known when it was translated: the same target as a dynamic one, and the block of the
  caller is told it.
\<close>

lemma reroute_static_run:
  assumes "conforms R logger" "conforms R tr" "conforms R upd" "{(rget s11 s, 0xF8), (rget s9 s, 16 * tlb_size)} \<subseteq> R"
    and "far_apart (rget s11 s) 0xF8 (rget s9 s) (16 * tlb_size)" "a = rget t3 s" "table = rget s9 s"
    and "tlb_lookup table (rv_mem s) a = None \<Longrightarrow> yields tr a v"
    and "target = (case tlb_lookup table (rv_mem s) a of Some x \<Rightarrow> x | None \<Rightarrow> v)"
  shows "\<exists>x y w. reroute_static logger fmt tr upd s = Some w \<and> (\<forall>r\<in>guest_kept. rget r w = rget r s) \<and> rget t3 w = target \<and>
    upd x = Some y \<and> rget a1 x = rget ra s \<and> rget a2 x = target \<and> rv_mem w = rv_mem y \<and>
    tlb_lookup table (rv_mem x) a = Some target"
proof -
  let ?ctx = "rget s11 s" and ?f = "\<lambda>r. rget r s"
  obtain c where c: "rv_seqs (capture_context s11) s = Some c" "\<forall>r. rget r c = rget r s"
    "changes ?ctx 0xF8 (rv_mem s) (rv_mem c)" "kept ?ctx ?f (rv_mem c)"
    using capture_run [of s] by blast
  define d where "d = rset sp (rget sp c + red_zone) (rset s1 (rget ra c) c)"
  have d: "rv_seqs (capture_context s11 @ [move s1 ra, OpImm aADD sp sp red_zone]) s = Some d"
    "rget s1 d = rget ra s" "rget s11 d = ?ctx" "rget s9 d = table" "rget t3 d = a" "rv_mem d = rv_mem c"
    using c assms(6,7) by (simp_all add: d_def rv_simps)
  have tab: "same_at table (16 * tlb_size) (rv_mem s) (rv_mem c)"
    using changes_same_at [OF c(3) far_outside [OF assms(5)]] assms(7) by simp
  obtain u where u: "compute_tlb_address d = Some (tlb_lookup table (rv_mem s) a \<noteq> None, u)" "keeps {t0, s2, s4} d u"
    "rget s4 u = table + tlb_offset a"
    "case tlb_lookup table (rv_mem s) a of Some x \<Rightarrow> rget s2 u = x | None \<Rightarrow> rget s2 u = rget s2 d"
    using compute_tlb_address_lookup [of d] lookup_same_at [OF tab] unfolding d by auto
  have regs: "rget s1 u = rget ra s" "rget s11 u = ?ctx" "rget t3 u = a" "rv_mem u = rv_mem c"
    using u(2) d by (simp_all add: keeps_def)
  obtain z where z: "(if tlb_lookup table (rv_mem s) a \<noteq> None then Some u
        else Option.bind (rv_seqs [move s2 t3] u) (\<lambda>s.
          Option.bind (log_address logger fmt (move a1 s2) s) (\<lambda>s.
          Option.bind (call_codegen tr [move a1 s2] s)
            (rv_seqs (update_tlb_entry @ [move s2 a0]))))) = Some z"
    "rget s1 z = rget ra s" "rget s11 z = ?ctx" "rget s2 z = target" "kept ?ctx ?f (rv_mem z)"
    "tlb_lookup table (rv_mem z) a = Some target"
  proof (cases "tlb_lookup table (rv_mem s) a")
    case None
    define e where "e = rset s2 a u"
    have e: "rv_seqs [move s2 t3] u = Some e" "rget s2 e = a" "rget s1 e = rget ra s" "rget s11 e = ?ctx"
      "rget s4 e = table + tlb_offset a" "rv_mem e = rv_mem c"
      using regs u(3) by (simp_all add: e_def rv_simps)
    have arg: "rv_seq (move a1 s2) t = Some (rset a1 a t)" if "alike R e t" for t
      using alike_saved(1) [OF that] e(2) by simp
    obtain t where t: "Option.bind (log_address logger fmt (move a1 s2) e) (call_codegen tr [move a1 s2]) = Some t"
      "alike R e t" "rget a0 t = v"
      using translation_called [OF assms(1,2) assms(8) [OF None] arg] by metis
    have kept: "kept ?ctx ?f (rv_mem t)"
      using kept_same [OF c(4)] alike_same [OF t(2)] assms(4) e(6) by auto
    define z where "z = rset s2 v (t\<lparr>rv_mem := tlb_insert table a v (rv_mem t)\<rparr>)"
    have z: "rv_seqs (update_tlb_entry @ [move s2 a0]) t = Some z"
      using update_tlb_entry_insert [of t table] alike_saved [OF t(2)] e t(3) by (simp add: z_def)
    have "same_at ?ctx 0xF8 (rv_mem t) (tlb_insert table a v (rv_mem t))"
      using tlb_insert_table far_outside assms(5,7) far_sym by (blast intro: changes_same_at)
    then have "kept ?ctx ?f (rv_mem z)"
      using kept_same [OF kept] by (simp add: z_def rv_simps)
    moreover have "rget s1 z = rget ra s" "rget s11 z = ?ctx" "rget s2 z = target"
      using alike_saved [OF t(2)] e(3,4) None assms(9) by (simp_all add: z_def rv_simps)
    moreover have "tlb_lookup table (rv_mem z) a = Some target"
      using None assms(9) by (simp add: z_def rv_simps tlb_lookup_def Let_def tlb_insert_same)
    moreover have "Option.bind (log_address logger fmt (move a1 s2) e) (\<lambda>s.
        Option.bind (call_codegen tr [move a1 s2] s) (rv_seqs (update_tlb_entry @ [move s2 a0]))) = Some z"
      using t(1) z by (auto simp: bind_assoc simp del: rv_seqs.simps rv_seqs_append split: bind_splits)
    ultimately show thesis
      using that [of z] None e(1) by (simp del: rv_seqs.simps rv_seqs_append)
  next
    case (Some x)
    show thesis
      using that [of u] Some regs u(4) assms(9) c(4) lookup_same_at [OF tab] by simp
  qed
  obtain x y w where "Option.bind (call_codegen upd [move a1 s1, move a2 s2] z) (rv_seqs (move t3 s2 # restore_context s11)) = Some w"
    "upd x = Some y" "rget a1 x = rget s1 z" "rget a2 x = rget s2 z" "rv_mem x = rv_mem z" "rv_mem w = rv_mem y"
    "\<forall>r\<in>guest_kept. rget r w = rget r s" "rget t3 w = rget s2 z"
    using update_run [OF assms(3) _ z(3,5)] assms(4) by auto
  moreover from this(1) have "reroute_static logger fmt tr upd s = Some w"
    using d(1) u(1) z(1) by (simp add: reroute_static_def del: rv_seqs.simps rv_seqs_append)
  ultimately show ?thesis
    using z by (intro exI [of _ x] exI [of _ y] exI [of _ w]) simp
qed

section \<open>Entering and leaving the guest\<close>

lemma restore_from_t0:
  assumes "kept (rget t0 u) f (rv_mem u)"
  shows "\<exists>w. rv_seqs (restore_context t0) u = Some w \<and> rv_mem w = rv_mem u \<and>
    (\<forall>r. rget r w = (if r \<in> guest_kept then f r else rget r u))"
  using assms by (simp add: kept_def guest_kept_def restore_context_def restore_slots_def rv_simps load_def)

text \<open>The registers of the host are in the second part of the context when the guest starts.\<close>

lemma enter_run:
  "\<exists>t. rv_seqs enter_code s = Some t \<and> rget t0 t = rget a0 s \<and> rget t3 t = rget a1 s \<and>
    changes (rget a0 s + host_offset) 0xF8 (rv_mem s) (rv_mem t) \<and>
    kept (rget a0 s + host_offset) (\<lambda>r. if r = a0 then rget a0 s + host_offset else rget r s) (rv_mem t)"
proof -
  define u where "u = rset a0 (rget a0 s + host_offset) (rset t3 (rget a1 s) (rset t0 (rget a0 s) s))"
  have u: "rv_seqs enter_code s = rv_seqs (capture_context a0) u"
    by (simp add: enter_code_def u_def rv_simps offset_defs rset_commute)
  have c: "capture_context a0 = map (\<lambda>(r, off). Store 8 a0 r off) (tlb_slots @ [(s2, 0x88), (s4, 0x98)])"
    by (simp add: capture_context_def capture_context_tlb_def)
  obtain t where t: "rv_seqs (capture_context a0) u = Some t" "\<forall>r. rget r t = rget r u"
    "changes (rget a0 u) 0xF8 (rv_mem u) (rv_mem t)"
    using stores_run [of "tlb_slots @ [(s2, 0x88), (s4, 0x98)]" "0xF8" a0 u] slots_bounded unfolding c by auto
  have "\<exists>t. rv_seqs (capture_context a0) u = Some t \<and> (\<forall>(r, off)\<in>set restore_slots. load 8 (rget a0 u + off) t = rget r u)"
    by (simp add: capture_context_def capture_context_tlb_def tlb_slots_def restore_slots_def rv_simps
      load_store_same load_store_apart_numeral load_store_apart [of "numeral j" n 0 for j n, simplified])
  then have "kept (rget a0 u) (\<lambda>r. rget r u) (rv_mem t)"
    using t(1) by (auto simp: kept_def load_def)
  moreover have "rget r u = (if r = a0 then rget a0 s + host_offset else rget r s)" if "r \<in> guest_kept" for r
    using that guest_kept_cases(1,2) by (auto simp: u_def rv_simps)
  ultimately have "kept (rget a0 u) (\<lambda>r. if r = a0 then rget a0 s + host_offset else rget r s) (rv_mem t)"
    by (force simp: kept_def guest_kept_def)
  then show ?thesis
    using u t by (simp add: u_def rv_simps)
qed

text \<open>The routine that leaves the guest restores the host's registers, for the caller of \<open>guest_enter\<close>.\<close>

lemma exit_run:
  assumes "rv_seqs enter_code s = Some t" "rget s11 u = rget a0 s"
    and "same_at (rget a0 s + host_offset) 0xF8 (rv_mem t) (rv_mem u)"
  shows "\<exists>w. rv_seqs guest_exit u = Some w \<and> (\<forall>r\<in>guest_kept. rget r w = (if r = a0 then rget a0 u else rget r s)) \<and>
    rv_mem w = mstore 8 (rv_mem u) (rget a2 s) 0"
    "\<exists>w. rv_seqs guest_fault u = Some w \<and> (\<forall>r\<in>guest_kept. rget r w = (if r = a0 then rget a1 u else rget r s)) \<and>
    rv_mem w = mstore 8 (rv_mem u) (rget a2 s) (rget a0 u)"
proof -
  let ?f = "\<lambda>r. if r = a0 then rget a0 s + host_offset else rget r s"
  have host: "kept (rget s11 u + host_offset) ?f (rv_mem u)"
    using enter_run [of s] assms kept_same by auto
  have slots: "a0 \<in> guest_kept" "a1 \<in> guest_kept" "a2 \<in> guest_kept" "t1 \<notin> guest_kept" "t2 \<notin> guest_kept"
    by (auto simp: guest_kept_def restore_slots_def)
  let ?u = "rset t0 (rget s11 u + host_offset) (rset t1 (rget a0 u) u)"
  obtain v where v: "rv_seqs (restore_context t0) ?u = Some v" "rv_mem v = rv_mem u"
    "\<forall>r. rget r v = (if r \<in> guest_kept then ?f r else rget r ?u)"
    using restore_from_t0 [of ?u ?f] host by (auto simp: rv_simps)
  have "rv_seqs guest_exit u = rv_seqs [Op aXOR t2 t2 t2, Store 8 a2 t2 0, move a0 t1] v"
    using v(1) by (simp add: guest_exit_def rv_simps)
  then show "\<exists>w. rv_seqs guest_exit u = Some w \<and> (\<forall>r\<in>guest_kept. rget r w = (if r = a0 then rget a0 u else rget r s)) \<and>
    rv_mem w = mstore 8 (rv_mem u) (rget a2 s) 0"
    using v(2,3) slots by (auto simp: rv_simps)
  let ?x = "rset t0 (rget s11 u + host_offset) (rset t2 (rget a1 u) (rset t1 (rget a0 u) u))"
  obtain y where y: "rv_seqs (restore_context t0) ?x = Some y" "rv_mem y = rv_mem u"
    "\<forall>r. rget r y = (if r \<in> guest_kept then ?f r else rget r ?x)"
    using restore_from_t0 [of ?x ?f] host by (auto simp: rv_simps)
  have "rv_seqs guest_fault u = rv_seqs [Store 8 a2 t1 0, move a0 t2] y"
    using y(1) by (simp add: guest_fault_def rv_simps)
  then show "\<exists>w. rv_seqs guest_fault u = Some w \<and> (\<forall>r\<in>guest_kept. rget r w = (if r = a0 then rget a1 u else rget r s)) \<and>
    rv_mem w = mstore 8 (rv_mem u) (rget a2 s) (rget a0 u)"
    using y(2,3) slots by (auto simp: rv_simps)
qed

text \<open>The two parts of the context do not overlap.\<close>

lemma parts_far: "far_apart ctx 0xF8 (ctx + host_offset) 0xF8"
  unfolding far_apart_def
proof (intro allI impI)
  fix i j :: nat assume ij: "i < 0xF8" "j < 0xF8"
  then have "unat (of_nat i :: u64) = i" "unat (of_nat (0xF8 + j) :: u64) = 0xF8 + j"
    by (simp_all add: unat_of_nat del: of_nat_add)
  then have "(of_nat i :: u64) \<noteq> of_nat (0xF8 + j)"
    using ij by (metis not_add_less1)
  then show "ctx + of_nat i \<noteq> ctx + host_offset + of_nat j"
    by (simp add: offset_defs add.assoc)
qed

lemma guest_enter_run:
  assumes "conforms R logger" "conforms R tr" "{(ctx, 0xF8), (ctx + host_offset, 0xF8), (table, 16 * tlb_size)} \<subseteq> R"
    and "ctx = rget a0 s" "kept ctx f (rv_mem s)" "f s11 = ctx" "f s9 = table" "a = rget a1 s"
    and "far_apart ctx 0xF8 table (16 * tlb_size)" "far_apart (ctx + host_offset) 0xF8 table (16 * tlb_size)"
    and "tlb_lookup table (rv_mem s) a = None" "yields tr a v"
  shows "\<exists>w t. guest_enter logger fmt here tr s = Some w \<and> (\<forall>r\<in>guest_kept. rget r w = (if r = ra then here else f r)) \<and>
    rget t3 w = v \<and> tlb_lookup table (rv_mem w) a = Some v \<and>
    rv_seqs enter_code s = Some t \<and> same_at (ctx + host_offset) 0xF8 (rv_mem t) (rv_mem w)"
proof -
  obtain t where t: "rv_seqs enter_code s = Some t" "rget t0 t = ctx" "rget t3 t = a"
    "changes (ctx + host_offset) 0xF8 (rv_mem s) (rv_mem t)"
    using enter_run [of s] assms(4,8) by blast
  have "kept (rget t0 t) f (rv_mem t)"
    using kept_same [OF assms(5)] changes_same_at [OF t(4)] far_outside parts_far far_sym t(2) by metis
  then obtain u where u: "rv_seqs (restore_context t0) t = Some u" "rv_mem u = rv_mem t"
    "\<forall>r. rget r u = (if r \<in> guest_kept then f r else rget r t)"
    using restore_from_t0 by metis
  let ?u = "rset ra here u"
  have regs: "rget s11 ?u = ctx" "rget s9 ?u = table" "rget t3 ?u = a" "rv_mem ?u = rv_mem t"
    using u guest_kept_cases assms(6,7) t(3) by (simp_all add: rv_simps)
  have kept: "\<forall>r\<in>guest_kept. rget r ?u = (if r = ra then here else f r)"
    using u(3) by (simp add: rv_simps)
  have none: "tlb_lookup table (rv_mem t) a = None"
    using lookup_same_at [OF changes_same_at [OF t(4) far_outside [OF assms(10)]]] assms(11) by simp
  have region: "{(rget s11 ?u, 0xF8), (rget s9 ?u, 16 * tlb_size)} \<subseteq> R"
    "far_apart (rget s11 ?u) 0xF8 (rget s9 ?u) (16 * tlb_size)"
    using assms(3,9) unfolding regs by simp_all
  obtain w m where w: "reroute_dynamic logger fmt tr ?u = Some w" "\<forall>r\<in>guest_kept. rget r w = rget r ?u"
    "\<forall>(p, n)\<in>R. far_apart ctx 0xF8 p n \<longrightarrow> same_at p n (rv_mem t) m" "rget t3 w = v" "rv_mem w = tlb_insert table a v m"
    using reroute_dynamic_run [OF assms(1,2) region regs(3) [symmetric] regs(2) [symmetric] assms(12), of fmt]
    unfolding regs none by auto
  have "same_at (ctx + host_offset) 0xF8 (rv_mem t) m"
    using w(3) assms(3) parts_far by blast
  moreover have "same_at (ctx + host_offset) 0xF8 m (rv_mem w)"
    unfolding w(5) using changes_same_at [OF tlb_insert_table] far_outside assms(10) far_sym by metis
  ultimately have "same_at (ctx + host_offset) 0xF8 (rv_mem t) (rv_mem w)"
    by (rule same_at_trans)
  moreover have "tlb_lookup table (rv_mem w) a = Some v"
    by (simp add: w(5) tlb_lookup_def Let_def tlb_insert_same)
  moreover have "\<forall>r\<in>guest_kept. rget r w = (if r = ra then here else f r)"
    using w(2) kept by simp
  moreover have "guest_enter logger fmt here tr s = Some w"
    using t(1) u(1) w(1) by (simp add: guest_enter_def del: rv_seqs.simps)
  ultimately show ?thesis
    using t(1) w(4) by blast
qed

end
