(* ===== verification/Debugger.thy ===== *)
theory Debugger
  imports CodeStore CodeBatch Syscalls
begin

text \<open>
  The debugger (\<^verbatim>\<open>debugger/debugger.{h,cpp}\<close>, \<^verbatim>\<open>debugger.inc.s\<close>): the batch that places calls of the
  debugger before every host instruction, the translated blocks in order, the break points, and the
  decision whether execution halts. A block is what the debugger reads through its pointer into the code
  store; the pointer to the current block, which is renewed whenever the list of blocks changes, is an index.
\<close>

section \<open>The batch\<close>

text \<open>
  \<open>step\<close> is \<^verbatim>\<open>Debugger::step_riscv()\<close>. The buffer is the one of \<open>CodeBatchImpl\<close>, without its check of the
  bounds; the call that is added first, with \<^verbatim>\<open>_adding_jump\<close> set, is one instruction.
\<close>

definition DebuggerBatch_put :: "u32 \<Rightarrow> CodeBatchImpl \<Rightarrow> fault + (nat \<times> CodeBatchImpl)" where
  "DebuggerBatch_put inst b =
    (if impl_count b < max_riscv_instructions then
       Inr (impl_count b, b\<lparr>impl_riscv := (impl_riscv b)[impl_count b := inst], impl_count := impl_count b + 1\<rparr>)
     else Inl Undefined_behaviour)"

definition DebuggerBatch_add :: "bool \<Rightarrow> u32 \<Rightarrow> CodeBatchImpl \<Rightarrow> fault + (nat \<times> CodeBatchImpl)" where
  "DebuggerBatch_add step inst b =
    (if step \<and> impl_count b > 1 then
       and_then (DebuggerBatch_put (JALR ra jump_table_address (Entry_debug_callback_riscv * 4)) b)
         (\<lambda>(i, b). DebuggerBatch_put inst b)
     else DebuggerBatch_put inst b)"

definition DebuggerBatch_offset :: "bool \<Rightarrow> nat \<Rightarrow> nat \<Rightarrow> int" where
  "DebuggerBatch_offset step start end =
    (if step then
       if start = end then 0
       else if odd start then
         (if odd end then int end - int start - 1 else int end - int start)
       else if odd end then
         (if end > start then int end - int start - 1 else int end - int start - 2)
       else int end - int start - 1
     else int end - int start)"

section \<open>The state\<close>

text \<open>The members of a block, the sizes of its instructions in the guest and on the host among them.\<close>

record code_block =
  cb_start :: u64
  cb_end :: u64
  cb_riscv :: u64
  cb_offsets :: "(u64 \<times> u64) list"

definition code_block_of :: "allocators \<Rightarrow> CodeStore \<Rightarrow> pointer \<Rightarrow> code_block" where
  "code_block_of al st p = (let b = block st p in
     \<lparr>cb_start = x86_start b, cb_end = x86_end b, cb_riscv = host_address al (riscv_start b),
       cb_offsets = map (\<lambda>e. (ucast (io_x86 e), ucast (io_riscv e))) (block_offsets st b)\<rparr>)"

record debug_block =
  db_entry :: code_block
  db_riscv_end :: u64

text \<open>The bits of the state.\<close>

definition ds_init :: u32 where "ds_init = 0x0001"
definition ds_await_sob :: u32 where "ds_await_sob = 0x0004"
definition ds_await_eob :: u32 where "ds_await_eob = 0x0008"
definition ds_await_counter :: u32 where "ds_await_counter = 0x0010"
definition ds_await_step :: u32 where "ds_await_step = 0x0020"
definition ds_await :: u32 where "ds_await = 0x003c"
definition ds_temp_break :: u32 where "ds_temp_break = 0x0040"
definition ds_search_signal :: u32 where "ds_search_signal = 0x0080"
definition ds_reg_riscv :: u32 where "ds_reg_riscv = 0x0100"
definition ds_reg_dec :: u32 where "ds_reg_dec = 0x0200"
definition ds_print_reg :: u32 where "ds_print_reg = 0x0400"
definition ds_print_asm :: u32 where "ds_print_asm = 0x0800"
definition ds_print_flags :: u32 where "ds_print_flags = 0x1000"
definition ds_print_bp :: u32 where "ds_print_bp = 0x2000"
definition ds_print_stack :: u32 where "ds_print_stack = 0x4000"
definition ds_print_blocks :: u32 where "ds_print_blocks = 0x8000"

lemmas ds_defs = ds_init_def ds_await_sob_def ds_await_eob_def ds_await_counter_def ds_await_step_def ds_await_def
  ds_temp_break_def ds_search_signal_def ds_reg_riscv_def ds_reg_dec_def ds_print_reg_def ds_print_asm_def
  ds_print_flags_def ds_print_bp_def ds_print_stack_def ds_print_blocks_def

record Debugger =
  bp_count :: nat
  dbg_halt :: bool
  dbg_step_riscv :: bool
  signal_address :: u64
  exec_count_riscv :: u64
  exec_count_x86 :: u64
  signal_registers :: "RiscVRegister \<Rightarrow> u64"
  bp_array :: "u64 list"
  bp_x86_array :: "u64 list"
  dbg_state :: u32
  run_break :: u64
  current_block :: "nat option"
  current_index :: nat
  dbg_blocks :: "debug_block list"
  riscv_enabled :: bool
  stack_low :: u64
  stack_high :: u64
  inst_limit :: u16
  stack_limit :: u16

definition halt_break :: u64 where "halt_break = 0x0400"
definition halt_riscv :: u64 where "halt_riscv = 0x0600"

text \<open>The registers to show after a signal are not initialised.\<close>

definition Debugger_new :: "bool \<Rightarrow> u64 \<Rightarrow> u64 \<Rightarrow> (RiscVRegister \<Rightarrow> u64) \<Rightarrow> Debugger" where
  "Debugger_new enabled low sz regs =
     \<lparr>bp_count = 0, dbg_halt = True, dbg_step_riscv = False, signal_address = 0, exec_count_riscv = - 1,
      exec_count_x86 = - 1, signal_registers = regs, bp_array = replicate 256 0, bp_x86_array = replicate 256 0,
      dbg_state = 0, run_break = 0, current_block = None, current_index = 1, dbg_blocks = [],
      riscv_enabled = enabled, stack_low = low, stack_high = low + sz, inst_limit = 8, stack_limit = 8\<rparr>"

text \<open>\<open>active\<close> is the debugger that exists, if one does.\<close>

definition step_riscv :: "Debugger option \<Rightarrow> bool" where
  "step_riscv active = (case active of None \<Rightarrow> False | Some d \<Rightarrow> riscv_enabled d)"

definition Debugger_insert :: "Debugger option \<Rightarrow> unit gen" where
  "Debugger_insert active = (case active of None \<Rightarrow> skip | Some d \<Rightarrow> jump_debugger)"

section \<open>Break points\<close>

text \<open>
  The place of a break point at \<open>addr\<close> in a block, from the instruction at \<open>x\<close> whose code is at \<open>r\<close> on: the
  instruction that the address lies in, or the last one.
\<close>

fun bp_place :: "u64 \<Rightarrow> u64 \<Rightarrow> u64 \<Rightarrow> (u64 \<times> u64) list \<Rightarrow> (u64 \<times> u64) option" where
  "bp_place addr x r [] = None"
| "bp_place addr x r ((sx, sr) # offs) =
    (if x \<le> addr \<and> addr < x + sx \<or> offs = [] then Some (x, r)
     else bp_place addr (x + sx) (r + sr) offs)"

definition inside_block :: "u64 \<Rightarrow> debug_block \<Rightarrow> bool" where
  "inside_block addr b \<longleftrightarrow> cb_start (db_entry b) \<le> addr \<and> addr < cb_end (db_entry b)"

definition place_in_block :: "u64 \<Rightarrow> debug_block \<Rightarrow> (u64 \<times> u64) option" where
  "place_in_block addr b =
     bp_place addr (cb_start (db_entry b)) (cb_riscv (db_entry b) + 4) (cb_offsets (db_entry b))"

definition set_bp :: "nat \<Rightarrow> u64 \<times> u64 \<Rightarrow> Debugger \<Rightarrow> Debugger" where
  "set_bp i p d = d\<lparr>bp_x86_array := (bp_x86_array d)[i := fst p], bp_array := (bp_array d)[i := snd p]\<rparr>"

definition get_bp :: "nat \<Rightarrow> Debugger \<Rightarrow> u64 \<times> u64" where
  "get_bp i d = (bp_x86_array d ! i, bp_array d ! i)"

text \<open>The loops that close and open a gap; \<open>n\<close> counts the remaining rounds.\<close>

primrec close_gap :: "nat \<Rightarrow> nat \<Rightarrow> Debugger \<Rightarrow> Debugger" where
  "close_gap i 0 d = d"
| "close_gap i (Suc n) d = close_gap (Suc i) n (set_bp i (get_bp (Suc i) d) d)"

primrec open_gap :: "u64 \<Rightarrow> nat \<Rightarrow> Debugger \<Rightarrow> nat \<times> Debugger" where
  "open_gap addr 0 d = (0, d)"
| "open_gap addr (Suc i) d =
    (if bp_x86_array d ! i < addr then (Suc i, d) else open_gap addr i (set_bp (Suc i) (get_bp i d) d))"

text \<open>Whether the entry at \<open>i\<close> is also there before it or, below \<open>n\<close>, after it.\<close>

definition bp_doubled :: "nat \<Rightarrow> nat \<Rightarrow> Debugger \<Rightarrow> bool" where
  "bp_doubled i n d \<longleftrightarrow> (i > 0 \<and> bp_x86_array d ! i = bp_x86_array d ! (i - 1)) \<or>
     (i < n \<and> bp_x86_array d ! i = bp_x86_array d ! (i + 1))"

text \<open>A break point without a place in the code gets one when its block has been translated.\<close>

definition resolve_bp :: "debug_block \<Rightarrow> nat \<Rightarrow> Debugger \<Rightarrow> Debugger" where
  "resolve_bp b i d =
    (let addr = bp_x86_array d ! i in
     if inside_block addr b then
       (case place_in_block addr b of None \<Rightarrow> d | Some p \<Rightarrow> set_bp i p d)
     else d)"

lemma bp_count_resolve [simp]: "bp_count (resolve_bp b i d) = bp_count d"
  by (simp add: resolve_bp_def Let_def set_bp_def split: option.splits)

function update_from :: "debug_block \<Rightarrow> nat \<Rightarrow> Debugger \<Rightarrow> Debugger" where
  "update_from b i d =
    (if i \<ge> bp_count d then d
     else if bp_array d ! i \<noteq> 0 then update_from b (i + 1) d
     else
       let d = resolve_bp b i d in
       if bp_array d ! i = 0 then update_from b (i + 1) d
       else if bp_doubled i (bp_count d - 1) d then
         update_from b i ((close_gap i (bp_count d - i) d)\<lparr>bp_count := bp_count d - 1\<rparr>)
       else update_from b (i + 1) d)"
  by auto
termination
  by (relation "measure (\<lambda>(b, i, d). bp_count d - i)") (auto simp: Let_def)

declare update_from.simps [simp del]

definition update_break_points :: "debug_block \<Rightarrow> Debugger \<Rightarrow> Debugger" where
  "update_break_points b d = update_from b 0 d"

text \<open>The first block from the lowest one on that gives the address a place; the search ends above it.\<close>

fun scan_blocks :: "u64 \<Rightarrow> u64 \<times> u64 \<Rightarrow> debug_block list \<Rightarrow> u64 \<times> u64" where
  "scan_blocks addr p [] = p"
| "scan_blocks addr p (b # bs) =
    (if addr < cb_start (db_entry b) then p
     else if inside_block addr b then
       (let p = (case place_in_block addr b of None \<Rightarrow> p | Some q \<Rightarrow> q) in
        if snd p \<noteq> 0 then p else scan_blocks addr p bs)
     else scan_blocks addr p bs)"

definition insert_break_point :: "u64 \<Rightarrow> bool \<Rightarrow> Debugger \<Rightarrow> bool \<times> Debugger" where
  "insert_break_point addr static_insert d =
    (let (index, d) = (if static_insert then open_gap addr (bp_count d) d else (bp_count d, d));
       d = set_bp index (scan_blocks addr (addr, 0) (dbg_blocks d)) d
     in if static_insert \<and> bp_doubled index (bp_count d) d
        then (False, close_gap index (bp_count d - index) d)
        else (True, d\<lparr>bp_count := bp_count d + 1\<rparr>))"

section \<open>Blocks\<close>

definition riscv_end_of :: "code_block \<Rightarrow> u64" where
  "riscv_end_of b = fold (\<lambda>(sx, sr) r. r + sr) (cb_offsets b) (cb_riscv b)"

text \<open>The new block goes before the first one that starts at a higher address.\<close>

definition end_block :: "code_block \<Rightarrow> Debugger \<Rightarrow> Debugger" where
  "end_block b d =
    (let blocks = dbg_blocks d; entry = \<lparr>db_entry = b, db_riscv_end = riscv_end_of b\<rparr>;
       insert_index = length (takeWhile (\<lambda>e. \<not> cb_start (db_entry e) > cb_start b) blocks);
       appended = (insert_index = length blocks);
       blocks' = take insert_index blocks @ entry # drop insert_index blocks;
       index = (if \<not> appended \<and> insert_index \<ge> current_index d then current_index d + 1 else current_index d);
       d = d\<lparr>dbg_blocks := blocks'\<rparr>;
       d = (if index \<noteq> length blocks' then d\<lparr>current_block := Some index, current_index := index\<rparr>
            else d\<lparr>current_index := length blocks' + 1\<rparr>)
     in update_break_points entry d)"

text \<open>
  The guest address of the instruction whose code the host address lies in. \<open>prev\<close> is the size of the
  instruction before; where there is none, the access is undefined.
\<close>

fun resolve_address :: "u64 \<Rightarrow> u64 \<Rightarrow> u64 \<Rightarrow> u64 option \<Rightarrow> (u64 \<times> u64) list \<Rightarrow> u64 option" where
  "resolve_address addr r x prev [] = map_option (\<lambda>sx. x - sx) prev"
| "resolve_address addr r x prev ((sx, sr) # offs) =
    (if r = addr then Some x
     else if r > addr then map_option (\<lambda>sx. x - sx) prev
     else resolve_address addr (r + sr) (x + sx) (Some sx) offs)"

definition holds_address :: "u64 \<Rightarrow> debug_block \<Rightarrow> bool" where
  "holds_address addr b \<longleftrightarrow> cb_riscv (db_entry b) \<le> addr \<and> addr < db_riscv_end b"

definition find_block :: "u64 \<Rightarrow> Debugger \<Rightarrow> Debugger" where
  "find_block addr d =
    (let d = (case current_block d of
         Some i \<Rightarrow> (if holds_address addr (dbg_blocks d ! i) then d
             else d\<lparr>current_block := None, current_index := length (dbg_blocks d) + 1\<rparr>)
       | None \<Rightarrow> d)
     in if current_block d = None then
          (case find (\<lambda>i. holds_address addr (dbg_blocks d ! i)) [0..<length (dbg_blocks d)] of
             Some i \<Rightarrow> d\<lparr>current_block := Some i, current_index := i\<rparr>
           | None \<Rightarrow> d)
        else d)"

definition resolve_block :: "u64 \<Rightarrow> Debugger \<Rightarrow> (u64 \<times> Debugger) option" where
  "resolve_block addr d =
    (let d = find_block addr d in
     case current_block d of
       None \<Rightarrow> Some (0, d)
     | Some i \<Rightarrow>
        (let b = db_entry (dbg_blocks d ! i) in
         map_option (\<lambda>x. (x, d)) (resolve_address addr (cb_riscv b) (cb_start b) None (cb_offsets b))))"

section \<open>Halting\<close>

definition set_state_bits :: "u32 \<Rightarrow> Debugger \<Rightarrow> Debugger" where
  "set_state_bits bits d = d\<lparr>dbg_state := dbg_state d OR bits\<rparr>"

definition clear_state_bits :: "u32 \<Rightarrow> Debugger \<Rightarrow> Debugger" where
  "clear_state_bits bits d = d\<lparr>dbg_state := dbg_state d AND NOT bits\<rparr>"

definition in_state :: "u32 \<Rightarrow> Debugger \<Rightarrow> bool" where
  "in_state bits d \<longleftrightarrow> dbg_state d AND bits \<noteq> 0"

text \<open>The guest address of the last instruction of a block.\<close>

definition last_instruction :: "code_block \<Rightarrow> u64" where
  "last_instruction b = cb_end b - fst (List.last (cb_offsets b))"

text \<open>The address to halt at, or 0 to continue.\<close>

definition enter_break :: "u64 \<Rightarrow> u64 \<Rightarrow> Debugger \<Rightarrow> (u64 \<times> Debugger) option" where
  "enter_break break_point addr d =
    (let d = (if in_state ds_await_counter d \<and> run_break d > 0 then d\<lparr>run_break := run_break d - 1\<rparr> else d) in
     if in_state ds_await_counter d \<and> run_break d = 0 then resolve_block addr d
     else if in_state ds_await_step d \<or> dbg_step_riscv d \<and> \<not> in_state ds_await_counter d then resolve_block addr d
     else if (break_point \<noteq> halt_break \<or> \<not> in_state ds_init d) \<and>
       (\<not> dbg_step_riscv d \<or> \<not> in_state ds_await_counter d) then resolve_block addr d
     else if in_state ds_await_eob d \<or> in_state ds_await_sob d then
       map_option (\<lambda>(guest, d).
         if guest = 0 then (0, d)
         else
           let b = db_entry (dbg_blocks d ! the (current_block d)) in
           if guest = cb_start b \<and> in_state ds_await_sob d then (guest, d)
           else if guest = last_instruction b \<and> in_state ds_await_eob d then (guest, d)
           else (0, d)) (resolve_block addr d)
     else Some (0, d))"

text \<open>
  The assembly before the entry: it counts the instruction, records the state for a signal, and finds the
  break point at the return address. \<open>None\<close> continues the execution.
\<close>

definition count_entry :: "bool \<Rightarrow> (RiscVRegister \<Rightarrow> u64) \<Rightarrow> Debugger \<Rightarrow> Debugger" where
  "count_entry x86 regs d =
    (let d = d\<lparr>exec_count_x86 := exec_count_x86 d + of_bool x86, exec_count_riscv := exec_count_riscv d + 1\<rparr> in
     if signal_address d = 0 then d else d\<lparr>signal_address := regs ra, signal_registers := regs\<rparr>)"

definition debug_entry :: "(RiscVRegister \<Rightarrow> u64) \<Rightarrow> Debugger \<Rightarrow> u64 option \<times> Debugger" where
  "debug_entry regs d =
    (let d = count_entry True regs d in
     (if dbg_halt d then Some halt_break
      else map_option of_nat (find (\<lambda>i. bp_array d ! i = regs ra) [0..<bp_count d]), d))"

definition debug_entry_riscv :: "(RiscVRegister \<Rightarrow> u64) \<Rightarrow> Debugger \<Rightarrow> u64 option \<times> Debugger" where
  "debug_entry_riscv regs d =
    (let d = count_entry False regs d in (if dbg_step_riscv d then Some halt_riscv else None, d))"

text \<open>What happens at a halt before the first command is read, and after the last one.\<close>

definition reset_waits :: "Debugger \<Rightarrow> Debugger" where
  "reset_waits d =
    (let d = set_state_bits ds_init d;
       d = (if in_state ds_temp_break d
            then d\<lparr>dbg_state := dbg_state d XOR ds_temp_break, bp_count := bp_count d - 1\<rparr> else d)
     in (clear_state_bits ds_await d)\<lparr>dbg_step_riscv := False\<rparr>)"

definition resume :: "Debugger \<Rightarrow> Debugger" where
  "resume d = d\<lparr>dbg_halt := (in_state ds_await d \<or> dbg_step_riscv d)\<rparr>"

end
