(* ===== verification/DebuggerPrint.thy ===== *)
theory DebuggerPrint
  imports Debugger Decoding Dispatcher
begin

text \<open>
  What the debugger prints (\<^verbatim>\<open>debugger/debugger_print.cpp\<close>). The decoder of the guest and its printer, the
  strings and routines behind host addresses, and the image are in the record \<open>debug_host\<close>; memory is that of
  the process. An access outside of an array is \<open>None\<close>.
\<close>

section \<open>Strings\<close>

definition newline :: string where "newline = [CHR 0x0A]"

definition pad_right :: "nat \<Rightarrow> string \<Rightarrow> string" where
  "pad_right n str = str @ replicate (n - length str) CHR '' ''"

definition pad_left :: "nat \<Rightarrow> string \<Rightarrow> string" where
  "pad_left n str = replicate (n - length str) CHR '' '' @ str"

text \<open>Columns of 25 characters, four in a row.\<close>

definition grid :: "string list \<Rightarrow> string" where
  "grid cells =
     concat (map (\<lambda>(i, s). (if i mod 4 = 0 \<and> i > 0 then newline else []) @ pad_right 25 s) (enumerate 0 cells))"

section \<open>Numbers\<close>

definition hex_digit :: "nat \<Rightarrow> char" where
  "hex_digit n = char_of (n + (if n < 10 then 48 else 87))"

definition print_hex :: "u64 \<Rightarrow> string" where
  "print_hex nbr = ''0x'' @ map (\<lambda>i. hex_digit (unat (drop_bit (60 - i * 4) nbr AND 0xf))) [0..<16]"

text \<open>The decimal digits in front of \<open>str\<close>, and how many of the least number of digits are missing.\<close>

fun dec_loop :: "nat \<Rightarrow> u8 \<Rightarrow> string \<Rightarrow> string \<times> u8" where
  "dec_loop n missing str =
    (if n = 0 then (str, missing)
     else dec_loop (n div 10) (if missing > 0 then missing - 1 else missing) (char_of (n mod 10 + 48) # str))"

declare dec_loop.simps [simp del]

definition print_number :: "u64 \<Rightarrow> bool \<Rightarrow> u8 \<Rightarrow> char \<Rightarrow> string" where
  "print_number nbr hex dec_digits dec_pad =
    (if hex then print_hex nbr
     else if nbr AND 0x8000000000000000 \<noteq> 0 then
       (case dec_loop (unat (NOT nbr + 1)) dec_digits [] of (str, missing) \<Rightarrow>
          CHR ''-'' # replicate (unat missing) dec_pad @ str)
     else
       (case (if nbr = 0 then (''0'', dec_digits - 1) else dec_loop (unat nbr) dec_digits []) of (str, missing) \<Rightarrow>
          replicate (unat missing) dec_pad @ str))"

text \<open>The two calls with the usual arguments.\<close>

abbreviation print_address :: "u64 \<Rightarrow> string" where "print_address a \<equiv> print_number a True 1 CHR '' ''"
abbreviation print_decimal :: "u64 \<Rightarrow> string" where "print_decimal a \<equiv> print_number a False 1 CHR '' ''"

section \<open>Registers\<close>

definition riscv_map :: "string list" where
  "riscv_map =
    ['' ra'', '' sp'', '' gp'', '' tp'', '' t0'', '' t1'', '' t2'', '' s0'', '' s1'',
     '' a0'', '' a1'', '' a2'', '' a3'', '' a4'', '' a5'', '' a6'', '' a7'', '' s2'',
     '' s3'', '' s4'', '' s5'', '' s6'', '' s7'', '' s8'', '' s9'', ''s10'', ''s11'',
     '' t3'', '' t4'', '' t5'', '' t6'']"

text \<open>The x86 registers by their numbers, and the members of the context they are kept in.\<close>

definition x86_map :: "(string \<times> RiscVRegister) list" where
  "x86_map =
    [(''rax'', a7), (''rcx'', a6), (''rdx'', a2), (''rbx'', s2), (''rsp'', sp), (''rbp'', s0), (''rsi'', a1),
     (''rdi'', a0), (''r08'', a4), (''r09'', a5), (''r10'', a3), (''r11'', s3), (''r12'', s4), (''r13'', s5),
     (''r14'', s6), (''r15'', s7)]"

definition print_reg :: "bool \<Rightarrow> bool \<Rightarrow> ExecutionContext \<Rightarrow> string" where
  "print_reg hex riscv ctx =
    ''registers:'' @ newline @
    grid (if riscv then
        '' zero-register'' #
        map (\<lambda>(name, r). name @ ''='' @ print_number (get_guest r ctx) hex 1 CHR '' '') (zip riscv_map (tl reg_list))
      else map (\<lambda>(name, r). name @ ''='' @ print_number (get_guest r ctx) hex 1 CHR '' '') x86_map) @
    newline"

section \<open>Flags\<close>

record debug_host =
  dh_decode :: decoder
  dh_format :: "fadec_Instruction \<Rightarrow> string"
  dh_string :: "u64 \<Rightarrow> string"
  dh_callback :: "u64 \<Rightarrow> u64"
  dh_elf :: Elf

text \<open>A member of the flags, of \<open>n\<close> bytes.\<close>

definition flag_member :: "nat \<Rightarrow> nat \<Rightarrow> ExecutionContext \<Rightarrow> u64" where
  "flag_member n off ctx = mload n (ctx_mem ctx) (get_guest guest_context ctx + of_nat off)"

definition guest_registers_state :: "ExecutionContext \<Rightarrow> rv_state" where
  "guest_registers_state ctx = \<lparr>rv_regs = ctx_guest ctx, rv_mem = ctx_mem ctx\<rparr>"

text \<open>
  \<^verbatim>\<open>evaluate_carry\<close> and \<^verbatim>\<open>evaluate_overflow\<close> call the routine of the jump table that the operation at \<open>off\<close>
  names, with the registers of the guest, and return \<open>t4\<close>.
\<close>

definition evaluate_operation :: "nat \<Rightarrow> ExecutionContext \<Rightarrow> u64 option" where
  "evaluate_operation off ctx =
    (let table = get_guest guest_jump_table ctx in
     map_option (rget t4) (jt_env table (table + flag_member 2 off ctx) (guest_registers_state ctx)))"

definition print_flags :: "debug_host \<Rightarrow> ExecutionContext \<Rightarrow> string option" where
  "print_flags h ctx =
    (let zf = (if flag_member 8 zero_value_offset ctx = 0 then ''ZF '' else []);
       sf = (if drop_bit (unat (flag_member 1 sign_size_offset ctx)) (flag_member 8 sign_value_offset ctx) = 1
             then ''SF '' else []);
       parity = flag_member 1 parity_value_offset ctx;
       temp = (parity AND 0x0f) XOR drop_bit 4 parity;
       temp = (temp AND 0x03) XOR drop_bit 2 temp;
       temp = (temp AND 0x01) XOR drop_bit 1 temp;
       pf = (if temp = 0 then ''PF '' else []);
       carry = flag_member 2 carry_operation_offset ctx;
       carry_ptr = flag_member 8 carry_ptr_offset ctx;
       overflow = flag_member 2 overflow_operation_offset ctx;
       overflow_ptr = flag_member 8 overflow_ptr_offset ctx;
       ends = (if carry = ucast (Entry_unsupported_carry * 4) then ''CF: '' @ dh_string h carry_ptr else []);
       ends = (if overflow = ucast (Entry_unsupported_overflow * 4)
               then ends @ (if ends \<noteq> [] then ''; '' else []) @ ''OF: '' @ dh_string h overflow_ptr else ends)
     in Option.bind
         (if carry \<noteq> ucast (Entry_unsupported_carry * 4) \<and> carry = ucast (Entry_high_level_carry * 4) then
            if dh_callback h carry_ptr \<noteq> 0 then Some ''CF ''
            else map_option (\<lambda>v. if v \<noteq> 0 then ''CF '' else []) (evaluate_operation carry_operation_offset ctx)
          else Some [])
         (\<lambda>cf. Option.bind
         (if overflow \<noteq> ucast (Entry_unsupported_overflow * 4) \<and> carry = ucast (Entry_high_level_overflow * 4) then
            if dh_callback h overflow_ptr \<noteq> 0 then Some ''OF ''
            else map_option (\<lambda>v. if v \<noteq> 0 then ''OF '' else []) (evaluate_operation overflow_operation_offset ctx)
          else Some [])
         (\<lambda>ovf. Some (''flags:'' @ newline @ ''  [ '' @ zf @ sf @ pf @ cf @ ovf @ ''] '' @ ends @ newline))))"

section \<open>Break points and blocks\<close>

text \<open>The break points that are shown; a temporary one is the last one.\<close>

definition shown_breaks :: "Debugger \<Rightarrow> u64 list" where
  "shown_breaks d = take (bp_count d - (if in_state ds_temp_break d then 1 else 0)) (bp_x86_array d)"

definition print_break_points :: "Debugger \<Rightarrow> string" where
  "print_break_points d =
    ''break-points:'' @ newline @
    grid (map (\<lambda>(i, a). pad_left 3 (print_decimal (of_nat i)) @ ''='' @ print_address a) (enumerate 0 (shown_breaks d))) @
    (if bp_count d mod 4 \<noteq> 0 then newline else [])"

definition print_range :: "u64 \<Rightarrow> u64 \<Rightarrow> string" where
  "print_range a b = ''['' @ print_address a @ '' - '' @ print_address b @ '']''"

definition print_block :: "Debugger \<Rightarrow> nat \<times> debug_block \<Rightarrow> string" where
  "print_block d = (\<lambda>(i, b).
     (if current_block d = Some i then '' -> '' else ''    '') @
     (if \<exists>a\<in>set (shown_breaks d). inside_block a b then ''*'' else '' '') @
     print_number (of_nat i) False 3 CHR '' '' @ ''. x86: '' @ print_range (cb_start (db_entry b)) (cb_end (db_entry b)) @
     newline @ ''        riscv: '' @ print_range (cb_riscv (db_entry b)) (db_riscv_end b) @
     '' [count: '' @ print_decimal (of_nat (length (cb_offsets (db_entry b)))) @ '']'' @ newline)"

definition print_blocks :: "Debugger \<Rightarrow> string" where
  "print_blocks d = ''basic blocks:'' @ newline @ concat (map (print_block d) (enumerate 0 (dbg_blocks d)))"

section \<open>Memory\<close>

primrec memory_lines :: "memory \<Rightarrow> nat \<Rightarrow> u64 \<Rightarrow> string" where
  "memory_lines m 0 a = []"
| "memory_lines m (Suc n) a =
     ''  ['' @ print_address a @ ''] = '' @ print_address (mload 8 m a) @ newline @ memory_lines m n (a + 8)"

definition print_memory :: "memory \<Rightarrow> u64 \<Rightarrow> u32 \<Rightarrow> string" where
  "print_memory m address count = ''memory:'' @ newline @ memory_lines m (unat count) address"

definition register_distance :: "string \<Rightarrow> u64 \<Rightarrow> u64 \<Rightarrow> string" where
  "register_distance name a r =
    (if a = r then name
     else if a > r then name @ ''+'' @ print_decimal (a - r)
     else name @ ''-'' @ print_decimal (r - a))"

primrec stack_lines :: "Debugger \<Rightarrow> ExecutionContext \<Rightarrow> nat \<Rightarrow> u64 \<Rightarrow> string" where
  "stack_lines d ctx 0 a = []"
| "stack_lines d ctx (Suc n) a =
     ''  ['' @ print_address a @ ''] = '' @
     (if a = stack_high d then '' above the stack  ''
      else if a = stack_low d then ''beneath the stack ''
      else print_address (mload 8 (ctx_mem ctx) a)) @ '' <- '' @
     pad_right 12 (''['' @ register_distance ''rsp'' a (get_guest guest_rsp ctx) @ '']'') @
     ''['' @ register_distance ''rbp'' a (get_guest guest_rbp ctx) @ '']'' @ newline @
     stack_lines d ctx n (a - 8)"

text \<open>The first address that is shown: half of the lines lie above \<open>address\<close>, inside of the stack.\<close>

definition stack_top :: "Debugger \<Rightarrow> u64 \<Rightarrow> u16 \<Rightarrow> u64" where
  "stack_top d address limit =
    (let a = (address XOR (address AND 0x07)) + of_nat (unat limit div 2 * 8);
       least = stack_low d + of_int ((uint limit - 1) * 8)
     in if a > stack_high d then stack_high d else if a < least then least else a)"

definition print_stack :: "Debugger \<Rightarrow> ExecutionContext \<Rightarrow> u64 \<Rightarrow> u16 \<Rightarrow> string" where
  "print_stack d ctx address limit =
     ''stack:'' @ newline @ stack_lines d ctx (unat limit) (stack_top d address limit)"

section \<open>Assembly\<close>

text \<open>The instruction that a guest address lies in, and where its code starts; the first one if there is none.\<close>

fun guest_place :: "u64 \<Rightarrow> u64 \<Rightarrow> u64 \<Rightarrow> nat \<Rightarrow> (u64 \<times> u64) list \<Rightarrow> nat \<times> u64" where
  "guest_place guest x r i [] = (0, r)"
| "guest_place guest x r i ((sx, sr) # offs) =
    (if x \<le> guest \<and> guest < x + sx then (i, r) else guest_place guest (x + sx) (r + sr) (i + 1) offs)"

primrec host_place :: "u64 \<Rightarrow> u64 \<Rightarrow> u64 \<Rightarrow> nat \<Rightarrow> nat \<Rightarrow> nat" where
  "host_place host r size_of i 0 = 0"
| "host_place host r size_of i (Suc n) =
    (if r \<le> host \<and> host < r + size_of then i else host_place host (r + size_of) size_of (i + 1) n)"

text \<open>The first of \<open>limit\<close> lines around \<open>index\<close>.\<close>

definition window_start :: "nat \<Rightarrow> nat \<Rightarrow> nat \<Rightarrow> nat" where
  "window_start limit index tot =
    (if limit < tot then
       let start = (if index > limit div 2 then index - limit div 2 else 0) in
       if start + limit > tot then tot - limit else start
     else 0)"

text \<open>Lines that stand for the ones before and after the window.\<close>

definition elided :: "nat \<Rightarrow> nat \<Rightarrow> nat \<Rightarrow> nat \<Rightarrow> bool" where
  "elided limit start tot i \<longleftrightarrow> i = 0 \<and> start > 0 \<or> i + 1 = limit \<and> start + i + 1 < tot"

text \<open>A break point in the instruction at \<open>src\<close>; its size may be read outside of the block.\<close>

fun marked :: "u64 \<Rightarrow> u64 option \<Rightarrow> u64 list \<Rightarrow> bool option" where
  "marked src sx [] = Some False"
| "marked src sx (a # as) =
    (if a \<ge> src then
       (case sx of None \<Rightarrow> None | Some n \<Rightarrow> if a < src + n then Some True else marked src sx as)
     else marked src sx as)"

definition size_at :: "(u64 \<times> u64) list \<Rightarrow> nat \<Rightarrow> u64 option" where
  "size_at offs i = (if i < length offs then Some (fst (offs ! i)) else None)"

definition guest_line :: "debug_host \<Rightarrow> u64 \<Rightarrow> bool \<Rightarrow> bool \<Rightarrow> string" where
  "guest_line h src current mark =
    (let line = pad_right 4 ((if current then ''-> '' else ''   '') @ (if mark then ''*'' else [])) @
       ''['' @ print_address src @ ''] ''
     in case dh_decode h src (get_size (dh_elf h) src 1) of
          None \<Rightarrow> ''    failed to decode instruction''
        | Some inst \<Rightarrow> line @ take (55 - length line) (dh_format h inst))"

definition host_line :: "memory \<Rightarrow> u64 \<Rightarrow> bool \<Rightarrow> string \<Rightarrow> string" where
  "host_line m src current line =
    (let line = line @ (if current then '' ->  '' else ''     '') in
     line @ take (100 - length line) (parse_riscv (ucast (mload 4 m src))))"

record window =
  w_limit :: nat
  w_index :: nat
  w_start :: nat
  w_total :: nat

text \<open>\<open>n\<close> lines from the one numbered \<open>i\<close> on; \<open>x\<close> and \<open>r\<close> are the addresses they start at.\<close>

primrec assembly_lines ::
  "debug_host \<Rightarrow> memory \<Rightarrow> u64 list \<Rightarrow> (u64 \<times> u64) list \<Rightarrow> u64 \<Rightarrow> window \<Rightarrow> window \<Rightarrow>
   nat \<Rightarrow> nat \<Rightarrow> u64 \<Rightarrow> u64 \<Rightarrow> string option" where
  "assembly_lines h m breaks offs size_of g w 0 i x r = Some []"
| "assembly_lines h m breaks offs size_of g w (Suc n) i x r =
    (let at = w_start g + i; hat = w_start w + i;
       skips = elided (w_limit g) (w_start g) (w_total g) i; hskips = elided (w_limit w) (w_start w) (w_total w) i;
       x' = (if skips \<or> at < w_total g then x + fst (offs ! at) else x);
       r' = (if hskips \<or> hat < w_total w then r + size_of else r)
     in Option.bind
         (if skips then Some ''    ...''
          else if at < w_total g then
            map_option (guest_line h x (at = w_index g)) (marked x (size_at offs (w_index g + i)) breaks)
          else Some [])
         (\<lambda>line. let line = pad_right 55 line;
            line = (if hskips then line @ ''     ...''
              else if hat < w_total w then host_line m r (hat = w_index w) line
              else line)
          in map_option (\<lambda>rest. line @ newline @ rest)
               (assembly_lines h m breaks offs size_of g w n (i + 1) x' r')))"

definition print_assembly ::
  "debug_host \<Rightarrow> ExecutionContext \<Rightarrow> Debugger \<Rightarrow> u64 \<Rightarrow> u64 \<Rightarrow> debug_block \<Rightarrow> u16 \<Rightarrow> string option" where
  "print_assembly h ctx d guest host b limit =
    (let e = db_entry b; offs = cb_offsets e; step = riscv_enabled d; size_of = (if step then 8 else 4);
       (guest_index, host_src) = guest_place guest (cb_start e) (cb_riscv e + (if step then 0 else 4)) 0 offs
     in if guest_index \<ge> length offs then None
        else
          let words = snd (offs ! guest_index) div 4;
            host_limit = unat (if step then words div 2 else words - 1);
            host_index = host_place host host_src size_of 0 host_limit;
            guest_start = window_start (unat limit) guest_index (length offs);
            host_start = window_start (unat limit) host_index host_limit;
            x = cb_start e + sum_list (map fst (take guest_start offs));
            r = cb_riscv e + 4 + sum_list (map snd (take guest_index offs)) + of_nat host_start * size_of;
            head = ''Assembly [x86]: ('' @ print_decimal (of_nat guest_index) @ ''/'' @
              print_decimal (of_nat (length offs)) @ '')''
          in map_option (\<lambda>rest. pad_right 55 head @ ''Next instruction [riscv]: ('' @
                print_decimal (of_nat host_index) @ ''/'' @ print_decimal (of_nat host_limit) @ '')'' @ newline @ rest)
              (assembly_lines h (ctx_mem ctx) (shown_breaks d) offs size_of
                \<lparr>w_limit = unat limit, w_index = guest_index, w_start = guest_start, w_total = length offs\<rparr>
                \<lparr>w_limit = unat limit, w_index = host_index, w_start = host_start, w_total = host_limit\<rparr>
                (unat limit) 0 x r))"

end
