(* ===== verification/DebuggerMenu.thy ===== *)
theory DebuggerMenu
  imports DebuggerPrint
begin

text \<open>
  The commands of the debugger (\<^verbatim>\<open>debugger/debugger_menu.cpp\<close>) and the loop that reads them
  (\<^verbatim>\<open>Debugger::entry\<close>). A line of input is a string; the messages are the strings of the source.
\<close>

section \<open>Keys\<close>

datatype DebugInputKey =
    Key_none | Key_assembly | Key_all | Key_breakpoint | Key_config | Key_decimal | Key_endofblock | Key_exit
  | Key_fault | Key_flags | Key_help | Key_hexadecimal | Key_logging | Key_remove | Key_registers | Key_run
  | Key_riscv | Key_step | Key_startofblock | Key_enable | Key_disable | Key_x86 | Key_crawl | Key_stack
  | Key_blocks | Key_quit | Key_read | Key_signal

text \<open>Characters as they are compared.\<close>

definition between :: "char \<Rightarrow> char \<Rightarrow> char \<Rightarrow> bool" where
  "between lo hi c \<longleftrightarrow> (of_char lo :: nat) \<le> of_char c \<and> (of_char c :: nat) \<le> of_char hi"

definition to_lower :: "char \<Rightarrow> char" where
  "to_lower c = (if between CHR ''A'' CHR ''Z'' c then char_of (of_char c + 32 :: nat) else c)"

definition key_names :: "(string \<times> DebugInputKey) list" where
  "key_names =
    [(''assembly'', Key_assembly), (''asm'', Key_assembly), (''all'', Key_all),
     (''break'', Key_breakpoint), (''bp'', Key_breakpoint), (''blocks'', Key_blocks), (''blk'', Key_blocks),
     (''config'', Key_config), (''cfg'', Key_config), (''crawl'', Key_crawl), (''c'', Key_crawl),
     (''dec'', Key_decimal), (''dc'', Key_decimal), (''disable'', Key_disable), (''dis'', Key_disable),
     (''exit'', Key_exit), (''end'', Key_endofblock), (''eob'', Key_endofblock), (''enable'', Key_enable),
     (''en'', Key_enable), (''fault'', Key_fault), (''flags'', Key_flags), (''fg'', Key_flags),
     (''help'', Key_help), (''hex'', Key_hexadecimal), (''hx'', Key_hexadecimal),
     (''logging'', Key_logging), (''log'', Key_logging), (''quit'', Key_quit), (''q'', Key_quit),
     (''remove'', Key_remove), (''rbp'', Key_remove), (''registers'', Key_registers), (''reg'', Key_registers),
     (''run'', Key_run), (''r'', Key_run), (''riscv'', Key_riscv), (''rv'', Key_riscv),
     (''read'', Key_read), (''rd'', Key_read), (''signal'', Key_signal), (''sig'', Key_signal),
     (''step'', Key_step), (''s'', Key_step), (''start'', Key_startofblock), (''sob'', Key_startofblock),
     (''stack'', Key_stack), (''stk'', Key_stack), (''x86'', Key_x86), (''x'', Key_x86)]"

definition parse_key :: "string \<Rightarrow> DebugInputKey" where
  "parse_key key = (case map_of key_names (map to_lower key) of None \<Rightarrow> Key_none | Some k \<Rightarrow> k)"

section \<open>Numbers\<close>

definition digit_value :: "bool \<Rightarrow> char \<Rightarrow> u64 option" where
  "digit_value hex c =
    (if between CHR ''0'' CHR ''9'' c then Some (of_nat (of_char c - 48))
     else if between CHR ''a'' CHR ''f'' c \<and> hex then Some (of_nat (of_char c - 97 + 10))
     else if between CHR ''A'' CHR ''F'' c \<and> hex then Some (of_nat (of_char c - 65 + 10))
     else None)"

text \<open>Whether all characters are digits, and the number of the ones before the first that is not.\<close>

primrec parse_digits :: "bool \<Rightarrow> string \<Rightarrow> u64 \<Rightarrow> bool \<times> u64" where
  "parse_digits hex [] n = (True, n)"
| "parse_digits hex (c # cs) n =
    (case digit_value hex c of
       None \<Rightarrow> (False, n)
     | Some d \<Rightarrow> parse_digits hex cs (n * (if hex then 16 else 10) + d))"

text \<open>
  \<open>relative\<close> and \<open>number\<close> are written through the pointers that are passed: the result has whether the string
  is a number, and both.
\<close>

definition Debugger_parse_number :: "string \<Rightarrow> u8 \<Rightarrow> u64 \<Rightarrow> bool \<times> u8 \<times> u64" where
  "Debugger_parse_number str relative number =
    (if str = [] then (False, relative, number)
     else
       let sign = hd str = CHR ''-'' \<or> hd str = CHR ''+'';
         relative = (if sign then of_char (hd str) else 0);
         str = (if sign then tl str else str)
       in if str = [] then (False, relative, number)
          else
            let hex = take 2 str = ''0x'';
              (ok, n) = parse_digits hex (if hex then drop 2 str else str) 0
            in (ok, relative, n))"

section \<open>Arguments\<close>

definition arg_state_unused :: u8 where "arg_state_unused = 0xa0"
definition arg_state_string :: u8 where "arg_state_string = 0xb0"
definition arg_state_number :: u8 where "arg_state_number = 0xc0"
definition arg_state_pos_rel :: u8 where "arg_state_pos_rel = of_char CHR ''+''"
definition arg_state_neg_rel :: u8 where "arg_state_neg_rel = of_char CHR ''-''"
definition arg_state_key :: u8 where "arg_state_key = 0xd0"

lemmas arg_state_defs = arg_state_unused_def arg_state_string_def arg_state_number_def arg_state_pos_rel_def
  arg_state_neg_rel_def arg_state_key_def

record argument =
  arg_state :: u8
  arg_number :: u64
  arg_key :: DebugInputKey

definition unused_argument :: argument where
  "unused_argument = \<lparr>arg_state = arg_state_unused, arg_number = 0, arg_key = Key_none\<rparr>"

definition parse_argument :: "string \<Rightarrow> argument \<Rightarrow> bool \<times> argument" where
  "parse_argument str a =
    (if str = [] then (False, a\<lparr>arg_state := arg_state_unused\<rparr>)
     else
       case Debugger_parse_number str (arg_state a) (arg_number a) of
         (True, st, n) \<Rightarrow> (True, a\<lparr>arg_state := (if st = 0 then arg_state_number else st), arg_number := n\<rparr>)
       | (False, st, n) \<Rightarrow>
           (let key = parse_key str in
            (True, a\<lparr>arg_state := (if key \<noteq> Key_none then arg_state_key else arg_state_string),
              arg_number := n, arg_key := key\<rparr>)))"

text \<open>The words of a line, as the stream operator reads them.\<close>

definition is_blank :: "char \<Rightarrow> bool" where
  "is_blank c \<longleftrightarrow> (of_char c :: nat) \<in> {9, 10, 11, 12, 13, 32}"

function split_words :: "string \<Rightarrow> string list" where
  "split_words [] = []"
| "split_words (c # cs) =
    (if is_blank c then split_words cs
     else (c # takeWhile (\<lambda>c. \<not> is_blank c) cs) # split_words (dropWhile (\<lambda>c. \<not> is_blank c) cs))"
  by pat_completeness auto
termination
  by (relation "measure length") (auto simp: le_imp_less_Suc length_dropWhile_le)

definition word_at :: "nat \<Rightarrow> string list \<Rightarrow> string" where
  "word_at i ws = (if i < length ws then ws ! i else [])"

text \<open>The arguments after the command, up to the first empty one.\<close>

definition parse_arguments_of :: "string list \<Rightarrow> argument \<times> argument \<times> argument" where
  "parse_arguments_of ws =
    (let (more, a) = parse_argument (word_at 1 ws) unused_argument;
       (more', b) = (if more then parse_argument (word_at 2 ws) unused_argument else (False, unused_argument));
       c = (if more' then snd (parse_argument (word_at 3 ws) unused_argument) else unused_argument)
     in (a, b, c))"

section \<open>Commands\<close>

text \<open>
  What a command leads to: a message, with which the loop goes on, or the empty string, which ends it, or one
  of the exits of the dispatcher, or an undefined access.
\<close>

datatype menu_result =
    Message string
  | Continue
  | Guest_exit
  | Fault_exit string
  | Undefined

text \<open>The debugger with what else a command changes: whether the context has it, and the level of the log.\<close>

record session =
  se_debugger :: Debugger
  se_attached :: bool
  se_log :: u8

definition on_debugger :: "(Debugger \<Rightarrow> Debugger) \<Rightarrow> session \<Rightarrow> session" where
  "on_debugger f se = se\<lparr>se_debugger := f (se_debugger se)\<rparr>"

definition printed_text :: "string option \<Rightarrow> menu_result" where
  "printed_text out = (case out of None \<Rightarrow> Undefined | Some str \<Rightarrow> Message str)"

definition limit_ok :: "u64 \<Rightarrow> u64 \<Rightarrow> u64 \<Rightarrow> bool" where
  "limit_ok lo hi n \<longleftrightarrow> lo \<le> n \<and> n \<le> hi"

definition is_number :: "argument \<Rightarrow> bool" where "is_number a \<longleftrightarrow> arg_state a = arg_state_number"
definition is_key :: "argument \<Rightarrow> bool" where "is_key a \<longleftrightarrow> arg_state a = arg_state_key"

definition is_place :: "argument \<Rightarrow> bool" where
  "is_place a \<longleftrightarrow> arg_state a \<in> {arg_state_number, arg_state_pos_rel, arg_state_neg_rel}"

text \<open>An address, or a distance from \<open>base\<close>.\<close>

definition place_of :: "u64 \<Rightarrow> argument \<Rightarrow> u64" where
  "place_of base a =
    (if arg_state a = arg_state_pos_rel then base + arg_number a
     else if arg_state a = arg_state_neg_rel then base - arg_number a
     else arg_number a)"

definition assembly_range :: string where "assembly_range = ''assembly-limit out of range [3;96]!''"

text \<open>The help texts, line by line.\<close>

definition help_overview :: "string list" where
  "help_overview =
    [''Type help and the command for more details.'',
     ''all                                Enable auto-print for flags, registers, assembly and stack.'',
     ''assembly   asm                     Print the assembly.'',
     ''blocks     blk                     Print the basic blocks.'',
     ''break      bp                      Print the break-points or set them.'',
     ''config     cfg                     Configure features for the printing.'',
     ''crawl      c                       Step by one riscv-instruction.'',
     ''dec        dc                      Set the register print-type to decimal.'',
     ''disable    dis                     Disable auto-print.'',
     ''enable     en                      Enable auto-print.'',
     ''exit                               Exit the program via dispatcher::guest_exit.'',
     ''end        eob                     Continue execution until end-of-block or break-point.'',
     ''fault                              Exit the program via dispatcher::fault_exit.'',
     ''flags      fg                      Print the flags.'',
     ''help                               Print this menu.'',
     ''hex        hx                      Set the register print-type to hexadecimal.'',
     ''logging    log                     Set the current logging-level (same as argument).'',
     ''quit       q                       Disable the debugger and continue normal execution.'',
     ''read       rd                      Read from memory. (Won't protect from segmentation-faults!)'',
     ''remove     rbp                     Remove one break-point.'',
     ''registers  reg                     List all of the registers with the current configuration.'',
     ''run        r                       Continue execution until given instruction has been reached.'',
     ''signal     sig                     Attach signal-catcher for SIGILL & SIGSEGV.'',
     ''stack      stk                     Print the stack.'',
     ''start      sob                     Continue execution until start-of-block or break-point.'',
     ''step       s                       Step by one x86-instruction.'']"

definition help_lines :: "(DebugInputKey \<times> string list) list" where
  "help_lines =
    [(Key_assembly,
      [''assembly limit                Print limit-number of instructions.'']),
     (Key_blocks,
      [''blocks index                  Print assembly of block.'',
       ''blocks index limit            Print assembly of block and limit.'',
       ''blocks index limit inst       Print assembly of block and limit with instruction.'']),
     (Key_breakpoint,
      [''break address                 Set a break-point.'',
       ''break relative                Set a break-point relative to address.'',
       ''break sob                     Set a break-point at beginning of current block.'',
       ''break eob                     Set a break-point at end of current block.'',
       ''break sob index               Set a break-point at beginning of index-block.'',
       ''break eob index               Set a break-point at end of index-block.'']),
     (Key_config,
      [''config asm limit              Set the assembly-limit.'',
       ''config stack limit            Set the stack-limit.'',
       ''config riscv/rv               Set the registers to riscv.'',
       ''config x86/x                  Set the registers to x86.'']),
     (Key_crawl,
      [''crawl count                   Continue execution for count riscv-instructions.'']),
     (Key_disable,
      [''disable assembly              Disable auto-print of assembly.'',
       ''disable break                 Disable auto-print of breakpoints.'',
       ''disable registers             Disable auto-print of registers.'',
       ''disable flags                 Disable auto-print of flags.'',
       ''disable stack                 Disable auto-print of stack.'',
       ''disable blocks                Disable auto-print of blocks.'']),
     (Key_enable,
      [''enable assembly               Enable auto-print of assembly.'',
       ''enable break                  Enable auto-print of breakpoints.'',
       ''enable registers              Enable auto-print of registers.'',
       ''enable flags                  Enable auto-print of flags.'',
       ''enable stack                  Enable auto-print of stack.'',
       ''enable blocks                 Enable auto-print of blocks.'']),
     (Key_read,
      [''Warning: the debugger won't protect from Segmentation-faults.'',
       ''read address                  Read one quad-word from the address.'',
       ''read address count            Read count-quad-words from the address.'']),
     (Key_run,
      [''run address                   Continue execution until address.'',
       ''run relative                  Continue execution until relative-address.'']),
     (Key_registers,
      [''registers riscv               Print riscv-registers.'',
       ''registers x86                 Print x86-registers.'',
       ''registers riscv hex           Print riscv-registers in hexadecimal.'',
       ''registers x86 hex             Print x86-registers in hexadecimal.'',
       ''registers riscv dec           Print riscv-registers in decimal.'',
       ''registers x86 dec             Print x86-registers in decimal.'']),
     (Key_signal,
      [''Attach a signal-handler for SIGILL and SIGSEGV. This will overwrite registered'',
       ''signal-handlers, but can as well be overwritten. It will log useful information'',
       ''but will slow the entire execution down.'']),
     (Key_stack,
      [''stack limit                   Print the stack with given limit.'',
       ''stack limit address           Print the stack with given limit and at given address.'',
       ''stack limit relative          Print the stack with given limit and relative to rsp.'']),
     (Key_step,
      [''step count                    Continue execution for count x86-instructions.''])]"

primrec join_lines :: "string list \<Rightarrow> string" where
  "join_lines [] = []"
| "join_lines (l # ls) = (if ls = [] then l else l @ newline @ join_lines ls)"

definition menu_help :: "argument \<Rightarrow> menu_result" where
  "menu_help a =
    (if arg_state a = arg_state_unused then Message (join_lines help_overview)
     else if \<not> is_key a then Message ''invalid argument!''
     else case map_of help_lines (arg_key a) of
         None \<Rightarrow> Message ''no additional features!''
       | Some ls \<Rightarrow> Message (join_lines ls))"

definition current_entry :: "Debugger \<Rightarrow> debug_block option" where
  "current_entry d = map_option (\<lambda>i. dbg_blocks d ! i) (current_block d)"

definition print_current :: "debug_host \<Rightarrow> ExecutionContext \<Rightarrow> Debugger \<Rightarrow> u64 \<Rightarrow> u16 \<Rightarrow> menu_result" where
  "print_current h ctx d address limit =
     printed_text (Option.bind (current_entry d) (\<lambda>b. print_assembly h ctx d address (get_guest ra ctx) b limit))"

definition menu_assembly :: "debug_host \<Rightarrow> ExecutionContext \<Rightarrow> Debugger \<Rightarrow> u64 \<Rightarrow> argument \<Rightarrow> menu_result" where
  "menu_assembly h ctx d address a =
    (if is_number a then
       if \<not> limit_ok 3 96 (arg_number a) then Message assembly_range
       else print_current h ctx d address (ucast (arg_number a))
     else print_current h ctx d address (inst_limit d))"

definition menu_blocks ::
  "debug_host \<Rightarrow> ExecutionContext \<Rightarrow> Debugger \<Rightarrow> argument \<Rightarrow> argument \<Rightarrow> argument \<Rightarrow> menu_result" where
  "menu_blocks h ctx d a b c =
    (if is_number a then
       if arg_number a \<ge> of_nat (length (dbg_blocks d)) then Message ''block-index out of range!''
       else
         let blk = dbg_blocks d ! unat (arg_number a); e = db_entry blk; limit = ucast (arg_number b) in
         if is_number b then
           if \<not> limit_ok 3 96 (arg_number b) then Message assembly_range
           else if is_number c then
             if arg_number c \<ge> of_nat (length (cb_offsets e)) then Message ''instruction-index out of range!''
             else
               let before = take (unat (arg_number c)) (cb_offsets e) in
               printed_text (print_assembly h ctx d (cb_start e + sum_list (map fst before))
                 (cb_riscv e + 4 + sum_list (map snd before)) blk limit)
           else printed_text (print_assembly h ctx d (cb_start e) (cb_riscv e) blk limit)
         else printed_text (print_assembly h ctx d (cb_start e) (cb_riscv e) blk (inst_limit d))
     else Message (print_blocks d))"

definition set_break :: "u64 \<Rightarrow> session \<Rightarrow> menu_result \<times> session" where
  "set_break address se =
    (case insert_break_point address True (se_debugger se) of
       (ok, d) \<Rightarrow> (Message (if ok then ''break-point set!'' else ''break-point already set!''), se\<lparr>se_debugger := d\<rparr>))"

definition menu_break :: "u64 \<Rightarrow> argument \<Rightarrow> argument \<Rightarrow> session \<Rightarrow> menu_result \<times> session" where
  "menu_break address a b se =
    (let d = se_debugger se in
     if is_place a \<or> is_key a \<and> arg_key a \<in> {Key_startofblock, Key_endofblock} then
       if bp_count d = 255 then (Message ''limit of break-points reached (255)!'', se)
       else if \<not> is_key a then set_break (place_of address a) se
       else if is_number b \<and> arg_number b \<ge> of_nat (length (dbg_blocks d)) then
         (Message ''block-index out of range!'', se)
       else
         (case (if is_number b then Some (dbg_blocks d ! unat (arg_number b)) else current_entry d) of
            None \<Rightarrow> (Undefined, se)
          | Some blk \<Rightarrow>
              set_break (if arg_key a = Key_startofblock then cb_start (db_entry blk)
                         else last_instruction (db_entry blk)) se)
     else (Message (print_break_points d), se))"

definition configured :: string where "configured = ''successfully configured!''"

definition menu_config :: "argument \<Rightarrow> argument \<Rightarrow> session \<Rightarrow> menu_result \<times> session" where
  "menu_config a b se =
    (if \<not> is_key a then (Message ''invalid config-attribute!'', se)
     else if arg_key a = Key_assembly then
       if \<not> is_number b then (Message ''invalid assembly-limit!'', se)
       else if \<not> limit_ok 3 96 (arg_number b) then (Message assembly_range, se)
       else (Message configured, on_debugger (\<lambda>d. d\<lparr>inst_limit := ucast (arg_number b)\<rparr>) se)
     else if arg_key a = Key_stack then
       if \<not> is_number b then (Message ''invalid stack-limit!'', se)
       else if \<not> limit_ok 2 128 (arg_number b) then (Message ''stack-limit out of range [2;128]!'', se)
       else (Message configured, on_debugger (\<lambda>d. d\<lparr>stack_limit := ucast (arg_number b)\<rparr>) se)
     else if arg_key a = Key_x86 then (Message configured, on_debugger (clear_state_bits ds_reg_riscv) se)
     else if arg_key a = Key_riscv then (Message configured, on_debugger (set_state_bits ds_reg_riscv) se)
     else (Message ''invalid config-attribute!'', se))"

definition wait_for :: "u64 \<Rightarrow> session \<Rightarrow> session" where
  "wait_for n se = on_debugger (\<lambda>d. (set_state_bits ds_await_counter d)\<lparr>run_break := n\<rparr>) se"

definition menu_crawl :: "argument \<Rightarrow> session \<Rightarrow> menu_result \<times> session" where
  "menu_crawl a se =
    (if \<not> riscv_enabled (se_debugger se) then (Message ''riscv-stepping is disabled!'', se)
     else
       let se = on_debugger (\<lambda>d. d\<lparr>dbg_step_riscv := True\<rparr>) se in
       (Continue, if is_number a then wait_for (arg_number a) se else se))"

text \<open>The parts of the screen, their bits and the names in the messages.\<close>

definition screen_parts :: "(DebugInputKey \<times> u32 \<times> string) list" where
  "screen_parts =
    [(Key_breakpoint, ds_print_bp, ''break-points''), (Key_registers, ds_print_reg, ''register''),
     (Key_assembly, ds_print_asm, ''assembly''), (Key_flags, ds_print_flags, ''flags''),
     (Key_stack, ds_print_stack, ''stack''), (Key_blocks, ds_print_blocks, ''blocks'')]"

definition menu_screen :: "bool \<Rightarrow> argument \<Rightarrow> session \<Rightarrow> menu_result \<times> session" where
  "menu_screen enable a se =
    (let invalid = Message (''invalid argument for '' @ (if enable then ''enable'' else ''disable'') @ ''!'') in
     if \<not> is_key a then (invalid, se)
     else
       case map_of screen_parts (arg_key a) of
         None \<Rightarrow> (invalid, se)
       | Some (bits, name) \<Rightarrow>
           if enable then (Message (''enabled '' @ name @ '' auto-print!''), on_debugger (set_state_bits bits) se)
           else (Message (''disabled '' @ name @ '' auto-print!''), on_debugger (clear_state_bits bits) se))"

definition menu_logging :: "argument \<Rightarrow> session \<Rightarrow> menu_result \<times> session" where
  "menu_logging a se =
    (if arg_state a = arg_state_neg_rel then
       (Message ''logging-level set!'', se\<lparr>se_log := ucast (NOT (arg_number a) + 1)\<rparr>)
     else if \<not> is_number a then (Message ''invalid logging-level!'', se)
     else (Message ''logging-level set!'', se\<lparr>se_log := ucast (arg_number a)\<rparr>))"

definition menu_read :: "memory \<Rightarrow> argument \<Rightarrow> argument \<Rightarrow> menu_result" where
  "menu_read m a b =
    (if \<not> is_number a then Message ''invalid address!''
     else if is_number b then
       if arg_number b = 0 \<or> arg_number b > 512 then Message ''count out of range [1;512]!''
       else Message (print_memory m (arg_number a) (ucast (arg_number b)))
     else Message (print_memory m (arg_number a) 1))"

text \<open>The loop counts with 16 bits, in which every index below the count fits.\<close>

definition remove_break_point :: "nat \<Rightarrow> Debugger \<Rightarrow> Debugger" where
  "remove_break_point i d = (close_gap i (bp_count d - (i + 1)) d)\<lparr>bp_count := bp_count d - 1\<rparr>"

definition menu_remove :: "argument \<Rightarrow> session \<Rightarrow> menu_result \<times> session" where
  "menu_remove a se =
    (if \<not> is_number a then (Message ''invalid break-point index!'', se)
     else if arg_number a \<ge> of_nat (bp_count (se_debugger se)) then
       (Message ''break-point index out of range!'', se)
     else (Message ''break-point removed!'', on_debugger (remove_break_point (unat (arg_number a))) se))"

text \<open>A word about the registers: \<open>None\<close> if it is none of the four.\<close>

definition register_format :: "DebugInputKey \<Rightarrow> bool \<times> bool \<Rightarrow> (bool \<times> bool) option" where
  "register_format k = (\<lambda>(hex, riscv).
    (if k = Key_hexadecimal then Some (True, riscv)
     else if k = Key_decimal then Some (False, riscv)
     else if k = Key_riscv then Some (hex, True)
     else if k = Key_x86 then Some (hex, False)
     else None))"

definition menu_registers :: "ExecutionContext \<Rightarrow> Debugger \<Rightarrow> argument \<Rightarrow> argument \<Rightarrow> menu_result" where
  "menu_registers ctx d a b =
    (let fmt = (\<not> in_state ds_reg_dec d, in_state ds_reg_riscv d);
       fmt = (if is_key a then
           (case register_format (arg_key a) fmt of
              None \<Rightarrow> fmt
            | Some fmt' \<Rightarrow>
               (if is_key b then (case register_format (arg_key b) fmt' of None \<Rightarrow> fmt' | Some fmt'' \<Rightarrow> fmt'')
                else fmt'))
         else fmt)
     in Message (print_reg (fst fmt) (snd fmt) ctx))"

definition menu_run :: "u64 \<Rightarrow> argument \<Rightarrow> session \<Rightarrow> menu_result \<times> session" where
  "menu_run address a se =
    (Continue,
     if is_place a then
       on_debugger (\<lambda>d.
         let d = d\<lparr>run_break := of_nat (bp_count d)\<rparr>;
           d = snd (insert_break_point (place_of address a) False d)
         in set_state_bits ds_temp_break d) se
     else se)"

text \<open>\<open>segv\<close> and \<open>ill\<close> tell whether the system accepts the handlers.\<close>

definition menu_signal :: "bool \<Rightarrow> bool \<Rightarrow> ExecutionContext \<Rightarrow> session \<Rightarrow> menu_result \<times> session" where
  "menu_signal segv ill ctx se =
    (if in_state ds_search_signal (se_debugger se) then (Message ''signal-handler already attached!'', se)
     else
       let out = (if segv then [] else ''failed to register SIGSEGV-handler of the debugger!'');
         out = (if ill then out
           else out @ (if out \<noteq> [] then newline else []) @ ''failed to register SIGILL-handler of the debugger!'');
         out = (if out \<noteq> [] then out @ newline else out) @ ''signal-handler attached!''
       in (Message out, on_debugger (\<lambda>d. (set_state_bits ds_search_signal d)
            \<lparr>signal_address := get_guest ra ctx, signal_registers := ctx_guest ctx\<rparr>) se))"

definition menu_stack :: "ExecutionContext \<Rightarrow> Debugger \<Rightarrow> argument \<Rightarrow> argument \<Rightarrow> menu_result" where
  "menu_stack ctx d a b =
    (let rsp = get_guest guest_rsp ctx in
     if is_number a then
       if \<not> limit_ok 2 128 (arg_number a) then Message ''stack-limit out of range [2;128]!''
       else Message (print_stack d ctx (if is_place b then place_of rsp b else rsp) (ucast (arg_number a)))
     else Message (print_stack d ctx rsp (stack_limit d)))"

definition menu_step :: "argument \<Rightarrow> session \<Rightarrow> menu_result \<times> session" where
  "menu_step a se =
    (Continue, if is_number a then wait_for (arg_number a) se else on_debugger (set_state_bits ds_await_step) se)"

section \<open>The menu\<close>

record menu_env =
  me_host :: debug_host
  me_segv :: bool
  me_ill :: bool

definition no_command :: menu_result where
  "no_command = Message ''invalid input! Type \"help\" for help.''"

definition run_command ::
  "menu_env \<Rightarrow> ExecutionContext \<Rightarrow> u64 \<Rightarrow> DebugInputKey \<Rightarrow> argument \<Rightarrow> argument \<Rightarrow> argument \<Rightarrow> session \<Rightarrow>
   menu_result \<times> session" where
  "run_command env ctx address key a b c se =
    (let d = se_debugger se; h = me_host env; stay = (\<lambda>r. (r, se)) in
     case key of
       Key_help \<Rightarrow> stay (menu_help a)
     | Key_all \<Rightarrow> (Message ''all core-features enabled!'',
         on_debugger (set_state_bits (ds_print_asm OR ds_print_flags OR ds_print_reg OR ds_print_stack)) se)
     | Key_assembly \<Rightarrow> stay (menu_assembly h ctx d address a)
     | Key_blocks \<Rightarrow> stay (menu_blocks h ctx d a b c)
     | Key_breakpoint \<Rightarrow> menu_break address a b se
     | Key_config \<Rightarrow> menu_config a b se
     | Key_crawl \<Rightarrow> menu_crawl a se
     | Key_decimal \<Rightarrow> (Message ''set register-printing to dec!'', on_debugger (set_state_bits ds_reg_dec) se)
     | Key_disable \<Rightarrow> menu_screen False a se
     | Key_enable \<Rightarrow> menu_screen True a se
     | Key_exit \<Rightarrow> stay Guest_exit
     | Key_endofblock \<Rightarrow> (Continue, on_debugger (set_state_bits ds_await_eob) se)
     | Key_fault \<Rightarrow> stay (Fault_exit ''the debugger exited via a fault.'')
     | Key_flags \<Rightarrow> stay (printed_text (print_flags h ctx))
     | Key_hexadecimal \<Rightarrow> (Message ''set register-printing to hex!'', on_debugger (clear_state_bits ds_reg_dec) se)
     | Key_logging \<Rightarrow> menu_logging a se
     | Key_quit \<Rightarrow> (Continue, se\<lparr>se_attached := False\<rparr>)
     | Key_read \<Rightarrow> stay (menu_read (ctx_mem ctx) a b)
     | Key_remove \<Rightarrow> menu_remove a se
     | Key_registers \<Rightarrow> stay (menu_registers ctx d a b)
     | Key_run \<Rightarrow> menu_run address a se
     | Key_signal \<Rightarrow> menu_signal (me_segv env) (me_ill env) ctx se
     | Key_stack \<Rightarrow> stay (menu_stack ctx d a b)
     | Key_startofblock \<Rightarrow> (Continue, on_debugger (set_state_bits ds_await_sob) se)
     | Key_step \<Rightarrow> menu_step a se
     | _ \<Rightarrow> stay no_command)"

definition parse_input ::
  "menu_env \<Rightarrow> ExecutionContext \<Rightarrow> u64 \<Rightarrow> string \<Rightarrow> session \<Rightarrow> menu_result \<times> session" where
  "parse_input env ctx address line se =
    (if line = [] then (Message ''invalid input!'', se)
     else
       let ws = split_words line; key = parse_key (word_at 0 ws) in
       if key = Key_none then (no_command, se)
       else case parse_arguments_of ws of (a, b, c) \<Rightarrow> run_command env ctx address key a b c se)"

section \<open>The screen\<close>

definition unsigned_decimal :: "u64 \<Rightarrow> string" where
  "unsigned_decimal n = (if n = 0 then ''0'' else fst (dec_loop (unat n) 0 []))"

definition separator :: string where "separator = replicate 100 CHR ''-''"

definition block_lines :: "Debugger \<Rightarrow> debug_block \<Rightarrow> string" where
  "block_lines d b =
     print_number (of_nat (current_index d)) False 3 CHR ''0'' @ newline @
     ''block-guest  : '' @ print_range (cb_start (db_entry b)) (cb_end (db_entry b)) @ newline @
     ''block-host   : '' @ print_range (cb_riscv (db_entry b)) (db_riscv_end b) @ newline"

text \<open>Why the execution was halted.\<close>

definition halt_reason :: "Debugger \<Rightarrow> u64 \<Rightarrow> u64 \<Rightarrow> code_block \<Rightarrow> string" where
  "halt_reason d address break_point b =
    (let step = dbg_step_riscv d; counter = in_state ds_await_counter d in
     (if break_point \<noteq> halt_break \<and> break_point \<noteq> halt_riscv then
        if break_point = run_break d \<and> in_state ds_temp_break d then ''run-break hit!'' @ newline
        else ''break-point hit! (index: '' @ unsigned_decimal break_point @ '')'' @ newline
      else []) @
     (if step then (if counter then ''riscv-counter elapsed!'' else ''stepped by one riscv-instruction!'') @ newline
      else []) @
     (if \<not> in_state ds_init d then ''initial halt! Type \"help\" for a help-menu.'' @ newline else []) @
     (if run_break d = 0 \<and> counter \<and> \<not> step then ''run-counter elapsed.'' @ newline else []) @
     (if in_state ds_await_step d \<and> \<not> step then ''stepped by one instruction!'' @ newline else []) @
     (if address = cb_start b \<and> in_state ds_await_sob d then ''beginning of basic-block reached!'' @ newline
      else if address = last_instruction b \<and> in_state ds_await_eob d then
        ''ending of basic-block reached!'' @ newline
      else []))"

definition when_shown :: "bool \<Rightarrow> string option \<Rightarrow> string option" where
  "when_shown shown out = (if shown then map_option (\<lambda>str. str @ newline) out else Some [])"

text \<open>The screen before a line is read; \<open>answer\<close> is the message of the last command, empty at first.\<close>

definition screen :: "debug_host \<Rightarrow> ExecutionContext \<Rightarrow> Debugger \<Rightarrow> u64 \<Rightarrow> u64 \<Rightarrow> string \<Rightarrow> string option" where
  "screen h ctx d address break_point answer =
    Option.bind (current_entry d) (\<lambda>b.
    Option.bind (when_shown (in_state ds_print_flags d) (print_flags h ctx)) (\<lambda>flags.
    Option.bind (when_shown (in_state ds_print_asm d)
        (print_assembly h ctx d address (get_guest ra ctx) b (inst_limit d))) (\<lambda>asm.
      let out = newline @ separator @ newline @ ''guest-address: '' @ print_address address @ newline @
            ''host-address : '' @ print_address (get_guest ra ctx) @ newline @ ''block-index  : '' @ block_lines d b @
            ''guest-instructions: '' @ unsigned_decimal (exec_count_x86 d) @
            (if riscv_enabled d then newline @ ''host-instructions : '' @ unsigned_decimal (exec_count_riscv d) else []) @
            newline @ newline;
        breaks = (if in_state ds_print_bp d then print_break_points d @ newline else []);
        blocks = (if in_state ds_print_blocks d then print_blocks d @ newline else []);
        stack = (if in_state ds_print_stack d
          then print_stack d ctx (get_guest guest_rsp ctx) (stack_limit d) @ newline else []);
        regs = (if in_state ds_print_reg d
          then print_reg (\<not> in_state ds_reg_dec d) (in_state ds_reg_riscv d) ctx @ newline else [])
      in Some (out @ breaks @ blocks @ stack @ flags @ regs @ asm @
          (if answer = [] then halt_reason d address break_point (db_entry b) else answer @ newline)))))"

text \<open>
  The report of \<^verbatim>\<open>signal_handler\<close>, after which the program is left with a fault: with everything the debugger
  can show when the signal was raised in translated code. The handler shows the registers that the last
  entry recorded.
\<close>

datatype signal = SIGSEGV | SIGILL

definition signal_details :: "debug_host \<Rightarrow> ExecutionContext \<Rightarrow> Debugger \<Rightarrow> u64 \<Rightarrow> debug_block \<Rightarrow> string option" where
  "signal_details h ctx d guest b =
    (let ctx = ctx\<lparr>ctx_guest := signal_registers d\<rparr> in
     Option.bind (print_flags h ctx) (\<lambda>flags.
     map_option (\<lambda>asm.
       print_blocks d @ newline @ print_stack d ctx (get_guest guest_rsp ctx) (stack_limit d) @ newline @
       flags @ newline @ ''x86 '' @ print_reg True False ctx @ newline @ ''riscv '' @ print_reg True True ctx @ newline @
       asm @ newline)
     (print_assembly h ctx d guest (signal_address d) b (inst_limit d))))"

definition signal_handler :: "debug_host \<Rightarrow> ExecutionContext \<Rightarrow> signal \<Rightarrow> Debugger \<Rightarrow> string option" where
  "signal_handler h ctx sig d =
    (let err = (case sig of SIGSEGV \<Rightarrow> ''Error: Segmentation-fault!'' | SIGILL \<Rightarrow> ''Error: Illegal-instruction!'') @ newline in
     Option.bind (resolve_block (signal_address d) d) (\<lambda>(guest, d).
       let host = ''  host-address : '' @ print_address (signal_address d) @ newline in
       if guest = 0 then
         Some (''signal raised outside of known guest-code!'' @ newline @ newline @ err @ host @
           ''  guest-address: unknown!'' @ newline @ ''  block-index  : unknown!'' @ newline @
           ''  block-guest  : [unknown - unknown]'' @ newline @ ''  block-host   : [unknown - unknown]'' @ newline @ newline)
       else
         Option.bind (current_entry d) (\<lambda>b.
         map_option (\<lambda>out. out @ err @ host @ ''  guest-address: '' @ print_address guest @ newline @
             ''  block-index  : '' @ print_number (of_nat (current_index d)) False 3 CHR ''0'' @ newline @
             ''  block-guest  : '' @ print_range (cb_start (db_entry b)) (cb_end (db_entry b)) @ newline @
             ''  block-host   : '' @ print_range (cb_riscv (db_entry b)) (db_riscv_end b) @ newline @ newline)
           (signal_details h ctx d guest b))))"

section \<open>The loop\<close>

text \<open>The commands of one halt: the lines until one of them ends it. The result is the last answer.\<close>

fun menu_loop ::
  "menu_env \<Rightarrow> ExecutionContext \<Rightarrow> u64 \<Rightarrow> string list \<Rightarrow> session \<Rightarrow> (menu_result \<times> session \<times> string list) option" where
  "menu_loop env ctx address [] se = None"
| "menu_loop env ctx address (line # lines) se =
    (case parse_input env ctx address line se of
       (Message m, se) \<Rightarrow>
         (if m = [] then Some (Continue, se, lines) else menu_loop env ctx address lines se)
     | (r, se) \<Rightarrow> Some (r, se, lines))"

text \<open>
  \<^verbatim>\<open>Debugger::entry\<close> without its screen: the lines that are left, and what it ended with. Reading beyond the
  input does not end.
\<close>

definition Debugger_entry ::
  "menu_env \<Rightarrow> ExecutionContext \<Rightarrow> u64 \<Rightarrow> string list \<Rightarrow> session \<Rightarrow> (menu_result \<times> session \<times> string list) option" where
  "Debugger_entry env ctx break_point lines se =
     Option.bind (enter_break break_point (get_guest ra ctx) (se_debugger se)) (\<lambda>(address, d).
       if address = 0 then Some (Continue, se\<lparr>se_debugger := d\<rparr>, lines)
       else map_option (\<lambda>(r, se, lines). (r, if r = Continue then on_debugger resume se else se, lines))
              (menu_loop env ctx address lines (se\<lparr>se_debugger := reset_waits d\<rparr>)))"

end
