(* ===== verification/DebuggerRules.thy ===== *)
theory DebuggerRules
  imports DebuggerMenu
begin

text \<open>
  The contracts of the debugger: host addresses are resolved to the guest instruction whose code they lie in,
  and the table of break points stays ordered and placed when one is inserted.
\<close>

section \<open>Sums of sizes\<close>

definition total_size :: "u64 list \<Rightarrow> nat" where
  "total_size ws = sum_list (map unat ws)"

lemma total_size_simps [simp]:
  "total_size [] = 0" "total_size (w # ws) = unat w + total_size ws"
  "total_size (xs @ ys) = total_size xs + total_size ys"
  by (simp_all add: total_size_def)

lemma unat_add_size:
  fixes a w :: u64
  shows "unat a + unat w < 2 ^ 64 \<Longrightarrow> unat (a + w) = unat a + unat w"
  by (rule unat_add_lem [THEN iffD1]) simp

lemma sum_sizes: "unat a + total_size ws < 2 ^ 64 \<Longrightarrow> unat (a + sum_list ws) = unat a + total_size ws"
proof (induction ws arbitrary: a)
  case (Cons w ws)
  have "unat (a + w) = unat a + unat w"
    using Cons.prems by (intro unat_add_size) simp
  then show ?case
    using Cons.IH [of "a + w"] Cons.prems by (simp add: add.assoc)
qed simp

section \<open>Blocks\<close>

text \<open>
  A translated block: its instructions have at least one byte each in the guest and on the host, and fill it
  without wrapping around the address space.
\<close>

definition block_ok :: "debug_block \<Rightarrow> bool" where
  "block_ok b \<longleftrightarrow> (let e = db_entry b; offs = cb_offsets e in
     offs \<noteq> [] \<and> (\<forall>(sx, sr) \<in> set offs. 0 < sx \<and> 0 < sr) \<and> 0 < cb_riscv e \<and>
     unat (cb_start e) + total_size (map fst offs) = unat (cb_end e) \<and>
     unat (cb_riscv e) + 4 + total_size (map snd offs) < 2 ^ 64 \<and>
     db_riscv_end b = cb_riscv e + sum_list (map snd offs))"

lemma riscv_end_of_sum: "riscv_end_of b = cb_riscv b + sum_list (map snd (cb_offsets b))"
proof -
  have "fold (\<lambda>(sx, sr) r. r + sr) offs (r :: u64) = r + sum_list (map snd offs)" for offs :: "(u64 \<times> u64) list" and r
    by (induction offs arbitrary: r) (auto simp: add.assoc)
  then show ?thesis
    by (simp add: riscv_end_of_def)
qed

text \<open>Where the instruction number \<open>k\<close> of a block is, in the guest and on the host.\<close>

definition guest_at :: "code_block \<Rightarrow> nat \<Rightarrow> u64" where
  "guest_at b k = cb_start b + sum_list (map fst (take k (cb_offsets b)))"

definition host_at :: "code_block \<Rightarrow> nat \<Rightarrow> u64" where
  "host_at b k = cb_riscv b + sum_list (map snd (take k (cb_offsets b)))"

lemma resolve_address_correct:
  assumes "unat r + total_size (map snd offs) < 2 ^ 64" "k < length offs" "\<forall>e\<in>set offs. 0 < snd e"
    and "unat r + total_size (map snd (take k offs)) \<le> unat addr"
    and "unat addr < unat r + total_size (map snd (take (Suc k) offs))"
  shows "resolve_address addr r x prev offs = Some (x + sum_list (map fst (take k offs)))"
  using assms
proof (induction offs arbitrary: k r x prev)
  case (Cons e offs)
  obtain sx sr where e: "e = (sx, sr)"
    by (cases e)
  have r: "unat (r + sr) = unat r + unat sr"
    using Cons.prems(1) e by (intro unat_add_size) simp
  have head: "resolve_address addr (r + sr) y (Some s) offs = Some (y - s)" if "unat addr < unat r + unat sr" for y s
    using that r by (cases offs) (auto simp: word_less_nat_alt)
  show ?case
  proof (cases k)
    case 0
    then have "r = addr \<or> \<not> r > addr \<and> unat addr < unat r + unat sr"
      using Cons.prems(4,5) e by (auto simp: word_less_nat_alt)
    then show ?thesis
      using head [of "x + sx" sx] 0 e Cons.prems(4) by (auto simp: word_less_nat_alt)
  next
    case (Suc j)
    have "0 < unat sr"
      using Cons.prems(3) e by (simp add: unat_gt_0 word_gt_0)
    then have "r \<noteq> addr" "\<not> r > addr"
      using Cons.prems(4) Suc e by (auto simp: word_less_nat_alt)
    then show ?thesis
      using Cons.IH [of "r + sr" j "x + sx" "Some sx"] Cons.prems r Suc e by (simp add: add.assoc)
  qed
qed simp

text \<open>The debugger knows the code of its blocks, which are apart on the host and in order in the guest.\<close>

definition blocks_ok :: "debug_block list \<Rightarrow> bool" where
  "blocks_ok bs \<longleftrightarrow> (\<forall>b\<in>set bs. block_ok b) \<and>
     sorted_wrt (\<lambda>a b. cb_end (db_entry a) \<le> cb_start (db_entry b)) bs \<and>
     (\<forall>i<length bs. \<forall>j<length bs. \<forall>addr. holds_address addr (bs ! i) \<longrightarrow> holds_address addr (bs ! j) \<longrightarrow> i = j)"

definition current_ok :: "Debugger \<Rightarrow> bool" where
  "current_ok d \<longleftrightarrow> (case current_block d of
     None \<Rightarrow> current_index d = length (dbg_blocks d) + 1
   | Some i \<Rightarrow> current_index d = i \<and> i < length (dbg_blocks d))"

lemma find_block_known:
  assumes "blocks_ok (dbg_blocks d)" "current_ok d" "j < length (dbg_blocks d)" "holds_address addr (dbg_blocks d ! j)"
  shows "find_block addr d = d\<lparr>current_block := Some j, current_index := j\<rparr>"
proof -
  have one: "holds_address addr (dbg_blocks d ! i) \<longleftrightarrow> i = j" if "i < length (dbg_blocks d)" for i
    using assms that by (auto simp: blocks_ok_def)
  have search: "find (\<lambda>i. holds_address addr (dbg_blocks d ! i)) [0..<length (dbg_blocks d)] = Some j"
    unfolding find_Some_iff using assms(3) one by (intro exI [of _ j]) auto
  show ?thesis
  proof (cases "current_block d")
    case None
    then show ?thesis
      using search by (simp add: find_block_def)
  next
    case (Some i)
    then have i: "i < length (dbg_blocks d)" "current_index d = i"
      using assms(2) by (simp_all add: current_ok_def)
    show ?thesis
    proof (cases "i = j")
      case True
      then show ?thesis
        using Some i one [of i] by (simp add: find_block_def)
    next
      case False
      then show ?thesis
        using Some i one [of i] search by (simp add: find_block_def)
    qed
  qed
qed

lemma find_block_unknown:
  assumes "\<forall>b\<in>set (dbg_blocks d). \<not> holds_address addr b" "current_ok d"
  shows "current_block (find_block addr d) = None" "current_ok (find_block addr d)"
    "dbg_blocks (find_block addr d) = dbg_blocks d"
proof -
  have "find (\<lambda>i. holds_address addr (dbg_blocks d ! i)) [0..<length (dbg_blocks d)] = None"
    using assms(1) by (auto simp: find_None_iff)
  then show "current_block (find_block addr d) = None" "current_ok (find_block addr d)"
    "dbg_blocks (find_block addr d) = dbg_blocks d"
    using assms by (auto simp: find_block_def current_ok_def split: option.splits)
qed

lemma block_holds:
  assumes "block_ok b"
  shows "holds_address addr b \<longleftrightarrow> unat (cb_riscv (db_entry b)) \<le> unat addr \<and>
    unat addr < unat (cb_riscv (db_entry b)) + total_size (map snd (cb_offsets (db_entry b)))"
proof -
  have "unat (db_riscv_end b) = unat (cb_riscv (db_entry b)) + total_size (map snd (cb_offsets (db_entry b)))"
    using assms sum_sizes [of "cb_riscv (db_entry b)"] by (simp add: block_ok_def Let_def)
  then show ?thesis
    by (simp add: holds_address_def word_le_nat_alt word_less_nat_alt)
qed

lemma total_size_take:
  assumes "j \<le> k"
  shows "total_size (map f (take j xs)) \<le> total_size (map f (take k xs))"
proof -
  have "take k xs = take j xs @ take (k - j) (drop j xs)"
    using assms by (metis le_add_diff_inverse take_add)
  then show ?thesis
    by simp
qed

lemma host_at_unat:
  assumes "block_ok b"
  shows "unat (host_at (db_entry b) k) = unat (cb_riscv (db_entry b)) + total_size (map snd (take k (cb_offsets (db_entry b))))"
proof -
  have "total_size (map snd (take k (cb_offsets (db_entry b)))) \<le> total_size (map snd (cb_offsets (db_entry b)))"
    using total_size_take [of k "max k (length (cb_offsets (db_entry b)))" snd "cb_offsets (db_entry b)"] by simp
  then show ?thesis
    unfolding host_at_def using assms by (intro sum_sizes) (simp add: block_ok_def Let_def)
qed

lemma resolve_block_correct:
  assumes "blocks_ok (dbg_blocks d)" "current_ok d" "j < length (dbg_blocks d)" "b = dbg_blocks d ! j"
    and "k < length (cb_offsets (db_entry b))" "host_at (db_entry b) k \<le> addr" "addr < host_at (db_entry b) (Suc k)"
  shows "resolve_block addr d = Some (guest_at (db_entry b) k, d\<lparr>current_block := Some j, current_index := j\<rparr>)"
proof -
  let ?e = "db_entry b"
  have ok: "block_ok b"
    using assms by (simp add: blocks_ok_def)
  have place: "unat (cb_riscv ?e) + total_size (map snd (take k (cb_offsets ?e))) \<le> unat addr"
    "unat addr < unat (cb_riscv ?e) + total_size (map snd (take (Suc k) (cb_offsets ?e)))"
    using assms(6,7) host_at_unat [OF ok] by (simp_all add: word_le_nat_alt word_less_nat_alt)
  have "total_size (map snd (take (Suc k) (cb_offsets ?e))) \<le> total_size (map snd (cb_offsets ?e))"
    using total_size_take [of "Suc k" "length (cb_offsets ?e)" snd "cb_offsets ?e"] assms(5) by simp
  then have "holds_address addr b"
    using block_holds [OF ok] place by simp
  then have f: "find_block addr d = d\<lparr>current_block := Some j, current_index := j\<rparr>"
    using find_block_known [OF assms(1-3)] assms(4) by simp
  have "resolve_address addr (cb_riscv ?e) (cb_start ?e) None (cb_offsets ?e) = Some (guest_at ?e k)"
    unfolding guest_at_def using ok assms(5) place
    by (intro resolve_address_correct) (auto simp: block_ok_def Let_def)
  then show ?thesis
    using f assms(4) by (simp add: resolve_block_def Let_def)
qed

lemma resolve_block_unknown:
  assumes "\<forall>b\<in>set (dbg_blocks d). \<not> holds_address addr b" "current_ok d"
  shows "resolve_block addr d = Some (0, find_block addr d)"
  using find_block_unknown [OF assms] by (simp add: resolve_block_def Let_def)

section \<open>Places of break points\<close>

definition place :: "debug_block list \<Rightarrow> u64 \<Rightarrow> u64 \<times> u64" where
  "place bs addr = scan_blocks addr (addr, 0) bs"

lemma bp_place_at:
  assumes "unat x + total_size (map fst offs) < 2 ^ 64" "k < length offs"
    and "unat x + total_size (map fst (take k offs)) \<le> unat addr"
    and "unat addr < unat x + total_size (map fst (take (Suc k) offs))"
  shows "bp_place addr x r offs = Some (x + sum_list (map fst (take k offs)), r + sum_list (map snd (take k offs)))"
  using assms
proof (induction offs arbitrary: k x r)
  case (Cons e offs)
  obtain sx sr where e: "e = (sx, sr)"
    by (cases e)
  have x: "unat (x + sx) = unat x + unat sx"
    using Cons.prems(1) e by (intro unat_add_size) simp
  show ?case
  proof (cases k)
    case 0
    then have "x \<le> addr \<and> addr < x + sx"
      using Cons.prems(3,4) e x by (simp add: word_le_nat_alt word_less_nat_alt)
    then show ?thesis
      using 0 e by simp
  next
    case (Suc j)
    then have "\<not> (x \<le> addr \<and> addr < x + sx)" "offs \<noteq> []"
      using Cons.prems(2,3) e x by (auto simp: word_less_nat_alt)
    then show ?thesis
      using Cons.IH [of "x + sx" j "r + sr"] Cons.prems x Suc e by (auto simp: add.assoc)
  qed
qed simp

lemma find_size:
  assumes "n < total_size (map f xs)"
  obtains k where "k < length xs" "total_size (map f (take k xs)) \<le> n" "n < total_size (map f (take (Suc k) xs))"
  using assms
proof (induction xs arbitrary: n thesis)
  case (Cons x xs)
  show ?case
  proof (cases "n < unat (f x)")
    case True
    then show ?thesis
      using Cons.prems(1) [of 0] by simp
  next
    case False
    then have "n - unat (f x) < total_size (map f xs)"
      using Cons.prems(2) by simp
    then obtain k where "k < length xs" "total_size (map f (take k xs)) \<le> n - unat (f x)"
      "n - unat (f x) < total_size (map f (take (Suc k) xs))"
      using Cons.IH by blast
    then show ?thesis
      using Cons.prems(1) [of "Suc k"] False by simp
  qed
qed simp

text \<open>The instruction of a block that an address lies in.\<close>

definition in_instruction :: "debug_block \<Rightarrow> nat \<Rightarrow> u64 \<Rightarrow> bool" where
  "in_instruction b k addr \<longleftrightarrow> (let e = db_entry b in k < length (cb_offsets e) \<and>
     unat (cb_start e) + total_size (map fst (take k (cb_offsets e))) \<le> unat addr \<and>
     unat addr < unat (cb_start e) + total_size (map fst (take (Suc k) (cb_offsets e))))"

lemma inside_unat:
  "block_ok b \<Longrightarrow> inside_block addr b \<longleftrightarrow> unat (cb_start (db_entry b)) \<le> unat addr \<and>
    unat addr < unat (cb_start (db_entry b)) + total_size (map fst (cb_offsets (db_entry b)))"
  by (simp add: inside_block_def block_ok_def Let_def word_le_nat_alt word_less_nat_alt)

lemma inside_instruction:
  assumes "block_ok b" "inside_block addr b"
  obtains k where "in_instruction b k addr"
proof -
  let ?e = "db_entry b"
  have "unat addr - unat (cb_start ?e) < total_size (map fst (cb_offsets ?e))"
    using inside_unat [OF assms(1), of addr] assms(2) by arith
  then obtain k where "k < length (cb_offsets ?e)" "total_size (map fst (take k (cb_offsets ?e))) \<le> unat addr - unat (cb_start ?e)"
    "unat addr - unat (cb_start ?e) < total_size (map fst (take (Suc k) (cb_offsets ?e)))"
    by (rule find_size)
  then have "in_instruction b k addr"
    using inside_unat [OF assms(1), of addr] assms(2) unfolding in_instruction_def Let_def by arith
  then show thesis
    by (rule that)
qed

lemma instruction_inside:
  assumes "block_ok b" "in_instruction b k addr"
  shows "inside_block addr b"
  using total_size_take [of "Suc k" "length (cb_offsets (db_entry b))" fst "cb_offsets (db_entry b)"] assms
  by (simp add: inside_unat in_instruction_def Let_def)

lemma guest_at_unat:
  assumes "block_ok b"
  shows "unat (guest_at (db_entry b) k) = unat (cb_start (db_entry b)) + total_size (map fst (take k (cb_offsets (db_entry b))))"
proof -
  have "total_size (map fst (take k (cb_offsets (db_entry b)))) \<le> total_size (map fst (cb_offsets (db_entry b)))"
    using total_size_take [of k "max k (length (cb_offsets (db_entry b)))" fst "cb_offsets (db_entry b)"] by simp
  moreover have "unat (cb_end (db_entry b)) < 2 ^ 64"
    using unsigned_less [of "cb_end (db_entry b)"] by simp
  ultimately show ?thesis
    unfolding guest_at_def using assms by (intro sum_sizes) (simp add: block_ok_def Let_def)
qed

lemma place_in_instruction:
  assumes "block_ok b" "in_instruction b k addr"
  shows "place_in_block addr b = Some (guest_at (db_entry b) k, host_at (db_entry b) k + 4)"
    "host_at (db_entry b) k + 4 \<noteq> 0" "guest_at (db_entry b) k \<le> addr"
proof -
  let ?e = "db_entry b"
  have "unat (cb_end ?e) < 2 ^ 64"
    using unsigned_less [of "cb_end ?e"] by simp
  then have "unat (cb_start ?e) + total_size (map fst (cb_offsets ?e)) < 2 ^ 64"
    using assms(1) by (simp add: block_ok_def Let_def)
  from bp_place_at [OF this, of k addr "cb_riscv ?e + 4"]
  show "place_in_block addr b = Some (guest_at ?e k, host_at ?e k + 4)"
    using assms(2) by (simp add: place_in_block_def guest_at_def host_at_def in_instruction_def Let_def)
  have "total_size (map snd (take k (cb_offsets ?e))) \<le> total_size (map snd (cb_offsets ?e))"
    using total_size_take [of k "max k (length (cb_offsets ?e))" snd "cb_offsets ?e"] by simp
  then have "unat (host_at ?e k + 4) = unat (host_at ?e k) + unat (4 :: u64)"
    using assms(1) host_at_unat [OF assms(1)] by (intro unat_add_size) (simp add: block_ok_def Let_def)
  then show "host_at ?e k + 4 \<noteq> 0"
    by (auto simp: unat_eq_zero [symmetric])
  show "guest_at ?e k \<le> addr"
    using assms(2) guest_at_unat [OF assms(1)] by (simp add: in_instruction_def Let_def word_le_nat_alt)
qed

lemma place_outside: "\<forall>b\<in>set bs. \<not> inside_block addr b \<Longrightarrow> scan_blocks addr p bs = p"
  by (induction bs) auto

lemma block_nonempty:
  assumes "block_ok b"
  shows "cb_start (db_entry b) < cb_end (db_entry b)"
proof -
  obtain sx sr offs where offs: "cb_offsets (db_entry b) = (sx, sr) # offs"
    using assms by (auto simp: block_ok_def Let_def neq_Nil_conv)
  then have "0 < unat sx"
    using assms by (auto simp: block_ok_def Let_def unat_gt_0 word_gt_0)
  then show ?thesis
    using assms offs by (simp add: block_ok_def Let_def word_less_nat_alt)
qed

lemma blocks_ok_Cons:
  assumes "blocks_ok (a # bs)"
  shows "block_ok a" "blocks_ok bs" "b \<in> set bs \<Longrightarrow> cb_end (db_entry a) \<le> cb_start (db_entry b)"
proof -
  have "i = j" if "i < length bs" "j < length bs" "holds_address addr (bs ! i)" "holds_address addr (bs ! j)" for i j addr
    using assms that unfolding blocks_ok_def by (metis Suc_less_eq length_Cons nat.inject nth_Cons_Suc)
  then show "block_ok a" "blocks_ok bs" "b \<in> set bs \<Longrightarrow> cb_end (db_entry a) \<le> cb_start (db_entry b)"
    using assms by (simp_all add: blocks_ok_def)
qed

lemma place_inside:
  assumes "blocks_ok bs" "b \<in> set bs" "in_instruction b k addr"
  shows "scan_blocks addr p bs = (guest_at (db_entry b) k, host_at (db_entry b) k + 4)"
  using assms(1,2)
proof (induction bs)
  case (Cons a bs)
  have ok: "block_ok b" "block_ok a" "blocks_ok bs"
    using Cons.prems blocks_ok_Cons [OF Cons.prems(1)] by (auto simp: blocks_ok_def)
  note b = place_in_instruction [OF ok(1) assms(3)] instruction_inside [OF ok(1) assms(3)]
  show ?case
  proof (cases "a = b")
    case True
    then show ?thesis
      using b by (auto simp: inside_block_def)
  next
    case False
    then have "cb_end (db_entry a) \<le> cb_start (db_entry b)" "b \<in> set bs"
      using Cons.prems(2) blocks_ok_Cons(3) [OF Cons.prems(1)] by auto
    then have "\<not> addr < cb_start (db_entry a)" "\<not> inside_block addr a"
      using b(4) block_nonempty [OF ok(2)] by (auto simp: inside_block_def)
    then show ?thesis
      using Cons.IH ok(3) \<open>b \<in> set bs\<close> by simp
  qed
qed simp

text \<open>The address of a place is not above, and addresses between have the same place.\<close>

lemma place_below:
  assumes "blocks_ok bs"
  shows "fst (place bs addr) \<le> addr"
proof (cases "\<exists>b\<in>set bs. inside_block addr b")
  case True
  then obtain b k where b: "b \<in> set bs" "block_ok b" "in_instruction b k addr"
    using assms inside_instruction unfolding blocks_ok_def by metis
  then show ?thesis
    using place_inside [OF assms b(1,3)] place_in_instruction(3) [OF b(2,3)] by (simp add: place_def)
qed (simp add: place_def place_outside)

lemma place_between:
  assumes "blocks_ok bs" "fst (place bs addr) \<le> a" "a \<le> addr"
  shows "place bs a = place bs addr"
proof (cases "\<exists>b\<in>set bs. inside_block addr b")
  case True
  then obtain b k where b: "b \<in> set bs" "block_ok b" "in_instruction b k addr"
    using assms inside_instruction unfolding blocks_ok_def by metis
  have p: "place bs addr = (guest_at (db_entry b) k, host_at (db_entry b) k + 4)"
    using place_inside [OF assms(1) b(1,3)] by (simp add: place_def)
  then have "in_instruction b k a"
    using assms(2,3) b(3) guest_at_unat [OF b(2)] by (auto simp: in_instruction_def Let_def word_le_nat_alt)
  then show ?thesis
    using place_inside [OF assms(1) b(1)] p by (simp add: place_def)
next
  case False
  then have "place bs addr = (addr, 0)"
    by (simp add: place_def place_outside)
  then show ?thesis
    using assms(2,3) by auto
qed

lemma place_mono:
  assumes "blocks_ok bs" "a \<le> addr"
  shows "fst (place bs a) \<le> fst (place bs addr)"
proof (cases "fst (place bs addr) \<le> a")
  case True
  then show ?thesis
    using place_between [OF assms(1) True assms(2)] by simp
next
  case False
  then show ?thesis
    using place_below [OF assms(1), of a] by simp
qed

lemma place_place: "blocks_ok bs \<Longrightarrow> place bs (fst (place bs addr)) = place bs addr"
  by (rule place_between) (simp_all add: place_below)

section \<open>The table of break points\<close>

definition bps :: "Debugger \<Rightarrow> (u64 \<times> u64) list" where
  "bps d = zip (bp_x86_array d) (bp_array d)"

definition bp_list :: "Debugger \<Rightarrow> (u64 \<times> u64) list" where
  "bp_list d = take (bp_count d) (bps d)"

definition tables_ok :: "Debugger \<Rightarrow> bool" where
  "tables_ok d \<longleftrightarrow> length (bp_x86_array d) = 256 \<and> length (bp_array d) = 256"

text \<open>The members that do not belong to the table.\<close>

definition same_rest :: "Debugger \<Rightarrow> Debugger \<Rightarrow> bool" where
  "same_rest d d' \<longleftrightarrow> (\<exists>xs ys. d' = d\<lparr>bp_x86_array := xs, bp_array := ys\<rparr>)"

lemma length_bps [simp]: "tables_ok d \<Longrightarrow> length (bps d) = 256"
  by (simp add: bps_def tables_ok_def)

lemma get_bp_nth: "tables_ok d \<Longrightarrow> i < 256 \<Longrightarrow> get_bp i d = bps d ! i"
  by (simp add: get_bp_def bps_def tables_ok_def)

lemma set_bp_simps [simp]:
  "tables_ok (set_bp i p d) = tables_ok d" "bps (set_bp i p d) = (bps d)[i := p]" "same_rest d (set_bp i p d)"
  "bp_count (set_bp i p d) = bp_count d" "dbg_blocks (set_bp i p d) = dbg_blocks d"
  by (cases p; auto simp: set_bp_def tables_ok_def bps_def same_rest_def update_zip)+

lemma same_rest_refl [simp]: "same_rest d d"
  unfolding same_rest_def by (intro exI [of _ "bp_x86_array d"] exI [of _ "bp_array d"]) simp

lemma same_rest_trans: "same_rest d d' \<Longrightarrow> same_rest d' d'' \<Longrightarrow> same_rest d d''"
  unfolding same_rest_def by (elim exE) (simp, blast)

lemma same_rest_simps:
  "same_rest d d' \<Longrightarrow> bp_count d' = bp_count d" "same_rest d d' \<Longrightarrow> dbg_blocks d' = dbg_blocks d"
  "same_rest d d' \<Longrightarrow> current_ok d' = current_ok d"
  unfolding same_rest_def by (elim exE; simp add: current_ok_def split: option.split)+

lemma bp_count_simps [simp]:
  "current_ok (d\<lparr>bp_count := n\<rparr>) = current_ok d" "tables_ok (d\<lparr>bp_count := n\<rparr>) = tables_ok d"
  "bps (d\<lparr>bp_count := n\<rparr>) = bps d"
  by (simp_all add: current_ok_def tables_ok_def bps_def split: option.split)

lemma close_gap_spec:
  assumes "tables_ok d" "i + k < 256"
  shows "tables_ok (close_gap i k d) \<and> same_rest d (close_gap i k d) \<and>
    take (i + k) (bps (close_gap i k d)) = take i (bps d) @ take k (drop (Suc i) (bps d))"
  using assms
proof (induction k arbitrary: i d)
  case (Suc k)
  let ?d = "set_bp i (get_bp (Suc i) d) d"
  have IH: "tables_ok (close_gap (Suc i) k ?d)" "same_rest ?d (close_gap (Suc i) k ?d)"
    "take (Suc i + k) (bps (close_gap (Suc i) k ?d)) = take (Suc i) (bps ?d) @ take k (drop (Suc (Suc i)) (bps ?d))"
    using Suc.IH [of ?d "Suc i"] Suc.prems by simp_all
  have "take (Suc i) (bps ?d) = take i (bps d) @ [bps d ! Suc i]" "drop (Suc (Suc i)) (bps ?d) = drop (Suc (Suc i)) (bps d)"
    using Suc.prems by (simp_all add: get_bp_nth take_Suc_conv_app_nth)
  moreover have "take (Suc k) (drop (Suc i) (bps d)) = bps d ! Suc i # take k (drop (Suc (Suc i)) (bps d))"
    using Suc.prems by (simp add: Cons_nth_drop_Suc [symmetric])
  ultimately show ?case
    using IH same_rest_trans [OF set_bp_simps(3) IH(2)] by simp
qed simp

lemma open_gap_spec:
  assumes "tables_ok d" "n < 256" "open_gap addr n d = (i, d')"
  shows "i \<le> n \<and> tables_ok d' \<and> same_rest d d' \<and>
    bps d' = take (Suc i) (bps d) @ drop i (take n (bps d)) @ drop (Suc n) (bps d) \<and>
    (0 < i \<longrightarrow> fst (bps d ! (i - 1)) < addr) \<and> (\<forall>j. i \<le> j \<longrightarrow> j < n \<longrightarrow> addr \<le> fst (bps d ! j))"
  using assms
proof (induction n arbitrary: d)
  case 0
  then show ?case
    by (auto simp: append_take_drop_id)
next
  case (Suc n)
  have nth: "fst (bps d ! n) = bp_x86_array d ! n"
    using Suc.prems by (simp add: bps_def tables_ok_def)
  show ?case
  proof (cases "bp_x86_array d ! n < addr")
    case True
    then have "i = Suc n" "d' = d"
      using Suc.prems by simp_all
    then show ?thesis
      using True nth Suc.prems by auto
  next
    case False
    let ?d = "set_bp (Suc n) (get_bp n d) d"
    have get: "get_bp n d = bps d ! n"
      using get_bp_nth [of d n] Suc.prems(1,2) by simp
    then have arr: "bps ?d = (bps d)[Suc n := bps d ! n]"
      by simp
    have IH: "i \<le> n" "tables_ok d'" "same_rest ?d d'"
      "bps d' = take (Suc i) (bps ?d) @ drop i (take n (bps ?d)) @ drop (Suc n) (bps ?d)"
      "0 < i \<longrightarrow> fst (bps ?d ! (i - 1)) < addr" "\<forall>j. i \<le> j \<longrightarrow> j < n \<longrightarrow> addr \<le> fst (bps ?d ! j)"
      using Suc.IH [of ?d] Suc.prems False by auto
    have "drop (Suc n) (bps ?d) = bps d ! n # drop (Suc (Suc n)) (bps d)" "take (Suc i) (bps ?d) = take (Suc i) (bps d)"
      "take n (bps ?d) = take n (bps d)"
      using Suc.prems IH(1) by (simp_all add: get Cons_nth_drop_Suc [symmetric])
    moreover have "drop i (take (Suc n) (bps d)) = drop i (take n (bps d)) @ [bps d ! n]"
      using Suc.prems IH(1) by (simp add: take_Suc_conv_app_nth)
    moreover have "addr \<le> fst (bps d ! j)" if "i \<le> j" "j < Suc n" for j
      using that IH(6) False nth by (cases "j = n") (auto simp: get)
    ultimately show ?thesis
      using IH same_rest_trans [OF set_bp_simps(3) IH(3)] by (auto simp: get)
  qed
qed

text \<open>
  The table is in order, and every entry is where the known blocks place it: in translated code at the start
  of an instruction with its host address, elsewhere without one.
\<close>

definition placed :: "debug_block list \<Rightarrow> (u64 \<times> u64) list \<Rightarrow> bool" where
  "placed bs ps \<longleftrightarrow> sorted_wrt (<) (map fst ps) \<and> (\<forall>p\<in>set ps. p = place bs (fst p))"

definition bp_ok :: "Debugger \<Rightarrow> bool" where
  "bp_ok d \<longleftrightarrow> tables_ok d \<and> bp_count d \<le> 255 \<and> placed (dbg_blocks d) (bp_list d)"

lemma bp_doubled_bps:
  assumes "tables_ok d" "i < 256" "n < 256"
  shows "bp_doubled i n d \<longleftrightarrow> (i > 0 \<and> fst (bps d ! i) = fst (bps d ! (i - 1))) \<or>
    (i < n \<and> fst (bps d ! i) = fst (bps d ! (i + 1)))"
  using assms by (auto simp: bp_doubled_def bps_def tables_ok_def)

lemma placed_split:
  assumes "blocks_ok bs" "placed bs (lower @ upper)"
    and "\<forall>q\<in>set lower. fst q \<le> addr" "\<forall>q\<in>set upper. addr \<le> fst q"
  shows "\<forall>q\<in>set lower. fst q \<le> fst (place bs addr)" "\<forall>q\<in>set upper. fst (place bs addr) \<le> fst q"
    "place bs addr \<in> set lower \<longleftrightarrow> lower \<noteq> [] \<and> fst (place bs addr) = fst (last lower)"
    "place bs addr \<in> set upper \<longleftrightarrow> upper \<noteq> [] \<and> fst (place bs addr) = fst (hd upper)"
proof -
  let ?p = "place bs addr"
  have at: "q = place bs (fst q)" if "q \<in> set lower \<union> set upper" for q
    using assms(2) that by (auto simp: placed_def)
  show low: "\<forall>q\<in>set lower. fst q \<le> fst ?p"
  proof
    fix q assume q: "q \<in> set lower"
    then have "fst (place bs (fst q)) \<le> fst ?p"
      using place_mono [OF assms(1)] assms(3) by simp
    then show "fst q \<le> fst ?p"
      using at q by simp
  qed
  show up: "\<forall>q\<in>set upper. fst ?p \<le> fst q"
    using assms(4) place_below [OF assms(1), of addr] by (auto intro: order_trans)
  have same: "q = ?p" if "q \<in> set lower \<union> set upper" "fst ?p = fst q" for q
    using at [OF that(1)] place_place [OF assms(1), of addr] that(2) by simp
  have sorted: "sorted_wrt (<) (map fst lower)" "sorted_wrt (<) (map fst upper)"
    using assms(2) by (simp_all add: placed_def sorted_wrt_append)
  show "?p \<in> set lower \<longleftrightarrow> lower \<noteq> [] \<and> fst ?p = fst (last lower)"
  proof (cases lower rule: rev_cases)
    case (snoc l x)
    then have "\<forall>q\<in>set l. fst q < fst x" "fst x \<le> fst ?p"
      using sorted(1) low by (auto simp: sorted_wrt_append)
    then show ?thesis
      using snoc same [of x] by auto
  qed simp
  show "?p \<in> set upper \<longleftrightarrow> upper \<noteq> [] \<and> fst ?p = fst (hd upper)"
  proof (cases upper)
    case (Cons x l)
    then have "\<forall>q\<in>set l. fst x < fst q" "fst ?p \<le> fst x"
      using sorted(2) up by auto
    then show ?thesis
      using Cons same [of x] by auto
  qed simp
qed

lemma placed_insert:
  assumes "blocks_ok bs" "placed bs (lower @ upper)" "place bs addr \<notin> set (lower @ upper)"
    and "\<forall>q\<in>set lower. fst q \<le> addr" "\<forall>q\<in>set upper. addr \<le> fst q"
  shows "placed bs (lower @ place bs addr # upper)"
proof -
  let ?p = "place bs addr"
  note split = placed_split [OF assms(1,2,4,5)]
  have at: "q = place bs (fst q)" if "q \<in> set (lower @ upper)" for q
    using assms(2) that by (simp add: placed_def)
  have neq: "fst q \<noteq> fst ?p" if "q \<in> set (lower @ upper)" for q
    using at [OF that] place_place [OF assms(1), of addr] assms(3) that by metis
  have "\<forall>q\<in>set lower. fst q < fst ?p" "\<forall>q\<in>set upper. fst ?p < fst q"
    using split(1,2) neq by (metis Un_iff order_less_le set_append)+
  then show ?thesis
    using assms(2) place_place [OF assms(1), of addr] by (auto simp: placed_def sorted_wrt_append)
qed

lemma insert_break_point_correct:
  assumes "bp_ok d" "blocks_ok (dbg_blocks d)" "bp_count d < 255"
    and "insert_break_point addr True d = (new, d')" "p = place (dbg_blocks d) addr"
  shows "bp_ok d' \<and> dbg_blocks d' = dbg_blocks d \<and> current_ok d' = current_ok d \<and> bp_count d' \<le> bp_count d + 1 \<and>
    (new \<longleftrightarrow> p \<notin> set (bp_list d)) \<and> set (bp_list d') = insert p (set (bp_list d))"
proof -
  let ?n = "bp_count d" and ?bs = "dbg_blocks d"
  have tables: "tables_ok d" and placed: "placed ?bs (bp_list d)"
    using assms(1) by (simp_all add: bp_ok_def)
  obtain i e where og: "open_gap addr ?n d = (i, e)"
    by (cases "open_gap addr ?n d")
  have n: "?n < 256"
    using assms(3) by simp
  note g = open_gap_spec [OF tables n og]
  define lower where "lower = take i (bp_list d)"
  define upper where "upper = drop i (bp_list d)"
  define f where "f = set_bp i p e"
  have len: "length (bp_list d) = ?n" "length lower = i"
    using g tables n by (simp_all add: bp_list_def lower_def)
  have L: "bp_list d = lower @ upper"
    by (simp add: lower_def upper_def)
  have up_len: "?n - i = length upper" "i + length upper = ?n"
    using len(1) g by (simp_all add: upper_def)
  have blocks: "dbg_blocks e = ?bs" "bp_count e = ?n"
    using g same_rest_simps by auto
  have f: "tables_ok f" "same_rest d f" "bps f = lower @ p # upper @ drop (Suc ?n) (bps d)"
  proof -
    show "tables_ok f" "same_rest d f"
      using g same_rest_trans [OF _ set_bp_simps(3)] by (auto simp: f_def)
    have "bps e = take i (bps d) @ bps d ! i # upper @ drop (Suc ?n) (bps d)"
      using g tables n by (simp add: upper_def bp_list_def take_Suc_conv_app_nth)
    moreover have "lower = take i (bps d)"
      using g by (simp add: lower_def bp_list_def min_def)
    ultimately show "bps f = lower @ p # upper @ drop (Suc ?n) (bps d)"
      using len(2) by (simp add: f_def list_update_append)
  qed
  have nth: "bp_list d ! j = bps d ! j" if "j < ?n" for j
    using that by (simp add: bp_list_def)
  have low: "\<forall>q\<in>set lower. fst q \<le> addr"
  proof (cases lower rule: rev_cases)
    case (snoc l x)
    then have "0 < i" "x = bps d ! (i - 1)"
      using len g nth [of "i - 1"] L by (auto simp: nth_append)
    then show ?thesis
      using snoc g placed L by (auto simp: placed_def sorted_wrt_append intro: less_imp_le dest: order.strict_trans)
  qed simp
  have up: "\<forall>q\<in>set upper. addr \<le> fst q"
  proof
    fix q assume "q \<in> set upper"
    then obtain k where k: "k < ?n - i" "q = bp_list d ! (i + k)"
      using len(1) g by (auto simp: upper_def in_set_conv_nth)
    then have "q = bps d ! (i + k)" "i + k < ?n"
      using nth [of "i + k"] by simp_all
    then show "addr \<le> fst q"
      using g by simp
  qed
  note split = placed_split [OF assms(2) placed [unfolded L] low up, folded assms(5)]
  have doubled: "bp_doubled i ?n f \<longleftrightarrow> p \<in> set (bp_list d)"
  proof -
    have "i < ?n \<longleftrightarrow> 0 < length upper"
      using up_len by arith
    then have ends: "0 < i \<longleftrightarrow> lower \<noteq> []" "i < ?n \<longleftrightarrow> upper \<noteq> []"
      using len(2) by auto
    have "bps f ! i = p" "0 < i \<Longrightarrow> bps f ! (i - 1) = last lower"
      using len(2) by (auto simp: f(3) nth_append last_conv_nth)
    moreover have "bps f ! (i + 1) = hd upper" if "i < ?n"
      using that ends(2) len(2) by (cases upper) (auto simp: f(3) nth_append)
    moreover note ends
    ultimately have "bps f ! i = p" "0 < i \<Longrightarrow> bps f ! (i - 1) = last lower" "i < ?n \<Longrightarrow> bps f ! (i + 1) = hd upper"
      "0 < i \<longleftrightarrow> lower \<noteq> []" "i < ?n \<longleftrightarrow> upper \<noteq> []"
      by simp_all
    then show ?thesis
      using bp_doubled_bps [OF f(1), of i ?n] g n split(3,4) L by auto
  qed
  have result: "insert_break_point addr True d =
      (if p \<in> set (bp_list d) then (False, close_gap i (?n - i) f) else (True, f\<lparr>bp_count := ?n + 1\<rparr>))"
    using og doubled same_rest_simps [OF f(2)] blocks assms(5)
    by (simp add: insert_break_point_def f_def place_def)
  show ?thesis
  proof (cases "p \<in> set (bp_list d)")
    case True
    then have d': "d' = close_gap i (?n - i) f" "\<not> new"
      using result assms(4) by simp_all
    have c: "tables_ok d'" "same_rest f d'" "take ?n (bps d') = take i (bps f) @ take (?n - i) (drop (Suc i) (bps f))"
      using close_gap_spec [OF f(1), of i "?n - i"] g n by (simp_all add: d')
    have "bp_list d' = bp_list d" "bp_count d' = ?n"
      using c(3) same_rest_simps [OF same_rest_trans [OF f(2) c(2)]] len L f(3) up_len by (simp_all add: bp_list_def)
    then show ?thesis
      using True d' c(1) assms(1) same_rest_simps [OF same_rest_trans [OF f(2) c(2)]] by (auto simp: bp_ok_def)
  next
    case False
    then have d': "d' = f\<lparr>bp_count := ?n + 1\<rparr>" "new"
      using result assms(4) by simp_all
    have "bps d' = bps f" "bp_count d' = length (lower @ p # upper)"
      using up_len len(2) by (simp_all add: d')
    then have "bp_list d' = lower @ p # upper"
      unfolding bp_list_def f(3) by simp
    moreover have "placed ?bs (lower @ p # upper)"
      using placed_insert [OF assms(2) placed [unfolded L] _ low up] False L assms(5) by simp
    moreover have "tables_ok d'" "dbg_blocks d' = ?bs" "current_ok d' = current_ok d" "bp_count d' = ?n + 1"
      using f(1) same_rest_simps [OF f(2)] by (simp_all add: d')
    ultimately show ?thesis
      using False d'(2) L assms(3) by (auto simp: bp_ok_def)
  qed
qed

end
