(* ===== verification/DebuggerUpdates.thy ===== *)
theory DebuggerUpdates
  imports DebuggerRules
begin

text \<open>
  The break points when an entry is removed and when a new block is translated: the table stays ordered and
  placed, and the new block's break points, doubles removed, are the ones of the old table.
\<close>

section \<open>Removing an entry\<close>

text \<open>The table as a list: replacing and removing an entry.\<close>

definition same_others :: "Debugger \<Rightarrow> Debugger \<Rightarrow> bool" where
  "same_others d d' \<longleftrightarrow> (\<exists>xs ys n. d' = d\<lparr>bp_x86_array := xs, bp_array := ys, bp_count := n\<rparr>)"

lemma same_others_trans: "same_others d d' \<Longrightarrow> same_others d' d'' \<Longrightarrow> same_others d d''"
  unfolding same_others_def by (elim exE) (simp, blast)

lemma same_others_rest: "same_rest d d' \<Longrightarrow> same_others d (d'\<lparr>bp_count := n\<rparr>)"
  unfolding same_rest_def same_others_def by (elim exE) (simp, blast)

lemma same_others_refl [simp]: "same_others d d"
  using same_others_rest [of d d "bp_count d"] by simp

lemma same_others_simps:
  "same_others d d' \<Longrightarrow> dbg_blocks d' = dbg_blocks d" "same_others d d' \<Longrightarrow> current_ok d' = current_ok d"
  "same_others d d' \<Longrightarrow> dbg_state d' = dbg_state d"
  unfolding same_others_def by (elim exE; simp add: current_ok_def split: option.split)+

lemma length_bp_list: "tables_ok d \<Longrightarrow> bp_count d \<le> 256 \<Longrightarrow> length (bp_list d) = bp_count d"
  by (simp add: bp_list_def)

lemma bp_list_nth:
  assumes "tables_ok d" "bp_count d \<le> 256" "i < bp_count d"
  shows "bp_list d ! i = (bp_x86_array d ! i, bp_array d ! i)"
  using assms by (simp add: bp_list_def bps_def tables_ok_def)

lemma bp_list_set: "i < bp_count d \<Longrightarrow> bp_list (set_bp i p d) = (bp_list d)[i := p]"
  by (simp add: bp_list_def take_update_swap)

lemma removed_list:
  assumes "tables_ok d" "bp_count d \<le> 255" "i < bp_count d" "bp_count d - 1 \<le> i + k" "i + k \<le> bp_count d"
    and "d' = (close_gap i k d)\<lparr>bp_count := bp_count d - 1\<rparr>"
  shows "tables_ok d'" "same_others d d'" "bp_list d' = take i (bp_list d) @ drop (Suc i) (bp_list d)"
    "bp_count d' = bp_count d - 1"
proof -
  have c: "tables_ok (close_gap i k d)" "same_rest d (close_gap i k d)"
    "take (i + k) (bps (close_gap i k d)) = take i (bps d) @ take k (drop (Suc i) (bps d))"
    using close_gap_spec [of d i k] assms by simp_all
  then show "tables_ok d'" "same_others d d'" "bp_count d' = bp_count d - 1"
    using same_others_rest assms(6) by simp_all
  have len: "length (bps d) = 256" "i \<le> bp_count d - 1"
    using assms by auto
  have "bp_list d' = take (bp_count d - 1) (take (i + k) (bps (close_gap i k d)))"
    using assms(4,6) by (simp add: bp_list_def min_absorb1)
  also have "\<dots> = take i (bps d) @ take (bp_count d - 1 - i) (drop (Suc i) (bps d))"
    unfolding c(3) using len assms(2,4) by (simp add: min_absorb1 min_absorb2)
  also have "\<dots> = take i (bp_list d) @ drop (Suc i) (bp_list d)"
    using len assms(3) by (simp add: bp_list_def drop_take min_absorb1)
  finally show "bp_list d' = take i (bp_list d) @ drop (Suc i) (bp_list d)" .
qed

lemma remove_break_point_correct:
  assumes "bp_ok d" "i < bp_count d"
  shows "bp_ok (remove_break_point i d) \<and> same_others d (remove_break_point i d) \<and>
    bp_list (remove_break_point i d) = take i (bp_list d) @ drop (Suc i) (bp_list d)"
proof -
  have r: "tables_ok (remove_break_point i d)" "same_others d (remove_break_point i d)"
    "bp_list (remove_break_point i d) = take i (bp_list d) @ drop (Suc i) (bp_list d)"
    "bp_count (remove_break_point i d) = bp_count d - 1"
    using removed_list [of d i "bp_count d - (i + 1)" "remove_break_point i d"] assms
    by (simp_all add: remove_break_point_def bp_ok_def)
  have "sorted_wrt (<) (map fst (take i (bp_list d) @ drop (Suc i) (bp_list d)))"
  proof -
    have "take i (bp_list d) @ drop i (bp_list d) = bp_list d"
      by simp
    then have "sorted_wrt (<) (map fst (take i (bp_list d) @ drop i (bp_list d)))"
      using assms(1) by (simp add: bp_ok_def placed_def)
    moreover have "drop (Suc i) (bp_list d) = tl (drop i (bp_list d))"
      by (simp add: drop_Suc tl_drop)
    ultimately show ?thesis
      by (cases "drop i (bp_list d)") (auto simp: sorted_wrt_append)
  qed
  then have "placed (dbg_blocks d) (bp_list (remove_break_point i d))"
    using assms(1) r(3) by (auto simp: bp_ok_def placed_def dest: in_set_takeD in_set_dropD)
  then show ?thesis
    using r assms(1) same_others_simps [OF r(2)] by (auto simp: bp_ok_def intro: order_trans [OF diff_le_self])
qed

section \<open>A new block\<close>

text \<open>A block apart from the others.\<close>

definition apart_from :: "debug_block \<Rightarrow> debug_block list \<Rightarrow> bool" where
  "apart_from b bs \<longleftrightarrow> (\<forall>a\<in>set bs.
     (cb_end (db_entry a) \<le> cb_start (db_entry b) \<or> cb_end (db_entry b) \<le> cb_start (db_entry a)) \<and>
     (\<forall>addr. \<not> (holds_address addr a \<and> holds_address addr b)))"

lemma inside_one:
  assumes "blocks_ok bs" "a \<in> set bs" "b \<in> set bs" "inside_block addr a" "inside_block addr b"
  shows "a = b"
  using assms
proof (induction bs)
  case (Cons c bs)
  then show ?case
    using Cons.IH blocks_ok_Cons [OF Cons.prems(1)] Cons.prems(2-)
    by (fastforce simp: inside_block_def)
qed simp

lemma place_old_new:
  assumes "blocks_ok bs" "blocks_ok bs'" "set bs' = insert b (set bs)" "b \<notin> set bs"
  shows "place bs' addr = (if inside_block addr b then the (place_in_block addr b) else place bs addr)"
    "snd (place bs addr) \<noteq> 0 \<Longrightarrow> \<not> inside_block addr b"
    "inside_block addr b \<Longrightarrow> place_in_block addr b = Some (place bs' addr) \<and> snd (place bs' addr) \<noteq> 0"
proof -
  have ok: "block_ok a" if "a \<in> set bs'" for a
    using assms(2) that by (simp add: blocks_ok_def)
  have in_new: "place_in_block addr a = Some (place bs' addr) \<and> snd (place bs' addr) \<noteq> 0"
    if a: "a \<in> set bs'" "inside_block addr a" for a
  proof -
    obtain k where "in_instruction a k addr"
      using inside_instruction [OF ok [OF a(1)] a(2)] by blast
    then show ?thesis
      using place_inside [OF assms(2) a(1)] place_in_instruction [OF ok [OF a(1)]] by (simp add: place_def)
  qed
  have in_old: "place bs addr = place bs' addr" if a: "a \<in> set bs" "inside_block addr a" for a
  proof -
    obtain k where "in_instruction a k addr"
      using inside_instruction [OF ok, of a addr] a assms(3) by blast
    then show ?thesis
      using place_inside [OF assms(1) a(1)] place_inside [OF assms(2), of a] a(1) assms(3) by (simp add: place_def)
  qed
  show "inside_block addr b \<Longrightarrow> place_in_block addr b = Some (place bs' addr) \<and> snd (place bs' addr) \<noteq> 0"
    using in_new [of b] assms(3) by simp
  then show "place bs' addr = (if inside_block addr b then the (place_in_block addr b) else place bs addr)"
    using in_old assms(3) by (cases "\<exists>a\<in>set bs. inside_block addr a") (auto simp: place_def place_outside)
  show "\<not> inside_block addr b" if coded: "snd (place bs addr) \<noteq> 0"
  proof
    assume inside: "inside_block addr b"
    have "\<exists>a\<in>set bs. inside_block addr a"
    proof (rule ccontr)
      assume "\<not> ?thesis"
      then show False
        using coded place_outside [of bs addr "(addr, 0)"] by (simp add: place_def)
    qed
    then show False
      using inside_one [OF assms(2), of _ b addr] inside assms(3,4) by auto
  qed
qed

text \<open>The table while it is updated: the entries before the current one are where the new block places them.\<close>

definition updating :: "debug_block list \<Rightarrow> debug_block list \<Rightarrow> (u64 \<times> u64) list \<Rightarrow> (u64 \<times> u64) list \<Rightarrow> bool" where
  "updating bs bs' lower upper \<longleftrightarrow> sorted_wrt (<) (map fst (lower @ upper)) \<and>
     (\<forall>q\<in>set lower. q = place bs' (fst q)) \<and> (\<forall>q\<in>set upper. q = place bs (fst q))"

lemma updating_same:
  "updating bs bs' lower (q # upper) \<Longrightarrow> q = place bs' (fst q) \<Longrightarrow> updating bs bs' (lower @ [q]) upper"
  by (simp add: updating_def)

lemma updating_step:
  assumes "blocks_ok bs'" "updating bs bs' lower (q # upper)" "p = place bs' (fst q)"
  shows "upper \<noteq> [] \<Longrightarrow> fst p < fst (hd upper)"
    "lower \<noteq> [] \<Longrightarrow> fst p = fst (last lower) \<Longrightarrow> p = last lower"
    "lower = [] \<or> fst p \<noteq> fst (last lower) \<Longrightarrow> updating bs bs' (lower @ [p]) upper"
    "updating bs bs' lower upper"
proof -
  have u: "sorted_wrt (<) (map fst lower)" "sorted_wrt (<) (map fst upper)" "\<forall>a\<in>set lower. fst a < fst q"
    "\<forall>a\<in>set upper. fst q < fst a" "\<forall>a\<in>set lower. \<forall>b\<in>set upper. fst a < fst b"
    "\<forall>a\<in>set lower. a = place bs' (fst a)" "\<forall>a\<in>set upper. a = place bs (fst a)"
    using assms(2) by (auto simp: updating_def sorted_wrt_append)
  have pp: "p = place bs' (fst p)"
    using place_place [OF assms(1), of "fst q"] assms(3) by simp
  have up: "fst p < fst a" if "a \<in> set upper" for a
    using place_below [OF assms(1), of "fst q"] u(4) assms(3) that by (auto intro: order.strict_trans1)
  then show "upper \<noteq> [] \<Longrightarrow> fst p < fst (hd upper)"
    by simp
  have low: "fst a \<le> fst p" if "a \<in> set lower" for a
    using place_mono [OF assms(1), of "fst a" "fst q"] u(3,6) assms(3) that by (auto dest: bspec intro: less_imp_le)
  show same: "p = last lower" if "lower \<noteq> []" "fst p = fst (last lower)"
    using that u(6) pp by (metis last_in_set)
  show "updating bs bs' lower upper"
    using u by (simp add: updating_def sorted_wrt_append)
  show "updating bs bs' (lower @ [p]) upper" if "lower = [] \<or> fst p \<noteq> fst (last lower)"
  proof -
    have "fst a < fst p" if "a \<in> set lower" for a
    proof (cases lower rule: rev_cases)
      case (snoc l x)
      then have "fst x < fst p" "a = x \<or> fst a < fst x"
        using \<open>lower = [] \<or> fst p \<noteq> fst (last lower)\<close> low [of x] u(1) that by (auto simp: sorted_wrt_append)
      then show ?thesis
        by auto
    qed (use that in simp)
    then show ?thesis
      using u up pp by (auto simp: updating_def sorted_wrt_append)
  qed
qed

lemma bps_split:
  assumes "tables_ok d" "bp_count d \<le> 255" "i < bp_count d"
  obtains lower upper where "bp_list d = lower @ (bp_x86_array d ! i, bp_array d ! i) # upper" "length lower = i"
    "take i (bp_list d) = lower" "drop (Suc i) (bp_list d) = upper"
proof -
  have len: "length (bp_list d) = bp_count d"
    using length_bp_list assms(1,2) by simp
  show ?thesis
    using that [of "take i (bp_list d)" "drop (Suc i) (bp_list d)"] id_take_nth_drop [of i "bp_list d"] assms len
      bp_list_nth [of d i] by simp
qed

lemma doubled_list:
  assumes "tables_ok d" "bp_count d \<le> 255" "bp_list d = lower @ p # upper"
    and "upper \<noteq> [] \<Longrightarrow> fst p < fst (hd upper)"
  shows "bp_doubled (length lower) (bp_count d - 1) d \<longleftrightarrow> lower \<noteq> [] \<and> fst p = fst (last lower)"
proof -
  have n: "bp_count d = length lower + 1 + length upper"
    using length_bp_list [OF assms(1)] assms(2,3) by simp
  have nth: "fst (bps d ! j) = fst ((lower @ p # upper) ! j)" if "j < bp_count d" for j
    using that assms(3) by (simp add: bp_list_def flip: assms(3))
  have "0 < length lower \<Longrightarrow> fst (bps d ! (length lower - 1)) = fst (last lower)"
    using nth [of "length lower - 1"] n by (simp add: nth_append last_conv_nth)
  moreover have "fst (bps d ! length lower) = fst p"
    using nth [of "length lower"] n by simp
  moreover have "fst (bps d ! (length lower + 1)) = fst (hd upper)" if "upper \<noteq> []"
    using that nth [of "length lower + 1"] n by (cases upper) (simp_all add: nth_append)
  ultimately show ?thesis
    using bp_doubled_bps [OF assms(1), of "length lower" "bp_count d - 1"] n assms(2,4) by (auto dest: order.strict_implies_not_eq)
qed

definition grown :: "debug_block \<Rightarrow> debug_block list \<Rightarrow> debug_block list \<Rightarrow> bool" where
  "grown b bs bs' \<longleftrightarrow> blocks_ok bs \<and> blocks_ok bs' \<and> set bs' = insert b (set bs) \<and> b \<notin> set bs"

definition updated :: "debug_block list \<Rightarrow> Debugger \<Rightarrow> Debugger \<Rightarrow> bool" where
  "updated bs' d d' \<longleftrightarrow> tables_ok d' \<and> same_others d d' \<and> bp_count d' \<le> bp_count d \<and> placed bs' (bp_list d') \<and>
     set (bp_list d') = (\<lambda>q. place bs' (fst q)) ` set (bp_list d)"

lemma updated_trans:
  assumes "updated bs' e d'" "same_others d e" "bp_count e \<le> bp_count d"
    and "(\<lambda>q. place bs' (fst q)) ` set (bp_list e) = (\<lambda>q. place bs' (fst q)) ` set (bp_list d)"
  shows "updated bs' d d'"
  using assms same_others_trans [OF assms(2)] unfolding updated_def by (metis order_trans)

lemma same_others_set_bp [simp]: "same_others d (set_bp i p d)"
  using same_others_rest [OF set_bp_simps(3) [of d i p], of "bp_count d"] by (simp add: set_bp_def)

lemma update_from_correct:
  assumes "grown b bs bs'" "tables_ok d" "bp_count d \<le> 255" "i \<le> bp_count d"
    and "updating bs bs' (take i (bp_list d)) (drop i (bp_list d))"
  shows "updated bs' d (update_from b i d)"
  using assms(2-)
proof (induction "bp_count d - i" arbitrary: i d rule: less_induct)
  case less
  have g: "blocks_ok bs" "set bs' = insert b (set bs)" "b \<notin> set bs" and ok': "blocks_ok bs'"
    using assms(1) by (simp_all add: grown_def)
  note old_new = place_old_new [OF g(1) ok' g(2,3)]
  have len: "length (bp_list d) = bp_count d"
    using length_bp_list less.prems by simp
  show ?case
  proof (cases "i < bp_count d")
    case False
    then have "placed bs' (bp_list d)" "\<forall>q\<in>set (bp_list d). place bs' (fst q) = q"
      using less.prems len by (simp_all add: updating_def placed_def)
    then show ?thesis
      using False less.prems(1) by (simp add: update_from.simps [of b i d] updated_def)
  next
    case True
    obtain lower q upper where q: "q = (bp_x86_array d ! i, bp_array d ! i)"
      and L: "bp_list d = lower @ q # upper" "length lower = i" "take i (bp_list d) = lower" "drop (Suc i) (bp_list d) = upper"
      using bps_split [OF less.prems(1,2) True] by metis
    define p where "p = place bs' (fst q)"
    have u: "updating bs bs' lower (q # upper)"
      using less.prems(4) L by simp
    note step = updating_step [OF ok' u p_def]
    have go_on: "updated bs' d (update_from b (i + 1) d)" if "p = q"
    proof -
      have "updating bs bs' (take (i + 1) (bp_list d)) (drop (i + 1) (bp_list d))"
        using updating_same [OF u] that p_def L by simp
      then show ?thesis
        using less.hyps [of d "i + 1"] less.prems True by simp
    qed
    show ?thesis
    proof (cases "snd q \<noteq> 0 \<or> \<not> inside_block (fst q) b")
      case True
      have "place bs (fst q) = q"
        using u by (simp add: updating_def)
      then have "p = q"
        using old_new(1,2) [of "fst q"] True by (auto simp: p_def)
      then show ?thesis
        using go_on True q \<open>i < bp_count d\<close> by (simp add: update_from.simps [of b i d] resolve_bp_def Let_def)
    next
      case False
      define e where "e = set_bp i p d"
      have e: "resolve_bp b i d = e" "snd p \<noteq> 0"
        using old_new(3) [of "fst q"] False q by (simp_all add: resolve_bp_def p_def e_def Let_def)
      have "bp_array e ! i \<noteq> 0" "bp_array d ! i = 0"
        using e(2) less.prems \<open>i < bp_count d\<close> False q by (simp_all add: e_def set_bp_def tables_ok_def)
      then have run: "update_from b i d = (if bp_doubled i (bp_count e - 1) e
          then update_from b i ((close_gap i (bp_count e - i) e)\<lparr>bp_count := bp_count e - 1\<rparr>)
          else update_from b (i + 1) e)"
        using \<open>i < bp_count d\<close> e(1) by (simp add: update_from.simps [of b i d] Let_def)
      have te: "tables_ok e" "same_others d e" "bp_count e = bp_count d" "bp_list e = lower @ p # upper"
        using less.prems(1) L \<open>i < bp_count d\<close> by (simp_all add: e_def bp_list_set list_update_append)
      have dbl: "bp_doubled i (bp_count e - 1) e \<longleftrightarrow> lower \<noteq> [] \<and> fst p = fst (last lower)"
        using doubled_list [OF te(1) _ te(4) step(1)] te(3) less.prems(2) L(2) by simp
      have same: "place bs' (fst p) = p" "\<forall>a\<in>set lower. place bs' (fst a) = a"
        using place_place [OF ok'] u by (simp_all add: p_def updating_def)
      show ?thesis
      proof (cases "lower \<noteq> [] \<and> fst p = fst (last lower)")
        case True
        define f where "f = (close_gap i (bp_count e - i) e)\<lparr>bp_count := bp_count e - 1\<rparr>"
        have f: "tables_ok f" "same_others e f" "bp_list f = lower @ upper" "bp_count f = bp_count d - 1"
          using removed_list [OF te(1), of i "bp_count e - i" f] te(3,4) less.prems(2) \<open>i < bp_count d\<close> L(2) f_def by simp_all
        have "updated bs' f (update_from b i f)"
          using less.hyps [of f i] f step(4) less.prems(2) \<open>i < bp_count d\<close> L(2) by simp
        moreover have "p \<in> set lower"
          using step(2) True last_in_set [of lower] by metis
        moreover have "update_from b i d = update_from b i f"
          using run dbl True f_def by simp
        moreover have "(\<lambda>q. place bs' (fst q)) ` set (lower @ upper) = (\<lambda>q. place bs' (fst q)) ` set (lower @ q # upper)"
          using imageI [OF \<open>p \<in> set lower\<close>, of "\<lambda>q. place bs' (fst q)"] unfolding same(1)
          by (simp add: image_Un insert_absorb flip: p_def)
        ultimately show ?thesis
          using updated_trans [of bs' f "update_from b i f" d] same_others_trans [OF te(2) f(2)] f(3,4) L(1) by simp
      next
        case False
        have "updated bs' e (update_from b (i + 1) e)"
          using less.hyps [of e "i + 1"] te step(3) False less.prems(2) \<open>i < bp_count d\<close> L(2) by simp
        moreover have "update_from b i d = update_from b (i + 1) e"
          using run dbl False by simp
        moreover have "(\<lambda>q. place bs' (fst q)) ` set (lower @ p # upper) = (\<lambda>q. place bs' (fst q)) ` set (lower @ q # upper)"
          using same(1) p_def by simp
        ultimately show ?thesis
          using updated_trans [of bs' e _ d] te L(1) by simp
      qed
    qed
  qed
qed

section \<open>A new block\<close>

definition apart_on_host :: "debug_block \<Rightarrow> debug_block \<Rightarrow> bool" where
  "apart_on_host a b \<longleftrightarrow> (\<forall>addr. \<not> (holds_address addr a \<and> holds_address addr b))"

lemma blocks_ok_sorted:
  "blocks_ok bs \<longleftrightarrow> (\<forall>b\<in>set bs. block_ok b) \<and>
     sorted_wrt (\<lambda>a b. cb_end (db_entry a) \<le> cb_start (db_entry b)) bs \<and> sorted_wrt apart_on_host bs"
proof -
  have "(\<forall>i<length bs. \<forall>j<length bs. \<forall>addr. holds_address addr (bs ! i) \<longrightarrow> holds_address addr (bs ! j) \<longrightarrow> i = j) \<longleftrightarrow>
      sorted_wrt apart_on_host bs"
    (is "?one \<longleftrightarrow> ?apart")
  proof
    assume ?one
    then show ?apart
      unfolding sorted_wrt_iff_nth_less apart_on_host_def by (auto dest: order.strict_trans)
  next
    assume apart: ?apart
    have "i = j" if "i < length bs" "j < length bs" "holds_address addr (bs ! i)" "holds_address addr (bs ! j)" for i j addr
      using apart that by (cases i j rule: linorder_cases) (auto simp: sorted_wrt_iff_nth_less apart_on_host_def)
    then show ?one
      by blast
  qed
  then show ?thesis
    by (simp add: blocks_ok_def)
qed

lemma blocks_ok_insert:
  assumes "blocks_ok bs" "block_ok b" "apart_from b bs"
    and "i = length (takeWhile (\<lambda>e. \<not> cb_start (db_entry e) > cb_start (db_entry b)) bs)"
  shows "blocks_ok (take i bs @ b # drop i bs)" "b \<notin> set bs"
proof -
  let ?start = "\<lambda>b. cb_start (db_entry b)" and ?stop = "\<lambda>b. cb_end (db_entry b)"
  have whole: "takeWhile (\<lambda>e. \<not> ?start e > ?start b) bs = take i bs" "dropWhile (\<lambda>e. \<not> ?start e > ?start b) bs = drop i bs"
    unfolding assms(4) by (rule takeWhile_eq_take, rule dropWhile_eq_drop)
  have ok: "block_ok a" "?start a < ?stop a" if "a \<in> set bs" for a
    using assms(1) block_nonempty that by (auto simp: blocks_ok_def)
  have apart: "?stop a \<le> ?start b \<or> ?stop b \<le> ?start a" "apart_on_host a b" "apart_on_host b a" if "a \<in> set bs" for a
    using assms(3) that by (auto simp: apart_from_def apart_on_host_def)
  have sorted: "sorted_wrt (\<lambda>a b. ?stop a \<le> ?start b) (take i bs @ drop i bs)" "sorted_wrt apart_on_host (take i bs @ drop i bs)"
    using assms(1) by (simp_all add: blocks_ok_sorted)
  have before: "?stop a \<le> ?start b" if a: "a \<in> set (take i bs)" for a
  proof -
    have "a \<in> set bs" "\<not> ?start a > ?start b"
      using a set_takeWhileD [of a "\<lambda>e. \<not> ?start e > ?start b" bs] unfolding whole(1) by simp_all
    then show ?thesis
      using apart(1) [of a] block_nonempty [OF assms(2)] by auto
  qed
  have after: "?stop b \<le> ?start a" if a: "a \<in> set (drop i bs)" for a
  proof -
    have "?start b < ?start a"
    proof (cases "drop i bs")
      case (Cons c cs)
      then have c: "?start b < ?start c" "c \<in> set bs"
        using whole(2) by (auto simp: dropWhile_eq_Cons_conv not_less intro: in_set_dropD [of c i bs])
      then show ?thesis
        using a Cons sorted(1) ok(2) [of c] by (fastforce simp: sorted_wrt_append)
    qed (use a in simp)
    then show ?thesis
      using apart(1) [OF in_set_dropD [OF a]] ok(2) [OF in_set_dropD [OF a]] by (elim disjE) order+
  qed
  show "blocks_ok (take i bs @ b # drop i bs)"
    unfolding blocks_ok_sorted
  proof (intro conjI)
    show "\<forall>a\<in>set (take i bs @ b # drop i bs). block_ok a"
      using ok(1) assms(2) in_set_takeD [of _ i bs] in_set_dropD [of _ i bs] by auto
    show "sorted_wrt (\<lambda>a b. ?stop a \<le> ?start b) (take i bs @ b # drop i bs)"
      using sorted(1) before after unfolding sorted_wrt_append by simp
    show "sorted_wrt apart_on_host (take i bs @ b # drop i bs)"
      using sorted(2) apart(2) [OF in_set_takeD] apart(3) [OF in_set_dropD] unfolding sorted_wrt_append by simp
  qed
  show "b \<notin> set bs"
    using apart(1) [of b] block_nonempty [OF assms(2)] by auto
qed

text \<open>The debugger's state is consistent.\<close>

definition debugger_ok :: "Debugger \<Rightarrow> bool" where
  "debugger_ok d \<longleftrightarrow> bp_ok d \<and> blocks_ok (dbg_blocks d) \<and> current_ok d"

definition new_entry :: "code_block \<Rightarrow> debug_block" where
  "new_entry b = \<lparr>db_entry = b, db_riscv_end = riscv_end_of b\<rparr>"

lemma end_block_correct:
  assumes "debugger_ok d" "block_ok (new_entry b)" "apart_from (new_entry b) (dbg_blocks d)" "d' = end_block b d"
  shows "debugger_ok d' \<and> dbg_state d' = dbg_state d \<and> set (dbg_blocks d') = insert (new_entry b) (set (dbg_blocks d)) \<and>
    length (dbg_blocks d') = length (dbg_blocks d) + 1 \<and>
    set (bp_list d') = (\<lambda>q. place (dbg_blocks d') (fst q)) ` set (bp_list d)"
proof -
  let ?e = "new_entry b" and ?bs = "dbg_blocks d"
  define i where "i = length (takeWhile (\<lambda>e. \<not> cb_start (db_entry e) > cb_start b) ?bs)"
  define bs' where "bs' = take i ?bs @ ?e # drop i ?bs"
  define index where "index = (if i \<noteq> length ?bs \<and> i \<ge> current_index d then current_index d + 1 else current_index d)"
  define d1 where "d1 = (if index \<noteq> length bs' then d\<lparr>dbg_blocks := bs', current_block := Some index, current_index := index\<rparr>
     else d\<lparr>dbg_blocks := bs', current_index := length bs' + 1\<rparr>)"
  have d': "d' = update_break_points ?e d1"
    unfolding assms(4) end_block_def Let_def new_entry_def [symmetric] i_def [symmetric] d1_def index_def bs'_def
    by (rule refl)
  have i: "i \<le> length ?bs"
    by (simp add: i_def length_takeWhile_le)
  have g: "grown ?e ?bs bs'"
  proof -
    have "set (take i ?bs) \<union> set (drop i ?bs) = set ?bs"
      by (metis append_take_drop_id set_append)
    moreover have "blocks_ok bs'" "?e \<notin> set ?bs"
      using blocks_ok_insert [of ?bs ?e i] assms(1-3) unfolding bs'_def i_def debugger_ok_def by (simp_all add: new_entry_def)
    ultimately show ?thesis
      using assms(1) by (simp add: grown_def debugger_ok_def bs'_def)
  qed
  have len: "length bs' = length ?bs + 1"
    using i by (simp add: bs'_def)
  have d1: "dbg_blocks d1 = bs'" "bp_list d1 = bp_list d" "tables_ok d1" "bp_count d1 = bp_count d"
    "dbg_state d1 = dbg_state d"
    using assms(1) by (simp_all add: d1_def bp_list_def bps_def tables_ok_def debugger_ok_def bp_ok_def)
  have cur: "current_ok d1"
    using assms(1) len i
    by (cases "current_block d") (auto simp: debugger_ok_def current_ok_def d1_def index_def)
  have ok: "placed ?bs (bp_list d)" "bp_count d \<le> 255"
    using assms(1) by (simp_all add: debugger_ok_def bp_ok_def)
  then have "updated bs' d1 d'"
    using update_from_correct [OF g, of d1 0] d1 unfolding d' update_break_points_def
    by (simp add: updating_def placed_def)
  then show ?thesis
    using d1 cur g ok(2) len same_others_simps [of d1 d'] unfolding updated_def debugger_ok_def bp_ok_def grown_def
    by simp
qed

end
