(* ===== verification/DebuggerInvariant.thy ===== *)
theory DebuggerInvariant
  imports DebuggerUpdates
begin

text \<open>
  The state machine of the debugger: translated blocks, entries from the code and the commands of a halt keep
  its blocks, break points and current block consistent; waiting for a number of instructions ends.
\<close>

section \<open>The bits of the state\<close>

unbundle bit_operations_syntax

lemma or_zero: "(a :: 'a::len word) OR b = 0 \<longleftrightarrow> a = 0 \<and> b = 0"
  by (auto simp: bit_eq_iff bit_or_iff)

lemma in_set_state: "in_state b (set_state_bits c d) \<longleftrightarrow> in_state b d \<or> c AND b \<noteq> 0"
  by (simp add: in_state_def set_state_bits_def bit.conj_disj_distrib2 or_zero)

lemma in_clear_state:
  assumes "c AND b = 0"
  shows "in_state b (clear_state_bits c d) = in_state b d"
proof -
  have "(dbg_state d AND NOT c) AND b = dbg_state d AND b"
  proof (rule bit_word_eqI)
    fix n assume "n < LENGTH(32)"
    have "bit (c AND b) n = False"
      using assms by simp
    then show "bit ((dbg_state d AND NOT c) AND b) n = bit (dbg_state d AND b) n"
      using \<open>n < LENGTH(32)\<close> by (auto simp: bit_and_iff bit_not_iff)
  qed
  then show ?thesis
    by (simp add: in_state_def clear_state_bits_def)
qed

lemma not_in_clear_state:
  assumes "c AND b = b"
  shows "\<not> in_state b (clear_state_bits c d)"
proof -
  have "(dbg_state d AND NOT c) AND b = 0"
    by (subst assms [symmetric], rule bit_word_eqI) (auto simp: bit_and_iff bit_not_iff)
  then show ?thesis
    by (simp add: in_state_def clear_state_bits_def)
qed

text \<open>No temporary break point is pending.\<close>

definition settled :: "Debugger \<Rightarrow> bool" where
  "settled d \<longleftrightarrow> debugger_ok d \<and> \<not> in_state ds_temp_break d"

lemma debugger_ok_simps [simp]:
  "debugger_ok (d\<lparr>dbg_halt := x\<rparr>) = debugger_ok d" "debugger_ok (d\<lparr>dbg_step_riscv := x\<rparr>) = debugger_ok d"
  "debugger_ok (d\<lparr>signal_address := w\<rparr>) = debugger_ok d" "debugger_ok (d\<lparr>signal_registers := rs\<rparr>) = debugger_ok d"
  "debugger_ok (d\<lparr>exec_count_riscv := w\<rparr>) = debugger_ok d" "debugger_ok (d\<lparr>exec_count_x86 := w\<rparr>) = debugger_ok d"
  "debugger_ok (d\<lparr>run_break := w\<rparr>) = debugger_ok d" "debugger_ok (d\<lparr>dbg_state := s\<rparr>) = debugger_ok d"
  "debugger_ok (d\<lparr>inst_limit := l\<rparr>) = debugger_ok d" "debugger_ok (d\<lparr>stack_limit := l\<rparr>) = debugger_ok d"
  by (simp_all add: debugger_ok_def bp_ok_def tables_ok_def bp_list_def bps_def current_ok_def split: option.split)

lemma in_state_simps [simp]:
  "in_state b (d\<lparr>dbg_halt := x\<rparr>) = in_state b d" "in_state b (d\<lparr>dbg_step_riscv := x\<rparr>) = in_state b d"
  "in_state b (d\<lparr>signal_address := w\<rparr>) = in_state b d" "in_state b (d\<lparr>signal_registers := rs\<rparr>) = in_state b d"
  "in_state b (d\<lparr>exec_count_riscv := w\<rparr>) = in_state b d" "in_state b (d\<lparr>exec_count_x86 := w\<rparr>) = in_state b d"
  "in_state b (d\<lparr>run_break := w\<rparr>) = in_state b d" "in_state b (d\<lparr>current_block := cb\<rparr>) = in_state b d"
  "in_state b (d\<lparr>current_index := i\<rparr>) = in_state b d" "in_state b (d\<lparr>dbg_blocks := bs\<rparr>) = in_state b d"
  "in_state b (d\<lparr>inst_limit := l\<rparr>) = in_state b d" "in_state b (d\<lparr>stack_limit := l\<rparr>) = in_state b d"
  by (simp_all add: in_state_def)

lemma settled_simps [simp]:
  "settled (d\<lparr>dbg_halt := x\<rparr>) = settled d" "settled (d\<lparr>dbg_step_riscv := x\<rparr>) = settled d"
  "settled (d\<lparr>signal_address := w\<rparr>) = settled d" "settled (d\<lparr>signal_registers := rs\<rparr>) = settled d"
  "settled (d\<lparr>exec_count_riscv := w\<rparr>) = settled d" "settled (d\<lparr>exec_count_x86 := w\<rparr>) = settled d"
  "settled (d\<lparr>run_break := w\<rparr>) = settled d" "settled (d\<lparr>inst_limit := l\<rparr>) = settled d"
  "settled (d\<lparr>stack_limit := l\<rparr>) = settled d"
  by (simp_all add: settled_def)

lemma settled_state:
  "bits AND ds_temp_break = 0 \<Longrightarrow> settled (set_state_bits bits d) = settled d"
  "bits AND ds_temp_break = 0 \<Longrightarrow> settled (clear_state_bits bits d) = settled d"
  by (simp_all add: settled_def in_set_state in_clear_state) (simp_all add: set_state_bits_def clear_state_bits_def)

lemma settled_bits [simp]:
  "settled (set_state_bits ds_init d) = settled d" "settled (set_state_bits ds_await_sob d) = settled d"
  "settled (set_state_bits ds_await_eob d) = settled d" "settled (set_state_bits ds_await_counter d) = settled d"
  "settled (set_state_bits ds_await_step d) = settled d" "settled (set_state_bits ds_search_signal d) = settled d"
  "settled (set_state_bits ds_reg_riscv d) = settled d" "settled (clear_state_bits ds_reg_riscv d) = settled d"
  "settled (set_state_bits ds_reg_dec d) = settled d" "settled (clear_state_bits ds_reg_dec d) = settled d"
  "settled (clear_state_bits ds_await d) = settled d"
  "settled (set_state_bits (ds_print_asm OR ds_print_flags OR ds_print_reg OR ds_print_stack) d) = settled d"
  by (rule settled_state; simp add: ds_defs)+

section \<open>Entries\<close>

lemma settled_current:
  assumes "settled d" "case cb of None \<Rightarrow> ci = length (dbg_blocks d) + 1 | Some i \<Rightarrow> ci = i \<and> i < length (dbg_blocks d)"
  shows "settled (d\<lparr>current_block := cb, current_index := ci\<rparr>)"
  using assms by (simp add: settled_def debugger_ok_def bp_ok_def tables_ok_def bp_list_def bps_def current_ok_def split: option.splits)

lemma settled_find:
  assumes "settled d"
  shows "settled (find_block addr d)"
proof -
  define e where "e = (case current_block d of
      Some i \<Rightarrow> (if holds_address addr (dbg_blocks d ! i) then d
        else d\<lparr>current_block := None, current_index := length (dbg_blocks d) + 1\<rparr>)
    | None \<Rightarrow> d)"
  have e: "settled e"
    using assms settled_current [OF assms, where cb = None] by (simp add: e_def split: option.split)
  have "settled (case find (\<lambda>i. holds_address addr (dbg_blocks e ! i)) [0..<length (dbg_blocks e)] of
      Some i \<Rightarrow> e\<lparr>current_block := Some i, current_index := i\<rparr> | None \<Rightarrow> e)"
    using e settled_current [OF e, where cb = "Some i" and ci = i for i] by (auto simp: find_Some_iff split: option.split)
  then show ?thesis
    using e unfolding find_block_def Let_def e_def [symmetric] by simp
qed

lemma settled_resolve: "settled d \<Longrightarrow> resolve_block addr d = Some (guest, d') \<Longrightarrow> settled d'"
  using settled_find [of d addr] by (auto simp: resolve_block_def Let_def split: option.splits)

lemma enter_break_result:
  assumes "enter_break bp addr d = Some (guest, d')"
  obtains e where "e = d \<or> e = d\<lparr>run_break := run_break d - 1\<rparr>" "d' = e \<or> (\<exists>x. resolve_block addr e = Some (x, d'))"
proof -
  define e where "e = (if in_state ds_await_counter d \<and> run_break d > 0 then d\<lparr>run_break := run_break d - 1\<rparr> else d)"
  have "d' = e \<or> (\<exists>x. resolve_block addr e = Some (x, d'))"
  proof (cases "resolve_block addr e")
    case None
    then show ?thesis
      using assms unfolding enter_break_def Let_def e_def [symmetric] by (simp split: if_split_asm)
  next
    case (Some y)
    obtain x f where "y = (x, f)"
      by (cases y)
    then show ?thesis
      using assms Some unfolding enter_break_def Let_def e_def [symmetric] by (simp split: if_split_asm)
  qed
  then show ?thesis
    using that [of e] unfolding e_def by (simp split: if_splits)
qed

lemma settled_enter: "settled d \<Longrightarrow> enter_break bp addr d = Some (guest, d') \<Longrightarrow> settled d'"
  by (erule enter_break_result) (metis settled_resolve settled_simps(7))

lemma settled_entries [simp]:
  "settled (snd (debug_entry regs d)) = settled d" "settled (snd (debug_entry_riscv regs d)) = settled d"
  by (simp_all add: debug_entry_def debug_entry_riscv_def count_entry_def Let_def)

lemma settled_waits: "settled d \<Longrightarrow> settled (reset_waits d)"
  by (simp add: reset_waits_def Let_def in_set_state) (simp add: settled_def in_set_state ds_defs)

lemma settled_resume [simp]: "settled (resume d) = settled d"
  by (simp add: resume_def)

section \<open>Commands\<close>

definition settled_session :: "session \<Rightarrow> bool" where
  "settled_session se \<longleftrightarrow> settled (se_debugger se)"

lemma settled_on [intro]: "settled (f (se_debugger se)) \<Longrightarrow> settled_session (on_debugger f se)"
  by (simp add: settled_session_def on_debugger_def)

lemma dbg_state_gap [simp]: "dbg_state (close_gap i k d) = dbg_state d" "dbg_state (snd (open_gap addr n d)) = dbg_state d"
  by (induction k arbitrary: i d, simp_all add: set_bp_def) (induction n arbitrary: d; simp add: set_bp_def)

lemma dbg_state_insert: "dbg_state (snd (insert_break_point addr st d)) = dbg_state d"
  using dbg_state_gap(2) [of addr "bp_count d" d]
  by (cases "open_gap addr (bp_count d) d") (simp add: insert_break_point_def set_bp_def Let_def)

lemma settled_insert:
  assumes "settled d" "bp_count d < 255" "insert_break_point addr True d = (new, d')"
  shows "settled d'"
proof -
  have "debugger_ok d'"
    using insert_break_point_correct [OF _ _ assms(2,3) refl] assms(1) by (simp add: settled_def debugger_ok_def)
  moreover have "dbg_state d' = dbg_state d"
    using dbg_state_insert [of addr True d] assms(3) by simp
  ultimately show ?thesis
    using assms(1) by (simp add: settled_def in_state_def)
qed

lemma settled_remove:
  assumes "settled d" "i < bp_count d"
  shows "settled (remove_break_point i d)"
proof -
  have r: "bp_ok (remove_break_point i d)" "same_others d (remove_break_point i d)"
    using remove_break_point_correct [of d i] assms by (simp_all add: settled_def debugger_ok_def)
  then have "dbg_state (remove_break_point i d) = dbg_state d"
    by (auto simp: same_others_def)
  then show ?thesis
    using r assms(1) same_others_simps [OF r(2)] by (simp add: settled_def debugger_ok_def in_state_def)
qed

lemma settled_set_break:
  assumes "settled_session se" "bp_count (se_debugger se) < 255"
  shows "settled_session (snd (set_break a se))"
  using assms settled_insert by (auto simp: settled_session_def set_break_def split: prod.split)

lemma settled_menu_break:
  assumes "settled_session se"
  shows "settled_session (snd (menu_break address a b se))"
proof -
  have "bp_count (se_debugger se) \<le> 255"
    using assms by (simp add: settled_session_def settled_def debugger_ok_def bp_ok_def)
  then have "bp_count (se_debugger se) \<noteq> 255 \<Longrightarrow> settled_session (snd (set_break p se))" for p
    using settled_set_break [OF assms] by simp
  then show ?thesis
    using assms by (simp add: menu_break_def Let_def split: option.split)
qed

lemma settled_menu_remove: "settled_session se \<Longrightarrow> settled_session (snd (menu_remove a se))"
  by (auto simp: menu_remove_def settled_session_def on_debugger_def word_less_nat_alt not_le unat_of_nat
      intro!: settled_remove)

lemma settled_menu_screen: "settled_session se \<Longrightarrow> settled_session (snd (menu_screen enable a se))"
  by (auto simp: menu_screen_def screen_parts_def Let_def settled_session_def on_debugger_def settled_state ds_defs)

lemma settled_menu_other:
  assumes "settled_session se"
  shows "settled_session (snd (menu_config a b se))" "settled_session (snd (menu_crawl a se))"
    "settled_session (snd (menu_logging a se))" "settled_session (snd (menu_signal segv ill ctx se))"
    "settled_session (snd (menu_step a se))"
  using assms by (simp_all add: settled_session_def menu_config_def menu_crawl_def menu_logging_def menu_signal_def
      menu_step_def wait_for_def on_debugger_def Let_def)

lemma settled_command:
  assumes "settled_session se" "key \<noteq> Key_run"
  shows "settled_session (snd (run_command env ctx address key a b c se))"
  using assms settled_menu_break settled_menu_remove settled_menu_screen settled_menu_other
  by (cases key) (simp_all add: run_command_def Let_def on_debugger_def settled_session_def)

definition runs_to :: "string \<Rightarrow> bool" where
  "runs_to line \<longleftrightarrow> parse_key (word_at 0 (split_words line)) = Key_run"

lemma settled_parse:
  "settled_session se \<Longrightarrow> \<not> runs_to line \<Longrightarrow> settled_session (snd (parse_input env ctx address line se))"
  by (auto simp: parse_input_def runs_to_def Let_def intro!: settled_command split: prod.split)

lemma settled_loop:
  assumes "settled_session se" "\<forall>line\<in>set lines. \<not> runs_to line" "menu_loop env ctx address lines se = Some (r, se', rest)"
  shows "settled_session se'"
  using assms
proof (induction lines arbitrary: se)
  case (Cons line lines)
  obtain q f where q: "parse_input env ctx address line se = (q, f)"
    by (cases "parse_input env ctx address line se")
  then have "settled_session f"
    using settled_parse [of se line env ctx address] Cons.prems by simp
  then show ?case
    using q Cons by (auto split: menu_result.splits if_splits)
qed simp

lemma settled_halt:
  assumes "settled_session se" "\<forall>line\<in>set lines. \<not> runs_to line" "Debugger_entry env ctx bp lines se = Some (r, se', rest)"
  shows "settled_session se'"
proof -
  obtain address d where d: "enter_break bp (get_guest ra ctx) (se_debugger se) = Some (address, d)"
    using assms(3) by (cases "enter_break bp (get_guest ra ctx) (se_debugger se)") (auto simp: Debugger_entry_def)
  then have "settled d"
    using assms(1) settled_enter by (auto simp: settled_session_def)
  then have start: "settled_session (se\<lparr>se_debugger := d\<rparr>)" "settled_session (se\<lparr>se_debugger := reset_waits d\<rparr>)"
    by (simp_all add: settled_session_def settled_waits)
  show ?thesis
  proof (cases "address = 0")
    case True
    then show ?thesis
      using assms(3) d start(1) by (simp add: Debugger_entry_def)
  next
    case False
    then obtain r' f where f: "menu_loop env ctx address lines (se\<lparr>se_debugger := reset_waits d\<rparr>) = Some (r', f, rest)"
      "se' = (if r' = Continue then on_debugger resume f else f)"
      using assms(3) d by (auto simp: Debugger_entry_def)
    have "settled_session f"
      by (rule settled_loop [OF start(2) assms(2) f(1)])
    then show ?thesis
      using f(2) by (simp add: settled_session_def on_debugger_def)
  qed
qed

section \<open>Reachable states\<close>

text \<open>
  What happens to the debugger while the guest runs: blocks are translated, code with calls of the debugger
  enters it, and a halt reads commands.
\<close>

inductive debugger_reaches :: "session \<Rightarrow> bool" where
  start: "debugger_reaches \<lparr>se_debugger = Debugger_new enabled low sz regs, se_attached = True, se_log = lvl\<rparr>"
| translated: "debugger_reaches se \<Longrightarrow> block_ok (new_entry b) \<Longrightarrow> apart_from (new_entry b) (dbg_blocks (se_debugger se)) \<Longrightarrow>
    debugger_reaches (on_debugger (end_block b) se)"
| counted: "debugger_reaches se \<Longrightarrow> debugger_reaches (on_debugger (\<lambda>d. snd (debug_entry regs d)) se)"
| counted_riscv: "debugger_reaches se \<Longrightarrow> debugger_reaches (on_debugger (\<lambda>d. snd (debug_entry_riscv regs d)) se)"
| halted: "debugger_reaches se \<Longrightarrow> \<forall>line\<in>set lines. \<not> runs_to line \<Longrightarrow>
    Debugger_entry env ctx bp lines se = Some (r, se', rest) \<Longrightarrow> debugger_reaches se'"

lemma settled_new: "settled (Debugger_new enabled low sz regs)"
  by (simp add: settled_def debugger_ok_def bp_ok_def tables_ok_def bp_list_def current_ok_def Debugger_new_def
      placed_def blocks_ok_def in_state_def)

lemma settled_end_block:
  "settled d \<Longrightarrow> block_ok (new_entry b) \<Longrightarrow> apart_from (new_entry b) (dbg_blocks d) \<Longrightarrow> settled (end_block b d)"
  using end_block_correct [of d b] by (simp add: settled_def in_state_def)

lemma reaches_settled: "debugger_reaches se \<Longrightarrow> settled_session se"
proof (induction rule: debugger_reaches.induct)
  case (halted se lines env ctx bp r se' rest)
  then show ?case
    using settled_halt by blast
qed (simp_all add: settled_session_def on_debugger_def settled_new settled_end_block)

section \<open>Waiting for a number of instructions\<close>

text \<open>
  The entries from the code until one of them halts: how many went on, the guest address of the halt and the
  debugger there. Each entry is given by the registers it finds.
\<close>

fun halts :: "(RiscVRegister \<Rightarrow> u64) list \<Rightarrow> Debugger \<Rightarrow> (nat \<times> u64 \<times> Debugger) option" where
  "halts [] d = None"
| "halts (regs # rs) d =
    (case debug_entry regs d of
       (None, d) \<Rightarrow> map_option (\<lambda>(n, r). (Suc n, r)) (halts rs d)
     | (Some bp, d) \<Rightarrow>
        (case enter_break bp (regs ra) d of
           None \<Rightarrow> None
         | Some (addr, d) \<Rightarrow>
            (if addr = 0 then map_option (\<lambda>(n, r). (Suc n, r)) (halts rs d) else Some (0, addr, d))))"

definition counting :: "nat \<Rightarrow> Debugger \<Rightarrow> bool" where
  "counting k d \<longleftrightarrow> settled d \<and> dbg_halt d \<and> \<not> dbg_step_riscv d \<and> unat (run_break d) = Suc k \<and>
     in_state ds_await_counter d \<and> in_state ds_init d \<and>
     \<not> in_state ds_await_step d \<and> \<not> in_state ds_await_sob d \<and> \<not> in_state ds_await_eob d"

lemma counting_entry:
  assumes "counting k d"
  obtains d' where "debug_entry regs d = (Some halt_break, d')" "counting k d'" "dbg_blocks d' = dbg_blocks d"
proof -
  have "debug_entry regs d = (Some halt_break, count_entry True regs d)"
    using assms by (simp add: debug_entry_def counting_def count_entry_def Let_def)
  moreover have "counting k (count_entry True regs d)" "dbg_blocks (count_entry True regs d) = dbg_blocks d"
    using assms by (simp_all add: counting_def count_entry_def Let_def)
  ultimately show ?thesis
    by (rule that)
qed

lemma counting_enter:
  assumes "counting (Suc k) d"
  shows "enter_break halt_break addr d = Some (0, d\<lparr>run_break := run_break d - 1\<rparr>)" "counting k (d\<lparr>run_break := run_break d - 1\<rparr>)"
proof -
  have pos: "run_break d > 0" "unat (run_break d - 1) = Suc k"
    using assms unat_gt_0 [of "run_break d"] by (simp_all add: counting_def unat_minus_one word_gt_0)
  then show "counting k (d\<lparr>run_break := run_break d - 1\<rparr>)"
    using assms by (simp add: counting_def)
  have "run_break d - 1 \<noteq> 0"
    using pos(2) by force
  then show "enter_break halt_break addr d = Some (0, d\<lparr>run_break := run_break d - 1\<rparr>)"
    using assms pos(1) by (simp add: counting_def enter_break_def Let_def)
qed

lemma counting_last:
  assumes "counting 0 d"
  shows "enter_break bp addr d = resolve_block addr (d\<lparr>run_break := 0\<rparr>)"
proof -
  have "run_break d = 1"
    using assms by (simp add: counting_def word_unat_eq_iff)
  then show ?thesis
    using assms by (simp add: counting_def enter_break_def Let_def)
qed

lemma counting_halts:
  assumes "counting n d" "n < length rs" "j < length (dbg_blocks d)" "b = dbg_blocks d ! j"
    and "k < length (cb_offsets (db_entry b))" "0 < cb_start (db_entry b)"
    and "host_at (db_entry b) k \<le> (rs ! n) ra" "(rs ! n) ra < host_at (db_entry b) (Suc k)"
  shows "\<exists>d'. halts rs d = Some (n, guest_at (db_entry b) k, d') \<and> current_block d' = Some j \<and> run_break d' = 0 \<and> settled d'"
  using assms
proof (induction n arbitrary: rs d)
  case 0
  obtain regs rest where rs: "rs = regs # rest"
    using "0.prems"(2) by (cases rs) simp_all
  obtain d1 where d1: "debug_entry regs d = (Some halt_break, d1)" "counting 0 d1" "dbg_blocks d1 = dbg_blocks d"
    using counting_entry [OF "0.prems"(1)] by metis
  have ok: "settled (d1\<lparr>run_break := 0\<rparr>)"
    using d1(2) by (simp add: counting_def)
  have blk: "block_ok b"
    using ok "0.prems"(3,4) d1(3) by (simp add: settled_def debugger_ok_def blocks_ok_def)
  have "resolve_block (regs ra) (d1\<lparr>run_break := 0\<rparr>) =
      Some (guest_at (db_entry b) k, d1\<lparr>run_break := 0, current_block := Some j, current_index := j\<rparr>)"
    using resolve_block_correct [of "d1\<lparr>run_break := 0\<rparr>" j b k "regs ra"] ok "0.prems" d1(3) rs
    by (simp add: settled_def debugger_ok_def)
  moreover have "guest_at (db_entry b) k \<noteq> 0"
    using guest_at_unat [OF blk, of k] "0.prems"(6) by (auto simp: word_less_nat_alt)
  moreover have "settled (d1\<lparr>run_break := 0, current_block := Some j, current_index := j\<rparr>)"
    using settled_current [OF ok, where cb = "Some j" and ci = j] "0.prems"(3) d1(3) by simp
  ultimately show ?case
    using d1 counting_last [OF d1(2)] rs by simp
next
  case (Suc n)
  obtain regs rest where rs: "rs = regs # rest"
    using Suc.prems(2) by (cases rs) simp_all
  obtain d1 where d1: "debug_entry regs d = (Some halt_break, d1)" "counting (Suc n) d1" "dbg_blocks d1 = dbg_blocks d"
    using counting_entry [OF Suc.prems(1)] by metis
  have "\<exists>d'. halts rest (d1\<lparr>run_break := run_break d1 - 1\<rparr>) = Some (n, guest_at (db_entry b) k, d') \<and>
      current_block d' = Some j \<and> run_break d' = 0 \<and> settled d'"
    using Suc.prems rs d1(3) counting_enter(2) [OF d1(2)] by (intro Suc.IH) simp_all
  then show ?case
    using d1(1) counting_enter(1) [OF d1(2)] rs by auto
qed

lemma step_counts:
  assumes "settled d" "is_number a" "0 < arg_number a" "se_debugger se = reset_waits d"
  shows "counting (unat (arg_number a) - 1) (resume (se_debugger (snd (menu_step a se))))"
proof -
  have "unat (arg_number a) > 0"
    using assms(3) by (simp add: unat_gt_0 word_gt_0)
  moreover have "settled (reset_waits d)"
    by (rule settled_waits [OF assms(1)])
  moreover have "in_state ds_init (reset_waits d)" "\<not> dbg_step_riscv (reset_waits d)"
    "\<not> in_state ds_await_step (reset_waits d)" "\<not> in_state ds_await_sob (reset_waits d)" "\<not> in_state ds_await_eob (reset_waits d)"
    using assms(1)
    by (simp_all add: reset_waits_def Let_def in_set_state in_clear_state not_in_clear_state settled_def ds_defs)
  ultimately show ?thesis
    using assms(2,4)
    by (simp add: counting_def menu_step_def wait_for_def on_debugger_def resume_def in_set_state)
      (simp add: ds_defs in_set_state in_state_def set_state_bits_def)
qed

end
