(* ===== verification/DebuggerText.thy ===== *)
theory DebuggerText
  imports DebuggerMenu
begin

text \<open>
  Numbers the debugger prints are read back as they are by its commands, the current instruction is among
  the lines it shows, and jumps in a batch with calls of the debugger lead to the call before their target.
\<close>

unbundle bit_operations_syntax

section \<open>Hexadecimal numbers\<close>

lemma parse_digits_append:
  "parse_digits hex (xs @ ys) n = (case parse_digits hex xs n of (True, m) \<Rightarrow> parse_digits hex ys m | r \<Rightarrow> r)"
  by (induction xs arbitrary: n) (auto split: option.split)

lemma digit_hex:
  assumes "v < 16"
  shows "digit_value True (hex_digit v) = Some (of_nat v)"
proof -
  have "v = 0 \<or> v = 1 \<or> v = 2 \<or> v = 3 \<or> v = 4 \<or> v = 5 \<or> v = 6 \<or> v = 7 \<or>
      v = 8 \<or> v = 9 \<or> v = 10 \<or> v = 11 \<or> v = 12 \<or> v = 13 \<or> v = 14 \<or> v = 15"
    using assms by arith
  then show ?thesis
    by (auto simp: digit_value_def hex_digit_def between_def)
qed

lemma parse_hex_step:
  "parse_digits True [hex_digit (unat (drop_bit k n AND 0xf))] (drop_bit (k + 4) n) = (True, drop_bit k (n :: u64))"
proof -
  have "(drop_bit k n AND 0xf) = take_bit 4 (drop_bit k n)"
    by (simp add: take_bit_eq_mask mask_eq_exp_minus_1)
  moreover have "drop_bit (k + 4) n * 16 + take_bit 4 (drop_bit k n) = drop_bit k n"
    using bits_ident [of 4 "drop_bit k n"] by (simp add: push_bit_eq_mult add.commute)
  moreover have "unat (take_bit 4 (drop_bit k n)) < 16"
    using take_bit_nat_less_exp [of 4 "unat (drop_bit k n)"] by (simp add: unsigned_take_bit_eq)
  ultimately show ?thesis
    by (simp add: digit_hex)
qed

lemma parse_hex_prefix:
  "i \<le> 16 \<Longrightarrow> parse_digits True (map (\<lambda>i. hex_digit (unat (drop_bit (60 - i * 4) n AND 0xf))) [0..<i]) 0 =
     (True, drop_bit (64 - i * 4) (n :: u64))"
proof (induction i)
  case 0
  have "drop_bit 64 n = 0"
    by (rule bit_word_eqI) (auto simp: bit_drop_bit_eq dest: bit_imp_le_length)
  then show ?case
    by simp
next
  case (Suc i)
  have "60 - i * 4 + 4 = 64 - i * 4" "64 - Suc i * 4 = 60 - i * 4"
    using Suc.prems by simp_all
  then show ?case
    using Suc parse_hex_step [of "60 - i * 4" n] by (simp add: parse_digits_append del: parse_digits.simps)
qed

lemma parse_print_hex: "Debugger_parse_number (print_hex n) r m = (True, 0, n)"
  using parse_hex_prefix [of 16 n] by (simp add: Debugger_parse_number_def print_hex_def Let_def)

section \<open>Decimal numbers\<close>

lemma dec_loop_fst: "fst (dec_loop n miss str) = fst (dec_loop n 0 []) @ str"
proof (induction n arbitrary: miss str rule: less_induct)
  case (less n)
  show ?case
  proof (cases "n = 0")
    case False
    define c where "c = (char_of (n mod 10 + 48) :: char)"
    have "fst (dec_loop (n div 10) miss' (c # str')) = fst (dec_loop (n div 10) 0 []) @ c # str'" for miss' str'
      using False by (intro less) simp
    moreover have "dec_loop n miss str = dec_loop (n div 10) (if miss > 0 then miss - 1 else miss) (c # str)"
      "dec_loop n 0 [] = dec_loop (n div 10) 0 [c]"
      using False by (simp_all only: dec_loop.simps [of n] c_def if_False, simp_all)
    ultimately show ?thesis
      by (metis append.assoc append_Cons append_Nil)
  qed (simp add: dec_loop.simps)
qed

lemma digit_decimal: "v < 10 \<Longrightarrow> digit_value hex (char_of (v + 48)) = Some (of_nat v)"
proof -
  assume "v < 10"
  then have "v = 0 \<or> v = 1 \<or> v = 2 \<or> v = 3 \<or> v = 4 \<or> v = 5 \<or> v = 6 \<or> v = 7 \<or> v = 8 \<or> v = 9"
    by arith
  then show ?thesis
    by (auto simp: digit_value_def between_def)
qed

text \<open>The digits of a number, as they are printed.\<close>

definition decimal_digits :: "nat \<Rightarrow> string" where
  "decimal_digits n = fst (dec_loop n 0 [])"

lemma decimal_step: "0 < n \<Longrightarrow> decimal_digits n = decimal_digits (n div 10) @ [char_of (n mod 10 + 48)]" "decimal_digits 0 = []"
  using dec_loop_fst [of "n div 10" 0 "[char_of (n mod 10 + 48)]"]
  by (simp_all add: decimal_digits_def dec_loop.simps [of n] dec_loop.simps [of 0])

lemma parse_decimal: "parse_digits False (decimal_digits n) 0 = (True, of_nat n)"
proof (induction n rule: less_induct)
  case (less n)
  show ?case
  proof (cases "n = 0")
    case False
    have "of_nat (n div 10) * 10 + of_nat (n mod 10) = (of_nat n :: u64)"
      by (metis div_mult_mod_eq of_nat_add of_nat_mult of_nat_numeral)
    then show ?thesis
      using False less [of "n div 10"] by (simp add: decimal_step parse_digits_append digit_decimal)
  qed (simp add: decimal_step)
qed

lemma decimal_chars: "c \<in> set (decimal_digits n) \<Longrightarrow> \<exists>v<10. c = char_of (v + 48 :: nat)"
proof (induction n rule: less_induct)
  case (less n)
  show ?case
  proof (cases "n = 0")
    case False
    then have "c \<in> set (decimal_digits (n div 10)) \<or> c = char_of (n mod 10 + 48)"
      using less.prems by (simp only: decimal_step(1) set_append neq0_conv) auto
    moreover have "n div 10 < n" "n mod 10 < 10"
      using False by simp_all
    ultimately show ?thesis
      using less.IH by metis
  qed (use less.prems in \<open>simp add: decimal_step\<close>)
qed

lemma decimal_plain: "c \<in> set (decimal_digits n) \<Longrightarrow> c \<noteq> CHR ''-'' \<and> c \<noteq> CHR ''+'' \<and> c \<noteq> CHR ''x''"
proof -
  assume "c \<in> set (decimal_digits n)"
  then obtain v :: nat where "v < 10" "c = char_of (v + 48)"
    using decimal_chars by metis
  then have "(of_char c :: nat) = v + 48" "v < 10"
    by simp_all
  then show ?thesis
    by auto
qed

lemma decimal_nonempty: "0 < n \<Longrightarrow> decimal_digits n \<noteq> []"
  by (simp add: decimal_step)

lemma decimal_not_hex: "take 2 (decimal_digits n) \<noteq> ''0x''"
proof
  assume "take 2 (decimal_digits n) = ''0x''"
  then have "CHR ''x'' \<in> set (decimal_digits n)"
    by (metis in_set_takeD list.set_intros(1,2))
  then show False
    using decimal_plain by blast
qed

lemma parse_unsigned: "0 < n \<Longrightarrow> Debugger_parse_number (decimal_digits n) r m = (True, 0, of_nat n)"
  using decimal_nonempty [of n] decimal_plain [of "hd (decimal_digits n)" n] decimal_not_hex [of n] parse_decimal [of n]
  by (simp add: Debugger_parse_number_def Let_def)

lemma parse_negative: "0 < n \<Longrightarrow> Debugger_parse_number (CHR ''-'' # decimal_digits n) r m = (True, of_char CHR ''-'', of_nat n)"
  using decimal_nonempty [of n] decimal_not_hex [of n] parse_decimal [of n]
  by (simp add: Debugger_parse_number_def Let_def)

lemma dec_loop_missing: "snd (dec_loop n 0 str) = 0"
proof (induction n arbitrary: str rule: less_induct)
  case (less n)
  then show ?case
    by (cases "n = 0") (simp_all add: dec_loop.simps [of n] dec_loop.simps [of 0])
qed

lemma dec_loop_decimal:
  assumes "0 < n"
  shows "dec_loop n 1 [] = (decimal_digits n, 0)"
proof -
  have "snd (dec_loop n 1 []) = 0"
    using assms dec_loop_missing by (simp add: dec_loop.simps [of n])
  moreover have "fst (dec_loop n 1 []) = decimal_digits n"
    using dec_loop_fst [of n 1 "[]"] by (simp add: decimal_digits_def)
  ultimately show ?thesis
    by (simp add: prod_eq_iff)
qed

lemma print_decimal_result:
  "print_decimal n = (if n AND 0x8000000000000000 \<noteq> 0 then CHR ''-'' # decimal_digits (unat (- n))
     else if n = 0 then ''0'' else decimal_digits (unat n))"
proof -
  have "NOT n + 1 = - n"
    by (simp add: minus_eq_not_plus_1)
  moreover have "0 < unat n" "0 < unat (- n)" if "n \<noteq> 0"
    using that by (simp_all add: unat_gt_0)
  ultimately show ?thesis
    by (auto simp: print_number_def dec_loop_decimal)
qed

text \<open>What a printed number is read as.\<close>

lemma number_read_back:
  "Debugger_parse_number (print_number n hex 1 CHR '' '') r m =
    (if \<not> hex \<and> n AND 0x8000000000000000 \<noteq> 0 then (True, of_char CHR ''-'', - n) else (True, 0, n))"
proof (cases hex)
  case True
  then show ?thesis
    using parse_print_hex by (simp add: print_number_def)
next
  case False
  have "Debugger_parse_number ''0'' r m = (True, 0, 0)"
    by (simp add: Debugger_parse_number_def digit_value_def between_def)
  moreover have "0 < unat n" "0 < unat (- n)" if "n \<noteq> 0"
    using that by (simp_all add: unat_gt_0)
  ultimately show ?thesis
    using False parse_unsigned [of "unat n" r m] parse_negative [of "unat (- n)" r m]
    by (auto simp: print_decimal_result)
qed

text \<open>An argument that was printed stands for the same address again.\<close>

lemma argument_read_back:
  "\<exists>b. parse_argument (print_number n hex 1 CHR '' '') a = (True, b) \<and> is_place b \<and> place_of 0 b = n"
proof -
  have "print_number n hex 1 CHR '' '' \<noteq> []"
    using number_read_back [of n hex "arg_state a" "arg_number a"] by (auto simp: Debugger_parse_number_def split: if_splits)
  then show ?thesis
    using number_read_back [of n hex "arg_state a" "arg_number a"]
    by (auto simp: parse_argument_def is_place_def place_of_def arg_state_defs)
qed

section \<open>The lines around an instruction\<close>

lemma window_shows:
  assumes "3 \<le> limit" "index < tot"
  shows "window_start limit index tot \<le> index \<and> index < window_start limit index tot + limit \<and>
    \<not> elided limit (window_start limit index tot) tot (index - window_start limit index tot)"
  using assms by (auto simp: window_start_def elided_def Let_def)

section \<open>Batches with calls of the debugger\<close>

definition debug_call :: u32 where
  "debug_call = JALR ra jump_table_address (Entry_debug_callback_riscv * 4)"

text \<open>Instructions are at the odd places, after the call of the debugger that goes before them.\<close>

definition stepping :: "CodeBatchImpl \<Rightarrow> bool" where
  "stepping b \<longleftrightarrow> length (impl_riscv b) = max_riscv_instructions \<and> impl_count b \<le> max_riscv_instructions \<and>
     2 \<le> impl_count b \<and> even (impl_count b) \<and>
     (\<forall>i. odd i \<longrightarrow> 3 \<le> i \<longrightarrow> i < impl_count b \<longrightarrow> impl_riscv b ! (i - 1) = debug_call)"

lemma stepping_add:
  assumes "stepping b" "DebuggerBatch_add True inst b = Inr (i, b')"
  shows "stepping b' \<and> i = impl_count b + 1 \<and> impl_riscv b' ! i = inst \<and> impl_count b' = i + 1"
proof -
  let ?n = "impl_count b"
  have n: "?n + 1 < max_riscv_instructions"
    "b' = b\<lparr>impl_riscv := (impl_riscv b)[?n := debug_call, ?n + 1 := inst], impl_count := ?n + 2\<rparr>" "i = ?n + 1"
    using assms by (auto simp: stepping_def DebuggerBatch_add_def DebuggerBatch_put_def debug_call_def split: if_splits)
  have "impl_riscv b' ! (k - 1) = debug_call" if "odd k" "3 \<le> k" "k < ?n + 2" for k
  proof (cases "k = ?n + 1")
    case True
    then show ?thesis
      using n assms(1) by (simp add: stepping_def)
  next
    case False
    then have "k < ?n"
      using that assms(1) by (auto simp: stepping_def elim!: oddE evenE)
    then show ?thesis
      using that assms(1) n(2) by (simp add: stepping_def)
  qed
  then show ?thesis
    using n assms(1) by (simp add: stepping_def)
qed

text \<open>
  A distance from a branch at \<open>s\<close>, or from the end of the batch at which the branch is added, leads to the
  call before the instruction at \<open>j\<close>, or, forwards from the end of a batch, to the instruction.
\<close>

lemma stepping_offset:
  assumes "stepping b" "odd j" "3 \<le> j" "j < impl_count b" "s \<noteq> j"
    and "k = int (if odd s then s else s + 1) + DebuggerBatch_offset True s j"
  shows "(k = int j - 1 \<and> impl_riscv b ! nat k = debug_call) \<or> (even s \<and> s < j \<and> k = int j)"
proof -
  have "impl_riscv b ! nat (int j - 1) = debug_call"
  proof -
    have "nat (int j - 1) = j - 1"
      by simp
    then show ?thesis
      using assms(1-4) unfolding stepping_def by metis
  qed
  moreover have "k = int j - 1 \<or> (even s \<and> s < j \<and> k = int j)"
    using assms by (auto simp: DebuggerBatch_offset_def)
  ultimately show ?thesis
    by auto
qed

lemma stepping_offset_end:
  "s \<noteq> j \<Longrightarrow> even j \<Longrightarrow> int (if odd s then s else s + 1) + DebuggerBatch_offset True s j = int j"
  by (auto simp: DebuggerBatch_offset_def)

end
