(* ===== verification/Samples.thy ===== *)
theory Samples
  imports Codegen FlagEval Decoding SyscallRules ArgumentRules Divergences PatchCode BlockStore DispatcherSwitch DebuggerInvariant DebuggerText
begin

text \<open>
  Concrete inputs: a state of the host, decoded instructions, an image with its code generator, and the
  kernel and files of the system. Each lemma evaluates the model on them; the properties of the
  development are applied to them.
\<close>

section \<open>Concrete inputs of the witnesses\<close>

definition sample_state :: rv_state where
  "sample_state = \<lparr>rv_regs = (\<lambda>r. 0x1122334455667788), rv_mem = (\<lambda>a. 0)\<rparr>"

definition sample_table :: u64 where "sample_table = 0x1122334455667788"

definition sample_register :: "Register \<Rightarrow> nat \<Rightarrow> Operand" where
  "sample_register r sz =
     \<lparr>op_type = op_reg, op_size = sz, op_register = r, op_register_type = rt_gpl\<rparr>"

definition sample_constant :: "nat \<Rightarrow> Operand" where
  "sample_constant sz =
     \<lparr>op_type = op_imm, op_size = sz, op_register = reg_none, op_register_type = rt_gpl\<rparr>"

definition sample_decoded :: "string \<Rightarrow> Operand list \<Rightarrow> u64 \<Rightarrow> fadec_Instruction" where
  "sample_decoded name ops k =
     \<lparr>inst_type = name, inst_flags = 0, inst_segment = reg_none, inst_addrsz = 8, inst_operandsz = 8,
      inst_operands = ops, inst_idx_reg = reg_none, inst_idx_scale = 0, inst_size = 3, inst_disp = 0,
      inst_imm = k, inst_address = 0x401000\<rparr>"

definition sample_host :: host where
  "sample_host = \<lparr>host_literal = (\<lambda>s. 0), host_callback = (\<lambda>s. 0), host_call_table = 0\<rparr>"

definition sample_elf :: Elf where
  "sample_elf = \<lparr>elf_base = 0x400000, elf_size = 0x2000,
     page_flags = [0, PAGE_EXECUTE OR PAGE_READ OR PAGE_MAPPED], elf_entry_point = 0x401000\<rparr>"

text \<open>A decoder that finds a one-byte \<^verbatim>\<open>ret\<close> wherever there is a byte left.\<close>

definition sample_decode :: decoder where
  "sample_decode addr n =
     (if n = 0 then None else Some (sample_decoded ''RET'' [] 0\<lparr>inst_size := 1, inst_address := addr\<rparr>))"

lemma sample_decode_ok: "decoder_ok sample_decode"
  by (auto simp: decoder_ok_def sample_decode_def sample_decoded_def word_gt_0 unat_gt_0 Suc_le_eq split: if_splits)

lemma sample_elf_ok: "Elf_ok sample_elf"
  by (simp add: Elf_ok_def sample_elf_def)

definition sample_env :: environment where
  "sample_env = \<lparr>env_decode = (\<lambda>addr n. None), env_host = sample_host,
     env_al = \<lparr>al_mapped = (\<lambda>k. True), al_code_base = (\<lambda>k. 0x10000), al_entries = (\<lambda>k. True),
       al_offsets = (\<lambda>k n. Some (replicate n \<lparr>io_x86 = 0, io_riscv = 0\<rparr>))\<rparr>\<rparr>"

definition sample_generator :: CodeGenerator where
  "sample_generator = CodeGenerator_new
     (Arguments_default\<lparr>instruction_list_size := 4, offset_list_size := 2, entry_list_size := 2\<rparr>) sample_elf"

lemmas sample_defs = sample_register_def sample_constant_def sample_decoded_def register_operand_def
  source_operand_def apart_def valid_size_def op_access_def reg_defs get_operand_def

text \<open>\<^verbatim>\<open>cmp ax, bx\<close> and \<^verbatim>\<open>setl cl\<close>, the block of the witnesses, and the return that ends it.\<close>

definition sample_cmp :: fadec_Instruction where
  "sample_cmp = sample_decoded ''CMP'' [sample_register reg_rax 2, sample_register reg_rbx 2] 0"

definition sample_setl :: fadec_Instruction where
  "sample_setl = sample_decoded ''SETL'' [sample_register reg_rcx 1] 0"

definition sample_add :: fadec_Instruction where
  "sample_add = sample_decoded ''ADD'' [sample_register reg_rax 4, sample_register reg_rbx 4] 0"

definition sample_mov :: fadec_Instruction where
  "sample_mov = sample_decoded ''MOV'' [sample_register reg_rax 1, sample_register reg_rax 1] 0"

definition sample_ret :: fadec_Instruction where
  "sample_ret = sample_decoded ''RET'' [] 0"

definition sample_x86 :: x86_state where
  "sample_x86 = \<lparr>x86_regs = (\<lambda>n. 0x1122334455667788),
     x86_fl = \<lparr>fl_carry = False, fl_zero = False, fl_sign = False, fl_overflow = False, fl_parity = False\<rparr>\<rparr>"

text \<open>A state whose context stands for all five flags: the one after a comparison.\<close>

lemma sample_recorded: "\<exists>x s. sim sample_table flags_all x s"
proof -
  have sim: "sim sample_table 0 sample_x86 sample_state"
  proof -
    have "register_mapping ! n \<noteq> zero" if "n < 16" for n
      using x86_registers [OF mapping_x86 [OF that]] by simp
    then show ?thesis
      by (auto simp: sim_def sample_x86_def sample_state_def sample_table_def rget_def jump_table_at_def has_flags_def)
  qed
  have "simulates sample_table 0 (recorded 0 flags_all flags_all) sample_x86
      (x86_binary (-) sub_carry sub_overflow False sample_cmp sample_x86)
      (Comparable_generate Cmp_execute_reg Cmp_execute_imm (make_Instruction sample_cmp flags_all 0 False))"
    by (rule comparison.simulated [OF _ refl]) (simp_all add: sample_cmp_def sample_defs)
  then have "achieves (jt_env sample_table)
      (Comparable_generate Cmp_execute_reg Cmp_execute_imm (make_Instruction sample_cmp flags_all 0 False))
      (sim sample_table (recorded 0 flags_all flags_all)
        (x86_binary (-) sub_carry sub_overflow False sample_cmp sample_x86)) sample_state"
    using sim by (simp add: simulates_def)
  then show ?thesis
    unfolding achieves_def passes_def by (metis has_flags_all recorded_def sim_def)
qed

lemma sample_supported: "supported sample_cmp" "supported sample_setl" "supported sample_add"
  by (simp_all add: supported_def x86_binaries_def x86_conditions_def sample_cmp_def sample_setl_def
      sample_add_def sample_defs op_reg_of_def map_reg_typed_def map_reg_def register_mapping_def)

lemma sample_steps: "\<exists>x'. x86_run [sample_cmp, sample_setl] x = Some x'" "\<exists>x'. x86_step sample_add x = Some x'"
  by (simp_all add: x86_tables sample_cmp_def sample_setl_def sample_add_def sample_decoded_def)

lemma sample_objects:
  "transform_instruction h sample_cmp = Cmp sample_cmp" "transform_instruction h sample_setl = Setl sample_setl"
  "transform_instruction h sample_add = Add sample_add" "transform_instruction h sample_ret = Ret sample_ret"
proof -
  show "transform_instruction h sample_ret = Ret sample_ret"
    unfolding transform_instruction_def transform_cases_def find_append sample_ret_def
    by (simp add: transform_cases_defs sample_decoded_def)
qed (simp_all add: transform_binaries transform_conditions sample_cmp_def sample_setl_def sample_add_def sample_decoded_def)

lemma sample_prediction:
  "\<exists>obs ob'. predict_flags sample_env sample_generator
     (map (transform_instruction sample_host) [sample_cmp, sample_setl] @ [transform_instruction sample_host sample_ret])
     0x401009 False = Some obs \<and>
   last_requirements sample_env sample_generator (transform_instruction sample_host sample_ret) 0x401009 False =
     Some (flags_all, ob')"
  unfolding sample_objects list.map
  by (simp add: predict_flags_def last_requirements_def flag_step_def Let_def Cmp_def Comparable_def Setl_def
      Setcc_def Ret_def branch_address_def control_flow_dimension_def plain_object_def Instruction_branch_address_def
      Instruction_control_flow_dimension_def set_object_update_def)

text \<open>An object whose code is one instruction, for the store.\<close>

definition sample_object :: object where
  "sample_object = plain_object (make_Instruction (sample_decoded ''RET'' [] 0) 0 0 True) (\<lambda>inst. emit NOP)"

lemma sample_object_prediction:
  "predict_flags sample_env sample_generator [sample_object] 0 False = Some [sample_object]"
  "last_requirements sample_env sample_generator sample_object 0 False = Some (flags_all, sample_object)"
  by (simp_all add: predict_flags_def last_requirements_def sample_object_def)

lemma sample_stored: "\<exists>addr cg'. store_block sample_env None [sample_object] sample_generator = Inr (addr, cg')"
  by (simp add: store_block_def create_block_def allocate_entry_def allocate_def new_entries_def sample_env_def
      sample_generator_def CodeGenerator_new_def CodeStore_new_def StaticList_new_def Let_def generate_instruction_def
      run_batch_def instruction_code_def sample_object_def max_riscv_instructions_def add_instruction_def insert_block_def
      block_def set_block_def element_at_def update_element_def BlockEntry_default_def page_array_def get_page_index_def
      sample_elf_def sample_decoded_def make_Instruction_def fadec_Instruction.defs set_page_def insert_sorted_def
      StaticList_add_def store_count_def reallocate_def ExecutableList_allocate_def append_at_buffer_def overlap_page_def)

lemma sample_operands:
  "register_operand (sample_register reg_rax 4)" "register_operand (sample_register reg_rbx 4)"
  "register_operand (sample_register reg_rax 2)" "register_operand (sample_register reg_rbx 2)"
  "register_operand (sample_register reg_rcx 1)"
  "get_operand 0 (make_Instruction sample_add u r e) = sample_register reg_rax 4"
  "get_operand 1 (make_Instruction sample_add u r e) = sample_register reg_rbx 4"
  "get_operand 0 (make_Instruction sample_cmp u r e) = sample_register reg_rax 2"
  "get_operand 1 (make_Instruction sample_cmp u r e) = sample_register reg_rbx 2"
  "get_operand 0 (make_Instruction sample_setl u r e) = sample_register reg_rcx 1"
  by (simp_all, simp_all add: sample_defs sample_add_def sample_cmp_def sample_setl_def)

lemma sample_register_simps [simp]:
  "op_reg_of (sample_register reg_rax sz) = a7" "op_reg_of (sample_register reg_rbx sz) = s2"
  "op_reg_of (sample_register reg_rcx sz) = a6"
  "op_access (sample_register r sz) = sz" "op_size (sample_register r sz) = sz"
  "op_register_type (sample_register r sz) = rt_gpl"
  by (simp_all add: sample_defs op_reg_of_def map_reg_typed_def map_reg_def register_mapping_def)

lemma sample_values [simp]:
  "rget r sample_state = (if r = zero then 0 else 0x1122334455667788)"
  "operand_value (sample_register reg_rax sz) sample_state = x86_read sz 0x1122334455667788"
  "operand_value (sample_register reg_rbx sz) sample_state = x86_read sz 0x1122334455667788"
  "jump_table_at sample_table sample_state"
  by (simp_all add: operand_value_def sample_state_def sample_table_def rget_def jump_table_at_def)

section \<open>Concrete inputs of the system's witnesses\<close>

text \<open>A kernel that maps what is asked for, and a context with an empty heap.\<close>

definition sample_stat :: host_stat where
  "sample_stat = \<lparr>st_dev = 1, st_ino = 2, st_nlink = 1, st_mode = 420, st_uid = 0, st_gid = 0, st_rdev = 0,
     st_size = 100, st_atime = (0, 0), st_mtime = (0, 0), st_ctime = (0, 0), st_blksize = 512, st_blocks = 1\<rparr>"

definition sample_kernel :: kernel where
  "sample_kernel = \<lparr>kernel_openat = (\<lambda>path flags mode. 3), kernel_fstat = (\<lambda>fd. (0, sample_stat)),
     kernel_mmap = (\<lambda>a n. if n = 0 then None else Some a)\<rparr>"

definition sample_context :: "u64 \<Rightarrow> ExecutionContext" where
  "sample_context rdi = \<lparr>ctx_guest = (\<lambda>r. if r = guest_rdi then rdi else 0), fs_base = 0, gs_base = 0,
     initial_break = 0x500000, last_break_page = 0x500000, program_break = 0x500000,
     ctx_mem = (\<lambda>a. 0), ctx_munmap = []\<rparr>"

lemma sample_context_ok: "brk_ok (sample_context rdi)"
  by (simp add: brk_ok_def sample_context_def round_page_def)

text \<open>An image of one readable and executable segment of 0x1800 bytes at 0x400000.\<close>

definition sample_file :: memory where
  "sample_file = (\<lambda>a. 0)(33 := 1, 41 := 2, 56 := 1, 60 := 1, 0x100 := 1, 0x104 := 5, 0x112 := 0x40, 0x121 := 0x18, 0x129 := 0x18)"

lemma mload_unfold:
  "mload 2 m a = ucast (m a) OR push_bit 8 (ucast (m (a + 1)))"
  "mload 4 m a = mload 2 m a OR push_bit 16 (mload 2 m (a + 2))"
  "mload 8 m a = mload 4 m a OR push_bit 32 (mload 4 m (a + 4))"
  by (simp_all add: eval_nat_numeral push_bit_or or.assoc add.commute [of a])

lemma sample_ehdr:
  "e_phoff (ehdr_at sample_file 0) = 0x100" "e_shoff (ehdr_at sample_file 0) = 0x200"
  "e_phnum (ehdr_at sample_file 0) = 1" "e_shnum (ehdr_at sample_file 0) = 1" "e_shstrndx (ehdr_at sample_file 0) = 0"
  by (simp_all add: ehdr_at_def read64_def read32_def read16_def sample_file_def mload_unfold)

lemma sample_phdr:
  "phdr_at sample_file 0x100 =
     \<lparr>p_type = 1, p_flags = 5, p_offset = 0, p_vaddr = 0x400000, p_filesz = 0x1800, p_memsz = 0x1800\<rparr>"
  by (simp add: phdr_at_def read64_def read32_def read16_def sample_file_def mload_unfold)

lemma sample_shdr: "sh_size (shdr_at sample_file 0x200) = 0" "sh_name (shdr_at sample_file 0x200) = 0"
  by (simp_all add: shdr_at_def read64_def read32_def read16_def sample_file_def mload_unfold)

lemma sample_headers:
  "file_phdrs sample_file 0 = [\<lparr>p_type = 1, p_flags = 5, p_offset = 0, p_vaddr = 0x400000, p_filesz = 0x1800, p_memsz = 0x1800\<rparr>]"
  "file_bss sample_file 0 = None"
  by (simp_all add: file_phdrs_def file_bss_def Let_def resolve_offset_def header_counts_def sample_ehdr phdr_table_def
      sample_phdr find_bss_def shdr_table_def is_bss_def sample_shdr)

lemma sample_loaded:
  obtains elf l where "unpack_file (\<lambda>a n. a) sample_file 0 0x200 = Inr (elf, l)" "elf_base elf = 0x400000" "elf_size elf = 0x2000"
proof -
  have "\<exists>e. unpack_file (\<lambda>a n. a) sample_file 0 0x200 = Inr e"
    by (simp add: unpack_file_def Let_def resolve_offset_def header_counts_def sample_ehdr phdr_table_def sample_phdr
        find_bss_def shdr_table_def is_bss_def sample_shdr PT_INTERP_def map_image_def split: prod.split)
  then obtain e where e: "unpack_file (\<lambda>a n. a) sample_file 0 0x200 = Inr e" ..
  moreover have "(ucast (- 1 :: u32) :: u64) = 0xffffffff"
    by (simp add: unsigned_minus_1_eq_mask mask_eq_exp_minus_1)
  ultimately have "(elf_base (fst e), elf_size (fst e)) = (0x400000, 0x2000)"
    using unpack_file_result(1) [of "\<lambda>a n. a" sample_file 0 "0x200" "fst e" "snd e"]
    by (simp add: sample_headers image_range_def PT_LOAD_def extend_range_def page_align_def Let_def)
  then show thesis
    using that [of "fst e" "snd e"] e by simp
qed

text \<open>Numbers of system calls, emulations and a parser of numbers.\<close>

definition sample_numbers :: "string \<Rightarrow> int" where
  "sample_numbers name = 63"

definition sample_emulation :: "EmulationFn \<Rightarrow> u64" where
  "sample_emulation f = 0x10000"

definition sample_strtol :: "string \<Rightarrow> int \<times> string" where
  "sample_strtol s = (if s = ''2'' then (2, []) else (0, s))"

section \<open>Branches and the first context\<close>

text \<open>An image whose code is a return of one byte at \<open>0x401000\<close>.\<close>

definition sample_last :: fadec_Instruction where
  "sample_last = sample_decoded ''RET'' [] 0\<lparr>inst_size := 1, inst_address := 0x401000\<rparr>"

definition sample_ret_env :: environment where
  "sample_ret_env = sample_env\<lparr>env_decode := (\<lambda>addr n. Some sample_last)\<rparr>"

definition sample_ret_generator :: CodeGenerator where
  "sample_ret_generator = CodeGenerator_new
     (Arguments_default\<lparr>instruction_list_size := 32, offset_list_size := 2, entry_list_size := 2\<rparr>) sample_elf"

lemma sample_ret_object: "transform_instruction h sample_last = Ret sample_last"
  unfolding transform_instruction_def transform_cases_def find_append
  by (simp add: transform_cases_defs sample_decoded_def sample_last_def)

lemma sample_ret_instruction:
  "inst_address (obj_inst (Ret sample_last)) = 0x401000" "inst_size (obj_inst (Ret sample_last)) = 1"
  by (simp_all add: Ret_def plain_object_def make_Instruction_def fadec_Instruction.defs sample_last_def sample_decoded_def)

lemma sample_ret_unknown:
  "executable_page (cg_elf sample_ret_generator) 0x401000"
  "CodeStore_find al (cg_store sample_ret_generator) 0x401000 = Inr 0"
  "get_next_block (cg_store sample_ret_generator) 0x401000 = None"
  by (simp_all add: executable_page_def sample_ret_generator_def CodeGenerator_new_def CodeStore_new_def CodeStore_find_def
      get_next_block_def sample_elf_def get_page_flags_def page_flag_defs page_array_def get_page_index_def Let_def
      find_between.simps)

lemma sample_ret_decoded:
  "decode_block sample_ret_env (cg_elf sample_ret_generator) None [] 0x401000 =
    Some (Inr ([Ret sample_last], 0x401001, False))"
  by (subst decode_block.simps)
    (simp add: decode_instruction_def decode_object_def sample_ret_env_def sample_env_def sample_ret_object Ret_def
      plain_object_def object_size_def make_Instruction_def fadec_Instruction.defs get_eob_def,
      simp add: sample_last_def sample_decoded_def)

lemma sample_ret_predicted:
  "predict_flags sample_ret_env sample_ret_generator [Ret sample_last] 0x401001 False = Some [Ret sample_last]"
  by (simp add: predict_flags_def last_requirements_def Let_def Ret_def branch_address_def plain_object_def
      Instruction_branch_address_def)

lemma sample_ret_code:
  "\<exists>code. (\<forall>ct. run_batch (instruction_code (Ret sample_last) None ct) = Inr (ct, code)) \<and> length code \<le> 32 \<and> code \<noteq> []"
  by (simp add: run_batch_def instruction_code_def generate_def Let_def Ret_def plain_object_def Ret_generate_def gen_defs
      make_Instruction_def fadec_Instruction.defs sample_last_def sample_decoded_def max_riscv_instructions_def)

lemma sample_ret_stored: "\<exists>addr cg'. store_block sample_ret_env None [Ret sample_last] sample_ret_generator = Inr (addr, cg')"
proof -
  obtain code where "run_batch (instruction_code (Ret sample_last) None ct) = Inr (ct, code)" "length code \<le> 32" "code \<noteq> []" for ct
    using sample_ret_code by blast
  then show ?thesis
    by (simp add: store_block_def create_block_def allocate_entry_def allocate_def new_entries_def sample_env_def
        sample_ret_instruction sample_ret_generator_def CodeGenerator_new_def CodeStore_new_def StaticList_new_def Let_def
        generate_instruction_def sample_ret_env_def add_instruction_def insert_block_def block_def set_block_def
        element_at_def update_element_def BlockEntry_default_def page_array_def get_page_index_def sample_elf_def
        set_page_def insert_sorted_def StaticList_add_def store_count_def reallocate_def ExecutableList_allocate_def
        append_at_buffer_def overlap_page_def)
qed

lemma sample_ret_translated: "\<exists>addr cg'. translate sample_ret_env 0x401000 sample_ret_generator = Some (Inr (addr, cg'))"
  using sample_ret_stored
  by (simp add: translate_def sample_ret_unknown translate_new_def sample_ret_decoded sample_ret_predicted Let_def)

lemma sample_reached: "\<exists>addr m cg. reached sample_ret_env 0 (m, cg) [(0x401000, addr)] \<and> tlb_lookup 0 m 0x401000 = Some addr"
proof -
  obtain addr cg where t: "translate sample_ret_env 0x401000 sample_ret_generator = Some (Inr (addr, cg))"
    using sample_ret_translated by blast
  have start: "reached sample_ret_env 0 (\<lambda>a. 0, sample_ret_generator) []"
    by (rule reached_start) simp
  have none: "tlb_lookup 0 (\<lambda>a. 0) 0x401000 = None"
    by (simp add: tlb_lookup_zeroed)
  have "reached sample_ret_env 0 (tlb_insert 0 0x401000 addr (\<lambda>a. 0), cg) [(0x401000, addr)]"
    by (rule reached_miss [OF start none]) (simp add: reroute_miss none t)
  then show ?thesis
    using tlb.find_put [of 0 "0x401000" addr] by blast
qed

text \<open>The places of the translator's objects, and its own environment at \<open>0x300000\<close>.\<close>

definition sample_addresses :: host_addresses where
  "sample_addresses = \<lparr>ha_context = 0x1000, ha_call_table = 0x2000, ha_jump_table = 0x3000, ha_return_stack = 0x4000,
     ha_tlb = 0x5000, ha_stack = 0x100000, ha_envp = 0x300000, ha_path = 0x500000, ha_arguments = [0x500100]\<rparr>"

definition sample_strings :: "u64 list" where "sample_strings = [0x500200, 0x500300]"

definition sample_vectors :: "(u64 \<times> u64) list" where
  "sample_vectors = [(AT_PHDR, 0x40), (6, 0x1000), (AT_ENTRY, 0x1234)]"

definition sample_memory :: memory where
  "sample_memory = write_words (sample_strings @ [0] @ vector_words sample_vectors @ [0]) 0x300000 (\<lambda>a. 0)"

lemma sample_environment:
  "words_at sample_memory 0x300000 (sample_strings @ [0] @ vector_words sample_vectors @ [0])"
  unfolding sample_memory_def by (rule conjunct2 [OF write_words_correct]) (simp add: sample_strings_def sample_vectors_def)

lemma sample_first_rsp:
  "first_rsp Arguments_default sample_addresses sample_strings sample_vectors = 0x2ff000"
  by (simp add: first_rsp_def sample_addresses_def stack_words_def sample_strings_def sample_vectors_def page_align_def
      Arguments_default_def)


section \<open>A debugger\<close>

text \<open>A block of two instructions of three and five bytes, with three and five instructions of the host.\<close>

definition sample_code :: code_block where
  "sample_code = \<lparr>cb_start = 0x401000, cb_end = 0x401008, cb_riscv = 0x10000, cb_offsets = [(3, 12), (5, 20)]\<rparr>"

definition sample_fresh :: Debugger where
  "sample_fresh = Debugger_new False 0x7000 0x1000 (\<lambda>r. 0)"

definition sample_debugger :: Debugger where
  "sample_debugger = end_block sample_code sample_fresh"

definition sample_session :: session where
  "sample_session = \<lparr>se_debugger = sample_debugger, se_attached = True, se_log = 0\<rparr>"

lemma sample_code_ok: "block_ok (new_entry sample_code)"
  by (simp add: block_ok_def new_entry_def riscv_end_of_sum sample_code_def Let_def)

lemma sample_blocks: "dbg_blocks sample_fresh = []" "dbg_blocks sample_debugger = [new_entry sample_code]"
  "bp_count sample_debugger = 0" "bp_list sample_debugger = []"
  by (simp_all add: sample_debugger_def sample_fresh_def Debugger_new_def end_block_def update_break_points_def
      update_from.simps new_entry_def bp_list_def Let_def)

lemma sample_apart: "apart_from (new_entry sample_code) (dbg_blocks sample_fresh)"
  by (simp add: sample_blocks apart_from_def)

lemma sample_settled: "settled sample_fresh" "settled sample_debugger"
proof -
  show fresh: "settled sample_fresh"
    using settled_new by (simp add: sample_fresh_def)
  show "settled sample_debugger"
    unfolding sample_debugger_def by (rule settled_end_block [OF fresh sample_code_ok sample_apart])
qed

lemma sample_reaches: "debugger_reaches sample_session"
proof -
  have "debugger_reaches \<lparr>se_debugger = sample_fresh, se_attached = True, se_log = 0\<rparr>"
    unfolding sample_fresh_def by (rule debugger_reaches.start)
  then show ?thesis
    using debugger_reaches.translated [OF _ sample_code_ok] sample_apart
    by (fastforce simp: sample_session_def sample_debugger_def on_debugger_def)
qed

text \<open>Break points set before their block is translated.\<close>

definition sample_broken :: "u64 list \<Rightarrow> Debugger" where
  "sample_broken as = fold (\<lambda>a d. snd (insert_break_point a True d)) as sample_fresh"

lemma sample_broken:
  "debugger_ok (sample_broken [0x401003, 0x401004])" "dbg_blocks (sample_broken [0x401003, 0x401004]) = []"
  "set (bp_list (sample_broken [0x401003, 0x401004])) = {(0x401003, 0), (0x401004, 0)}"
  "bp_count (sample_broken [0x401003, 0x401004]) = 2"
proof -
  have r: "replicate 256 (0 :: u64) = 0 # replicate 255 0" "replicate 255 (0 :: u64) = 0 # replicate 254 0"
    by (simp_all flip: replicate_Suc)
  define d1 where "d1 = snd (insert_break_point 0x401003 True sample_fresh)"
  have d1: "d1 = sample_fresh\<lparr>bp_count := 1, bp_x86_array := 0x401003 # replicate 255 0\<rparr>"
    by (simp add: d1_def insert_break_point_def sample_fresh_def Debugger_new_def set_bp_def bp_doubled_def Let_def r(1))
  have s: "settled d1"
    using settled_insert [OF sample_settled(1), of "0x401003"] sample_blocks
    by (cases "insert_break_point 0x401003 True sample_fresh") (auto simp: d1_def sample_fresh_def Debugger_new_def)
  define d2 where "d2 = snd (insert_break_point 0x401004 True d1)"
  have d2: "d2 = sample_fresh\<lparr>bp_count := 2, bp_x86_array := 0x401003 # 0x401004 # replicate 254 0\<rparr>"
    by (simp add: d2_def d1 insert_break_point_def sample_fresh_def Debugger_new_def set_bp_def bp_doubled_def Let_def r
        One_nat_def)
  have "sample_broken [0x401003, 0x401004] = d2"
    by (simp add: sample_broken_def d2_def d1_def)
  moreover have "settled d2"
    using settled_insert [OF s, of "0x401004"] d1
    by (cases "insert_break_point 0x401004 True d1") (auto simp: d2_def sample_fresh_def Debugger_new_def)
  ultimately show "debugger_ok (sample_broken [0x401003, 0x401004])" "dbg_blocks (sample_broken [0x401003, 0x401004]) = []"
    "set (bp_list (sample_broken [0x401003, 0x401004])) = {(0x401003, 0), (0x401004, 0)}"
    "bp_count (sample_broken [0x401003, 0x401004]) = 2"
    by (auto simp: settled_def d2 bp_list_def bps_def sample_fresh_def Debugger_new_def r)
qed

text \<open>A state of the guest before a branch, and one of the host before the guest is entered.\<close>

definition sample_switch :: rv_state where
  "sample_switch = rset s11 0x10000 (rset s9 0x20000 (rset t3 0x401000 sample_state))"

definition sample_start :: rv_state where
  "sample_start = rset a0 0x10000 (rset a1 0x401000 (the (rv_seqs (capture_context s11) sample_switch)))"

definition sample_regions :: "(u64 \<times> nat) set" where
  "sample_regions = {(0x10000, 0xF8), (0x10000 + host_offset, 0xF8), (0x20000, 16 * tlb_size)}"

lemma sample_conforms: "conforms sample_regions Some" "conforms sample_regions (\<lambda>s. Some (rset a0 0x7000 s))"
  by (simp_all add: conforms_def)

lemma sample_yields: "yields (\<lambda>s. Some (rset a0 0x7000 s)) a 0x7000"
  by (simp add: yields_def rv_simps)

lemma sample_switch_registers: "rget s11 sample_switch = 0x10000" "rget s9 sample_switch = 0x20000" "rget t3 sample_switch = 0x401000"
  by (simp_all add: sample_switch_def rv_simps)

lemma sample_start_regions:
  "{(0x10000, 0xF8), (0x10000 + host_offset, 0xF8), (0x20000, 16 * tlb_size)} \<subseteq> sample_regions"
  "far_apart 0x10000 0xF8 0x20000 (16 * tlb_size)" "far_apart (0x10000 + host_offset) 0xF8 0x20000 (16 * tlb_size)"
  by (auto simp: sample_regions_def tlb_size_def host_offset_def intro!: far_intervals)

lemma sample_switch_regions:
  "{(rget s11 sample_switch, 0xF8), (rget s9 sample_switch, 16 * tlb_size)} \<subseteq> sample_regions"
  "far_apart (rget s11 sample_switch) 0xF8 (rget s9 sample_switch) (16 * tlb_size)"
  unfolding sample_switch_registers using sample_start_regions by auto

lemma sample_switch_miss: "tlb_lookup 0x20000 (rv_mem sample_switch) 0x401000 = None"
  by (simp add: sample_switch_def sample_state_def tlb_lookup_def Let_def mload_def rv_simps)

lemma sample_start:
  "rget a0 sample_start = 0x10000" "rget a1 sample_start = 0x401000" "kept 0x10000 (\<lambda>r. rget r sample_switch) (rv_mem sample_start)"
  "tlb_lookup 0x20000 (rv_mem sample_start) 0x401000 = None"
proof -
  obtain t where t: "rv_seqs (capture_context s11) sample_switch = Some t"
    "changes 0x10000 0xF8 (rv_mem sample_switch) (rv_mem t)" "kept 0x10000 (\<lambda>r. rget r sample_switch) (rv_mem t)"
    using capture_run [of sample_switch] unfolding sample_switch_registers by blast
  show "rget a0 sample_start = 0x10000" "rget a1 sample_start = 0x401000"
    "kept 0x10000 (\<lambda>r. rget r sample_switch) (rv_mem sample_start)"
    using t by (simp_all add: sample_start_def rv_simps)
  have "same_at 0x20000 (16 * tlb_size) (rv_mem sample_switch) (rv_mem t)"
    using changes_same_at [OF t(2) far_outside [OF sample_start_regions(2)]] .
  then show "tlb_lookup 0x20000 (rv_mem sample_start) 0x401000 = None"
    using lookup_same_at sample_switch_miss t(1) by (simp add: sample_start_def rv_simps)
qed

end
