(* ===== verification/Spec2Isabelle.thy ===== *)
theory Spec2Isabelle
  imports Samples
begin

text \<open>
  oxtra runs x86-64 Linux programs on 64-bit RISC-V: it loads a statically linked executable, translates
  it one basic block at a time while it runs, and keeps the translated blocks. This development models
  the translator (\<^verbatim>\<open>src/src/oxtra\<close>) and proves that the code it generates computes what the x86
  program computes. The sources are C++; a class is a record, a method a function of it, a virtual
  method a field or an argument, a fault or an exception a value of a sum, and an address in the memory
  of the translator itself a parameter. Machine integers are words of their width.

  \<^bold>\<open>Parts of the program and their theories\<close>

  \<^item> Encoder and machine. \<^verbatim>\<open>Encoding\<close> has every encoder of \<^verbatim>\<open>codegen/encoding\<close> with the unions it
    writes its bit fields with; \<^verbatim>\<open>Decoding\<close> the disassembler of \<^verbatim>\<open>codegen/decoding\<close>. \<^verbatim>\<open>RiscV\<close> and
    \<^verbatim>\<open>Machine\<close> are the RV64IM machine the generated code is run on: an instruction word is decoded as the
    RISC-V manual says, independently of the encoders, so that what is proved of generated code is
    proved of the words that are written.
  \<^item> Batches. \<^verbatim>\<open>Batch\<close> is the interface that generators write to, a state monad over a fault or the code
    so far, with the contract \<open>code_writer\<close> of its implementations; \<^verbatim>\<open>CodeBatch\<close> has these,
    \<open>CodeBatchImpl\<close> and \<open>CodeMemory\<close> of \<^verbatim>\<open>codegen/code_batch\<close>.
  \<^item> Generators. \<^verbatim>\<open>Helper\<close>, \<^verbatim>\<open>LoadImmediate\<close> (\<^verbatim>\<open>codegen/helper\<close>), \<^verbatim>\<open>JumpTable\<close> (the table and the
    assembly routines that evaluate carry and overflow), \<^verbatim>\<open>InstructionBase\<close> and \<^verbatim>\<open>FlagCode\<close>
    (\<^verbatim>\<open>codegen/instruction\<close>: operands, memory accesses, status flags), \<^verbatim>\<open>Operations\<close>, \<^verbatim>\<open>Arithmetic\<close>,
    \<^verbatim>\<open>Logic\<close>, \<^verbatim>\<open>DataMovement\<close>, \<^verbatim>\<open>StringOps\<close>, \<^verbatim>\<open>Conditions\<close>, \<^verbatim>\<open>ControlFlow\<close> (the classes of
    \<^verbatim>\<open>codegen/instructions\<close>) and \<^verbatim>\<open>Transform\<close> (\<^verbatim>\<open>codegen/transform_instruction\<close>). A class is the function
    that makes its objects; an \<open>object\<close> holds its instruction and the virtual methods the generator calls.
  \<^item> Code generator. \<^verbatim>\<open>FlagPrediction\<close> and \<^verbatim>\<open>Codegen\<close> (\<^verbatim>\<open>codegen/codegen\<close>) decode a block, predict the
    flags each instruction has to record, generate, store and link its code, and patch finished blocks;
    \<^verbatim>\<open>CodeStore\<close> and \<^verbatim>\<open>StaticList\<close> (\<^verbatim>\<open>codegen/codestore\<close>, \<^verbatim>\<open>utils\<close>) keep the translated blocks.
  \<^item> Environment. \<^verbatim>\<open>Elf\<close> loads the executable (\<^verbatim>\<open>elf\<close>), \<^verbatim>\<open>Syscalls\<close> emulates system calls,
    \<^verbatim>\<open>Dispatcher\<close> prepares the first context and stack, resolves branches through a lookup table and
    handles system calls, \<^verbatim>\<open>DispatcherCode\<close> has the assembly routines that enter and leave the guest and
    that branch (\<^verbatim>\<open>dispatcher\<close>), \<^verbatim>\<open>Arguments\<close> parses the command line (\<^verbatim>\<open>arguments\<close>).
  \<^item> Debugger. \<^verbatim>\<open>Debugger\<close> has the batch that places calls of the debugger, the translated blocks in
    order, the break points and the decision to halt (\<^verbatim>\<open>debugger/debugger\<close>); \<^verbatim>\<open>DebuggerPrint\<close> what is
    printed (\<^verbatim>\<open>debugger_print\<close>); \<^verbatim>\<open>DebuggerMenu\<close> the commands and their loop (\<^verbatim>\<open>debugger_menu\<close>). Pointers
    to blocks are indices, since the source renews them whenever the list changes.

  \<^bold>\<open>What is proved\<close>

  \<^item> \<^verbatim>\<open>FlagEval\<close>, \<^verbatim>\<open>FlagUpdates\<close>: the status flags are kept lazily, as values and the number of a routine
    that computes the flag from them. The lemmas say which flags of an x86 machine a state of the
    context stands for, that each routine computes its flag at each operand size, and that each update
    changes its own flag only.
  \<^item> \<^verbatim>\<open>Executors\<close>, \<^verbatim>\<open>BinaryOperations\<close>, \<^verbatim>\<open>UnaryComparisons\<close>, \<^verbatim>\<open>SourceOperands\<close>, \<^verbatim>\<open>ConditionCodes\<close>: the
    contracts of the virtual methods, as locales (\<open>binary_executor\<close>, \<open>unary_executor\<close>,
    \<open>compare_executor\<close>, \<open>condition_code\<close>), with an interpretation for each class that implements them.
  \<^item> \<^verbatim>\<open>X86Machine\<close>, \<^verbatim>\<open>Simulation\<close>, \<^verbatim>\<open>BlockSimulation\<close>, \<^verbatim>\<open>BlockStore\<close>: a machine of sixteen registers and
    five flags is the specification; \<open>sim\<close> relates its states to those of the host. Each translated
    instruction simulates its x86 instruction, a block simulates its instructions, with the flag updates
    that the prediction has left them, and what the code store returns is the address of that code.
  \<^item> \<^verbatim>\<open>FlagPrediction\<close>, \<^verbatim>\<open>FlagLiveness\<close>: the prediction contains every flag that an execution may read
    before it writes it, it returns, and the pass over a block keeps the updates of these flags.
  \<^item> \<^verbatim>\<open>StaticList\<close>, \<^verbatim>\<open>CodeStore\<close>, \<^verbatim>\<open>PatchCode\<close>, \<^verbatim>\<open>Elf\<close>, \<^verbatim>\<open>SyscallRules\<close>, \<^verbatim>\<open>ArgumentRules\<close>,
    \<^verbatim>\<open>DispatcherRules\<close> (with the locale \<open>lookup_cache\<close> of the lookup table, and \<open>reached\<close>, the states that
    branches lead to): the invariants and contracts of the other parts. \<^verbatim>\<open>DispatcherSwitch\<close>: the routines of
    the dispatcher, for all functions of the translator that keep to the calling convention (\<open>conforms\<close>),
    give guest and host their registers back and branch to the address the table or the translation has.
  \<^item> \<^verbatim>\<open>DebuggerRules\<close>, \<^verbatim>\<open>DebuggerUpdates\<close>, \<^verbatim>\<open>DebuggerInvariant\<close>, \<^verbatim>\<open>DebuggerText\<close>: addresses of the host are
    resolved to their guest instructions; break points stay in order, without doubles and at the place of
    their instruction, when one is inserted or removed and when a block is translated; \<open>debugger_reaches\<close>
    are the states that blocks, entries and commands lead to, and \<open>settled\<close> their invariant, which leaves
    out \<^verbatim>\<open>run\<close> with an address, whose temporary break point is not in order; waiting for a number of
    instructions ends; printed numbers are read back.
  \<^item> \<^verbatim>\<open>Divergences\<close> states cases in which the translation
    does not do what the x86 instruction does.

  \<^bold>\<open>Bounds and termination\<close>

  Loops over instructions are partial functions; \<open>translate_returns\<close> shows that they end when a decoded
  instruction has at least one byte and lies in the available ones (\<open>decoder_ok\<close>). The loop of
  \<open>load_immediate\<close> consumes at least one of 64 bits a round. Runs of generated code (\<open>rv_run\<close>) have fuel;
  they are proved to succeed with some amount, and more never changes a result (\<open>rv_run_mono\<close>). A batch
  has \<open>max_riscv_instructions\<close> places, as in the source, and an overflow is a fault.

  \<^bold>\<open>Not modelled\<close>

  The decoder (\<^verbatim>\<open>libs/fadec\<close>) and the formatting library (\<^verbatim>\<open>libs/fmt\<close>) are vendored; the decoder is a
  parameter. The logger and the printing of diagnostics have no effect on translated code. The link
  register during calls of the translator is left out, and the terminal the debugger reads from and writes
  to; so are the kernel, a parameter of the emulated system calls, and the memory management of C++. The
  x86 machine of the block theorems covers moves, additions, subtractions, logical operations,
  increments, negations, comparisons and condition bytes between registers and constants; other
  instructions are modelled, and their objects take part in the prediction of flags, in storing and in
  patching, but their code has no x86 specification here.
\<close>

section \<open>Translated code computes what the x86 program computes\<close>

text \<open>
C1: The code of a basic block is right: when the x86 machine runs the instructions before the last one
from a state that the host state represents with all five flags, the code that their translations
generate, with the flag updates that the prediction has left them, leads to a host state that
represents the x86 result, registers and every flag required from the last instruction on.
\<close>

theorem block_translation_correct:
  assumes "predict_flags env cg (map (transform_instruction h) insts @ [ob]) addr at_next = Some obs"
    and "last_requirements env cg ob addr at_next = Some (required, ob')"
    and "x86_run insts x = Some x'" "\<forall>i\<in>set insts. supported i" "sim table flags_all x s"
  shows "(\<forall>ob\<in>set (butlast obs). generates ct ob) \<and>
    passes (jt_env table) (block_code ct (butlast obs)) (sim table required x') s"
  using assms by (rule block_simulates)

theorem block_translation_correct_witness:
  "\<exists>x x' s obs. x86_run [sample_cmp, sample_setl] x = Some x' \<and>
     passes (jt_env sample_table) (block_code [] (butlast obs)) (sim sample_table flags_all x') s"
proof -
  obtain obs ob' where p: "predict_flags sample_env sample_generator
      (map (transform_instruction sample_host) [sample_cmp, sample_setl] @ [transform_instruction sample_host sample_ret])
      0x401009 False = Some obs"
    "last_requirements sample_env sample_generator (transform_instruction sample_host sample_ret) 0x401009 False =
      Some (flags_all, ob')"
    using sample_prediction by blast
  obtain x s where x: "sim sample_table flags_all x s"
    using sample_recorded by blast
  obtain x' where x': "x86_run [sample_cmp, sample_setl] x = Some x'"
    using sample_steps(1) by blast
  have ok: "\<forall>i\<in>set [sample_cmp, sample_setl]. supported i"
    by (simp add: sample_supported)
  show ?thesis
    using block_translation_correct [OF p x' ok x] x' by blast
qed



text \<open>
C3: The same for one instruction of the fragment, whatever part \<open>u\<close> of its flag updates is recorded:
the object that \<open>transform_instruction\<close> creates is no branch, and its code leads from every host state
that represents \<open>x\<close>, with the flags it reads, to one that represents the x86 successor of \<open>x\<close>.
\<close>

theorem instruction_translation_correct:
  assumes "x86_step i x = Some x'" "supported i"
    and "covers_flags (object_update (transform_instruction h i)) u"
    and "covers_flags before (object_require (transform_instruction h i))" "sim table before x s"
  shows "generates ct (set_object_update u (transform_instruction h i)) \<and>
    passes (jt_env table) (code_of ct (set_object_update u (transform_instruction h i)))
      (sim table (recorded before (object_update (transform_instruction h i)) u) x') s"
  using object_simulates_code [OF instruction_simulated [OF assms(1,2) refl assms(3,4)] assms(5)] by blast

theorem instruction_translation_correct_witness:
  "\<exists>x x' s. x86_step sample_add x = Some x' \<and>
     passes (jt_env sample_table) (code_of [] (set_object_update flags_all (transform_instruction sample_host sample_add)))
       (sim sample_table (recorded flags_all flags_all flags_all) x') s"
proof -
  obtain x s where x: "sim sample_table flags_all x s"
    using sample_recorded by blast
  obtain x' where x': "x86_step sample_add x = Some x'"
    using sample_steps(2) by blast
  have ob: "object_update (transform_instruction sample_host sample_add) = flags_all"
    "object_require (transform_instruction sample_host sample_add) = flags_none"
    by (simp_all add: sample_objects Add_def BinaryOperation_def)
  show ?thesis
    using instruction_translation_correct [OF x' sample_supported(3), of sample_host flags_all flags_all sample_table s "[]"] x x'
    by (auto simp: ob covers_flags_def flags_none_def)
qed



section \<open>Flags\<close>

text \<open>
C5: Lazily evaluated flags: wherever the context records a carry \<open>c\<close> (or an overflow), the code that
\<open>evaluate_carry\<close> (\<open>evaluate_overflow\<close>) emits calls the recorded routine and leaves \<open>c\<close> in \<open>t4\<close>.
\<close>

theorem evaluate_flags_correct:
  assumes "jump_table_at table s" "records_carry c s" "records_overflow v s"
  shows "achieves (jt_env table) evaluate_carry (\<lambda>t. rget t4 t = of_bool c \<and> keeps {ra, t4, t5, t6} s t) s \<and>
    achieves (jt_env table) evaluate_overflow (\<lambda>t. rget t4 t = of_bool v \<and> keeps {ra, t4, t5, t6} s t) s"
  using evaluate_carry_achieves evaluate_overflow_achieves assms by blast

theorem evaluate_flags_correct_witness:
  "\<exists>c v s. achieves (jt_env sample_table) evaluate_carry (\<lambda>t. rget t4 t = of_bool c \<and> keeps {ra, t4, t5, t6} s t) s \<and>
     achieves (jt_env sample_table) evaluate_overflow (\<lambda>t. rget t4 t = of_bool v \<and> keeps {ra, t4, t5, t6} s t) s"
proof -
  obtain x s where "sim sample_table flags_all x s"
    using sample_recorded by blast
  then have "jump_table_at sample_table s" "records_carry (fl_carry (x86_fl x)) s"
    "records_overflow (fl_overflow (x86_fl x)) s"
    by (simp_all add: sim_def has_flags_def flags_all_bit)
  then show ?thesis
    using evaluate_flags_correct by blast
qed

section \<open>Prediction of the flags\<close>

text \<open>
C6: The prediction is sound: a flag that was asked for and that some execution from the address may
read before it is written is in the result, to whatever depth branches are followed.
\<close>

theorem flag_requirements_sound:
  assumes "recursive_flag_requirements decode h elf unclear addr depth = Some r"
    and "bit unclear f" "may_need decode h elf f addr"
  shows "bit r f"
  using assms by (rule recursive_flag_requirements_sound)

theorem flag_requirements_sound_witness:
  "\<exists>r. recursive_flag_requirements (\<lambda>addr n. None) sample_host sample_elf flags_all 0x401000 4 = Some r \<and> bit r 3"
proof -
  have "recursive_flag_requirements (\<lambda>addr n. None) sample_host sample_elf flags_all 0x401000 4 = Some flags_all"
    unfolding recursive_flag_requirements_def by (subst flag_loop.simps) (simp add: decode_object_def)
  moreover have "may_need (\<lambda>addr n. None) sample_host sample_elf 3 0x401000"
    by (rule may_need.Undecoded) (simp add: decode_object_def)
  ultimately show ?thesis
    using flag_requirements_sound [of "\<lambda>addr n. None" sample_host sample_elf flags_all "0x401000" 4 flags_all 3]
    by (simp add: flags_all_bit)
qed

text \<open>
C7: The prediction returns, for every image and every decoder that consumes between one and the
available number of bytes.
\<close>

theorem flag_requirements_return:
  assumes "decoder_ok decode" "Elf_ok elf"
  shows "\<exists>r. recursive_flag_requirements decode h elf unclear addr depth = Some r"
  using assms by (rule recursive_flag_requirements_returns)

theorem flag_requirements_return_witness:
  "\<exists>r. recursive_flag_requirements sample_decode sample_host sample_elf flags_all 0x401ff0 4 = Some r"
  by (rule flag_requirements_return) (rule sample_decode_ok, rule sample_elf_ok)



section \<open>Translation of a block\<close>

text \<open>C9: The translation returns, with an address or with a fault, for every address.\<close>

theorem translation_returns:
  assumes "decoder_ok (env_decode env)" "Elf_ok (cg_elf cg)"
  shows "\<exists>r. translate env addr cg = Some r"
  using assms by (rule translate_returns)

theorem translation_returns_witness:
  "\<exists>r. translate (sample_env\<lparr>env_decode := sample_decode\<rparr>) 0x401ff0 sample_generator = Some r"
  by (rule translation_returns)
    (simp_all add: sample_decode_ok sample_elf_ok sample_generator_def CodeGenerator_new_def)





section \<open>Immediates, addresses and registers\<close>

text \<open>
C12: For every 64-bit immediate and every destination register but zero, the code that
\<open>load_immediate\<close> emits leaves exactly the immediate in the destination and changes neither another
register nor memory.
\<close>

theorem load_immediate_correct:
  assumes "dest \<noteq> zero"
  shows "\<exists>t. runs (load_immediate imm dest) s t \<and> rget dest t = imm \<and> keeps {dest} s t"
  using assms by (rule load_immediate_runs)

theorem load_immediate_witness:
  "\<exists>t. runs (load_immediate 0xdeadbeef12345678 t0) sample_state t \<and>
     rget t0 t = 0xdeadbeef12345678 \<and> keeps {t0} sample_state t"
  by (rule load_immediate_correct) simp

text \<open>C13: The fixed-length sequence of \<open>load_address\<close> loads every 64-bit address.\<close>

theorem load_address_correct:
  assumes "dest \<noteq> zero"
  shows "\<exists>t. runs (load_address ptr dest) s t \<and> rget dest t = ptr \<and> keeps {dest} s t"
  using assms by (rule load_address_runs)

theorem load_address_witness:
  "\<exists>t. runs (load_address 0xffeeddccbbaa9988 t3) sample_state t \<and>
     rget t3 t = 0xffeeddccbbaa9988 \<and> keeps {t3} sample_state t"
  by (rule load_address_correct) simp

text \<open>
C14: \<open>move_to_register\<close> writes a part of a guest register the way x86 does: 4 bytes clear the upper
half, 1 and 2 bytes keep the rest, and access 0 is the second byte. Source and destination are
different unless 4 or 8 bytes are written; a source declared as cleared is.
\<close>

theorem move_to_register_correct:
  assumes "dest \<noteq> zero" "temp \<noteq> zero" "temp \<noteq> dest" "temp \<noteq> src"
    and "src \<noteq> dest \<or> access \<in> {4, 8}"
    and "cleared \<and> access \<in> {1, 2} \<longrightarrow> take_bit (8 * access) (rget src s) = rget src s"
    and "valid_access access"
  shows "\<exists>t. runs (move_to_register dest src access temp cleared) s t \<and>
    rget dest t = x86_write access (rget dest s) (rget src s) \<and> keeps {dest, temp} s t"
  using assms(6) by (intro move_to_register_runs [OF assms(1-5) _ assms(7)]) blast

theorem move_to_register_witness:
  "\<exists>t. runs (move_to_register a7 t0 0 t1 False) sample_state t \<and> rget a7 t = 0x1122334455668888"
proof -
  have "\<exists>t. runs (move_to_register a7 t0 0 t1 False) sample_state t \<and>
      rget a7 t = x86_write 0 (rget a7 sample_state) (rget t0 sample_state) \<and> keeps {a7, t1} sample_state t"
    by (rule move_to_register_correct) (simp_all add: valid_access_def)
  then show ?thesis
    by (simp add: x86_write_def) blast
qed

text \<open>
C15: \<open>load_from_register\<close> reads the same parts: the register it returns holds the low bytes, and all
of the value, zero or sign extended, when a full load is asked for; a modifiable one is the
temporary.
\<close>

theorem load_from_register_correct:
  assumes "temp \<noteq> zero" "valid_access access"
  shows "\<exists>r t. runs_val (load_from_register src access temp modifiable full_load sign_ext) s r t \<and>
    r \<in> {src, temp} \<and> (\<not> modifiable \<or> r = temp) \<and> keeps {temp} s t \<and>
    take_bit (8 * max 1 access) (rget r t) = x86_read access (rget src s) \<and>
    (\<not> full_load \<or> rget r t = (if sign_ext then x86_sread access (rget src s) else x86_read access (rget src s)))"
  using load_from_register_runs [OF assms, of src modifiable full_load sign_ext s] by blast

theorem load_from_register_witness:
  "\<exists>r t. runs_val (load_from_register a7 1 t1 False True True) sample_state r t \<and> rget r t = - 0x78"
proof -
  have "t1 \<noteq> zero" "valid_access 1"
    by (simp_all add: valid_access_def)
  from load_from_register_correct [OF this, of a7 False True True sample_state]
  obtain r t where "runs_val (load_from_register a7 1 t1 False True True) sample_state r t"
    "rget r t = x86_sread 1 0x1122334455667788" by auto
  then show ?thesis
    by (auto simp: x86_sread_def)
qed

section \<open>Encoder and batches\<close>


text \<open>C17: A batch holds the instructions that were added, one after the other, as long as there is room.\<close>

theorem batch_holds_code:
  assumes "CodeBatchImpl_ok b" "impl_count b + length insts \<le> max_riscv_instructions"
  shows "\<exists>b'. batch_impl.write_all insts b = Inr b' \<and> CodeBatchImpl_ok b' \<and>
    run_state (emits insts) (Inr (CodeBatchImpl_contents b)) = ((), Inr (CodeBatchImpl_contents b'))"
  using assms by (rule batch_impl_stores)

theorem batch_holds_code_witness:
  "\<exists>b'. batch_impl.write_all [NOP, NOP] \<lparr>impl_riscv = replicate max_riscv_instructions 0, impl_count = 0\<rparr> = Inr b' \<and>
     CodeBatchImpl_contents b' = [NOP, NOP]"
  using batch_holds_code [of "\<lparr>impl_riscv = replicate max_riscv_instructions 0, impl_count = 0\<rparr>" "[NOP, NOP]"]
  by (auto simp: CodeBatchImpl_ok_def max_riscv_instructions_def CodeBatchImpl_contents_def)

text \<open>C18: More instructions than a batch or a block of memory holds are refused with an error.\<close>

theorem batch_overflow_refused:
  assumes "CodeBatchImpl_ok b" "max_riscv_instructions < impl_count b + length insts"
    and "CodeMemory_ok c" "cmem_max_size c < cmem_count c + length insts"
  shows "(\<exists>e. batch_impl.write_all insts b = Inl e) \<and> (\<exists>e. code_memory.write_all insts c = Inl e)"
proof
  show "\<exists>e. batch_impl.write_all insts b = Inl e"
    using assms(1,2) by (intro batch_impl.write_all_overflows) (simp_all add: CodeBatchImpl_ok_def CodeBatchImpl_contents_def)
  show "\<exists>e. code_memory.write_all insts c = Inl e"
    using assms(3,4) by (intro code_memory.write_all_overflows) (simp_all add: CodeMemory_ok_def CodeMemory_contents_def)
qed

theorem batch_overflow_witness:
  "\<exists>e. code_memory.write_all (replicate 300 NOP) (CodeMemory_new (replicate 4 0) 4) = Inl e"
  using batch_overflow_refused [of "\<lparr>impl_riscv = replicate max_riscv_instructions 0, impl_count = 0\<rparr>"
      "replicate 300 NOP" "CodeMemory_new (replicate 4 0) 4"]
  by (simp add: CodeBatchImpl_ok_def CodeMemory_ok_def CodeMemory_new_def max_riscv_instructions_def)

section \<open>The code store\<close>



text \<open>
C20: Appending to the current section of a list keeps its invariant, moves or changes nothing else that
is stored, and the section at the returned address is the old one followed by the new elements, also
when it had to be moved to a fresh buffer.
\<close>

theorem static_list_appends:
  assumes "StaticList_ok sl" "allocator_ok al" "current_section sl start xs"
    and "StaticList_add al start ys sl = Inr (Some p, sl')"
  shows "StaticList_ok sl' \<and> extends sl sl' \<and> current_section sl' (Some p) (xs @ ys)"
  using StaticList_add_correct [OF assms] by blast

theorem static_list_appends_witness:
  "\<exists>sl'. StaticList_add (\<lambda>k n. Some (replicate n 0)) (Some (0, 0)) [2]
       \<lparr>sl_chunks = [[1, 7 :: nat]], sl_buffer = Some (0, 1), sl_size_left = 1, sl_max_elements = 2\<rparr> = Inr (Some (0, 0), sl') \<and>
     section_at sl' (0, 0) 2 = [1, 2]"
proof -
  let ?al = "\<lambda>k n. Some (replicate n (0 :: nat))"
  let ?s = "\<lparr>sl_chunks = [[1, 7 :: nat]], sl_buffer = Some (0, 1), sl_size_left = 1, sl_max_elements = 2\<rparr>"
  have pre: "StaticList_ok ?s" "allocator_ok ?al" "current_section ?s (Some (0, 0)) [1]"
    by (simp_all add: StaticList_ok_def allocator_ok_def current_section_def store_count_def section_at_def)
  obtain s' where s': "StaticList_add ?al (Some (0, 0)) [2] ?s = Inr (Some (0, 0), s')"
    by (simp add: StaticList_add_def store_count_def append_at_buffer_def Let_def)
  show ?thesis
    using static_list_appends [OF pre s'] s' by (auto simp: current_section_def numeral_2_eq_2)
qed


section \<open>The image\<close>

text \<open>
C22: A loaded image lies on page boundaries, with one entry of the page table for each of its pages,
unless it wraps around the end of the address space.
\<close>

theorem loaded_image_ok:
  assumes "unpack_file mmap m buf n = Inr (elf, l)" "elf_base elf \<le> elf_base elf + elf_size elf"
  shows "Elf_ok elf"
  using assms by (rule unpack_file_ok)

theorem loaded_image_ok_witness:
  "\<exists>elf l. unpack_file (\<lambda>a n. a) sample_file 0 0x200 = Inr (elf, l) \<and> elf_size elf = 0x2000 \<and> Elf_ok elf"
proof -
  obtain elf l where e: "unpack_file (\<lambda>a n. a) sample_file 0 0x200 = Inr (elf, l)" "elf_base elf = 0x400000"
    "elf_size elf = 0x2000"
    by (rule sample_loaded)
  then show ?thesis
    using loaded_image_ok [OF e(1)] by auto
qed

text \<open>
C23: The page table of a loaded image tells, for each page, the permissions of the last segment of the
file that touches it, those of \<^verbatim>\<open>.bss\<close> where that touches it, and that other pages are unmapped; a file
that needs an interpreter is not loaded.
\<close>

theorem loaded_page_flags:
  assumes "unpack_file mmap m buf n = Inr (elf, l)"
  shows "(\<forall>p\<in>set (file_phdrs m buf). p_type p \<noteq> PT_INTERP) \<and>
    (\<forall>page<length (page_flags elf). page_flags elf ! page =
      expected_flags (elf_base elf) (file_phdrs m buf) (file_bss m buf) page)"
  using unpack_file_result(3,4) [OF assms] by blast

theorem loaded_page_flags_witness:
  "\<exists>elf l. unpack_file (\<lambda>a n. a) sample_file 0 0x200 = Inr (elf, l) \<and>
     page_flags elf ! 1 = PAGE_MAPPED OR PAGE_EXECUTE OR PAGE_READ"
proof -
  obtain elf l where e: "unpack_file (\<lambda>a n. a) sample_file 0 0x200 = Inr (elf, l)" "elf_base elf = 0x400000"
    "elf_size elf = 0x2000"
    by (rule sample_loaded)
  have "length (page_flags elf) = 2"
    using unpack_file_result(5) [OF e(1)] by (simp add: e(3))
  then have "page_flags elf ! 1 = expected_flags 0x400000 (file_phdrs sample_file 0) (file_bss sample_file 0) 1"
    using loaded_page_flags [OF e(1)] e(2) by simp
  then show ?thesis
    using e(1) by (simp add: sample_headers expected_flags_def bss_touches_def segment_touches_def PT_LOAD_def page_first_def
        page_last_def Let_def segment_flags_def PF_X_def PF_W_def PF_R_def)
qed

section \<open>System calls\<close>



text \<open>
C25: What \<^verbatim>\<open>arch_prctl\<close> stored in the base of a segment register is what it reads back from it, and any
other code is answered with \<open>-1\<close>, without a change of the bases.
\<close>

theorem arch_prctl_correct:
  "(\<forall>(setter, getter)\<in>{(arch_set_fs, arch_get_fs), (arch_set_gs, arch_get_gs)}.
     \<exists>ctx1 ctx2. Syscall_arch_prctl k (prctl setter base ctx) = Returns ctx1 \<and>
       Syscall_arch_prctl k (prctl getter a ctx1) = Returns ctx2 \<and> mload 8 (ctx_mem ctx2) a = base \<and>
       get_guest guest_rax ctx2 = 0) \<and>
   (code \<in> {arch_set_fs, arch_get_fs, arch_set_gs, arch_get_gs} \<or>
     Syscall_arch_prctl k (prctl code a ctx) = Returns (set_guest guest_rax (- 1) (prctl code a ctx)))"
  using arch_prctl_round_trip arch_prctl_unknown by fastforce

theorem arch_prctl_witness:
  "\<exists>ctx1 ctx2. Syscall_arch_prctl sample_kernel (prctl arch_set_fs 0x1234 (sample_context 0)) = Returns ctx1 \<and>
     Syscall_arch_prctl sample_kernel (prctl arch_get_fs 0x2000 ctx1) = Returns ctx2 \<and> mload 8 (ctx_mem ctx2) 0x2000 = 0x1234"
  using arch_prctl_correct [of sample_kernel "0x1234" "sample_context 0" "0x2000" 0] by auto

text \<open>
C26: The handler that a system call instruction reaches does what the table says for every number: an
emulated call is emulated, an unsupported one or a number outside of the table ends the program with
that fault, and every other one is forwarded under its host number, whose result becomes \<^verbatim>\<open>rax\<close> while
every other register keeps its value.
\<close>

theorem syscalls_dispatched:
  assumes "syscall_numbers_ok fn SYS"
  shows "syscall_handler fn SYS forward k ctx =
    (let n = get_guest guest_rax ctx in
     if unat n < length (syscall_map SYS) then
       (case syscall_map SYS ! unat n of
          Emulation f \<Rightarrow> emulation_fn f k ctx
        | Index i \<Rightarrow>
            if i = - 1 then Faults (Unsupported_syscall n)
            else (case forward (word_of_int i) (ctx_guest ctx) (ctx_mem ctx) of
                (r, m) \<Rightarrow> Returns (set_guest guest_rax r (ctx\<lparr>ctx_mem := m\<rparr>))))
     else Faults (Unsupported_syscall n))"
  using assms by (rule syscall_handler_cases)

theorem syscalls_dispatched_witness:
  "syscall_handler sample_emulation sample_numbers (\<lambda>n g m. (n, m)) sample_kernel ((sample_context 0)\<lparr>ctx_guest := (\<lambda>r. 0x1000)\<rparr>) =
     Faults (Unsupported_syscall 0x1000) \<and>
   syscall_handler sample_emulation sample_numbers (\<lambda>n g m. (n, m)) sample_kernel ((sample_context 0)\<lparr>ctx_guest := (\<lambda>r. 1)\<rparr>) =
     Returns (set_guest guest_rax 63 ((sample_context 0)\<lparr>ctx_guest := (\<lambda>r. 1)\<rparr>))"
proof -
  have ok: "syscall_numbers_ok sample_emulation sample_numbers"
    by (simp add: syscall_numbers_ok_def sample_emulation_def sample_numbers_def)
  have "syscall_map sample_numbers ! 1 = Index 63"
    by (simp add: syscall_map_def sample_numbers_def)
  then show ?thesis
    unfolding syscalls_dispatched [OF ok] by (simp add: get_guest_def syscall_map_length syscall_map_size_def)
qed

section \<open>Arguments\<close>

text \<open>
C27: Whatever options are parsed, the stored arguments satisfy what the lists and the stack need: sizes
that are not zero and a debugging mode that exists.
\<close>

theorem parsed_arguments_ok:
  assumes "strtol_ok strtol" "arguments_ok args" "parse_arguments strtol opts args = Parsed args'"
  shows "arguments_ok args'"
  using assms by (rule parse_arguments_ok)

theorem parsed_arguments_ok_witness:
  "\<exists>args'. parse_arguments sample_strtol [(Key CHR ''s'', ''2'')] Arguments_default = Parsed args' \<and> arguments_ok args'"
proof -
  have "strtol_ok sample_strtol"
    by (simp add: strtol_ok_def sample_strtol_def)
  moreover obtain args' where "parse_arguments sample_strtol [(Key CHR ''s'', ''2'')] Arguments_default = Parsed args'"
    by (simp add: parse_opt_def with_number_def parse_string_min_def parse_string_def sample_strtol_def)
  ultimately show ?thesis
    using parsed_arguments_ok default_arguments_ok by blast
qed

text \<open>
C28: Splitting the guest's arguments: without quotes they are the pieces between the delimiters that
are not empty, and a quoted text is one argument, whatever delimiters it contains.
\<close>

theorem arguments_split:
  "(CHR 0x22 \<in> set str \<or> string_split str d = filter (\<lambda>t. t \<noteq> []) (pieces d str)) \<and>
   (d = CHR 0x22 \<or> d = CHR 0x5C \<or> CHR 0x22 \<in> set w \<or> CHR 0x5C \<in> set w \<or> 2 ^ 64 \<le> length w + 2 \<or>
     string_split (CHR 0x22 # w @ [CHR 0x22]) d = [CHR 0x22 # w @ [CHR 0x22]])"
proof -
  have "2 ^ 64 \<le> length w + 2 \<or> length w + 2 < 2 ^ 64"
    by linarith
  then show ?thesis
    using string_split_plain [of str d] string_split_quoted [of d w] by blast
qed

theorem arguments_split_witness:
  "string_split ''a  b'' CHR '' '' = [''a'', ''b'']"
  using arguments_split [of "''a  b''" "CHR '' ''" "[]"] by simp

section \<open>Where the translation differs from x86\<close>

text \<open>
C29: A byte moved within its register is lost: the code for \<^verbatim>\<open>mov al, al\<close>, and for the other low bytes,
clears the byte, because \<open>move_to_register\<close> clears the destination before it reads the source.
\<close>

theorem byte_move_to_itself:
  assumes "register_operand op" "op = get_operand 0 inst" "get_operand 1 inst = op" "op_access op = 1"
  shows "\<exists>t. runs (Mov_generate inst) s t \<and> operand_value op t = 0"
  using assms by (rule mov_byte_self)

theorem byte_move_witness:
  "\<exists>t. runs (Mov_generate (make_Instruction sample_mov 0 0 False)) sample_state t \<and>
     operand_value (sample_register reg_rax 1) t = 0"
proof (rule byte_move_to_itself)
  show "register_operand (sample_register reg_rax 1)"
    by (simp add: sample_defs)
qed (simp_all, simp_all add: sample_mov_def sample_defs)

text \<open>
C30: A comparison with the constant \<open>-0x800\<close> records the difference to \<open>0x800\<close>: the value is compared
with the opposite of the constant.
\<close>

theorem comparison_with_least_constant:
  assumes "valid_size sz" "op_size (get_operand 0 inst) = sz" "dst \<notin> {zero, t4, t5, s11}"
  shows "\<exists>t. runs_val (Cmp_execute_imm inst dst (- 0x800)) s t5 t \<and> rget t5 t = rget dst s - 0x800"
  using Cmp_least_constant [OF assms, of s] by blast

theorem comparison_witness:
  "\<exists>t. runs_val (Cmp_execute_imm (make_Instruction sample_cmp flags_all 0 False) a7 (- 0x800)) sample_state t5 t \<and>
     rget t5 t = 0x1122334455666f88"
proof -
  have "\<exists>t. runs_val (Cmp_execute_imm (make_Instruction sample_cmp flags_all 0 False) a7 (- 0x800)) sample_state t5 t \<and>
      rget t5 t = rget a7 sample_state - 0x800"
    by (rule comparison_with_least_constant [of 2]) (simp_all, simp_all add: sample_cmp_def sample_defs)
  then show ?thesis
    by simp
qed

section \<open>Entering the guest\<close>

text \<open>
C31: The guest is entered with the stack that its system promises: below the top of the mapped stack the
number of arguments, the path and the arguments, the environment and the auxiliary vectors, each list
with its end, in which the entries for the program headers and the entry point are those of the guest.
The registers represent an x86 state with the stack pointer there, all other registers 0 and the flags
clear, of which the sign flag is not set up.
\<close>

theorem start_context_correct:
  assumes "words_at (ctx_mem ctx) (ha_envp ha) (env @ [0] @ vector_words aux @ [0])" "0 \<notin> set env" "0 \<notin> fst ` set aux"
    and "8 * length (stack_words ha env aux) < 2 ^ 63" "rsp = first_rsp args ha env aux"
    and "outside rsp (8 * length (stack_words ha env aux)) (ha_envp ha) (8 * length (env @ [0] @ vector_words aux @ [0]))"
      "outside rsp (8 * length (stack_words ha env aux)) (elf_base elf + 32) 8"
      "outside (ha_context ha + 0x200) 0x46 rsp (8 * length (stack_words ha env aux))"
    and "even (ha_jump_table ha)"
  shows "\<exists>c. start_context elf args ha ctx = Some c \<and>
    words_at (ctx_mem c) rsp
      (stack_words ha env (map (replaced elf (read64 (ctx_mem ctx) (elf_base elf + 32))) aux)) \<and>
    sim (ha_jump_table ha) (flags_all AND NOT flags_sign)
      \<lparr>x86_regs = start_registers rsp, x86_fl = clear_flags\<rparr> (guest_state c) \<and>
    program_break c = elf_base elf + elf_size elf"
  using assms unfolding assms(5) by (intro start_context_words) simp_all

theorem start_context_witness:
  "\<exists>c. start_context sample_elf Arguments_default sample_addresses ((sample_context 0)\<lparr>ctx_mem := sample_memory\<rparr>) = Some c \<and>
     mload 8 (ctx_mem c) 0x2ff000 = 2 \<and> mload 8 (ctx_mem c) 0x2ff008 = 0x500000 \<and>
     mload 8 (ctx_mem c) 0x2ff020 = 0x500200 \<and> mload 8 (ctx_mem c) 0x2ff060 = 0x401000"
proof -
  have len: "length (stack_words sample_addresses sample_strings sample_vectors) = 14"
    "length (sample_strings @ [0] @ vector_words sample_vectors @ [0]) = 10"
    by (simp_all add: stack_words_def sample_addresses_def sample_strings_def sample_vectors_def)
  have apart: "outside 0x2ff000 112 0x300000 80" "outside 0x2ff000 112 0x400020 8" "outside 0x1200 0x46 0x2ff000 112"
    using outside_above [of 112 "0x1000" 80 "0x2ff000"] outside_above [of 112 "0x101020" 8 "0x2ff000"]
      outside_above [of "0x46" "0x2fde00" 112 "0x1200"] by simp_all
  let ?ctx = "(sample_context 0)\<lparr>ctx_mem := sample_memory\<rparr>"
  obtain c where c: "start_context sample_elf Arguments_default sample_addresses ?ctx = Some c"
    "words_at (ctx_mem c) 0x2ff000 (stack_words sample_addresses sample_strings
      (map (replaced sample_elf (read64 (ctx_mem ?ctx) (elf_base sample_elf + 32))) sample_vectors))"
    using start_context_correct [of ?ctx sample_addresses sample_strings sample_vectors "0x2ff000" Arguments_default sample_elf]
      sample_environment sample_first_rsp apart
    unfolding len by (simp add: sample_addresses_def sample_elf_def sample_strings_def sample_vectors_def AT_PHDR_def AT_ENTRY_def) blast
  then show ?thesis
    by (auto simp: stack_words_def sample_addresses_def sample_strings_def sample_vectors_def AT_PHDR_def AT_ENTRY_def
        replaced_def replaced_value_def sample_elf_def)
qed

text \<open>
C32: A branch of the guest arrives at the newest translation of its target. In every state that branches
through a zeroed table lead to, whatever the guest did to other memory in between, a target other than 0
is either found in the table, with the address that its newest translation returned, or translated and
then found.
\<close>

theorem branches_arrive:
  assumes "reached env table (m, cg) h" "a \<noteq> 0" "reroute env table a (m, cg) = Some (Inr (v, m', cg'))"
  shows "tlb_lookup table m a = Some v \<and> map_of h a = Some v \<and> m' = m \<and> cg' = cg \<or>
    tlb_lookup table m a = None \<and> translate env a cg = Some (Inr (v, cg')) \<and> tlb_lookup table m' a = Some v"
  using assms by (rule reroute_newest)

theorem branches_arrive_witness:
  "\<exists>m cg v. reached sample_ret_env 0 (m, cg) [(0x401000, v)] \<and>
     reroute sample_ret_env 0 0x401000 (m, cg) = Some (Inr (v, m, cg)) \<and> map_of [(0x401000, v)] 0x401000 = Some v"
proof -
  obtain v m cg where r: "reached sample_ret_env 0 (m, cg) [(0x401000, v)]" "tlb_lookup 0 m 0x401000 = Some v"
    using sample_reached by blast
  then have hit: "reroute sample_ret_env 0 0x401000 (m, cg) = Some (Inr (v, m, cg))"
    by (simp add: reroute_def)
  have "map_of [(0x401000, v)] 0x401000 = Some v"
    using branches_arrive [OF r(1) _ hit] r(2) by simp
  then show ?thesis
    using r(1) hit by blast
qed

text \<open>
C33: The assembly of a branch implements that: with functions of the translator that keep to the calling
convention and leave the context and the lookup table alone, \<^verbatim>\<open>reroute_dynamic\<close> and \<^verbatim>\<open>reroute_static\<close> jump
to the address the table has for the target, and else to the one \<^verbatim>\<open>translate\<close> returns, with all kept
registers of the guest as they were; the dynamic branch leaves the memory of the regions as it was but for
\<open>tlb_insert\<close>, and the static branch calls \<^verbatim>\<open>update_basic_block\<close> with its return address and that target.
\<close>

theorem branch_code_arrives:
  assumes "conforms R logger" "conforms R tr" "conforms R upd" "{(rget s11 s, 0xF8), (rget s9 s, 16 * tlb_size)} \<subseteq> R"
    and "far_apart (rget s11 s) 0xF8 (rget s9 s) (16 * tlb_size)" "a = rget t3 s" "table = rget s9 s"
    and "tlb_lookup table (rv_mem s) a = None \<Longrightarrow> yields tr a v"
    and "target = (case tlb_lookup table (rv_mem s) a of Some x \<Rightarrow> x | None \<Rightarrow> v)"
  shows "\<exists>w m x y w'.
    reroute_dynamic logger fmt tr s = Some w \<and> (\<forall>r\<in>guest_kept. rget r w = rget r s) \<and> rget t3 w = target \<and>
    rv_mem w = (if tlb_lookup table (rv_mem s) a = None then tlb_insert table a v m else m) \<and>
    (\<forall>(p, n)\<in>R. far_apart (rget s11 s) 0xF8 p n \<longrightarrow> same_at p n (rv_mem s) m) \<and>
    reroute_static logger fmt tr upd s = Some w' \<and> (\<forall>r\<in>guest_kept. rget r w' = rget r s) \<and> rget t3 w' = target \<and>
    upd x = Some y \<and> rget a1 x = rget ra s \<and> rget a2 x = target \<and> rv_mem w' = rv_mem y"
proof -
  obtain w m where "reroute_dynamic logger fmt tr s = Some w" "\<forall>r\<in>guest_kept. rget r w = rget r s" "rget t3 w = target"
    "rv_mem w = (if tlb_lookup table (rv_mem s) a = None then tlb_insert table a v m else m)"
    "\<forall>(p, n)\<in>R. far_apart (rget s11 s) 0xF8 p n \<longrightarrow> same_at p n (rv_mem s) m"
    using reroute_dynamic_run [OF assms(1,2,4-8), of fmt] assms(9) by (auto split: option.splits)
  moreover obtain x y w' where "reroute_static logger fmt tr upd s = Some w'" "\<forall>r\<in>guest_kept. rget r w' = rget r s"
    "rget t3 w' = target" "upd x = Some y" "rget a1 x = rget ra s" "rget a2 x = target" "rv_mem w' = rv_mem y"
    using reroute_static_run [OF assms, of fmt] by blast
  ultimately show ?thesis
    by (intro exI [of _ w] exI [of _ m] exI [of _ x] exI [of _ y] exI [of _ w'] conjI)
qed

theorem branch_code_witness:
  "\<exists>w. reroute_dynamic Some 0 (\<lambda>s. Some (rset a0 0x7000 s)) sample_switch = Some w \<and> rget t3 w = 0x7000 \<and>
     (\<forall>r\<in>guest_kept. rget r w = rget r sample_switch)"
  using branch_code_arrives [OF sample_conforms sample_conforms(1) sample_switch_regions refl refl sample_yields refl, of 0]
    sample_switch_miss by (auto simp: sample_switch_registers)

text \<open>
C34: The host gets its registers back. \<^verbatim>\<open>guest_enter\<close> jumps to the translation of the address it is given,
with the registers of the guest's context and an entry of the table for the address; and from every later
state that still has the context in \<open>s11\<close> and the host's part of it in memory, \<^verbatim>\<open>guest_exit\<close> and
\<^verbatim>\<open>fault_exit\<close> end with the host's registers as at the call of \<^verbatim>\<open>guest_enter\<close>, the exit code in \<open>a0\<close>, and at the
address of the third argument zero or the address of the error.
\<close>

theorem host_registers_return:
  assumes "conforms R logger" "conforms R tr" "{(ctx, 0xF8), (ctx + host_offset, 0xF8), (table, 16 * tlb_size)} \<subseteq> R"
    and "ctx = rget a0 s" "kept ctx f (rv_mem s)" "f s11 = ctx" "f s9 = table" "a = rget a1 s"
    and "far_apart ctx 0xF8 table (16 * tlb_size)" "far_apart (ctx + host_offset) 0xF8 table (16 * tlb_size)"
    and "tlb_lookup table (rv_mem s) a = None" "yields tr a v"
  shows "\<exists>w. guest_enter logger fmt here tr s = Some w \<and> (\<forall>r\<in>guest_kept. rget r w = (if r = ra then here else f r)) \<and>
    rget t3 w = v \<and> tlb_lookup table (rv_mem w) a = Some v \<and>
    (\<forall>u. rget s11 u = ctx \<longrightarrow> same_at (ctx + host_offset) 0xF8 (rv_mem w) (rv_mem u) \<longrightarrow>
      (\<exists>z. rv_seqs guest_exit u = Some z \<and> (\<forall>r\<in>guest_kept. rget r z = (if r = a0 then rget a0 u else rget r s)) \<and>
        rv_mem z = mstore 8 (rv_mem u) (rget a2 s) 0) \<and>
      (\<exists>z. rv_seqs guest_fault u = Some z \<and> (\<forall>r\<in>guest_kept. rget r z = (if r = a0 then rget a1 u else rget r s)) \<and>
        rv_mem z = mstore 8 (rv_mem u) (rget a2 s) (rget a0 u)))"
proof -
  obtain w t where w: "guest_enter logger fmt here tr s = Some w" "\<forall>r\<in>guest_kept. rget r w = (if r = ra then here else f r)"
    "rget t3 w = v" "tlb_lookup table (rv_mem w) a = Some v" "rv_seqs enter_code s = Some t"
    "same_at (ctx + host_offset) 0xF8 (rv_mem t) (rv_mem w)"
    using guest_enter_run [OF assms, of fmt here] by blast
  have "(\<exists>z. rv_seqs guest_exit u = Some z \<and> (\<forall>r\<in>guest_kept. rget r z = (if r = a0 then rget a0 u else rget r s)) \<and>
        rv_mem z = mstore 8 (rv_mem u) (rget a2 s) 0) \<and>
      (\<exists>z. rv_seqs guest_fault u = Some z \<and> (\<forall>r\<in>guest_kept. rget r z = (if r = a0 then rget a1 u else rget r s)) \<and>
        rv_mem z = mstore 8 (rv_mem u) (rget a2 s) (rget a0 u))"
    if "rget s11 u = ctx" "same_at (ctx + host_offset) 0xF8 (rv_mem w) (rv_mem u)" for u
    using exit_run [OF w(5), of u] same_at_trans [OF w(6) that(2)] that(1) assms(4) by simp
  then show ?thesis
    using w(1-4) by blast
qed

theorem host_registers_witness:
  "\<exists>w. guest_enter Some 0 0x500 (\<lambda>s. Some (rset a0 0x7000 s)) sample_start = Some w \<and> rget t3 w = 0x7000 \<and>
     rget s9 w = 0x20000 \<and> rget ra w = 0x500 \<and>
     (\<exists>z. rv_seqs guest_exit w = Some z \<and> (\<forall>r\<in>guest_kept. r \<noteq> a0 \<longrightarrow> rget r z = rget r sample_start))"
proof -
  have kept: "{s9, s11, ra} \<subseteq> guest_kept"
    by (simp add: guest_kept_def restore_slots_def)
  obtain w where w: "guest_enter Some 0 0x500 (\<lambda>s. Some (rset a0 0x7000 s)) sample_start = Some w" "rget t3 w = 0x7000"
    "\<forall>r\<in>guest_kept. rget r w = (if r = ra then 0x500 else rget r sample_switch)"
    "\<forall>u. rget s11 u = 0x10000 \<longrightarrow> same_at (0x10000 + host_offset) 0xF8 (rv_mem w) (rv_mem u) \<longrightarrow>
      (\<exists>z. rv_seqs guest_exit u = Some z \<and> (\<forall>r\<in>guest_kept. rget r z = (if r = a0 then rget a0 u else rget r sample_start)))"
    using host_registers_return [OF sample_conforms sample_start_regions(1) sample_start(1) [symmetric] sample_start(3)
        sample_switch_registers(1,2) sample_start(2) [symmetric] sample_start_regions(2,3) sample_start(4) sample_yields, of 0 "0x500"]
    by blast
  then show ?thesis
    using kept sample_switch_registers(1,2) by fastforce
qed

section \<open>The debugger\<close>

text \<open>
C35: A break point is placed where its instruction is: when the address lies in the instruction \<open>k\<close> of a
translated block, at the guest address of that instruction and behind the call of the debugger in its code,
and otherwise at the address itself, without a place in the code. It is refused if and only if there is
one at that place already; the table stays in order, without doubles, and keeps all other break points.
\<close>

theorem break_point_placed:
  assumes "debugger_ok d" "bp_count d < 255" "insert_break_point addr True d = (new, d')"
  shows "\<exists>p. debugger_ok d' \<and> dbg_blocks d' = dbg_blocks d \<and>
    (new \<longleftrightarrow> p \<notin> set (bp_list d)) \<and> set (bp_list d') = insert p (set (bp_list d)) \<and>
    (\<forall>b\<in>set (dbg_blocks d). \<forall>k. in_instruction b k addr \<longrightarrow> p = (guest_at (db_entry b) k, host_at (db_entry b) k + 4)) \<and>
    ((\<forall>b\<in>set (dbg_blocks d). \<not> inside_block addr b) \<longrightarrow> p = (addr, 0))"
proof -
  have ok: "bp_ok d" "blocks_ok (dbg_blocks d)" "current_ok d"
    using assms(1) by (simp_all add: debugger_ok_def)
  show ?thesis
    using insert_break_point_correct [OF ok(1,2) assms(2,3) refl] ok place_inside [OF ok(2)] place_outside [of "dbg_blocks d" addr]
    by (intro exI [of _ "place (dbg_blocks d) addr"]) (simp add: debugger_ok_def place_def)
qed

theorem break_point_placed_witness:
  "\<exists>d'. insert_break_point 0x401004 True sample_debugger = (True, d') \<and> set (bp_list d') = {(0x401003, 0x10010)}"
proof -
  obtain new d' where i: "insert_break_point 0x401004 True sample_debugger = (new, d')"
    by (cases "insert_break_point 0x401004 True sample_debugger")
  have ok: "debugger_ok sample_debugger" "bp_count sample_debugger < 255"
    using sample_settled by (simp_all add: settled_def sample_blocks)
  have "in_instruction (new_entry sample_code) 1 0x401004" "guest_at sample_code 1 = 0x401003" "host_at sample_code 1 + 4 = 0x10010"
    by (simp_all add: in_instruction_def new_entry_def sample_code_def guest_at_def host_at_def Let_def)
  then show ?thesis
    using break_point_placed [OF ok i] i by (auto simp: sample_blocks new_entry_def)
qed

text \<open>
C36: When a block has been translated, the debugger's list of blocks stays in order and the break points are
those of before, moved to their instructions in the new block; of several in one instruction one is left.
\<close>

theorem block_entered:
  assumes "debugger_ok d" "block_ok (new_entry b)" "apart_from (new_entry b) (dbg_blocks d)" "d' = end_block b d"
  shows "debugger_ok d' \<and> set (dbg_blocks d') = insert (new_entry b) (set (dbg_blocks d)) \<and>
    length (dbg_blocks d') = length (dbg_blocks d) + 1 \<and>
    set (bp_list d') = (\<lambda>q. place (dbg_blocks d') (fst q)) ` set (bp_list d)"
  using end_block_correct [OF assms] by simp

theorem block_entered_witness:
  "set (bp_list (end_block sample_code (sample_broken [0x401003, 0x401004]))) = {(0x401003, 0x10010)} \<and>
   bp_count (sample_broken [0x401003, 0x401004]) = 2"
proof -
  let ?d = "sample_broken [0x401003, 0x401004]"
  have "place [new_entry sample_code] 0x401003 = (0x401003, 0x10010)" "place [new_entry sample_code] 0x401004 = (0x401003, 0x10010)"
    by (simp_all add: place_def new_entry_def sample_code_def inside_block_def place_in_block_def)
  moreover have "dbg_blocks (end_block sample_code ?d) = [new_entry sample_code]"
    using block_entered [OF sample_broken(1) sample_code_ok _ refl] sample_broken(2)
    by (cases "dbg_blocks (end_block sample_code ?d)") (auto simp: apart_from_def)
  ultimately show ?thesis
    using block_entered [OF sample_broken(1) sample_code_ok _ refl] sample_broken(2-)
    by (simp add: apart_from_def)
qed

text \<open>
C37: In every state the debugger reaches, through translated blocks, entries from the code and the commands
of its halts but for \<open>run\<close> with an address, its state is consistent: blocks are in order and apart, break
points in order and placed, the current block is one of them, and no temporary break point is pending.
\<close>

theorem debugger_stays_consistent:
  assumes "debugger_reaches se"
  shows "settled (se_debugger se)"
  using reaches_settled [OF assms] by (simp add: settled_session_def)

theorem debugger_stays_consistent_witness: "settled (se_debugger sample_session)"
  by (rule debugger_stays_consistent [OF sample_reaches])



text \<open>
C39: What the debugger prints it reads back: every number that it prints, in hexadecimal or decimal, is an
argument that stands for the same address, negative ones as distances from 0.
\<close>

theorem printed_number_read:
  "\<exists>b. parse_argument (print_number n hex 1 CHR '' '') a = (True, b) \<and> is_place b \<and> place_of 0 b = n"
  by (rule argument_read_back)

text \<open>
C40: With the limits that the commands accept, three lines or more, the assembly shows the current
instruction: its line is one of those that are printed and not one that stands for elided instructions.
\<close>

theorem current_line_shown:
  assumes "3 \<le> limit" "index < tot"
  shows "window_start limit index tot \<le> index \<and> index < window_start limit index tot + limit \<and>
    \<not> elided limit (window_start limit index tot) tot (index - window_start limit index tot)"
  using assms by (rule window_shows)

theorem current_line_shown_witness: "\<not> elided 3 (window_start 3 7 8) 8 (7 - window_start 3 7 8)"
  using current_line_shown [of 3 7 8] by simp

end
